(* ===== verification/Prelude.thy ===== *)
theory Prelude
  imports Complex_Main "HOL-Library.AList" "HOL-Library.Char_ord" "HOL-Library.List_Lexorder"
begin

text \<open>
  The part of the Python semantics that every component uses.

  \<^item> \<open>exc\<close> and \<open>res\<close>: a call returns a value or raises; \<open>rbind\<close> sequences two calls.
  \<^item> \<open>flow\<close>: the body of a function with early \<open>return\<close> statements; \<open>finish\<close> ends it.
  \<^item> \<open>act\<close>: a method of an object with state. A raised exception keeps the mutations that
    were made before it, as in Python, so an action returns the new state in every case.
  \<^item> strings with \<open>strip\<close> and \<open>upper\<close> (ASCII text), dictionaries in insertion order
    (\<open>AList.update\<close> replaces in place or appends, as Python does), and time stamps.

  The collection \<open>py_simps\<close> holds the rules that run a call forward, and \<open>inv_intros\<close> the
  rules that carry a state invariant through an action.
\<close>

named_theorems py_simps "rewrite rules that run Python control flow"
named_theorems inv_intros "introduction rules for invariants of actions"

section \<open>Exceptions and results\<close>

datatype exc =
    ValueError string
  | TypeError string
  | KeyError string
  | RuntimeError string
  | OverflowError string
  | ZeroDivisionError
  | OtherError string

type_synonym 'a res = "exc + 'a"

fun exc_text :: "exc \<Rightarrow> string" where
  "exc_text (ValueError m) = m"
| "exc_text (TypeError m) = m"
| "exc_text (KeyError m) = [CHR 0x27] @ m @ [CHR 0x27]"
| "exc_text (RuntimeError m) = m"
| "exc_text (OverflowError m) = m"
| "exc_text ZeroDivisionError = ''float division by zero''"
| "exc_text (OtherError m) = m"

fun is_value_error :: "exc \<Rightarrow> bool" where
  "is_value_error (ValueError m) = True"
| "is_value_error e = False"

definition rbind :: "'a res \<Rightarrow> ('a \<Rightarrow> 'b res) \<Rightarrow> 'b res" where
  "rbind m f = (case m of Inl e \<Rightarrow> Inl e | Inr x \<Rightarrow> f x)"

lemma rbind_simps [simp, py_simps]:
  "rbind (Inl e) f = Inl e"
  "rbind (Inr x) f = f x"
  by (simp_all add: rbind_def)

lemma rbind_eq_Inr [simp]: "rbind m f = Inr y \<longleftrightarrow> (\<exists>x. m = Inr x \<and> f x = Inr y)"
  by (cases m) auto

lemma rbind_eq_Inl:
  "rbind m f = Inl e \<longleftrightarrow> m = Inl e \<or> (\<exists>x. m = Inr x \<and> f x = Inl e)"
  by (cases m) auto

lemma rbind_cong [fundef_cong]:
  assumes "m = m'" and "\<And>x. m' = Inr x \<Longrightarrow> f x = f' x"
  shows "rbind m f = rbind m' f'"
  using assms by (cases m') auto

text \<open>The call returns a value with the property; it raises an error with the property.\<close>

definition returns :: "('a \<Rightarrow> bool) \<Rightarrow> 'a res \<Rightarrow> bool" where
  "returns P m = (case m of Inl e \<Rightarrow> False | Inr x \<Rightarrow> P x)"

definition raises :: "(exc \<Rightarrow> bool) \<Rightarrow> 'a res \<Rightarrow> bool" where
  "raises P m = (case m of Inl e \<Rightarrow> P e | Inr x \<Rightarrow> False)"

lemma returns_iff: "returns P m \<longleftrightarrow> (\<exists>x. m = Inr x \<and> P x)"
  by (cases m) (simp_all add: returns_def)

lemma raises_iff: "raises P m \<longleftrightarrow> (\<exists>e. m = Inl e \<and> P e)"
  by (cases m) (simp_all add: raises_def)

section \<open>Functions with early returns\<close>

datatype ('r, 'a) flow = Raise exc | Return 'r | Next 'a

primrec fbind :: "('r, 'a) flow \<Rightarrow> ('a \<Rightarrow> ('r, 'b) flow) \<Rightarrow> ('r, 'b) flow" where
  "fbind (Raise e) f = Raise e"
| "fbind (Return r) f = Return r"
| "fbind (Next x) f = f x"

primrec finish :: "('r, 'r) flow \<Rightarrow> 'r res" where
  "finish (Raise e) = Inl e"
| "finish (Return r) = Inr r"
| "finish (Next r) = Inr r"

definition call :: "'a res \<Rightarrow> ('r, 'a) flow" where
  "call m = (case m of Inl e \<Rightarrow> Raise e | Inr x \<Rightarrow> Next x)"

text \<open>\<open>try: m except ValueError as exc: return handler(str(exc))\<close>.\<close>

definition try_value :: "'a res \<Rightarrow> (string \<Rightarrow> 'r) \<Rightarrow> ('r, 'a) flow" where
  "try_value m h = (case m of
      Inl (ValueError msg) \<Rightarrow> Return (h msg)
    | Inl e \<Rightarrow> Raise e
    | Inr x \<Rightarrow> Next x)"

lemma call_simps [simp, py_simps]:
  "call (Inl e) = Raise e" "call (Inr x) = Next x"
  by (simp_all add: call_def)

lemma try_value_simps [simp, py_simps]:
  "try_value (Inr x) h = Next x"
  "try_value (Inl (ValueError msg)) h = Return (h msg)"
  by (simp_all add: try_value_def)

lemma call_eq [simp]:
  "call m = Next x \<longleftrightarrow> m = Inr x"
  "call m = Raise e \<longleftrightarrow> m = Inl e"
  "call m \<noteq> Return r"
  by (cases m; simp)+

lemma try_value_eq_Next [simp]: "try_value m h = Next x \<longleftrightarrow> m = Inr x"
  by (auto simp: try_value_def split: sum.splits exc.splits)

lemma try_value_eq_Return:
  "try_value m h = Return r \<longleftrightarrow> (\<exists>msg. m = Inl (ValueError msg) \<and> r = h msg)"
  by (auto simp: try_value_def split: sum.splits exc.splits)

lemma fbind_eq_Next [simp]: "fbind m f = Next y \<longleftrightarrow> (\<exists>x. m = Next x \<and> f x = Next y)"
  by (cases m) auto

lemma fbind_eq_Return:
  "fbind m f = Return r \<longleftrightarrow> m = Return r \<or> (\<exists>x. m = Next x \<and> f x = Return r)"
  by (cases m) auto

lemma finish_eq_Inr: "finish m = Inr r \<longleftrightarrow> m = Return r \<or> m = Next r"
  by (cases m) auto

section \<open>Methods of stateful objects\<close>

type_synonym ('s, 'a) act = "'s \<Rightarrow> 'a res \<times> 's"

definition aret :: "'a \<Rightarrow> ('s, 'a) act" where
  "aret x = (\<lambda>s. (Inr x, s))"

definition araise :: "exc \<Rightarrow> ('s, 'a) act" where
  "araise e = (\<lambda>s. (Inl e, s))"

definition abind :: "('s, 'a) act \<Rightarrow> ('a \<Rightarrow> ('s, 'b) act) \<Rightarrow> ('s, 'b) act" where
  "abind m f = (\<lambda>s. case m s of (Inl e, s') \<Rightarrow> (Inl e, s') | (Inr x, s') \<Rightarrow> f x s')"

definition aget :: "('s \<Rightarrow> 'a) \<Rightarrow> ('s, 'a) act" where
  "aget g = (\<lambda>s. (Inr (g s), s))"

definition amod :: "('s \<Rightarrow> 's) \<Rightarrow> ('s, unit) act" where
  "amod g = (\<lambda>s. (Inr (), g s))"

definition alift :: "'a res \<Rightarrow> ('s, 'a) act" where
  "alift m = (\<lambda>s. (m, s))"

definition athen :: "('s, 'a) act \<Rightarrow> ('s, 'b) act \<Rightarrow> ('s, 'b) act" where
  "athen m n = abind m (\<lambda>_. n)"

text \<open>\<open>for x in xs: body(x)\<close>\<close>

primrec aforeach :: "'x list \<Rightarrow> ('x \<Rightarrow> ('s, unit) act) \<Rightarrow> ('s, unit) act" where
  "aforeach [] f = aret ()"
| "aforeach (x # xs) f = athen (f x) (aforeach xs f)"

lemma act_run [simp, py_simps]:
  "aret x s = (Inr x, s)"
  "araise e s = (Inl e, s)"
  "aget g s = (Inr (g s), s)"
  "amod h s = (Inr (), h s)"
  "alift m s = (m, s)"
  by (simp_all add: aret_def araise_def aget_def amod_def alift_def)

lemma abind_run [py_simps]:
  "abind m f s = (case m s of (Inl e, s') \<Rightarrow> (Inl e, s') | (Inr x, s') \<Rightarrow> f x s')"
  by (simp add: abind_def)

lemma athen_run [py_simps]:
  "athen m n s = (case m s of (Inl e, s') \<Rightarrow> (Inl e, s') | (Inr x, s') \<Rightarrow> n s')"
  by (simp add: athen_def abind_def)

lemma abind_returns:
  "abind m f s = (Inr y, t) \<longleftrightarrow> (\<exists>x u. m s = (Inr x, u) \<and> f x u = (Inr y, t))"
  "athen m n s = (Inr y, t) \<longleftrightarrow> (\<exists>x u. m s = (Inr x, u) \<and> n u = (Inr y, t))"
  by (auto simp: athen_def abind_def split: prod.splits sum.splits)

lemma abind_aret [simp]: "abind (aret x) f = f x"
  by (simp add: abind_def aret_def)

lemma abind_assoc: "abind (abind m f) g = abind m (\<lambda>x. abind (f x) g)"
  by (auto simp: abind_def fun_eq_iff split: prod.splits sum.splits)

text \<open>\<open>try: x = m except Exception as e: h(e) else: f(x)\<close>\<close>

definition atry :: "('s, 'a) act \<Rightarrow> (exc \<Rightarrow> ('s, 'b) act) \<Rightarrow> ('a \<Rightarrow> ('s, 'b) act) \<Rightarrow> ('s, 'b) act" where
  "atry m h f = (\<lambda>s. case m s of (Inl e, s') \<Rightarrow> h e s' | (Inr x, s') \<Rightarrow> f x s')"

lemma atry_run [py_simps]:
  "atry m h f s = (case m s of (Inl e, s') \<Rightarrow> h e s' | (Inr x, s') \<Rightarrow> f x s')"
  by (simp add: atry_def)

text \<open>A method of a part of the state.\<close>

definition apart :: "('s \<Rightarrow> 'p) \<Rightarrow> ('p \<Rightarrow> 's \<Rightarrow> 's) \<Rightarrow> ('p, 'a) act \<Rightarrow> ('s, 'a) act" where
  "apart get put m = (\<lambda>s. case m (get s) of (r, p) \<Rightarrow> (r, put p s))"

lemma apart_run [py_simps]: "apart get put m s = (case m (get s) of (r, p) \<Rightarrow> (r, put p s))"
  by (simp add: apart_def)

text \<open>
  \<open>keeps I m\<close>: running \<open>m\<close> keeps \<open>I\<close>, whether it returns or raises.
  \<open>moves R m\<close>: the states before and after \<open>m\<close> are related by \<open>R\<close>.
\<close>

definition keeps :: "('s \<Rightarrow> bool) \<Rightarrow> ('s, 'a) act \<Rightarrow> bool" where
  "keeps I m \<longleftrightarrow> (\<forall>s. I s \<longrightarrow> I (snd (m s)))"

definition moves :: "('s \<Rightarrow> 's \<Rightarrow> bool) \<Rightarrow> ('s, 'a) act \<Rightarrow> bool" where
  "moves R m \<longleftrightarrow> (\<forall>s. R s (snd (m s)))"

lemma keepsI: "(\<And>s. I s \<Longrightarrow> I (snd (m s))) \<Longrightarrow> keeps I m"
  by (simp add: keeps_def)

lemma keepsD: "keeps I m \<Longrightarrow> I s \<Longrightarrow> I (snd (m s))"
  by (simp add: keeps_def)

lemma keeps_pure [inv_intros, intro]:
  "keeps I (aret x)" "keeps I (araise e)" "keeps I (aget g)" "keeps I (alift m)"
  by (simp_all add: keeps_def)

lemma keeps_abind [inv_intros]:
  assumes "keeps I m" and "\<And>x. keeps I (f x)"
  shows "keeps I (abind m f)"
  using assms by (fastforce simp: keeps_def abind_def split: prod.splits sum.splits)

text \<open>The same with what the first action returned from a state of the invariant.\<close>

lemma keeps_abind_result:
  assumes "keeps I m" and "\<And>x s t. I s \<Longrightarrow> m s = (Inr x, t) \<Longrightarrow> keeps I (f x)"
  shows "keeps I (abind m f)"
proof (rule keepsI)
  fix s
  assume "I s"
  then show "I (snd (abind m f s))"
    using assms keepsD [OF assms(1)] by (cases "m s"; cases "fst (m s)") (fastforce simp: abind_def keeps_def)+
qed

lemma keeps_aget_result:
  "(\<And>s. I s \<Longrightarrow> keeps I (f (g s))) \<Longrightarrow> keeps I (abind (aget g) f)"
  by (rule keeps_abind_result) (auto intro: keeps_pure)

lemma keeps_alift_result:
  "(\<And>x. m = Inr x \<Longrightarrow> keeps I (f x)) \<Longrightarrow> keeps I (abind (alift m) f)"
  by (rule keeps_abind_result) (auto intro: keeps_pure)

lemma keeps_athen [inv_intros]: "keeps I m \<Longrightarrow> keeps I n \<Longrightarrow> keeps I (athen m n)"
  unfolding athen_def by (rule keeps_abind)

lemma keeps_atry [inv_intros]:
  assumes "keeps I m" and "\<And>e. keeps I (h e)" and "\<And>x. keeps I (f x)"
  shows "keeps I (atry m h f)"
  using assms by (fastforce simp: keeps_def atry_def split: prod.splits sum.splits)

lemma keeps_atry_result:
  assumes "keeps I m" and "\<And>e. keeps I (h e)"
    and "\<And>x s t. I s \<Longrightarrow> m s = (Inr x, t) \<Longrightarrow> keeps I (f x)"
  shows "keeps I (atry m h f)"
proof (rule keepsI)
  fix s
  assume "I s"
  then show "I (snd (atry m h f s))"
    using assms keepsD [OF assms(1)] by (cases "m s"; cases "fst (m s)") (fastforce simp: atry_def keeps_def)+
qed

lemma keeps_if [inv_intros]: "keeps I m \<Longrightarrow> keeps I n \<Longrightarrow> keeps I (if b then m else n)"
  by simp

lemma keeps_amod [inv_intros]: "(\<And>s. I s \<Longrightarrow> I (g s)) \<Longrightarrow> keeps I (amod g)"
  by (simp add: keeps_def)

lemma keeps_foreach [inv_intros]: "(\<And>x. keeps I (f x)) \<Longrightarrow> keeps I (aforeach xs f)"
  by (induction xs) (simp_all add: keeps_pure keeps_athen)

lemma movesD: "moves R m \<Longrightarrow> R s (snd (m s))"
  by (simp add: moves_def)

lemma moves_pure:
  assumes "\<And>s. R s s"
  shows "moves R (aret x)" "moves R (araise e)" "moves R (aget g)" "moves R (alift m)"
  using assms by (simp_all add: moves_def)

lemma moves_abind:
  assumes "\<And>a b c. R a b \<Longrightarrow> R b c \<Longrightarrow> R a c"
    and "moves R m" and "\<And>x. moves R (f x)"
  shows "moves R (abind m f)"
  unfolding moves_def
proof
  fix s
  have first: "R s (snd (m s))" using assms(2) by (rule movesD)
  have second: "R t (snd (f x t))" for x t using assms(3) by (rule movesD)
  show "R s (snd (abind m f s))"
    using first assms(1) second
    by (cases "m s"; cases "fst (m s)") (auto simp: abind_def)
qed

lemma moves_athen:
  assumes "\<And>a b c. R a b \<Longrightarrow> R b c \<Longrightarrow> R a c" and "moves R m" and "moves R n"
  shows "moves R (athen m n)"
  unfolding athen_def using assms by (rule moves_abind)

lemma moves_atry:
  assumes "\<And>a b c. R a b \<Longrightarrow> R b c \<Longrightarrow> R a c"
    and "moves R m" and "\<And>e. moves R (h e)" and "\<And>x. moves R (f x)"
  shows "moves R (atry m h f)"
  unfolding moves_def
proof
  fix s
  have first: "R s (snd (m s))" using assms(2) by (rule movesD)
  have "R t (snd (h e t))" "R t (snd (f x t))" for e x t using assms(3,4) by (auto dest: movesD)
  then show "R s (snd (atry m h f s))"
    using first assms(1) by (cases "m s"; cases "fst (m s)") (auto simp: atry_def)
qed

lemma moves_foreach:
  assumes "\<And>s. R s s" and "\<And>a b c. R a b \<Longrightarrow> R b c \<Longrightarrow> R a c" and "\<And>x. moves R (f x)"
  shows "moves R (aforeach xs f)"
proof (induction xs)
  case Nil
  show ?case unfolding aforeach.simps using assms(1) by (rule moves_pure)
next
  case (Cons x xs)
  show ?case unfolding aforeach.simps using assms(2,3) Cons by (rule moves_athen)
qed

section \<open>Strings\<close>

text \<open>
  Identifiers and symbols are ASCII text. \<open>str.strip()\<close> removes the ASCII white space
  (tab to carriage return, the four separators, space) at both ends, \<open>str.upper()\<close> maps
  the lower-case letters.
\<close>

definition is_space :: "char \<Rightarrow> bool" where
  "is_space c = (let n = (of_char c :: nat) in (9 \<le> n \<and> n \<le> 13) \<or> (28 \<le> n \<and> n \<le> 32))"

definition strip :: "string \<Rightarrow> string" where
  "strip s = rev (dropWhile is_space (rev (dropWhile is_space s)))"

definition upper_char :: "char \<Rightarrow> char" where
  "upper_char c = (let n = (of_char c :: nat) in if 97 \<le> n \<and> n \<le> 122 then char_of (n - 32) else c)"

definition lower_char :: "char \<Rightarrow> char" where
  "lower_char c = (let n = (of_char c :: nat) in if 65 \<le> n \<and> n \<le> 90 then char_of (n + 32) else c)"

definition upper :: "string \<Rightarrow> string" where
  "upper s = map upper_char s"

definition lower :: "string \<Rightarrow> string" where
  "lower s = map lower_char s"

definition blank :: "string \<Rightarrow> bool" where
  "blank s = (strip s = [])"

text \<open>\<open>needle in haystack\<close>\<close>

fun contains :: "string \<Rightarrow> string \<Rightarrow> bool" where
  "contains p [] = (p = [])"
| "contains p (c # cs) = (take (length p) (c # cs) = p \<or> contains p cs)"

lemma upper_char_idem [simp]: "upper_char (upper_char c) = upper_char c"
  by (auto simp: upper_char_def Let_def)

lemma upper_upper [simp]: "upper (upper s) = upper s"
  by (simp add: upper_def)

lemma is_space_upper [simp]: "is_space (upper_char c) = is_space c"
  by (auto simp: is_space_def upper_char_def Let_def)

lemma dropWhile_idem_space:
  "dropWhile p (rev (dropWhile p (rev (dropWhile p xs)))) = rev (dropWhile p (rev (dropWhile p xs)))"
proof (cases "dropWhile p xs")
  case Nil
  then show ?thesis by (simp only: rev.simps dropWhile.simps)
next
  case (Cons y ys)
  then have y: "\<not> p y" by (metis dropWhile_eq_Cons_conv)
  have "dropWhile p (rev ys @ [y]) = dropWhile p (rev ys) @ [y]"
    by (induction ys rule: rev_induct) (use y in \<open>auto simp: dropWhile_append\<close>)
  with Cons y show ?thesis by simp
qed

lemma strip_strip [simp]: "strip (strip s) = strip s"
proof -
  have "dropWhile is_space (strip s) = strip s"
    unfolding strip_def by (rule dropWhile_idem_space)
  then have "strip (strip s) = rev (dropWhile is_space (rev (strip s)))"
    by (simp only: strip_def)
  also have "\<dots> = strip s"
    unfolding strip_def by (simp add: dropWhile_idem_space)
  finally show ?thesis .
qed

lemma dropWhile_space_upper:
  "dropWhile is_space (map upper_char s) = map upper_char (dropWhile is_space s)"
  by (induction s) auto

lemma strip_upper: "strip (upper s) = upper (strip s)"
  by (simp add: strip_def upper_def dropWhile_space_upper rev_map)

lemma blank_strip [simp]: "blank (strip s) = blank s"
  by (simp add: blank_def)

lemma blank_upper [simp]: "blank (upper s) = blank s"
  by (simp add: blank_def strip_upper) (simp add: upper_def)

lemma strip_nonempty: "\<not> blank s \<Longrightarrow> s \<noteq> []"
  by (auto simp: blank_def strip_def)

abbreviation symbol_of :: "string \<Rightarrow> string" where
  "symbol_of s \<equiv> upper (strip s)"

lemma symbol_of_idem [simp]: "symbol_of (symbol_of s) = symbol_of s"
  by (simp add: strip_upper)

lemma blank_symbol_of [simp]: "blank (symbol_of s) = blank s"
  by simp

text \<open>\<open>str(n)\<close> of an integer.\<close>

fun nat_text :: "nat \<Rightarrow> string" where
  "nat_text n = (if n < 10 then [char_of (48 + n)] else nat_text (n div 10) @ [char_of (48 + n mod 10)])"

declare nat_text.simps [simp del]

definition int_text :: "int \<Rightarrow> string" where
  "int_text k = (if k < 0 then CHR ''-'' # nat_text (nat (- k)) else nat_text (nat k))"

section \<open>Dictionaries\<close>

text \<open>
  A dictionary is its list of items in insertion order. Assignment replaces the value in
  place or appends the item, and \<open>pop\<close> removes it.
\<close>

type_synonym ('k, 'v) dict = "('k \<times> 'v) list"

abbreviation dict_get :: "('k, 'v) dict \<Rightarrow> 'k \<Rightarrow> 'v option" where
  "dict_get d k \<equiv> map_of d k"

abbreviation dict_set :: "'k \<Rightarrow> 'v \<Rightarrow> ('k, 'v) dict \<Rightarrow> ('k, 'v) dict" where
  "dict_set \<equiv> AList.update"

abbreviation dict_pop :: "'k \<Rightarrow> ('k, 'v) dict \<Rightarrow> ('k, 'v) dict" where
  "dict_pop \<equiv> AList.delete"

abbreviation dict_keys :: "('k, 'v) dict \<Rightarrow> 'k list" where
  "dict_keys d \<equiv> map fst d"

abbreviation dict_values :: "('k, 'v) dict \<Rightarrow> 'v list" where
  "dict_values d \<equiv> map snd d"

definition dict_of_list :: "('k \<times> 'v) list \<Rightarrow> ('k, 'v) dict" where
  "dict_of_list xs = fold (\<lambda>(k, v). dict_set k v) xs []"

abbreviation dict_ok :: "('k, 'v) dict \<Rightarrow> bool" where
  "dict_ok d \<equiv> distinct (dict_keys d)"

lemma dict_get_set [simp]:
  "dict_get (dict_set k v d) k' = (if k' = k then Some v else dict_get d k')"
  by (simp add: update_conv')

lemma dict_get_pop [simp]:
  "dict_get (dict_pop k d) k' = (if k' = k then None else dict_get d k')"
  by (simp add: delete_conv')

lemma dict_ok_set [simp, intro]: "dict_ok d \<Longrightarrow> dict_ok (dict_set k v d)"
  by (simp add: distinct_update)

lemma dict_ok_pop [simp, intro]: "dict_ok d \<Longrightarrow> dict_ok (dict_pop k d)"
  by (simp add: distinct_delete)

lemma dict_ok_of_list: "dict_ok (dict_of_list xs)"
proof -
  have "dict_ok d \<Longrightarrow> dict_ok (fold (\<lambda>(k, v). dict_set k v) xs d)" for d
    by (induction xs arbitrary: d) auto
  then show ?thesis by (simp add: dict_of_list_def)
qed

lemma dict_values_get:
  "dict_ok d \<Longrightarrow> v \<in> set (dict_values d) \<longleftrightarrow> (\<exists>k. dict_get d k = Some v)"
  by (force simp: image_iff)

section \<open>Time stamps\<close>

text \<open>
  \<open>pd.Timestamp\<close>: nanoseconds (of UTC where the stamp has a zone, of the wall clock
  otherwise) and the zone's offset from UTC in nanoseconds. \<open>None\<close> is a naive stamp, which
  is what every constructor of the code refuses.
\<close>

record pytime =
  ns :: int
  zone :: "int option"

definition aware :: "pytime \<Rightarrow> bool" where
  "aware t = (zone t \<noteq> None)"

text \<open>\<open>==\<close> compares instants; a naive and an aware stamp are never equal.\<close>

definition time_eq :: "pytime \<Rightarrow> pytime \<Rightarrow> bool" where
  "time_eq a b = (aware a = aware b \<and> ns a = ns b)"

text \<open>\<open><\<close> raises on a naive and an aware stamp.\<close>

definition time_less :: "pytime \<Rightarrow> pytime \<Rightarrow> bool res" where
  "time_less a b = (if aware a = aware b then Inr (ns a < ns b)
     else Inl (TypeError ''Cannot compare tz-naive and tz-aware timestamps''))"

definition wall_ns :: "pytime \<Rightarrow> int" where
  "wall_ns t = (case zone t of None \<Rightarrow> ns t | Some off \<Rightarrow> ns t + off)"

definition time_hour :: "pytime \<Rightarrow> int" where
  "time_hour t = (wall_ns t div 3600000000000) mod 24"

definition time_minute :: "pytime \<Rightarrow> int" where
  "time_minute t = (wall_ns t div 60000000000) mod 60"

lemma time_less_aware [simp]: "aware a \<Longrightarrow> aware b \<Longrightarrow> time_less a b = Inr (ns a < ns b)"
  by (simp add: time_less_def)

lemma time_hour_bounds: "0 \<le> time_hour t \<and> time_hour t < 24"
  by (simp add: time_hour_def)

lemma time_minute_bounds: "0 \<le> time_minute t \<and> time_minute t < 60"
  by (simp add: time_minute_def)

end
