(* ===== verification/PyFloat.thy ===== *)
theory PyFloat
  imports Prelude "HOL-Library.Log_Nat"
begin

text \<open>
  Python's \<open>float\<close>: IEEE 754 binary64 with rounding to nearest, ties to even.

  A value is a finite number, an infinity or a NaN. The two zeros are one value here: they
  are equal in every comparison, and no operation the program uses tells them apart.
  \<open>rnd\<close> rounds an exact rational result: \<open>ilog2\<close> finds the binade, \<open>rne\<close> rounds the scaled
  significand to an integer, and a magnitude of \<open>2 ^ 1024\<close> or more overflows. Every
  operation is executable, so closed instances evaluate with \<open>code_simp\<close>.

  The locale \<open>rounding\<close> states the laws of a rounding the other theories rely on (monotone,
  exact on its own results, odd, exact on small integers); \<open>rnd\<close> interprets it as \<open>double\<close>.
\<close>

datatype pyfloat = Fin rat | PInf | NInf | NaN

section \<open>Comparisons\<close>

text \<open>\<open>fless a b\<close> is \<open>a < b\<close>, \<open>fle a b\<close> is \<open>a <= b\<close>, \<open>feq a b\<close> is \<open>a == b\<close>: all false on a NaN.\<close>

fun fless :: "pyfloat \<Rightarrow> pyfloat \<Rightarrow> bool" where
  "fless (Fin a) (Fin b) = (a < b)"
| "fless NaN b = False"
| "fless a NaN = False"
| "fless NInf NInf = False"
| "fless NInf b = True"
| "fless PInf b = False"
| "fless a PInf = True"
| "fless a NInf = False"

fun feq :: "pyfloat \<Rightarrow> pyfloat \<Rightarrow> bool" where
  "feq (Fin a) (Fin b) = (a = b)"
| "feq PInf PInf = True"
| "feq NInf NInf = True"
| "feq a b = False"

definition fle :: "pyfloat \<Rightarrow> pyfloat \<Rightarrow> bool" where
  "fle a b = (fless a b \<or> feq a b)"

fun isfinite :: "pyfloat \<Rightarrow> bool" where
  "isfinite (Fin a) = True"
| "isfinite x = False"

fun isnan :: "pyfloat \<Rightarrow> bool" where
  "isnan NaN = True"
| "isnan x = False"

abbreviation fpos :: "pyfloat \<Rightarrow> bool" where
  "fpos x \<equiv> fless (Fin 0) x"

abbreviation nonpos :: "pyfloat \<Rightarrow> bool" where
  "nonpos x \<equiv> fle x (Fin 0)"

abbreviation fneg_lt :: "pyfloat \<Rightarrow> bool" where
  "fneg_lt x \<equiv> fless x (Fin 0)"

text \<open>The built-in \<open>max(a, b)\<close> and \<open>min(a, b)\<close> keep the first argument unless the second wins.\<close>

definition fmax :: "pyfloat \<Rightarrow> pyfloat \<Rightarrow> pyfloat" where
  "fmax a b = (if fless a b then b else a)"

definition fmin :: "pyfloat \<Rightarrow> pyfloat \<Rightarrow> pyfloat" where
  "fmin a b = (if fless b a then b else a)"

lemma fle_Fin [simp]: "fle (Fin a) (Fin b) = (a \<le> b)"
  by (auto simp: fle_def)

lemma isfinite_iff: "isfinite x \<longleftrightarrow> (\<exists>a. x = Fin a)"
  by (cases x) auto

lemma fle_simps [simp]:
  "fle NaN x = False" "fle x NaN = False" "fle (Fin a) PInf = True" "fle NInf (Fin a) = True"
  "fle PInf (Fin a) = False" "fle (Fin a) NInf = False" "fle NInf PInf = True"
  "fle PInf NInf = False" "fle PInf PInf = True" "fle NInf NInf = True"
  by (cases x; simp add: fle_def)+

lemma fle_refl: "\<not> isnan x \<Longrightarrow> fle x x"
  by (cases x) auto

lemma fle_trans: "fle a b \<Longrightarrow> fle b c \<Longrightarrow> fle a c"
  by (cases a; cases b; cases c) auto

lemma fless_trans: "fless a b \<Longrightarrow> fless b c \<Longrightarrow> fless a c"
  by (cases a; cases b; cases c) auto

lemma fless_le_trans: "fless a b \<Longrightarrow> fle b c \<Longrightarrow> fless a c"
  by (cases a; cases b; cases c) auto

lemma fle_less_trans: "fle a b \<Longrightarrow> fless b c \<Longrightarrow> fless a c"
  by (cases a; cases b; cases c) auto

lemma fless_imp_fle: "fless a b \<Longrightarrow> fle a b"
  by (simp add: fle_def)

lemma fless_irrefl [simp]: "\<not> fless a a"
  by (cases a) auto

lemma not_fle: "\<not> isnan a \<Longrightarrow> \<not> isnan b \<Longrightarrow> (\<not> fle a b) = fless b a"
  by (cases a; cases b) auto

lemma not_fless: "\<not> isnan a \<Longrightarrow> \<not> isnan b \<Longrightarrow> (\<not> fless a b) = fle b a"
  by (cases a; cases b) auto

lemma fless_not_nan: "fless a b \<Longrightarrow> \<not> isnan a \<and> \<not> isnan b"
  by (cases a; cases b) auto

lemma isfinite_not_nan: "isfinite a \<Longrightarrow> \<not> isnan a"
  by (cases a) auto

lemma fpos_cases: "fpos x \<longleftrightarrow> x = PInf \<or> (\<exists>a. x = Fin a \<and> 0 < a)"
  by (cases x) auto

lemma finite_pos_iff: "isfinite x \<and> fpos x \<longleftrightarrow> (\<exists>a. x = Fin a \<and> 0 < a)"
  by (cases x) auto

lemma finite_nonpos: "isfinite x \<Longrightarrow> \<not> nonpos x \<Longrightarrow> fpos x"
  by (cases x) auto

lemma fmin_cases: "fmin a b = a \<or> fmin a b = b"
  by (simp add: fmin_def)

lemma fmin_le: "\<not> isnan a \<Longrightarrow> \<not> isnan b \<Longrightarrow> fle (fmin a b) a \<and> fle (fmin a b) b"
  by (cases a; cases b) (auto simp: fmin_def)

lemma fmax_ge: "\<not> isnan a \<Longrightarrow> \<not> isnan b \<Longrightarrow> fle a (fmax a b) \<and> fle b (fmax a b)"
  by (cases a; cases b) (auto simp: fmax_def)

section \<open>Rounding\<close>

text \<open>\<open>\<lfloor>log\<^sub>2 x\<rfloor>\<close> of a positive rational.\<close>

definition ilog2 :: "rat \<Rightarrow> int" where
  "ilog2 x = (case quotient_of x of (p, q) \<Rightarrow>
     let k = bitlen p - bitlen q in if 2 powi k \<le> x then k else k - 1)"

text \<open>Round to the nearest integer, ties to even.\<close>

definition rne :: "rat \<Rightarrow> int" where
  "rne x = (let f = \<lfloor>x\<rfloor>; r = x - of_int f in
     if r < 1/2 then f else if 1/2 < r then f + 1 else if even f then f else f + 1)"

text \<open>The exponent of the last place: 53 significant bits, not below the subnormals.\<close>

definition last_place :: "rat \<Rightarrow> int" where
  "last_place x = max (ilog2 \<bar>x\<bar> - 52) (- 1074)"

definition rnd0 :: "rat \<Rightarrow> rat" where
  "rnd0 x = (if x = 0 then 0
     else of_int (rne (x / 2 powi last_place x)) * 2 powi last_place x)"

definition rnd :: "rat \<Rightarrow> pyfloat" where
  "rnd x = (let y = rnd0 x in
     if y \<noteq> 0 \<and> 1024 \<le> ilog2 \<bar>y\<bar> then (if 0 < y then PInf else NInf) else Fin y)"

subsection \<open>The binade of a number\<close>

lemma powi_pos: "0 < (2::rat) powi k"
  by simp

lemma powi_mono: "i \<le> j \<Longrightarrow> (2::rat) powi i \<le> 2 powi j"
  by (rule power_int_increasing) auto

lemma powi_less_iff: "(2::rat) powi i < 2 powi j \<longleftrightarrow> i < j"
  by (meson linorder_not_less one_less_numeral_iff power_int_strict_increasing powi_mono semiring_norm(76))

lemma powi_add: "(2::rat) powi (i + j) = 2 powi i * 2 powi j"
  by (simp add: power_int_add)

lemma bitlen_powi:
  assumes "0 < n"
  shows "(2::rat) powi (bitlen n - 1) \<le> of_int n" and "of_int n < (2::rat) powi bitlen n"
proof -
  have b: "2 ^ nat (bitlen n - 1) \<le> n" "n < 2 ^ nat (bitlen n)"
    using bitlen_bounds [OF assms] by auto
  have pos: "0 < bitlen n"
    using b(2) assms by (cases "bitlen n \<le> 0") (auto simp: not_le)
  have "of_int (2 ^ nat (bitlen n - 1)) \<le> (of_int n :: rat)"
    using b(1) by (simp only: of_int_le_iff)
  then show "(2::rat) powi (bitlen n - 1) \<le> of_int n"
    using pos by (simp add: power_int_def)
  have "(of_int n :: rat) < of_int (2 ^ nat (bitlen n))"
    using b(2) by (simp only: of_int_less_iff)
  then show "of_int n < (2::rat) powi bitlen n"
    using pos by (simp add: power_int_def)
qed

lemma ilog2_bounds:
  assumes "0 < x"
  shows "2 powi ilog2 x \<le> x" and "x < 2 powi (ilog2 x + 1)"
proof -
  obtain p q where pq: "quotient_of x = (p, q)" by (cases "quotient_of x")
  have q: "0 < q" using quotient_of_denom_pos [OF pq] .
  have x: "x = of_int p / of_int q" using quotient_of_div [OF pq] .
  have p: "0 < p" using assms x q by (simp add: zero_less_divide_iff)
  let ?k = "bitlen p - bitlen q"
  have "(2::rat) powi (?k + 1) = 2 powi (bitlen p - (bitlen q - 1))"
    by (simp add: algebra_simps)
  also have "\<dots> = 2 powi bitlen p / 2 powi (bitlen q - 1)"
    by (rule power_int_diff) simp
  also have "of_int p / of_int q < \<dots>"
    using bitlen_powi [OF p] bitlen_powi [OF q] p q by (intro frac_less) auto
  finally have upper: "x < 2 powi (?k + 1)" by (simp add: x)
  have "(2::rat) powi (?k - 1) = 2 powi (bitlen p - 1 - bitlen q)"
    by (simp add: algebra_simps)
  also have "\<dots> = 2 powi (bitlen p - 1) / 2 powi bitlen q"
    by (rule power_int_diff) simp
  also have "\<dots> \<le> of_int p / of_int q"
    using bitlen_powi [OF p] bitlen_powi [OF q] p q by (intro frac_le) auto
  finally have lower: "2 powi (?k - 1) \<le> x" by (simp add: x)
  show "2 powi ilog2 x \<le> x" "x < 2 powi (ilog2 x + 1)"
    using upper lower by (auto simp: ilog2_def pq Let_def not_le)
qed

lemma ilog2_eqI:
  assumes "2 powi k \<le> x" "x < 2 powi (k + 1)"
  shows "ilog2 x = k"
proof -
  have "0 < x" using assms(1) powi_pos [of k] by linarith
  note b = ilog2_bounds [OF this]
  have "(2::rat) powi k < 2 powi (ilog2 x + 1)" "(2::rat) powi ilog2 x < 2 powi (k + 1)"
    using assms b by linarith+
  then show ?thesis by (simp add: powi_less_iff)
qed

lemma ilog2_mono: "0 < x \<Longrightarrow> x \<le> y \<Longrightarrow> ilog2 x \<le> ilog2 y"
  using ilog2_bounds [of x] ilog2_bounds [of y] powi_less_iff [of "ilog2 x" "ilog2 y + 1"] by linarith

lemma ilog2_ge_iff: "0 < x \<Longrightarrow> k \<le> ilog2 x \<longleftrightarrow> 2 powi k \<le> x"
  using ilog2_bounds [of x] powi_mono [of k "ilog2 x"] powi_less_iff [of k "ilog2 x + 1"] by linarith

subsection \<open>Rounding to an integer\<close>

lemma rne_of_int [simp]: "rne (of_int n) = n"
  by (simp add: rne_def)

lemma rne_near: "\<bar>of_int (rne x) - x\<bar> \<le> 1/2"
  unfolding rne_def Let_def by (auto simp: abs_if) linarith+

lemma rne_cases: "rne x = \<lfloor>x\<rfloor> \<or> rne x = \<lfloor>x\<rfloor> + 1"
  by (auto simp: rne_def Let_def)

lemma rne_mono:
  assumes "x \<le> y"
  shows "rne x \<le> rne y"
proof (cases "\<lfloor>x\<rfloor> = \<lfloor>y\<rfloor>")
  case True
  with assms show ?thesis by (auto simp: rne_def Let_def)
next
  case False
  with floor_mono [OF assms] have "\<lfloor>x\<rfloor> + 1 \<le> \<lfloor>y\<rfloor>" by linarith
  then show ?thesis using rne_cases [of x] rne_cases [of y] by linarith
qed

lemma rne_minus: "rne (- x) = - rne x"
proof (cases "x = of_int \<lfloor>x\<rfloor>")
  case True
  then have "- x = of_int (- \<lfloor>x\<rfloor>)" by simp
  with True show ?thesis by (metis rne_of_int)
next
  case False
  then have f: "\<lfloor>- x\<rfloor> = - \<lfloor>x\<rfloor> - 1"
    by (simp add: floor_minus ceiling_altdef)
  show ?thesis unfolding rne_def f Let_def by auto
qed

lemma rne_ge_int: "of_int n \<le> x \<Longrightarrow> n \<le> rne x"
  using rne_mono [of "of_int n" x] by simp

lemma rne_le_int: "x \<le> of_int n \<Longrightarrow> rne x \<le> n"
  using rne_mono [of x "of_int n"] by simp

subsection \<open>Rounding to 53 bits\<close>

lemma rnd0_zero [simp]: "rnd0 0 = 0"
  by (simp add: rnd0_def)

lemma last_place_minus [simp]: "last_place (- x) = last_place x"
  by (simp add: last_place_def)

lemma rnd0_minus: "rnd0 (- x) = - rnd0 x"
  by (simp add: rnd0_def rne_minus)

lemma rnd0_nonneg: "0 \<le> x \<Longrightarrow> 0 \<le> rnd0 x"
  using rne_ge_int [of 0] by (auto simp: rnd0_def)

text \<open>A positive result keeps to its binade: a power of two at or above the last place bounds it.\<close>

lemma powi_over: "i \<le> j \<Longrightarrow> (2::rat) powi j / 2 powi i = of_int (2 ^ nat (j - i))"
  by (subst power_int_diff [symmetric]) (auto simp: power_int_def)

lemma rnd0_le_powi:
  assumes "0 < x" "x \<le> 2 powi k" "last_place x \<le> k"
  shows "rnd0 x \<le> 2 powi k"
proof -
  let ?e = "last_place x"
  have "x / 2 powi ?e \<le> 2 powi k / 2 powi ?e"
    using assms(2) by (simp add: divide_right_mono)
  then have "x / 2 powi ?e \<le> of_int (2 ^ nat (k - ?e))"
    using assms(3) by (simp only: powi_over)
  then have "(of_int (rne (x / 2 powi ?e)) :: rat) \<le> of_int (2 ^ nat (k - ?e))"
    by (simp only: of_int_le_iff rne_le_int)
  also have "\<dots> = 2 powi k / 2 powi ?e" using assms(3) by (simp only: powi_over)
  finally have "of_int (rne (x / 2 powi ?e)) \<le> (2 powi k / 2 powi ?e :: rat)" .
  then show ?thesis using assms(1) by (simp add: rnd0_def pos_le_divide_eq)
qed

lemma powi_le_rnd0:
  assumes "2 powi k \<le> x" "last_place x \<le> k"
  shows "2 powi k \<le> rnd0 x"
proof -
  let ?e = "last_place x"
  have pos: "0 < x" using assms(1) powi_pos [of k] by linarith
  have "2 powi k / 2 powi ?e \<le> x / 2 powi ?e"
    using assms(1) by (simp add: divide_right_mono)
  then have "of_int (2 ^ nat (k - ?e)) \<le> x / 2 powi ?e"
    using assms(2) by (simp only: powi_over)
  then have "(of_int (2 ^ nat (k - ?e)) :: rat) \<le> of_int (rne (x / 2 powi ?e))"
    by (simp only: of_int_le_iff rne_ge_int)
  then have "(2 powi k / 2 powi ?e :: rat) \<le> of_int (rne (x / 2 powi ?e))"
    using assms(2) by (simp only: powi_over)
  then show ?thesis using pos by (simp add: rnd0_def pos_divide_le_eq)
qed

lemma last_place_mono: "0 < x \<Longrightarrow> x \<le> y \<Longrightarrow> last_place x \<le> last_place y"
  using ilog2_mono [of x y] by (auto simp: last_place_def)

lemma rnd0_mono_pos:
  assumes "0 < x" "x \<le> y"
  shows "rnd0 x \<le> rnd0 y"
proof (cases "last_place x = last_place y")
  case True
  have "x / 2 powi last_place y \<le> y / 2 powi last_place y"
    using assms(2) by (simp add: divide_right_mono)
  with True assms show ?thesis
    by (simp add: rnd0_def rne_mono mult_right_mono)
next
  case False
  with last_place_mono [OF assms] have less: "last_place x < last_place y" by simp
  then have y: "last_place y = ilog2 y - 52" and x: "ilog2 x < ilog2 y"
    using assms by (auto simp: last_place_def max_def split: if_splits)
  have "x \<le> 2 powi ilog2 y"
    using ilog2_bounds(2) [OF assms(1)] powi_mono [of "ilog2 x + 1" "ilog2 y"] x by linarith
  then have "rnd0 x \<le> 2 powi ilog2 y"
    using assms(1) less y by (intro rnd0_le_powi) auto
  also have "\<dots> \<le> rnd0 y"
    using assms y ilog2_bounds(1) [of y] by (intro powi_le_rnd0) auto
  finally show ?thesis .
qed

lemma rnd0_mono:
  assumes "x \<le> y"
  shows "rnd0 x \<le> rnd0 y"
proof -
  consider "0 < x" | "x \<le> 0" "0 \<le> y" | "y < 0" by linarith
  then show ?thesis
  proof cases
    case 1
    with assms show ?thesis by (simp add: rnd0_mono_pos)
  next
    case 2
    then show ?thesis using rnd0_nonneg [of y] rnd0_nonneg [of "- x"] by (simp add: rnd0_minus)
  next
    case 3
    then show ?thesis using rnd0_mono_pos [of "- y" "- x"] assms by (simp add: rnd0_minus)
  qed
qed

text \<open>Every multiple of a power of two with a significand of 53 bits is its own rounding.\<close>

lemma rnd0_exact:
  assumes "x = of_int m * 2 powi e" "\<bar>m\<bar> \<le> 2 ^ 53" "- 1074 \<le> e"
  shows "rnd0 x = x"
proof (cases "x = 0")
  case False
  let ?l = "last_place x"
  have ax: "\<bar>x\<bar> = of_int \<bar>m\<bar> * 2 powi e" using assms(1) by (simp add: abs_mult)
  have "(of_int \<bar>m\<bar> :: rat) \<le> of_int (2 ^ 53)" using assms(2) by (simp only: of_int_le_iff)
  then have "\<bar>x\<bar> \<le> 2 powi 53 * 2 powi e" unfolding ax by (intro mult_right_mono) (auto simp: power_int_def)
  then have up: "\<bar>x\<bar> \<le> 2 powi (53 + e)" by (simp add: powi_add)
  have pos: "0 < \<bar>x\<bar>" using False by simp
  have "2 powi ilog2 \<bar>x\<bar> \<le> (2::rat) powi (53 + e)" using ilog2_bounds(1) [OF pos] up by linarith
  then have le: "ilog2 \<bar>x\<bar> \<le> 53 + e" using powi_less_iff [of "53 + e" "ilog2 \<bar>x\<bar>"] by linarith
  have "\<exists>k. x / 2 powi ?l = of_int k"
  proof (cases "?l \<le> e")
    case True
    have "x / 2 powi ?l = of_int m * (2 powi e / 2 powi ?l)" using assms(1) by simp
    also have "\<dots> = of_int (m * 2 ^ nat (e - ?l))" using True by (simp only: powi_over of_int_mult)
    finally show ?thesis by blast
  next
    case False
    with le assms(3) have l: "?l = e + 1" and i: "ilog2 \<bar>x\<bar> = 53 + e"
      by (auto simp: last_place_def max_def split: if_splits)
    have "\<bar>x\<bar> = 2 powi (53 + e)" using ilog2_bounds(1) [OF pos] up i by simp
    then have "\<bar>x / 2 powi ?l\<bar> = 2 powi (53 + e) / 2 powi (e + 1)" by (simp add: l abs_divide)
    also have "\<dots> = of_int (2 ^ 52)" by (subst powi_over) auto
    finally have "x / 2 powi ?l = of_int (2 ^ 52) \<or> x / 2 powi ?l = of_int (- (2 ^ 52))"
      by (auto simp: abs_if split: if_splits)
    then show ?thesis by blast
  qed
  then obtain k where k: "x / 2 powi ?l = of_int k" by blast
  then have "x = of_int k * 2 powi ?l" by (simp add: field_simps)
  with False k show ?thesis by (simp add: rnd0_def)
qed simp

lemma rnd0_form: "\<exists>m e. rnd0 x = of_int m * 2 powi e \<and> \<bar>m\<bar> \<le> 2 ^ 53 \<and> - 1074 \<le> e"
proof (cases "x = 0")
  case True
  then show ?thesis by (intro exI [of _ 0]) auto
next
  case False
  let ?l = "last_place x"
  have pos: "0 < \<bar>x\<bar>" using False by simp
  have "\<bar>x\<bar> < 2 powi (ilog2 \<bar>x\<bar> + 1)" by (rule ilog2_bounds(2) [OF pos])
  also have "\<dots> \<le> 2 powi (?l + 53)" by (rule powi_mono) (simp add: last_place_def)
  finally have "\<bar>x\<bar> / 2 powi ?l \<le> 2 powi (?l + 53) / 2 powi ?l" by (simp add: divide_right_mono)
  then have t: "\<bar>x / 2 powi ?l\<bar> \<le> of_int (2 ^ 53)" by (simp only: powi_over abs_divide) simp
  have "rne (x / 2 powi ?l) \<le> 2 ^ 53"
    by (rule rne_le_int) (rule abs_le_D1 [OF t])
  moreover have "- (2 ^ 53) \<le> rne (x / 2 powi ?l)"
    using abs_le_D2 [OF t] by (intro rne_ge_int) (simp only: of_int_minus minus_le_iff)
  ultimately have "\<bar>rne (x / 2 powi ?l)\<bar> \<le> 2 ^ 53" by linarith
  moreover have "- 1074 \<le> ?l" by (simp add: last_place_def)
  ultimately show ?thesis using False by (auto simp: rnd0_def)
qed

lemma rnd0_idem [simp]: "rnd0 (rnd0 x) = rnd0 x"
  using rnd0_form [of x] rnd0_exact by metis

text \<open>Overflow, as a bound on the rounded value.\<close>

lemma rnd_eq:
  "rnd x = (if 2 powi 1024 \<le> rnd0 x then PInf else if rnd0 x \<le> - (2 powi 1024) then NInf
     else Fin (rnd0 x))"
proof (cases "rnd0 x = 0")
  case True
  then show ?thesis using powi_pos [of 1024] by (simp add: rnd_def not_le)
next
  case False
  then have "1024 \<le> ilog2 \<bar>rnd0 x\<bar> \<longleftrightarrow> 2 powi 1024 \<le> \<bar>rnd0 x\<bar>" by (simp add: ilog2_ge_iff)
  with False show ?thesis using powi_pos [of 1024] unfolding rnd_def Let_def by auto
qed

lemma rnd_not_nan [simp]: "\<not> isnan (rnd x)" "rnd x \<noteq> NaN"
  by (simp_all add: rnd_eq)

lemma rnd_FinD: "rnd x = Fin y \<Longrightarrow> y = rnd0 x"
  by (simp add: rnd_eq split: if_splits)

lemma rnd_zero [simp]: "rnd 0 = Fin 0"
  using powi_pos [of 1024] by (simp add: rnd_eq not_le)

lemma rnd_mono: "x \<le> y \<Longrightarrow> fle (rnd x) (rnd y)"
  using rnd0_mono [of x y] powi_pos [of 1024] by (auto simp: rnd_eq not_le)

definition is_double :: "rat \<Rightarrow> bool" where
  "is_double x = (rnd x = Fin x)"

lemma rnd_double: "rnd x = Fin y \<Longrightarrow> is_double y"
  unfolding is_double_def by (frule rnd_FinD) (simp add: rnd_eq split: if_splits)

lemma is_double_zero [simp]: "is_double 0"
  by (simp add: is_double_def)

lemma is_doubleI:
  assumes "x = of_int m * 2 powi e" "\<bar>m\<bar> \<le> 2 ^ 53" "- 1074 \<le> e" "e \<le> 970"
  shows "is_double x"
proof -
  have "\<bar>x\<bar> = of_int \<bar>m\<bar> * 2 powi e" using assms(1) by (simp add: abs_mult)
  also have "\<dots> \<le> of_int (2 ^ 53) * 2 powi e"
    using assms(2) by (intro mult_right_mono) (simp_all only: of_int_le_iff powi_pos less_imp_le)
  also have "\<dots> = 2 powi (53 + e)" by (simp add: powi_add)
  also have "\<dots> < 2 powi 1024" using assms(4) by (simp only: powi_less_iff)
  finally have "\<bar>x\<bar> < 2 powi 1024" .
  then show ?thesis
    using rnd0_exact [OF assms(1-3)] unfolding is_double_def rnd_eq by (auto simp: not_le abs_less_iff)
qed

lemma is_double_int: "\<bar>n\<bar> \<le> 2 ^ 53 \<Longrightarrow> is_double (of_int n)"
  by (rule is_doubleI [of _ n 0]) simp_all

lemma rnd_int: "\<bar>n\<bar> \<le> 2 ^ 53 \<Longrightarrow> rnd (of_int n) = Fin (of_int n)"
  using is_double_int unfolding is_double_def .

lemma rnd_uminus: "rnd (- x) = Fin y \<longleftrightarrow> rnd x = Fin (- y)"
  using powi_pos [of 1024] by (auto simp: rnd_eq rnd0_minus not_le)

section \<open>The laws of a rounding\<close>

locale rounding =
  fixes r :: "rat \<Rightarrow> pyfloat"
  assumes r_mono: "x \<le> y \<Longrightarrow> fle (r x) (r y)"
    and r_zero: "r 0 = Fin 0"
    and r_idem: "r x = Fin y \<Longrightarrow> r y = Fin y"
    and r_minus: "r (- x) = Fin y \<longleftrightarrow> r x = Fin (- y)"
    and r_number: "r x \<noteq> NaN"
begin

lemma nonneg: "0 \<le> x \<Longrightarrow> fle (Fin 0) (r x)"
  using r_mono [of 0 x] by (simp add: r_zero)

lemma nonpos: "x \<le> 0 \<Longrightarrow> fle (r x) (Fin 0)"
  using r_mono [of x 0] by (simp add: r_zero)

lemma finite_nonneg: "0 \<le> x \<Longrightarrow> r x = Fin y \<Longrightarrow> 0 \<le> y"
  using nonneg [of x] by simp

lemma finite_below: "x \<le> 0 \<Longrightarrow> r x = Fin y \<Longrightarrow> y \<le> 0"
  using nonpos [of x] by simp

text \<open>Rounding never crosses a representable bound.\<close>

lemma upper_bound: "r b = Fin b \<Longrightarrow> x \<le> b \<Longrightarrow> fle (r x) (Fin b)"
  using r_mono [of x b] by simp

lemma lower_bound: "r b = Fin b \<Longrightarrow> b \<le> x \<Longrightarrow> fle (Fin b) (r x)"
  using r_mono [of b x] by simp

lemma finite_upper: "r b = Fin b \<Longrightarrow> x \<le> b \<Longrightarrow> r x = Fin y \<Longrightarrow> y \<le> b"
  using upper_bound [of b x] by simp

lemma finite_lower: "r b = Fin b \<Longrightarrow> b \<le> x \<Longrightarrow> r x = Fin y \<Longrightarrow> b \<le> y"
  using lower_bound [of b x] by simp

lemma between_finite:
  assumes "r a = Fin a" "r b = Fin b" "a \<le> x" "x \<le> b"
  obtains y where "r x = Fin y" "a \<le> y" "y \<le> b"
  using lower_bound [OF assms(1,3)] upper_bound [OF assms(2,4)] by (cases "r x") auto

end

interpretation double: rounding rnd
proof unfold_locales
  fix x y :: rat
  show "x \<le> y \<Longrightarrow> fle (rnd x) (rnd y)" by (rule rnd_mono)
  show "rnd 0 = Fin 0" by simp
  show "rnd x = Fin y \<Longrightarrow> rnd y = Fin y" using rnd_double by (simp add: is_double_def)
  show "rnd (- x) = Fin y \<longleftrightarrow> rnd x = Fin (- y)" by (rule rnd_uminus)
  show "rnd x \<noteq> NaN" by simp
qed

section \<open>Arithmetic\<close>

fun fneg :: "pyfloat \<Rightarrow> pyfloat" where
  "fneg (Fin a) = Fin (- a)"
| "fneg PInf = NInf"
| "fneg NInf = PInf"
| "fneg NaN = NaN"

fun fabs :: "pyfloat \<Rightarrow> pyfloat" where
  "fabs (Fin a) = Fin \<bar>a\<bar>"
| "fabs NaN = NaN"
| "fabs x = PInf"

fun fadd :: "pyfloat \<Rightarrow> pyfloat \<Rightarrow> pyfloat" where
  "fadd (Fin a) (Fin b) = rnd (a + b)"
| "fadd NaN b = NaN"
| "fadd a NaN = NaN"
| "fadd PInf NInf = NaN"
| "fadd NInf PInf = NaN"
| "fadd PInf b = PInf"
| "fadd a PInf = PInf"
| "fadd NInf b = NInf"
| "fadd a NInf = NInf"

definition fsub :: "pyfloat \<Rightarrow> pyfloat \<Rightarrow> pyfloat" where
  "fsub a b = fadd a (fneg b)"

fun fsign :: "pyfloat \<Rightarrow> rat" where
  "fsign (Fin a) = sgn a"
| "fsign PInf = 1"
| "fsign NInf = - 1"
| "fsign NaN = 0"

definition signed_inf :: "rat \<Rightarrow> pyfloat" where
  "signed_inf s = (if 0 < s then PInf else if s < 0 then NInf else NaN)"

definition fmul :: "pyfloat \<Rightarrow> pyfloat \<Rightarrow> pyfloat" where
  "fmul a b = (case (a, b) of (Fin x, Fin y) \<Rightarrow> rnd (x * y) | _ \<Rightarrow> signed_inf (fsign a * fsign b))"

text \<open>\<open>a / b\<close>: Python raises on a zero divisor, a NaN dividend included.\<close>

definition fdiv :: "pyfloat \<Rightarrow> pyfloat \<Rightarrow> pyfloat res" where
  "fdiv a b = (if feq b (Fin 0) then Inl ZeroDivisionError
     else Inr (case (a, b) of
         (Fin x, Fin y) \<Rightarrow> rnd (x / y)
       | (Fin x, PInf) \<Rightarrow> Fin 0
       | (Fin x, NInf) \<Rightarrow> Fin 0
       | (PInf, Fin y) \<Rightarrow> signed_inf (sgn y)
       | (NInf, Fin y) \<Rightarrow> signed_inf (- sgn y)
       | _ \<Rightarrow> NaN))"

text \<open>\<open>sum(values)\<close>: Python 3.11 adds from the left, starting at zero.\<close>

definition fsum :: "pyfloat list \<Rightarrow> pyfloat" where
  "fsum xs = foldl fadd (Fin 0) xs"

text \<open>\<open>math.floor\<close> and \<open>int()\<close>, which raise outside the finite numbers, and \<open>float(n)\<close>.\<close>

fun ffloor :: "pyfloat \<Rightarrow> int res" where
  "ffloor (Fin a) = Inr \<lfloor>a\<rfloor>"
| "ffloor NaN = Inl (ValueError ''cannot convert float NaN to integer'')"
| "ffloor x = Inl (OverflowError ''cannot convert float infinity to integer'')"

fun ftrunc :: "pyfloat \<Rightarrow> int res" where
  "ftrunc (Fin a) = Inr (if 0 \<le> a then \<lfloor>a\<rfloor> else \<lceil>a\<rceil>)"
| "ftrunc NaN = Inl (ValueError ''cannot convert float NaN to integer'')"
| "ftrunc x = Inl (OverflowError ''cannot convert float infinity to integer'')"

definition float_of_int :: "int \<Rightarrow> pyfloat res" where
  "float_of_int n = (let x = rnd (of_int n) in
     if isfinite x then Inr x else Inl (OverflowError ''int too large to convert to float''))"

text \<open>A decimal literal of the source: the double nearest to it.\<close>

abbreviation lit :: "rat \<Rightarrow> pyfloat" where
  "lit \<equiv> rnd"

subsection \<open>Signs and bounds of results\<close>

abbreviation nonneg :: "pyfloat \<Rightarrow> bool" where
  "nonneg x \<equiv> fle (Fin 0) x"

lemma nonneg_cases: "nonneg x \<longleftrightarrow> x = PInf \<or> (\<exists>a. x = Fin a \<and> 0 \<le> a)"
  by (cases x) auto

lemma nonneg_rnd: "0 \<le> x \<Longrightarrow> nonneg (rnd x)"
  by (rule double.nonneg)

lemma fadd_nonneg: "nonneg a \<Longrightarrow> nonneg b \<Longrightarrow> nonneg (fadd a b)"
  by (cases a; cases b) (auto intro: nonneg_rnd)

lemma fmul_nonneg: "nonneg a \<Longrightarrow> nonneg b \<Longrightarrow> isfinite a \<Longrightarrow> isfinite b \<Longrightarrow> nonneg (fmul a b)"
  by (cases a; cases b) (auto simp: fmul_def intro: nonneg_rnd)

lemma fmul_pos_nonneg: "fpos a \<Longrightarrow> fpos b \<Longrightarrow> nonneg (fmul a b)"
  by (cases a; cases b) (auto simp: fmul_def signed_inf_def intro: nonneg_rnd)

lemma fabs_nonneg: "\<not> isnan a \<Longrightarrow> nonneg (fabs a)"
  by (cases a) auto

lemma fdiv_total: "fpos b \<Longrightarrow> \<exists>x. fdiv a b = Inr x"
  by (cases b) (auto simp: fdiv_def)

lemma fdiv_nonneg: "nonneg a \<Longrightarrow> isfinite a \<Longrightarrow> fpos b \<Longrightarrow> fdiv a b = Inr x \<Longrightarrow> nonneg x"
  by (cases a; cases b) (auto simp: fdiv_def intro: nonneg_rnd)

lemma fdiv_not_nan: "isfinite a \<Longrightarrow> fdiv a b = Inr x \<Longrightarrow> isfinite b \<Longrightarrow> \<not> isnan x"
  by (cases a; cases b) (auto simp: fdiv_def split: if_splits)

lemma fsub_nonneg: "fle b a \<Longrightarrow> isfinite a \<Longrightarrow> isfinite b \<Longrightarrow> nonneg (fsub a b)"
  by (cases a; cases b) (auto simp: fsub_def intro: nonneg_rnd)

lemma fsub_Fin [simp]: "fsub (Fin a) (Fin b) = rnd (a - b)"
  by (simp add: fsub_def)

lemma fmul_Fin [simp]: "fmul (Fin a) (Fin b) = rnd (a * b)"
  by (simp add: fmul_def)

lemma fdiv_Fin: "b \<noteq> 0 \<Longrightarrow> fdiv (Fin a) (Fin b) = Inr (rnd (a / b))"
  by (simp add: fdiv_def)

lemma fle_top: "\<not> isnan x \<Longrightarrow> fle x PInf"
  by (cases x) auto

lemma fle_bot: "\<not> isnan x \<Longrightarrow> fle NInf x"
  by (cases x) auto

lemma feq_finite: "isfinite a \<Longrightarrow> feq a b = (a = b)"
  by (cases a; cases b) auto

lemma isfinite_fneg [simp]: "isfinite (fneg x) = isfinite x"
  by (cases x) auto

lemma fadd_not_nan: "\<not> isnan a \<Longrightarrow> isfinite b \<Longrightarrow> \<not> isnan (fadd a b)"
  by (cases a; cases b) auto

lemma fadd_comm: "fadd a b = fadd b a"
  by (cases a; cases b) (simp_all add: add.commute)

lemma fadd_mono: "fle a b \<Longrightarrow> isfinite c \<Longrightarrow> fle (fadd a c) (fadd b c)"
  by (cases a; cases b; cases c) (auto intro: rnd_mono fle_top fle_bot)

text \<open>
  Doubles are multiples of the least subnormal, so the difference of two different doubles
  never rounds to zero (gradual underflow).
\<close>

lemma is_double_form: "is_double a \<Longrightarrow> \<exists>n. a = of_int n * 2 powi (- 1074)"
proof -
  assume "is_double a"
  then have "rnd0 a = a" unfolding is_double_def by (metis rnd_FinD)
  then obtain m e where f: "a = of_int m * 2 powi e" "- 1074 \<le> e" using rnd0_form [of a] by auto
  have "2 powi e = (2::rat) powi (e + 1074) * 2 powi (- 1074)"
    by (subst powi_add [symmetric]) simp
  also have "2 powi (e + 1074) = (of_int (2 ^ nat (e + 1074)) :: rat)"
    using f(2) by (simp add: power_int_def)
  finally have "a = of_int (m * 2 ^ nat (e + 1074)) * 2 powi (- 1074)" using f(1) by simp
  then show ?thesis by blast
qed

lemma double_diff_pos:
  assumes "is_double a" "is_double b" "b < a"
  shows "fpos (rnd (a - b))"
proof -
  obtain m n where m: "a = of_int m * 2 powi (- 1074)" and n: "b = of_int n * 2 powi (- 1074)"
    using is_double_form assms(1,2) by blast
  have "n < m" using assms(3) unfolding m n by simp
  then have "(1::rat) \<le> of_int (m - n)" by simp
  then have "1 * 2 powi (- 1074) \<le> (of_int (m - n) :: rat) * 2 powi (- 1074)"
    by (intro mult_right_mono) auto
  then have "2 powi (- 1074) \<le> a - b" by (simp add: m n algebra_simps)
  moreover have "is_double (2 powi (- 1074))" by (rule is_doubleI [of _ 1 "- 1074"]) auto
  ultimately have "fle (Fin (2 powi (- 1074))) (rnd (a - b))"
    by (intro double.lower_bound) (auto simp: is_double_def)
  then show ?thesis by (rule fless_le_trans [rotated]) simp
qed

text \<open>A double below \<open>2 ^ 53\<close> minus a smaller whole number is exact.\<close>

lemma double_minus_int:
  assumes "is_double a" "0 \<le> k" "of_int k \<le> a" "a \<le> 2 ^ 53"
  shows "is_double (a - of_int k)"
proof -
  have "rnd0 a = a" using assms(1) unfolding is_double_def by (metis rnd_FinD)
  then obtain m e where f: "a = of_int m * 2 powi e" "\<bar>m\<bar> \<le> 2 ^ 53" "- 1074 \<le> e"
    using rnd0_form [of a] by auto
  show ?thesis
  proof (cases "e \<le> 0")
    case True
    have k: "(of_int k :: rat) = of_int (k * 2 ^ nat (- e)) * 2 powi e"
      using True by (cases "e = 0") (simp_all add: power_int_def field_simps)
    then have eq: "a - of_int k = of_int (m - k * 2 ^ nat (- e)) * 2 powi e"
      using f(1) by (simp add: algebra_simps)
    have "0 \<le> (of_int (m - k * 2 ^ nat (- e)) :: rat) * 2 powi e" using assms(3) eq by simp
    then have "0 \<le> m - k * 2 ^ nat (- e)"
      using powi_pos [of e] by (simp add: zero_le_mult_iff del: of_int_diff)
    moreover have "m - k * 2 ^ nat (- e) \<le> m" using assms(2) by simp
    ultimately have "\<bar>m - k * 2 ^ nat (- e)\<bar> \<le> 2 ^ 53" using f(2) by linarith
    then show ?thesis using eq f(3) True by (intro is_doubleI [of _ "m - k * 2 ^ nat (- e)" e]) auto
  next
    case False
    then have a: "a = of_int (m * 2 ^ nat e)" using f(1) by (simp add: power_int_def)
    have "a - of_int k = of_int (m * 2 ^ nat e - k)" using a by simp
    moreover have "\<bar>m * 2 ^ nat e - k\<bar> \<le> 2 ^ 53"
    proof -
      have "(of_int (m * 2 ^ nat e - k) :: rat) \<le> of_int (2 ^ 53)" "(0::rat) \<le> of_int (m * 2 ^ nat e - k)"
        using a assms(2-4) by simp_all
      then show ?thesis by (simp only: of_int_le_iff of_int_0_le_iff abs_of_nonneg)
    qed
    ultimately show ?thesis by (simp only: is_double_int)
  qed
qed

text \<open>A value that is a double, an infinity or a NaN: what every operation returns.\<close>

fun py_value :: "pyfloat \<Rightarrow> bool" where
  "py_value (Fin a) = is_double a"
| "py_value x = True"

lemma py_value_rnd [simp, intro]: "py_value (rnd x)"
  by (cases "rnd x") (auto intro: rnd_double)

end
