(* ===== verification/FloatEval.thy ===== *)
theory FloatEval
  imports PyFloat
begin

text \<open>
  Code equations that make rounding cheap to evaluate in the kernel: a binary \<open>gcd\<close> (rational
  results have a power of two as denominator), the bit length on the binary numerals, and
  \<open>rnd\<close> in integer arithmetic (\<open>round_parts\<close> gives the significand and the exponent). Each is
  proved equal to the definition it replaces.
\<close>

section \<open>Greatest common divisors\<close>

declare gcd_code_int [code del]

lemma gcd_int_binary [code]:
  "gcd (0::int) k = \<bar>k\<bar>"
  "gcd k (0::int) = \<bar>k\<bar>"
  "gcd (Int.Neg m) k = gcd (Int.Pos m) k"
  "gcd (Int.Pos m) (Int.Neg n) = gcd (Int.Pos m) (Int.Pos n)"
  "gcd (Int.Pos num.One) (Int.Pos n) = 1"
  "gcd (Int.Pos m) (Int.Pos num.One) = 1"
  "gcd (Int.Pos (num.Bit0 m)) (Int.Pos (num.Bit0 n)) = Int.dup (gcd (Int.Pos m) (Int.Pos n))"
  "gcd (Int.Pos (num.Bit0 m)) (Int.Pos (num.Bit1 n)) = gcd (Int.Pos m) (Int.Pos (num.Bit1 n))"
  "gcd (Int.Pos (num.Bit1 m)) (Int.Pos (num.Bit0 n)) = gcd (Int.Pos (num.Bit1 m)) (Int.Pos n)"
  "gcd (Int.Pos (num.Bit1 m)) (Int.Pos (num.Bit1 n)) =
     (if m = n then Int.Pos (num.Bit1 m)
      else if m < n then gcd (Int.Pos (num.Bit1 m)) (Num.sub n m)
      else gcd (Num.sub m n) (Int.Pos (num.Bit1 n)))"
proof -
  have odd_dup: "gcd (2 * a) b = gcd a b" if "odd b" for a b :: int
    using that by (metis coprime_commute coprime_left_2_iff_odd gcd_mult_left_left_cancel)
  have dup: "(numeral (num.Bit0 m) :: int) = 2 * numeral m" for m by simp
  have odd1: "odd (numeral (num.Bit1 m) :: int)" for m by simp
  show "gcd (0::int) k = \<bar>k\<bar>" by (rule gcd_0_left_int)
  show "gcd k (0::int) = \<bar>k\<bar>" by (rule gcd_0_int)
  show "gcd (Int.Neg m) k = gcd (Int.Pos m) k"
    unfolding Int.Pos_def Int.Neg_def by (rule gcd_neg1_int)
  show "gcd (Int.Pos m) (Int.Neg n) = gcd (Int.Pos m) (Int.Pos n)"
    unfolding Int.Pos_def Int.Neg_def by (rule gcd_neg2_int)
  show "gcd (Int.Pos num.One) (Int.Pos n) = 1" "gcd (Int.Pos m) (Int.Pos num.One) = 1"
    by (metis Int.Pos_def coprime_1_left coprime_1_right coprime_iff_gcd_eq_1 numeral_One)+
  show "gcd (Int.Pos (num.Bit0 m)) (Int.Pos (num.Bit0 n)) = Int.dup (gcd (Int.Pos m) (Int.Pos n))"
  proof -
    have "gcd (2 * a) (2 * b) = Int.dup (gcd a b)" for a b :: int
      using gcd_mult_distrib_int [of 2 a b] by (simp add: Int.dup_def)
    then show ?thesis unfolding Int.Pos_def dup [of m] dup [of n] .
  qed
  show "gcd (Int.Pos (num.Bit0 m)) (Int.Pos (num.Bit1 n)) = gcd (Int.Pos m) (Int.Pos (num.Bit1 n))"
    unfolding Int.Pos_def dup [of m] by (rule odd_dup [OF odd1])
  show "gcd (Int.Pos (num.Bit1 m)) (Int.Pos (num.Bit0 n)) = gcd (Int.Pos (num.Bit1 m)) (Int.Pos n)"
    unfolding Int.Pos_def dup [of n] gcd.commute [of "numeral (num.Bit1 m)"] by (rule odd_dup [OF odd1])
  have "a + a + 1 - (b + b + 1) = 2 * (a - b)" for a b :: int by simp
  then have diff: "(numeral (num.Bit1 n) :: int) - numeral (num.Bit1 m) = 2 * Num.sub n m" for m n
    unfolding neg_numeral_class.sub_def numeral_Bit1 .
  have step: "gcd (numeral (num.Bit1 m)) (Num.sub n m) = gcd (numeral (num.Bit1 m)) (numeral (num.Bit1 n) :: int)" for m n
    by (metis diff gcd.commute gcd_diff1 odd1 odd_dup)
  show "gcd (Int.Pos (num.Bit1 m)) (Int.Pos (num.Bit1 n)) =
     (if m = n then Int.Pos (num.Bit1 m)
      else if m < n then gcd (Int.Pos (num.Bit1 m)) (Num.sub n m)
      else gcd (Num.sub m n) (Int.Pos (num.Bit1 n)))"
    using step [of m n] step [of n m] by (simp only: Int.Pos_def gcd.commute) (auto simp: gcd.commute)
qed


section \<open>Shifts and bit lengths\<close>

fun shl :: "nat \<Rightarrow> int \<Rightarrow> int" where
  "shl 0 k = k"
| "shl (Suc n) k = Int.dup (shl n k)"

lemma shl_eq: "shl n k = k * 2 ^ n"
  by (induction n) (simp_all add: Int.dup_def)

fun numlen :: "num \<Rightarrow> int" where
  "numlen num.One = 1"
| "numlen (num.Bit0 n) = numlen n + 1"
| "numlen (num.Bit1 n) = numlen n + 1"

lemma bitlen_numlen: "bitlen (numeral n) = numlen n"
proof (induction n)
  case One
  then show ?case using compute_bitlen [of 1] by (simp add: bitlen_def floorlog_def)
next
  case (Bit0 n)
  have "(numeral (num.Bit0 n) :: int) div 2 = numeral n" by simp
  then show ?case using compute_bitlen [of "numeral (num.Bit0 n)"] Bit0 by simp
next
  case (Bit1 n)
  have "(numeral (num.Bit1 n) :: int) div 2 = numeral n" by simp
  then show ?case using compute_bitlen [of "numeral (num.Bit1 n)"] Bit1 by simp
qed

declare compute_bitlen [code del]

lemma bitlen_binary [code]:
  "bitlen 0 = 0" "bitlen (Int.Pos n) = numlen n" "bitlen (Int.Neg n) = 0"
  using bitlen_numlen by (simp_all add: bitlen_def floorlog_def)

section \<open>Rounding\<close>

definition rne_div :: "int \<Rightarrow> int \<Rightarrow> int" where
  "rne_div p q = (let f = p div q; r = 2 * (p - f * q) in
     if r < q then f else if q < r then f + 1 else if even f then f else f + 1)"

lemma rne_div: "0 < q \<Longrightarrow> rne (of_int p / of_int q) = rne_div p q"
proof -
  assume q: "0 < q"
  let ?f = "p div q"
  have f: "\<lfloor>of_int p / of_int q :: rat\<rfloor> = ?f" by (rule floor_divide_of_int_eq)
  have r: "(of_int p / of_int q :: rat) - of_int ?f = of_int (2 * (p - ?f * q)) / (2 * of_int q)"
    using q by (simp add: field_simps)
  have half: "of_int a / (2 * of_int q) < (1/2 :: rat) \<longleftrightarrow> a < q"
      "(1/2 :: rat) < of_int a / (2 * of_int q) \<longleftrightarrow> q < a" for a
    using q by (simp_all add: divide_less_eq less_divide_eq)
  show ?thesis by (simp only: rne_def rne_div_def Let_def f r half)
qed

definition ilog_frac :: "int \<Rightarrow> int \<Rightarrow> int" where
  "ilog_frac p q = (let k = bitlen p - bitlen q in
     if (if 0 \<le> k then shl (nat k) q \<le> p else q \<le> shl (nat (- k)) p) then k else k - 1)"

lemma powi_nat: "(2::rat) powi k = (if 0 \<le> k then 2 ^ nat k else 1 / 2 ^ nat (- k))"
  by (simp add: power_int_def power_one_over)

lemma ilog_frac:
  assumes "quotient_of x = (p, q)"
  shows "ilog2 x = ilog_frac p q"
proof -
  have q: "0 < q" using quotient_of_denom_pos [OF assms] .
  have x: "x = of_int p / of_int q" using quotient_of_div [OF assms] .
  have "2 powi k \<le> x \<longleftrightarrow> (if 0 \<le> k then shl (nat k) q \<le> p else q \<le> shl (nat (- k)) p)" for k
  proof (cases "0 \<le> k")
    case True
    have "2 powi k \<le> x \<longleftrightarrow> of_int (q * 2 ^ nat k) \<le> (of_int p :: rat)"
      using q True by (simp add: x powi_nat le_divide_eq mult.commute)
    then show ?thesis unfolding of_int_le_iff using True by (simp add: shl_eq)
  next
    case False
    have "2 powi k \<le> x \<longleftrightarrow> of_int q \<le> (of_int (p * 2 ^ nat (- k)) :: rat)"
      using q False by (simp add: x powi_nat field_simps)
    then show ?thesis unfolding of_int_le_iff using False by (simp add: shl_eq)
  qed
  then show ?thesis by (simp only: ilog2_def assms prod.case ilog_frac_def Let_def)
qed

text \<open>The significand and the exponent of the rounded quotient.\<close>

definition round_parts :: "int \<Rightarrow> int \<Rightarrow> int \<times> int" where
  "round_parts p q = (let e = max (ilog_frac \<bar>p\<bar> q - 52) (- 1074) in
     (if 0 \<le> e then rne_div p (shl (nat e) q) else rne_div (shl (nat (- e)) p) q, e))"

lemma round_parts:
  assumes "quotient_of x = (p, q)" "x \<noteq> 0"
  shows "round_parts p q = (rne (x / 2 powi last_place x), last_place x)"
proof -
  have q: "0 < q" using quotient_of_denom_pos [OF assms(1)] .
  have x: "x = of_int p / of_int q" using quotient_of_div [OF assms(1)] .
  have "quotient_of \<bar>x\<bar> = (\<bar>p\<bar>, q)" using assms(1) by (simp add: rat_abs_code)
  then have e: "last_place x = max (ilog_frac \<bar>p\<bar> q - 52) (- 1074)"
    by (simp add: last_place_def ilog_frac)
  have "rne (x / 2 powi e) = (if 0 \<le> e then rne_div p (shl (nat e) q) else rne_div (shl (nat (- e)) p) q)" for e
  proof (cases "0 \<le> e")
    case True
    have "x / 2 powi e = of_int p / of_int (shl (nat e) q)"
      using True by (simp add: x powi_nat shl_eq)
    then show ?thesis using True q rne_div [of "shl (nat e) q" p] by (simp add: shl_eq)
  next
    case False
    have "x / 2 powi e = of_int (shl (nat (- e)) p) / of_int q"
      using False by (simp add: x powi_nat shl_eq)
    then show ?thesis using False q rne_div [of q "shl (nat (- e)) p"] by simp
  qed
  then show ?thesis by (simp add: round_parts_def Let_def e)
qed

lemma ilog2_scaled: "m \<noteq> 0 \<Longrightarrow> ilog2 \<bar>of_int m * 2 powi e\<bar> = bitlen \<bar>m\<bar> - 1 + e"
proof (rule ilog2_eqI)
  assume m: "m \<noteq> 0"
  have abs: "\<bar>of_int m * 2 powi e :: rat\<bar> = of_int \<bar>m\<bar> * 2 powi e" by (simp add: abs_mult)
  show "2 powi (bitlen \<bar>m\<bar> - 1 + e) \<le> \<bar>of_int m * 2 powi e :: rat\<bar>"
    unfolding abs powi_add using bitlen_powi(1) [of "\<bar>m\<bar>"] m by (intro mult_right_mono) auto
  have "bitlen \<bar>m\<bar> - 1 + e + 1 = bitlen \<bar>m\<bar> + e" by simp
  then show "\<bar>of_int m * 2 powi e :: rat\<bar> < 2 powi (bitlen \<bar>m\<bar> - 1 + e + 1)"
    unfolding abs using bitlen_powi(2) [of "\<bar>m\<bar>"] m by (simp only: powi_add) (intro mult_strict_right_mono, auto)
qed

lemma zero_less_mult_pos_cancel: "0 < (b::rat) \<Longrightarrow> (0 < a * b) = (0 < a)"
  by (rule zero_less_mult_pos2 [THEN iffI]) auto

text \<open>Rounding in integer arithmetic, for evaluation.\<close>

lemma rnd_code [code]:
  "rnd x = (case quotient_of x of (p, q) \<Rightarrow>
     if p = 0 then Fin 0
     else case round_parts p q of (m, e) \<Rightarrow>
       if m \<noteq> 0 \<and> 1024 \<le> bitlen \<bar>m\<bar> - 1 + e then (if 0 < m then PInf else NInf)
       else Fin (if 0 \<le> e then of_int (shl (nat e) m) else Fract m (shl (nat (- e)) 1)))"
proof -
  obtain p q where pq: "quotient_of x = (p, q)" by (cases "quotient_of x")
  show ?thesis
  proof (cases "x = 0")
    case True
    then show ?thesis by (simp add: rnd_def rnd0_def)
  next
    case False
    define m where "m = rne (x / 2 powi last_place x)"
    define e where "e = last_place x"
    have p: "p \<noteq> 0" using False quotient_of_div [OF pq] by auto
    have parts: "round_parts p q = (m, e)" using round_parts [OF pq False] by (simp add: m_def e_def)
    have y: "rnd0 x = of_int m * 2 powi e" using False by (simp add: rnd0_def m_def e_def)
    have v: "of_int m * 2 powi e = (if 0 \<le> e then of_int (shl (nat e) m) else Fract m (shl (nat (- e)) 1))"
      by (simp add: powi_nat shl_eq Fract_of_int_quotient)
    have sign: "(0 < of_int m * (2::rat) powi e) = (0 < m)"
      by (rule trans [OF zero_less_mult_pos_cancel [OF powi_pos]]) simp
    have zero: "(of_int m * (2::rat) powi e \<noteq> 0) = (m \<noteq> 0)" by simp
    show ?thesis
      unfolding pq prod.case parts rnd_def Let_def y sign zero
      using p ilog2_scaled [of m e] unfolding v [symmetric] by (cases "m = 0") simp_all
  qed
qed

end
