(* ===== verification/Signals.thy ===== *)
theory Signals
  imports FloatEval
begin

text \<open>
  Trade candidates: \<open>trading/signals/models.py\<close>, \<open>candidate.py\<close> and \<open>validation.py\<close>.

  A decision row is the pandas series the strategy produced: its time stamp, its symbol, its
  regime label and its numeric or boolean columns. \<open>Missing\<close> is \<open>None\<close>/\<open>pd.NA\<close>; a NaN number
  counts as missing too, as \<open>pd.isna\<close> has it.
\<close>

section \<open>Directions, configuration, candidates\<close>

datatype CandidateDirection = CD_LONG | CD_SHORT

record CandidateConfig =
  cc_atr_period :: int
  cc_atr_multiplier :: pyfloat
  cc_structural_lookback :: int
  cc_policy_version :: string
  cc_entry_method :: string

definition default_candidate_config :: CandidateConfig where
  "default_candidate_config = \<lparr>cc_atr_period = 14, cc_atr_multiplier = lit (3/2),
     cc_structural_lookback = 20, cc_policy_version = ''structure_atr_v1.0'',
     cc_entry_method = ''DECISION_CLOSE''\<rparr>"

definition make_candidate_config :: "CandidateConfig \<Rightarrow> CandidateConfig res" where
  "make_candidate_config c =
    (if cc_atr_period c \<le> 0 then Inl (ValueError ''atr_period must be greater than zero'')
     else if nonpos (cc_atr_multiplier c) then Inl (ValueError ''atr_multiplier must be positive'')
     else if cc_structural_lookback c \<le> 0
       then Inl (ValueError ''structural_lookback must be greater than zero'')
     else if cc_policy_version c = [] then Inl (ValueError ''policy_version must not be empty'')
     else if cc_entry_method c \<noteq> ''DECISION_CLOSE''
       then Inl (ValueError ''entry_method must be DECISION_CLOSE'')
     else Inr c)"

record TradeCandidate =
  tc_timestamp :: pytime
  tc_symbol :: string
  tc_direction :: CandidateDirection
  tc_entry_price :: pyfloat
  tc_stop_price :: pyfloat
  tc_policy_version :: string

definition make_candidate :: "TradeCandidate \<Rightarrow> TradeCandidate res" where
  "make_candidate c =
    (if \<not> aware (tc_timestamp c) then Inl (ValueError ''timestamp must be timezone-aware'')
     else if blank (tc_symbol c) then Inl (ValueError ''symbol must not be empty'')
     else if nonpos (tc_entry_price c) then Inl (ValueError ''entry_price must be positive'')
     else if nonpos (tc_stop_price c) then Inl (ValueError ''stop_price must be positive'')
     else if tc_policy_version c = [] then Inl (ValueError ''policy_version must not be empty'')
     else (case tc_direction c of
         CD_LONG \<Rightarrow>
           if fle (tc_entry_price c) (tc_stop_price c)
           then Inl (ValueError ''LONG stop_price must be below entry_price'') else Inr c
       | CD_SHORT \<Rightarrow>
           if fle (tc_stop_price c) (tc_entry_price c)
           then Inl (ValueError ''SHORT stop_price must be above entry_price'') else Inr c))"

definition candidate_stop_distance :: "TradeCandidate \<Rightarrow> pyfloat" where
  "candidate_stop_distance c = fabs (fsub (tc_entry_price c) (tc_stop_price c))"

section \<open>Decision rows\<close>

datatype cell = Num pyfloat | Flag bool | Missing

record row =
  row_timestamp :: "pytime option"
  row_symbol :: "string option"
  row_regime :: "string option"
  row_cells :: "(string, cell) dict"

fun cell_missing :: "cell \<Rightarrow> bool" where
  "cell_missing Missing = True"
| "cell_missing (Num x) = isnan x"
| "cell_missing (Flag b) = False"

fun cell_float :: "cell \<Rightarrow> pyfloat" where
  "cell_float (Num x) = x"
| "cell_float (Flag b) = (if b then Fin 1 else Fin 0)"
| "cell_float Missing = NaN"

definition finite_price :: "row \<Rightarrow> string \<Rightarrow> pyfloat res" where
  "finite_price r col = (case dict_get (row_cells r) col of
      None \<Rightarrow> Inl (ValueError (''candidate input is missing required column: '' @ col))
    | Some v \<Rightarrow>
        if cell_missing v then Inl (ValueError (col @ '' must not be missing''))
        else let value = cell_float v in
          if \<not> isfinite value then Inl (ValueError (col @ '' must be finite''))
          else if nonpos value then Inl (ValueError (col @ '' must be positive''))
          else Inr value)"

definition optional_level :: "row \<Rightarrow> string \<Rightarrow> pyfloat option" where
  "optional_level r col = (case dict_get (row_cells r) col of
      None \<Rightarrow> None
    | Some v \<Rightarrow>
        if cell_missing v then None
        else let value = cell_float v in
          if \<not> isfinite value \<or> nonpos value then None else Some value)"

section \<open>Candidate construction\<close>

text \<open>\<open>level is not None and ok(level)\<close>\<close>

definition usable :: "(pyfloat \<Rightarrow> bool) \<Rightarrow> pyfloat option \<Rightarrow> pyfloat option" where
  "usable ok level = (case level of None \<Rightarrow> None | Some x \<Rightarrow> if ok x then Some x else None)"

definition structural_stop ::
  "row \<Rightarrow> CandidateDirection \<Rightarrow> CandidateConfig \<Rightarrow> pyfloat \<Rightarrow> pyfloat res" where
  "structural_stop r dir cfg entry_price =
    (let period = int_text (cc_structural_lookback cfg) in
     case dir of
       CD_LONG \<Rightarrow>
         (case usable (\<lambda>swing. fless swing entry_price) (optional_level r ''swing_low'') of
            Some swing \<Rightarrow> Inr swing
          | None \<Rightarrow>
         (case usable (\<lambda>support. fless support entry_price)
             (optional_level r (''support_'' @ period)) of
            Some support \<Rightarrow> Inr support
          | None \<Rightarrow> Inl (ValueError ''no valid LONG structural stop below entry_price'')))
     | CD_SHORT \<Rightarrow>
         (case usable (\<lambda>swing. fless entry_price swing) (optional_level r ''swing_high'') of
            Some swing \<Rightarrow> Inr swing
          | None \<Rightarrow>
         (case usable (\<lambda>resistance. fless entry_price resistance)
             (optional_level r (''resistance_'' @ period)) of
            Some resistance \<Rightarrow> Inr resistance
          | None \<Rightarrow> Inl (ValueError ''no valid SHORT structural stop above entry_price''))))"

definition build_candidate ::
  "row \<Rightarrow> CandidateDirection \<Rightarrow> CandidateConfig \<Rightarrow> TradeCandidate res" where
  "build_candidate r dir cfg =
    (case row_timestamp r of
       None \<Rightarrow> Inl (ValueError ''candidate input is missing required column: timestamp'')
     | Some timestamp \<Rightarrow>
     case row_symbol r of
       None \<Rightarrow> Inl (ValueError ''candidate input is missing required column: symbol'')
     | Some raw_symbol \<Rightarrow>
     if \<not> aware timestamp then Inl (ValueError ''timestamp must be timezone-aware'')
     else let symbol = strip raw_symbol in
     if symbol = [] then Inl (ValueError ''symbol must not be empty'')
     else rbind (finite_price r ''close'') (\<lambda>entry_price.
       rbind (finite_price r (''atr_'' @ int_text (cc_atr_period cfg))) (\<lambda>atr_value.
       rbind (structural_stop r dir cfg entry_price) (\<lambda>structural.
       let atr_distance = fmul (cc_atr_multiplier cfg) atr_value in
       rbind (case dir of
           CD_LONG \<Rightarrow> let atr_stop = fsub entry_price atr_distance in
             if nonpos atr_stop then Inl (ValueError ''LONG ATR stop is not positive'')
             else Inr (fmax structural atr_stop)
         | CD_SHORT \<Rightarrow> Inr (fmin structural (fadd entry_price atr_distance))) (\<lambda>stop_price.
       if dir = CD_LONG \<and> fle entry_price stop_price
         then Inl (ValueError ''LONG stop construction produced invalid stop distance'')
       else if dir = CD_SHORT \<and> fle stop_price entry_price
         then Inl (ValueError ''SHORT stop construction produced invalid stop distance'')
       else make_candidate \<lparr>tc_timestamp = timestamp, tc_symbol = symbol, tc_direction = dir,
         tc_entry_price = entry_price, tc_stop_price = stop_price,
         tc_policy_version = cc_policy_version cfg\<rparr>)))))"

section \<open>Validation\<close>

definition validate_candidate :: "TradeCandidate \<Rightarrow> unit res" where
  "validate_candidate c =
    (if \<not> aware (tc_timestamp c)
       then Inl (ValueError ''candidate timestamp must be timezone-aware'')
     else if blank (tc_symbol c) then Inl (ValueError ''candidate symbol must not be empty'')
     else if \<not> isfinite (tc_entry_price c)
       then Inl (ValueError ''candidate entry_price must be finite'')
     else if nonpos (tc_entry_price c)
       then Inl (ValueError ''candidate entry_price must be positive'')
     else if \<not> isfinite (tc_stop_price c)
       then Inl (ValueError ''candidate stop_price must be finite'')
     else if nonpos (tc_stop_price c)
       then Inl (ValueError ''candidate stop_price must be positive'')
     else if tc_policy_version c = []
       then Inl (ValueError ''candidate policy_version must not be empty'')
     else if nonpos (candidate_stop_distance c)
       then Inl (ValueError ''candidate stop distance must be positive'')
     else Inr ())"

text \<open>The set \<open>seen\<close> holds the symbol in capitals and the instant.\<close>

fun validate_candidates_from ::
  "(string \<times> int) set \<Rightarrow> TradeCandidate list \<Rightarrow> unit res" where
  "validate_candidates_from seen [] = Inr ()"
| "validate_candidates_from seen (c # cs) =
     rbind (validate_candidate c) (\<lambda>_.
       let key = (upper (tc_symbol c), ns (tc_timestamp c)) in
       if key \<in> seen
         then Inl (ValueError ''duplicate candidate for symbol/timestamp'')
       else validate_candidates_from (insert key seen) cs)"

definition validate_candidates :: "TradeCandidate list \<Rightarrow> unit res" where
  "validate_candidates cs = validate_candidates_from {} cs"

section \<open>Facts about candidates\<close>

text \<open>The geometry every constructed candidate has.\<close>

definition stop_on_side :: "TradeCandidate \<Rightarrow> bool" where
  "stop_on_side c = (case tc_direction c of
      CD_LONG \<Rightarrow> fless (tc_stop_price c) (tc_entry_price c)
    | CD_SHORT \<Rightarrow> fless (tc_entry_price c) (tc_stop_price c))"

lemma finite_price_pos: "finite_price r col = Inr x \<Longrightarrow> isfinite x \<and> fpos x"
  by (auto simp: finite_price_def Let_def split: option.splits if_splits intro: finite_nonpos)

lemma optional_level_pos: "optional_level r col = Some x \<Longrightarrow> isfinite x \<and> fpos x"
  by (auto simp: optional_level_def Let_def split: option.splits if_splits intro: finite_nonpos)

lemma usable_Some: "usable ok level = Some x \<longleftrightarrow> level = Some x \<and> ok x"
  by (auto simp: usable_def split: option.splits)

lemma structural_stop_long:
  "structural_stop r CD_LONG cfg e = Inr s \<Longrightarrow> isfinite s \<and> fpos s \<and> fless s e"
  by (auto simp: structural_stop_def Let_def usable_Some split: option.splits
      dest: optional_level_pos)

lemma structural_stop_short:
  "structural_stop r CD_SHORT cfg e = Inr s \<Longrightarrow> isfinite s \<and> fpos s \<and> fless e s"
  by (auto simp: structural_stop_def Let_def usable_Some split: option.splits
      dest: optional_level_pos)

lemma make_candidate_id: "make_candidate c = Inr c' \<Longrightarrow> c' = c"
  by (auto simp: make_candidate_def split: if_splits CandidateDirection.splits)

lemma make_candidateD:
  "make_candidate c = Inr c' \<Longrightarrow>
     aware (tc_timestamp c) \<and> \<not> blank (tc_symbol c) \<and> \<not> nonpos (tc_entry_price c) \<and>
     \<not> nonpos (tc_stop_price c) \<and> tc_policy_version c \<noteq> []"
  by (auto simp: make_candidate_def split: if_splits CandidateDirection.splits)

lemma finite_between: "fless a b \<Longrightarrow> fless b c \<Longrightarrow> isfinite a \<Longrightarrow> isfinite c \<Longrightarrow> isfinite b"
  by (cases a; cases b; cases c) auto

text \<open>The stop price before the last geometry check.\<close>

lemma build_candidate_cases:
  assumes "build_candidate r dir cfg = Inr c"
  obtains e a s t y where
    "finite_price r ''close'' = Inr e"
    "structural_stop r dir cfg e = Inr s"
    "make_candidate \<lparr>tc_timestamp = t, tc_symbol = y, tc_direction = dir, tc_entry_price = e,
          tc_stop_price = (if dir = CD_LONG then fmax s (fsub e (fmul (cc_atr_multiplier cfg) a))
             else fmin s (fadd e (fmul (cc_atr_multiplier cfg) a))),
          tc_policy_version = cc_policy_version cfg\<rparr> = Inr c"
  using assms
  by (cases dir) (force simp: build_candidate_def Let_def split: option.splits if_splits)+

lemma build_candidate_geometry:
  assumes "build_candidate r dir cfg = Inr c"
  shows "stop_on_side c" "isfinite (tc_entry_price c)" "isfinite (tc_stop_price c)"
    "fpos (tc_entry_price c)" "fpos (tc_stop_price c)" "tc_direction c = dir"
    "\<exists>s. structural_stop r dir cfg (tc_entry_price c) = Inr s \<and>
       (if dir = CD_LONG then fle s (tc_stop_price c) else fle (tc_stop_price c) s)"
proof -
  obtain e a s t y where h1: "finite_price r ''close'' = Inr e"
    and h2: "structural_stop r dir cfg e = Inr s"
    and m: "make_candidate \<lparr>tc_timestamp = t, tc_symbol = y, tc_direction = dir, tc_entry_price = e,
          tc_stop_price = (if dir = CD_LONG then fmax s (fsub e (fmul (cc_atr_multiplier cfg) a))
             else fmin s (fadd e (fmul (cc_atr_multiplier cfg) a))),
          tc_policy_version = cc_policy_version cfg\<rparr> = Inr c"
    using assms by (rule build_candidate_cases)
  define p where "p = (if dir = CD_LONG then fmax s (fsub e (fmul (cc_atr_multiplier cfg) a))
             else fmin s (fadd e (fmul (cc_atr_multiplier cfg) a)))"
  have c: "c = \<lparr>tc_timestamp = t, tc_symbol = y, tc_direction = dir, tc_entry_price = e,
          tc_stop_price = p, tc_policy_version = cc_policy_version cfg\<rparr>"
    and mc: "make_candidate c = Inr c"
    using make_candidate_id [OF m] m unfolding p_def by auto
  have e: "isfinite e" "fpos e" using finite_price_pos [OF h1] by auto
  have "isfinite p \<and> fpos p \<and> (if dir = CD_LONG then fless p e \<and> fle s p else fless e p \<and> fle p s)"
  proof (cases dir)
    case CD_LONG
    have s: "isfinite s" "fpos s" "fless s e"
      using structural_stop_long h2 CD_LONG by auto
    have "\<not> fle e p" using mc by (auto simp: c CD_LONG make_candidate_def split: if_splits)
    moreover have "fle s p" and "\<not> isnan p"
      using s(1) unfolding p_def CD_LONG
      by (auto simp: fmax_def isfinite_iff dest: fless_not_nan fless_imp_fle)
    moreover have "fpos p" using s(2) \<open>fle s p\<close> by (rule fless_le_trans)
    ultimately show ?thesis
      using e CD_LONG by (cases e; cases p) auto
  next
    case CD_SHORT
    have s: "isfinite s" "fpos s" "fless e s"
      using structural_stop_short h2 CD_SHORT by auto
    have "\<not> fle p e" using mc by (auto simp: c CD_SHORT make_candidate_def split: if_splits)
    moreover have "fle p s" and "\<not> isnan p"
      using s(1) unfolding p_def CD_SHORT
      by (auto simp: fmin_def isfinite_iff dest: fless_not_nan fless_imp_fle)
    ultimately show ?thesis
      using e s CD_SHORT by (cases e; cases p; cases s) auto
  qed
  then show "stop_on_side c" "isfinite (tc_stop_price c)" "fpos (tc_stop_price c)"
    "isfinite (tc_entry_price c)" "fpos (tc_entry_price c)" "tc_direction c = dir"
    "\<exists>s. structural_stop r dir cfg (tc_entry_price c) = Inr s \<and>
       (if dir = CD_LONG then fle s (tc_stop_price c) else fle (tc_stop_price c) s)"
    using e h2 by (cases dir; simp add: c stop_on_side_def)+
qed

end
