(* ===== verification/StrategyModels.thy ===== *)
theory StrategyModels
  imports Signals
begin

text \<open>
  The contracts of the strategy layer: \<open>trading/strategy/models.py\<close> and
  \<open>trading/strategy/validation.py\<close>.

  A prediction and the analysis, market and research contexts reach the engine as duck-typed
  objects; the records below hold the attributes the code reads from them. An attribute the
  object lacks is \<open>None\<close>. Constructors are functions \<open>make_...\<close> that take the fields and
  return the normalised record or the error of \<open>__post_init__\<close>.
\<close>

section \<open>Enumerations and configuration\<close>

datatype StrategyDirection = LONG | SHORT | NO_TRADE

datatype NoTradeReason =
    INVALID_INPUT | MISSING_CONTEXT | STALE_PREDICTION | PREDICTION_EDGE_TOO_WEAK | NO_EDGE
  | REGIME_NOT_ELIGIBLE | REGIME_CONFIDENCE_TOO_LOW | STRATEGY_CONDITION_FAILED
  | EXPECTED_VALUE_BELOW_THRESHOLD | COST_TOO_HIGH | NTR_LIQUIDITY_INSUFFICIENT
  | SIGNAL_CONFLICT | CANDIDATE_INVALID

fun reason_value :: "NoTradeReason \<Rightarrow> string" where
  "reason_value INVALID_INPUT = ''INVALID_INPUT''"
| "reason_value MISSING_CONTEXT = ''MISSING_CONTEXT''"
| "reason_value STALE_PREDICTION = ''STALE_PREDICTION''"
| "reason_value PREDICTION_EDGE_TOO_WEAK = ''PREDICTION_EDGE_TOO_WEAK''"
| "reason_value NO_EDGE = ''NO_EDGE''"
| "reason_value REGIME_NOT_ELIGIBLE = ''REGIME_NOT_ELIGIBLE''"
| "reason_value REGIME_CONFIDENCE_TOO_LOW = ''REGIME_CONFIDENCE_TOO_LOW''"
| "reason_value STRATEGY_CONDITION_FAILED = ''STRATEGY_CONDITION_FAILED''"
| "reason_value EXPECTED_VALUE_BELOW_THRESHOLD = ''EXPECTED_VALUE_BELOW_THRESHOLD''"
| "reason_value COST_TOO_HIGH = ''COST_TOO_HIGH''"
| "reason_value NTR_LIQUIDITY_INSUFFICIENT = ''LIQUIDITY_INSUFFICIENT''"
| "reason_value SIGNAL_CONFLICT = ''SIGNAL_CONFLICT''"
| "reason_value CANDIDATE_INVALID = ''CANDIDATE_INVALID''"

fun direction_value :: "StrategyDirection \<Rightarrow> string" where
  "direction_value LONG = ''LONG''"
| "direction_value SHORT = ''SHORT''"
| "direction_value NO_TRADE = ''NO_TRADE''"

text \<open>\<open>0.0 <= x <= 1.0\<close>\<close>

definition in_unit :: "pyfloat \<Rightarrow> bool" where
  "in_unit x = (fle (Fin 0) x \<and> fle x (Fin 1))"

record BaselineStrategyConfig =
  bc_minimum_rvol :: pyfloat
  bc_minimum_regime_probability :: pyfloat
  bc_strategy_version :: string

definition default_baseline_config :: BaselineStrategyConfig where
  "default_baseline_config = \<lparr>bc_minimum_rvol = Fin 1, bc_minimum_regime_probability = lit (1/2),
     bc_strategy_version = ''v1.0''\<rparr>"

definition make_baseline_config :: "BaselineStrategyConfig \<Rightarrow> BaselineStrategyConfig res" where
  "make_baseline_config c =
    (if nonpos (bc_minimum_rvol c) then Inl (ValueError ''minimum_rvol must be positive'')
     else if \<not> in_unit (bc_minimum_regime_probability c)
       then Inl (ValueError ''minimum_regime_probability must be between 0 and 1'')
     else if blank (bc_strategy_version c)
       then Inl (ValueError ''strategy_version must not be empty'')
     else Inr c)"

record StrategyConfig =
  sc_strategy_id :: string
  sc_strategy_version :: string
  sc_baseline :: BaselineStrategyConfig
  sc_prediction_min_probability :: pyfloat
  sc_prediction_min_margin :: pyfloat
  sc_prediction_max_age_seconds :: int
  sc_expected_value_threshold :: pyfloat
  sc_max_cost_fraction :: pyfloat
  sc_allowed_regimes :: "string list"
  sc_require_prediction_direction_alignment :: bool
  sc_require_analysis_alignment :: bool
  sc_require_liquidity_when_present :: bool
  sc_cost_model_version :: string
  sc_candidate_policy_version :: string

definition default_strategy_config :: StrategyConfig where
  "default_strategy_config = \<lparr>sc_strategy_id = ''baseline_trend_v1'',
     sc_strategy_version = ''STRAT-v1.0'', sc_baseline = default_baseline_config,
     sc_prediction_min_probability = Fin 0, sc_prediction_min_margin = Fin 0,
     sc_prediction_max_age_seconds = 300, sc_expected_value_threshold = Fin 0,
     sc_max_cost_fraction = Fin 1, sc_allowed_regimes = [''TREND_UP'', ''TREND_DOWN''],
     sc_require_prediction_direction_alignment = False, sc_require_analysis_alignment = False,
     sc_require_liquidity_when_present = True, sc_cost_model_version = ''cost-v1.0'',
     sc_candidate_policy_version = ''structure_atr_v1.0''\<rparr>"

definition make_strategy_config :: "StrategyConfig \<Rightarrow> StrategyConfig res" where
  "make_strategy_config c =
    (if blank (sc_strategy_id c) then Inl (ValueError ''strategy_id must not be empty'')
     else if blank (sc_strategy_version c)
       then Inl (ValueError ''strategy_version must not be empty'')
     else if \<not> in_unit (sc_prediction_min_probability c)
       then Inl (ValueError ''prediction_min_probability must be in [0, 1]'')
     else if fneg_lt (sc_prediction_min_margin c)
       then Inl (ValueError ''prediction_min_margin must be non-negative'')
     else if sc_prediction_max_age_seconds c \<le> 0
       then Inl (ValueError ''prediction_max_age_seconds must be positive'')
     else if fneg_lt (sc_max_cost_fraction c)
       then Inl (ValueError ''max_cost_fraction must be non-negative'')
     else if sc_allowed_regimes c = []
       then Inl (ValueError ''allowed_regimes must not be empty'')
     else if blank (sc_cost_model_version c)
       then Inl (ValueError ''cost_model_version must not be empty'')
     else if blank (sc_candidate_policy_version c)
       then Inl (ValueError ''candidate_policy_version must not be empty'')
     else Inr c)"

section \<open>Inputs\<close>

record prediction =
  pr_timestamp :: "pytime option"
  pr_symbol :: string
  pr_probabilities :: "(string, cell) dict option"
  pr_model_version :: "string option"

record layer_context =
  cx_timestamp :: "pytime option"
  cx_analytical_direction :: "string option"

record StrategyInput =
  si_timestamp :: pytime
  si_symbol :: string
  si_decision_features :: "(string, cell) dict"
  si_prediction :: "prediction option"
  si_market_context :: "layer_context option"
  si_analysis_context :: "layer_context option"
  si_research_context :: "layer_context option"
  si_regime :: "string option"
  si_regime_probability :: "pyfloat option"
  si_cost_estimate :: "pyfloat option"
  si_cost_fraction :: "pyfloat option"
  si_slippage_bps :: "pyfloat option"
  si_liquidity_available :: "bool option"
  si_versions :: "(string, string) dict"

definition opt_holds :: "('a \<Rightarrow> bool) \<Rightarrow> 'a option \<Rightarrow> bool" where
  "opt_holds P v = (case v of None \<Rightarrow> False | Some x \<Rightarrow> P x)"

lemma opt_holds_simps [simp]: "opt_holds P None = False" "opt_holds P (Some x) = P x"
  by (simp_all add: opt_holds_def)

definition make_strategy_input :: "StrategyInput \<Rightarrow> StrategyInput res" where
  "make_strategy_input v =
    (if \<not> aware (si_timestamp v)
       then Inl (ValueError ''strategy input timestamp must be timezone-aware'')
     else if blank (si_symbol v)
       then Inl (ValueError ''strategy input symbol must not be empty'')
     else if opt_holds (\<lambda>p. \<not> in_unit p) (si_regime_probability v)
       then Inl (ValueError ''regime_probability must be in [0, 1]'')
     else if opt_holds fneg_lt (si_cost_fraction v)
       then Inl (ValueError ''cost_fraction must be non-negative'')
     else if opt_holds fneg_lt (si_slippage_bps v)
       then Inl (ValueError ''slippage_bps must be non-negative'')
     else Inr (v\<lparr>si_symbol := symbol_of (si_symbol v)\<rparr>))"

section \<open>Decisions\<close>

record StrategyDecision =
  sd_timestamp :: pytime
  sd_symbol :: string
  sd_direction :: StrategyDirection
  sd_strategy_version :: string
  sd_rationale :: string
  sd_primary_reason :: "NoTradeReason option"
  sd_secondary_reasons :: "NoTradeReason list"
  sd_prediction_class :: "string option"
  sd_prediction_probability :: "pyfloat option"
  sd_prediction_margin :: "pyfloat option"
  sd_regime :: "string option"
  sd_regime_probability :: "pyfloat option"
  sd_entry_reference :: "pyfloat option"
  sd_stop_reference :: "pyfloat option"
  sd_target_reference :: "pyfloat option"
  sd_expected_reward :: "pyfloat option"
  sd_expected_loss :: "pyfloat option"
  sd_expected_value :: "pyfloat option"
  sd_estimated_cost :: "pyfloat option"
  sd_slippage_assumption_bps :: "pyfloat option"
  sd_research_version :: "string option"
  sd_analysis_version :: "string option"
  sd_market_version :: "string option"
  sd_prediction_model_version :: "string option"
  sd_feature_version :: "string option"
  sd_cost_model_version :: "string option"
  sd_provenance :: "(string, string) dict"
  sd_features :: "(string, cell) dict"

text \<open>A decision with the required fields; every other field has its default.\<close>

definition decision_defaults ::
  "pytime \<Rightarrow> string \<Rightarrow> StrategyDirection \<Rightarrow> string \<Rightarrow> string \<Rightarrow> StrategyDecision" where
  "decision_defaults t y d ver why =
    \<lparr>sd_timestamp = t, sd_symbol = y, sd_direction = d, sd_strategy_version = ver,
     sd_rationale = why, sd_primary_reason = None, sd_secondary_reasons = [],
     sd_prediction_class = None, sd_prediction_probability = None, sd_prediction_margin = None,
     sd_regime = None, sd_regime_probability = None, sd_entry_reference = None,
     sd_stop_reference = None, sd_target_reference = None, sd_expected_reward = None,
     sd_expected_loss = None, sd_expected_value = None, sd_estimated_cost = None,
     sd_slippage_assumption_bps = None, sd_research_version = None, sd_analysis_version = None,
     sd_market_version = None, sd_prediction_model_version = None, sd_feature_version = None,
     sd_cost_model_version = None, sd_provenance = [], sd_features = []\<rparr>"

definition make_strategy_decision :: "StrategyDecision \<Rightarrow> StrategyDecision res" where
  "make_strategy_decision d =
    (if \<not> aware (sd_timestamp d)
       then Inl (ValueError ''strategy timestamp must be timezone-aware'')
     else if blank (sd_symbol d) then Inl (ValueError ''strategy symbol must not be empty'')
     else if blank (sd_strategy_version d)
       then Inl (ValueError ''strategy_version must not be empty'')
     else if blank (sd_rationale d) then Inl (ValueError ''rationale must not be empty'')
     else let reason =
         (if sd_direction d = NO_TRADE \<and> sd_primary_reason d = None
          then Some STRATEGY_CONDITION_FAILED else sd_primary_reason d) in
     if sd_direction d \<noteq> NO_TRADE \<and> sd_primary_reason d \<noteq> None
       then Inl (ValueError ''TRADE decisions must not carry a NO_TRADE primary_reason'')
     else if opt_holds (\<lambda>p. \<not> in_unit p) (sd_prediction_probability d)
       then Inl (ValueError ''prediction_probability must be in [0, 1]'')
     else if opt_holds (\<lambda>p. \<not> in_unit p) (sd_regime_probability d)
       then Inl (ValueError ''regime_probability must be in [0, 1]'')
     else Inr (d\<lparr>sd_primary_reason := reason, sd_symbol := symbol_of (sd_symbol d)\<rparr>))"

text \<open>What a constructed decision satisfies.\<close>

definition decision_ok :: "StrategyDecision \<Rightarrow> bool" where
  "decision_ok d = (aware (sd_timestamp d) \<and> \<not> blank (sd_symbol d) \<and>
     symbol_of (sd_symbol d) = sd_symbol d \<and>
     \<not> blank (sd_strategy_version d) \<and> \<not> blank (sd_rationale d) \<and>
     (sd_direction d = NO_TRADE) = (sd_primary_reason d \<noteq> None) \<and>
     \<not> opt_holds (\<lambda>p. \<not> in_unit p) (sd_prediction_probability d) \<and>
     \<not> opt_holds (\<lambda>p. \<not> in_unit p) (sd_regime_probability d))"

lemma make_strategy_decision_ok:
  "make_strategy_decision d = Inr d' \<Longrightarrow> decision_ok d' \<and> sd_direction d' = sd_direction d \<and>
     sd_timestamp d' = sd_timestamp d \<and> sd_symbol d' = symbol_of (sd_symbol d)"
  by (auto simp: make_strategy_decision_def decision_ok_def Let_def split: if_splits)

lemma make_strategy_decision_fields:
  "make_strategy_decision d = Inr d' \<Longrightarrow>
     sd_primary_reason d' = (if sd_direction d = NO_TRADE \<and> sd_primary_reason d = None
        then Some STRATEGY_CONDITION_FAILED else sd_primary_reason d) \<and>
     sd_direction d' = sd_direction d \<and>
     sd_rationale d' = sd_rationale d \<and> sd_strategy_version d' = sd_strategy_version d \<and>
     sd_regime d' = sd_regime d \<and> sd_features d' = sd_features d"
  by (auto simp: make_strategy_decision_def Let_def split: if_splits)

section \<open>Validation of a decision\<close>

fun first_error :: "(bool \<times> string) list \<Rightarrow> unit res" where
  "first_error [] = Inr ()"
| "first_error ((bad, msg) # rest) = (if bad then Inl (ValueError msg) else first_error rest)"

definition validate_strategy_decision :: "StrategyDecision \<Rightarrow> unit res" where
  "validate_strategy_decision d = first_error
    ([(\<not> aware (sd_timestamp d), ''strategy timestamp must be timezone-aware''),
      (blank (sd_symbol d), ''strategy symbol must not be empty''),
      (blank (sd_strategy_version d), ''strategy_version must not be empty''),
      (sd_direction d = NO_TRADE \<and> sd_primary_reason d = None, ''NO_TRADE requires primary_reason''),
      (sd_direction d \<noteq> NO_TRADE \<and> sd_primary_reason d \<noteq> None, ''TRADE cannot have primary_reason''),
      (opt_holds (\<lambda>p. \<not> in_unit p) (sd_prediction_probability d),
         ''prediction_probability must be in [0, 1]''),
      (opt_holds (\<lambda>p. \<not> in_unit p) (sd_regime_probability d),
         ''regime_probability must be in [0, 1]'')]
     @ map (\<lambda>(name, v). (opt_holds (\<lambda>x. \<not> isfinite x) v, name @ '' must be finite''))
       [(''entry_reference'', sd_entry_reference d), (''stop_reference'', sd_stop_reference d),
        (''target_reference'', sd_target_reference d), (''expected_reward'', sd_expected_reward d),
        (''expected_loss'', sd_expected_loss d), (''expected_value'', sd_expected_value d),
        (''estimated_cost'', sd_estimated_cost d),
        (''slippage_assumption_bps'', sd_slippage_assumption_bps d)]
     @ [(sd_direction d \<noteq> NO_TRADE \<and> strip (sd_symbol d) = [], ''trade symbol must not be empty'')])"

lemma first_error_Inr: "first_error cs = Inr () \<longleftrightarrow> (\<forall>(bad, msg) \<in> set cs. \<not> bad)"
  by (induction cs rule: first_error.induct) auto

lemma validate_strategy_decision_iff:
  "decision_ok d \<Longrightarrow> validate_strategy_decision d = Inr () \<longleftrightarrow>
     (\<forall>v \<in> {sd_entry_reference d, sd_stop_reference d, sd_target_reference d,
            sd_expected_reward d, sd_expected_loss d, sd_expected_value d,
            sd_estimated_cost d, sd_slippage_assumption_bps d}. \<not> opt_holds (\<lambda>x. \<not> isfinite x) v)"
  by (auto simp: validate_strategy_decision_def decision_ok_def first_error_Inr blank_def)

end
