(* ===== verification/RiskContracts.thy ===== *)
theory RiskContracts
  imports StrategyModels
begin

text \<open>
  \<open>trading/risk/contracts.py\<close> (reason codes, signed position context, transition sizing) and
  \<open>trading/risk/gate.py\<close> (the risk decision and the legacy gate).
\<close>

section \<open>Vocabulary\<close>

datatype RiskAction = APPROVE | RESIZE | REJECT

datatype RiskReasonCode =
    RC_APPROVED | RC_RESIZED | GENERIC_REJECT | KILL_SWITCH_ACTIVE | RC_LIQUIDITY_INSUFFICIENT
  | MAX_TRADES_REACHED | DAILY_LOSS_LIMIT | MAX_DRAWDOWN_LIMIT | MAX_OPEN_POSITIONS
  | DUPLICATE_SYMBOL | INVALID_PRICE | INVALID_STOP | INVALID_TARGET | INVALID_REWARD_RISK
  | ZERO_POSITION_SIZE | MAX_GROSS_EXPOSURE | SYMBOL_EXPOSURE_LIMIT | SECTOR_EXPOSURE_LIMIT
  | CORRELATION_LIMIT | VOLATILITY_LIMIT | INVALID_RISK_STATE | STALE_MARKET_DATA
  | SYSTEM_NOT_READY | POSITION_CONTEXT_MISMATCH

datatype RiskPositionTransition = T_OPEN | T_INCREASE | T_REDUCE | T_FLATTEN | T_REVERSE

section \<open>Signed position context\<close>

record RiskPositionContext =
  pc_transition :: RiskPositionTransition
  pc_existing_quantity :: pyfloat
  pc_projected_quantity :: pyfloat

definition make_position_context :: "RiskPositionContext \<Rightarrow> RiskPositionContext res" where
  "make_position_context c =
    (let e = pc_existing_quantity c; p = pc_projected_quantity c; zero = (\<lambda>x. feq x (Fin 0)) in
     if \<not> (isfinite e \<and> isfinite p) then Inl (ValueError ''position quantities must be finite'')
     else (case pc_transition c of
         T_OPEN \<Rightarrow>
           if \<not> zero e then Inl (ValueError ''OPEN requires a flat existing position'')
           else if zero p then Inl (ValueError ''OPEN requires a non-zero projected position'')
           else Inr c
       | T_INCREASE \<Rightarrow>
           if zero e then Inl (ValueError ''INCREASE requires an existing position'')
           else if zero p then Inl (ValueError ''INCREASE requires a non-zero projected position'')
           else if nonpos (fmul e p) then Inl (ValueError ''INCREASE cannot change position direction'')
           else if fle (fabs p) (fabs e)
             then Inl (ValueError ''INCREASE must increase absolute position size'')
           else Inr c
       | T_REDUCE \<Rightarrow>
           if zero e \<or> zero p
             then Inl (ValueError ''REDUCE requires non-zero existing and projected positions'')
           else if nonpos (fmul e p) then Inl (ValueError ''REDUCE cannot change position direction'')
           else if fle (fabs e) (fabs p)
             then Inl (ValueError ''REDUCE must decrease absolute position size'')
           else Inr c
       | T_FLATTEN \<Rightarrow>
           if zero e \<or> \<not> zero p
             then Inl (ValueError ''FLATTEN requires an existing position and zero projection'')
           else Inr c
       | T_REVERSE \<Rightarrow>
           if zero e \<or> zero p
             then Inl (ValueError ''REVERSE requires non-zero existing and projected positions'')
           else if nonneg (fmul e p) then Inl (ValueError ''REVERSE must change position direction'')
           else Inr c))"

definition opens_position :: "RiskPositionContext \<Rightarrow> bool" where
  "opens_position c = (pc_transition c \<in> {T_OPEN, T_INCREASE, T_REVERSE})"

definition creates_position_slot :: "RiskPositionContext \<Rightarrow> bool" where
  "creates_position_slot c = (pc_transition c = T_OPEN)"

definition consumes_trade_entry :: "RiskPositionContext \<Rightarrow> bool" where
  "consumes_trade_entry c = (pc_transition c \<in> {T_OPEN, T_INCREASE, T_REVERSE})"

definition releases_position :: "RiskPositionContext \<Rightarrow> bool" where
  "releases_position c = (pc_transition c \<in> {T_REDUCE, T_FLATTEN})"

record RiskTransitionSizing =
  ts_order_quantity :: pyfloat
  ts_closing_quantity :: pyfloat
  ts_opening_quantity :: pyfloat

definition make_transition_sizing :: "RiskTransitionSizing \<Rightarrow> RiskTransitionSizing res" where
  "make_transition_sizing s =
    (let values = [ts_order_quantity s, ts_closing_quantity s, ts_opening_quantity s] in
     if \<not> list_all isfinite values then Inl (ValueError ''transition quantities must be finite'')
     else if list_ex fneg_lt values
       then Inl (ValueError ''transition quantities must be non-negative'')
     else Inr s)"

definition sizing_from_context :: "RiskPositionContext \<Rightarrow> RiskTransitionSizing res" where
  "sizing_from_context c =
    (let existing = pc_existing_quantity c; projected = pc_projected_quantity c;
         delta = fsub projected existing;
         (closing, opening) =
           (if feq existing (Fin 0) then (Fin 0, fabs projected)
            else if feq projected (Fin 0) then (fabs existing, Fin 0)
            else if fpos (fmul existing projected)
              then (fmax (Fin 0) (fsub (fabs existing) (fabs projected)),
                    fmax (Fin 0) (fsub (fabs projected) (fabs existing)))
            else (fabs existing, fabs projected)) in
     make_transition_sizing \<lparr>ts_order_quantity = fabs delta, ts_closing_quantity = closing,
       ts_opening_quantity = opening\<rparr>)"

record RiskCheck =
  rk_passed :: bool
  rk_reason_code :: RiskReasonCode
  rk_message :: string

section \<open>Decisions\<close>

datatype RiskDecisionStatus = RS_APPROVED | RS_REJECTED

record RiskDecision =
  rd_timestamp :: pytime
  rd_symbol :: string
  rd_status :: RiskDecisionStatus
  rd_strategy_direction :: StrategyDirection
  rd_reason :: string
  rd_risk_version :: string
  rd_reason_code :: "RiskReasonCode option"
  rd_resized :: bool
  rd_approved_quantity :: pyfloat
  rd_approved_notional :: pyfloat
  rd_position_transition :: "RiskPositionTransition option"
  rd_requested_projected_quantity :: "pyfloat option"
  rd_approved_projected_quantity :: "pyfloat option"

definition risk_decision_defaults ::
  "pytime \<Rightarrow> string \<Rightarrow> RiskDecisionStatus \<Rightarrow> StrategyDirection \<Rightarrow> string \<Rightarrow> RiskDecision" where
  "risk_decision_defaults t y st d why = \<lparr>rd_timestamp = t, rd_symbol = y, rd_status = st,
     rd_strategy_direction = d, rd_reason = why, rd_risk_version = ''RISK-v1.0'',
     rd_reason_code = None, rd_resized = False, rd_approved_quantity = Fin 0,
     rd_approved_notional = Fin 0, rd_position_transition = None,
     rd_requested_projected_quantity = None, rd_approved_projected_quantity = None\<rparr>"

definition make_risk_decision :: "RiskDecision \<Rightarrow> RiskDecision res" where
  "make_risk_decision d =
    (if \<not> aware (rd_timestamp d) then Inl (ValueError ''risk timestamp must be timezone-aware'')
     else if blank (rd_symbol d) then Inl (ValueError ''risk symbol must not be empty'')
     else if blank (rd_reason d) then Inl (ValueError ''risk reason must not be empty'')
     else if blank (rd_risk_version d) then Inl (ValueError ''risk_version must not be empty'')
     else if fneg_lt (rd_approved_quantity d) \<or> fneg_lt (rd_approved_notional d)
       then Inl (ValueError ''approved exposure must be non-negative'')
     else if rd_status d = RS_REJECTED \<and>
         (\<not> feq (rd_approved_quantity d) (Fin 0) \<or> \<not> feq (rd_approved_notional d) (Fin 0))
       then Inl (ValueError ''rejected risk decisions cannot carry approved exposure'')
     else Inr (d\<lparr>rd_symbol := symbol_of (rd_symbol d),
       rd_reason_code := (case rd_reason_code d of
           Some c \<Rightarrow> Some c
         | None \<Rightarrow> Some (if rd_status d = RS_APPROVED then RC_APPROVED else GENERIC_REJECT))\<rparr>))"

definition risk_action :: "RiskDecision \<Rightarrow> RiskAction" where
  "risk_action d = (if rd_status d = RS_REJECTED then REJECT
     else if rd_resized d then RESIZE else APPROVE)"

definition evaluate_strategy_risk ::
  "StrategyDecision \<Rightarrow> bool \<Rightarrow> pyfloat \<Rightarrow> pyfloat \<Rightarrow> RiskDecision res" where
  "evaluate_strategy_risk decision risk_enabled approved_quantity approved_notional =
    (let (status, reason, code, qty, notional) =
       (if sd_direction decision = NO_TRADE
          then (RS_REJECTED, ''Strategy produced NO_TRADE; risk gate blocks execution.'',
                GENERIC_REJECT, Fin 0, Fin 0)
        else if \<not> risk_enabled
          then (RS_REJECTED, ''Global risk gate is disabled.'', SYSTEM_NOT_READY, Fin 0, Fin 0)
        else (RS_APPROVED, ''Strategy direction passed the deterministic pre-trade risk gate.'',
              RC_APPROVED, fmax (Fin 1) approved_quantity, approved_notional)) in
     make_risk_decision
       ((risk_decision_defaults (sd_timestamp decision) (sd_symbol decision) status
           (sd_direction decision) reason)
         \<lparr>rd_reason_code := Some code, rd_approved_quantity := qty,
          rd_approved_notional := notional\<rparr>))"

section \<open>Facts\<close>

lemma make_risk_decision_fields:
  assumes "make_risk_decision d = Inr d'"
  shows "d' = d\<lparr>rd_symbol := symbol_of (rd_symbol d), rd_reason_code := rd_reason_code d'\<rparr>"
    "rd_reason_code d \<noteq> None \<Longrightarrow> rd_reason_code d' = rd_reason_code d"
    "\<not> fneg_lt (rd_approved_quantity d)" "\<not> fneg_lt (rd_approved_notional d)"
    "rd_status d = RS_REJECTED \<Longrightarrow>
       feq (rd_approved_quantity d) (Fin 0) \<and> feq (rd_approved_notional d) (Fin 0)"
  using assms by (auto simp: make_risk_decision_def split: if_splits option.splits)

lemma make_risk_decision_rejected:
  assumes "aware (rd_timestamp d)" "\<not> blank (rd_symbol d)" "\<not> blank (rd_reason d)"
    "\<not> blank (rd_risk_version d)" "rd_approved_quantity d = Fin 0" "rd_approved_notional d = Fin 0"
  shows "\<exists>d'. make_risk_decision d = Inr d'"
  using assms by (simp add: make_risk_decision_def)

lemma feq_zero: "feq x (Fin 0) \<longleftrightarrow> x = Fin 0"
  by (cases x) auto

lemma fpos_fmul_signs: "fpos (fmul (Fin a) (Fin b)) \<Longrightarrow> 0 < a * b"
  by (rule ccontr) (auto dest: double.nonpos simp: not_less fless_irrefl
      dest: fless_le_trans)

lemma sizing_from_context_nonneg:
  assumes "sizing_from_context c = Inr s"
  shows "isfinite (ts_order_quantity s)" "isfinite (ts_closing_quantity s)"
    "isfinite (ts_opening_quantity s)" "nonneg (ts_order_quantity s)"
    "nonneg (ts_closing_quantity s)" "nonneg (ts_opening_quantity s)"
proof -
  from assms obtain s0 where "make_transition_sizing s0 = Inr s"
    by (auto simp: sizing_from_context_def Let_def split: prod.splits if_splits)
  then have *: "s0 = s" "list_all isfinite [ts_order_quantity s, ts_closing_quantity s, ts_opening_quantity s]"
      "\<not> list_ex fneg_lt [ts_order_quantity s, ts_closing_quantity s, ts_opening_quantity s]"
    by (auto simp: make_transition_sizing_def Let_def split: if_splits)
  have "isfinite x \<Longrightarrow> \<not> fneg_lt x \<Longrightarrow> nonneg x" for x by (cases x) auto
  then show "isfinite (ts_order_quantity s)" "isfinite (ts_closing_quantity s)"
    "isfinite (ts_opening_quantity s)" "nonneg (ts_order_quantity s)"
    "nonneg (ts_closing_quantity s)" "nonneg (ts_opening_quantity s)"
    using *(2,3) by auto
qed

text \<open>The quantities by transition, for a constructed context.\<close>

lemma sizing_from_context_values:
  assumes "sizing_from_context c = Inr s" "make_position_context c = Inr c"
  shows "pc_transition c = T_OPEN \<Longrightarrow> ts_opening_quantity s = fabs (pc_projected_quantity c)"
    "pc_transition c = T_FLATTEN \<Longrightarrow> ts_order_quantity s = fabs (fsub (pc_projected_quantity c) (pc_existing_quantity c))
       \<and> ts_opening_quantity s = Fin 0"
    "pc_transition c = T_REVERSE \<Longrightarrow> ts_closing_quantity s = fabs (pc_existing_quantity c) \<and>
       ts_opening_quantity s = fabs (pc_projected_quantity c)"
proof -
  have zero: "feq x (Fin 0) \<longleftrightarrow> x = Fin 0" for x by (rule feq_zero)
  note defs = sizing_from_context_def make_position_context_def make_transition_sizing_def Let_def
  show "pc_transition c = T_OPEN \<Longrightarrow> ts_opening_quantity s = fabs (pc_projected_quantity c)"
    using assms by (auto simp: defs zero split: if_splits)
  show "pc_transition c = T_FLATTEN \<Longrightarrow> ts_order_quantity s = fabs (fsub (pc_projected_quantity c) (pc_existing_quantity c))
       \<and> ts_opening_quantity s = Fin 0"
    using assms by (auto simp: defs zero split: if_splits)
  show "pc_transition c = T_REVERSE \<Longrightarrow> ts_closing_quantity s = fabs (pc_existing_quantity c) \<and>
       ts_opening_quantity s = fabs (pc_projected_quantity c)"
    using assms by (auto simp: defs zero split: if_splits dest: fless_imp_fle)
qed

end
