(* ===== verification/RiskRules.thy ===== *)
theory RiskRules
  imports RiskContracts
begin

text \<open>
  The single rules of \<open>trading/risk/\<close>: \<open>stop_loss.py\<close>, \<open>target.py\<close>, \<open>position_sizing.py\<close>,
  \<open>exposure.py\<close>, \<open>concentration.py\<close>, \<open>correlation.py\<close>, \<open>daily_limits.py\<close>, \<open>volatility.py\<close>
  and \<open>kill_switch.py\<close>.
\<close>

section \<open>Stop and target\<close>

definition validate_stop :: "StrategyDirection \<Rightarrow> pyfloat \<Rightarrow> pyfloat \<Rightarrow> pyfloat res" where
  "validate_stop direction entry_price stop_price =
    (if \<not> isfinite entry_price \<or> nonpos entry_price
       then Inl (ValueError ''entry price must be positive and finite'')
     else if \<not> isfinite stop_price \<or> nonpos stop_price
       then Inl (ValueError ''stop price must be positive and finite'')
     else if direction = LONG \<and> fle entry_price stop_price
       then Inl (ValueError ''LONG stop must be below entry'')
     else if direction = SHORT \<and> fle stop_price entry_price
       then Inl (ValueError ''SHORT stop must be above entry'')
     else if direction = NO_TRADE then Inl (ValueError ''Risk Engine requires LONG or SHORT'')
     else let distance = fabs (fsub entry_price stop_price) in
     if nonpos distance \<or> \<not> isfinite distance
       then Inl (ValueError ''stop distance must be positive and finite'')
     else Inr distance)"

definition build_target ::
  "StrategyDirection \<Rightarrow> pyfloat \<Rightarrow> pyfloat \<Rightarrow> pyfloat \<Rightarrow> pyfloat res" where
  "build_target direction entry_price stop_distance target_multiple_r =
    (if \<not> isfinite entry_price \<or> nonpos entry_price
       then Inl (ValueError ''entry price must be positive and finite'')
     else if \<not> isfinite stop_distance \<or> nonpos stop_distance
       then Inl (ValueError ''stop distance must be positive and finite'')
     else if \<not> isfinite target_multiple_r \<or> nonpos target_multiple_r
       then Inl (ValueError ''target_multiple_r must be positive and finite'')
     else let distance = fmul stop_distance target_multiple_r in
     if direction = NO_TRADE then Inl (ValueError ''Risk Engine requires LONG or SHORT'')
     else let target = (if direction = LONG then fadd entry_price distance
                        else fsub entry_price distance) in
     if \<not> isfinite target \<or> nonpos target
       then Inl (ValueError ''target must be positive and finite'')
     else Inr target)"

section \<open>Sizing\<close>

record PositionSizingResult =
  ps_risk_budget :: pyfloat
  ps_stop_distance :: pyfloat
  ps_raw_quantity :: pyfloat
  ps_quantity :: pyfloat

definition tolerance :: pyfloat where
  "tolerance = lit (1 / 10 ^ 12)"

definition floor_to_step :: "pyfloat \<Rightarrow> pyfloat \<Rightarrow> pyfloat res" where
  "floor_to_step quantity step =
    (if \<not> isfinite quantity \<or> fneg_lt quantity
       then Inl (ValueError ''quantity must be finite and non-negative'')
     else if \<not> isfinite step \<or> nonpos step
       then Inl (ValueError ''quantity step must be finite and positive'')
     else rbind (fdiv (fadd quantity tolerance) step) (\<lambda>steps.
       rbind (ffloor steps) (\<lambda>n. rbind (float_of_int n) (\<lambda>f. Inr (fmul f step)))))"

definition calculate_position_size ::
  "pyfloat \<Rightarrow> pyfloat \<Rightarrow> pyfloat \<Rightarrow> pyfloat \<Rightarrow> PositionSizingResult res" where
  "calculate_position_size available_equity risk_per_trade stop_distance quantity_step =
    (if \<not> isfinite available_equity \<or> nonpos available_equity
       then Inl (ValueError ''available_equity must be positive and finite'')
     else if \<not> isfinite risk_per_trade \<or> \<not> (fpos risk_per_trade \<and> fle risk_per_trade (Fin 1))
       then Inl (ValueError ''risk_per_trade must be in (0, 1]'')
     else if \<not> isfinite stop_distance \<or> nonpos stop_distance
       then Inl (ValueError ''stop_distance must be positive and finite'')
     else let risk_budget = fmul available_equity risk_per_trade in
     rbind (fdiv risk_budget stop_distance) (\<lambda>raw_quantity.
     rbind (floor_to_step raw_quantity quantity_step) (\<lambda>quantity.
       Inr \<lparr>ps_risk_budget = risk_budget, ps_stop_distance = stop_distance,
         ps_raw_quantity = raw_quantity, ps_quantity = quantity\<rparr>)))"

section \<open>Exposure\<close>

definition gross_exposure_after :: "pyfloat \<Rightarrow> pyfloat \<Rightarrow> pyfloat \<Rightarrow> pyfloat res" where
  "gross_exposure_after current_gross_exposure entry_price quantity =
    (if \<not> list_all isfinite [current_gross_exposure, entry_price, quantity]
       then Inl (ValueError ''exposure inputs must be finite'')
     else if fneg_lt current_gross_exposure
       then Inl (ValueError ''current gross exposure must be non-negative'')
     else if nonpos entry_price then Inl (ValueError ''entry price must be positive'')
     else if fneg_lt quantity then Inl (ValueError ''quantity must be non-negative'')
     else Inr (fadd current_gross_exposure (fmul entry_price quantity)))"

definition max_quantity_for_exposure :: "pyfloat \<Rightarrow> pyfloat \<Rightarrow> pyfloat \<Rightarrow> pyfloat res" where
  "max_quantity_for_exposure available_exposure entry_price quantity_step =
    (if \<not> isfinite available_exposure \<or> fneg_lt available_exposure
       then Inl (ValueError ''available_exposure must be finite and non-negative'')
     else if \<not> isfinite entry_price \<or> nonpos entry_price
       then Inl (ValueError ''entry_price must be positive and finite'')
     else if \<not> isfinite quantity_step \<or> nonpos quantity_step
       then Inl (ValueError ''quantity_step must be positive and finite'')
     else rbind (fdiv available_exposure entry_price) (\<lambda>raw. floor_to_step raw quantity_step))"

definition projected_gross_exposure ::
  "pyfloat \<Rightarrow> pyfloat \<Rightarrow> pyfloat \<Rightarrow> pyfloat \<Rightarrow> pyfloat res" where
  "projected_gross_exposure current_gross_exposure existing_quantity projected_quantity mark_price =
    (if \<not> list_all isfinite [current_gross_exposure, existing_quantity, projected_quantity, mark_price]
       then Inl (ValueError ''projected exposure inputs must be finite'')
     else if fneg_lt current_gross_exposure
       then Inl (ValueError ''current gross exposure must be non-negative'')
     else if nonpos mark_price then Inl (ValueError ''mark price must be positive'')
     else let current_symbol_exposure = fmul (fabs existing_quantity) mark_price;
              projected_symbol_exposure = fmul (fabs projected_quantity) mark_price;
              result = fadd (fsub current_gross_exposure current_symbol_exposure)
                 projected_symbol_exposure in
     if fless result (fneg tolerance)
       then Inl (ValueError ''projected gross exposure cannot be negative'')
     else Inr (fmax (Fin 0) result))"

section \<open>Concentration and correlation\<close>

definition within_budget :: "pyfloat \<Rightarrow> pyfloat \<Rightarrow> pyfloat \<Rightarrow> pyfloat \<Rightarrow> bool" where
  "within_budget current proposed equity fraction =
     fle (fadd current proposed) (fadd (fmul equity fraction) tolerance)"

definition exposure_of :: "(string, pyfloat) dict \<Rightarrow> string \<Rightarrow> pyfloat" where
  "exposure_of d k = (case dict_get d k of None \<Rightarrow> Fin 0 | Some x \<Rightarrow> x)"

definition check_symbol_exposure ::
  "string \<Rightarrow> pyfloat \<Rightarrow> (string, pyfloat) dict \<Rightarrow> pyfloat option \<Rightarrow> pyfloat \<Rightarrow> bool" where
  "check_symbol_exposure symbol proposed_value existing_by_symbol limit equity =
    (case limit of
       None \<Rightarrow> True
     | Some fraction \<Rightarrow>
         within_budget (exposure_of existing_by_symbol (upper symbol)) proposed_value equity fraction)"

definition check_sector_exposure ::
  "string option \<Rightarrow> pyfloat \<Rightarrow> (string, pyfloat) dict \<Rightarrow> pyfloat option \<Rightarrow> pyfloat \<Rightarrow> bool" where
  "check_sector_exposure sector proposed_value existing_by_sector limit equity =
    (case (limit, sector) of
       (Some fraction, Some (c # cs)) \<Rightarrow>
         within_budget (exposure_of existing_by_sector (c # cs)) proposed_value equity fraction
     | _ \<Rightarrow> True)"

text \<open>The loop over the positions, adding the exposure of the correlated ones.\<close>

fun correlated_value ::
  "string \<Rightarrow> (string, pyfloat) dict \<Rightarrow> pyfloat \<Rightarrow> (string, pyfloat) dict \<Rightarrow> pyfloat \<Rightarrow> pyfloat" where
  "correlated_value symbol corr minimum [] acc = acc"
| "correlated_value symbol corr minimum ((other, exposure) # rest) acc =
    (if upper other = upper symbol then correlated_value symbol corr minimum rest acc
     else correlated_value symbol corr minimum rest
       (if opt_holds (\<lambda>c. fle minimum (fabs c)) (dict_get corr (upper other))
        then fadd acc exposure else acc))"

definition correlation_exposure_allowed ::
  "string \<Rightarrow> pyfloat \<Rightarrow> (string, pyfloat) dict \<Rightarrow> (string, pyfloat) dict \<Rightarrow> pyfloat
     \<Rightarrow> pyfloat option \<Rightarrow> pyfloat option \<Rightarrow> bool" where
  "correlation_exposure_allowed symbol proposed_value existing_by_symbol correlations equity minimum limit =
    (case (minimum, limit) of
       (Some m, Some fraction) \<Rightarrow>
         within_budget (correlated_value symbol correlations m existing_by_symbol (Fin 0))
           proposed_value equity fraction
     | _ \<Rightarrow> True)"

section \<open>Session limits, volatility, kill switch\<close>

record DailyRiskState =
  dr_day_start_equity :: pyfloat
  dr_realized_pnl :: pyfloat
  dr_unrealized_pnl :: pyfloat
  dr_trades_today :: int
  dr_open_positions :: int

definition dr_daily_pnl :: "DailyRiskState \<Rightarrow> pyfloat" where
  "dr_daily_pnl s = fadd (dr_realized_pnl s) (dr_unrealized_pnl s)"

definition daily_loss_limit_reached :: "DailyRiskState \<Rightarrow> pyfloat \<Rightarrow> bool" where
  "daily_loss_limit_reached s max_daily_loss =
     fle (dr_daily_pnl s) (fneg (fmul (dr_day_start_equity s) max_daily_loss))"

definition volatility_size_factor ::
  "pyfloat \<Rightarrow> pyfloat option \<Rightarrow> bool \<Rightarrow> pyfloat \<Rightarrow> pyfloat option \<Rightarrow> pyfloat res" where
  "volatility_size_factor entry_price atr high_volatility factor max_atr_fraction =
    (if nonpos entry_price \<or> \<not> isfinite entry_price
       then Inl (ValueError ''entry_price must be positive and finite'')
     else if \<not> isfinite factor \<or> \<not> (fpos factor \<and> fle factor (Fin 1))
       then Inl (ValueError ''high_volatility_factor must be in (0, 1]'')
     else let normal = (if high_volatility then factor else Fin 1) in
     (case atr of
        None \<Rightarrow> Inr normal
      | Some a \<Rightarrow>
          if \<not> isfinite a \<or> fneg_lt a then Inl (ValueError ''atr must be finite and non-negative'')
          else (case max_atr_fraction of
              None \<Rightarrow> Inr normal
            | Some m \<Rightarrow> rbind (fdiv a entry_price) (\<lambda>q.
                Inr (if fless m q then Fin 0 else normal)))))"

record KillSwitchState =
  ks_manual :: bool
  ks_data_failure :: bool
  ks_broker_failure :: bool
  ks_abnormal_latency :: bool
  ks_position_mismatch :: bool
  ks_invalid_price :: bool
  ks_duplicate_order :: bool
  ks_connectivity_failure :: bool
  ks_model_degradation :: bool

definition kill_switch_state_active :: "KillSwitchState \<Rightarrow> bool" where
  "kill_switch_state_active s = list_ex id [ks_manual s, ks_data_failure s, ks_broker_failure s,
     ks_abnormal_latency s, ks_position_mismatch s, ks_invalid_price s, ks_duplicate_order s,
     ks_connectivity_failure s, ks_model_degradation s]"

section \<open>Facts\<close>

lemma validate_stop_sound:
  assumes "validate_stop dir entry stop = Inr d"
  shows "isfinite entry" "fpos entry" "isfinite stop" "fpos stop" "isfinite d" "fpos d"
    "dir = LONG \<Longrightarrow> fless stop entry" "dir = SHORT \<Longrightarrow> fless entry stop" "dir \<noteq> NO_TRADE"
  using assms
  by (cases entry; cases stop; auto simp: validate_stop_def Let_def finite_nonpos split: if_splits)+

lemma validate_stop_total:
  assumes "py_value entry" "py_value stop" "isfinite entry" "isfinite stop" "fpos entry" "fpos stop"
    "if dir = LONG then fless stop entry else dir = SHORT \<and> fless entry stop"
    "isfinite (fsub entry stop)"
  shows "validate_stop dir entry stop = Inr (fabs (fsub entry stop))"
proof -
  obtain e s where es: "entry = Fin e" "stop = Fin s" "is_double e" "is_double s" "0 < e" "0 < s"
    using assms(1-6) by (cases entry; cases stop) auto
  have "fpos (fabs (fsub entry stop)) \<and> isfinite (fabs (fsub entry stop))"
  proof (cases "s < e")
    case True
    then show ?thesis using double_diff_pos [of e s] es assms(8)
      by (cases "rnd (e - s)") auto
  next
    case False
    then have "e < s" using assms(7) es by (auto split: if_splits)
    then have "fpos (rnd (s - e))" using double_diff_pos [of s e] es by simp
    moreover obtain y where y: "rnd (e - s) = Fin y" using assms(8) es by (cases "rnd (e - s)") auto
    then have "rnd (s - e) = Fin (- y)" using double.r_minus [of "s - e" y] by (simp add: minus_diff_eq)
    ultimately show ?thesis using es y by simp
  qed
  then have "\<not> nonpos (fabs (fsub entry stop)) \<and> isfinite (fabs (fsub entry stop))"
    by (cases "fabs (fsub entry stop)") auto
  then show ?thesis using es assms(7) by (auto simp: validate_stop_def Let_def split: if_splits)
qed

lemma build_target_sound:
  assumes "build_target dir entry gap r = Inr t"
  shows "isfinite t" "fpos t" "dir = LONG \<Longrightarrow> t = fadd entry (fmul gap r)"
    "dir = SHORT \<Longrightarrow> t = fsub entry (fmul gap r)" "dir \<noteq> NO_TRADE"
  using assms by (auto simp: build_target_def Let_def finite_nonpos split: if_splits)

lemma volatility_factor_unit:
  "volatility_size_factor e atr hv f m = Inr x \<Longrightarrow> nonneg x \<and> fle x (Fin 1) \<and> isfinite x"
  by (auto simp: volatility_size_factor_def Let_def fless_imp_fle split: if_splits option.splits)

lemma within_budget_mono:
  "within_budget c p e f \<Longrightarrow> fle p' p \<Longrightarrow> isfinite c \<Longrightarrow> within_budget c p' e f"
  unfolding within_budget_def fadd_comm [of c]
  by (rule fle_trans [rotated]) (auto intro: fadd_mono)

lemma projected_gross_exposure_nonneg:
  "projected_gross_exposure g e p m = Inr x \<Longrightarrow> \<not> isnan x \<Longrightarrow> nonneg x"
  by (auto simp: projected_gross_exposure_def Let_def fmax_def fle_refl split: if_splits
      dest: fless_imp_fle)

lemma fmax_zero_not_nan: "\<not> isnan (fmax (Fin 0) x)"
  by (cases x) (auto simp: fmax_def)

lemma gross_exposure_not_nan:
  "gross_exposure_after g e q = Inr x \<Longrightarrow> \<not> isnan x"
  "projected_gross_exposure g n p m = Inr x \<Longrightarrow> \<not> isnan x"
proof -
  have "isfinite e \<Longrightarrow> isfinite q \<Longrightarrow> \<not> isnan (fmul e q)" by (cases e; cases q) auto
  then show "gross_exposure_after g e q = Inr x \<Longrightarrow> \<not> isnan x"
    unfolding gross_exposure_after_def by (subst (asm) fadd_comm) (auto simp: fadd_not_nan split: if_splits)
  show "projected_gross_exposure g n p m = Inr x \<Longrightarrow> \<not> isnan x"
    unfolding projected_gross_exposure_def using fmax_zero_not_nan
    by (auto simp: Let_def split: if_splits)
qed

lemma floor_to_step_finite_args:
  "floor_to_step q s = Inr x \<Longrightarrow> isfinite q \<and> nonneg q \<and> isfinite s \<and> fpos s"
  by (cases q; cases s) (auto simp: floor_to_step_def split: if_splits)

lemma tolerance_pos: "fpos tolerance" "isfinite tolerance"
  by code_simp+

lemma floor_to_step_nonneg:
  assumes "floor_to_step q s = Inr x"
  shows "nonneg x"
proof -
  obtain a b where ab: "q = Fin a" "0 \<le> a" "s = Fin b" "0 < b"
    using floor_to_step_finite_args [OF assms] by (auto simp: isfinite_iff)
  obtain t where t: "tolerance = Fin t" "0 < t"
    using tolerance_pos finite_pos_iff by blast
  have sum: "nonneg (fadd q tolerance)"
    using ab tolerance_pos by (intro fadd_nonneg) (auto intro: fless_imp_fle)
  obtain steps n f where steps: "fdiv (fadd q tolerance) s = Inr steps" "ffloor steps = Inr n"
      "float_of_int n = Inr f" "x = fmul f s"
    using assms by (auto simp: floor_to_step_def split: if_splits)
  obtain y where y: "steps = Fin y" using steps(2) by (cases steps) auto
  have "nonneg steps"
  proof (cases "fadd q tolerance")
    case (Fin z)
    then show ?thesis using sum fdiv_nonneg [of "fadd q tolerance" s steps] steps(1) ab by simp
  qed (use sum steps y ab in \<open>auto simp: fdiv_def signed_inf_def split: if_splits\<close>)
  then have "0 \<le> n" using steps(2) y by auto
  then have "nonneg f" using steps(3) by (auto simp: float_of_int_def Let_def split: if_splits intro: double.nonneg)
  moreover have "isfinite f" using steps(3) by (auto simp: float_of_int_def Let_def split: if_splits)
  ultimately show "nonneg x" using steps(4) ab by (auto intro!: fmul_nonneg)
qed

end
