(* ===== verification/Strategy.thy ===== *)
theory Strategy
  imports StrategyModels
begin

text \<open>
  The strategy layer: \<open>trading/strategy/baseline.py\<close> (the deterministic setup rules),
  \<open>policy.py\<close> (prediction evidence and its policy), \<open>engine.py\<close> (the decision with its
  trace), \<open>candidate_adapter.py\<close> and \<open>prediction_adapter.py\<close>.
\<close>

section \<open>The baseline rules\<close>

definition numeric_columns :: "string list" where
  "numeric_columns = [''regime_probability'', ''vwap_distance_pct'', ''rvol_20'']"

definition structure_columns :: "string list" where
  "structure_columns = [''higher_high'', ''higher_low'', ''lower_low'', ''lower_high'']"

definition has_column :: "row \<Rightarrow> string \<Rightarrow> bool" where
  "has_column r col = (dict_get (row_cells r) col \<noteq> None)"

fun check_numeric :: "cell option \<Rightarrow> string \<Rightarrow> unit res" where
  "check_numeric None col = Inl (KeyError col)"
| "check_numeric (Some v) col =
    (if cell_missing v then Inl (ValueError (col @ '' must not be missing''))
     else if \<not> isfinite (cell_float v) then Inl (ValueError (col @ '' must be finite''))
     else Inr ())"

fun check_flag :: "cell option \<Rightarrow> string \<Rightarrow> unit res" where
  "check_flag None col = Inl (KeyError col)"
| "check_flag (Some v) col =
    (if cell_missing v then Inl (ValueError (col @ '' must not be missing''))
     else (case v of Flag b \<Rightarrow> Inr () | _ \<Rightarrow> Inl (ValueError (col @ '' must be boolean''))))"

fun check_all :: "('a \<Rightarrow> unit res) \<Rightarrow> 'a list \<Rightarrow> unit res" where
  "check_all f [] = Inr ()"
| "check_all f (x # xs) = rbind (f x) (\<lambda>_. check_all f xs)"

lemma check_all_Inr: "check_all f xs = Inr () \<longleftrightarrow> (\<forall>x \<in> set xs. f x = Inr ())"
  by (induction xs) auto

definition validate_row :: "row \<Rightarrow> unit res" where
  "validate_row r =
    (if row_timestamp r = None \<or> row_symbol r = None \<or> row_regime r = None \<or>
        \<not> list_all (has_column r) (numeric_columns @ structure_columns)
       then Inl (ValueError ''strategy input is missing required columns'')
     else rbind (check_all (\<lambda>col. check_numeric (dict_get (row_cells r) col) col) numeric_columns)
       (\<lambda>_. check_all (\<lambda>col. check_flag (dict_get (row_cells r) col) col) structure_columns))"

text \<open>\<open>float(row[col])\<close> and \<open>bool(row[col])\<close> of a validated row.\<close>

definition row_number :: "row \<Rightarrow> string \<Rightarrow> pyfloat" where
  "row_number r col = (case dict_get (row_cells r) col of None \<Rightarrow> NaN | Some v \<Rightarrow> cell_float v)"

definition row_flag :: "row \<Rightarrow> string \<Rightarrow> bool" where
  "row_flag r col = (dict_get (row_cells r) col = Some (Flag True))"

definition baseline_decision ::
  "row \<Rightarrow> StrategyDirection \<Rightarrow> string \<Rightarrow> BaselineStrategyConfig \<Rightarrow> NoTradeReason option
     \<Rightarrow> StrategyDecision res" where
  "baseline_decision r dir why cfg primary =
    (let reason = (if dir = NO_TRADE \<and> primary = None then Some STRATEGY_CONDITION_FAILED
                   else primary) in
     make_strategy_decision
       ((decision_defaults (the (row_timestamp r)) (the (row_symbol r)) dir
          (bc_strategy_version cfg) why)\<lparr>sd_primary_reason := reason\<rparr>))"

definition long_setup :: "row \<Rightarrow> BaselineStrategyConfig \<Rightarrow> bool" where
  "long_setup r cfg = (row_regime r = Some ''TREND_UP'' \<and>
     fpos (row_number r ''vwap_distance_pct'') \<and>
     fle (bc_minimum_rvol cfg) (row_number r ''rvol_20'') \<and>
     row_flag r ''higher_high'' \<and> row_flag r ''higher_low'')"

definition short_setup :: "row \<Rightarrow> BaselineStrategyConfig \<Rightarrow> bool" where
  "short_setup r cfg = (row_regime r = Some ''TREND_DOWN'' \<and>
     fneg_lt (row_number r ''vwap_distance_pct'') \<and>
     fle (bc_minimum_rvol cfg) (row_number r ''rvol_20'') \<and>
     row_flag r ''lower_low'' \<and> row_flag r ''lower_high'')"

definition evaluate_row :: "row \<Rightarrow> BaselineStrategyConfig \<Rightarrow> StrategyDecision res" where
  "evaluate_row r cfg = rbind (validate_row r) (\<lambda>_.
     if fless (row_number r ''regime_probability'') (bc_minimum_regime_probability cfg)
       then baseline_decision r NO_TRADE ''Regime probability below baseline threshold.'' cfg
         (Some REGIME_CONFIDENCE_TOO_LOW)
     else if long_setup r cfg
       then baseline_decision r LONG
         ''TREND_UP + above VWAP + sufficient RVOL + higher-high + higher-low.'' cfg None
     else if short_setup r cfg
       then baseline_decision r SHORT
         ''TREND_DOWN + below VWAP + sufficient RVOL + lower-low + lower-high.'' cfg None
     else baseline_decision r NO_TRADE ''Baseline conditions are not simultaneously satisfied.''
       cfg None)"

text \<open>\<open>evaluate\<close>: one decision per row, in order; the first invalid row raises.\<close>

fun evaluate_rows :: "row list \<Rightarrow> BaselineStrategyConfig \<Rightarrow> StrategyDecision list res" where
  "evaluate_rows [] cfg = Inr []"
| "evaluate_rows (r # rs) cfg = rbind (evaluate_row r cfg) (\<lambda>d.
     rbind (evaluate_rows rs cfg) (\<lambda>ds. Inr (d # ds)))"

lemma long_short_exclusive: "\<not> (long_setup r cfg \<and> short_setup r cfg)"
  by (auto simp: long_setup_def short_setup_def)

lemma baseline_decision_direction:
  "baseline_decision r dir why cfg p = Inr d \<Longrightarrow> sd_direction d = dir \<and> sd_rationale d = why"
  by (auto simp: baseline_decision_def decision_defaults_def Let_def
      dest!: make_strategy_decision_fields)

lemma evaluate_row_direction:
  assumes "evaluate_row r cfg = Inr d"
  shows "sd_direction d =
    (if fless (row_number r ''regime_probability'') (bc_minimum_regime_probability cfg) then NO_TRADE
     else if long_setup r cfg then LONG else if short_setup r cfg then SHORT else NO_TRADE)"
  using assms by (auto simp: evaluate_row_def dest!: baseline_decision_direction split: if_splits)

lemma evaluate_row_valid: "evaluate_row r cfg = Inr d \<Longrightarrow> validate_row r = Inr ()"
  by (auto simp: evaluate_row_def)

section \<open>Prediction evidence\<close>

definition triplet_columns :: "string list" where
  "triplet_columns = [''LONG_SUCCESS'', ''SHORT_SUCCESS'', ''NO_EDGE'']"

text \<open>A missing column or a value without a float makes the triplet \<open>None\<close>.\<close>

definition probability_triplet :: "prediction \<Rightarrow> (pyfloat \<times> pyfloat \<times> pyfloat) option" where
  "probability_triplet p = (case pr_probabilities p of
      None \<Rightarrow> None
    | Some cols \<Rightarrow>
       (case map (dict_get cols) triplet_columns of
          [Some a, Some b, Some c] \<Rightarrow>
            (let values = [cell_float a, cell_float b, cell_float c] in
             if Missing \<in> {a, b, c} then None
             else if list_ex (\<lambda>x. \<not> isfinite x \<or> fneg_lt x) values then None
             else if fless (lit (1/10^8)) (fabs (fsub (fsum values) (Fin 1))) then None
             else Some (cell_float a, cell_float b, cell_float c))
        | _ \<Rightarrow> None))"

text \<open>Microseconds of \<open>to_pydatetime()\<close>, and \<open>total_seconds()\<close> of a difference.\<close>

definition micros :: "pytime \<Rightarrow> int" where
  "micros t = ns t div 1000"

definition seconds_between :: "pytime \<Rightarrow> pytime \<Rightarrow> pyfloat" where
  "seconds_between later earlier = rnd (of_int (micros later - micros earlier) / 1000000)"

fun insert_desc :: "pyfloat \<Rightarrow> pyfloat list \<Rightarrow> pyfloat list" where
  "insert_desc x [] = [x]"
| "insert_desc x (y # ys) = (if fless x y then y # insert_desc x ys else x # y # ys)"

definition sorted_desc :: "pyfloat list \<Rightarrow> pyfloat list" where
  "sorted_desc xs = foldr insert_desc xs []"

type_synonym evidence = "string option \<times> pyfloat option \<times> pyfloat option \<times> NoTradeReason option"

definition prediction_evidence ::
  "prediction option \<Rightarrow> pytime \<Rightarrow> string \<Rightarrow> StrategyConfig \<Rightarrow> evidence" where
  "prediction_evidence prediction timestamp symbol cfg =
    (case prediction of
       None \<Rightarrow> (None, None, None, None)
     | Some p \<Rightarrow>
       (case pr_timestamp p of
          None \<Rightarrow> (None, None, None, Some INVALID_INPUT)
        | Some pt \<Rightarrow>
          if symbol_of (pr_symbol p) \<noteq> upper symbol then (None, None, None, Some INVALID_INPUT)
          else if \<not> aware pt then (None, None, None, Some INVALID_INPUT)
          else let age = seconds_between timestamp pt in
          if fneg_lt age \<or> fless (Fin (of_int (sc_prediction_max_age_seconds cfg))) age
            then (None, None, None, Some STALE_PREDICTION)
          else (case probability_triplet p of
              None \<Rightarrow> (None, None, None, Some INVALID_INPUT)
            | Some (p_long, p_short, p_no_edge) \<Rightarrow>
                let ordered = sorted_desc [p_long, p_short, p_no_edge];
                    directional = fmax p_long p_short;
                    margin = fsub (ordered ! 0) (ordered ! 1);
                    cls = (if fle p_short p_long \<and> fle p_no_edge p_long then ''LONG_SUCCESS''
                           else if fle p_long p_short \<and> fle p_no_edge p_short then ''SHORT_SUCCESS''
                           else ''NO_EDGE'')
                in (Some cls, Some directional, Some margin, None))))"

definition prediction_allows_direction ::
  "string option \<Rightarrow> StrategyDirection \<Rightarrow> StrategyConfig \<Rightarrow> pyfloat option \<Rightarrow> pyfloat option
     \<Rightarrow> NoTradeReason option" where
  "prediction_allows_direction predicted dir cfg probability margin =
    (case predicted of
       None \<Rightarrow> None
     | Some cls \<Rightarrow>
       if cls = ''NO_EDGE'' \<and> fpos (sc_prediction_min_probability cfg) then Some NO_EDGE
       else if opt_holds (\<lambda>x. fless x (sc_prediction_min_probability cfg)) probability
         then Some PREDICTION_EDGE_TOO_WEAK
       else if opt_holds (\<lambda>x. fless x (sc_prediction_min_margin cfg)) margin
         then Some PREDICTION_EDGE_TOO_WEAK
       else if sc_require_prediction_direction_alignment cfg \<and>
           ((dir = LONG \<and> cls \<noteq> ''LONG_SUCCESS'') \<or> (dir = SHORT \<and> cls \<noteq> ''SHORT_SUCCESS''))
         then Some SIGNAL_CONFLICT
       else None)"

definition expected_value ::
  "pyfloat \<Rightarrow> pyfloat \<Rightarrow> pyfloat \<Rightarrow> pyfloat \<Rightarrow> pyfloat res" where
  "expected_value win reward loss cost =
    (if list_ex (\<lambda>x. \<not> isfinite x) [win, reward, loss, cost]
       then Inl (ValueError ''expected-value inputs must be finite'')
     else if \<not> in_unit win then Inl (ValueError ''win_probability must be in [0, 1]'')
     else if fneg_lt (fmin (fmin reward loss) cost)
       then Inl (ValueError ''reward/loss/cost must be non-negative'')
     else Inr (fsub (fsub (fmul win reward) (fmul (fsub (Fin 1) win) loss)) cost))"

section \<open>The strategy engine\<close>

record StrategyTrace =
  st_stages :: "string list"
  st_failed_reasons :: "NoTradeReason list"

definition required_features :: "string list" where
  "required_features = [''vwap_distance_pct'', ''rvol_20'', ''higher_high'', ''higher_low'',
     ''lower_low'', ''lower_high'']"

definition check_context :: "pytime \<Rightarrow> string \<times> layer_context option \<times> bool \<Rightarrow> unit res" where
  "check_context now = (\<lambda>(name, cx, exact). case cx of
      None \<Rightarrow> Inr ()
    | Some c \<Rightarrow> (case cx_timestamp c of
        None \<Rightarrow> Inr ()
      | Some t \<Rightarrow>
          if \<not> aware t then Inl (ValueError (name @ '' context timestamp must be timezone-aware''))
          else if ns t > ns now
            then Inl (ValueError (name @ '' context cannot be from the future''))
          else if exact \<and> ns t \<noteq> ns now
            then Inl (ValueError ''analysis context timestamp must match strategy timestamp'')
          else Inr ()))"

definition validate_input :: "StrategyInput \<Rightarrow> unit res" where
  "validate_input v =
    (if list_ex (\<lambda>c. dict_get (si_decision_features v) c = None) required_features
       then Inl (ValueError ''strategy input is missing required fields'')
     else if si_regime v = None \<or> si_regime_probability v = None
       then Inl (ValueError ''strategy input requires regime and regime_probability'')
     else rbind (check_all (check_context (si_timestamp v))
        [(''analysis'', si_analysis_context v, True),
         (''market'', si_market_context v, False),
         (''research'', si_research_context v, False)]) (\<lambda>_.
       (case si_prediction v of
          None \<Rightarrow> Inr ()
        | Some p \<Rightarrow>
            let t = (case pr_timestamp p of None \<Rightarrow> si_timestamp v | Some t \<Rightarrow> t) in
            if \<not> aware t then Inl (ValueError ''prediction timestamp must be timezone-aware'')
            else if ns t > ns (si_timestamp v)
              then Inl (ValueError ''prediction cannot be from the future'')
            else if symbol_of (pr_symbol p) \<noteq> si_symbol v
              then Inl (ValueError ''prediction symbol must match strategy symbol'')
            else Inr ())))"

definition regime_reason :: "StrategyConfig \<Rightarrow> StrategyInput \<Rightarrow> NoTradeReason option" where
  "regime_reason cfg v =
    (if opt_holds (\<lambda>p. fless p (bc_minimum_regime_probability (sc_baseline cfg)))
          (si_regime_probability v) then Some REGIME_CONFIDENCE_TOO_LOW
     else if \<not> opt_holds (\<lambda>g. g \<in> set (sc_allowed_regimes cfg)) (si_regime v)
       then Some REGIME_NOT_ELIGIBLE
     else None)"

definition analysis_reason ::
  "StrategyConfig \<Rightarrow> StrategyInput \<Rightarrow> StrategyDirection \<Rightarrow> NoTradeReason option" where
  "analysis_reason cfg v dir =
    (if \<not> sc_require_analysis_alignment cfg then None
     else (case si_analysis_context v of
         None \<Rightarrow> Some MISSING_CONTEXT
       | Some c \<Rightarrow>
           let expected = (if dir = LONG then ''BULLISH'' else ''BEARISH'') in
           if cx_analytical_direction c \<noteq> Some expected then Some SIGNAL_CONFLICT else None))"

definition liquidity_reason :: "StrategyConfig \<Rightarrow> StrategyInput \<Rightarrow> NoTradeReason option" where
  "liquidity_reason cfg v = (case si_liquidity_available v of
      None \<Rightarrow> if sc_require_liquidity_when_present cfg \<and> si_market_context v \<noteq> None
              then Some MISSING_CONTEXT else None
    | Some ok \<Rightarrow> if ok then None else Some NTR_LIQUIDITY_INSUFFICIENT)"

definition cost_reason :: "StrategyConfig \<Rightarrow> StrategyInput \<Rightarrow> NoTradeReason option" where
  "cost_reason cfg v = (case si_cost_fraction v of
      None \<Rightarrow> None
    | Some f \<Rightarrow>
        if fless (sc_max_cost_fraction cfg) f then Some COST_TOO_HIGH
        else if opt_holds fneg_lt (si_cost_estimate v) then Some INVALID_INPUT
        else None)"

text \<open>The fields every decision of the engine takes from its input.\<close>

definition engine_fields ::
  "StrategyConfig \<Rightarrow> StrategyInput \<Rightarrow> string option \<Rightarrow> pyfloat option \<Rightarrow> pyfloat option
     \<Rightarrow> StrategyDirection \<Rightarrow> string \<Rightarrow> StrategyDecision" where
  "engine_fields cfg v cls prob margin dir why =
    (decision_defaults (si_timestamp v) (si_symbol v) dir (sc_strategy_version cfg) why)
      \<lparr>sd_prediction_class := cls, sd_prediction_probability := prob,
       sd_prediction_margin := margin, sd_regime := si_regime v,
       sd_regime_probability := si_regime_probability v,
       sd_estimated_cost := si_cost_estimate v, sd_slippage_assumption_bps := si_slippage_bps v,
       sd_research_version := dict_get (si_versions v) ''research'',
       sd_analysis_version := dict_get (si_versions v) ''analysis'',
       sd_market_version := dict_get (si_versions v) ''market'',
       sd_prediction_model_version := Option.bind (si_prediction v) pr_model_version,
       sd_feature_version := dict_get (si_versions v) ''feature'',
       sd_cost_model_version := Some (sc_cost_model_version cfg)\<rparr>"

definition strategy_reject ::
  "StrategyConfig \<Rightarrow> StrategyInput \<Rightarrow> NoTradeReason \<Rightarrow> string list \<Rightarrow> string option \<Rightarrow> pyfloat option
     \<Rightarrow> pyfloat option \<Rightarrow> string option \<Rightarrow> (StrategyDecision \<times> StrategyTrace) res" where
  "strategy_reject cfg v reason stages cls prob margin rationale =
    rbind (make_strategy_decision
       ((engine_fields cfg v cls prob margin NO_TRADE
          (case rationale of Some (c # cs) \<Rightarrow> c # cs | _ \<Rightarrow> reason_value reason))
        \<lparr>sd_primary_reason := Some reason,
         sd_provenance := [(''strategy_id'', sc_strategy_id cfg),
           (''strategy_version'', sc_strategy_version cfg), (''reason'', reason_value reason)]\<rparr>))
     (\<lambda>d. Inr (d, \<lparr>st_stages = stages, st_failed_reasons = [reason]\<rparr>))"

fun first_reason :: "(string \<times> NoTradeReason option) list \<Rightarrow> (string \<times> NoTradeReason) option" where
  "first_reason [] = None"
| "first_reason ((stage, None) # rest) = first_reason rest"
| "first_reason ((stage, Some r) # rest) = Some (stage, r)"

definition strategy_row :: "StrategyInput \<Rightarrow> row" where
  "strategy_row v = \<lparr>row_timestamp = Some (si_timestamp v), row_symbol = Some (si_symbol v),
     row_regime = si_regime v,
     row_cells = dict_set ''regime_probability''
       (case si_regime_probability v of None \<Rightarrow> Missing | Some p \<Rightarrow> Num p)
       (si_decision_features v)\<rparr>"

definition policy_checks ::
  "StrategyConfig \<Rightarrow> StrategyInput \<Rightarrow> StrategyDirection \<Rightarrow> string option \<Rightarrow> pyfloat option
     \<Rightarrow> pyfloat option \<Rightarrow> (string \<times> NoTradeReason option) list" where
  "policy_checks cfg v dir cls prob margin =
    [(''REGIME_FILTER'', regime_reason cfg v),
     (''PREDICTION_POLICY'', prediction_allows_direction cls dir cfg prob margin),
     (''ANALYSIS_FILTER'', analysis_reason cfg v dir),
     (''LIQUIDITY_FILTER'', liquidity_reason cfg v),
     (''COST_FILTER'', cost_reason cfg v)]"

definition decide :: "StrategyConfig \<Rightarrow> StrategyInput \<Rightarrow> (StrategyDecision \<times> StrategyTrace) res" where
  "decide cfg v = rbind (validate_input v) (\<lambda>_.
    (case prediction_evidence (si_prediction v) (si_timestamp v) (si_symbol v) cfg of
       (cls, prob, margin, err) \<Rightarrow>
    let stages = [''INPUT_VALIDATION'', ''CONTEXT_VALIDATION'', ''PREDICTION_VALIDATION''] in
    (case err of
       Some reason \<Rightarrow> strategy_reject cfg v reason stages cls prob margin None
     | None \<Rightarrow>
    rbind (evaluate_row (strategy_row v) (sc_baseline cfg)) (\<lambda>baseline.
    let stages = stages @ [''BASELINE_STRATEGY'']; dir = sd_direction baseline;
        why = Some (sd_rationale baseline) in
    (case first_reason (policy_checks cfg v dir cls prob margin) of
       Some (stage, reason) \<Rightarrow>
         strategy_reject cfg v reason (stages @ [stage]) cls prob margin why
     | None \<Rightarrow>
    if dir = NO_TRADE then
      strategy_reject cfg v
        (if \<not> opt_holds (\<lambda>g. g \<in> set (sc_allowed_regimes cfg)) (si_regime v)
         then REGIME_NOT_ELIGIBLE else STRATEGY_CONDITION_FAILED)
        (stages @ [''FINAL_DECISION'']) cls prob margin why
    else
      rbind (make_strategy_decision
         ((engine_fields cfg v cls prob margin dir (sd_rationale baseline))
          \<lparr>sd_provenance := [(''strategy_id'', sc_strategy_id cfg),
             (''strategy_version'', sc_strategy_version cfg),
             (''candidate_policy_version'', sc_candidate_policy_version cfg)],
           sd_features := si_decision_features v\<rparr>))
       (\<lambda>d. Inr (d, \<lparr>st_stages = stages @ [''FINAL_DECISION''], st_failed_reasons = []\<rparr>)))))))"

section \<open>From a decision to a candidate\<close>

definition build_candidate_from_strategy ::
  "StrategyDecision \<Rightarrow> row \<Rightarrow> CandidateConfig \<Rightarrow> TradeCandidate res" where
  "build_candidate_from_strategy d r cfg =
    (if sd_direction d = NO_TRADE
       then Inl (ValueError ''NO_TRADE decisions cannot produce TradeCandidate'')
     else if \<not> opt_holds aware (row_timestamp r)
       then Inl (ValueError ''candidate row timestamp must be timezone-aware'')
     else if \<not> opt_holds (\<lambda>t. time_eq t (sd_timestamp d)) (row_timestamp r)
       then Inl (ValueError ''candidate row timestamp must match strategy timestamp'')
     else if symbol_of (case row_symbol r of None \<Rightarrow> [] | Some s \<Rightarrow> s) \<noteq> sd_symbol d
       then Inl (ValueError ''candidate row symbol must match strategy symbol'')
     else rbind (build_candidate r (if sd_direction d = LONG then CD_LONG else CD_SHORT) cfg)
       (\<lambda>c. rbind (validate_candidate c) (\<lambda>_. Inr c)))"

definition strategy_from_prediction ::
  "prediction \<Rightarrow> row \<Rightarrow> string \<Rightarrow> pyfloat \<Rightarrow> BaselineStrategyConfig \<Rightarrow> StrategyDecision res" where
  "strategy_from_prediction p features regime regime_probability cfg =
    evaluate_row (features\<lparr>row_timestamp := pr_timestamp p, row_symbol := Some (pr_symbol p),
       row_regime := Some regime,
       row_cells := dict_set ''regime_probability'' (Num regime_probability) (row_cells features)\<rparr>)
      cfg"

text \<open>\<open>coerce_config\<close>: the legacy baseline configuration becomes an engine configuration.\<close>

datatype config_arg = NoConfig | EngineConfig StrategyConfig | LegacyConfig BaselineStrategyConfig

fun coerce_config :: "config_arg \<Rightarrow> StrategyConfig res" where
  "coerce_config NoConfig = make_strategy_config default_strategy_config"
| "coerce_config (EngineConfig c) = Inr c"
| "coerce_config (LegacyConfig b) = make_strategy_config (default_strategy_config\<lparr>sc_baseline := b\<rparr>)"

section \<open>What a decision guarantees\<close>

lemma strategy_reject_result:
  assumes "strategy_reject cfg v reason stages cls prob margin why = Inr (d, tr)"
  shows "decision_ok d \<and> sd_direction d = NO_TRADE \<and> sd_primary_reason d = Some reason \<and>
    st_failed_reasons tr = [reason] \<and> sd_timestamp d = si_timestamp v \<and>
    sd_symbol d = symbol_of (si_symbol v)"
proof -
  from assms obtain d0 where d0: "make_strategy_decision d0 = Inr d" "sd_direction d0 = NO_TRADE"
      "sd_primary_reason d0 = Some reason" "sd_timestamp d0 = si_timestamp v"
      "sd_symbol d0 = si_symbol v" and tr: "st_failed_reasons tr = [reason]"
    by (auto simp: strategy_reject_def engine_fields_def decision_defaults_def)
  show ?thesis
    using make_strategy_decision_ok [OF d0(1)] make_strategy_decision_fields [OF d0(1)] d0 tr by simp
qed

lemma first_reason_None: "first_reason cs = None \<longleftrightarrow> (\<forall>c \<in> set cs. snd c = None)"
  by (induction cs rule: first_reason.induct) auto

text \<open>The two ways \<open>decide\<close> returns: a rejection, or a trade that passed every stage.\<close>

lemma decide_cases:
  assumes "decide cfg v = Inr (d, tr)"
  obtains (reject) reason stages cls prob margin why where
      "strategy_reject cfg v reason stages cls prob margin why = Inr (d, tr)"
  | (trade) cls prob margin baseline d0 where
      "validate_input v = Inr ()"
      "prediction_evidence (si_prediction v) (si_timestamp v) (si_symbol v) cfg = (cls, prob, margin, None)"
      "evaluate_row (strategy_row v) (sc_baseline cfg) = Inr baseline"
      "first_reason (policy_checks cfg v (sd_direction baseline) cls prob margin) = None"
      "sd_direction baseline \<noteq> NO_TRADE"
      "d0 = (engine_fields cfg v cls prob margin (sd_direction baseline) (sd_rationale baseline))
          \<lparr>sd_provenance := [(''strategy_id'', sc_strategy_id cfg),
             (''strategy_version'', sc_strategy_version cfg),
             (''candidate_policy_version'', sc_candidate_policy_version cfg)],
           sd_features := si_decision_features v\<rparr>"
      "make_strategy_decision d0 = Inr d" "st_failed_reasons tr = []"
proof -
  obtain cls prob margin err where ev:
    "prediction_evidence (si_prediction v) (si_timestamp v) (si_symbol v) cfg = (cls, prob, margin, err)"
    by (cases "prediction_evidence (si_prediction v) (si_timestamp v) (si_symbol v) cfg")
  show thesis
  proof (cases err)
    case (Some reason)
    then show ?thesis using assms ev reject by (auto simp: decide_def)
  next
    case None
    obtain baseline where b: "evaluate_row (strategy_row v) (sc_baseline cfg) = Inr baseline"
        and valid: "validate_input v = Inr ()"
      using assms ev None by (auto simp: decide_def)
    show ?thesis
    proof (cases "first_reason (policy_checks cfg v (sd_direction baseline) cls prob margin)")
      case (Some sr)
      then show ?thesis using assms ev None b valid reject
        by (cases sr) (auto simp: decide_def Let_def)
    next
      case none: None
      show ?thesis
      proof (cases "sd_direction baseline = NO_TRADE")
        case True
        then show ?thesis using assms ev None b valid none reject
          by (auto simp: decide_def Let_def)
      next
        case False
        then show ?thesis using assms ev None b valid none trade
          by (auto simp: decide_def Let_def)
      qed
    qed
  qed
qed

definition not_from_future :: "StrategyInput \<Rightarrow> pytime option \<Rightarrow> bool" where
  "not_from_future v t = (\<not> opt_holds (\<lambda>u. \<not> aware u \<or> ns u > ns (si_timestamp v)) t)"

lemma check_context_not_from_future:
  "check_context (si_timestamp v) (n, cx, e) = Inr () \<Longrightarrow>
     not_from_future v (Option.bind cx cx_timestamp)"
  by (cases cx) (auto simp: check_context_def not_from_future_def split: option.splits if_splits)

lemma validate_input_causal:
  assumes "validate_input v = Inr ()"
  shows "not_from_future v (Option.bind (si_analysis_context v) cx_timestamp)"
    "not_from_future v (Option.bind (si_market_context v) cx_timestamp)"
    "not_from_future v (Option.bind (si_research_context v) cx_timestamp)"
    "not_from_future v (Option.bind (si_prediction v) pr_timestamp)"
proof -
  have "check_all (check_context (si_timestamp v))
        [(''analysis'', si_analysis_context v, True), (''market'', si_market_context v, False),
         (''research'', si_research_context v, False)] = Inr ()"
    using assms by (simp add: validate_input_def split: if_splits)
  then show "not_from_future v (Option.bind (si_analysis_context v) cx_timestamp)"
    "not_from_future v (Option.bind (si_market_context v) cx_timestamp)"
    "not_from_future v (Option.bind (si_research_context v) cx_timestamp)"
    unfolding check_all_Inr by (auto intro: check_context_not_from_future)
  show "not_from_future v (Option.bind (si_prediction v) pr_timestamp)"
    using assms
    by (auto simp: validate_input_def not_from_future_def Let_def bind_eq_Some_conv opt_holds_def
        split: if_splits option.splits)
qed

text \<open>Prediction evidence without an error: no prediction, or one that is fresh and of the symbol.\<close>

lemma prediction_evidence_ok:
  assumes "prediction_evidence p t y cfg = (cls, prob, margin, None)"
  shows "(p = None \<and> cls = None) \<or>
    (\<exists>q u. p = Some q \<and> pr_timestamp q = Some u \<and> aware u \<and> symbol_of (pr_symbol q) = upper y \<and>
       fle (Fin 0) (seconds_between t u) \<and>
       fle (seconds_between t u) (Fin (of_int (sc_prediction_max_age_seconds cfg))) \<and> cls \<noteq> None)"
proof (cases p)
  case None
  then show ?thesis using assms by (simp add: prediction_evidence_def)
next
  case (Some q)
  have fl: "\<not> fless x y \<Longrightarrow> x \<noteq> NaN \<Longrightarrow> y \<noteq> NaN \<Longrightarrow> fle y x" for x y :: pyfloat
    by (cases x; cases y) auto
  have "seconds_between t u \<noteq> NaN" for u
    by (simp add: seconds_between_def)
  with assms Some fl show ?thesis
    by (auto simp: prediction_evidence_def Let_def split: option.splits if_splits)
qed

text \<open>C6. A directional decision of \<open>StrategyEngine.decide\<close> carries the direction of the
  baseline setup on the same row, was made in an allowed regime whose probability reaches the
  minimum, within the cost limit and not against a known lack of liquidity, with a prediction
  that is absent or fresh, of the same symbol and allowed by the policy; and no context or
  prediction it read is from the future.\<close>
theorem decide_trade_sound:
  assumes "decide cfg v = Inr (d, tr)" and "sd_direction d \<noteq> NO_TRADE"
  shows "(if sd_direction d = LONG then long_setup (strategy_row v) (sc_baseline cfg)
          else short_setup (strategy_row v) (sc_baseline cfg)) \<and>
    opt_holds (\<lambda>g. g \<in> set (sc_allowed_regimes cfg)) (si_regime v) \<and>
    \<not> opt_holds (\<lambda>p. fless p (bc_minimum_regime_probability (sc_baseline cfg))) (si_regime_probability v) \<and>
    \<not> opt_holds (fless (sc_max_cost_fraction cfg)) (si_cost_fraction v) \<and>
    si_liquidity_available v \<noteq> Some False \<and>
    (\<forall>cx \<in> {si_analysis_context v, si_market_context v, si_research_context v}.
       not_from_future v (Option.bind cx cx_timestamp)) \<and>
    (case si_prediction v of
       None \<Rightarrow> sd_prediction_class d = None
     | Some q \<Rightarrow> symbol_of (pr_symbol q) = upper (si_symbol v) \<and>
         opt_holds (\<lambda>u. aware u \<and> fle (Fin 0) (seconds_between (si_timestamp v) u) \<and>
           fle (seconds_between (si_timestamp v) u) (Fin (of_int (sc_prediction_max_age_seconds cfg))))
           (pr_timestamp q) \<and>
         prediction_allows_direction (sd_prediction_class d) (sd_direction d) cfg
           (sd_prediction_probability d) (sd_prediction_margin d) = None)"
  using assms(1)
proof (cases rule: decide_cases)
  case (reject reason stages cls prob margin why)
  then show ?thesis using strategy_reject_result [OF reject] assms(2) by simp
next
  case (trade cls prob margin baseline d0)
  have d: "sd_direction d = sd_direction baseline" "sd_prediction_class d = cls"
      "sd_prediction_probability d = prob" "sd_prediction_margin d = margin"
    using trade(6,7) by (auto simp: make_strategy_decision_def engine_fields_def
        decision_defaults_def Let_def split: if_splits)
  have row: "if sd_direction d = LONG then long_setup (strategy_row v) (sc_baseline cfg)
      else short_setup (strategy_row v) (sc_baseline cfg)"
    using evaluate_row_direction [OF trade(3)] trade(5) d(1) by (auto split: if_splits)
  have checks: "regime_reason cfg v = None" "liquidity_reason cfg v = None"
      "cost_reason cfg v = None"
      "prediction_allows_direction cls (sd_direction baseline) cfg prob margin = None"
    using trade(4) by (auto simp: first_reason_None policy_checks_def)
  have regime: "opt_holds (\<lambda>g. g \<in> set (sc_allowed_regimes cfg)) (si_regime v)"
      "\<not> opt_holds (\<lambda>p. fless p (bc_minimum_regime_probability (sc_baseline cfg)))
          (si_regime_probability v)"
    using checks(1) by (auto simp: regime_reason_def split: if_splits)
  have cost: "\<not> opt_holds (fless (sc_max_cost_fraction cfg)) (si_cost_fraction v)"
    using checks(3) by (auto simp: cost_reason_def split: option.splits if_splits)
  have liquid: "si_liquidity_available v \<noteq> Some False"
    using checks(2) by (auto simp: liquidity_reason_def)
  show ?thesis
    using row regime cost liquid validate_input_causal [OF trade(1)]
      prediction_evidence_ok [OF trade(2)] checks(4) d
    by (auto split: option.splits)
qed

text \<open>C15. Every decision the engine returns is a well-formed \<open>StrategyDecision\<close> for the
  input's time stamp and symbol, and its trace lists exactly its reason: a trade has no failed
  reason, a \<open>NO_TRADE\<close> decision has the one reason it carries.\<close>
theorem decide_wellformed:
  assumes "decide cfg v = Inr (d, tr)"
  shows "decision_ok d \<and> sd_timestamp d = si_timestamp v \<and> sd_symbol d = symbol_of (si_symbol v) \<and>
    st_failed_reasons tr = (case sd_primary_reason d of None \<Rightarrow> [] | Some r \<Rightarrow> [r]) \<and>
    (sd_direction d = NO_TRADE \<longleftrightarrow> sd_primary_reason d \<noteq> None)"
  using assms
proof (cases rule: decide_cases)
  case (reject reason stages cls prob margin why)
  then show ?thesis using strategy_reject_result [OF reject] by simp
next
  case (trade cls prob margin baseline d0)
  have "sd_timestamp d0 = si_timestamp v" "sd_symbol d0 = si_symbol v" "sd_primary_reason d0 = None"
      "sd_direction d0 \<noteq> NO_TRADE"
    using trade(5,6) by (simp_all add: engine_fields_def decision_defaults_def)
  then show ?thesis
    using make_strategy_decision_ok [OF trade(7)] make_strategy_decision_fields [OF trade(7)] trade(8)
    by simp
qed

text \<open>A long setup with a fresh, agreeing prediction.\<close>

definition demo_features :: "(string, cell) dict" where
  "demo_features = [(''vwap_distance_pct'', Num (Fin (1/2))), (''rvol_20'', Num (Fin 2)),
     (''higher_high'', Flag True), (''higher_low'', Flag True),
     (''lower_low'', Flag False), (''lower_high'', Flag False)]"

definition demo_prediction :: "pyfloat \<Rightarrow> prediction" where
  "demo_prediction p_long = \<lparr>pr_timestamp = Some \<lparr>ns = 10^12, zone = Some 0\<rparr>,
     pr_symbol = '' abc '', pr_probabilities = Some [(''LONG_SUCCESS'', Num p_long),
       (''SHORT_SUCCESS'', Num (Fin 0)), (''NO_EDGE'', Num (Fin 0))], pr_model_version = None\<rparr>"

definition demo_input :: "pyfloat \<Rightarrow> StrategyInput" where
  "demo_input p_long = \<lparr>si_timestamp = \<lparr>ns = 60 * 10^9 + 10^12, zone = Some 0\<rparr>, si_symbol = ''ABC'',
     si_decision_features = demo_features, si_prediction = Some (demo_prediction p_long),
     si_market_context = None, si_analysis_context = None, si_research_context = None,
     si_regime = Some ''TREND_UP'', si_regime_probability = Some (Fin (3/4)),
     si_cost_estimate = None, si_cost_fraction = None, si_slippage_bps = None,
     si_liquidity_available = Some True, si_versions = []\<rparr>"

lemma demo_trade:
  "returns (\<lambda>(d, tr). sd_direction d = LONG \<and> sd_primary_reason d = None)
     (decide default_strategy_config (demo_input (Fin 1)))"
  by code_simp

lemma decide_trade_sound_witness:
  "\<exists>d tr. decide default_strategy_config (demo_input (Fin 1)) = Inr (d, tr) \<and>
     sd_direction d = LONG \<and> long_setup (strategy_row (demo_input (Fin 1))) default_baseline_config"
proof -
  obtain d tr where run: "decide default_strategy_config (demo_input (Fin 1)) = Inr (d, tr)"
      and dir: "sd_direction d = LONG"
    using demo_trade by (auto simp: returns_iff)
  show ?thesis
    using decide_trade_sound [OF run] run dir by (auto simp: default_strategy_config_def)
qed

lemma decide_wellformed_witness:
  "\<exists>d tr. decide default_strategy_config (demo_input (Fin 1)) = Inr (d, tr) \<and>
     decision_ok d \<and> st_failed_reasons tr = []"
proof -
  obtain d tr where run: "decide default_strategy_config (demo_input (Fin 1)) = Inr (d, tr)"
      and reason: "sd_primary_reason d = None"
    using demo_trade by (auto simp: returns_iff)
  show ?thesis
    using decide_wellformed [OF run] run reason by auto
qed

text \<open>The evidence check accepts probabilities whose sum is within 1e-8 of one, and the
  decision accepts a probability only up to one: on a prediction with \<open>LONG_SUCCESS\<close> one unit
  in the last place above one, \<open>decide\<close> raises instead of returning a decision.\<close>
theorem decide_raises_on_accepted_triplet:
  "probability_triplet (demo_prediction (Fin (1 + 1 / 2 ^ 52))) = Some (Fin (1 + 1 / 2 ^ 52), Fin 0, Fin 0) \<and>
   decide default_strategy_config (demo_input (Fin (1 + 1 / 2 ^ 52)))
     = Inl (ValueError ''prediction_probability must be in [0, 1]'')"
  by code_simp

end
