(* ===== verification/RiskEngine.thy ===== *)
theory RiskEngine
  imports RiskRules Strategy
begin

text \<open>
  \<open>trading/risk/engine.py\<close>: the pre-trade Risk Engine, and \<open>pipeline.py\<close>, which feeds it from
  a strategy decision. \<open>evaluate\<close> is split at the numbered comments of its source: the gates of
  sections 1 and 2 in order (\<open>risk_gates\<close>), then one definition per section, each of which
  returns early with a rejection, raises, or hands its values to the next.
\<close>

section \<open>Configuration\<close>

record RiskConfig =
  rc_risk_per_trade :: pyfloat
  rc_max_daily_loss :: pyfloat
  rc_max_trades_per_day :: int
  rc_max_open_positions :: int
  rc_max_gross_exposure :: pyfloat
  rc_target_multiple_r :: pyfloat
  rc_quantity_step :: pyfloat
  rc_risk_version :: string
  rc_max_symbol_exposure_fraction :: "pyfloat option"
  rc_max_sector_exposure_fraction :: "pyfloat option"
  rc_minimum_abs_correlation :: "pyfloat option"
  rc_max_correlated_exposure_fraction :: "pyfloat option"
  rc_high_volatility_factor :: pyfloat
  rc_max_atr_fraction :: "pyfloat option"
  rc_max_drawdown_fraction :: "pyfloat option"
  rc_allow_resize :: bool

definition default_risk_config :: RiskConfig where
  "default_risk_config = \<lparr>rc_risk_per_trade = lit (5/1000), rc_max_daily_loss = lit (15/1000),
     rc_max_trades_per_day = 5, rc_max_open_positions = 3, rc_max_gross_exposure = lit (75/100),
     rc_target_multiple_r = lit (15/10), rc_quantity_step = Fin 1, rc_risk_version = ''RISK-v1.0'',
     rc_max_symbol_exposure_fraction = None, rc_max_sector_exposure_fraction = None,
     rc_minimum_abs_correlation = None, rc_max_correlated_exposure_fraction = None,
     rc_high_volatility_factor = Fin 1, rc_max_atr_fraction = None,
     rc_max_drawdown_fraction = None, rc_allow_resize = False\<rparr>"

definition unit_open :: "pyfloat \<Rightarrow> bool" where
  "unit_open x = (fpos x \<and> fle x (Fin 1))"

definition make_risk_config :: "RiskConfig \<Rightarrow> RiskConfig res" where
  "make_risk_config c = rbind (first_error
     ([(\<not> unit_open (rc_risk_per_trade c), ''risk_per_trade must be in (0, 1]''),
       (\<not> unit_open (rc_max_daily_loss c), ''max_daily_loss must be in (0, 1]''),
       (rc_max_trades_per_day c \<le> 0, ''max_trades_per_day must be positive''),
       (rc_max_open_positions c \<le> 0, ''max_open_positions must be positive''),
       (\<not> unit_open (rc_max_gross_exposure c), ''max_gross_exposure must be in (0, 1]''),
       (nonpos (rc_target_multiple_r c), ''target_multiple_r must be positive''),
       (nonpos (rc_quantity_step c), ''quantity_step must be positive''),
       (blank (rc_risk_version c), ''risk_version must not be empty''),
       (\<not> unit_open (rc_high_volatility_factor c), ''high_volatility_factor must be in (0, 1]'')]
      @ map (\<lambda>(name, x). (opt_holds (\<lambda>y. \<not> unit_open y) x,
               name @ '' must be in (0, 1] when configured''))
         [(''max_symbol_exposure_fraction'', rc_max_symbol_exposure_fraction c),
          (''max_sector_exposure_fraction'', rc_max_sector_exposure_fraction c),
          (''max_correlated_exposure_fraction'', rc_max_correlated_exposure_fraction c),
          (''max_atr_fraction'', rc_max_atr_fraction c),
          (''max_drawdown_fraction'', rc_max_drawdown_fraction c)]
      @ [(opt_holds (\<lambda>y. \<not> in_unit y) (rc_minimum_abs_correlation c),
          ''minimum_abs_correlation must be in [0, 1]'')])) (\<lambda>_. Inr c)"

section \<open>Inputs\<close>

record RiskInput =
  ri_timestamp :: pytime
  ri_symbol :: string
  ri_candidate :: TradeCandidate
  ri_available_equity :: pyfloat
  ri_day_start_equity :: pyfloat
  ri_available_cash :: "pyfloat option"
  ri_peak_equity :: "pyfloat option"
  ri_realized_pnl :: pyfloat
  ri_unrealized_pnl :: pyfloat
  ri_open_positions :: int
  ri_trades_today :: int
  ri_gross_exposure :: pyfloat
  ri_symbol_already_open :: bool
  ri_position_context :: "RiskPositionContext option"
  ri_liquidity_available :: bool
  ri_kill_switch_active :: bool
  ri_sector :: "string option"
  ri_symbol_exposure :: "(string, pyfloat) dict"
  ri_sector_exposure :: "(string, pyfloat) dict"
  ri_pairwise_correlation :: "(string, pyfloat) dict"
  ri_atr :: "pyfloat option"
  ri_high_volatility :: bool
  ri_market_data_valid :: bool
  ri_system_ready :: bool
  ri_kill_switch_state :: "KillSwitchState option"

text \<open>A dictionary comprehension: keys that become equal keep the last value.\<close>

definition rekey :: "(string \<Rightarrow> string) \<Rightarrow> (string, pyfloat) dict \<Rightarrow> (string, pyfloat) dict" where
  "rekey f d = dict_of_list (map (\<lambda>(k, v). (f k, v)) d)"

definition make_risk_input :: "RiskInput \<Rightarrow> RiskInput res" where
  "make_risk_input v =
    (let c = ri_candidate v; symbols = rekey symbol_of (ri_symbol_exposure v);
         sectors = rekey strip (ri_sector_exposure v);
         correlations = rekey symbol_of (ri_pairwise_correlation v);
         bad = (\<lambda>x. \<not> isfinite x \<or> fneg_lt x) in
     rbind (first_error
      ([(\<not> aware (ri_timestamp v), ''risk input timestamp must be timezone-aware''),
        (blank (ri_symbol v), ''risk input symbol must not be empty''),
        (\<not> time_eq (ri_timestamp v) (tc_timestamp c), ''risk timestamp must match candidate timestamp''),
        (symbol_of (ri_symbol v) \<noteq> upper (tc_symbol c), ''risk symbol must match candidate symbol'')]
       @ map (\<lambda>(name, x). (\<not> isfinite x, name @ '' must be finite''))
         [(''available_equity'', ri_available_equity v), (''day_start_equity'', ri_day_start_equity v),
          (''realized_pnl'', ri_realized_pnl v), (''unrealized_pnl'', ri_unrealized_pnl v),
          (''gross_exposure'', ri_gross_exposure v)]
       @ [(nonpos (ri_available_equity v), ''available_equity must be positive''),
          (nonpos (ri_day_start_equity v), ''day_start_equity must be positive''),
          (opt_holds bad (ri_available_cash v), ''available_cash must be finite and non-negative''),
          (opt_holds (\<lambda>x. \<not> isfinite x \<or> nonpos x) (ri_peak_equity v),
             ''peak_equity must be positive and finite''),
          (fneg_lt (ri_gross_exposure v), ''gross_exposure must be non-negative''),
          (ri_open_positions v < 0, ''open_positions must be non-negative''),
          (ri_trades_today v < 0, ''trades_today must be non-negative''),
          (opt_holds bad (ri_atr v), ''atr must be finite and non-negative''),
          (list_ex bad (dict_values symbols), ''symbol_exposure values must be finite and non-negative''),
          (list_ex bad (dict_values sectors), ''sector_exposure values must be finite and non-negative''),
          (list_ex (\<lambda>x. \<not> isfinite x \<or> \<not> (fle (Fin (- 1)) x \<and> fle x (Fin 1))) (dict_values correlations),
             ''pairwise_correlation values must be finite and in [-1, 1]'')]))
      (\<lambda>_. Inr (v\<lparr>ri_symbol := symbol_of (ri_symbol v), ri_symbol_exposure := symbols,
         ri_sector_exposure := sectors, ri_pairwise_correlation := correlations\<rparr>)))"

section \<open>Assessments and rejections\<close>

record RiskAssessment =
  ra_decision :: RiskDecision
  ra_entry_price :: "pyfloat option"
  ra_stop_price :: "pyfloat option"
  ra_target_price :: "pyfloat option"
  ra_risk_budget :: "pyfloat option"
  ra_stop_distance :: "pyfloat option"
  ra_position_size :: "pyfloat option"
  ra_requested_position_size :: "pyfloat option"
  ra_gross_exposure_after :: "pyfloat option"
  ra_gross_exposure_before :: "pyfloat option"
  ra_gross_exposure_limit :: "pyfloat option"
  ra_proposed_value :: "pyfloat option"
  ra_daily_pnl :: "pyfloat option"
  ra_volatility_factor :: "pyfloat option"
  ra_closing_quantity :: "pyfloat option"
  ra_opening_quantity :: "pyfloat option"
  ra_opening_position_size :: "pyfloat option"
  ra_requested_projected_quantity :: "pyfloat option"
  ra_approved_projected_quantity :: "pyfloat option"

definition assessment_of :: "RiskDecision \<Rightarrow> RiskAssessment" where
  "assessment_of d = \<lparr>ra_decision = d, ra_entry_price = None, ra_stop_price = None,
     ra_target_price = None, ra_risk_budget = None, ra_stop_distance = None,
     ra_position_size = None, ra_requested_position_size = None, ra_gross_exposure_after = None,
     ra_gross_exposure_before = None, ra_gross_exposure_limit = None, ra_proposed_value = None,
     ra_daily_pnl = None, ra_volatility_factor = None, ra_closing_quantity = None,
     ra_opening_quantity = None, ra_opening_position_size = None,
     ra_requested_projected_quantity = None, ra_approved_projected_quantity = None\<rparr>"

fun strategy_direction :: "CandidateDirection \<Rightarrow> StrategyDirection" where
  "strategy_direction CD_LONG = LONG"
| "strategy_direction CD_SHORT = SHORT"

definition risk_daily_pnl :: "RiskInput \<Rightarrow> pyfloat" where
  "risk_daily_pnl v = fadd (ri_realized_pnl v) (ri_unrealized_pnl v)"

text \<open>\<open>_reject\<close>; the optional economics of the call are a record update.\<close>

definition risk_reject_with ::
  "(RiskAssessment \<Rightarrow> RiskAssessment) \<Rightarrow> RiskConfig \<Rightarrow> RiskInput \<Rightarrow> string \<Rightarrow> RiskReasonCode
     \<Rightarrow> RiskAssessment res" where
  "risk_reject_with extra cfg v reason code =
    rbind (make_risk_decision
       ((risk_decision_defaults (ri_timestamp v) (ri_symbol v) RS_REJECTED
          (strategy_direction (tc_direction (ri_candidate v))) reason)
        \<lparr>rd_risk_version := rc_risk_version cfg, rd_reason_code := Some code\<rparr>))
     (\<lambda>d. Inr (extra ((assessment_of d)\<lparr>ra_daily_pnl := Some (risk_daily_pnl v)\<rparr>)))"

definition risk_reject :: "RiskConfig \<Rightarrow> RiskInput \<Rightarrow> string \<Rightarrow> RiskReasonCode \<Rightarrow> RiskAssessment res" where
  "risk_reject = risk_reject_with id"

text \<open>\<open>return self._reject(...)\<close>\<close>

definition returning :: "'r res \<Rightarrow> ('r, 'a) flow" where
  "returning m = (case m of Inl e \<Rightarrow> Raise e | Inr r \<Rightarrow> Return r)"

text \<open>\<open>try: m except ValueError as exc: h(str(exc))\<close>\<close>

definition on_value_error :: "'a res \<Rightarrow> (string \<Rightarrow> ('r, 'a) flow) \<Rightarrow> ('r, 'a) flow" where
  "on_value_error m h = (case m of
      Inr x \<Rightarrow> Next x | Inl (ValueError msg) \<Rightarrow> h msg | Inl e \<Rightarrow> Raise e)"

section \<open>Sections 1 and 2: the gates\<close>

definition kill_active :: "RiskInput \<Rightarrow> bool" where
  "kill_active v = (ri_kill_switch_active v \<or> opt_holds kill_switch_state_active (ri_kill_switch_state v))"

definition daily_state :: "RiskInput \<Rightarrow> DailyRiskState" where
  "daily_state v = \<lparr>dr_day_start_equity = ri_day_start_equity v,
     dr_realized_pnl = ri_realized_pnl v, dr_unrealized_pnl = ri_unrealized_pnl v,
     dr_trades_today = ri_trades_today v, dr_open_positions = ri_open_positions v\<rparr>"

definition direction_mismatch :: "RiskInput \<Rightarrow> bool" where
  "direction_mismatch v = opt_holds (\<lambda>c.
     let expected_long = (if pc_transition c \<in> {T_OPEN, T_INCREASE, T_REVERSE}
           then fpos (pc_projected_quantity c) else fneg_lt (pc_existing_quantity c));
         actual_long = (strategy_direction (tc_direction (ri_candidate v)) = LONG)
     in actual_long \<noteq> expected_long) (ri_position_context v)"

definition needs_slot :: "RiskInput \<Rightarrow> bool" where
  "needs_slot v = (case ri_position_context v of
      Some c \<Rightarrow> creates_position_slot c | None \<Rightarrow> \<not> ri_symbol_already_open v)"

definition drawdown_reached :: "RiskConfig \<Rightarrow> RiskInput \<Rightarrow> bool" where
  "drawdown_reached cfg v = (case (rc_max_drawdown_fraction cfg, ri_peak_equity v) of
      (Some m, Some peak) \<Rightarrow> fle (ri_available_equity v) (fmul peak (fsub (Fin 1) m))
    | _ \<Rightarrow> False)"

definition risk_gates :: "RiskConfig \<Rightarrow> RiskInput \<Rightarrow> (bool \<times> string \<times> RiskReasonCode) list" where
  "risk_gates cfg v =
    [(\<not> ri_system_ready v, ''Risk system is not ready.'', SYSTEM_NOT_READY),
     (kill_active v, ''Kill switch is active.'', KILL_SWITCH_ACTIVE),
     (\<not> ri_market_data_valid v, ''Market data is invalid or unavailable.'', STALE_MARKET_DATA),
     (\<not> ri_liquidity_available v, ''Liquidity is insufficient.'', RC_LIQUIDITY_INSUFFICIENT),
     (daily_loss_limit_reached (daily_state v) (rc_max_daily_loss cfg),
        ''Daily loss limit reached.'', DAILY_LOSS_LIMIT),
     ((ri_position_context v = None \<or> opt_holds consumes_trade_entry (ri_position_context v)) \<and>
        ri_trades_today v \<ge> rc_max_trades_per_day cfg,
        ''Maximum daily trade entries reached.'', MAX_TRADES_REACHED),
     (direction_mismatch v,
        ''Candidate direction is inconsistent with the supplied position transition.'',
        POSITION_CONTEXT_MISMATCH),
     (needs_slot v \<and> ri_open_positions v \<ge> rc_max_open_positions cfg,
        ''Maximum open positions reached.'', MAX_OPEN_POSITIONS),
     (ri_symbol_already_open v \<and>
        (ri_position_context v = None \<or> opt_holds (\<lambda>c. pc_transition c = T_OPEN) (ri_position_context v)),
        ''Symbol already has an open position.'', DUPLICATE_SYMBOL),
     (drawdown_reached cfg v, ''Maximum drawdown limit reached.'', MAX_DRAWDOWN_LIMIT)]"

fun first_gate :: "(bool \<times> string \<times> RiskReasonCode) list \<Rightarrow> (string \<times> RiskReasonCode) option" where
  "first_gate [] = None"
| "first_gate ((blocked, msg, code) # rest) = (if blocked then Some (msg, code) else first_gate rest)"

section \<open>Sections 3 to 6: stop, size, target, volatility\<close>

type_synonym 'a stage = "(RiskAssessment, 'a) flow"

definition check_gates :: "RiskConfig \<Rightarrow> RiskInput \<Rightarrow> unit stage" where
  "check_gates cfg v = (case first_gate (risk_gates cfg v) of
      None \<Rightarrow> Next () | Some (msg, code) \<Rightarrow> returning (risk_reject cfg v msg code))"

definition candidate_strategy_direction :: "RiskInput \<Rightarrow> StrategyDirection" where
  "candidate_strategy_direction v = strategy_direction (tc_direction (ri_candidate v))"

definition check_stop :: "RiskConfig \<Rightarrow> RiskInput \<Rightarrow> pyfloat stage" where
  "check_stop cfg v = on_value_error
    (validate_stop (candidate_strategy_direction v) (tc_entry_price (ri_candidate v))
      (tc_stop_price (ri_candidate v)))
    (\<lambda>msg. returning (risk_reject cfg v msg
       (if contains ''price'' (lower msg) then INVALID_PRICE else INVALID_STOP)))"

definition release_only :: "RiskInput \<Rightarrow> bool" where
  "release_only v = opt_holds (\<lambda>c. pc_transition c \<in> {T_REDUCE, T_FLATTEN}) (ri_position_context v)"

definition reverse_transition :: "RiskInput \<Rightarrow> bool" where
  "reverse_transition v = opt_holds (\<lambda>c. pc_transition c = T_REVERSE) (ri_position_context v)"

record risk_sizes =
  rz_transition :: "RiskTransitionSizing option"
  rz_sizing :: PositionSizingResult
  rz_requested_opening :: "pyfloat option"
  rz_requested :: pyfloat
  rz_risk_opening :: pyfloat
  rz_cash_resized :: bool

definition transition_sizing :: "RiskInput \<Rightarrow> RiskTransitionSizing option res" where
  "transition_sizing v = (case ri_position_context v of
      None \<Rightarrow> Inr None | Some c \<Rightarrow> rbind (sizing_from_context c) (\<lambda>s. Inr (Some s)))"

definition limit_by_cash ::
  "RiskConfig \<Rightarrow> RiskInput \<Rightarrow> pyfloat \<Rightarrow> (pyfloat \<times> bool) stage" where
  "limit_by_cash cfg v requested = (case ri_available_cash v of
      None \<Rightarrow> Next (requested, False)
    | Some cash \<Rightarrow>
        if release_only v then Next (requested, False)
        else fbind (call (rbind (fdiv cash (tc_entry_price (ri_candidate v)))
              (\<lambda>q. floor_to_step q (rc_quantity_step cfg)))) (\<lambda>cash_quantity.
          if fless cash_quantity requested
          then if \<not> rc_allow_resize cfg
               then returning (risk_reject cfg v
                 ''Available cash cannot support the risk-first quantity.'' INVALID_RISK_STATE)
               else Next (cash_quantity, True)
          else Next (requested, False)))"

definition size_position :: "RiskConfig \<Rightarrow> RiskInput \<Rightarrow> pyfloat \<Rightarrow> risk_sizes stage" where
  "size_position cfg v stop_distance =
    fbind (call (transition_sizing v)) (\<lambda>trans.
    fbind (call (calculate_position_size (ri_available_equity v) (rc_risk_per_trade cfg)
        stop_distance (rc_quantity_step cfg))) (\<lambda>sizing.
    let opening = (if release_only v then None else map_option ts_opening_quantity trans);
        by_risk = (case opening of None \<Rightarrow> ps_quantity sizing
                    | Some q \<Rightarrow> fmin (ps_quantity sizing) q);
        requested = (if release_only v then
            (case trans of None \<Rightarrow> ps_quantity sizing | Some t \<Rightarrow> ts_order_quantity t)
          else by_risk) in
    if release_only v \<and> nonpos requested
      then returning (risk_reject cfg v ''Position transition produces no releasable quantity.''
        ZERO_POSITION_SIZE)
    else fbind (limit_by_cash cfg v requested) (\<lambda>(requested, cash_resized).
    if nonpos requested
      then returning (risk_reject cfg v ''Risk budget cannot produce a valid quantity.''
        ZERO_POSITION_SIZE)
    else Next \<lparr>rz_transition = trans, rz_sizing = sizing, rz_requested_opening = opening,
      rz_requested = requested, rz_risk_opening = by_risk, rz_cash_resized = cash_resized\<rparr>)))"

definition check_target :: "RiskConfig \<Rightarrow> RiskInput \<Rightarrow> pyfloat \<Rightarrow> pyfloat stage" where
  "check_target cfg v stop_distance = on_value_error
    (build_target (candidate_strategy_direction v) (tc_entry_price (ri_candidate v)) stop_distance
      (rc_target_multiple_r cfg))
    (\<lambda>msg. returning (risk_reject cfg v msg INVALID_TARGET))"

definition check_volatility :: "RiskConfig \<Rightarrow> RiskInput \<Rightarrow> pyfloat stage" where
  "check_volatility cfg v =
    fbind (if release_only v then Next (Fin 1)
       else on_value_error
         (volatility_size_factor (tc_entry_price (ri_candidate v)) (ri_atr v) (ri_high_volatility v)
            (rc_high_volatility_factor cfg) (rc_max_atr_fraction cfg))
         (\<lambda>msg. returning (risk_reject cfg v msg VOLATILITY_LIMIT))) (\<lambda>factor.
    if nonpos factor
      then returning (risk_reject cfg v ''Volatility policy blocks the proposed trade.'' VOLATILITY_LIMIT)
    else Next factor)"

text \<open>The order that goes on to the exposure checks.\<close>

record risk_order =
  ro_quantity :: pyfloat
  ro_opening :: pyfloat
  ro_requested_order :: pyfloat
  ro_resized :: bool

definition reverse_closing :: "RiskInput \<Rightarrow> risk_sizes \<Rightarrow> pyfloat" where
  "reverse_closing v z = (if reverse_transition v
     then (case rz_transition z of Some t \<Rightarrow> ts_closing_quantity t | None \<Rightarrow> Fin 0) else Fin 0)"

definition order_quantities :: "RiskInput \<Rightarrow> risk_sizes \<Rightarrow> pyfloat \<Rightarrow> pyfloat \<times> pyfloat \<times> pyfloat" where
  "order_quantities v z stepped =
    (if reverse_transition v then
       (fadd (reverse_closing v z) (rz_risk_opening z), rz_risk_opening z,
        fadd (reverse_closing v z) (case rz_requested_opening z of
            Some q \<Rightarrow> q | None \<Rightarrow> ps_quantity (rz_sizing z)))
     else (case rz_transition z of
         Some t \<Rightarrow> (if release_only v then ts_order_quantity t else rz_risk_opening z,
                     rz_risk_opening z, ts_order_quantity t)
       | None \<Rightarrow> (stepped, stepped, rz_requested z)))"

definition order_from_sizes ::
  "RiskConfig \<Rightarrow> RiskInput \<Rightarrow> risk_sizes \<Rightarrow> pyfloat \<Rightarrow> risk_order stage" where
  "order_from_sizes cfg v z factor =
    fbind (call (floor_to_step (fmul (rz_requested z) factor) (rc_quantity_step cfg))) (\<lambda>stepped.
    case order_quantities v z stepped of (quantity, opening, requested_order) \<Rightarrow>
    let resized = (case rz_requested_opening z of
          Some q \<Rightarrow> rz_cash_resized z \<or> fless opening q
        | None \<Rightarrow> rz_cash_resized z \<or> fless quantity requested_order) in
    if nonpos quantity
      then returning (risk_reject cfg v ''Volatility adjustment leaves no valid quantity.''
        ZERO_POSITION_SIZE)
    else if resized \<and> \<not> rc_allow_resize cfg
      then returning (risk_reject cfg v
        ''Volatility policy requires resizing, but resizing is disabled.'' VOLATILITY_LIMIT)
    else Next \<lparr>ro_quantity = quantity, ro_opening = opening,
      ro_requested_order = requested_order, ro_resized = resized\<rparr>)"

section \<open>Section 7: gross exposure\<close>

record risk_exposure =
  rx_quantity :: pyfloat
  rx_opening :: pyfloat
  rx_resized :: bool
  rx_proposed :: pyfloat
  rx_gross_after :: pyfloat

definition reversed_quantity :: "RiskPositionContext \<Rightarrow> pyfloat \<Rightarrow> pyfloat" where
  "reversed_quantity c opening =
    (if fpos (pc_existing_quantity c) then fneg opening else opening)"

definition gross_after_order :: "RiskInput \<Rightarrow> pyfloat \<Rightarrow> pyfloat \<Rightarrow> pyfloat res" where
  "gross_after_order v quantity opening =
    (let entry = tc_entry_price (ri_candidate v) in
     case ri_position_context v of
       Some c \<Rightarrow>
         if reverse_transition v
           then projected_gross_exposure (ri_gross_exposure v) (pc_existing_quantity c)
             (reversed_quantity c opening) entry
         else if release_only v
           then projected_gross_exposure (ri_gross_exposure v) (pc_existing_quantity c)
             (pc_projected_quantity c) entry
         else gross_exposure_after (ri_gross_exposure v) entry quantity
     | None \<Rightarrow> gross_exposure_after (ri_gross_exposure v) entry quantity)"

definition exposure_limit :: "RiskConfig \<Rightarrow> RiskInput \<Rightarrow> pyfloat" where
  "exposure_limit cfg v = fmul (ri_available_equity v) (rc_max_gross_exposure cfg)"

definition resize_to_exposure ::
  "RiskConfig \<Rightarrow> RiskInput \<Rightarrow> risk_sizes \<Rightarrow> risk_order \<Rightarrow> pyfloat \<Rightarrow> risk_exposure res" where
  "resize_to_exposure cfg v z ord exposure_quantity =
    (let entry = tc_entry_price (ri_candidate v) in
     case (reverse_transition v, ri_position_context v) of
       (True, Some c) \<Rightarrow>
         let opening = fmin (ro_opening ord) exposure_quantity in
         rbind (projected_gross_exposure (ri_gross_exposure v) (pc_existing_quantity c)
             (reversed_quantity c opening) entry) (\<lambda>after.
           Inr \<lparr>rx_quantity = fadd (reverse_closing v z) opening, rx_opening = opening,
             rx_resized = opt_holds (\<lambda>q. fless opening q) (rz_requested_opening z),
             rx_proposed = fmul entry opening, rx_gross_after = after\<rparr>)
     | _ \<Rightarrow>
         let quantity = fmin (ro_quantity ord) exposure_quantity in
         rbind (gross_exposure_after (ri_gross_exposure v) entry quantity) (\<lambda>after.
           Inr \<lparr>rx_quantity = quantity, rx_opening = ro_opening ord,
             rx_resized = fless quantity (ro_requested_order ord),
             rx_proposed = fmul entry quantity, rx_gross_after = after\<rparr>))"

definition limit_exposure ::
  "RiskConfig \<Rightarrow> RiskInput \<Rightarrow> pyfloat \<Rightarrow> risk_sizes \<Rightarrow> risk_order \<Rightarrow> risk_exposure stage" where
  "limit_exposure cfg v stop_distance z ord =
    (let entry = tc_entry_price (ri_candidate v); limit = exposure_limit cfg v;
         proposed = fmul entry (if reverse_transition v then ro_opening ord else ro_quantity ord) in
     fbind (call (gross_after_order v (ro_quantity ord) (ro_opening ord))) (\<lambda>after.
     if fless (fadd limit tolerance) after then
       if rc_allow_resize cfg then
         fbind (call (rbind (fdiv (fmax (Fin 0) (fsub limit (ri_gross_exposure v))) entry)
             (\<lambda>q. floor_to_step q (rc_quantity_step cfg)))) (\<lambda>exposure_quantity.
         if nonpos exposure_quantity
           then returning (risk_reject cfg v ''Maximum gross exposure would be exceeded.''
             MAX_GROSS_EXPOSURE)
         else call (resize_to_exposure cfg v z ord exposure_quantity))
       else returning (risk_reject_with (\<lambda>a. a\<lparr>ra_entry_price := Some entry,
           ra_stop_price := Some (tc_stop_price (ri_candidate v)),
           ra_risk_budget := Some (ps_risk_budget (rz_sizing z)),
           ra_stop_distance := Some stop_distance, ra_position_size := Some (ro_quantity ord),
           ra_requested_position_size := Some (rz_requested z),
           ra_gross_exposure_after := Some after,
           ra_gross_exposure_before := Some (ri_gross_exposure v),
           ra_gross_exposure_limit := Some limit, ra_proposed_value := Some proposed\<rparr>)
         cfg v ''Maximum gross exposure would be exceeded.'' MAX_GROSS_EXPOSURE)
     else Next \<lparr>rx_quantity = ro_quantity ord, rx_opening = ro_opening ord,
       rx_resized = ro_resized ord, rx_proposed = proposed, rx_gross_after = after\<rparr>))"

section \<open>Section 8: concentration and correlation\<close>

text \<open>The symbol and sector exposures and the proposed value that the checks compare.\<close>

definition concentration_view ::
  "RiskInput \<Rightarrow> risk_exposure \<Rightarrow> (string, pyfloat) dict \<times> (string, pyfloat) dict \<times> pyfloat" where
  "concentration_view v x =
    (let entry = tc_entry_price (ri_candidate v);
         unchanged = (ri_symbol_exposure v, ri_sector_exposure v, rx_proposed x) in
     case ri_position_context v of
       None \<Rightarrow> unchanged
     | Some c \<Rightarrow>
         if release_only v \<or> reverse_transition v then
           (dict_pop (ri_symbol v) (ri_symbol_exposure v),
            (case ri_sector v of
               Some (s # ss) \<Rightarrow> dict_set (s # ss)
                 (fmax (Fin 0) (fsub (exposure_of (ri_sector_exposure v) (s # ss))
                    (fmul (fabs (pc_existing_quantity c)) entry))) (ri_sector_exposure v)
             | _ \<Rightarrow> ri_sector_exposure v),
            if release_only v then fmul (fabs (pc_projected_quantity c)) entry
            else fmul (rx_opening x) entry)
         else unchanged)"

definition check_concentration :: "RiskConfig \<Rightarrow> RiskInput \<Rightarrow> risk_exposure \<Rightarrow> unit stage" where
  "check_concentration cfg v x =
    (case concentration_view v x of (by_symbol, by_sector, proposed) \<Rightarrow>
     (case first_gate
        [(\<not> check_symbol_exposure (ri_symbol v) proposed by_symbol
             (rc_max_symbol_exposure_fraction cfg) (ri_available_equity v),
          ''Maximum symbol exposure would be exceeded.'', SYMBOL_EXPOSURE_LIMIT),
         (\<not> check_sector_exposure (ri_sector v) proposed by_sector
             (rc_max_sector_exposure_fraction cfg) (ri_available_equity v),
          ''Maximum sector exposure would be exceeded.'', SECTOR_EXPOSURE_LIMIT),
         (\<not> correlation_exposure_allowed (ri_symbol v) proposed by_symbol
             (ri_pairwise_correlation v) (ri_available_equity v)
             (rc_minimum_abs_correlation cfg) (rc_max_correlated_exposure_fraction cfg),
          ''Maximum correlated exposure would be exceeded.'', CORRELATION_LIMIT)] of
        None \<Rightarrow> Next ()
      | Some (msg, code) \<Rightarrow> returning (risk_reject cfg v msg code)))"

section \<open>The approval\<close>

definition approved_projection :: "RiskInput \<Rightarrow> risk_exposure \<Rightarrow> pyfloat" where
  "approved_projection v x = (case ri_position_context v of
      None \<Rightarrow> if candidate_strategy_direction v = LONG then rx_quantity x else fneg (rx_quantity x)
    | Some c \<Rightarrow>
        if release_only v then pc_projected_quantity c
        else if reverse_transition v then reversed_quantity c (rx_opening x)
        else fadd (pc_existing_quantity c)
          (fmul (if fpos (pc_projected_quantity c) then Fin 1 else Fin (- 1)) (rx_opening x)))"

definition risk_approve ::
  "RiskConfig \<Rightarrow> RiskInput \<Rightarrow> pyfloat \<Rightarrow> risk_sizes \<Rightarrow> pyfloat \<Rightarrow> pyfloat \<Rightarrow> risk_exposure
     \<Rightarrow> RiskAssessment res" where
  "risk_approve cfg v stop_distance z target factor x =
    (let entry = tc_entry_price (ri_candidate v);
         requested_projection = map_option pc_projected_quantity (ri_position_context v);
         approved = Some (approved_projection v x) in
     rbind (make_risk_decision
       ((risk_decision_defaults (ri_timestamp v) (ri_symbol v) RS_APPROVED
          (candidate_strategy_direction v)
          (if rx_resized x then ''Candidate passed risk controls after deterministic resizing.''
           else ''Candidate passed deterministic risk controls.''))
        \<lparr>rd_risk_version := rc_risk_version cfg,
         rd_reason_code := Some (if rx_resized x then RC_RESIZED else RC_APPROVED),
         rd_resized := rx_resized x, rd_approved_quantity := rx_quantity x,
         rd_approved_notional := fmul entry (rx_quantity x),
         rd_position_transition := map_option pc_transition (ri_position_context v),
         rd_requested_projected_quantity := requested_projection,
         rd_approved_projected_quantity := approved\<rparr>))
     (\<lambda>d. Inr ((assessment_of d)
        \<lparr>ra_entry_price := Some entry, ra_stop_price := Some (tc_stop_price (ri_candidate v)),
         ra_target_price := Some target, ra_risk_budget := Some (ps_risk_budget (rz_sizing z)),
         ra_stop_distance := Some stop_distance, ra_position_size := Some (rx_quantity x),
         ra_requested_position_size := Some (ps_quantity (rz_sizing z)),
         ra_gross_exposure_after := Some (rx_gross_after x),
         ra_daily_pnl := Some (risk_daily_pnl v), ra_volatility_factor := Some factor,
         ra_closing_quantity := map_option ts_closing_quantity (rz_transition z),
         ra_opening_quantity := map_option (\<lambda>_. rx_opening x) (rz_transition z),
         ra_opening_position_size :=
           (if reverse_transition v then Some (rx_opening x) else None),
         ra_requested_projected_quantity := requested_projection,
         ra_approved_projected_quantity := approved\<rparr>)))"

definition evaluate :: "RiskConfig \<Rightarrow> RiskInput \<Rightarrow> RiskAssessment res" where
  "evaluate cfg v = finish
    (fbind (check_gates cfg v) (\<lambda>_.
     fbind (check_stop cfg v) (\<lambda>stop_distance.
     fbind (size_position cfg v stop_distance) (\<lambda>z.
     fbind (check_target cfg v stop_distance) (\<lambda>target.
     fbind (check_volatility cfg v) (\<lambda>factor.
     fbind (order_from_sizes cfg v z factor) (\<lambda>ord.
     fbind (limit_exposure cfg v stop_distance z ord) (\<lambda>x.
     fbind (check_concentration cfg v x) (\<lambda>_.
     call (risk_approve cfg v stop_distance z target factor x))))))))))"

section \<open>From a strategy decision to an assessment\<close>

definition pipeline_rejected :: "StrategyDecision \<Rightarrow> string \<Rightarrow> RiskAssessment res" where
  "pipeline_rejected decision reason =
    rbind (make_risk_decision (risk_decision_defaults (sd_timestamp decision) (sd_symbol decision)
       RS_REJECTED (sd_direction decision) reason)) (\<lambda>d. Inr (assessment_of d))"

fun type_or_value_error :: "exc \<Rightarrow> string option" where
  "type_or_value_error (ValueError m) = Some m"
| "type_or_value_error (TypeError m) = Some m"
| "type_or_value_error e = None"

text \<open>\<open>account\<close> holds the keyword arguments; its time stamp, symbol and candidate are replaced.\<close>

definition evaluate_strategy_candidate_risk ::
  "StrategyDecision \<Rightarrow> row \<Rightarrow> RiskConfig \<Rightarrow> RiskInput \<Rightarrow> CandidateConfig \<Rightarrow> bool
     \<Rightarrow> RiskAssessment res" where
  "evaluate_strategy_candidate_risk decision r cfg account candidate_config risk_enabled =
    (if sd_direction decision = NO_TRADE
       then pipeline_rejected decision ''Strategy produced NO_TRADE; risk engine not entered.''
     else if \<not> risk_enabled then pipeline_rejected decision ''Global risk gate is disabled.''
     else (case build_candidate_from_strategy decision r candidate_config of
         Inl e \<Rightarrow> (case type_or_value_error e of
             Some m \<Rightarrow> pipeline_rejected decision (''Candidate construction failed: '' @ m)
           | None \<Rightarrow> Inl e)
       | Inr c \<Rightarrow> rbind (make_risk_input (account\<lparr>ri_timestamp := sd_timestamp decision,
             ri_symbol := sd_symbol decision, ri_candidate := c\<rparr>)) (evaluate cfg)))"

section \<open>Every early return is a rejection\<close>

definition rejection :: "RiskAssessment \<Rightarrow> bool" where
  "rejection a = (rd_status (ra_decision a) = RS_REJECTED \<and>
     rd_approved_quantity (ra_decision a) = Fin 0 \<and> rd_approved_notional (ra_decision a) = Fin 0 \<and>
     \<not> rd_resized (ra_decision a) \<and>
     rd_reason_code (ra_decision a) \<notin> {None, Some RC_APPROVED, Some RC_RESIZED})"

definition only_rejects :: "'a stage \<Rightarrow> bool" where
  "only_rejects m = (\<forall>a. m = Return a \<longrightarrow> rejection a)"

named_theorems reject_intros "rules that show that a stage returns only rejections"

lemma risk_reject_with_rejection:
  assumes "risk_reject_with f cfg v msg code = Inr a" "code \<notin> {RC_APPROVED, RC_RESIZED}"
    "\<And>a. ra_decision (f a) = ra_decision a"
  shows "rejection a"
proof -
  obtain d0 d where d: "make_risk_decision d0 = Inr d" and a: "ra_decision a = d"
    and d0: "rd_status d0 = RS_REJECTED" "rd_approved_quantity d0 = Fin 0"
      "rd_approved_notional d0 = Fin 0" "\<not> rd_resized d0" "rd_reason_code d0 = Some code"
    using assms(1,3) by (auto simp: risk_reject_with_def assessment_of_def risk_decision_defaults_def)
  have "rd_status d = rd_status d0" "rd_approved_quantity d = rd_approved_quantity d0"
    "rd_approved_notional d = rd_approved_notional d0" "rd_resized d = rd_resized d0"
    "rd_reason_code d = Some code"
    using d d0(5) by (auto simp: make_risk_decision_def split: if_splits)
  then show ?thesis using d0 a assms(2) by (simp add: rejection_def)
qed

lemma only_rejects_basic [reject_intros]:
  "only_rejects (Next x)" "only_rejects (Raise e)" "only_rejects (call m)"
  by (simp_all add: only_rejects_def)

lemma only_rejects_fbind [reject_intros]:
  "only_rejects m \<Longrightarrow> (\<And>x. only_rejects (f x)) \<Longrightarrow> only_rejects (fbind m f)"
  by (auto simp: only_rejects_def fbind_eq_Return)

lemma only_rejects_returning [reject_intros]:
  "code \<notin> {RC_APPROVED, RC_RESIZED} \<Longrightarrow> only_rejects (returning (risk_reject cfg v msg code))"
  using risk_reject_with_rejection [of id cfg v msg code]
  by (auto simp: only_rejects_def returning_def risk_reject_def split: sum.splits)

lemma only_rejects_on_value_error [reject_intros]:
  "(\<And>msg. only_rejects (h msg)) \<Longrightarrow> only_rejects (on_value_error m h)"
  by (auto simp: only_rejects_def on_value_error_def split: sum.splits exc.splits)

lemma only_rejects_if [reject_intros]:
  "only_rejects m \<Longrightarrow> only_rejects n \<Longrightarrow> only_rejects (if b then m else n)"
  by simp

lemma only_rejects_let [reject_intros]: "only_rejects (f x) \<Longrightarrow> only_rejects (Let x f)"
  by simp

lemma only_rejects_prod [reject_intros]:
  "(\<And>x y. only_rejects (f x y)) \<Longrightarrow> only_rejects (case p of (x, y) \<Rightarrow> f x y)"
  by (cases p) simp

lemma only_rejects_option [reject_intros]:
  "only_rejects m \<Longrightarrow> (\<And>x. only_rejects (f x)) \<Longrightarrow> only_rejects (case o' of None \<Rightarrow> m | Some x \<Rightarrow> f x)"
  by (cases o') simp_all

text \<open>A gate list without the two approval codes.\<close>

lemma first_gate_code:
  "first_gate gs = Some (msg, code) \<Longrightarrow> (\<exists>b. (b, msg, code) \<in> set gs \<and> b)"
  by (induction gs rule: first_gate.induct) (auto split: if_splits)

lemma first_gate_None: "first_gate gs = None \<longleftrightarrow> (\<forall>(b, msg, code) \<in> set gs. \<not> b)"
  by (induction gs rule: first_gate.induct) auto

lemma only_rejects_first_gate:
  assumes "\<And>b msg code. (b, msg, code) \<in> set gs \<Longrightarrow> code \<notin> {RC_APPROVED, RC_RESIZED}"
  shows "only_rejects (case first_gate gs of None \<Rightarrow> Next () | Some (msg, code) \<Rightarrow>
     returning (risk_reject cfg v msg code))"
  using assms by (auto split: option.splits dest!: first_gate_code intro!: reject_intros)

lemma stages_reject [reject_intros]:
  "only_rejects (check_gates cfg v)" "only_rejects (check_stop cfg v)"
  "only_rejects (limit_by_cash cfg v q)" "only_rejects (size_position cfg v d)"
  "only_rejects (check_target cfg v d)" "only_rejects (check_volatility cfg v)"
  "only_rejects (order_from_sizes cfg v z factor)" "only_rejects (check_concentration cfg v x)"
proof -
  show "only_rejects (check_gates cfg v)"
    unfolding check_gates_def by (rule only_rejects_first_gate) (auto simp: risk_gates_def)
  show "only_rejects (check_stop cfg v)"
    unfolding check_stop_def by (intro reject_intros) simp
  show cash: "only_rejects (limit_by_cash cfg v q)" for q
    unfolding limit_by_cash_def by (intro reject_intros) simp
  show "only_rejects (size_position cfg v d)"
    unfolding size_position_def by (intro reject_intros cash) simp_all
  show "only_rejects (check_target cfg v d)"
    unfolding check_target_def by (intro reject_intros) simp
  show "only_rejects (check_volatility cfg v)"
    unfolding check_volatility_def by (intro reject_intros) simp_all
  show "only_rejects (order_from_sizes cfg v z factor)"
    unfolding order_from_sizes_def by (intro reject_intros) simp_all
  show "only_rejects (check_concentration cfg v x)"
    unfolding check_concentration_def
    by (intro only_rejects_prod only_rejects_first_gate) auto
qed

lemma limit_exposure_rejects [reject_intros]: "only_rejects (limit_exposure cfg v d z ord)"
proof -
  have *: "only_rejects (returning (risk_reject_with f cfg v msg MAX_GROSS_EXPOSURE))"
    if "\<And>a. ra_decision (f a) = ra_decision a" for f msg
    using risk_reject_with_rejection [of f cfg v msg MAX_GROSS_EXPOSURE] that
    by (auto simp: only_rejects_def returning_def split: sum.splits)
  show ?thesis
    unfolding limit_exposure_def by (intro reject_intros *) simp_all
qed

text \<open>The two ways \<open>evaluate\<close> returns.\<close>

lemma evaluate_cases:
  assumes "evaluate cfg v = Inr a"
  obtains (rejected) "rejection a"
  | (approved) d z target factor ord x where
      "check_gates cfg v = Next ()" "check_stop cfg v = Next d"
      "size_position cfg v d = Next z" "check_target cfg v d = Next target"
      "check_volatility cfg v = Next factor" "order_from_sizes cfg v z factor = Next ord"
      "limit_exposure cfg v d z ord = Next x" "check_concentration cfg v x = Next ()"
      "risk_approve cfg v d z target factor x = Inr a"
proof -
  let ?body = "fbind (check_gates cfg v) (\<lambda>_. fbind (check_stop cfg v) (\<lambda>d.
     fbind (size_position cfg v d) (\<lambda>z. fbind (check_target cfg v d) (\<lambda>target.
     fbind (check_volatility cfg v) (\<lambda>factor. fbind (order_from_sizes cfg v z factor) (\<lambda>ord.
     fbind (limit_exposure cfg v d z ord) (\<lambda>x. fbind (check_concentration cfg v x) (\<lambda>_.
     call (risk_approve cfg v d z target factor x)))))))))"
  have "only_rejects ?body" by (intro reject_intros)
  moreover have "?body = Return a \<or> ?body = Next a"
    using assms by (simp add: evaluate_def finish_eq_Inr)
  ultimately consider "rejection a" | "?body = Next a" by (auto simp: only_rejects_def)
  then show thesis
  proof cases
    case 1
    then show ?thesis by (rule rejected)
  next
    case 2
    then show ?thesis using approved by (auto simp: fbind_eq_Next)
  qed
qed

lemma risk_approve_fields:
  assumes "risk_approve cfg v d z target factor x = Inr a"
  shows "rd_status (ra_decision a) = RS_APPROVED"
    "rd_approved_quantity (ra_decision a) = rx_quantity x"
    "rd_approved_notional (ra_decision a) = fmul (tc_entry_price (ri_candidate v)) (rx_quantity x)"
    "rd_resized (ra_decision a) = rx_resized x"
    "rd_strategy_direction (ra_decision a) = candidate_strategy_direction v"
    "rd_symbol (ra_decision a) = symbol_of (ri_symbol v)"
    "rd_timestamp (ra_decision a) = ri_timestamp v"
    "ra_gross_exposure_after a = Some (rx_gross_after x)"
    "ra_target_price a = Some target" "ra_stop_distance a = Some d"
    "rd_approved_projected_quantity (ra_decision a) = Some (approved_projection v x)"
  using assms by (auto simp: risk_approve_def Let_def risk_decision_defaults_def assessment_of_def
      make_risk_decision_def split: if_splits)

end
