(* ===== verification/RiskProperties.thy ===== *)
theory RiskProperties
  imports RiskEngine
begin

text \<open>
  What an approval, a rejection and a resize of the Risk Engine guarantee, and the inputs on
  which \<open>trading/risk/engine.py\<close> does not do what its comments say.
\<close>

section \<open>Stages that passed\<close>

lemma returning_Next [simp]: "returning m \<noteq> Next x"
  by (auto simp: returning_def split: sum.splits)

lemma on_value_error_Next:
  "(\<And>msg. h msg \<noteq> Next x) \<Longrightarrow> on_value_error m h = Next x \<longleftrightarrow> m = Inr x"
  by (auto simp: on_value_error_def split: sum.splits exc.splits)

lemma check_gates_Next: "check_gates cfg v = Next () \<longleftrightarrow> first_gate (risk_gates cfg v) = None"
  by (auto simp: check_gates_def split: option.splits)

lemma check_stop_Next:
  "check_stop cfg v = Next d \<longleftrightarrow>
     validate_stop (candidate_strategy_direction v) (tc_entry_price (ri_candidate v))
       (tc_stop_price (ri_candidate v)) = Inr d"
  by (simp add: check_stop_def on_value_error_Next)

lemma check_target_Next:
  "check_target cfg v d = Next t \<longleftrightarrow>
     build_target (candidate_strategy_direction v) (tc_entry_price (ri_candidate v)) d
       (rc_target_multiple_r cfg) = Inr t"
  by (simp add: check_target_def on_value_error_Next)

lemma limit_by_cash_Next:
  "limit_by_cash cfg v q = Next (q', r) \<Longrightarrow> (q' = q \<and> \<not> r) \<or> (fless q' q \<and> r \<and> rc_allow_resize cfg)"
  by (auto simp: limit_by_cash_def split: option.splits if_splits)

lemma size_position_Next:
  assumes "size_position cfg v d = Next z"
  shows "transition_sizing v = Inr (rz_transition z)"
    "calculate_position_size (ri_available_equity v) (rc_risk_per_trade cfg) d
       (rc_quantity_step cfg) = Inr (rz_sizing z)"
    "rz_requested_opening z =
       (if release_only v then None else map_option ts_opening_quantity (rz_transition z))"
    "rz_risk_opening z = (case rz_requested_opening z of None \<Rightarrow> ps_quantity (rz_sizing z)
       | Some q \<Rightarrow> fmin (ps_quantity (rz_sizing z)) q)"
    "\<not> nonpos (rz_requested z)"
    "rz_cash_resized z \<Longrightarrow> rc_allow_resize cfg"
proof -
  define sized where "sized sizing trans = (case (if release_only v then None
      else map_option ts_opening_quantity trans) of None \<Rightarrow> ps_quantity sizing
      | Some q \<Rightarrow> fmin (ps_quantity sizing) q)" 
    for sizing :: PositionSizingResult and trans :: "RiskTransitionSizing option"
  obtain trans sizing requested q r where
    t: "transition_sizing v = Inr trans"
    and p: "calculate_position_size (ri_available_equity v) (rc_risk_per_trade cfg) d
       (rc_quantity_step cfg) = Inr sizing"
    and c: "limit_by_cash cfg v requested = Next (q, r)" "\<not> nonpos q"
    and z: "z = \<lparr>rz_transition = trans, rz_sizing = sizing, rz_requested_opening =
         (if release_only v then None else map_option ts_opening_quantity trans),
         rz_requested = q, rz_risk_opening = sized sizing trans, rz_cash_resized = r\<rparr>"
    using assms by (auto simp: size_position_def Let_def sized_def if_split_eq1 split: if_split_asm)
  show "transition_sizing v = Inr (rz_transition z)"
    "calculate_position_size (ri_available_equity v) (rc_risk_per_trade cfg) d
       (rc_quantity_step cfg) = Inr (rz_sizing z)"
    "rz_requested_opening z =
       (if release_only v then None else map_option ts_opening_quantity (rz_transition z))"
    "rz_risk_opening z = (case rz_requested_opening z of None \<Rightarrow> ps_quantity (rz_sizing z)
       | Some q \<Rightarrow> fmin (ps_quantity (rz_sizing z)) q)"
    "\<not> nonpos (rz_requested z)"
    "rz_cash_resized z \<Longrightarrow> rc_allow_resize cfg"
    using t p c limit_by_cash_Next [OF c(1)] by (auto simp: z sized_def split: option.splits)
qed

lemma order_from_sizes_Next:
  assumes "order_from_sizes cfg v z factor = Next ord"
  shows "\<exists>stepped. floor_to_step (fmul (rz_requested z) factor) (rc_quantity_step cfg) = Inr stepped \<and>
      order_quantities v z stepped = (ro_quantity ord, ro_opening ord, ro_requested_order ord)"
    "ro_resized ord \<Longrightarrow> rc_allow_resize cfg" "\<not> nonpos (ro_quantity ord)"
proof -
  obtain stepped where st: "floor_to_step (fmul (rz_requested z) factor) (rc_quantity_step cfg) = Inr stepped"
    using assms by (auto simp: order_from_sizes_def)
  obtain q p r where oq: "order_quantities v z stepped = (q, p, r)"
    by (cases "order_quantities v z stepped")
  show "\<exists>stepped. floor_to_step (fmul (rz_requested z) factor) (rc_quantity_step cfg) = Inr stepped \<and>
      order_quantities v z stepped = (ro_quantity ord, ro_opening ord, ro_requested_order ord)"
    "ro_resized ord \<Longrightarrow> rc_allow_resize cfg" "\<not> nonpos (ro_quantity ord)"
    using assms st oq by (auto simp: order_from_sizes_def Let_def split: if_splits)
qed

text \<open>The exposure stage keeps the order, or reduces it under \<open>allow_resize\<close>.\<close>

lemma limit_exposure_cases:
  assumes "limit_exposure cfg v d z ord = Next x"
  obtains (kept) after where
      "gross_after_order v (ro_quantity ord) (ro_opening ord) = Inr after"
      "\<not> fless (fadd (exposure_limit cfg v) tolerance) after"
      "x = \<lparr>rx_quantity = ro_quantity ord, rx_opening = ro_opening ord, rx_resized = ro_resized ord,
         rx_proposed = fmul (tc_entry_price (ri_candidate v))
           (if reverse_transition v then ro_opening ord else ro_quantity ord), rx_gross_after = after\<rparr>"
  | (reduced) q where "rc_allow_resize cfg" "\<not> nonpos q"
      "resize_to_exposure cfg v z ord q = Inr x"
proof -
  obtain after where after: "gross_after_order v (ro_quantity ord) (ro_opening ord) = Inr after"
    using assms by (auto simp: limit_exposure_def Let_def)
  show thesis
  proof (cases "fless (fadd (exposure_limit cfg v) tolerance) after")
    case True
    then show ?thesis using assms after reduced
      by (auto simp: limit_exposure_def Let_def split: if_splits)
  next
    case False
    then show ?thesis using assms after kept by (auto simp: limit_exposure_def Let_def)
  qed
qed

lemma floor_to_step_not_nan: "floor_to_step q s = Inr x \<Longrightarrow> \<not> isnan x"
  using floor_to_step_nonneg [of q s x] by (cases x) auto

lemma position_size_not_nan:
  "calculate_position_size e r d s = Inr p \<Longrightarrow> \<not> isnan (ps_quantity p)"
  by (auto simp: calculate_position_size_def Let_def dest: floor_to_step_not_nan split: if_splits)

section \<open>What an approval guarantees\<close>

definition risk_approved :: "RiskAssessment \<Rightarrow> bool" where
  "risk_approved a = (rd_status (ra_decision a) = RS_APPROVED)"

lemma rejection_not_approved: "rejection a \<Longrightarrow> \<not> risk_approved a"
  by (simp add: rejection_def risk_approved_def)

lemma approval_gates:
  assumes "evaluate cfg v = Inr a" and "risk_approved a"
  shows "ri_system_ready v \<and> \<not> kill_active v \<and> ri_market_data_valid v \<and> ri_liquidity_available v \<and>
    \<not> daily_loss_limit_reached (daily_state v) (rc_max_daily_loss cfg) \<and>
    \<not> drawdown_reached cfg v \<and> \<not> direction_mismatch v \<and>
    (release_only v \<or> ri_trades_today v < rc_max_trades_per_day cfg) \<and>
    (\<not> needs_slot v \<or> ri_open_positions v < rc_max_open_positions cfg) \<and>
    (ri_symbol_already_open v \<longrightarrow> \<not> opt_holds (\<lambda>c. pc_transition c = T_OPEN) (ri_position_context v)
       \<and> ri_position_context v \<noteq> None) \<and>
    rd_strategy_direction (ra_decision a) = candidate_strategy_direction v \<and>
    stop_on_side (ri_candidate v) \<and> isfinite (tc_stop_price (ri_candidate v))"
  using assms(1)
proof (cases rule: evaluate_cases)
  case rejected
  then show ?thesis using assms(2) by (simp add: rejection_not_approved)
next
  case (approved d z target factor ord x)
  have gates: "list_all (\<lambda>(b, msg, code). \<not> b) (risk_gates cfg v)"
    using approved(1) by (auto simp: check_gates_Next first_gate_None list_all_iff)
  have trades: "release_only v \<or> ri_trades_today v < rc_max_trades_per_day cfg"
  proof -
    have "\<not> ((ri_position_context v = None \<or> opt_holds consumes_trade_entry (ri_position_context v)) \<and>
        ri_trades_today v \<ge> rc_max_trades_per_day cfg)"
      using gates by (simp add: risk_gates_def)
    moreover have "release_only v \<or> ri_position_context v = None \<or>
        opt_holds consumes_trade_entry (ri_position_context v)"
      by (auto simp: release_only_def consumes_trade_entry_def opt_holds_def split: option.splits)
        (metis RiskPositionTransition.exhaust)
    ultimately show ?thesis by auto
  qed
  have dir: "stop_on_side (ri_candidate v)" "isfinite (tc_stop_price (ri_candidate v))"
    using validate_stop_sound [OF approved(2) [unfolded check_stop_Next]]
    by (auto simp: stop_on_side_def candidate_strategy_direction_def split: CandidateDirection.splits)
  show ?thesis
    using gates [unfolded risk_gates_def, simplified] trades dir risk_approve_fields(5) [OF approved(9)]
    by (auto simp: not_le)
qed

text \<open>C3. An approval passed every hard gate: the system is ready, no kill switch is active, market
  data and liquidity are good, the daily loss, drawdown, trade-entry and open-position limits
  are not reached, an open symbol is not opened again, and the decision has the direction of the
  candidate, whose stop is finite and strictly on the losing side of the entry.\<close>
theorem approval_passed_every_gate:
  assumes "evaluate cfg v = Inr a" and "risk_approved a"
  shows "ri_system_ready v \<and> \<not> kill_active v \<and> ri_market_data_valid v \<and> ri_liquidity_available v \<and>
    \<not> daily_loss_limit_reached (daily_state v) (rc_max_daily_loss cfg) \<and>
    \<not> drawdown_reached cfg v \<and> \<not> direction_mismatch v \<and>
    (release_only v \<or> ri_trades_today v < rc_max_trades_per_day cfg) \<and>
    (\<not> needs_slot v \<or> ri_open_positions v < rc_max_open_positions cfg) \<and>
    (ri_symbol_already_open v \<longrightarrow> \<not> opt_holds (\<lambda>c. pc_transition c = T_OPEN) (ri_position_context v)
       \<and> ri_position_context v \<noteq> None) \<and>
    rd_strategy_direction (ra_decision a) = candidate_strategy_direction v \<and>
    stop_on_side (ri_candidate v) \<and> isfinite (tc_stop_price (ri_candidate v))"
  using assms by (rule approval_gates)

text \<open>A rejection carries no exposure and keeps its reason: whatever \<open>evaluate\<close> returns is an
  approval, or a decision with quantity and notional zero, not resized, with a reason code that
  is not an approval code.\<close>
theorem rejection_carries_no_exposure:
  assumes "evaluate cfg v = Inr a" and "\<not> risk_approved a"
  shows "rd_status (ra_decision a) = RS_REJECTED \<and> rd_approved_quantity (ra_decision a) = Fin 0 \<and>
    rd_approved_notional (ra_decision a) = Fin 0 \<and> risk_action (ra_decision a) = REJECT \<and>
    rd_reason_code (ra_decision a) \<notin> {None, Some RC_APPROVED, Some RC_RESIZED}"
  using assms(1)
proof (cases rule: evaluate_cases)
  case rejected
  then show ?thesis by (simp add: rejection_def risk_action_def)
next
  case (approved d z target factor ord x)
  then show ?thesis using risk_approve_fields(1) [OF approved(9)] assms(2)
    by (simp add: risk_approved_def)
qed

lemma first_error_facts: "first_error cs = Inr () \<Longrightarrow> (bad, msg) \<in> set cs \<Longrightarrow> \<not> bad"
  by (auto simp: first_error_Inr)

lemma make_risk_input_facts:
  assumes "make_risk_input w = Inr v"
  shows "aware (ri_timestamp v)" "\<not> blank (ri_symbol v)" "symbol_of (ri_symbol v) = ri_symbol v"
    "ri_symbol v = upper (tc_symbol (ri_candidate v))"
    "isfinite (ri_available_equity v)" "fpos (ri_available_equity v)"
    "isfinite (ri_gross_exposure v)" "nonneg (ri_gross_exposure v)"
proof -
  have v: "v = w\<lparr>ri_symbol := symbol_of (ri_symbol w), ri_symbol_exposure := ri_symbol_exposure v,
      ri_sector_exposure := ri_sector_exposure v, ri_pairwise_correlation := ri_pairwise_correlation v\<rparr>"
    using assms by (auto simp: make_risk_input_def Let_def)
  have ok: "aware (ri_timestamp w)" "\<not> blank (ri_symbol w)"
     "symbol_of (ri_symbol w) = upper (tc_symbol (ri_candidate w))"
     "isfinite (ri_available_equity w)" "\<not> nonpos (ri_available_equity w)"
     "isfinite (ri_gross_exposure w)" "\<not> fneg_lt (ri_gross_exposure w)"
    using assms by (auto simp: make_risk_input_def Let_def first_error_Inr simp del: first_error.simps)
  have sel: "ri_timestamp v = ri_timestamp w" "ri_symbol v = symbol_of (ri_symbol w)"
     "ri_candidate v = ri_candidate w" "ri_available_equity v = ri_available_equity w"
     "ri_gross_exposure v = ri_gross_exposure w"
    by (subst v; simp)+
  have nn: "isfinite y \<Longrightarrow> \<not> fneg_lt y \<Longrightarrow> nonneg y" for y by (cases y) auto
  have b: "\<not> blank (symbol_of (ri_symbol w))" using ok(2) blank_symbol_of by blast
  show "aware (ri_timestamp v)" "\<not> blank (ri_symbol v)" "symbol_of (ri_symbol v) = ri_symbol v"
    "ri_symbol v = upper (tc_symbol (ri_candidate v))"
    "isfinite (ri_available_equity v)" "fpos (ri_available_equity v)"
    "isfinite (ri_gross_exposure v)" "nonneg (ri_gross_exposure v)"
    unfolding sel
    by (rule ok b symbol_of_idem finite_nonpos [OF ok(4,5)] nn [OF ok(6,7)])+
qed

lemma gate_messages: "(b, msg, code) \<in> set (risk_gates cfg v) \<Longrightarrow> \<not> blank msg \<and> code \<notin> {RC_APPROVED, RC_RESIZED}"
proof -
  have "list_all (\<lambda>(b, msg, code). \<not> blank msg \<and> code \<notin> {RC_APPROVED, RC_RESIZED}) (risk_gates cfg v)"
    by (simp add: risk_gates_def blank_def strip_def is_space_def)
  then show "(b, msg, code) \<in> set (risk_gates cfg v) \<Longrightarrow> ?thesis" by (auto simp: list_all_iff)
qed

lemma risk_reject_total:
  assumes "make_risk_input w = Inr v" "\<not> blank (rc_risk_version cfg)" "\<not> blank msg"
  shows "\<exists>a. risk_reject cfg v msg code = Inr a \<and> rd_reason_code (ra_decision a) = Some code \<and>
    rd_reason (ra_decision a) = msg \<and> rd_symbol (ra_decision a) = ri_symbol v"
  using make_risk_input_facts [OF assms(1)] assms(2,3)
  by (simp add: risk_reject_def risk_reject_with_def make_risk_decision_def
      risk_decision_defaults_def assessment_of_def)

text \<open>The safety, session and portfolio gates fail closed and in order: whenever one of them
  blocks, \<open>evaluate\<close> returns (it never raises) a rejection that carries the message and the
  reason code of the first gate that blocks, whatever the rest of the input holds.\<close>
theorem blocked_gate_rejects:
  assumes "make_risk_input w = Inr v" and "make_risk_config cfg = Inr cfg"
    and "first_gate (risk_gates cfg v) = Some (msg, code)"
  shows "\<exists>a. evaluate cfg v = Inr a \<and> \<not> risk_approved a \<and> rd_reason (ra_decision a) = msg \<and>
    rd_reason_code (ra_decision a) = Some code"
proof -
  have version: "\<not> blank (rc_risk_version cfg)"
    using assms(2) by (auto simp: make_risk_config_def first_error_Inr simp del: first_error.simps)
  obtain b where b: "(b, msg, code) \<in> set (risk_gates cfg v)"
    using first_gate_code [OF assms(3)] by auto
  obtain a where a: "risk_reject cfg v msg code = Inr a" "rd_reason_code (ra_decision a) = Some code"
      "rd_reason (ra_decision a) = msg"
    using risk_reject_total [OF assms(1) version] gate_messages [OF b] by blast
  have "check_gates cfg v = Return a" using assms(3) a(1) by (simp add: check_gates_def returning_def)
  then have "evaluate cfg v = Inr a" by (simp add: evaluate_def)
  moreover have "\<not> risk_approved a"
    using only_rejects_returning [of code cfg v msg] gate_messages [OF b] a(1)
    by (auto simp: only_rejects_def returning_def dest: rejection_not_approved)
  ultimately show ?thesis using a by blast
qed

text \<open>Risk never enlarges an order. With a position context, the approved quantity is at most
  the order quantity of a reduction or flattening, at most the newly opened quantity of an
  opening or increase, and at most the closing plus the opening quantity of a reversal.\<close>
theorem approval_never_enlarges:
  assumes "evaluate cfg v = Inr a" and "risk_approved a"
    and "ri_position_context v = Some c" and "sizing_from_context c = Inr t"
  shows "fle (rd_approved_quantity (ra_decision a))
    (if pc_transition c \<in> {T_REDUCE, T_FLATTEN} then ts_order_quantity t
     else if pc_transition c = T_REVERSE then fadd (ts_closing_quantity t) (ts_opening_quantity t)
     else ts_opening_quantity t)"
  using assms(1)
proof (cases rule: evaluate_cases)
  case rejected
  then show ?thesis using assms(2) by (simp add: rejection_not_approved)
next
  case (approved d z target factor ord x)
  note t = sizing_from_context_nonneg [OF assms(4)]
  note z = size_position_Next [OF approved(3)]
  have trans: "rz_transition z = Some t"
    using z(1) assms(3,4) by (simp add: transition_sizing_def)
  have rel: "release_only v = (pc_transition c \<in> {T_REDUCE, T_FLATTEN})"
      "reverse_transition v = (pc_transition c = T_REVERSE)"
    by (simp_all add: release_only_def reverse_transition_def assms(3))
  define bound where "bound = (if release_only v then ts_order_quantity t
     else if reverse_transition v then fadd (ts_closing_quantity t) (ts_opening_quantity t)
     else ts_opening_quantity t)"
  have num: "\<not> isnan (ps_quantity (rz_sizing z))" using position_size_not_nan [OF z(2)] .
  have open_le: "fle (rz_risk_opening z) (ts_opening_quantity t)" if "\<not> release_only v"
    using that z(3,4) trans num t by (simp add: fmin_le isfinite_not_nan)
  obtain stepped where oq: "order_quantities v z stepped =
      (ro_quantity ord, ro_opening ord, ro_requested_order ord)"
    using order_from_sizes_Next(1) [OF approved(6)] by blast
  have add: "fle p q \<Longrightarrow> fle (fadd (ts_closing_quantity t) p) (fadd (ts_closing_quantity t) q)" for p q
    using fadd_mono [of p q "ts_closing_quantity t"] t(2) by (simp add: fadd_comm)
  have excl: "\<not> (release_only v \<and> reverse_transition v)" using rel by auto
  have ord: "fle (ro_quantity ord) bound"
    and ord_opening: "reverse_transition v \<Longrightarrow> ro_opening ord = rz_risk_opening z"
    using oq [symmetric] trans open_le add excl t
    by (auto simp: order_quantities_def bound_def reverse_closing_def fle_refl isfinite_not_nan
        split: if_splits)
  have "fle (rx_quantity x) bound"
  proof (cases rule: limit_exposure_cases [OF approved(7)])
    case (1 after)
    then show ?thesis using ord by simp
  next
    case (2 q)
    have q: "\<not> isnan (fmin p q) \<Longrightarrow> fle p r \<Longrightarrow> fle (fmin p q) r" for p r
      by (cases p; cases q; cases r) (auto simp: fmin_def)
    show ?thesis
    proof (cases "reverse_transition v")
      case True
      have "fle (rx_opening x) (ts_opening_quantity t)" "rx_quantity x = fadd (ts_closing_quantity t) (rx_opening x)"
        using 2(3) True assms(3) ord_opening open_le excl q [of "rz_risk_opening z" "ts_opening_quantity t"]
        by (auto simp: resize_to_exposure_def Let_def reverse_closing_def trans
            projected_gross_exposure_def reversed_quantity_def isfinite_not_nan split: if_splits)
      then show ?thesis using True excl add by (simp add: bound_def)
    next
      case False
      have "rx_quantity x = fmin (ro_quantity ord) q" "isfinite (fmin (ro_quantity ord) q)"
        using 2(3) False by (auto simp: resize_to_exposure_def Let_def gross_exposure_after_def split: if_splits)
      then show ?thesis using q ord isfinite_not_nan by simp
    qed
  qed
  then show ?thesis
    unfolding risk_approve_fields(2) [OF approved(9)] bound_def rel by simp
qed

lemma make_risk_config_facts:
  assumes "make_risk_config c = Inr cfg"
  shows "cfg = c" "unit_open (rc_max_gross_exposure cfg)" "\<not> blank (rc_risk_version cfg)"
    "\<not> nonpos (rc_target_multiple_r cfg)" "\<not> nonpos (rc_quantity_step cfg)"
  using assms by (auto simp: make_risk_config_def first_error_Inr simp del: first_error.simps)

text \<open>C12. The gross exposure limit is hard when resizing is off: an approval is not resized, keeps
  the reason code \<open>APPROVED\<close>, and the gross exposure after the order is at most the limit (plus
  the tolerance of the comparison); without a position context that exposure is the current one
  plus the approved notional.\<close>
theorem gross_exposure_limit_holds:
  assumes "make_risk_config c0 = Inr cfg" and "make_risk_input w = Inr v"
    and "evaluate cfg v = Inr a" and "risk_approved a" and "\<not> rc_allow_resize cfg"
  shows "\<exists>g. ra_gross_exposure_after a = Some g \<and> fle g (fadd (exposure_limit cfg v) tolerance) \<and>
    (ri_position_context v = None \<longrightarrow>
       g = fadd (ri_gross_exposure v) (rd_approved_notional (ra_decision a))) \<and>
    risk_action (ra_decision a) = APPROVE"
  using assms(3)
proof (cases rule: evaluate_cases)
  case rejected
  then show ?thesis using assms(4) by (simp add: rejection_not_approved)
next
  case (approved d z target factor ord x)
  note f = risk_approve_fields [OF approved(9)]
  show ?thesis
  proof (cases rule: limit_exposure_cases [OF approved(7)])
    case (1 after)
    obtain e m where em: "ri_available_equity v = Fin e" "rc_max_gross_exposure cfg = Fin m"
      using make_risk_input_facts(5) [OF assms(2)] make_risk_config_facts(2) [OF assms(1)]
      by (cases "ri_available_equity v"; cases "rc_max_gross_exposure cfg") (auto simp: unit_open_def)
    have lim: "\<not> isnan (fadd (exposure_limit cfg v) tolerance)"
      using tolerance_pos by (intro fadd_not_nan) (simp_all add: exposure_limit_def em)
    have after: "\<not> isnan after"
      using 1(1) gross_exposure_not_nan
      by (auto simp: gross_after_order_def Let_def split: option.splits if_splits)
    have "fle after (fadd (exposure_limit cfg v) tolerance)"
      using 1(2) not_fless [OF lim after] by simp
    moreover have "\<not> rx_resized x"
      using 1(3) order_from_sizes_Next(2) [OF approved(6)] assms(5) by auto
    moreover have "ri_position_context v = None \<Longrightarrow>
        after = fadd (ri_gross_exposure v) (fmul (tc_entry_price (ri_candidate v)) (rx_quantity x))"
      using 1(1,3) by (auto simp: gross_after_order_def gross_exposure_after_def Let_def split: if_splits)
    ultimately show ?thesis using f 1(3) by (auto simp: risk_action_def)
  next
    case (2 q)
    then show ?thesis using assms(5) by simp
  qed
qed

text \<open>The target of an approval lies on the profit side: with the stop strictly on the losing
  side, a long trade has stop < entry <= target and a short trade target <= entry < stop, all
  positive and finite, and the stop distance of the assessment is the rounded distance.\<close>
theorem approval_geometry:
  assumes "evaluate cfg v = Inr a" and "risk_approved a"
  shows "\<exists>t. ra_target_price a = Some t \<and> isfinite t \<and> fpos t \<and>
    ra_stop_distance a = Some (fabs (fsub (tc_entry_price (ri_candidate v)) (tc_stop_price (ri_candidate v)))) \<and>
    (case tc_direction (ri_candidate v) of
       CD_LONG \<Rightarrow> fless (tc_stop_price (ri_candidate v)) (tc_entry_price (ri_candidate v)) \<and>
         (py_value (tc_entry_price (ri_candidate v)) \<longrightarrow> fle (tc_entry_price (ri_candidate v)) t)
     | CD_SHORT \<Rightarrow> fless (tc_entry_price (ri_candidate v)) (tc_stop_price (ri_candidate v)) \<and>
         (py_value (tc_entry_price (ri_candidate v)) \<longrightarrow> fle t (tc_entry_price (ri_candidate v))))"
  using assms(1)
proof (cases rule: evaluate_cases)
  case rejected
  then show ?thesis using assms(2) by (simp add: rejection_not_approved)
next
  case (approved d z target factor ord x)
  let ?e = "tc_entry_price (ri_candidate v)" and ?s = "tc_stop_price (ri_candidate v)"
  note st = approved(2) [unfolded check_stop_Next] and tg = approved(4) [unfolded check_target_Next]
  note stop = validate_stop_sound [OF st] and goal = build_target_sound [OF tg]
  have d: "d = fabs (fsub ?e ?s)" using st by (auto simp: validate_stop_def Let_def split: if_splits)
  have r: "fpos (rc_target_multiple_r cfg)" using tg by (auto simp: build_target_def finite_nonpos split: if_splits)
  have gap: "nonneg (fmul d (rc_target_multiple_r cfg))"
    using fmul_pos_nonneg [OF stop(6) r] .
  have long: "py_value ?e \<Longrightarrow> fle ?e (fadd ?e g)" if "nonneg g" for g
    using that stop(1) double.lower_bound
    by (cases ?e; cases g) (auto simp: is_double_def)
  have short: "py_value ?e \<Longrightarrow> fle (fsub ?e g) ?e" if "nonneg g" for g
    using that stop(1) double.upper_bound
    by (cases ?e; cases g) (auto simp: is_double_def fsub_def)
  show ?thesis
    using risk_approve_fields(9,10) [OF approved(9)] stop goal long [OF gap] short [OF gap]
    by (cases "tc_direction (ri_candidate v)") (auto simp: candidate_strategy_direction_def d)
qed

section \<open>From the strategy to the approval\<close>

text \<open>What an approval says of the decision and of the account it was given; \<open>v\<close> is the risk input.\<close>

lemma pipeline_approval:
  assumes "evaluate_strategy_candidate_risk d r cfg account cc enabled = Inr a" and "risk_approved a"
  obtains c v where "enabled" "sd_direction d \<noteq> NO_TRADE"
    "build_candidate_from_strategy d r cc = Inr c" "evaluate cfg v = Inr a"
    "make_risk_input (account\<lparr>ri_timestamp := sd_timestamp d, ri_symbol := sd_symbol d, ri_candidate := c\<rparr>) = Inr v"
    "rd_strategy_direction (ra_decision a) = sd_direction d"
    "rd_symbol (ra_decision a) = symbol_of (sd_symbol d)" "rd_timestamp (ra_decision a) = sd_timestamp d"
    "ri_system_ready v = ri_system_ready account" "kill_active v = kill_active account"
    "ri_market_data_valid v = ri_market_data_valid account"
    "ri_liquidity_available v = ri_liquidity_available account" "daily_state v = daily_state account"
    "ri_candidate v = c"
proof -
  have rej: "\<not> risk_approved b" if "pipeline_rejected d why = Inr b" for why b
    using that by (auto simp: pipeline_rejected_def risk_approved_def assessment_of_def
        make_risk_decision_def risk_decision_defaults_def split: if_splits)
  have dir: "enabled" "sd_direction d \<noteq> NO_TRADE"
    using assms rej by (auto simp: evaluate_strategy_candidate_risk_def split: if_splits)
  obtain c w v where c: "build_candidate_from_strategy d r cc = Inr c"
    and w: "w = account\<lparr>ri_timestamp := sd_timestamp d, ri_symbol := sd_symbol d, ri_candidate := c\<rparr>"
    and v: "make_risk_input w = Inr v" and a: "evaluate cfg v = Inr a"
    using assms dir rej by (auto simp: evaluate_strategy_candidate_risk_def split: sum.splits option.splits)
  obtain x z f t tgt y where ap: "risk_approve cfg v x z f t y = Inr a"
    using a assms(2) by (cases rule: evaluate_cases) (auto dest: rejection_not_approved)
  have sel: "ri_timestamp v = sd_timestamp d" "ri_symbol v = symbol_of (sd_symbol d)" "ri_candidate v = c"
      "ri_system_ready v = ri_system_ready account" "kill_active v = kill_active account"
      "ri_market_data_valid v = ri_market_data_valid account"
      "ri_liquidity_available v = ri_liquidity_available account" "daily_state v = daily_state account"
    using v by (auto simp: make_risk_input_def Let_def w kill_active_def daily_state_def)
  have "tc_direction c = (if sd_direction d = LONG then CD_LONG else CD_SHORT)"
    using c build_candidate_geometry(6)
    by (auto simp: build_candidate_from_strategy_def split: if_splits)
  then have "candidate_strategy_direction v = sd_direction d"
    using dir(2) by (cases "sd_direction d") (auto simp: candidate_strategy_direction_def sel)
  then show thesis
    using dir c v a w risk_approve_fields [OF ap] symbol_of_idem sel by (intro that [of c v]) auto
qed

lemma candidate_row:
  assumes "build_candidate_from_strategy d r cc = Inr c"
  obtains t name where "row_timestamp r = Some t" "aware t" "time_eq t (sd_timestamp d)"
    "row_symbol r = Some name" "symbol_of name = sd_symbol d"
    "build_candidate r (if sd_direction d = LONG then CD_LONG else CD_SHORT) cc = Inr c"
proof -
  have b: "build_candidate r (if sd_direction d = LONG then CD_LONG else CD_SHORT) cc = Inr c"
    and t: "opt_holds aware (row_timestamp r)" "opt_holds (\<lambda>t. time_eq t (sd_timestamp d)) (row_timestamp r)"
    and n: "symbol_of (case row_symbol r of None \<Rightarrow> [] | Some s \<Rightarrow> s) = sd_symbol d"
    using assms by (auto simp: build_candidate_from_strategy_def split: if_splits)
  obtain name where "row_symbol r = Some name"
    using b by (auto simp: build_candidate_def split: option.splits)
  then show thesis using that b t n by (auto simp: opt_holds_def split: option.splits)
qed

text \<open>C5. End to end, from the strategy decision to the approval: \<open>pipeline.py\<close> approves only when
  risk is enabled, the decision is directional and a candidate with its stop on the loss side was
  built in the decision's direction from a row that carries a zoned time stamp of the same instant as
  the decision's and the decision's symbol (after trimming and upper-casing); the approval has the
  decision's direction, symbol and time stamp, and no gate of the account state blocks.\<close>
theorem pipeline_approval_sound:
  assumes "evaluate_strategy_candidate_risk d r cfg account cc enabled = Inr a" and "risk_approved a"
  shows "enabled \<and> sd_direction d \<noteq> NO_TRADE \<and>
    rd_strategy_direction (ra_decision a) = sd_direction d \<and>
    rd_symbol (ra_decision a) = symbol_of (sd_symbol d) \<and>
    rd_timestamp (ra_decision a) = sd_timestamp d \<and>
    (\<exists>c t name. build_candidate_from_strategy d r cc = Inr c \<and> stop_on_side c \<and>
       build_candidate r (if sd_direction d = LONG then CD_LONG else CD_SHORT) cc = Inr c \<and>
       row_timestamp r = Some t \<and> aware t \<and> time_eq t (sd_timestamp d) \<and>
       row_symbol r = Some name \<and> symbol_of name = sd_symbol d) \<and>
    ri_system_ready account \<and> \<not> kill_active account \<and> ri_market_data_valid account \<and>
    ri_liquidity_available account \<and>
    \<not> daily_loss_limit_reached (daily_state account) (rc_max_daily_loss cfg)"
proof -
  obtain c v where built: "build_candidate_from_strategy d r cc = Inr c"
    and head: "enabled" "sd_direction d \<noteq> NO_TRADE"
      "rd_strategy_direction (ra_decision a) = sd_direction d"
      "rd_symbol (ra_decision a) = symbol_of (sd_symbol d)" "rd_timestamp (ra_decision a) = sd_timestamp d"
    and a: "evaluate cfg v = Inr a"
    and sel: "ri_system_ready v = ri_system_ready account" "kill_active v = kill_active account"
      "ri_market_data_valid v = ri_market_data_valid account"
      "ri_liquidity_available v = ri_liquidity_available account" "daily_state v = daily_state account"
      "ri_candidate v = c"
    using assms by (rule pipeline_approval)
  obtain t name where "row_timestamp r = Some t" "aware t" "time_eq t (sd_timestamp d)"
    "row_symbol r = Some name" "symbol_of name = sd_symbol d"
    "build_candidate r (if sd_direction d = LONG then CD_LONG else CD_SHORT) cc = Inr c"
    using built by (rule candidate_row)
  then have "\<exists>c t name. build_candidate_from_strategy d r cc = Inr c \<and> stop_on_side c \<and>
       build_candidate r (if sd_direction d = LONG then CD_LONG else CD_SHORT) cc = Inr c \<and>
       row_timestamp r = Some t \<and> aware t \<and> time_eq t (sd_timestamp d) \<and>
       row_symbol r = Some name \<and> symbol_of name = sd_symbol d"
    using built build_candidate_geometry(1) by blast
  then show ?thesis using head approval_gates [OF a assms(2)] sel by simp
qed

section \<open>Inputs on which the properties apply\<close>

definition demo_candidate :: "CandidateDirection \<Rightarrow> rat \<Rightarrow> TradeCandidate" where
  "demo_candidate dir stop = \<lparr>tc_timestamp = \<lparr>ns = 60 * 10^9 + 10^12, zone = Some 0\<rparr>, tc_symbol = ''ABC'',
     tc_direction = dir, tc_entry_price = Fin 100, tc_stop_price = Fin stop,
     tc_policy_version = ''v1''\<rparr>"

definition demo_account :: "TradeCandidate \<Rightarrow> RiskPositionContext option \<Rightarrow> pyfloat \<Rightarrow> pyfloat option \<Rightarrow> RiskInput" where
  "demo_account c context gross cash = \<lparr>ri_timestamp = \<lparr>ns = 60 * 10^9 + 10^12, zone = Some 0\<rparr>, ri_symbol = ''ABC'',
     ri_candidate = c, ri_available_equity = Fin 100000, ri_day_start_equity = Fin 100000,
     ri_available_cash = cash, ri_peak_equity = None, ri_realized_pnl = Fin 0,
     ri_unrealized_pnl = Fin 0, ri_open_positions = 0, ri_trades_today = 0,
     ri_gross_exposure = gross, ri_symbol_already_open = False, ri_position_context = context,
     ri_liquidity_available = True, ri_kill_switch_active = False, ri_sector = None,
     ri_symbol_exposure = [], ri_sector_exposure = [], ri_pairwise_correlation = [], ri_atr = None,
     ri_high_volatility = False, ri_market_data_valid = True, ri_system_ready = True,
     ri_kill_switch_state = None\<rparr>"

definition demo_open :: RiskPositionContext where
  "demo_open = \<lparr>pc_transition = T_OPEN, pc_existing_quantity = Fin 0, pc_projected_quantity = Fin 200\<rparr>"

abbreviation demo_plain :: RiskInput where
  "demo_plain \<equiv> demo_account (demo_candidate CD_LONG 98) None (Fin 1000) None"

abbreviation demo_opening :: RiskInput where
  "demo_opening \<equiv> demo_account (demo_candidate CD_LONG 98) (Some demo_open) (Fin 0) None"

lemma demo_inputs: "make_risk_input demo_plain = Inr demo_plain"
  "make_risk_input demo_opening = Inr demo_opening"
  "make_risk_config default_risk_config = Inr default_risk_config"
  by code_simp+

lemma demo_plain_approved: "returns (\<lambda>a. risk_approved a \<and> rd_approved_quantity (ra_decision a) = Fin 250)
    (evaluate default_risk_config demo_plain)"
  by code_simp

lemma demo_opening_approved: "returns (\<lambda>a. risk_approved a \<and> rd_approved_quantity (ra_decision a) = Fin 200)
    (evaluate default_risk_config demo_opening)"
  by code_simp

lemma approval_passed_every_gate_witness:
  "\<exists>a. evaluate default_risk_config demo_plain = Inr a \<and> risk_approved a \<and> stop_on_side (ri_candidate demo_plain)"
  using demo_plain_approved approval_passed_every_gate by (auto simp: returns_iff)

lemma rejection_carries_no_exposure_witness:
  "\<exists>a. evaluate default_risk_config (demo_plain\<lparr>ri_system_ready := False\<rparr>) = Inr a \<and>
     risk_action (ra_decision a) = REJECT"
proof -
  have "returns (\<lambda>a. \<not> risk_approved a) (evaluate default_risk_config (demo_plain\<lparr>ri_system_ready := False\<rparr>))"
    by code_simp
  then show ?thesis using rejection_carries_no_exposure by (auto simp: returns_iff)
qed

lemma blocked_gate_rejects_witness:
  "\<exists>a. evaluate default_risk_config (demo_plain\<lparr>ri_kill_switch_active := True\<rparr>) = Inr a \<and>
     rd_reason_code (ra_decision a) = Some KILL_SWITCH_ACTIVE"
proof -
  have "make_risk_input (demo_plain\<lparr>ri_kill_switch_active := True\<rparr>) = Inr (demo_plain\<lparr>ri_kill_switch_active := True\<rparr>)"
    "first_gate (risk_gates default_risk_config (demo_plain\<lparr>ri_kill_switch_active := True\<rparr>))
       = Some (''Kill switch is active.'', KILL_SWITCH_ACTIVE)"
    by code_simp+
  then show ?thesis using blocked_gate_rejects demo_inputs(3) by blast
qed

lemma approval_never_enlarges_witness:
  "\<exists>a. evaluate default_risk_config demo_opening = Inr a \<and> fle (rd_approved_quantity (ra_decision a)) (Fin 200)"
proof -
  obtain a where a: "evaluate default_risk_config demo_opening = Inr a" "risk_approved a"
    using demo_opening_approved by (auto simp: returns_iff)
  have s: "sizing_from_context demo_open = Inr \<lparr>ts_order_quantity = Fin 200, ts_closing_quantity = Fin 0,
      ts_opening_quantity = Fin 200\<rparr>" by code_simp
  show ?thesis using approval_never_enlarges [OF a _ s] a(1)
    by (auto simp: demo_account_def demo_open_def)
qed

lemma gross_exposure_limit_holds_witness:
  "\<exists>a g. evaluate default_risk_config demo_plain = Inr a \<and> ra_gross_exposure_after a = Some g \<and>
     fle g (fadd (exposure_limit default_risk_config demo_plain) tolerance)"
proof -
  obtain a where a: "evaluate default_risk_config demo_plain = Inr a" "risk_approved a"
    using demo_plain_approved by (auto simp: returns_iff)
  have "\<not> rc_allow_resize default_risk_config" by code_simp
  then show ?thesis using gross_exposure_limit_holds [OF demo_inputs(3,1) a] a(1) by blast
qed

lemma approval_geometry_witness:
  "\<exists>a t. evaluate default_risk_config demo_plain = Inr a \<and> ra_target_price a = Some t \<and> fpos t"
  using demo_plain_approved approval_geometry by (fastforce simp: returns_iff)

definition demo_row :: row where
  "demo_row = \<lparr>row_timestamp = Some \<lparr>ns = 60 * 10^9 + 10^12, zone = Some 0\<rparr>, row_symbol = Some '' abc'',
     row_regime = None, row_cells = [(''close'', Num (Fin 100)), (''atr_14'', Num (Fin 4)),
       (''swing_low'', Num (Fin 98))]\<rparr>"

definition demo_decision :: StrategyDecision where
  "demo_decision = decision_defaults \<lparr>ns = 60 * 10^9 + 10^12, zone = Some 0\<rparr> ''ABC'' LONG ''v1.0'' ''trend''"

lemma pipeline_approval_sound_witness:
  "\<exists>a. evaluate_strategy_candidate_risk demo_decision demo_row default_risk_config demo_plain
       default_candidate_config True = Inr a \<and> rd_strategy_direction (ra_decision a) = LONG \<and>
     (\<exists>t. row_timestamp demo_row = Some t \<and> time_eq t (sd_timestamp demo_decision))"
proof -
  have "returns risk_approved (evaluate_strategy_candidate_risk demo_decision demo_row default_risk_config
      demo_plain default_candidate_config True)" by code_simp
  then obtain a where a: "evaluate_strategy_candidate_risk demo_decision demo_row default_risk_config
      demo_plain default_candidate_config True = Inr a" "risk_approved a" by (auto simp: returns_iff)
  have "sd_direction demo_decision = LONG" by code_simp
  then show ?thesis using pipeline_approval_sound [OF a] a(1) by auto
qed

section \<open>Where the code departs from its comments\<close>

text \<open>A reduction of an over-exposed account is refused. With gross exposure 80000 on equity
  100000 and the default limit of 75 percent, reducing 800 shares to 790 lowers the gross exposure to 79000,
  and \<open>evaluate\<close> rejects it with \<open>MAX_GROSS_EXPOSURE\<close>, although "no new gross budget is consumed";
  with \<open>allow_resize\<close> it is rejected as well.\<close>
theorem reduction_blocked_by_gross_limit:
  "let context = \<lparr>pc_transition = T_REDUCE, pc_existing_quantity = Fin 800, pc_projected_quantity = Fin 790\<rparr>;
       v = demo_account (demo_candidate CD_SHORT 102) (Some context) (Fin 80000) None in
   make_risk_input v = Inr v \<and> make_position_context context = Inr context \<and>
   gross_after_order v (Fin 10) (Fin 0) = Inr (Fin 79000) \<and>
   list_all (\<lambda>resize. returns (\<lambda>a. rd_reason_code (ra_decision a) = Some MAX_GROSS_EXPOSURE)
        (evaluate (default_risk_config\<lparr>rc_allow_resize := resize\<rparr>) v)) [False, True]"
  by code_simp

text \<open>The cash limit does not reach the order when a position context is given: with
  \<open>allow_resize\<close> and cash for 10 shares at 100, opening 200 shares is approved as "resized", with
  the full quantity 200 and a notional of 20000 against cash of 1000.\<close>
theorem cash_limit_ignored_with_context:
  "let v = demo_account (demo_candidate CD_LONG 98) (Some demo_open) (Fin 0) (Some (Fin 1000)) in
   make_risk_input v = Inr v \<and>
   returns (\<lambda>a. risk_approved a \<and> rd_resized (ra_decision a) \<and>
       rd_approved_quantity (ra_decision a) = Fin 200 \<and>
       rd_approved_notional (ra_decision a) = Fin 20000)
     (evaluate (default_risk_config\<lparr>rc_allow_resize := True\<rparr>) v)"
  by code_simp

text \<open>\<open>floor_to_step\<close> rounds up within its tolerance: a quantity just below three is "rounded
  down" to three.\<close>
theorem floor_to_step_rounds_up:
  "fless (Fin (3 - 1 / 2 ^ 42)) (Fin 3) \<and> is_double (3 - 1 / 2 ^ 42) \<and>
   floor_to_step (Fin (3 - 1 / 2 ^ 42)) (Fin 1) = Inr (Fin 3)"
  by code_simp
end
