(* ===== verification/Sha256.thy ===== *)
theory Sha256
  imports Prelude "HOL-Library.Word"
begin

text \<open>
  \<open>hashlib.sha256(text.encode("utf-8")).hexdigest()\<close> for ASCII text: the hash behind the
  deterministic order identifiers and event identifiers. The padding, the message schedule and
  the compression function are those of FIPS 180-4.
\<close>

type_synonym w32 = "32 word"

text \<open>The round constants, each line the eight constants of one row of the standard's table.\<close>

definition sha_row :: "int \<Rightarrow> w32 list" where
  "sha_row r = map (\<lambda>i. word_of_int (r div 2 ^ (32 * i))) (rev [0..<8])"

definition sha_k :: "w32 list" where
  "sha_k = concat (map sha_row [
    0x428a2f9871374491b5c0fbcfe9b5dba53956c25b59f111f1923f82a4ab1c5ed5,
    0xd807aa9812835b01243185be550c7dc372be5d7480deb1fe9bdc06a7c19bf174,
    0xe49b69c1efbe47860fc19dc6240ca1cc2de92c6f4a7484aa5cb0a9dc76f988da,
    0x983e5152a831c66db00327c8bf597fc7c6e00bf3d5a7914706ca635114292967,
    0x27b70a852e1b21384d2c6dfc53380d13650a7354766a0abb81c2c92e92722c85,
    0xa2bfe8a1a81a664bc24b8b70c76c51a3d192e819d6990624f40e3585106aa070,
    0x19a4c1161e376c082748774c34b0bcb5391c0cb34ed8aa4a5b9cca4f682e6ff3,
    0x748f82ee78a5636f84c878148cc7020890befffaa4506cebbef9a3f7c67178f2])"

definition sha_init :: "w32 list" where
  "sha_init = sha_row
    0x6a09e667bb67ae853c6ef372a54ff53a510e527f9b05688c1f83d9ab5be0cd19"

unbundle bit_operations_syntax

definition sha_sigma :: "nat \<Rightarrow> nat \<Rightarrow> w32 \<Rightarrow> w32 \<Rightarrow> w32" where
  "sha_sigma i j y x = (word_rotr i x XOR word_rotr j x XOR y)"

definition sha_ch :: "w32 \<Rightarrow> w32 \<Rightarrow> w32 \<Rightarrow> w32" where
  "sha_ch x y z = ((x AND y) XOR (NOT x AND z))"

definition sha_maj :: "w32 \<Rightarrow> w32 \<Rightarrow> w32 \<Rightarrow> w32" where
  "sha_maj x y z = ((x AND y) XOR (x AND z) XOR (y AND z))"

text \<open>The schedule grows a window of the sixteen latest words, latest last.\<close>

fun sha_schedule :: "nat \<Rightarrow> w32 list \<Rightarrow> w32 list" where
  "sha_schedule 0 w = w"
| "sha_schedule (Suc n) w =
    (let k = length w; a = w ! (k - 15); b = w ! (k - 2) in
     sha_schedule n (w @ [sha_sigma 17 19 (drop_bit 10 b) b + w ! (k - 7)
        + sha_sigma 7 18 (drop_bit 3 a) a + w ! (k - 16)]))"

fun sha_round :: "w32 list \<Rightarrow> w32 \<times> w32 \<Rightarrow> w32 list" where
  "sha_round [a, b, c, d, e, f, g, h] (k, w) =
    (let t1 = h + sha_sigma 6 11 (word_rotr 25 e) e + sha_ch e f g + k + w;
         t2 = sha_sigma 2 13 (word_rotr 22 a) a + sha_maj a b c
     in [t1 + t2, a, b, c, d + t1, e, f, g])"
| "sha_round s kw = s"

definition sha_block :: "w32 list \<Rightarrow> w32 list \<Rightarrow> w32 list" where
  "sha_block h block = map2 (+) h (foldl sha_round h (zip sha_k (sha_schedule 48 block)))"

fun sha_words :: "int list \<Rightarrow> w32 list" where
  "sha_words (a # b # c # d # bytes) =
     word_of_int (((a * 256 + b) * 256 + c) * 256 + d) # sha_words bytes"
| "sha_words bytes = []"

definition sha_pad :: "int list \<Rightarrow> int list" where
  "sha_pad bytes = (let n = length bytes; zeros = (119 - n mod 64) mod 64 in
     bytes @ [128] @ replicate zeros 0 @ map (\<lambda>i. (8 * int n) div 256 ^ i mod 256) (rev [0..<8]))"

function sha_blocks :: "w32 list \<Rightarrow> w32 list \<Rightarrow> w32 list" where
  "sha_blocks h ws = (if length ws < 16 then h else sha_blocks (sha_block h (take 16 ws)) (drop 16 ws))"
  by auto
termination by (relation "measure (\<lambda>(h, ws). length ws)") auto

declare sha_blocks.simps [simp del]

definition hex_digit :: "int \<Rightarrow> char" where
  "hex_digit d = char_of (if d < 10 then 48 + d else 87 + d)"

definition hex_word :: "w32 \<Rightarrow> string" where
  "hex_word w = map (\<lambda>i. hex_digit (uint w div 16 ^ i mod 16)) (rev [0..<8])"

definition sha256_hex :: "string \<Rightarrow> string" where
  "sha256_hex s = concat (map hex_word (sha_blocks sha_init (sha_words (sha_pad (map of_char s)))))"

lemma length_sha_block: "length h = 8 \<Longrightarrow> length (sha_block h block) = 8"
proof -
  have "length h = 8 \<Longrightarrow> length (foldl sha_round h xs) = 8" for xs :: "(w32 \<times> w32) list"
  proof (induction xs arbitrary: h)
    case (Cons x xs)
    have "length (sha_round h x) = length h"
      by (cases "(h, x)" rule: sha_round.cases) (simp_all add: Let_def)
    with Cons show ?case by simp
  qed simp
  then show "length h = 8 \<Longrightarrow> length (sha_block h block) = 8" by (simp add: sha_block_def)
qed

lemma length_sha_blocks: "length h = 8 \<Longrightarrow> length (sha_blocks h ws) = 8"
  by (induction h ws rule: sha_blocks.induct) (subst sha_blocks.simps, auto simp: length_sha_block)

lemma length_sha256_hex: "length (sha256_hex s) = 64"
proof -
  have "length (sha_blocks sha_init ws) = 8" for ws
    by (rule length_sha_blocks) (simp add: sha_init_def sha_row_def)
  then show ?thesis
    by (simp add: sha256_hex_def length_concat o_def hex_word_def sum_list_triv)
qed

lemma hex_digit_not_space:
  assumes "0 \<le> d" "d < 16"
  shows "\<not> is_space (hex_digit d)"
proof -
  have "list_all (\<lambda>d. \<not> is_space (hex_digit d)) [0..15]" by code_simp
  moreover have "d \<in> set [0..15]" using assms by simp
  ultimately show ?thesis unfolding list_all_iff by blast
qed

lemma sha256_hex_not_blank: "\<not> blank (sha256_hex s)"
proof -
  have ok: "\<forall>c \<in> set (sha256_hex s). \<not> is_space c"
    using hex_digit_not_space [of "_ mod 16"] by (auto simp: sha256_hex_def hex_word_def)
  have none: "dropWhile is_space xs = xs" if "\<forall>c \<in> set xs. \<not> is_space c" for xs
    using that by (cases xs) auto
  have "strip (sha256_hex s) = sha256_hex s" using ok by (simp add: strip_def none)
  moreover have "sha256_hex s \<noteq> []" using length_sha256_hex [of s] by auto
  ultimately show ?thesis by (simp add: blank_def)
qed

text \<open>The test vector of the standard.\<close>

lemma sha256_abc:
  "sha256_hex ''abc'' = ''ba7816bf8f01cfea414140de5dae2223b00361a396177a9cb410ff61f20015ad''"
  by code_simp

end
