(* ===== verification/ExecAuth.thy ===== *)
theory ExecAuth
  imports RiskContracts Sha256
begin

text \<open>
  The execution boundary: \<open>execution/trading_execution.py\<close> (authorization of a risk decision),
  \<open>safety.py\<close> (the independent safety gate), \<open>control.py\<close> (both combined) and
  \<open>kill_switch.py\<close> (the latched kill switch). \<open>stamp\<close> is the text of the clock.
\<close>

section \<open>Authorization\<close>

datatype ExecutionAuthorizationStatus = AUTHORIZED | BLOCKED

record ExecutionAuthorization =
  ea_timestamp :: pytime
  ea_symbol :: string
  ea_direction :: StrategyDirection
  ea_status :: ExecutionAuthorizationStatus
  ea_reason :: string
  ea_risk_version :: string
  ea_approved_quantity :: pyfloat
  ea_approved_notional :: pyfloat
  ea_risk_decision_id :: string
  ea_restrictions :: "string list"
  ea_execution_version :: string
  ea_position_transition :: "RiskPositionTransition option"
  ea_approved_projected_quantity :: "pyfloat option"

definition make_execution_authorization :: "ExecutionAuthorization \<Rightarrow> ExecutionAuthorization res" where
  "make_execution_authorization a =
    (if \<not> aware (ea_timestamp a) then Inl (ValueError ''execution timestamp must be timezone-aware'')
     else if blank (ea_symbol a) then Inl (ValueError ''execution symbol must not be empty'')
     else if fneg_lt (ea_approved_quantity a) \<or> fneg_lt (ea_approved_notional a)
       then Inl (ValueError ''approved exposure must be non-negative'')
     else Inr a)"

text \<open>The sizes an approved decision hands over; an explicit size must equal the approved one.\<close>

definition authorized_sizes ::
  "RiskDecision \<Rightarrow> pyfloat option \<Rightarrow> pyfloat option \<Rightarrow> (pyfloat \<times> pyfloat) res" where
  "authorized_sizes d quantity notional =
    (if rd_status d \<noteq> RS_APPROVED then Inr (Fin 0, Fin 0)
     else if nonpos (rd_approved_quantity d)
       then Inl (ValueError ''approved RiskDecision must carry a positive quantity'')
     else if opt_holds (\<lambda>q. \<not> feq q (rd_approved_quantity d)) quantity
       then Inl (ValueError ''execution quantity must exactly equal RiskDecision approved quantity'')
     else if opt_holds (\<lambda>n. \<not> feq n (rd_approved_notional d)) notional
       then Inl (ValueError ''execution notional must exactly equal RiskDecision approved notional'')
     else Inr (rd_approved_quantity d, rd_approved_notional d))"

definition authorize_risk_decision ::
  "RiskDecision \<Rightarrow> pyfloat option \<Rightarrow> pyfloat option \<Rightarrow> string \<Rightarrow> string list
     \<Rightarrow> ExecutionAuthorization res" where
  "authorize_risk_decision d approved_quantity approved_notional decision_id restrictions =
    rbind (authorized_sizes d approved_quantity approved_notional) (\<lambda>(quantity, notional).
      let blocked = (rd_status d \<noteq> RS_APPROVED) in
      make_execution_authorization \<lparr>ea_timestamp = rd_timestamp d, ea_symbol = rd_symbol d,
        ea_direction = rd_strategy_direction d,
        ea_status = (if blocked then BLOCKED else AUTHORIZED),
        ea_reason = (if blocked then ''Execution blocked because RiskDecision is not APPROVED.''
           else ''RiskDecision authorizes the exact Risk Engine approved exposure.''),
        ea_risk_version = rd_risk_version d, ea_approved_quantity = quantity,
        ea_approved_notional = notional, ea_risk_decision_id = decision_id,
        ea_restrictions = restrictions, ea_execution_version = ''risk-aware-v2.0'',
        ea_position_transition = rd_position_transition d,
        ea_approved_projected_quantity = rd_approved_projected_quantity d\<rparr>)"

section \<open>The independent safety gate\<close>

datatype SafetyBlock = SB_NONE | SB_KILL_SWITCH | SB_STALE_DATA | SB_DATA_QUALITY | SB_SESSION_CLOSED | SB_LIVE_LOCKED

fun block_value :: "SafetyBlock \<Rightarrow> string" where
  "block_value SB_NONE = ''NONE''"
| "block_value SB_KILL_SWITCH = ''KILL_SWITCH''"
| "block_value SB_STALE_DATA = ''STALE_DATA''"
| "block_value SB_DATA_QUALITY = ''DATA_QUALITY''"
| "block_value SB_SESSION_CLOSED = ''SESSION_CLOSED''"
| "block_value SB_LIVE_LOCKED = ''LIVE_LOCKED''"

record SafetyState =
  ss_kill_switch_active :: bool
  ss_stale_data :: bool
  ss_data_quality_ok :: bool
  ss_session_open :: bool
  ss_live_execution_enabled :: bool

record SafetyDecision =
  sf_allowed :: bool
  sf_block :: SafetyBlock
  sf_reason :: string

fun first_block :: "(bool \<times> SafetyBlock \<times> string) list \<Rightarrow> SafetyDecision option" where
  "first_block [] = None"
| "first_block ((blocked, b, reason) # rest) =
    (if blocked then Some \<lparr>sf_allowed = False, sf_block = b, sf_reason = reason\<rparr> else first_block rest)"

definition safety_evaluate :: "SafetyState \<Rightarrow> SafetyDecision" where
  "safety_evaluate s =
    (case first_block
       [(ss_kill_switch_active s, SB_KILL_SWITCH, ''Independent kill switch is active.''),
        (ss_stale_data s, SB_STALE_DATA, ''Market data is stale.''),
        (\<not> ss_data_quality_ok s, SB_DATA_QUALITY, ''Market data quality is not valid.''),
        (\<not> ss_session_open s, SB_SESSION_CLOSED, ''Trading session is closed.''),
        (\<not> ss_live_execution_enabled s, SB_LIVE_LOCKED,
           ''Live execution remains locked by the trading specification.'')] of
       Some d \<Rightarrow> d
     | None \<Rightarrow> \<lparr>sf_allowed = True, sf_block = SB_NONE, sf_reason = ''Independent safety checks passed.''\<rparr>)"

definition default_safety_state :: SafetyState where
  "default_safety_state = \<lparr>ss_kill_switch_active = False, ss_stale_data = False,
     ss_data_quality_ok = True, ss_session_open = True, ss_live_execution_enabled = False\<rparr>"

definition validate_live_lock :: bool where
  "validate_live_lock = (let d = safety_evaluate default_safety_state in
     \<not> sf_allowed d \<and> sf_block d = SB_LIVE_LOCKED)"

section \<open>Both controls\<close>

definition authorize_execution ::
  "RiskDecision \<Rightarrow> pyfloat option \<Rightarrow> pyfloat option \<Rightarrow> string \<Rightarrow> string list \<Rightarrow> SafetyDecision
     \<Rightarrow> ExecutionAuthorization res" where
  "authorize_execution d approved_quantity approved_notional decision_id restrictions safety =
    rbind (authorize_risk_decision d approved_quantity approved_notional decision_id restrictions) (\<lambda>a.
      if \<not> sf_allowed safety then
        make_execution_authorization (a\<lparr>ea_status := BLOCKED,
          ea_reason := ''Independent safety gate blocked execution: '' @ sf_reason safety,
          ea_approved_quantity := Fin 0, ea_approved_notional := Fin 0,
          ea_restrictions := ea_restrictions a @ [''safety_block:'' @ block_value (sf_block safety)]\<rparr>)
      else Inr a)"

section \<open>The latched kill switch\<close>

record KillSwitchEvent =
  ke_event_id :: string
  ke_timestamp :: string
  ke_action :: string
  ke_reason :: string
  ke_source :: string

record KillSwitchController =
  kc_active :: bool
  kc_reason :: string
  kc_activation_count :: nat
  kc_clear_count :: nat
  kc_events :: "KillSwitchEvent list"

record KillSwitchSnapshot =
  kn_active :: bool
  kn_reason :: string
  kn_activation_count :: nat
  kn_clear_count :: nat
  kn_last_event :: "KillSwitchEvent option"

definition make_kill_switch_event :: "KillSwitchEvent \<Rightarrow> KillSwitchEvent res" where
  "make_kill_switch_event e =
    (if ke_action e \<notin> {''ACTIVATE'', ''CLEAR''} then Inl (ValueError ''invalid kill-switch action'')
     else if blank (ke_event_id e) then Inl (ValueError ''event_id must be non-empty'')
     else if blank (ke_timestamp e) then Inl (ValueError ''timestamp must be non-empty'')
     else if blank (ke_reason e) then Inl (ValueError ''reason must be non-empty'')
     else if blank (ke_source e) then Inl (ValueError ''source must be non-empty'')
     else Inr e)"

definition kill_switch_make_event :: "string \<Rightarrow> string \<Rightarrow> string \<Rightarrow> string \<Rightarrow> KillSwitchEvent res" where
  "kill_switch_make_event action reason source stamp =
    (if blank reason then Inl (ValueError ''kill-switch reason must be non-empty'')
     else if blank source then Inl (ValueError ''kill-switch source must be non-empty'')
     else make_kill_switch_event
       \<lparr>ke_event_id = sha256_hex (action @ ''|'' @ strip reason @ ''|'' @ strip source @ ''|'' @ stamp),
        ke_timestamp = stamp, ke_action = action, ke_reason = strip reason, ke_source = strip source\<rparr>)"

definition kill_switch_init :: "string \<Rightarrow> KillSwitchController res" where
  "kill_switch_init stamp =
    (let reason = ''Kill switch starts active until explicitly cleared.'' in
     rbind (kill_switch_make_event ''ACTIVATE'' reason ''system-start'' stamp) (\<lambda>e.
       Inr \<lparr>kc_active = True, kc_reason = reason, kc_activation_count = 1, kc_clear_count = 0,
         kc_events = [e]\<rparr>))"

definition kill_switch_snapshot :: "KillSwitchController \<Rightarrow> KillSwitchSnapshot" where
  "kill_switch_snapshot c = \<lparr>kn_active = kc_active c, kn_reason = kc_reason c,
     kn_activation_count = kc_activation_count c, kn_clear_count = kc_clear_count c,
     kn_last_event = (if kc_events c = [] then None else Some (last (kc_events c)))\<rparr>"

definition kill_switch_activate ::
  "string \<Rightarrow> string \<Rightarrow> string \<Rightarrow> (KillSwitchController, KillSwitchSnapshot) act" where
  "kill_switch_activate reason source stamp =
    abind (alift (kill_switch_make_event ''ACTIVATE'' reason source stamp)) (\<lambda>e.
    athen (amod (\<lambda>c. c\<lparr>kc_active := True, kc_reason := ke_reason e,
        kc_activation_count := kc_activation_count c + 1, kc_events := kc_events c @ [e]\<rparr>))
      (aget kill_switch_snapshot))"

definition kill_switch_clear ::
  "string \<Rightarrow> string \<Rightarrow> string \<Rightarrow> string \<Rightarrow> (KillSwitchController, KillSwitchSnapshot) act" where
  "kill_switch_clear confirmation reason source stamp =
    (if confirmation \<noteq> ''CLEAR KILL SWITCH''
       then araise (ValueError ''explicit kill-switch confirmation required'')
     else abind (alift (kill_switch_make_event ''CLEAR'' reason source stamp)) (\<lambda>e.
       athen (amod (\<lambda>c. c\<lparr>kc_active := False, kc_reason := ke_reason e,
           kc_clear_count := kc_clear_count c + 1, kc_events := kc_events c @ [e]\<rparr>))
         (aget kill_switch_snapshot)))"

definition kill_switch_assert_safe :: "KillSwitchController \<Rightarrow> unit res" where
  "kill_switch_assert_safe c =
    (if kc_active c then Inl (RuntimeError (''kill switch active: '' @ kc_reason c)) else Inr ())"

section \<open>Facts\<close>

lemma make_execution_authorization_eq: "make_execution_authorization a = Inr b \<Longrightarrow> b = a"
  by (auto simp: make_execution_authorization_def split: if_splits)

lemma authorize_risk_decision_fields:
  assumes "authorize_risk_decision d q n i r = Inr a"
  shows "ea_symbol a = rd_symbol d" "ea_direction a = rd_strategy_direction d"
    "ea_status a = (if rd_status d = RS_APPROVED then AUTHORIZED else BLOCKED)"
    "ea_approved_quantity a = (if rd_status d = RS_APPROVED then rd_approved_quantity d else Fin 0)"
    "rd_status d = RS_APPROVED \<Longrightarrow> \<not> nonpos (rd_approved_quantity d)"
    "ea_timestamp a = rd_timestamp d"
    "ea_approved_notional a = (if rd_status d = RS_APPROVED then rd_approved_notional d else Fin 0)"
  using assms
  by (auto simp: authorize_risk_decision_def authorized_sizes_def Let_def
      dest!: make_execution_authorization_eq split: if_splits)

text \<open>C4. Execution is authorized exactly when both controls agree: \<open>authorize_execution\<close> returns an
  \<open>AUTHORIZED\<close> authorization only for an approved risk decision that the safety gate allows,
  with exactly the approved quantity (which is positive), notional, symbol and direction; any other
  authorization it returns carries no exposure.\<close>
theorem authorization_needs_both_controls:
  assumes "authorize_execution d q n i r safety = Inr a"
  shows "(ea_status a = AUTHORIZED) = (rd_status d = RS_APPROVED \<and> sf_allowed safety) \<and>
    ea_symbol a = rd_symbol d \<and> ea_direction a = rd_strategy_direction d \<and>
    (if ea_status a = AUTHORIZED
     then ea_approved_quantity a = rd_approved_quantity d \<and> ea_approved_notional a = rd_approved_notional d \<and>
       \<not> nonpos (ea_approved_quantity a)
     else ea_approved_quantity a = Fin 0 \<and> ea_approved_notional a = Fin 0)"
proof -
  obtain b where b: "authorize_risk_decision d q n i r = Inr b"
    using assms by (auto simp: authorize_execution_def)
  note f = authorize_risk_decision_fields [OF b]
  show ?thesis
  proof (cases "sf_allowed safety")
    case True
    then have "a = b" using assms b by (simp add: authorize_execution_def)
    then show ?thesis using f True by auto
  next
    case False
    then have "ea_status a = BLOCKED" "ea_approved_quantity a = Fin 0" "ea_approved_notional a = Fin 0"
        "ea_symbol a = ea_symbol b" "ea_direction a = ea_direction b"
      using assms b by (auto simp: authorize_execution_def dest!: make_execution_authorization_eq)
    then show ?thesis using f False by simp
  qed
qed

text \<open>The safety gate fails closed: it allows execution exactly when the kill switch is off, the
  data is fresh and of good quality, the session is open and live execution was enabled; the default
  state is locked.\<close>
theorem safety_gate_fails_closed:
  "sf_allowed (safety_evaluate s) = (\<not> ss_kill_switch_active s \<and> \<not> ss_stale_data s \<and>
     ss_data_quality_ok s \<and> ss_session_open s \<and> ss_live_execution_enabled s) \<and>
   (sf_allowed (safety_evaluate s) = (sf_block (safety_evaluate s) = SB_NONE)) \<and> validate_live_lock"
proof -
  have "validate_live_lock" by code_simp
  then show ?thesis by (simp add: safety_evaluate_def)
qed

section \<open>The kill switch stays latched\<close>

datatype kill_call = Activate string string string | Clear string string string string

fun kill_step :: "KillSwitchController \<Rightarrow> kill_call \<Rightarrow> KillSwitchController" where
  "kill_step c (Activate reason source stamp) = snd (kill_switch_activate reason source stamp c)"
| "kill_step c (Clear confirmation reason source stamp) = snd (kill_switch_clear confirmation reason source stamp c)"

definition kill_run :: "string \<Rightarrow> kill_call list \<Rightarrow> KillSwitchController res" where
  "kill_run stamp cs = rbind (kill_switch_init stamp) (\<lambda>c. Inr (foldl kill_step c cs))"

definition kill_consistent :: "KillSwitchController \<Rightarrow> bool" where
  "kill_consistent c = (kc_events c \<noteq> [] \<and>
     kc_active c = (ke_action (last (kc_events c)) = ''ACTIVATE'') \<and>
     kc_reason c = ke_reason (last (kc_events c)) \<and>
     kc_activation_count c = length (filter (\<lambda>e. ke_action e = ''ACTIVATE'') (kc_events c)) \<and>
     kc_clear_count c = length (filter (\<lambda>e. ke_action e = ''CLEAR'') (kc_events c)))"

lemma kill_event_fields:
  "kill_switch_make_event action reason source stamp = Inr e \<Longrightarrow>
     ke_action e = action \<and> ke_reason e = strip reason"
  by (auto simp: kill_switch_make_event_def make_kill_switch_event_def split: if_splits)

lemma kill_step_consistent: "kill_consistent c \<Longrightarrow> kill_consistent (kill_step c k)"
proof (cases k)
  case (Activate reason source stamp)
  then show "kill_consistent c \<Longrightarrow> ?thesis"
    by (cases "kill_switch_make_event ''ACTIVATE'' reason source stamp")
      (auto simp: kill_switch_activate_def abind_run athen_run kill_consistent_def dest!: kill_event_fields)
next
  case (Clear confirmation reason source stamp)
  then show "kill_consistent c \<Longrightarrow> ?thesis"
    by (cases "kill_switch_make_event ''CLEAR'' reason source stamp")
      (auto simp: kill_switch_clear_def abind_run athen_run kill_consistent_def dest!: kill_event_fields)
qed

text \<open>C14. The kill switch is latched. After any sequence of calls, whether they return or raise, it
  is active exactly when the last recorded event is an activation, its reason is that event's
  reason, and its two counters count the recorded activations and clearances.\<close>
theorem kill_switch_latched:
  assumes "kill_run stamp cs = Inr c"
  shows "kill_consistent c"
proof -
  have "kill_consistent c0 \<Longrightarrow> kill_consistent (foldl kill_step c0 cs)" for c0
    by (induction cs arbitrary: c0) (auto intro: kill_step_consistent)
  moreover have "kill_switch_init stamp = Inr c0 \<Longrightarrow> kill_consistent c0" for c0
    by (auto simp: kill_switch_init_def Let_def kill_consistent_def strip_def is_space_def dest!: kill_event_fields)
  ultimately show ?thesis using assms by (auto simp: kill_run_def)
qed

text \<open>Only an explicit confirmation opens the kill switch: a step that takes an active switch to
  an inactive one is a \<open>clear\<close> with the exact confirmation text and a non-blank reason and source;
  while the switch is active \<open>assert_safe\<close> raises.\<close>
theorem kill_switch_needs_confirmation:
  assumes "kc_active c" and "\<not> kc_active (kill_step c k)"
  shows "\<exists>reason source stamp. k = Clear ''CLEAR KILL SWITCH'' reason source stamp \<and>
    \<not> blank reason \<and> \<not> blank source \<and> kill_switch_assert_safe c \<noteq> Inr ()"
proof (cases k)
  case (Activate reason source stamp)
  then show ?thesis using assms
    by (cases "kill_switch_make_event ''ACTIVATE'' reason source stamp")
      (auto simp: kill_switch_activate_def abind_run athen_run)
next
  case (Clear confirmation reason source stamp)
  have "confirmation = ''CLEAR KILL SWITCH''"
    using assms Clear by (auto simp: kill_switch_clear_def split: if_splits)
  moreover obtain e where "kill_switch_make_event ''CLEAR'' reason source stamp = Inr e"
    using assms Clear calculation
    by (cases "kill_switch_make_event ''CLEAR'' reason source stamp")
      (auto simp: kill_switch_clear_def abind_run athen_run)
  ultimately show ?thesis using Clear assms(1)
    by (auto simp: kill_switch_make_event_def kill_switch_assert_safe_def split: if_splits)
qed

section \<open>Inputs on which the properties apply\<close>

lemma kill_switch_make_event_total:
  assumes "action \<in> {''ACTIVATE'', ''CLEAR''}" "\<not> blank reason" "\<not> blank source" "\<not> blank stamp"
  shows "\<exists>e. kill_switch_make_event action reason source stamp = Inr e"
  using assms by (auto simp: kill_switch_make_event_def make_kill_switch_event_def sha256_hex_not_blank)

definition demo_risk_decision :: RiskDecision where
  "demo_risk_decision = (risk_decision_defaults \<lparr>ns = 0, zone = Some 0\<rparr> ''ABC'' RS_APPROVED LONG ''ok'')
     \<lparr>rd_approved_quantity := Fin 10, rd_approved_notional := Fin 1000\<rparr>"

lemma authorization_needs_both_controls_witness:
  "\<exists>a. authorize_execution demo_risk_decision None None ''d1'' []
       (safety_evaluate (default_safety_state\<lparr>ss_live_execution_enabled := True\<rparr>)) = Inr a \<and>
     ea_status a = AUTHORIZED \<and> ea_approved_quantity a = Fin 10"
proof -
  let ?s = "safety_evaluate (default_safety_state\<lparr>ss_live_execution_enabled := True\<rparr>)"
  have ok: "rd_status demo_risk_decision = RS_APPROVED" "sf_allowed ?s"
      "rd_approved_quantity demo_risk_decision = Fin 10"
    by code_simp+
  have "returns (\<lambda>_. True) (authorize_execution demo_risk_decision None None ''d1'' [] ?s)" by code_simp
  then obtain a where a: "authorize_execution demo_risk_decision None None ''d1'' [] ?s = Inr a"
    by (auto simp: returns_iff)
  show ?thesis using authorization_needs_both_controls [OF a] a ok by auto
qed

lemma demo_kill_run: "\<exists>c. kill_run ''t0'' [Clear ''CLEAR KILL SWITCH'' ''ready'' ''operator'' ''t1''] = Inr c"
proof -
  obtain e where "kill_switch_make_event ''ACTIVATE'' ''Kill switch starts active until explicitly cleared.''
      ''system-start'' ''t0'' = Inr e"
    using kill_switch_make_event_total [of "''ACTIVATE''"
      "''Kill switch starts active until explicitly cleared.''" "''system-start''" "''t0''"]
    by (auto simp: blank_def strip_def is_space_def)
  then show ?thesis by (simp add: kill_run_def kill_switch_init_def)
qed

lemma kill_switch_latched_witness:
  "\<exists>c. kill_run ''t0'' [Clear ''CLEAR KILL SWITCH'' ''ready'' ''operator'' ''t1''] = Inr c \<and> kill_consistent c"
  using demo_kill_run kill_switch_latched by blast

lemma kill_switch_needs_confirmation_witness:
  "\<exists>c k. kc_active c \<and> \<not> kc_active (kill_step c k) \<and> kill_switch_assert_safe c \<noteq> Inr ()"
proof -
  let ?k = "Clear ''CLEAR KILL SWITCH'' ''ready'' ''operator'' ''t1''"
  let ?c = "\<lparr>kc_active = True, kc_reason = ''r'', kc_activation_count = 1, kc_clear_count = 0, kc_events = []\<rparr>"
  obtain e where e: "kill_switch_make_event ''CLEAR'' ''ready'' ''operator'' ''t1'' = Inr e"
    using kill_switch_make_event_total [of "''CLEAR''" "''ready''" "''operator''" "''t1''"]
    by (auto simp: blank_def strip_def is_space_def)
  have "kc_active ?c" "\<not> kc_active (kill_step ?c ?k)"
    using e by (simp_all add: kill_switch_clear_def abind_run athen_run)
  then show ?thesis using kill_switch_needs_confirmation by blast
qed

end
