(* ===== verification/OrderModels.thy ===== *)
theory OrderModels
  imports ExecAuth
begin

text \<open>
  The contracts of \<open>execution/engine.py\<close>: requests, fills, snapshots, results, events, and the
  order state machine. The locale \<open>lifecycle\<close> is the interface of a transition table whose
  early states are never entered again; \<open>order_machine\<close> interprets it.
\<close>

section \<open>Transition tables\<close>

locale lifecycle =
  fixes allowed :: "'s \<Rightarrow> 's list"
    and early :: "'s \<Rightarrow> bool"
  assumes no_return: "t \<in> set (allowed s) \<Longrightarrow> early t \<Longrightarrow> early s"
begin

primrec path :: "'s \<Rightarrow> 's list \<Rightarrow> bool" where
  "path s [] = True"
| "path s (t # ts) = (t \<in> set (allowed s) \<and> path t ts)"

lemma late_stays_late: "path s ts \<Longrightarrow> \<not> early s \<Longrightarrow> t \<in> set ts \<Longrightarrow> \<not> early t"
  using no_return by (induction ts arbitrary: s) auto

lemma path_append: "path s (ts @ us) = (path s ts \<and> path (last (s # ts)) us)"
  by (induction ts arbitrary: s) auto

end

section \<open>Vocabulary\<close>

datatype OrderSide = BUY | SELL
datatype OrderType = MARKET | LIMIT
datatype TimeInForce = DAY

datatype OrderStatus =
    CREATED | VALIDATED | REJECTED_LOCAL | SUBMITTING | SUBMITTED | ACKNOWLEDGED | OPEN
  | PARTIALLY_FILLED | FILLED | CANCEL_PENDING | CANCELLED | REJECTED_BROKER | EXPIRED | FAILED
  | UNKNOWN

instantiation OrderStatus :: enum
begin

definition "enum_OrderStatus = [CREATED, VALIDATED, REJECTED_LOCAL, SUBMITTING, SUBMITTED,
  ACKNOWLEDGED, OPEN, PARTIALLY_FILLED, FILLED, CANCEL_PENDING, CANCELLED, REJECTED_BROKER,
  EXPIRED, FAILED, UNKNOWN]"

definition "enum_all_OrderStatus P = list_all P (enum_class.enum :: OrderStatus list)"

definition "enum_ex_OrderStatus P = list_ex P (enum_class.enum :: OrderStatus list)"

instance
proof
  have all: "set (enum_class.enum :: OrderStatus list) = UNIV"
    using OrderStatus.exhaust by (auto simp: enum_OrderStatus_def)
  then show "(UNIV :: OrderStatus set) = set enum_class.enum" by simp
  show "distinct (enum_class.enum :: OrderStatus list)" by (simp add: enum_OrderStatus_def)
  show "enum_class.enum_all P = Ball UNIV P" for P :: "OrderStatus \<Rightarrow> bool"
    using all by (simp add: enum_all_OrderStatus_def list_all_iff)
  show "enum_class.enum_ex P = Bex UNIV P" for P :: "OrderStatus \<Rightarrow> bool"
    using all by (simp add: enum_ex_OrderStatus_def list_ex_iff)
qed

end

section \<open>Records\<close>

record OrderRequest =
  or_client_order_id :: string
  or_decision_id :: string
  or_symbol :: string
  or_side :: OrderSide
  or_quantity :: pyfloat
  or_order_type :: OrderType
  or_limit_price :: "pyfloat option"
  or_time_in_force :: TimeInForce
  or_purpose :: string
  or_created_at :: pytime
  or_authorization :: "ExecutionAuthorization option"

definition make_order_request :: "OrderRequest \<Rightarrow> OrderRequest res" where
  "make_order_request r = rbind (first_error
     [(\<not> aware (or_created_at r), ''created_at must be timezone-aware''),
      (blank (or_client_order_id r), ''client_order_id must not be empty''),
      (blank (or_symbol r), ''symbol must not be empty''),
      (\<not> isfinite (or_quantity r) \<or> nonpos (or_quantity r), ''quantity must be positive and finite''),
      (or_order_type r = LIMIT \<and> \<not> opt_holds (\<lambda>p. isfinite p \<and> \<not> nonpos p) (or_limit_price r),
         ''LIMIT orders require a positive limit_price''),
      (or_order_type r = MARKET \<and> or_limit_price r \<noteq> None, ''MARKET orders must not define limit_price''),
      (or_purpose r \<notin> {''ENTRY'', ''EXIT''}, ''purpose must be ENTRY or EXIT'')])
     (\<lambda>_. Inr (r\<lparr>or_symbol := symbol_of (or_symbol r)\<rparr>))"

record Fill =
  fl_fill_id :: string
  fl_client_order_id :: string
  fl_quantity :: pyfloat
  fl_price :: pyfloat
  fl_fee :: pyfloat
  fl_timestamp :: pytime

definition make_fill :: "Fill \<Rightarrow> Fill res" where
  "make_fill f = rbind (first_error
     [(\<not> aware (fl_timestamp f), ''fill timestamp must be timezone-aware''),
      (blank (fl_fill_id f) \<or> blank (fl_client_order_id f), ''fill identifiers must not be empty''),
      (\<not> isfinite (fl_quantity f) \<or> nonpos (fl_quantity f) \<or> \<not> isfinite (fl_price f) \<or> nonpos (fl_price f),
         ''fill quantity and price must be positive and finite''),
      (\<not> isfinite (fl_fee f) \<or> fneg_lt (fl_fee f), ''fill fee must be non-negative and finite'')])
     (\<lambda>_. Inr f)"

text \<open>The comparison tolerance \<open>1e-12\<close> of the execution layer.\<close>

definition qty_tolerance :: pyfloat where
  "qty_tolerance = lit (1 / 10 ^ 12)"

record OrderSnapshot =
  os_broker_order_id :: string
  os_client_order_id :: string
  os_status :: OrderStatus
  os_requested_quantity :: pyfloat
  os_filled_quantity :: pyfloat
  os_average_fill_price :: "pyfloat option"
  os_reason :: string
  os_latency_ms :: "pyfloat option"
  os_updated_at :: pytime
  os_fills :: "Fill list"

definition make_order_snapshot :: "OrderSnapshot \<Rightarrow> OrderSnapshot res" where
  "make_order_snapshot s = rbind (first_error
     [(\<not> aware (os_updated_at s), ''updated_at must be timezone-aware''),
      (blank (os_broker_order_id s) \<or> blank (os_client_order_id s), ''order identifiers must not be empty''),
      (\<not> isfinite (os_requested_quantity s) \<or> nonpos (os_requested_quantity s),
         ''requested_quantity must be positive and finite''),
      (\<not> isfinite (os_filled_quantity s) \<or> fneg_lt (os_filled_quantity s) \<or>
         fless (fadd (os_requested_quantity s) qty_tolerance) (os_filled_quantity s),
         ''filled_quantity must be within requested quantity and finite''),
      (opt_holds (\<lambda>p. \<not> isfinite p \<or> nonpos p) (os_average_fill_price s),
         ''average_fill_price must be positive and finite''),
      (opt_holds (\<lambda>l. \<not> isfinite l \<or> fneg_lt l) (os_latency_ms s),
         ''latency_ms must be non-negative and finite'')])
     (\<lambda>_. Inr s)"

record PositionSnapshot =
  ps_symbol :: string
  ps_position :: pyfloat
  ps_average_price :: pyfloat

definition make_position_snapshot :: "PositionSnapshot \<Rightarrow> PositionSnapshot res" where
  "make_position_snapshot p = rbind (first_error
     [(blank (ps_symbol p), ''symbol must not be empty''),
      (\<not> isfinite (ps_position p), ''quantity must be finite''),
      (\<not> isfinite (ps_average_price p) \<or> fneg_lt (ps_average_price p),
         ''average_price must be non-negative and finite'')])
     (\<lambda>_. Inr (p\<lparr>ps_symbol := symbol_of (ps_symbol p)\<rparr>))"

record ExecutionResult =
  xr_request :: OrderRequest
  xr_snapshot :: OrderSnapshot
  xr_accepted :: bool
  xr_latency_ms :: pyfloat
  xr_error :: "string option"

definition xr_filled :: "ExecutionResult \<Rightarrow> bool" where
  "xr_filled r = (os_status (xr_snapshot r) = FILLED)"

record ExecutionEvent =
  ev_client_order_id :: string
  ev_from_status :: "OrderStatus option"
  ev_to_status :: OrderStatus
  ev_timestamp :: pytime
  ev_reason :: string
  ev_decision_id :: string
  ev_purpose :: string

definition make_execution_event :: "ExecutionEvent \<Rightarrow> ExecutionEvent res" where
  "make_execution_event e = (if \<not> aware (ev_timestamp e)
     then Inl (ValueError ''execution event timestamp must be timezone-aware'') else Inr e)"

record ExecutionMetrics =
  em_orders :: nat
  em_accepted_orders :: nat
  em_filled_orders :: nat
  em_partially_filled_orders :: nat
  em_rejected_orders :: nat
  em_unknown_orders :: nat
  em_requested_quantity :: pyfloat
  em_filled_quantity :: pyfloat
  em_total_fees :: pyfloat
  em_average_latency_ms :: pyfloat
  em_fill_ratio :: pyfloat
  em_rejection_rate :: pyfloat

section \<open>The order state machine\<close>

fun order_allowed :: "OrderStatus \<Rightarrow> OrderStatus list" where
  "order_allowed CREATED = [VALIDATED, REJECTED_LOCAL]"
| "order_allowed VALIDATED = [SUBMITTING, REJECTED_LOCAL]"
| "order_allowed SUBMITTING = [SUBMITTED, PARTIALLY_FILLED, FILLED, REJECTED_BROKER, FAILED, UNKNOWN]"
| "order_allowed SUBMITTED =
     [ACKNOWLEDGED, OPEN, PARTIALLY_FILLED, FILLED, REJECTED_BROKER, UNKNOWN]"
| "order_allowed ACKNOWLEDGED = [OPEN, PARTIALLY_FILLED, FILLED, REJECTED_BROKER, UNKNOWN]"
| "order_allowed OPEN = [PARTIALLY_FILLED, FILLED, CANCEL_PENDING, CANCELLED, EXPIRED, UNKNOWN]"
| "order_allowed PARTIALLY_FILLED = [PARTIALLY_FILLED, FILLED, CANCEL_PENDING, CANCELLED, UNKNOWN]"
| "order_allowed CANCEL_PENDING = [CANCELLED, FILLED, UNKNOWN]"
| "order_allowed FILLED = [UNKNOWN]"
| "order_allowed CANCELLED = [FILLED, UNKNOWN]"
| "order_allowed EXPIRED = [UNKNOWN]"
| "order_allowed REJECTED_BROKER = [UNKNOWN]"
| "order_allowed FAILED = [UNKNOWN]"
| "order_allowed UNKNOWN = [SUBMITTED, ACKNOWLEDGED, OPEN, PARTIALLY_FILLED, FILLED, CANCEL_PENDING,
     CANCELLED, REJECTED_BROKER, FAILED]"
| "order_allowed REJECTED_LOCAL = []"

definition order_transition :: "OrderStatus \<Rightarrow> OrderStatus \<Rightarrow> OrderStatus res" where
  "order_transition current target =
    (if target \<in> set (order_allowed current) then Inr target
     else Inl (ValueError ''invalid order transition''))"

text \<open>The states before the order is handed to the broker.\<close>

definition unsubmitted :: "OrderStatus \<Rightarrow> bool" where
  "unsubmitted s = (s \<in> {CREATED, VALIDATED})"

interpretation order_machine: lifecycle order_allowed unsubmitted
proof
  have "\<forall>s t. t \<in> set (order_allowed s) \<longrightarrow> unsubmitted t \<longrightarrow> unsubmitted s" by code_simp
  then show "t \<in> set (order_allowed s) \<Longrightarrow> unsubmitted t \<Longrightarrow> unsubmitted s" for s t by blast
qed

lemma order_transition_iff: "order_transition c t = Inr u \<longleftrightarrow> t \<in> set (order_allowed c) \<and> u = t"
  by (auto simp: order_transition_def)

text \<open>Only \<open>VALIDATED\<close> leads to \<open>SUBMITTING\<close>, and only \<open>CREATED\<close> leads to \<open>VALIDATED\<close>.\<close>

lemma into_submission:
  "SUBMITTING \<in> set (order_allowed s) \<longleftrightarrow> s = VALIDATED"
  "VALIDATED \<in> set (order_allowed s) \<longleftrightarrow> s = CREATED"
  by (cases s; simp)+

end
