(* ===== verification/OrderEngine.thy ===== *)
theory OrderEngine
  imports OrderModels
begin

text \<open>
  \<open>execution/engine.py\<close>, class \<open>ExecutionEngine\<close>. The broker adapter and the optional audit
  store are objects with a state of their own: records of methods, any of which may raise. The
  engine's state holds theirs, its dictionaries, its event list and the numbers of clock reads;
  a method that raises keeps the mutations made before it.
\<close>

section \<open>The objects the engine talks to\<close>

record 'b broker =
  br_submit :: "OrderRequest \<Rightarrow> ('b, OrderSnapshot) act"
  br_get_order :: "string \<Rightarrow> ('b, OrderSnapshot option) act"
  br_cancel :: "string \<Rightarrow> ('b, OrderSnapshot) act"
  br_positions :: "('b, PositionSnapshot list) act"

record 'a audit =
  au_order :: "OrderRequest \<Rightarrow> OrderSnapshot \<Rightarrow> ('a, unit) act"
  au_event :: "ExecutionEvent \<Rightarrow> ('a, unit) act"
  au_fill :: "Fill \<Rightarrow> string \<Rightarrow> string \<Rightarrow> ('a, unit) act"
  au_position :: "PositionSnapshot \<Rightarrow> string \<Rightarrow> string \<Rightarrow> string \<Rightarrow> pytime \<Rightarrow> ('a, unit) act"

text \<open>\<open>w_now\<close> is \<open>pd.Timestamp.now\<close>, \<open>w_perf\<close> is \<open>time.perf_counter\<close>, by number of the call.\<close>

record ('b, 'a) world =
  w_broker :: "'b broker"
  w_audit :: "'a audit option"
  w_now :: "nat \<Rightarrow> pytime"
  w_perf :: "nat \<Rightarrow> pyfloat"

record ('b, 'a) engine =
  en_broker :: 'b
  en_audit :: 'a
  en_orders :: "(string, OrderSnapshot) dict"
  en_requests :: "(string, OrderRequest) dict"
  en_fills :: "(string, Fill list) dict"
  en_states :: "(string, OrderStatus) dict"
  en_events :: "ExecutionEvent list"
  en_now_reads :: nat
  en_perf_reads :: nat

definition engine_init :: "'b \<Rightarrow> 'a \<Rightarrow> ('b, 'a) engine" where
  "engine_init b a = \<lparr>en_broker = b, en_audit = a, en_orders = [], en_requests = [], en_fills = [],
     en_states = [], en_events = [], en_now_reads = 0, en_perf_reads = 0\<rparr>"

definition on_broker :: "('b, 'r) act \<Rightarrow> (('b, 'a) engine, 'r) act" where
  "on_broker = apart en_broker (\<lambda>b s. s\<lparr>en_broker := b\<rparr>)"

definition on_audit :: "('a, 'r) act \<Rightarrow> (('b, 'a) engine, 'r) act" where
  "on_audit = apart en_audit (\<lambda>a s. s\<lparr>en_audit := a\<rparr>)"

definition read_now :: "('b, 'a) world \<Rightarrow> (('b, 'a) engine, pytime) act" where
  "read_now w = (\<lambda>s. (Inr (w_now w (en_now_reads s)), s\<lparr>en_now_reads := Suc (en_now_reads s)\<rparr>))"

definition read_perf :: "('b, 'a) world \<Rightarrow> (('b, 'a) engine, pyfloat) act" where
  "read_perf w = (\<lambda>s. (Inr (w_perf w (en_perf_reads s)), s\<lparr>en_perf_reads := Suc (en_perf_reads s)\<rparr>))"

text \<open>\<open>if self.audit_store is not None: ...\<close>\<close>

definition when_audit ::
  "('b, 'a) world \<Rightarrow> ('a audit \<Rightarrow> (('b, 'a) engine, unit) act) \<Rightarrow> (('b, 'a) engine, unit) act" where
  "when_audit w f = (case w_audit w of None \<Rightarrow> aret () | Some au \<Rightarrow> f au)"

definition set_order :: "string \<Rightarrow> OrderSnapshot \<Rightarrow> (('b, 'a) engine, unit) act" where
  "set_order cid snap = amod (\<lambda>s. s\<lparr>en_orders := dict_set cid snap (en_orders s)\<rparr>)"

definition set_fills :: "string \<Rightarrow> OrderSnapshot \<Rightarrow> (('b, 'a) engine, unit) act" where
  "set_fills cid snap = amod (\<lambda>s. s\<lparr>en_fills := dict_set cid (os_fills snap) (en_fills s)\<rparr>)"

definition set_state :: "string \<Rightarrow> OrderStatus \<Rightarrow> (('b, 'a) engine, unit) act" where
  "set_state cid st = amod (\<lambda>s. s\<lparr>en_states := dict_set cid st (en_states s)\<rparr>)"

definition or_text :: "string \<Rightarrow> string \<Rightarrow> string" where
  "or_text a b = (if a = [] then b else a)"

section \<open>Requests\<close>

fun side_for_direction :: "StrategyDirection \<Rightarrow> OrderSide res" where
  "side_for_direction LONG = Inr BUY"
| "side_for_direction SHORT = Inr SELL"
| "side_for_direction NO_TRADE = Inl (ValueError ''NO_TRADE cannot be executed'')"

definition client_order_id_of :: "string \<Rightarrow> ExecutionAuthorization \<Rightarrow> string \<Rightarrow> string" where
  "client_order_id_of decision_id a purpose = ''SB-'' @ take 24 (sha256_hex
     (decision_id @ ''|'' @ ea_symbol a @ ''|'' @ direction_value (ea_direction a) @ ''|'' @
      ea_risk_version a @ ''|'' @ purpose))"

definition from_authorization ::
  "ExecutionAuthorization \<Rightarrow> string \<Rightarrow> OrderType \<Rightarrow> pyfloat option \<Rightarrow> string \<Rightarrow> pytime option
     \<Rightarrow> OrderRequest res" where
  "from_authorization a decision_id order_type limit_price purpose created_at =
    (if ea_status a \<noteq> AUTHORIZED
       then Inl (ValueError ''execution requires AUTHORIZED risk/safety control'')
     else if nonpos (ea_approved_quantity a)
       then Inl (ValueError ''authorized quantity must be positive'')
     else if blank decision_id then Inl (ValueError ''decision_id must not be empty'')
     else if purpose \<notin> {''ENTRY'', ''EXIT''} then Inl (ValueError ''purpose must be ENTRY or EXIT'')
     else rbind (side_for_direction (ea_direction a)) (\<lambda>side.
       make_order_request \<lparr>or_client_order_id = client_order_id_of decision_id a purpose,
         or_decision_id = decision_id, or_symbol = ea_symbol a, or_side = side,
         or_quantity = ea_approved_quantity a, or_order_type = order_type,
         or_limit_price = limit_price, or_time_in_force = DAY, or_purpose = purpose,
         or_created_at = (case created_at of Some t \<Rightarrow> t | None \<Rightarrow> ea_timestamp a),
         or_authorization = Some a\<rparr>))"

definition from_exit_authorization ::
  "ExecutionAuthorization \<Rightarrow> string \<Rightarrow> PositionSnapshot \<Rightarrow> pyfloat option \<Rightarrow> OrderType
     \<Rightarrow> pyfloat option \<Rightarrow> pytime option \<Rightarrow> OrderRequest res" where
  "from_exit_authorization a decision_id position quantity order_type limit_price created_at =
    (let requested = (case quantity of None \<Rightarrow> fabs (ps_position position) | Some q \<Rightarrow> q);
         expected = (if fpos (ps_position position) then SHORT else LONG) in
     if feq (ps_position position) (Fin 0)
       then Inl (ValueError ''cannot create an exit order for a flat position'')
     else if nonpos requested then Inl (ValueError ''exit quantity must be positive'')
     else if fless (fabs (ps_position position)) requested
       then Inl (ValueError ''exit quantity cannot exceed current position'')
     else if symbol_of (ea_symbol a) \<noteq> ps_symbol position
       then Inl (ValueError ''exit authorization symbol does not match position'')
     else if ea_direction a \<noteq> expected
       then Inl (ValueError ''exit authorization direction must oppose the position'')
     else if \<not> feq (ea_approved_quantity a) requested
       then Inl (ValueError ''exit quantity must exactly equal risk-approved quantity'')
     else from_authorization a decision_id order_type limit_price ''EXIT'' created_at)"

definition engine_validate :: "OrderRequest \<Rightarrow> unit res" where
  "engine_validate r = (case or_authorization r of
      None \<Rightarrow> Inl (ValueError ''order must retain risk/safety authorization'')
    | Some a \<Rightarrow>
        if ea_status a \<noteq> AUTHORIZED then Inl (ValueError ''order authorization is not active'')
        else if \<not> feq (or_quantity r) (ea_approved_quantity a)
          then Inl (ValueError ''execution quantity must exactly equal risk-approved quantity'')
        else if or_symbol r \<noteq> ea_symbol a
          then Inl (ValueError ''execution symbol does not match authorization'')
        else rbind (side_for_direction (ea_direction a)) (\<lambda>side.
          if or_side r \<noteq> side then Inl (ValueError ''execution side does not match authorization'')
          else if \<not> isfinite (or_quantity r) \<or> nonpos (or_quantity r)
            then Inl (ValueError ''execution quantity must be positive and finite'')
          else Inr ()))"

section \<open>Transitions and snapshot checks\<close>

definition request_field :: "(OrderRequest \<Rightarrow> string) \<Rightarrow> string \<Rightarrow> string \<Rightarrow> ('b, 'a) engine \<Rightarrow> string" where
  "request_field f fallback cid s = (case dict_get (en_requests s) cid of None \<Rightarrow> fallback | Some r \<Rightarrow> f r)"

definition engine_transition ::
  "('b, 'a) world \<Rightarrow> string \<Rightarrow> OrderStatus \<Rightarrow> string \<Rightarrow> (('b, 'a) engine, unit) act" where
  "engine_transition w cid target reason =
    abind (aget (\<lambda>s. dict_get (en_states s) cid)) (\<lambda>current.
      if current = Some target then aret ()
      else
        athen (case current of None \<Rightarrow> aret CREATED | Some c \<Rightarrow> alift (order_transition c target))
        (athen (set_state cid target)
        (abind (read_now w) (\<lambda>t.
         abind (aget (\<lambda>s. (request_field or_decision_id [] cid s, request_field or_purpose ''ENTRY'' cid s)))
           (\<lambda>(decision, purpose).
         abind (alift (make_execution_event \<lparr>ev_client_order_id = cid, ev_from_status = current,
             ev_to_status = target, ev_timestamp = t, ev_reason = reason,
             ev_decision_id = decision, ev_purpose = purpose\<rparr>)) (\<lambda>e.
         athen (amod (\<lambda>s. s\<lparr>en_events := en_events s @ [e]\<rparr>))
           (when_audit w (\<lambda>au. on_audit (au_event au e)))))))))"

definition snapshot_contract :: "OrderSnapshot \<Rightarrow> unit res" where
  "snapshot_contract s =
    (if os_status s = FILLED then
       if fless qty_tolerance (fabs (fsub (os_filled_quantity s) (os_requested_quantity s)))
       then Inl (ValueError ''broker snapshot FILLED quantity mismatch'') else Inr ()
     else if os_status s = PARTIALLY_FILLED then
       if \<not> (fpos (os_filled_quantity s) \<and> fless (os_filled_quantity s) (os_requested_quantity s))
       then Inl (ValueError ''broker snapshot PARTIALLY_FILLED quantity mismatch'') else Inr ()
     else if os_status s \<in> {SUBMITTED, OPEN, CANCEL_PENDING, CANCELLED, EXPIRED, REJECTED_BROKER,
         FAILED, UNKNOWN} then
       if fneg_lt (os_filled_quantity s) \<or> fless (os_requested_quantity s) (os_filled_quantity s)
       then Inl (ValueError ''broker snapshot filled quantity out of bounds'') else Inr ()
     else Inr ())"

section \<open>Submission\<close>

definition audit_submission ::
  "('b, 'a) world \<Rightarrow> OrderRequest \<Rightarrow> OrderSnapshot \<Rightarrow> (('b, 'a) engine, unit) act" where
  "audit_submission w r snap = when_audit w (\<lambda>au.
     athen (on_audit (au_order au r snap))
    (athen (aforeach (os_fills snap) (\<lambda>f. on_audit (au_fill au f (or_decision_id r) (or_purpose r))))
    (abind (on_broker (br_positions (w_broker w))) (\<lambda>ps.
       aforeach ps (\<lambda>p. if ps_symbol p = or_symbol r
         then on_audit (au_position au p (or_client_order_id r) (or_decision_id r) (or_purpose r)
           (os_updated_at snap))
         else aret ())))))"

definition elapsed_ms :: "pyfloat \<Rightarrow> pyfloat \<Rightarrow> pyfloat" where
  "elapsed_ms start stop = fmul (fsub stop start) (Fin 1000)"

text \<open>The adapter raised: the order is \<open>UNKNOWN\<close>, never retried.\<close>

definition submission_failed ::
  "('b, 'a) world \<Rightarrow> OrderRequest \<Rightarrow> pyfloat \<Rightarrow> exc \<Rightarrow> (('b, 'a) engine, ExecutionResult) act" where
  "submission_failed w r start e =
    (let cid = or_client_order_id r; why = ''broker submission exception: '' @ exc_text e in
     abind (read_now w) (\<lambda>t.
     abind (alift (make_order_snapshot \<lparr>os_broker_order_id = ''UNKNOWN:'' @ cid,
        os_client_order_id = cid, os_status = UNKNOWN, os_requested_quantity = or_quantity r,
        os_filled_quantity = Fin 0, os_average_fill_price = None, os_reason = why,
        os_latency_ms = None, os_updated_at = t, os_fills = []\<rparr>)) (\<lambda>snap.
     abind (read_perf w) (\<lambda>stop.
     athen (engine_transition w cid UNKNOWN why)
    (athen (set_order cid snap)
     (aret \<lparr>xr_request = r, xr_snapshot = snap, xr_accepted = False,
        xr_latency_ms = elapsed_ms start stop, xr_error = Some (exc_text e)\<rparr>))))))"

definition submission_answered ::
  "('b, 'a) world \<Rightarrow> OrderRequest \<Rightarrow> pyfloat \<Rightarrow> OrderSnapshot
     \<Rightarrow> (('b, 'a) engine, ExecutionResult) act" where
  "submission_answered w r start reply =
    (let cid = or_client_order_id r in
     abind (read_perf w) (\<lambda>stop.
     let latency = elapsed_ms start stop in
     if os_client_order_id reply \<noteq> cid
       then araise (ValueError ''broker response client_order_id mismatch'')
     else if \<not> feq (os_requested_quantity reply) (or_quantity r)
       then araise (ValueError ''broker response quantity mismatch'')
     else athen (alift (snapshot_contract reply))
       (abind (if os_latency_ms reply = None
           then alift (make_order_snapshot (reply\<lparr>os_latency_ms := Some latency\<rparr>)) else aret reply) (\<lambda>snap.
        athen (engine_transition w cid (os_status snap) (or_text (os_reason snap) ''broker acknowledged order''))
       (athen (set_order cid snap)
       (athen (set_fills cid snap)
       (athen (audit_submission w r snap)
        (aret \<lparr>xr_request = r, xr_snapshot = snap,
           xr_accepted = (os_status snap \<notin> {REJECTED_BROKER, FAILED}), xr_latency_ms = latency,
           xr_error = (if os_reason snap = [] then None else Some (os_reason snap))\<rparr>))))))))"

definition engine_submit ::
  "('b, 'a) world \<Rightarrow> OrderRequest \<Rightarrow> (('b, 'a) engine, ExecutionResult) act" where
  "engine_submit w r =
    (let cid = or_client_order_id r in
     athen (alift (engine_validate r))
    (athen (amod (\<lambda>s. if dict_get (en_requests s) cid = None
         then s\<lparr>en_requests := dict_set cid r (en_requests s)\<rparr> else s))
    (abind (aget (\<lambda>s. dict_get (en_orders s) cid)) (\<lambda>existing. case existing of
       Some snap \<Rightarrow> aret \<lparr>xr_request = r, xr_snapshot = snap,
         xr_accepted = (os_status snap \<notin> {REJECTED_LOCAL, REJECTED_BROKER, FAILED}),
         xr_latency_ms = Fin 0, xr_error = None\<rparr>
     | None \<Rightarrow>
         athen (engine_transition w cid VALIDATED ''local validation passed'')
        (athen (engine_transition w cid SUBMITTING ''broker submission started'')
        (abind (read_perf w) (\<lambda>start.
         atry (on_broker (br_submit (w_broker w) r))
           (submission_failed w r start) (submission_answered w r start))))))))"

section \<open>Observation and recovery\<close>

text \<open>The snapshot of an order the broker no longer reports.\<close>

definition lost_order ::
  "('b, 'a) world \<Rightarrow> OrderSnapshot \<Rightarrow> string \<Rightarrow> (('b, 'a) engine, OrderSnapshot) act" where
  "lost_order w prior why = abind (read_now w) (\<lambda>t. alift (make_order_snapshot
     (prior\<lparr>os_status := UNKNOWN, os_reason := why, os_updated_at := t\<rparr>)))"

definition engine_refresh :: "('b, 'a) world \<Rightarrow> string \<Rightarrow> (('b, 'a) engine, OrderSnapshot) act" where
  "engine_refresh w cid =
    (if blank cid then araise (ValueError ''client_order_id must not be empty'')
     else abind (on_broker (br_get_order (w_broker w) cid)) (\<lambda>reply. case reply of
       None \<Rightarrow> abind (aget (\<lambda>s. dict_get (en_orders s) cid)) (\<lambda>prior. case prior of
           None \<Rightarrow> araise (KeyError (''order not found: '' @ cid))
         | Some p \<Rightarrow> abind (lost_order w p ''broker returned no order state'') (\<lambda>snap.
             athen (engine_transition w cid UNKNOWN ''broker returned no order state'')
            (athen (set_order cid snap) (aret snap))))
     | Some snap \<Rightarrow> abind (aget (\<lambda>s. dict_get (en_states s) cid)) (\<lambda>current.
         athen (case current of
             None \<Rightarrow> set_state cid (os_status snap)
           | Some c \<Rightarrow> if c = os_status snap then aret ()
               else engine_transition w cid (os_status snap) ''broker refresh'')
        (athen (set_order cid snap) (athen (set_fills cid snap) (aret snap))))))"

definition engine_recover_unknown ::
  "('b, 'a) world \<Rightarrow> string \<Rightarrow> (('b, 'a) engine, OrderSnapshot) act" where
  "engine_recover_unknown w cid =
    abind (aget (\<lambda>s. dict_get (en_orders s) cid)) (\<lambda>prior. case prior of
      None \<Rightarrow> araise (KeyError (''unknown local order: '' @ cid))
    | Some p \<Rightarrow>
        if os_status p \<noteq> UNKNOWN then aret p
        else abind (on_broker (br_get_order (w_broker w) cid)) (\<lambda>reply. case reply of
            None \<Rightarrow> aret p
          | Some snap \<Rightarrow>
              if os_client_order_id snap \<noteq> cid
                then araise (ValueError ''broker recovery client_order_id mismatch'')
              else if \<not> feq (os_requested_quantity snap) (os_requested_quantity p)
                then araise (ValueError ''broker recovery quantity mismatch'')
              else athen (alift (snapshot_contract snap))
                (athen (engine_transition w cid (os_status snap)
                   (or_text (os_reason snap) ''unknown order resolved from broker state''))
                (athen (set_order cid snap) (athen (set_fills cid snap) (aret snap))))))"

definition unknown_orders :: "('b, 'a) engine \<Rightarrow> OrderSnapshot list" where
  "unknown_orders s = filter (\<lambda>o'. os_status o' = UNKNOWN) (dict_values (en_orders s))"

definition rehydrate_one ::
  "('b, 'a) world \<Rightarrow> string \<Rightarrow> (string, OrderSnapshot) dict
     \<Rightarrow> (('b, 'a) engine, (string, OrderSnapshot) dict) act" where
  "rehydrate_one w cid recovered =
    (if blank cid then araise (ValueError ''client_order_id must not be empty'')
     else abind (on_broker (br_get_order (w_broker w) cid)) (\<lambda>reply.
       abind (case reply of
           Some snap \<Rightarrow> aret (Some snap)
         | None \<Rightarrow> abind (aget (\<lambda>s. dict_get (en_orders s) cid)) (\<lambda>prior. case prior of
             None \<Rightarrow> aret None
           | Some p \<Rightarrow> abind (lost_order w (p\<lparr>os_client_order_id := cid\<rparr>)
               ''broker returned no order state during rehydration'') (\<lambda>snap. aret (Some snap))))
        (\<lambda>found. case found of
           None \<Rightarrow> aret recovered
         | Some snap \<Rightarrow> athen (alift (snapshot_contract snap))
             (athen (set_order cid snap) (athen (set_fills cid snap)
             (athen (set_state cid (os_status snap)) (aret (dict_set cid snap recovered))))))))"

fun rehydrate_loop ::
  "('b, 'a) world \<Rightarrow> string list \<Rightarrow> (string, OrderSnapshot) dict
     \<Rightarrow> (('b, 'a) engine, (string, OrderSnapshot) dict) act" where
  "rehydrate_loop w [] recovered = aret recovered"
| "rehydrate_loop w (cid # cids) recovered =
     abind (rehydrate_one w cid recovered) (rehydrate_loop w cids)"

definition engine_rehydrate ::
  "('b, 'a) world \<Rightarrow> string list \<Rightarrow> (('b, 'a) engine, (string, OrderSnapshot) dict) act" where
  "engine_rehydrate w cids = rehydrate_loop w cids []"

fun opt_feq :: "pyfloat option \<Rightarrow> pyfloat option \<Rightarrow> bool" where
  "opt_feq None None = True"
| "opt_feq (Some a) (Some b) = feq a b"
| "opt_feq a b = False"

definition engine_reconcile_order :: "('b, 'a) world \<Rightarrow> string \<Rightarrow> (('b, 'a) engine, bool) act" where
  "engine_reconcile_order w cid =
    abind (aget (\<lambda>s. dict_get (en_orders s) cid)) (\<lambda>local.
    abind (on_broker (br_get_order (w_broker w) cid)) (\<lambda>reply.
      aret (case (local, reply) of
          (Some l, Some b) \<Rightarrow> os_status l = os_status b \<and>
            fle (fabs (fsub (os_filled_quantity l) (os_filled_quantity b))) qty_tolerance \<and>
            opt_feq (os_average_fill_price l) (os_average_fill_price b)
        | _ \<Rightarrow> False)))"

definition engine_cancel :: "('b, 'a) world \<Rightarrow> string \<Rightarrow> (('b, 'a) engine, OrderSnapshot) act" where
  "engine_cancel w cid =
    abind (aget (\<lambda>s. dict_get (en_orders s) cid)) (\<lambda>prior. case prior of
      None \<Rightarrow> araise (KeyError (''unknown local order: '' @ cid))
    | Some p \<Rightarrow>
        if os_status p \<in> {FILLED, CANCELLED, REJECTED_BROKER}
          then araise (ValueError ''cannot cancel order in this state'')
        else athen (engine_transition w cid CANCEL_PENDING ''cancellation requested'')
          (abind (on_broker (br_cancel (w_broker w) cid)) (\<lambda>snap.
           athen (if os_status snap \<noteq> CANCEL_PENDING
               then engine_transition w cid (os_status snap) (or_text (os_reason snap) ''cancellation result'')
               else aret ())
          (athen (set_order cid snap) (athen (set_fills cid snap) (aret snap))))))"

section \<open>Queries\<close>

definition engine_get_order :: "string \<Rightarrow> ('b, 'a) engine \<Rightarrow> OrderSnapshot option" where
  "engine_get_order cid s = dict_get (en_orders s) cid"

definition engine_fills :: "string \<Rightarrow> ('b, 'a) engine \<Rightarrow> Fill list" where
  "engine_fills cid s = (case dict_get (en_fills s) cid of None \<Rightarrow> [] | Some fs \<Rightarrow> fs)"

definition open_orders :: "('b, 'a) engine \<Rightarrow> OrderSnapshot list" where
  "open_orders s = filter (\<lambda>o'. os_status o' \<in> {SUBMITTED, OPEN, PARTIALLY_FILLED, CANCEL_PENDING, UNKNOWN})
     (dict_values (en_orders s))"

definition count_status :: "OrderStatus set \<Rightarrow> OrderSnapshot list \<Rightarrow> nat" where
  "count_status sts snaps = length (filter (\<lambda>o'. os_status o' \<in> sts) snaps)"

definition engine_metrics :: "('b, 'a) engine \<Rightarrow> ExecutionMetrics res" where
  "engine_metrics s =
    (let snaps = dict_values (en_orders s); n = length snaps;
         rejected = count_status {REJECTED_LOCAL, REJECTED_BROKER, FAILED} snaps;
         requested = fsum (map os_requested_quantity snaps);
         filled_qty = fsum (map os_filled_quantity snaps);
         fees = fsum (map fl_fee (concat (dict_values (en_fills s))));
         samples = List.map_filter os_latency_ms snaps in
     rbind (if samples = [] then Inr (Fin 0) else fdiv (fsum samples) (Fin (of_nat (length samples)))) (\<lambda>average.
     rbind (if feq requested (Fin 0) then Inr (Fin 0) else fdiv filled_qty requested) (\<lambda>ratio.
       Inr \<lparr>em_orders = n, 
         em_accepted_orders = length (filter (\<lambda>o'. os_status o' \<notin> {REJECTED_LOCAL, REJECTED_BROKER, FAILED}) snaps),
         em_filled_orders = count_status {FILLED} snaps,
         em_partially_filled_orders = count_status {PARTIALLY_FILLED} snaps,
         em_rejected_orders = rejected, em_unknown_orders = count_status {UNKNOWN} snaps,
         em_requested_quantity = requested, em_filled_quantity = filled_qty, em_total_fees = fees,
         em_average_latency_ms = average, em_fill_ratio = ratio,
         em_rejection_rate = (if n = 0 then Fin 0 else rnd (of_nat rejected / of_nat n))\<rparr>)))"

text \<open>Equality of the two symbol maps.\<close>

definition position_map :: "PositionSnapshot list \<Rightarrow> (string, pyfloat \<times> pyfloat) dict" where
  "position_map ps = dict_of_list (map (\<lambda>p. (ps_symbol p, ps_position p, ps_average_price p)) ps)"

definition same_positions :: "(string, pyfloat \<times> pyfloat) dict \<Rightarrow> (string, pyfloat \<times> pyfloat) dict \<Rightarrow> bool" where
  "same_positions a b = (length a = length b \<and> list_all (\<lambda>(k, q, p). case dict_get b k of
      None \<Rightarrow> False | Some (q', p') \<Rightarrow> feq q q' \<and> feq p p') a)"

definition engine_reconcile_positions ::
  "('b, 'a) world \<Rightarrow> PositionSnapshot list \<Rightarrow> (('b, 'a) engine, bool) act" where
  "engine_reconcile_positions w local =
    abind (on_broker (br_positions (w_broker w))) (\<lambda>broker.
      aret (same_positions (position_map local) (position_map broker)))"

definition execution_readiness :: "bool \<Rightarrow> bool \<Rightarrow> bool \<Rightarrow> bool" where
  "execution_readiness live_locked risk_authorized safety_allowed =
    (if live_locked then False else risk_authorized \<and> safety_allowed)"

end
