(* ===== verification/PaperBroker.thy ===== *)
theory PaperBroker
  imports OrderEngine FloatEval
begin

text \<open>
  \<open>execution/adapters/paper.py\<close>: the deterministic broker of paper mode. Its state is the object's
  dictionaries and counters; the price provider is a parameter that sees the number of the call
  (it may answer differently each time, or raise), and \<open>pa_now\<close> is \<open>datetime.now(timezone.utc)\<close>
  by number of the call. \<open>paper_broker\<close> is the adapter the engine is given.
\<close>

section \<open>Configuration and state\<close>

record PaperAdapterConfig =
  pac_slippage_bps :: pyfloat
  pac_fee_bps :: pyfloat
  pac_partial_fill_ratio :: pyfloat

definition default_paper_config :: PaperAdapterConfig where
  "default_paper_config = \<lparr>pac_slippage_bps = Fin 5, pac_fee_bps = Fin 2, pac_partial_fill_ratio = Fin 1\<rparr>"

definition make_paper_config :: "PaperAdapterConfig \<Rightarrow> PaperAdapterConfig res" where
  "make_paper_config c =
    (if \<not> isfinite (pac_slippage_bps c) \<or> \<not> isfinite (pac_fee_bps c)
        \<or> fneg_lt (pac_slippage_bps c) \<or> fneg_lt (pac_fee_bps c)
       then Inl (ValueError ''slippage_bps and fee_bps must be finite and non-negative'')
     else if \<not> (fpos (pac_partial_fill_ratio c) \<and> fle (pac_partial_fill_ratio c) (Fin 1))
       then Inl (ValueError ''partial_fill_ratio must be in (0, 1]'')
     else Inr c)"

record paper_setup =
  pa_config :: PaperAdapterConfig
  pa_price :: "(nat \<Rightarrow> OrderRequest \<Rightarrow> pyfloat res) option"
  pa_now :: "nat \<Rightarrow> pytime"

record PaperBroker =
  pb_orders :: "(string, OrderSnapshot) dict"
  pb_requests :: "(string, OrderRequest) dict"
  pb_positions :: "(string, PositionSnapshot) dict"
  pb_sequence :: nat
  pb_now_reads :: nat

definition paper_init :: PaperBroker where
  "paper_init = \<lparr>pb_orders = [], pb_requests = [], pb_positions = [], pb_sequence = 0, pb_now_reads = 0\<rparr>"

text \<open>\<open>f"{n:08d}"\<close>\<close>

definition pad8 :: "nat \<Rightarrow> string" where
  "pad8 n = (let t = nat_text n in replicate (8 - length t) (CHR ''0'') @ t)"

section \<open>Prices and quantities\<close>

definition paper_price :: "paper_setup \<Rightarrow> nat \<Rightarrow> OrderRequest \<Rightarrow> pyfloat res" where
  "paper_price pa n r = rbind (case pa_price pa of
       Some provider \<Rightarrow> provider n r
     | None \<Rightarrow> Inr (case or_limit_price r of Some p \<Rightarrow> p | None \<Rightarrow> Fin 100))
     (\<lambda>price. if \<not> isfinite price \<or> nonpos price
        then Inl (ValueError ''paper execution price must be positive and finite'') else Inr price)"

definition paper_fill_price :: "PaperAdapterConfig \<Rightarrow> OrderSide \<Rightarrow> pyfloat \<Rightarrow> pyfloat res" where
  "paper_fill_price c side price = rbind (fdiv (pac_slippage_bps c) (Fin 10000)) (\<lambda>adverse.
     Inr (fmul price (if side = BUY then fadd (Fin 1) adverse else fsub (Fin 1) adverse)))"

definition paper_fee :: "PaperAdapterConfig \<Rightarrow> pyfloat \<Rightarrow> pyfloat \<Rightarrow> pyfloat res" where
  "paper_fee c fill_price quantity = fdiv (fmul (fmul fill_price quantity) (pac_fee_bps c)) (Fin 10000)"

definition paper_quantity :: "PaperAdapterConfig \<Rightarrow> pyfloat \<Rightarrow> pyfloat res" where
  "paper_quantity c quantity =
    (let ratio = pac_partial_fill_ratio c; part = fmul quantity ratio in
     if fless ratio (Fin 1)
     then rbind (ftrunc part) (\<lambda>n. rbind (float_of_int n) (\<lambda>whole.
       Inr (if nonpos whole then fmin quantity (Fin 1) else whole)))
     else Inr part)"

section \<open>Net positions\<close>

definition signed_quantity :: "OrderSide \<Rightarrow> pyfloat \<Rightarrow> pyfloat" where
  "signed_quantity side q = (if side = BUY then q else fneg q)"

definition apply_fill ::
  "OrderRequest \<Rightarrow> Fill \<Rightarrow> (string, PositionSnapshot) dict \<Rightarrow> (string, PositionSnapshot) dict res" where
  "apply_fill r f ps =
    (let symbol = or_symbol r; current = dict_get ps symbol;
         held = (case current of None \<Rightarrow> Fin 0 | Some p \<Rightarrow> ps_position p);
         price_held = (case current of None \<Rightarrow> Fin 0 | Some p \<Rightarrow> ps_average_price p);
         signed = signed_quantity (or_side r) (fl_quantity f);
         store = (\<lambda>q price. rbind (make_position_snapshot
           \<lparr>ps_symbol = symbol, ps_position = q, ps_average_price = price\<rparr>)
           (\<lambda>p. Inr (dict_set symbol p ps))) in
     if feq held (Fin 0) then store signed (fl_price f)
     else if (fpos held \<and> fpos signed) \<or> (fneg_lt held \<and> fneg_lt signed) then
       (let new = fadd held signed in
        rbind (fdiv (fadd (fmul (fabs held) price_held) (fmul (fabs signed) (fl_price f))) (fabs new))
          (store new))
     else
       (let closed = fmin (fabs held) (fabs signed); residual = fsub (fabs signed) closed in
        if fpos residual
          then store (if fpos signed then residual else fneg residual) (fl_price f)
        else if feq (fabs held) closed then Inr (dict_pop symbol ps)
        else store (fadd held signed) price_held))"

section \<open>Operations\<close>

definition paper_now :: "paper_setup \<Rightarrow> (PaperBroker, pytime) act" where
  "paper_now pa = (\<lambda>s. (Inr (pa_now pa (pb_now_reads s)), s\<lparr>pb_now_reads := Suc (pb_now_reads s)\<rparr>))"

definition paper_store_order :: "string \<Rightarrow> OrderSnapshot \<Rightarrow> (PaperBroker, unit) act" where
  "paper_store_order cid snap = amod (\<lambda>s. s\<lparr>pb_orders := dict_set cid snap (pb_orders s)\<rparr>)"

definition paper_position :: "OrderRequest \<Rightarrow> Fill \<Rightarrow> (PaperBroker, unit) act" where
  "paper_position r f = abind (aget pb_positions) (\<lambda>ps. abind (alift (apply_fill r f ps))
     (\<lambda>ps'. amod (\<lambda>s. s\<lparr>pb_positions := ps'\<rparr>)))"

text \<open>The fill of a quantity at the provider's price, with the next number of the sequence.\<close>

definition paper_fill :: "paper_setup \<Rightarrow> OrderRequest \<Rightarrow> pyfloat res
     \<Rightarrow> (PaperBroker, nat \<times> Fill) act" where
  "paper_fill pa r quantity =
     athen (amod (\<lambda>s. s\<lparr>pb_sequence := pb_sequence s + 1\<rparr>))
    (abind (aget pb_sequence) (\<lambda>n.
     abind (alift (paper_price pa n r)) (\<lambda>price.
     abind (alift quantity) (\<lambda>q.
     abind (alift (paper_fill_price (pa_config pa) (or_side r) price)) (\<lambda>fill_price.
     abind (alift (paper_fee (pa_config pa) fill_price q)) (\<lambda>fee.
     abind (paper_now pa) (\<lambda>t.
     abind (alift (make_fill \<lparr>fl_fill_id = ''PF-'' @ pad8 n, fl_client_order_id = or_client_order_id r,
         fl_quantity = q, fl_price = fill_price, fl_fee = fee, fl_timestamp = t\<rparr>)) (\<lambda>f.
       aret (n, f)))))))))"

definition first_snapshot :: "OrderRequest \<Rightarrow> nat \<Rightarrow> Fill \<Rightarrow> OrderSnapshot res" where
  "first_snapshot r n f = make_order_snapshot \<lparr>os_broker_order_id = ''PAPER-'' @ pad8 n,
     os_client_order_id = or_client_order_id r,
     os_status = (if fle (or_quantity r) (fl_quantity f) then FILLED else PARTIALLY_FILLED),
     os_requested_quantity = or_quantity r, os_filled_quantity = fl_quantity f,
     os_average_fill_price = Some (fl_price f), os_reason = ''Deterministic paper fill.'',
     os_latency_ms = None, os_updated_at = fl_timestamp f, os_fills = [f]\<rparr>"

definition paper_submit :: "paper_setup \<Rightarrow> OrderRequest \<Rightarrow> (PaperBroker, OrderSnapshot) act" where
  "paper_submit pa r =
    (let cid = or_client_order_id r in
     abind (aget (\<lambda>s. dict_get (pb_orders s) cid)) (\<lambda>existing. case existing of
       Some snap \<Rightarrow> aret snap
     | None \<Rightarrow>
         abind (paper_fill pa r (paper_quantity (pa_config pa) (or_quantity r))) (\<lambda>(n, f).
         abind (alift (first_snapshot r n f)) (\<lambda>snap.
         athen (paper_store_order cid snap)
        (athen (amod (\<lambda>s. s\<lparr>pb_requests := dict_set cid r (pb_requests s)\<rparr>))
        (athen (paper_position r f)
         (aret snap)))))))"

text \<open>The snapshot of a completed order, with the average price of all its fills.\<close>

definition completed_snapshot :: "OrderSnapshot \<Rightarrow> bool \<Rightarrow> pyfloat \<Rightarrow> Fill \<Rightarrow> OrderSnapshot res" where
  "completed_snapshot prior after_cancel remaining f =
    (let total = fadd (os_filled_quantity prior) remaining in
     rbind (case os_average_fill_price prior of
         None \<Rightarrow> Inl (TypeError ''float() argument must be a string or a real number'')
       | Some a \<Rightarrow> fdiv (fadd (fmul (os_filled_quantity prior) a) (fmul remaining (fl_price f))) total) (\<lambda>average.
     make_order_snapshot (prior\<lparr>os_status := FILLED, os_filled_quantity := total,
       os_average_fill_price := Some average,
       os_reason := (if after_cancel then ''Deterministic completion after cancellation race.''
         else ''Deterministic completion of outstanding paper quantity.''),
       os_latency_ms := None, os_updated_at := fl_timestamp f, os_fills := os_fills prior @ [f]\<rparr>)))"

definition complete_order ::
  "paper_setup \<Rightarrow> string \<Rightarrow> bool \<Rightarrow> OrderSnapshot \<Rightarrow> OrderRequest \<Rightarrow> (PaperBroker, OrderSnapshot) act" where
  "complete_order pa cid after_cancel prior r =
    (if os_status prior = FILLED then aret prior
     else if os_status prior \<noteq> PARTIALLY_FILLED \<and> \<not> (after_cancel \<and> os_status prior = CANCELLED)
       then araise (ValueError ''cannot complete partially filled order in this state'')
     else (let remaining = fsub (os_requested_quantity prior) (os_filled_quantity prior) in
       if nonpos remaining then aret prior
       else abind (paper_fill pa r (Inr remaining)) (\<lambda>(n, f).
         abind (alift (completed_snapshot prior after_cancel remaining f)) (\<lambda>snap.
         athen (paper_store_order cid snap)
        (athen (paper_position r f)
         (aret snap))))))"

definition fill_remaining :: "paper_setup \<Rightarrow> string \<Rightarrow> bool \<Rightarrow> (PaperBroker, OrderSnapshot) act" where
  "fill_remaining pa cid after_cancel =
     abind (aget (\<lambda>s. (dict_get (pb_orders s) cid, dict_get (pb_requests s) cid))) (\<lambda>(order, request).
       case (order, request) of
         (Some prior, Some r) \<Rightarrow> complete_order pa cid after_cancel prior r
       | _ \<Rightarrow> araise (KeyError (''paper order not found: '' @ cid)))"

definition paper_get_order :: "string \<Rightarrow> (PaperBroker, OrderSnapshot option) act" where
  "paper_get_order cid = aget (\<lambda>s. dict_get (pb_orders s) cid)"

definition paper_cancel :: "paper_setup \<Rightarrow> string \<Rightarrow> (PaperBroker, OrderSnapshot) act" where
  "paper_cancel pa cid = abind (paper_get_order cid) (\<lambda>prior. case prior of
       None \<Rightarrow> araise (KeyError (''paper order not found: '' @ cid))
     | Some p \<Rightarrow>
         if os_status p \<in> {FILLED, CANCELLED} then aret p
         else abind (paper_now pa) (\<lambda>t.
           abind (alift (make_order_snapshot (p\<lparr>os_status := CANCELLED, os_reason := ''Paper order cancelled.'',
             os_latency_ms := None, os_updated_at := t\<rparr>))) (\<lambda>snap.
           athen (paper_store_order cid snap) (aret snap))))"

definition paper_positions :: "(PaperBroker, PositionSnapshot list) act" where
  "paper_positions = aget (\<lambda>s. filter (\<lambda>p. \<not> feq (ps_position p) (Fin 0)) (dict_values (pb_positions s)))"

definition paper_broker :: "paper_setup \<Rightarrow> PaperBroker broker" where
  "paper_broker pa = \<lparr>br_submit = paper_submit pa, br_get_order = paper_get_order,
     br_cancel = paper_cancel pa, br_positions = paper_positions\<rparr>"

end
