(* ===== verification/Portfolio.thy ===== *)
theory Portfolio
  imports RiskContracts PaperBroker
begin

text \<open>
  \<open>portfolio\<close>: the portfolio boundary between strategy and risk. \<open>contracts.py\<close> (positions,
  intents, limits, snapshots, decisions), \<open>transition.py\<close> (what a trade does to a signed
  position), \<open>exposure.py\<close> (the projected portfolio) and \<open>manager.py\<close> (the limit checks in order).
  Enumerations that have equal values in \<open>trading/risk/contracts.py\<close> use its datatype. The texts of
  the reasons keep their constant part, and the fingerprint of a decision is not modelled.
\<close>

section \<open>Contracts\<close>

datatype PortfolioAction = PA_APPROVE | PA_REJECT

record PortfolioPosition =
  pp_symbol :: string
  pp_quantity :: pyfloat
  pp_mark_price :: pyfloat
  pp_sector :: "string option"

text \<open>\<open>self.sector.strip() if self.sector else None\<close>\<close>

definition clean_sector :: "string option \<Rightarrow> string option" where
  "clean_sector s = (case s of None \<Rightarrow> None | Some t \<Rightarrow> if t = [] then None else Some (strip t))"

definition make_portfolio_position :: "PortfolioPosition \<Rightarrow> PortfolioPosition res" where
  "make_portfolio_position p =
    (if symbol_of (pp_symbol p) = [] then Inl (ValueError ''symbol must not be empty'')
     else if \<not> isfinite (pp_quantity p) then Inl (ValueError ''quantity must be finite'')
     else if \<not> isfinite (pp_mark_price p) \<or> nonpos (pp_mark_price p)
       then Inl (ValueError ''mark_price must be finite and positive'')
     else Inr (p\<lparr>pp_symbol := symbol_of (pp_symbol p), pp_sector := clean_sector (pp_sector p)\<rparr>))"

definition market_value :: "PortfolioPosition \<Rightarrow> pyfloat" where
  "market_value p = fmul (pp_quantity p) (pp_mark_price p)"

record TradeIntent =
  ti_symbol :: string
  ti_quantity :: pyfloat
  ti_price :: pyfloat
  ti_side :: string
  ti_sector :: "string option"
  ti_decision_id :: string

definition make_trade_intent :: "TradeIntent \<Rightarrow> TradeIntent res" where
  "make_trade_intent t =
    (let symbol = symbol_of (ti_symbol t); side = symbol_of (ti_side t) in
     if symbol = [] then Inl (ValueError ''symbol must not be empty'')
     else if \<not> isfinite (ti_quantity t) \<or> nonpos (ti_quantity t)
       then Inl (ValueError ''quantity must be finite and positive'')
     else if \<not> isfinite (ti_price t) \<or> nonpos (ti_price t)
       then Inl (ValueError ''price must be finite and positive'')
     else if side \<notin> {''BUY'', ''SELL''} then Inl (ValueError ''side must be BUY or SELL'')
     else Inr (t\<lparr>ti_symbol := symbol, ti_side := side, ti_sector := clean_sector (ti_sector t)\<rparr>))"

record PortfolioLimits =
  pl_max_positions :: "int option"
  pl_max_gross_exposure_fraction :: "pyfloat option"
  pl_max_symbol_exposure_fraction :: "pyfloat option"
  pl_max_sector_exposure_fraction :: "pyfloat option"

definition bad_fraction :: "pyfloat option \<Rightarrow> bool" where
  "bad_fraction x = opt_holds (\<lambda>v. \<not> isfinite v \<or> nonpos v \<or> fless (Fin 1) v) x"

definition make_portfolio_limits :: "PortfolioLimits \<Rightarrow> PortfolioLimits res" where
  "make_portfolio_limits l = rbind (first_error
     [(opt_holds (\<lambda>n. n \<le> 0) (pl_max_positions l), ''max_positions must be positive''),
      (bad_fraction (pl_max_gross_exposure_fraction l), ''max_gross_exposure_fraction must be in (0, 1]''),
      (bad_fraction (pl_max_symbol_exposure_fraction l), ''max_symbol_exposure_fraction must be in (0, 1]''),
      (bad_fraction (pl_max_sector_exposure_fraction l), ''max_sector_exposure_fraction must be in (0, 1]'')])
     (\<lambda>_. Inr l)"

record PortfolioSnapshot =
  po_as_of :: pytime
  po_equity :: pyfloat
  po_positions :: "PortfolioPosition list"

definition make_portfolio_snapshot :: "PortfolioSnapshot \<Rightarrow> PortfolioSnapshot res" where
  "make_portfolio_snapshot s =
    (if \<not> aware (po_as_of s) then Inl (ValueError ''as_of must be timezone-aware'')
     else if \<not> isfinite (po_equity s) \<or> nonpos (po_equity s)
       then Inl (ValueError ''equity must be finite and positive'')
     else if \<not> distinct (map pp_symbol (po_positions s))
       then Inl (ValueError ''PortfolioSnapshot cannot contain duplicate symbols'')
     else Inr s)"

definition gross_exposure :: "PortfolioSnapshot \<Rightarrow> pyfloat" where
  "gross_exposure s = fsum (map (\<lambda>p. fabs (market_value p)) (po_positions s))"

definition gross_exposure_fraction :: "PortfolioSnapshot \<Rightarrow> pyfloat res" where
  "gross_exposure_fraction s = fdiv (gross_exposure s) (po_equity s)"

record PortfolioDecision =
  pd_action :: PortfolioAction
  pd_symbol :: string
  pd_decision_id :: string
  pd_reason_code :: string
  pd_reason :: string
  pd_current_gross_exposure_fraction :: pyfloat
  pd_projected_gross_exposure_fraction :: pyfloat
  pd_projected_position_count :: nat
  pd_position_transition :: RiskPositionTransition

section \<open>Transitions\<close>

record PositionTransitionResult =
  pt_transition :: RiskPositionTransition
  pt_existing_quantity :: pyfloat
  pt_projected_quantity :: pyfloat

definition intent_delta :: "TradeIntent \<Rightarrow> pyfloat" where
  "intent_delta t = (if ti_side t = ''BUY'' then ti_quantity t else fneg (ti_quantity t))"

definition classify_position_transition ::
  "PortfolioPosition option \<Rightarrow> TradeIntent \<Rightarrow> PositionTransitionResult res" where
  "classify_position_transition existing t =
    (let current = (case existing of None \<Rightarrow> Fin 0 | Some p \<Rightarrow> pp_quantity p);
         projected = fadd current (intent_delta t); zero = Fin 0;
         result = (\<lambda>tr. Inr \<lparr>pt_transition = tr, pt_existing_quantity = current,
           pt_projected_quantity = projected\<rparr>) in
     if feq current zero then result T_OPEN
     else if feq projected zero then result T_FLATTEN
     else if fpos current \<and> fless current projected then result T_INCREASE
     else if fneg_lt current \<and> fless projected current then result T_INCREASE
     else if (fpos current \<and> fpos projected \<and> fless projected current)
           \<or> (fneg_lt current \<and> fless current projected \<and> fneg_lt projected) then result T_REDUCE
     else if (fpos current \<and> fneg_lt projected) \<or> (fneg_lt current \<and> fpos projected)
       then result T_REVERSE
     else Inl (ValueError ''unsupported position transition''))"

section \<open>Exposure\<close>

definition positions_by_symbol :: "PortfolioPosition list \<Rightarrow> (string, PortfolioPosition) dict" where
  "positions_by_symbol ps = dict_of_list (map (\<lambda>p. (pp_symbol p, p)) ps)"

definition projected_positions :: "PortfolioSnapshot \<Rightarrow> TradeIntent \<Rightarrow> PortfolioPosition list res" where
  "projected_positions s t =
    (let positions = positions_by_symbol (po_positions s); current = dict_get positions (ti_symbol t);
         new_quantity = fadd (case current of None \<Rightarrow> Fin 0 | Some p \<Rightarrow> pp_quantity p) (intent_delta t) in
     rbind (if fless (fabs new_quantity) (lit (1 / 10 ^ 12)) then Inr (dict_pop (ti_symbol t) positions)
       else rbind (make_portfolio_position \<lparr>pp_symbol = ti_symbol t, pp_quantity = new_quantity,
           pp_mark_price = ti_price t,
           pp_sector = (case ti_sector t of Some sec \<Rightarrow> Some sec | None \<Rightarrow> Option.bind current pp_sector)\<rparr>)
         (\<lambda>p. Inr (dict_set (ti_symbol t) p positions)))
     (\<lambda>d. Inr (sort_key pp_symbol (dict_values d))))"

definition projected_snapshot :: "PortfolioSnapshot \<Rightarrow> TradeIntent \<Rightarrow> PortfolioSnapshot res" where
  "projected_snapshot s t = rbind (projected_positions s t) (\<lambda>ps.
     make_portfolio_snapshot \<lparr>po_as_of = po_as_of s, po_equity = po_equity s, po_positions = ps\<rparr>)"

text \<open>The exposure of the positions with a property, by equity.\<close>

definition exposure_fraction :: "(PortfolioPosition \<Rightarrow> bool) \<Rightarrow> PortfolioSnapshot \<Rightarrow> pyfloat res" where
  "exposure_fraction P s =
     fdiv (fsum (map (\<lambda>p. fabs (market_value p)) (filter P (po_positions s)))) (po_equity s)"

definition sector_exposure_fraction :: "PortfolioSnapshot \<Rightarrow> string option \<Rightarrow> pyfloat res" where
  "sector_exposure_fraction s sector = (case sector of
      None \<Rightarrow> Inr (Fin 0)
    | Some sec \<Rightarrow> if sec = [] then Inr (Fin 0)
        else exposure_fraction (\<lambda>p. pp_sector p = Some (strip sec)) s)"

definition symbol_exposure_fraction :: "PortfolioSnapshot \<Rightarrow> string \<Rightarrow> pyfloat res" where
  "symbol_exposure_fraction s symbol = exposure_fraction (\<lambda>p. pp_symbol p = symbol_of symbol) s"

definition position_count :: "PortfolioSnapshot \<Rightarrow> nat" where
  "position_count s = length (po_positions s)"

section \<open>The manager\<close>

type_synonym portfolio_check = "(string \<times> string) option"

definition check_position_count :: "PortfolioLimits \<Rightarrow> nat \<Rightarrow> portfolio_check" where
  "check_position_count l n = (if opt_holds (\<lambda>m. m < int n) (pl_max_positions l)
     then Some (''MAX_POSITIONS'', ''Projected position count exceeds limit.'') else None)"

text \<open>An exposure limit: the fraction is computed only when the limit is configured.\<close>

definition check_fraction :: "pyfloat option \<Rightarrow> pyfloat res \<Rightarrow> string \<Rightarrow> string \<Rightarrow> portfolio_check res" where
  "check_fraction limit fraction code msg = (case limit of
      None \<Rightarrow> Inr None
    | Some m \<Rightarrow> rbind fraction (\<lambda>x.
        Inr (if fless (fadd m (lit (1 / 10 ^ 12))) x then Some (code, msg) else None)))"

definition check_gross_exposure :: "PortfolioLimits \<Rightarrow> PortfolioSnapshot \<Rightarrow> portfolio_check res" where
  "check_gross_exposure l s = check_fraction (pl_max_gross_exposure_fraction l) (gross_exposure_fraction s)
     ''MAX_GROSS_EXPOSURE'' ''Projected gross exposure exceeds limit.''"

definition check_symbol_limit :: "PortfolioLimits \<Rightarrow> PortfolioSnapshot \<Rightarrow> string \<Rightarrow> portfolio_check res" where
  "check_symbol_limit l s symbol = check_fraction (pl_max_symbol_exposure_fraction l)
     (symbol_exposure_fraction s symbol)
     ''MAX_SYMBOL_EXPOSURE'' ''Projected symbol exposure exceeds limit.''"

definition check_sector_limit ::
  "PortfolioLimits \<Rightarrow> PortfolioSnapshot \<Rightarrow> string option \<Rightarrow> portfolio_check res" where
  "check_sector_limit l s sector = (if sector = None \<or> sector = Some [] then Inr None
     else check_fraction (pl_max_sector_exposure_fraction l) (sector_exposure_fraction s sector)
       ''MAX_SECTOR_EXPOSURE'' ''Projected sector exposure exceeds limit.'')"

fun first_check :: "portfolio_check list \<Rightarrow> portfolio_check" where
  "first_check [] = None"
| "first_check (Some c # cs) = Some c"
| "first_check (None # cs) = first_check cs"

definition portfolio_decision ::
  "PortfolioSnapshot \<Rightarrow> PortfolioSnapshot \<Rightarrow> TradeIntent \<Rightarrow> PortfolioAction \<Rightarrow> string \<times> string
     \<Rightarrow> RiskPositionTransition \<Rightarrow> PortfolioDecision res" where
  "portfolio_decision s projected t action why tr =
     rbind (gross_exposure_fraction s) (\<lambda>current. rbind (gross_exposure_fraction projected) (\<lambda>after.
       Inr \<lparr>pd_action = action, pd_symbol = ti_symbol t, pd_decision_id = ti_decision_id t,
         pd_reason_code = fst why, pd_reason = snd why, pd_current_gross_exposure_fraction = current,
         pd_projected_gross_exposure_fraction = after, pd_projected_position_count = position_count projected,
         pd_position_transition = tr\<rparr>))"

definition position_of :: "string \<Rightarrow> PortfolioPosition list \<Rightarrow> PortfolioPosition option" where
  "position_of symbol ps = find (\<lambda>p. pp_symbol p = symbol) ps"

definition intent_sector :: "TradeIntent \<Rightarrow> PortfolioSnapshot \<Rightarrow> string option" where
  "intent_sector t projected = (case ti_sector t of
      Some sec \<Rightarrow> Some sec
    | None \<Rightarrow> Option.bind (position_of (ti_symbol t) (po_positions projected)) pp_sector)"

definition portfolio_checks ::
  "PortfolioLimits \<Rightarrow> PortfolioSnapshot \<Rightarrow> TradeIntent \<Rightarrow> portfolio_check list res" where
  "portfolio_checks l projected t =
     rbind (check_gross_exposure l projected) (\<lambda>gross.
     rbind (check_symbol_limit l projected (ti_symbol t)) (\<lambda>symbol.
     rbind (check_sector_limit l projected (intent_sector t projected)) (\<lambda>sector.
       Inr [check_position_count l (position_count projected), gross, symbol, sector])))"

definition portfolio_evaluate ::
  "PortfolioLimits \<Rightarrow> PortfolioSnapshot \<Rightarrow> TradeIntent \<Rightarrow> PortfolioDecision res" where
  "portfolio_evaluate l s t =
     rbind (projected_snapshot s t) (\<lambda>projected.
     rbind (classify_position_transition (position_of (ti_symbol t) (po_positions s)) t) (\<lambda>c.
     rbind (portfolio_checks l projected t) (\<lambda>checks.
       case first_check checks of
         Some why \<Rightarrow> portfolio_decision s projected t PA_REJECT why (pt_transition c)
       | None \<Rightarrow> portfolio_decision s projected t PA_APPROVE
           (''PORTFOLIO_OK'', ''Portfolio-level constraints passed.'') (pt_transition c))))"

end
