(* ===== verification/OrderProperties.thy ===== *)
theory OrderProperties
  imports OrderEngine
begin

text \<open>
  What the execution engine guarantees over every sequence of calls and for every broker adapter,
  answering or raising at will: \<open>logged\<close> wraps an adapter and records the orders submitted to it.
\<close>

section \<open>Sequences of calls\<close>

definition logged :: "'b broker \<Rightarrow> ('b \<times> OrderRequest list) broker" where
  "logged br = (let inner = (\<lambda>b' (b, log). (b', log)) in
     \<lparr>br_submit = (\<lambda>r (b, log). case br_submit br r b of (x, b') \<Rightarrow> (x, b', log @ [r])),
      br_get_order = (\<lambda>cid. apart fst inner (br_get_order br cid)),
      br_cancel = (\<lambda>cid. apart fst inner (br_cancel br cid)),
      br_positions = apart fst inner (br_positions br)\<rparr>)"

datatype engine_call =
    Submit OrderRequest
  | Refresh string
  | RecoverUnknown string
  | Rehydrate "string list"
  | ReconcileOrder string
  | Cancel string
  | ReconcilePositions "PositionSnapshot list"

fun engine_step :: "('b, 'a) world \<Rightarrow> ('b, 'a) engine \<Rightarrow> engine_call \<Rightarrow> ('b, 'a) engine" where
  "engine_step w s (Submit r) = snd (engine_submit w r s)"
| "engine_step w s (Refresh cid) = snd (engine_refresh w cid s)"
| "engine_step w s (RecoverUnknown cid) = snd (engine_recover_unknown w cid s)"
| "engine_step w s (Rehydrate cids) = snd (engine_rehydrate w cids s)"
| "engine_step w s (ReconcileOrder cid) = snd (engine_reconcile_order w cid s)"
| "engine_step w s (Cancel cid) = snd (engine_cancel w cid s)"
| "engine_step w s (ReconcilePositions ps) = snd (engine_reconcile_positions w ps s)"

definition engine_run :: "('b, 'a) world \<Rightarrow> engine_call list \<Rightarrow> ('b, 'a) engine \<Rightarrow> ('b, 'a) engine" where
  "engine_run w cs s = foldl (engine_step w) s cs"

text \<open>The world with its broker wrapped, and the log.\<close>

definition logging_world :: "('b, 'a) world \<Rightarrow> ('b \<times> OrderRequest list, 'a) world" where
  "logging_world w = \<lparr>w_broker = logged (w_broker w), w_audit = w_audit w, w_now = w_now w, w_perf = w_perf w\<rparr>"

definition submit_log :: "('b \<times> OrderRequest list, 'a) engine \<Rightarrow> OrderRequest list" where
  "submit_log s = snd (en_broker s)"

section \<open>Orders that can no longer be submitted\<close>

definition settled :: "('b, 'a) engine \<Rightarrow> string \<Rightarrow> bool" where
  "settled s cid = (dict_get (en_orders s) cid \<noteq> None \<or>
     opt_holds (\<lambda>st. \<not> unsubmitted st) (dict_get (en_states s) cid))"

definition quiet ::
  "('b \<times> OrderRequest list, 'a) engine \<Rightarrow> ('b \<times> OrderRequest list, 'a) engine \<Rightarrow> bool" where
  "quiet s t = (submit_log t = submit_log s \<and> (\<forall>cid. settled s cid \<longrightarrow> settled t cid))"

lemma quiet_refl: "quiet s s"
  by (simp add: quiet_def)

lemma quiet_trans: "quiet a b \<Longrightarrow> quiet b c \<Longrightarrow> quiet a c"
  by (simp add: quiet_def)

named_theorems quiet_intros "rules that show that an action submits nothing"

lemmas quiet_pure [quiet_intros] = moves_pure [where R = quiet, OF quiet_refl]
lemmas quiet_abind [quiet_intros] = moves_abind [where R = quiet, OF quiet_trans]
lemmas quiet_athen [quiet_intros] = moves_athen [where R = quiet, OF quiet_trans]
lemmas quiet_foreach [quiet_intros] = moves_foreach [where R = quiet, OF quiet_refl quiet_trans]

lemma quiet_branches [quiet_intros]:
  "moves quiet m \<Longrightarrow> moves quiet n \<Longrightarrow> moves quiet (if b then m else n)"
  "moves quiet m \<Longrightarrow> (\<And>x. moves quiet (f x)) \<Longrightarrow> moves quiet (case v of None \<Rightarrow> m | Some x \<Rightarrow> f x)"
  "(\<And>x y. moves quiet (g x y)) \<Longrightarrow> moves quiet (case p of (x, y) \<Rightarrow> g x y)"
  by (simp_all split: option.splits prod.splits)

lemma quiet_basic [quiet_intros]:
  "moves quiet (read_now w)" "moves quiet (read_perf w)" "moves quiet (on_audit m)"
  "moves quiet (set_order cid snap)" "moves quiet (set_fills cid snap)"
  "moves quiet (amod (\<lambda>s. s\<lparr>en_events := f s\<rparr>))" "moves quiet (amod (\<lambda>s. if b s then s\<lparr>en_requests := g s\<rparr> else s))"
  by (auto simp: moves_def quiet_def settled_def submit_log_def read_now_def read_perf_def on_audit_def
      apart_def set_order_def set_fills_def split: prod.splits)

lemma quiet_broker [quiet_intros]:
  "moves quiet (on_broker (br_get_order (logged br) cid))"
  "moves quiet (on_broker (br_cancel (logged br) cid))"
  "moves quiet (on_broker (br_positions (logged br)))"
  by (auto simp: moves_def quiet_def settled_def submit_log_def on_broker_def apart_def logged_def Let_def
      split: prod.splits)

lemma quiet_when_audit [quiet_intros]: "(\<And>au. moves quiet (f au)) \<Longrightarrow> moves quiet (when_audit w f)"
  unfolding when_audit_def by (intro quiet_intros)

text \<open>A transition keeps an order that left the early states out of them.\<close>

lemma quiet_transition [quiet_intros]:
  fixes w :: "('b \<times> OrderRequest list, 'a) world"
  shows "moves quiet (engine_transition w cid target reason)"
  unfolding moves_def
proof
  fix s :: "('b \<times> OrderRequest list, 'a) engine"
  let ?rest = "abind (read_now w) (\<lambda>t. abind (aget (\<lambda>s. (request_field or_decision_id [] cid s,
      request_field or_purpose ''ENTRY'' cid s))) (\<lambda>(decision, purpose).
    abind (alift (make_execution_event \<lparr>ev_client_order_id = cid, ev_from_status = dict_get (en_states s) cid,
        ev_to_status = target, ev_timestamp = t, ev_reason = reason,
        ev_decision_id = decision, ev_purpose = purpose\<rparr>)) (\<lambda>e.
    athen (amod (\<lambda>s. s\<lparr>en_events := en_events s @ [e]\<rparr>))
      (when_audit w (\<lambda>au. on_audit (au_event au e))))))"
  have rest: "moves quiet ?rest" by (intro quiet_intros)
  let ?t = "s\<lparr>en_states := dict_set cid target (en_states s)\<rparr>"
  have "quiet s ?t" if "dict_get (en_states s) cid = None \<or>
      (\<exists>c. dict_get (en_states s) cid = Some c \<and> target \<in> set (order_allowed c))"
    using that order_machine.no_return
    by (auto simp: quiet_def settled_def submit_log_def opt_holds_def split: option.splits if_splits)
  then have step: "quiet s (snd (?rest ?t))" if "dict_get (en_states s) cid = None \<or>
      (\<exists>c. dict_get (en_states s) cid = Some c \<and> target \<in> set (order_allowed c))"
    using that movesD [OF rest] quiet_trans by blast
  show "quiet s (snd (engine_transition w cid target reason s))"
  proof (cases "dict_get (en_states s) cid")
    case None
    then show ?thesis using step
      by (simp add: engine_transition_def abind_run athen_run set_state_def del: split_paired_All)
  next
    case (Some c)
    then show ?thesis using step
      by (cases "target \<in> set (order_allowed c)")
        (simp_all add: engine_transition_def abind_run athen_run set_state_def order_transition_def quiet_refl)
  qed
qed

text \<open>Writing the order first makes writing its state quiet.\<close>

lemma quiet_merge [quiet_intros]:
  "moves quiet (athen (set_order cid snap) (athen (set_fills cid snap) (athen (set_state cid st) (aret x))))"
  by (auto simp: moves_def quiet_def settled_def submit_log_def set_order_def set_fills_def set_state_def
      athen_run split: if_splits)

lemma quiet_observe:
  "moves quiet (abind (aget (\<lambda>s. dict_get (en_states s) cid)) (\<lambda>current.
     athen (case current of
         None \<Rightarrow> set_state cid (os_status snap)
       | Some c \<Rightarrow> if c = os_status snap then aret ()
           else engine_transition w cid (os_status snap) ''broker refresh'')
    (athen (set_order cid snap) (athen (set_fills cid snap) (aret snap)))))" (is "moves quiet ?m")
  unfolding moves_def
proof
  fix s
  let ?k = "athen (set_order cid snap) (athen (set_fills cid snap) (aret snap))"
  show "quiet s (snd (?m s))"
  proof (cases "dict_get (en_states s) cid")
    case None
    then show ?thesis
      by (auto simp: abind_run athen_run set_state_def set_order_def set_fills_def quiet_def settled_def
          submit_log_def opt_holds_def)
  next
    case (Some c)
    have "moves quiet (athen (if c = os_status snap then aret ()
        else engine_transition w cid (os_status snap) ''broker refresh'') ?k)"
      by (intro quiet_intros)
    from movesD [OF this, of s] show ?thesis using Some by (simp add: abind_run)
  qed
qed

lemma quiet_operations:
  "moves quiet (engine_refresh (logging_world w) cid)"
  "moves quiet (engine_recover_unknown (logging_world w) cid)"
  "moves quiet (engine_rehydrate (logging_world w) cids)"
  "moves quiet (engine_reconcile_order (logging_world w) cid)"
  "moves quiet (engine_cancel (logging_world w) cid)"
  "moves quiet (engine_reconcile_positions (logging_world w) ps)"
proof -
  have br: "w_broker (logging_world w) = logged (w_broker w)" by (simp add: logging_world_def)
  have lost: "moves quiet (lost_order u p why)" for u p why
    unfolding lost_order_def by (intro quiet_intros)
  show "moves quiet (engine_refresh (logging_world w) cid)"
    unfolding engine_refresh_def br by (intro quiet_intros lost quiet_observe)
  show "moves quiet (engine_recover_unknown (logging_world w) cid)"
    unfolding engine_recover_unknown_def br by (intro quiet_intros)
  have one: "moves quiet (rehydrate_one (logging_world w) cid r)" for cid r
    unfolding rehydrate_one_def br by (intro quiet_intros lost)
  have "moves quiet (rehydrate_loop (logging_world w) cids r)" for r
  proof (induction cids arbitrary: r)
    case Nil
    show ?case unfolding rehydrate_loop.simps by (intro quiet_intros)
  next
    case (Cons cid cids)
    show ?case unfolding rehydrate_loop.simps by (intro quiet_intros one Cons)
  qed
  then show "moves quiet (engine_rehydrate (logging_world w) cids)" unfolding engine_rehydrate_def .
  show "moves quiet (engine_reconcile_order (logging_world w) cid)"
    unfolding engine_reconcile_order_def br by (intro quiet_intros)
  show "moves quiet (engine_cancel (logging_world w) cid)"
    unfolding engine_cancel_def br by (intro quiet_intros)
  show "moves quiet (engine_reconcile_positions (logging_world w) ps)"
    unfolding engine_reconcile_positions_def br by (intro quiet_intros)
qed

section \<open>At most one submission\<close>

text \<open>After the transition to \<open>SUBMITTING\<close> the order is settled; before it, it was not.\<close>

lemma transition_effect:
  fixes w :: "('b \<times> OrderRequest list, 'a) world"
  assumes "engine_transition w cid target reason s = (Inr (), t)"
  shows "dict_get (en_states t) cid = Some target" "en_orders t = en_orders s"
    "case dict_get (en_states s) cid of None \<Rightarrow> True
       | Some c \<Rightarrow> c = target \<or> target \<in> set (order_allowed c)"
proof -
  have pres: "en_states t = en_states s \<and> en_orders t = en_orders s"
    if "when_audit w (\<lambda>au. on_audit (au_event au e)) s = (r, t)" for e r s t
    using that by (auto simp: when_audit_def on_audit_def apart_def split: option.splits prod.splits)
  show "dict_get (en_states t) cid = Some target" "en_orders t = en_orders s"
    "case dict_get (en_states s) cid of None \<Rightarrow> True
       | Some c \<Rightarrow> c = target \<or> target \<in> set (order_allowed c)"
    using assms
    by (auto simp: engine_transition_def abind_run athen_run set_state_def order_transition_def read_now_def
        split: option.splits sum.splits prod.splits if_splits dest!: pres)
qed

lemma quiet_tail:
  "moves quiet (submission_failed (logging_world w) r start e)"
  "moves quiet (submission_answered (logging_world w) r start reply)"
proof -
  have br: "w_broker (logging_world w) = logged (w_broker w)" by (simp add: logging_world_def)
  have audit: "moves quiet (audit_submission (logging_world w) r snap)" for snap
    unfolding audit_submission_def br by (intro quiet_intros)
  show "moves quiet (submission_failed (logging_world w) r start e)"
    unfolding submission_failed_def Let_def by (intro quiet_intros)
  show "moves quiet (submission_answered (logging_world w) r start reply)"
    unfolding submission_answered_def Let_def by (intro quiet_intros audit)
qed

text \<open>The submission phase, from the first transition on.\<close>

definition submits_once :: "OrderRequest \<Rightarrow> ('b \<times> OrderRequest list, 'a) engine \<Rightarrow>
    ('b \<times> OrderRequest list, 'a) engine \<Rightarrow> bool" where
  "submits_once r s t = (engine_validate r = Inr () \<and> \<not> settled s (or_client_order_id r) \<and>
     submit_log t = submit_log s @ [r] \<and> settled t (or_client_order_id r) \<and>
     (\<forall>cid. settled s cid \<longrightarrow> settled t cid))"

lemma broker_call_effect:
  fixes w :: "('b, 'a) world" and start :: pyfloat and r :: OrderRequest
    and s :: "('b \<times> OrderRequest list, 'a) engine"
  assumes "settled s (or_client_order_id r)"
  defines "t \<equiv> snd (atry (on_broker (br_submit (logged (w_broker w)) r))
      (submission_failed (logging_world w) r start) (submission_answered (logging_world w) r start) s)"
  shows "submit_log t = submit_log s @ [r] \<and> (\<forall>cid. settled s cid \<longrightarrow> settled t cid)"
proof -
  obtain x u where call: "on_broker (br_submit (logged (w_broker w)) r) s = (x, u)"
    by (cases "on_broker (br_submit (logged (w_broker w)) r) s")
  then have u: "submit_log u = submit_log s @ [r]" "en_orders u = en_orders s" "en_states u = en_states s"
    by (auto simp: on_broker_def apart_def logged_def Let_def submit_log_def split: prod.splits)
  have "quiet u t"
    unfolding t_def atry_run call using quiet_tail [THEN movesD] by (cases x) auto
  then show ?thesis using u by (auto simp: quiet_def settled_def)
qed

lemma submit_effect:
  fixes w :: "('b, 'a) world" and s :: "('b \<times> OrderRequest list, 'a) engine" and r :: OrderRequest
  defines "t \<equiv> snd (engine_submit (logging_world w) r s)"
  shows "quiet s t \<or> submits_once r s t"
proof -
  let ?w = "logging_world w" and ?cid = "or_client_order_id r"
  have br: "w_broker ?w = logged (w_broker w)" by (simp add: logging_world_def)
  define s1 where "s1 = (if dict_get (en_requests s) ?cid = None
      then s\<lparr>en_requests := dict_set ?cid r (en_requests s)\<rparr> else s)"
  have s1: "submit_log s1 = submit_log s" "en_orders s1 = en_orders s" "en_states s1 = en_states s"
    by (auto simp: s1_def submit_log_def)
  have q1: "quiet s s1" using s1 by (simp add: quiet_def settled_def)
  show ?thesis
  proof (cases "engine_validate r")
    case (Inl e)
    then show ?thesis by (simp add: t_def engine_submit_def Let_def athen_run quiet_refl)
  next
    case valid: (Inr u)
    show ?thesis
    proof (cases "dict_get (en_orders s1) ?cid")
      case (Some snap)
      then have "t = s1"
        using valid by (simp add: t_def engine_submit_def Let_def athen_run abind_run s1_def [symmetric])
      then show ?thesis using q1 by simp
    next
      case None
      obtain x2 s2 where t2: "engine_transition ?w ?cid VALIDATED ''local validation passed'' s1 = (x2, s2)"
        by fastforce
      obtain x3 s3 where t3: "engine_transition ?w ?cid SUBMITTING ''broker submission started'' s2 = (x3, s3)"
        by fastforce
      have q2: "quiet s1 s2" using movesD [OF quiet_transition, of s1 ?w ?cid VALIDATED "''local validation passed''"] t2 by simp
      have q3: "quiet s2 s3" using movesD [OF quiet_transition, of s2 ?w ?cid SUBMITTING "''broker submission started''"] t3 by simp
      have run: "t = (case x2 of Inl e \<Rightarrow> s2 | Inr _ \<Rightarrow> (case x3 of Inl e \<Rightarrow> s3 | Inr _ \<Rightarrow>
          snd (abind (read_perf ?w) (\<lambda>start. atry (on_broker (br_submit (w_broker ?w) r))
            (submission_failed ?w r start) (submission_answered ?w r start)) s3)))"
        using valid None t2 t3
        by (auto simp: t_def engine_submit_def Let_def athen_run abind_run s1_def [symmetric] split: sum.splits)
      show ?thesis
      proof (cases "x2 = Inr () \<and> x3 = Inr ()")
        case False
        then have "t = s2 \<or> t = s3" using run by (auto split: sum.splits)
        then show ?thesis using q1 q2 q3 quiet_trans by blast
      next
        case True
        note e2 = transition_effect [OF t2 [unfolded True [THEN conjunct1]]]
        note e3 = transition_effect [OF t3 [unfolded True [THEN conjunct2]]]
        define s4 where "s4 = snd (read_perf ?w s3)"
        have q4: "quiet s s4"
          using q1 q2 q3 movesD [OF quiet_basic(2), of s3 ?w] unfolding s4_def by (blast intro: quiet_trans)
        have "settled s3 ?cid" using e3(1) by (simp add: settled_def unsubmitted_def)
        then have "settled s4 ?cid" using movesD [OF quiet_basic(2), of s3 ?w] by (simp add: s4_def quiet_def)
        moreover obtain start where "read_perf ?w s3 = (Inr start, s4)" by (simp add: s4_def read_perf_def)
        then have "t = snd (atry (on_broker (br_submit (logged (w_broker w)) r))
            (submission_failed ?w r start) (submission_answered ?w r start) s4)"
          using run True by (simp add: abind_run br)
        ultimately have eff: "submit_log t = submit_log s4 @ [r] \<and> (\<forall>cid. settled s4 cid \<longrightarrow> settled t cid)"
          using broker_call_effect [of s4 r w start] by simp
        have "\<not> settled s ?cid"
          using e2(3) None s1 into_submission(2)
          by (auto simp: settled_def opt_holds_def unsubmitted_def split: option.splits)
        then show ?thesis using valid eff q4 \<open>settled s4 ?cid\<close> by (simp add: submits_once_def quiet_def)
      qed
    qed
  qed
qed

definition engine_inv :: "('b \<times> OrderRequest list, 'a) engine \<Rightarrow> bool" where
  "engine_inv s = (distinct (map or_client_order_id (submit_log s)) \<and>
     (\<forall>r \<in> set (submit_log s). engine_validate r = Inr () \<and> settled s (or_client_order_id r)))"

lemma engine_inv_step: "engine_inv s \<Longrightarrow> engine_inv (engine_step (logging_world w) s c)"
proof -
  assume inv: "engine_inv s"
  have quiet: "engine_inv t" if "quiet s t" for t
    using inv that by (simp add: engine_inv_def quiet_def)
  show ?thesis
  proof (cases c)
    case (Submit r)
    have "engine_inv t" if "submits_once r s t" for t
      using inv that by (auto simp: engine_inv_def submits_once_def)
    then show ?thesis using submit_effect [of s w r] quiet Submit by auto
  qed (auto intro: quiet quiet_operations [THEN movesD])
qed

lemma engine_inv_run: "engine_inv s \<Longrightarrow> engine_inv (engine_run (logging_world w) cs s)"
  unfolding engine_run_def by (induction cs arbitrary: s) (auto intro: engine_inv_step)

text \<open>C1. At most one submission per order. Over any sequence of submissions, refreshes,
  recoveries, rehydrations, cancellations and reconciliations, with any broker adapter (it may raise,
  answer with a wrong order or lose orders) and any audit store, the engine calls \<open>submit\<close> of the
  adapter at most once for each client order identifier, and only for orders whose authorization
  passed \<open>validate\<close>.\<close>
theorem at_most_one_submission:
  "let log = submit_log (engine_run (logging_world w) cs (engine_init (b, []) a)) in
   distinct (map or_client_order_id log) \<and> list_all (\<lambda>r. engine_validate r = Inr ()) log"
proof -
  have "engine_inv (engine_init (b, []) a)" by (simp add: engine_inv_def submit_log_def engine_init_def)
  from engine_inv_run [OF this, of w cs] show ?thesis
    by (simp add: engine_inv_def Let_def list_all_iff)
qed

section \<open>The lifecycle journal\<close>

definition event_lawful :: "ExecutionEvent \<Rightarrow> bool" where
  "event_lawful e = (aware (ev_timestamp e) \<and>
     \<not> opt_holds (\<lambda>c. ev_to_status e \<notin> set (order_allowed c)) (ev_from_status e))"

definition journal_lawful :: "('b, 'a) engine \<Rightarrow> bool" where
  "journal_lawful s = list_all event_lawful (en_events s)"

lemma journal_basic [inv_intros]:
  "keeps journal_lawful (read_now w)" "keeps journal_lawful (read_perf w)"
  "keeps journal_lawful (on_audit m)" "keeps journal_lawful (on_broker n)"
  "keeps journal_lawful (set_order cid snap)" "keeps journal_lawful (set_fills cid snap)"
  "keeps journal_lawful (set_state cid st)"
  "keeps journal_lawful (amod (\<lambda>s. if b s then s\<lparr>en_requests := g s\<rparr> else s))"
  by (auto simp: keeps_def journal_lawful_def read_now_def read_perf_def on_audit_def on_broker_def
      apart_def set_order_def set_fills_def set_state_def split: prod.splits)

lemma keeps_option [inv_intros]:
  "keeps I m \<Longrightarrow> (\<And>x. keeps I (f x)) \<Longrightarrow> keeps I (case v of None \<Rightarrow> m | Some x \<Rightarrow> f x)"
  by (cases v) auto

lemma keeps_prod [inv_intros]: "(\<And>x y. keeps I (f x y)) \<Longrightarrow> keeps I (case p of (x, y) \<Rightarrow> f x y)"
  by (cases p) auto

lemma keeps_when_audit [inv_intros]: "(\<And>au. keeps I (f au)) \<Longrightarrow> keeps I (when_audit w f)"
  unfolding when_audit_def by (intro inv_intros)

lemma journal_transition [inv_intros]:
  fixes w :: "('b, 'a) world"
  shows "keeps journal_lawful (engine_transition w cid target reason)"
proof (rule keepsI)
  fix s :: "('b, 'a) engine"
  assume s: "journal_lawful s"
  have audit: "keeps journal_lawful (when_audit w (\<lambda>au. on_audit (au_event au e)))" for e
    by (intro inv_intros)
  have keep: "journal_lawful (s\<lparr>en_states := f, en_now_reads := n\<rparr>)"
      "journal_lawful (s\<lparr>en_states := f\<rparr>)" for f n
    using s by (simp_all add: journal_lawful_def)
  have grow: "journal_lawful (s\<lparr>en_states := f, en_now_reads := n, en_events := en_events s @ [e]\<rparr>)"
    if "event_lawful e" for f n e
    using s that by (simp add: journal_lawful_def)
  show "journal_lawful (snd (engine_transition w cid target reason s))"
    using s
    by (cases "dict_get (en_states s) cid")
      (auto simp: engine_transition_def abind_run athen_run set_state_def read_now_def order_transition_def
          make_execution_event_def event_lawful_def intro!: keepsD [OF audit] grow keep)
qed

lemma keeps_let [inv_intros]: "keeps I (f x) \<Longrightarrow> keeps I (Let x f)"
  by simp

lemma journal_operations:
  "keeps journal_lawful (engine_submit w r)" "keeps journal_lawful (engine_refresh w cid)"
  "keeps journal_lawful (engine_recover_unknown w cid)" "keeps journal_lawful (engine_rehydrate w cids)"
  "keeps journal_lawful (engine_reconcile_order w cid)" "keeps journal_lawful (engine_cancel w cid)"
  "keeps journal_lawful (engine_reconcile_positions w ps)"
proof -
  have lost: "keeps journal_lawful (lost_order w p why)" for p why
    unfolding lost_order_def by (intro inv_intros)
  have one: "keeps journal_lawful (rehydrate_one w cid r)" for cid r
    unfolding rehydrate_one_def by (intro inv_intros lost)
  have loop: "keeps journal_lawful (rehydrate_loop w cids r)" for r
  proof (induction cids arbitrary: r)
    case Nil
    show ?case unfolding rehydrate_loop.simps by (intro inv_intros)
  next
    case (Cons cid cids)
    show ?case unfolding rehydrate_loop.simps by (intro inv_intros one Cons)
  qed
  show "keeps journal_lawful (engine_submit w r)"
    unfolding engine_submit_def submission_failed_def submission_answered_def audit_submission_def
    by (intro inv_intros)
  show "keeps journal_lawful (engine_refresh w cid)"
    unfolding engine_refresh_def by (intro inv_intros lost)
  show "keeps journal_lawful (engine_recover_unknown w cid)"
    unfolding engine_recover_unknown_def by (intro inv_intros)
  show "keeps journal_lawful (engine_rehydrate w cids)" unfolding engine_rehydrate_def by (rule loop)
  show "keeps journal_lawful (engine_reconcile_order w cid)"
    unfolding engine_reconcile_order_def by (intro inv_intros)
  show "keeps journal_lawful (engine_cancel w cid)"
    unfolding engine_cancel_def by (intro inv_intros)
  show "keeps journal_lawful (engine_reconcile_positions w ps)"
    unfolding engine_reconcile_positions_def by (intro inv_intros)
qed

text \<open>C2. Every recorded lifecycle event is a transition of the order state machine (or the first
  event of its order): over any sequence of calls and with any broker and audit store, the
  journal only grows by lawful events with a zone-aware time stamp.\<close>
theorem journal_follows_state_machine:
  "journal_lawful (engine_run w cs (engine_init b a))"
proof -
  have "journal_lawful s \<Longrightarrow> journal_lawful (engine_step w s c)" for s c
    by (cases c) (auto intro: journal_operations [THEN keepsD])
  then have "journal_lawful s \<Longrightarrow> journal_lawful (engine_run w cs s)" for s
    unfolding engine_run_def by (induction cs arbitrary: s) auto
  then show ?thesis by (simp add: journal_lawful_def engine_init_def)
qed

section \<open>What a submission returns\<close>

text \<open>A reply of the adapter that passed every check of \<open>submit\<close>.\<close>

definition consistent_reply :: "OrderRequest \<Rightarrow> OrderSnapshot \<Rightarrow> bool" where
  "consistent_reply r snap = (os_client_order_id snap = or_client_order_id r \<and>
     feq (os_requested_quantity snap) (or_quantity r) \<and> snapshot_contract snap = Inr ())"

lemma make_order_snapshot_eq: "make_order_snapshot s = Inr t \<Longrightarrow> t = s"
  by (auto simp: make_order_snapshot_def)

lemma snapshot_contract_latency: "snapshot_contract (s\<lparr>os_latency_ms := l\<rparr>) = snapshot_contract s"
  by (simp add: snapshot_contract_def)

lemma submission_answered_consistent:
  assumes "submission_answered w r start reply s = (Inr x, t)"
  shows "consistent_reply r (xr_snapshot x) \<and> xr_request x = r"
  using assms
  by (auto simp: submission_answered_def Let_def abind_run athen_run read_perf_def consistent_reply_def
      snapshot_contract_latency split: if_splits prod.splits sum.splits dest!: make_order_snapshot_eq)

text \<open>The audit store changes neither the orders nor the states nor the broker's orders.\<close>

definition same_books :: "('b, 'a) engine \<Rightarrow> ('b, 'a) engine \<Rightarrow> bool" where
  "same_books s t = (en_orders t = en_orders s \<and> en_states t = en_states s)"

lemma same_books_refl: "same_books s s"
  by (simp add: same_books_def)

lemma same_books_trans: "same_books a b \<Longrightarrow> same_books b c \<Longrightarrow> same_books a c"
  by (simp add: same_books_def)

named_theorems books_intros "rules that show that an action leaves orders and states alone"

lemmas books_compose [books_intros] =
  moves_pure [where R = same_books, OF same_books_refl]
  moves_abind [where R = same_books, OF same_books_trans]
  moves_athen [where R = same_books, OF same_books_trans]
  moves_foreach [where R = same_books, OF same_books_refl same_books_trans]

lemma same_books_parts [books_intros]: "moves same_books (on_audit m)" "moves same_books (on_broker n)"
  by (auto simp: moves_def same_books_def on_audit_def on_broker_def apart_def split: prod.splits)

lemma same_books_branches [books_intros]:
  "moves same_books m \<Longrightarrow> moves same_books n \<Longrightarrow> moves same_books (if c then m else n)"
  "(\<And>au. moves same_books (f au)) \<Longrightarrow> moves same_books (when_audit w f)"
  by (auto simp: when_audit_def moves_def same_books_refl split: option.splits)

lemma same_books_audit: "moves same_books (audit_submission w r snap)"
  unfolding audit_submission_def by (intro books_intros)

text \<open>A submission returns only what the broker's reply supports: for an order the engine does
  not hold yet, the returned snapshot is stored as the order's state, and it either passed the
  checks of the reply (same identifier, same quantity, fills consistent with the status) or
  records an unknown outcome, not accepted and with nothing filled.\<close>
theorem submission_result_checked:
  assumes "engine_submit w r s = (Inr x, t)" and "dict_get (en_orders s) (or_client_order_id r) = None"
  shows "dict_get (en_orders t) (or_client_order_id r) = Some (xr_snapshot x) \<and>
    engine_validate r = Inr () \<and>
    (consistent_reply r (xr_snapshot x) \<or>
     \<not> xr_accepted x \<and> os_status (xr_snapshot x) = UNKNOWN \<and> os_filled_quantity (xr_snapshot x) = Fin 0)"
proof -
  let ?cid = "or_client_order_id r"
  obtain u start reply where
    call: "(\<exists>e. submission_failed w r start e u = (Inr x, t)) \<or> submission_answered w r start reply u = (Inr x, t)"
    and valid: "engine_validate r = Inr ()"
    using assms
    by (auto simp: engine_submit_def Let_def athen_run abind_run atry_run read_perf_def
        split: if_splits sum.splits prod.splits option.splits)
  then consider (failed) e where "submission_failed w r start e u = (Inr x, t)"
    | (answered) "submission_answered w r start reply u = (Inr x, t)"
    by blast
  then show ?thesis
  proof cases
    case failed
    then have "dict_get (en_orders t) ?cid = Some (xr_snapshot x)" "\<not> xr_accepted x"
      "os_status (xr_snapshot x) = UNKNOWN" "os_filled_quantity (xr_snapshot x) = Fin 0"
      by (auto simp: submission_failed_def Let_def abind_run athen_run set_order_def
          split: sum.splits prod.splits dest!: make_order_snapshot_eq)
    then show ?thesis using valid by simp
  next
    case answered
    obtain v v' where v: "audit_submission w r (xr_snapshot x) v = (Inr (), v')" "t = v'"
        "dict_get (en_orders v) ?cid = Some (xr_snapshot x)"
      using answered
      by (auto simp: submission_answered_def Let_def abind_run athen_run read_perf_def set_order_def set_fills_def
          split: if_splits prod.splits sum.splits dest!: make_order_snapshot_eq)
    have "en_orders t = en_orders v"
      using movesD [OF same_books_audit, of v w r "xr_snapshot x"] v by (simp add: same_books_def)
    then show ?thesis using v valid submission_answered_consistent [OF answered] by simp
  qed
qed

section \<open>Requests built from an authorization\<close>

lemma make_order_request_fields:
  assumes "make_order_request r = Inr r'"
  shows "r' = r\<lparr>or_symbol := symbol_of (or_symbol r)\<rparr>" "isfinite (or_quantity r)" "\<not> nonpos (or_quantity r)"
  using assms by (auto simp: make_order_request_def first_error_Inr simp del: first_error.simps)

lemma from_authorization_fields:
  assumes "from_authorization a d ty price purpose created = Inr r"
  shows "or_authorization r = Some a" "or_quantity r = ea_approved_quantity a" "or_purpose r = purpose"
    "or_symbol r = symbol_of (ea_symbol a)" "side_for_direction (ea_direction a) = Inr (or_side r)"
    "ea_status a = AUTHORIZED" "isfinite (or_quantity r)" "\<not> nonpos (or_quantity r)"
    "or_client_order_id r = client_order_id_of d a purpose" "or_decision_id r = d"
proof -
  obtain side r0 where r0: "make_order_request r0 = Inr r" "side_for_direction (ea_direction a) = Inr side"
      "ea_status a = AUTHORIZED"
    and f: "or_authorization r0 = Some a" "or_quantity r0 = ea_approved_quantity a" "or_purpose r0 = purpose"
      "or_symbol r0 = ea_symbol a" "or_side r0 = side" "or_decision_id r0 = d"
      "or_client_order_id r0 = client_order_id_of d a purpose"
    using assms by (auto simp: from_authorization_def split: if_split_asm)
  note m = make_order_request_fields [OF r0(1)]
  have "or_authorization r = or_authorization r0" "or_quantity r = or_quantity r0" "or_purpose r = or_purpose r0"
      "or_symbol r = symbol_of (or_symbol r0)" "or_side r = or_side r0" "or_decision_id r = or_decision_id r0"
      "or_client_order_id r = or_client_order_id r0"
    by (subst m(1); simp)+
  then show "or_authorization r = Some a" "or_quantity r = ea_approved_quantity a" "or_purpose r = purpose"
    "or_symbol r = symbol_of (ea_symbol a)" "side_for_direction (ea_direction a) = Inr (or_side r)"
    "ea_status a = AUTHORIZED" "isfinite (or_quantity r)" "\<not> nonpos (or_quantity r)"
    "or_client_order_id r = client_order_id_of d a purpose" "or_decision_id r = d"
    using f r0 m(2,3) by simp_all
qed

text \<open>The identifier of an order is deterministic: two requests built from equal decision,
  symbol, direction, risk version and purpose have the same client order identifier (so the
  second one is a repeat of the first), and every request built from an authorization with a
  normalised symbol passes the engine's validation with exactly the approved quantity.\<close>
theorem request_from_authorization:
  assumes "from_authorization a d ty price purpose created = Inr r"
    and "from_authorization a' d ty' price' purpose created' = Inr r'"
    and "ea_symbol a' = ea_symbol a" "ea_direction a' = ea_direction a"
    and "ea_risk_version a' = ea_risk_version a" "symbol_of (ea_symbol a) = ea_symbol a"
  shows "or_client_order_id r' = or_client_order_id r \<and> length (or_client_order_id r) = 27 \<and>
    engine_validate r = Inr () \<and> or_quantity r = ea_approved_quantity a"
proof -
  note f = from_authorization_fields [OF assms(1)] and f' = from_authorization_fields [OF assms(2)]
  have q: "feq (or_quantity r) (ea_approved_quantity a)"
    using f(2,7) by (simp add: feq_finite)
  have len: "length (or_client_order_id r) = 27"
    unfolding f(9) client_order_id_of_def by (simp add: length_sha256_hex)
  have "or_symbol r = ea_symbol a" using f(4) assms(6) by (simp only:)
  then have "engine_validate r = Inr ()"
    using f q by (simp add: engine_validate_def)
  moreover have "or_client_order_id r' = or_client_order_id r"
    unfolding f(9) f'(9) client_order_id_of_def assms(3-5) ..
  ultimately show ?thesis using len f(2) by blast
qed

text \<open>C13. An exit order never increases exposure: it has the symbol of the position, the side that
  opposes it, a positive quantity that is at most the size of the position, and the purpose
  \<open>EXIT\<close>.\<close>
theorem exit_order_reduces_position:
  assumes "from_exit_authorization a d p q ty price created = Inr r"
  shows "or_purpose r = ''EXIT'' \<and> or_symbol r = ps_symbol p \<and>
    or_side r = (if fpos (ps_position p) then SELL else BUY) \<and>
    fpos (or_quantity r) \<and> \<not> fless (fabs (ps_position p)) (or_quantity r) \<and> \<not> feq (ps_position p) (Fin 0)"
proof -
  define req where "req = (case q of None \<Rightarrow> fabs (ps_position p) | Some x \<Rightarrow> x)"
  have fa: "from_authorization a d ty price ''EXIT'' created = Inr r"
    and c: "\<not> feq (ps_position p) (Fin 0)" "\<not> fless (fabs (ps_position p)) req"
      "symbol_of (ea_symbol a) = ps_symbol p" "ea_direction a = (if fpos (ps_position p) then SHORT else LONG)"
      "feq (ea_approved_quantity a) req"
    using assms unfolding req_def by (auto simp: from_exit_authorization_def Let_def split: if_split_asm)
  note f = from_authorization_fields [OF fa]
  have "req = or_quantity r" using c(5) f(2,7) feq_finite by metis
  then show ?thesis using c f finite_nonpos [OF f(7,8)] by (auto split: if_splits)
qed

section \<open>Unknown outcomes\<close>

lemma engine_validate_facts:
  "engine_validate r = Inr () \<Longrightarrow> isfinite (or_quantity r) \<and> \<not> nonpos (or_quantity r)"
  by (auto simp: engine_validate_def split: option.splits if_splits)

text \<open>An audit store that takes every event, and one whose methods all return. A missing store is one.\<close>

definition records_events :: "('b, 'a) world \<Rightarrow> bool" where
  "records_events w \<longleftrightarrow> (\<forall>au. w_audit w = Some au \<longrightarrow> (\<forall>e a. fst (au_event au e a) = Inr ()))"

definition records_all :: "('b, 'a) world \<Rightarrow> bool" where
  "records_all w \<longleftrightarrow> records_events w \<and> (\<forall>au. w_audit w = Some au \<longrightarrow>
     (\<forall>r snap a. fst (au_order au r snap a) = Inr ()) \<and> (\<forall>f d p a. fst (au_fill au f d p a) = Inr ()) \<and>
     (\<forall>ps c d p t a. fst (au_position au ps c d p t a) = Inr ()))"

text \<open>A lawful transition to a new state is made whatever the audit store does; it returns when the
  store takes the event, and raises what the store raises.\<close>

lemma transition_run:
  assumes "\<forall>n. aware (w_now w n)" "dict_get (en_states s) cid \<noteq> Some target"
    and "\<And>c. dict_get (en_states s) cid = Some c \<Longrightarrow> target \<in> set (order_allowed c)"
  shows "\<exists>res e a. engine_transition w cid target reason s = (res, s\<lparr>en_audit := a,
      en_states := dict_set cid target (en_states s), en_events := en_events s @ [e],
      en_now_reads := Suc (en_now_reads s)\<rparr>) \<and> (records_events w \<longrightarrow> res = Inr ())"
proof -
  obtain e where run: "engine_transition w cid target reason s =
      when_audit w (\<lambda>au. on_audit (au_event au e)) (s\<lparr>en_states := dict_set cid target (en_states s),
        en_now_reads := Suc (en_now_reads s), en_events := en_events s @ [e]\<rparr>)"
    using assms by (cases "dict_get (en_states s) cid")
      (simp_all add: engine_transition_def athen_run abind_run set_state_def read_now_def make_execution_event_def
        order_transition_def)
  show ?thesis
  proof (cases "w_audit w")
    case None
    then show ?thesis using run by (intro exI [of _ "Inr ()"] exI [of _ e] exI [of _ "en_audit s"]) (simp add: when_audit_def)
  next
    case (Some au)
    obtain res a where ra: "au_event au e (en_audit s) = (res, a)" by (cases "au_event au e (en_audit s)")
    have "res = Inr ()" if "records_events w"
      using that Some ra unfolding records_events_def by (metis fst_conv)
    then show ?thesis using run Some ra
      by (intro exI [of _ res] exI [of _ e] exI [of _ a]) (simp add: when_audit_def on_audit_def apart_def)
  qed
qed

lemma unknown_snapshot:
  assumes "engine_validate r = Inr ()" "\<not> blank (or_client_order_id r)" "aware t"
  shows "make_order_snapshot \<lparr>os_broker_order_id = ''UNKNOWN:'' @ or_client_order_id r,
        os_client_order_id = or_client_order_id r, os_status = UNKNOWN, os_requested_quantity = or_quantity r,
        os_filled_quantity = Fin 0, os_average_fill_price = None, os_reason = why,
        os_latency_ms = None, os_updated_at = t, os_fills = []\<rparr> =
      Inr \<lparr>os_broker_order_id = ''UNKNOWN:'' @ or_client_order_id r,
        os_client_order_id = or_client_order_id r, os_status = UNKNOWN, os_requested_quantity = or_quantity r,
        os_filled_quantity = Fin 0, os_average_fill_price = None, os_reason = why,
        os_latency_ms = None, os_updated_at = t, os_fills = []\<rparr>"
proof -
  note q = engine_validate_facts [OF assms(1)]
  have name: "\<not> blank (''UNKNOWN:'' @ or_client_order_id r)"
    by (simp add: blank_def strip_def is_space_def dropWhile_append)
  have "nonneg (fadd (or_quantity r) qty_tolerance)"
    using finite_nonpos [of "or_quantity r"] q
    by (intro fadd_nonneg) (auto simp: qty_tolerance_def intro: fless_imp_fle double.nonneg)
  then have "\<not> fless (fadd (or_quantity r) qty_tolerance) (Fin 0)" by (cases "fadd (or_quantity r) qty_tolerance") auto
  then show ?thesis unfolding make_order_snapshot_def using q name assms(2,3) by simp
qed

text \<open>A submission of a new order up to the call of the adapter.\<close>

lemma fresh_submission:
  assumes "engine_validate r = Inr ()" and "dict_get (en_orders s) (or_client_order_id r) = None"
    and "dict_get (en_states s) (or_client_order_id r) = None" and "\<forall>n. aware (w_now w n)"
  obtains (stopped) e t where "engine_submit w r s = (Inl e, t)" "\<not> records_events w" "en_broker t = en_broker s"
      "dict_get (en_states t) (or_client_order_id r) \<in> {Some VALIDATED, Some SUBMITTING}"
  | (called) t where "engine_submit w r s = atry (on_broker (br_submit (w_broker w) r))
        (submission_failed w r (w_perf w (en_perf_reads s))) (submission_answered w r (w_perf w (en_perf_reads s))) t"
      "en_broker t = en_broker s" "dict_get (en_states t) (or_client_order_id r) = Some SUBMITTING"
      "dict_get (en_orders t) (or_client_order_id r) = None" "dict_get (en_requests t) (or_client_order_id r) \<noteq> None"
      "en_perf_reads t = Suc (en_perf_reads s)"
proof -
  let ?cid = "or_client_order_id r"
  define s0 where "s0 = (if dict_get (en_requests s) ?cid = None
    then s\<lparr>en_requests := dict_set ?cid r (en_requests s)\<rparr> else s)"
  have s0: "en_broker s0 = en_broker s" "en_states s0 = en_states s" "en_orders s0 = en_orders s"
      "en_perf_reads s0 = en_perf_reads s" "dict_get (en_requests s0) ?cid \<noteq> None"
    by (simp_all add: s0_def)
  have run: "engine_submit w r s = athen (engine_transition w ?cid VALIDATED ''local validation passed'')
        (athen (engine_transition w ?cid SUBMITTING ''broker submission started'')
        (abind (read_perf w) (\<lambda>start. atry (on_broker (br_submit (w_broker w) r))
           (submission_failed w r start) (submission_answered w r start)))) s0"
    using assms(1,2) s0(3) by (simp add: engine_submit_def Let_def athen_run abind_run s0_def)
  obtain r1 e1 a1 where one: "engine_transition w ?cid VALIDATED ''local validation passed'' s0 =
      (r1, s0\<lparr>en_audit := a1, en_states := dict_set ?cid VALIDATED (en_states s0), en_events := en_events s0 @ [e1],
        en_now_reads := Suc (en_now_reads s0)\<rparr>)" "records_events w \<Longrightarrow> r1 = Inr ()"
  proof -
    have "dict_get (en_states s0) ?cid = None" using s0(2) assms(3) by simp
    then show thesis using that transition_run [OF assms(4), of s0 ?cid VALIDATED] by fastforce
  qed
  define s1 where "s1 = s0\<lparr>en_audit := a1, en_states := dict_set ?cid VALIDATED (en_states s0),
    en_events := en_events s0 @ [e1], en_now_reads := Suc (en_now_reads s0)\<rparr>"
  obtain r2 e2 a2 where two: "engine_transition w ?cid SUBMITTING ''broker submission started'' s1 =
      (r2, s1\<lparr>en_audit := a2, en_states := dict_set ?cid SUBMITTING (en_states s1), en_events := en_events s1 @ [e2],
        en_now_reads := Suc (en_now_reads s1)\<rparr>)" "records_events w \<Longrightarrow> r2 = Inr ()"
  proof -
    have "dict_get (en_states s1) ?cid = Some VALIDATED" by (simp add: s1_def)
    then show thesis using that transition_run [OF assms(4), of s1 ?cid SUBMITTING] by fastforce
  qed
  define s2 where "s2 = s1\<lparr>en_audit := a2, en_states := dict_set ?cid SUBMITTING (en_states s1),
    en_events := en_events s1 @ [e2], en_now_reads := Suc (en_now_reads s1)\<rparr>"
  note states = s1_def s2_def s0
  show thesis
  proof (cases r1)
    case (Inl e)
    then show thesis using one run by (intro stopped [of e s1]) (auto simp: athen_run states)
  next
    case r1: (Inr u)
    show thesis
    proof (cases r2)
      case (Inl e)
      then show thesis using one(1) two run r1 by (intro stopped [of e s2]) (auto simp: athen_run s1_def [symmetric] s2_def s0, simp_all add: s1_def s0)
    next
      case (Inr v)
      have "engine_submit w r s = atry (on_broker (br_submit (w_broker w) r))
        (submission_failed w r (w_perf w (en_perf_reads s))) (submission_answered w r (w_perf w (en_perf_reads s)))
        (s2\<lparr>en_perf_reads := Suc (en_perf_reads s2)\<rparr>)"
        using one(1) two(1) run r1 Inr
        by (simp add: athen_run abind_run read_perf_def s1_def [symmetric] s2_def [symmetric]) (simp add: states)
      then show thesis using assms(2)
        by (intro called [of "s2\<lparr>en_perf_reads := Suc (en_perf_reads s2)\<rparr>"]) (simp_all add: states)
    qed
  qed
qed

text \<open>The adapter raised: the order is \<open>UNKNOWN\<close> from then on.\<close>

lemma failed_submission:
  assumes "engine_validate r = Inr ()" and "\<not> blank (or_client_order_id r)" and "\<forall>n. aware (w_now w n)"
    and "dict_get (en_states s) (or_client_order_id r) = Some SUBMITTING"
    and "dict_get (en_orders s) (or_client_order_id r) = None"
  obtains res t where "submission_failed w r start e s = (res, t)" "en_broker t = en_broker s"
      "dict_get (en_states t) (or_client_order_id r) = Some UNKNOWN" "en_requests t = en_requests s"
      "records_events w \<Longrightarrow> \<exists>x. res = Inr x" "\<And>x. res = Inr x \<Longrightarrow> \<not> xr_accepted x \<and>
         os_status (xr_snapshot x) = UNKNOWN \<and> dict_get (en_orders t) (or_client_order_id r) = Some (xr_snapshot x)"
proof -
  let ?cid = "or_client_order_id r" and ?why = "''broker submission exception: '' @ exc_text e"
  define s1 where "s1 = s\<lparr>en_now_reads := Suc (en_now_reads s), en_perf_reads := Suc (en_perf_reads s)\<rparr>"
  obtain r1 e1 a1 where one: "engine_transition w ?cid UNKNOWN ?why s1 =
      (r1, s1\<lparr>en_audit := a1, en_states := dict_set ?cid UNKNOWN (en_states s1), en_events := en_events s1 @ [e1],
        en_now_reads := Suc (en_now_reads s1)\<rparr>)" "records_events w \<Longrightarrow> r1 = Inr ()"
  proof -
    have "dict_get (en_states s1) ?cid = Some SUBMITTING" using assms(4) by (simp add: s1_def)
    then show thesis using that transition_run [OF assms(3), of s1 ?cid UNKNOWN ?why] by fastforce
  qed
  note run = unknown_snapshot [OF assms(1,2) spec [OF assms(3)], of ?why]
  show thesis
  proof (cases r1)
    case (Inl x)
    then show thesis using one run
      by (intro that [of "Inl x" "s1\<lparr>en_audit := a1, en_states := dict_set ?cid UNKNOWN (en_states s1),
          en_events := en_events s1 @ [e1], en_now_reads := Suc (en_now_reads s1)\<rparr>"])
        (simp_all add: submission_failed_def Let_def athen_run abind_run read_now_def read_perf_def s1_def)
  next
    case (Inr u)
    have "\<exists>x t. submission_failed w r start e s = (Inr x, t) \<and> en_broker t = en_broker s \<and>
      dict_get (en_states t) ?cid = Some UNKNOWN \<and> en_requests t = en_requests s \<and> \<not> xr_accepted x \<and>
      os_status (xr_snapshot x) = UNKNOWN \<and> dict_get (en_orders t) ?cid = Some (xr_snapshot x)"
      using one(1) run Inr
      by (simp add: submission_failed_def Let_def athen_run abind_run read_now_def read_perf_def s1_def set_order_def)
    then obtain x t where "submission_failed w r start e s = (Inr x, t)" "en_broker t = en_broker s"
      "dict_get (en_states t) ?cid = Some UNKNOWN" "en_requests t = en_requests s" "\<not> xr_accepted x"
      "os_status (xr_snapshot x) = UNKNOWN" "dict_get (en_orders t) ?cid = Some (xr_snapshot x)" by blast
    then show thesis by (intro that [of "Inr x" t]) simp_all
  qed
qed

text \<open>Once the order is \<open>UNKNOWN\<close>, no submission under its identifier reaches the adapter.\<close>

lemma unknown_is_silent:
  assumes "dict_get (en_states t) (or_client_order_id r) = Some UNKNOWN"
  shows "en_broker (snd (engine_submit w r t)) = en_broker t"
  using assms
  by (auto simp: engine_submit_def Let_def athen_run abind_run engine_transition_def order_transition_def
      split: sum.splits option.splits)

lemma held_is_repeated:
  assumes "engine_validate r = Inr ()" "dict_get (en_orders t) (or_client_order_id r) = Some snap"
    and "dict_get (en_requests t) (or_client_order_id r) \<noteq> None"
  shows "engine_submit w r t = (Inr \<lparr>xr_request = r, xr_snapshot = snap,
     xr_accepted = (os_status snap \<notin> {REJECTED_LOCAL, REJECTED_BROKER, FAILED}), xr_latency_ms = Fin 0, xr_error = None\<rparr>, t)"
  using assms by (auto simp: engine_submit_def Let_def athen_run abind_run)

lemma raising_adapter:
  assumes "engine_validate r = Inr ()" and "\<not> blank (or_client_order_id r)"
    and "dict_get (en_orders s) (or_client_order_id r) = None"
    and "dict_get (en_states s) (or_client_order_id r) = None" and "\<forall>n. aware (w_now w n)"
    and "br_submit (w_broker w) r (en_broker s) = (Inl e, b)"
  obtains (stopped) e' t where "engine_submit w r s = (Inl e', t)" "\<not> records_events w" "en_broker t = en_broker s"
      "dict_get (en_states t) (or_client_order_id r) \<in> {Some VALIDATED, Some SUBMITTING}"
  | (unknown) res t where "engine_submit w r s = (res, t)" "en_broker t = b"
      "dict_get (en_states t) (or_client_order_id r) = Some UNKNOWN"
      "dict_get (en_requests t) (or_client_order_id r) \<noteq> None"
      "records_events w \<Longrightarrow> \<exists>x. res = Inr x" "\<And>x. res = Inr x \<Longrightarrow> \<not> xr_accepted x \<and>
         os_status (xr_snapshot x) = UNKNOWN \<and> dict_get (en_orders t) (or_client_order_id r) = Some (xr_snapshot x)"
  using assms(1,3,4,5)
proof (rule fresh_submission)
  fix t
  assume t: "engine_submit w r s = atry (on_broker (br_submit (w_broker w) r))
        (submission_failed w r (w_perf w (en_perf_reads s))) (submission_answered w r (w_perf w (en_perf_reads s))) t"
      "en_broker t = en_broker s" "dict_get (en_states t) (or_client_order_id r) = Some SUBMITTING"
      "dict_get (en_orders t) (or_client_order_id r) = None" "dict_get (en_requests t) (or_client_order_id r) \<noteq> None"
      "en_perf_reads t = Suc (en_perf_reads s)"
  define u where "u = t\<lparr>en_broker := b\<rparr>"
  have run: "engine_submit w r s = submission_failed w r (w_perf w (en_perf_reads s)) e u"
    using t(1,2) assms(6) by (simp add: atry_run on_broker_def apart_def u_def)
  have u: "dict_get (en_states u) (or_client_order_id r) = Some SUBMITTING"
      "dict_get (en_orders u) (or_client_order_id r) = None" "en_broker u = b" "en_requests u = en_requests t"
    using t by (simp_all add: u_def)
  show thesis
  proof (rule failed_submission [OF assms(1,2,5) u(1,2), of "w_perf w (en_perf_reads s)" e])
    fix res v
    assume v: "submission_failed w r (w_perf w (en_perf_reads s)) e u = (res, v)" "en_broker v = en_broker u"
      "dict_get (en_states v) (or_client_order_id r) = Some UNKNOWN" "en_requests v = en_requests u"
      "records_events w \<Longrightarrow> \<exists>x. res = Inr x" "\<And>x. res = Inr x \<Longrightarrow> \<not> xr_accepted x \<and>
         os_status (xr_snapshot x) = UNKNOWN \<and> dict_get (en_orders v) (or_client_order_id r) = Some (xr_snapshot x)"
    have "engine_submit w r s = (res, v)" "en_broker v = b" "dict_get (en_requests v) (or_client_order_id r) \<noteq> None"
      using run v(1,2,4) u(3,4) t(5) by simp_all
    then show thesis using unknown [of res v] v(3,5,6) by simp
  qed
qed (rule stopped)

text \<open>C11. A submission whose outcome is unknown fails closed. When the adapter raises on a new
  order and the audit store (if there is one) takes every event, \<open>submit\<close> returns a result that is not
  accepted, the order is recorded as \<open>UNKNOWN\<close>, and submitting it again returns that snapshot
  without calling the adapter (and, now, as accepted). With any audit store, a raising one included,
  either the store stopped the submission before the adapter was called and \<open>submit\<close> raises, or the order's
  state is \<open>UNKNOWN\<close> and no submission under its identifier, with the same or another
  request, reaches the adapter. The clock is \<open>pd.Timestamp.now("UTC")\<close>, which is zoned.\<close>
theorem unknown_outcome_never_retried:
  assumes "engine_validate r = Inr ()" and "\<not> blank (or_client_order_id r)"
    and "dict_get (en_orders s) (or_client_order_id r) = None"
    and "dict_get (en_states s) (or_client_order_id r) = None" and "\<forall>n. aware (w_now w n)"
    and "br_submit (w_broker w) r (en_broker s) = (Inl e, b)"
  shows "(records_events w \<longrightarrow> (\<exists>x t. engine_submit w r s = (Inr x, t) \<and> \<not> xr_accepted x \<and>
       os_status (xr_snapshot x) = UNKNOWN \<and> dict_get (en_states t) (or_client_order_id r) = Some UNKNOWN \<and>
       dict_get (en_orders t) (or_client_order_id r) = Some (xr_snapshot x) \<and> en_broker t = b \<and>
       (\<exists>y. engine_submit w r t = (Inr y, t) \<and> xr_snapshot y = xr_snapshot x \<and> xr_accepted y))) \<and>
    (\<exists>res t. engine_submit w r s = (res, t) \<and>
       (isl res \<and> en_broker t = en_broker s \<and>
          dict_get (en_states t) (or_client_order_id r) \<in> {Some VALIDATED, Some SUBMITTING} \<or>
        dict_get (en_states t) (or_client_order_id r) = Some UNKNOWN \<and> en_broker t = b \<and>
          (\<forall>r'. or_client_order_id r' = or_client_order_id r \<longrightarrow> en_broker (snd (engine_submit w r' t)) = b)))"
  using assms
proof (cases rule: raising_adapter)
  case (stopped e' t)
  then show ?thesis by auto
next
  case (unknown res t)
  have silent: "en_broker (snd (engine_submit w r' t)) = b" if "or_client_order_id r' = or_client_order_id r" for r'
    using unknown_is_silent [of t r'] unknown(2,3) that by simp
  have "\<exists>x t. engine_submit w r s = (Inr x, t) \<and> \<not> xr_accepted x \<and>
       os_status (xr_snapshot x) = UNKNOWN \<and> dict_get (en_states t) (or_client_order_id r) = Some UNKNOWN \<and>
       dict_get (en_orders t) (or_client_order_id r) = Some (xr_snapshot x) \<and> en_broker t = b \<and>
       (\<exists>y. engine_submit w r t = (Inr y, t) \<and> xr_snapshot y = xr_snapshot x \<and> xr_accepted y)" if "records_events w"
  proof -
    obtain x where x: "res = Inr x" using unknown(5) \<open>records_events w\<close> by blast
    note held = unknown(6) [OF x]
    show ?thesis
      using held_is_repeated [OF assms(1) _ unknown(4)] held unknown(1-3) x by simp
  qed
  then show ?thesis using silent unknown(1-3) by blast
qed

section \<open>Concrete worlds\<close>

text \<open>A broker without state that gives fixed answers.\<close>

definition demo_world :: "OrderSnapshot res \<Rightarrow> OrderSnapshot option \<Rightarrow> (unit, unit) world" where
  "demo_world reply found = \<lparr>w_broker = \<lparr>br_submit = (\<lambda>r. alift reply), br_get_order = (\<lambda>cid. aret found),
       br_cancel = (\<lambda>cid. araise (OtherError ''not supported'')), br_positions = aret []\<rparr>,
     w_audit = None, w_now = (\<lambda>n. \<lparr>ns = 0, zone = Some 0\<rparr>), w_perf = (\<lambda>n. Fin 0)\<rparr>"

definition demo_authorization :: ExecutionAuthorization where
  "demo_authorization = \<lparr>ea_timestamp = \<lparr>ns = 0, zone = Some 0\<rparr>, ea_symbol = ''ABC'', ea_direction = LONG,
     ea_status = AUTHORIZED, ea_reason = ''ok'', ea_risk_version = ''RISK-v1.0'',
     ea_approved_quantity = Fin 10, ea_approved_notional = Fin 1000, ea_risk_decision_id = [],
     ea_restrictions = [], ea_execution_version = ''risk-aware-v2.0'', ea_position_transition = None,
     ea_approved_projected_quantity = None\<rparr>"

definition demo_order :: OrderRequest where
  "demo_order = \<lparr>or_client_order_id = ''SB-1'', or_decision_id = ''d1'', or_symbol = ''ABC'', or_side = BUY,
     or_quantity = Fin 10, or_order_type = MARKET, or_limit_price = None, or_time_in_force = DAY,
     or_purpose = ''ENTRY'', or_created_at = \<lparr>ns = 0, zone = Some 0\<rparr>,
     or_authorization = Some demo_authorization\<rparr>"

definition demo_snapshot :: "string \<Rightarrow> OrderStatus \<Rightarrow> rat \<Rightarrow> OrderSnapshot" where
  "demo_snapshot cid st filled = \<lparr>os_broker_order_id = ''B-1'', os_client_order_id = cid, os_status = st,
     os_requested_quantity = Fin 10, os_filled_quantity = Fin filled, os_average_fill_price = Some (Fin 100),
     os_reason = [], os_latency_ms = None, os_updated_at = \<lparr>ns = 0, zone = Some 0\<rparr>, os_fills = []\<rparr>"

text \<open>\<open>refresh\<close> does not check what the broker answers: a reply for another order, and with a
  filled status but nothing filled, is stored under the identifier that was asked for, where
  \<open>recover_unknown\<close> on the same reply raises.\<close>
theorem refresh_stores_foreign_snapshot:
  "let w = demo_world (Inl (OtherError ''down'')) (Some (demo_snapshot ''SB-2'' FILLED 0));
       s = snd (engine_submit w demo_order (engine_init () ())) in
   engine_get_order ''SB-1'' (snd (engine_refresh w ''SB-1'' s)) = Some (demo_snapshot ''SB-2'' FILLED 0) \<and>
   snapshot_contract (demo_snapshot ''SB-2'' FILLED 0) \<noteq> Inr () \<and>
   fst (engine_recover_unknown w ''SB-1'' s) = Inl (ValueError ''broker recovery client_order_id mismatch'')"
  by code_simp

text \<open>A broker that answers a submission with \<open>OPEN\<close> or \<open>ACKNOWLEDGED\<close> is refused after it
  took the order: \<open>submit\<close> raises an invalid transition, the order stays in \<open>SUBMITTING\<close> and is not
  among the engine's orders (nor among its open orders), although the adapter was called.\<close>
theorem synchronous_acknowledgement_lost:
  "list_all (\<lambda>st. let w = logging_world (demo_world (Inr (demo_snapshot ''SB-1'' st 0)) None);
       (x, s) = engine_submit w demo_order (engine_init ((), []) ()) in
     x = Inl (ValueError ''invalid order transition'') \<and>
     map or_client_order_id (submit_log s) = [''SB-1''] \<and>
     dict_get (en_states s) ''SB-1'' = Some SUBMITTING \<and>
     engine_get_order ''SB-1'' s = None \<and> open_orders s = []) [OPEN, ACKNOWLEDGED]"
  by code_simp

section \<open>Inputs on which the properties apply\<close>

lemma demo_order_valid: "engine_validate demo_order = Inr ()" "\<not> blank (or_client_order_id demo_order)"
  by code_simp+

lemma submission_result_checked_witness:
  "\<exists>x t. engine_submit (demo_world (Inr (demo_snapshot ''SB-1'' FILLED 10)) None) demo_order (engine_init () ())
      = (Inr x, t) \<and> dict_get (en_orders t) ''SB-1'' = Some (xr_snapshot x)"
proof -
  let ?run = "engine_submit (demo_world (Inr (demo_snapshot ''SB-1'' FILLED 10)) None) demo_order (engine_init () ())"
  have "returns (\<lambda>_. True) (fst ?run)" by code_simp
  then obtain x t where r: "?run = (Inr x, t)" by (cases ?run) (auto simp: returns_iff)
  have "dict_get (en_orders (engine_init () ())) (or_client_order_id demo_order) = None" by (simp add: engine_init_def)
  from submission_result_checked [OF r this] r show ?thesis by (auto simp: demo_order_def)
qed

text \<open>A store that keeps the events, and one that is down.\<close>

definition event_store :: "ExecutionEvent list audit" where
  "event_store = \<lparr>au_order = (\<lambda>r snap. aret ()), au_event = (\<lambda>e. amod (\<lambda>es. es @ [e])),
     au_fill = (\<lambda>f d p. aret ()), au_position = (\<lambda>ps c d p t. aret ())\<rparr>"

definition audited_world :: "OrderSnapshot res \<Rightarrow> (unit, ExecutionEvent list) world" where
  "audited_world reply = \<lparr>w_broker = w_broker (demo_world reply None), w_audit = Some event_store,
     w_now = (\<lambda>n. \<lparr>ns = int n, zone = Some 0\<rparr>), w_perf = (\<lambda>n. Fin (of_nat n))\<rparr>"

lemma event_store_records: "records_all (audited_world reply)"
  by (simp add: records_all_def records_events_def audited_world_def event_store_def)

lemma unknown_outcome_never_retried_witness:
  "\<exists>x t. engine_submit (audited_world (Inl (OtherError ''down''))) demo_order (engine_init () []) = (Inr x, t) \<and>
     os_status (xr_snapshot x) = UNKNOWN \<and> \<not> xr_accepted x"
proof -
  let ?w = "audited_world (Inl (OtherError ''down''))"
  have "br_submit (w_broker ?w) demo_order () = (Inl (OtherError ''down''), ())" "\<forall>n. aware (w_now ?w n)"
    by (simp_all add: audited_world_def demo_world_def aware_def)
  moreover have "records_events ?w" using event_store_records by (simp add: records_all_def)
  ultimately show ?thesis
    using unknown_outcome_never_retried [OF demo_order_valid, of "engine_init () []" ?w "OtherError ''down''" "()"]
    by (simp add: engine_init_def) blast
qed

lemma request_from_authorization_witness:
  "\<exists>r. from_authorization demo_authorization ''d1'' MARKET None ''ENTRY'' None = Inr r \<and>
     engine_validate r = Inr () \<and> length (or_client_order_id r) = 27"
proof -
  have "\<not> blank (''SB-'' @ x)" for x
    by (simp add: blank_def strip_def is_space_def dropWhile_append)
  then have cid: "\<not> blank (client_order_id_of ''d1'' demo_authorization ''ENTRY'')"
    unfolding client_order_id_of_def .
  have ok: "symbol_of ''ABC'' = ''ABC''" "\<not> blank ''ABC''" "\<not> blank ''d1''" by code_simp+
  obtain r where r: "from_authorization demo_authorization ''d1'' MARKET None ''ENTRY'' None = Inr r"
    using cid ok by (simp add: from_authorization_def make_order_request_def demo_authorization_def aware_def)
  have "symbol_of (ea_symbol demo_authorization) = ea_symbol demo_authorization" by code_simp
  from request_from_authorization [OF r r _ _ _ this] r show ?thesis by auto
qed

lemma exit_order_reduces_position_witness:
  "\<exists>r. from_exit_authorization (demo_authorization\<lparr>ea_direction := SHORT\<rparr>) ''d1''
       \<lparr>ps_symbol = ''ABC'', ps_position = Fin 10, ps_average_price = Fin 100\<rparr> None MARKET None None = Inr r \<and>
     or_side r = SELL \<and> or_purpose r = ''EXIT''"
proof -
  let ?a = "demo_authorization\<lparr>ea_direction := SHORT\<rparr>"
  let ?p = "\<lparr>ps_symbol = ''ABC'', ps_position = Fin 10, ps_average_price = Fin 100\<rparr>"
  have "\<not> blank (''SB-'' @ x)" for x
    by (simp add: blank_def strip_def is_space_def dropWhile_append)
  then have cid: "\<not> blank (client_order_id_of ''d1'' ?a ''EXIT'')"
    unfolding client_order_id_of_def .
  have ok: "symbol_of ''ABC'' = ''ABC''" "\<not> blank ''ABC''" "\<not> blank ''d1''" by code_simp+
  obtain r where "from_authorization ?a ''d1'' MARKET None ''EXIT'' None = Inr r"
    using cid ok by (simp add: from_authorization_def make_order_request_def demo_authorization_def aware_def)
  moreover have "from_exit_authorization ?a ''d1'' ?p None MARKET None None =
      from_authorization ?a ''d1'' MARKET None ''EXIT'' None"
    using ok(1) by (simp add: from_exit_authorization_def Let_def demo_authorization_def)
  ultimately have r: "from_exit_authorization ?a ''d1'' ?p None MARKET None None = Inr r" by simp
  from exit_order_reduces_position [OF r] r show ?thesis by auto
qed

end
