(* ===== verification/Magnitude.thy ===== *)
theory Magnitude
  imports PyFloat
begin

text \<open>
  Magnitudes: \<open>mag k x\<close> says that \<open>x\<close> is finite and at most \<open>2 ^ k\<close> in absolute value. Every
  operation on floats keeps within a slightly larger magnitude, so a chain of operations on
  bounded inputs stays finite.
\<close>

fun mag :: "nat \<Rightarrow> pyfloat \<Rightarrow> bool" where
  "mag k (Fin a) = (\<bar>a\<bar> \<le> 2 ^ k)"
| "mag k x = False"

lemma mag_iff: "mag k x \<longleftrightarrow> (\<exists>a. x = Fin a \<and> \<bar>a\<bar> \<le> 2 ^ k)"
  by (cases x) auto

lemma mag_finite [intro]: "mag k x \<Longrightarrow> isfinite x"
  by (auto simp: mag_iff)

lemma mag_mono:
  assumes "mag j x" "j \<le> k"
  shows "mag k x"
proof -
  have le: "(2::rat) ^ j \<le> 2 ^ k" using assms(2) by (rule power_increasing) simp
  show ?thesis using assms(1) by (cases x) (auto elim: order_trans [OF _ le])
qed

lemma power_is_double: "k \<le> 970 \<Longrightarrow> is_double (2 ^ k)"
  by (rule is_doubleI [of _ 1 "int k"]) (simp_all add: power_int_def)

lemma rnd_mag:
  assumes "\<bar>a\<bar> \<le> 2 ^ k" "k \<le> 970"
  shows "mag k (rnd a)"
proof -
  have "rnd (2 ^ k) = Fin (2 ^ k)" using power_is_double [OF assms(2)] by (simp add: is_double_def)
  moreover from this have "rnd (- (2 ^ k)) = Fin (- (2 ^ k))" by (simp add: rnd_uminus)
  moreover have "- (2 ^ k) \<le> a" "a \<le> 2 ^ k" using assms(1) by linarith+
  ultimately obtain y where "rnd a = Fin y" "- (2 ^ k) \<le> y" "y \<le> 2 ^ k"
    using double.between_finite by metis
  then show ?thesis by (simp add: abs_le_iff)
qed

lemma mag_fneg [simp]: "mag k (fneg x) = mag k x"
  by (cases x) auto

lemma mag_fabs [simp]: "mag k (fabs x) = mag k x"
  by (cases x) auto

lemma mag_fmin: "mag k a \<Longrightarrow> mag k b \<Longrightarrow> mag k (fmin a b)"
  by (simp add: fmin_def)

lemma mag_fmax: "mag k a \<Longrightarrow> mag k b \<Longrightarrow> mag k (fmax a b)"
  by (simp add: fmax_def)

lemma mag_fadd:
  assumes "mag j a" "mag k b" "j < m" "k < m" "m \<le> 970"
  shows "mag m (fadd a b)"
proof -
  obtain n where m: "m = Suc n" using assms(3) by (cases m) auto
  obtain x y where "a = Fin x" "\<bar>x\<bar> \<le> 2 ^ n" "b = Fin y" "\<bar>y\<bar> \<le> 2 ^ n"
    using mag_mono [OF assms(1), of n] mag_mono [OF assms(2), of n] assms(3,4) m by (auto simp: mag_iff)
  moreover from this have "\<bar>x + y\<bar> \<le> 2 ^ m" by (simp add: m abs_if split: if_splits)
  ultimately show ?thesis using rnd_mag [of "x + y" m] assms(5) by simp
qed

lemma mag_fsub:
  "mag j a \<Longrightarrow> mag k b \<Longrightarrow> j < m \<Longrightarrow> k < m \<Longrightarrow> m \<le> 970 \<Longrightarrow> mag m (fsub a b)"
  unfolding fsub_def by (rule mag_fadd [of j _ k]) simp_all

lemma mag_fmul:
  assumes "mag j a" "mag k b" "j + k \<le> m" "m \<le> 970"
  shows "mag m (fmul a b)"
proof -
  obtain x y where xy: "a = Fin x" "\<bar>x\<bar> \<le> 2 ^ j" "b = Fin y" "\<bar>y\<bar> \<le> 2 ^ k"
    using assms(1,2) by (auto simp: mag_iff)
  then have "\<bar>x * y\<bar> \<le> 2 ^ j * 2 ^ k" unfolding abs_mult by (intro mult_mono) simp_all
  also have "\<dots> \<le> 2 ^ m" using power_increasing [OF assms(3), of "2::rat"] by (simp add: power_add)
  finally show ?thesis using rnd_mag assms(4) xy by simp
qed

text \<open>Division by a number of at least one never raises and does not grow.\<close>

lemma mag_fdiv:
  assumes "mag k a" "1 \<le> y" "k \<le> 970"
  obtains z where "fdiv a (Fin y) = Inr z" "mag k z"
proof -
  obtain x where x: "a = Fin x" "\<bar>x\<bar> \<le> 2 ^ k" using assms(1) by (auto simp: mag_iff)
  have "\<bar>x / y\<bar> = \<bar>x\<bar> / y" using assms(2) by (simp add: abs_divide)
  also have "\<dots> \<le> \<bar>x\<bar>" using assms(2) mult_left_mono [of 1 y "\<bar>x\<bar>"] by (simp add: pos_divide_le_eq)
  finally have "mag k (rnd (x / y))" using x(2) assms(3) by (intro rnd_mag) linarith+
  then show thesis using that x(1) assms(2) by (simp add: fdiv_Fin)
qed

lemma nonneg_fdiv:
  "nonneg a \<Longrightarrow> isfinite a \<Longrightarrow> 1 \<le> y \<Longrightarrow> fdiv a (Fin y) = Inr z \<Longrightarrow> nonneg z"
  by (rule fdiv_nonneg [of a "Fin y"]) simp_all

text \<open>A positive number that is not tiny stays positive under a factor of at least one half.\<close>

lemma fmul_keeps_positive:
  assumes "1 / 2 ^ j \<le> a" "1 / 2 \<le> b" "j \<le> 1000"
  shows "fpos (fmul (Fin a) (Fin b))"
proof -
  have d: "is_double (2 powi (- int (Suc j)))"
    using assms(3) by (intro is_doubleI [of _ 1 "- int (Suc j)"]) simp_all
  have "1 / 2 ^ j * (1 / 2) \<le> a * b"
    using assms(1,2) by (intro mult_mono) (auto intro: order_trans [of 0 "1 / 2 ^ j"])
  then have "2 powi (- int (Suc j)) \<le> a * b" by (simp only: power_int_minus power_int_of_nat) (simp add: field_simps)
  then have "fle (Fin (2 powi (- int (Suc j)))) (rnd (a * b))"
    using d by (intro double.lower_bound) (simp_all add: is_double_def)
  then show ?thesis by (auto intro: fless_le_trans [rotated])
qed

section \<open>Ordinary prices and amounts\<close>

fun fair_price :: "pyfloat \<Rightarrow> bool" where
  "fair_price (Fin a) = (1 / 2 ^ 64 \<le> a \<and> a \<le> 2 ^ 64)"
| "fair_price x = False"

fun up_to :: "rat \<Rightarrow> pyfloat \<Rightarrow> bool" where
  "up_to b (Fin a) = (0 \<le> a \<and> a \<le> b)"
| "up_to b x = False"

lemma fair_price_mag: "fair_price x \<Longrightarrow> mag 64 x"
  by (cases x) (auto intro: order_trans [of 0 "1 / 2 ^ 64"])

lemma up_to_mag: "up_to (2 ^ k) x \<Longrightarrow> mag k x"
  by (cases x) auto

lemma up_to_nonneg: "up_to b x \<Longrightarrow> nonneg x"
  by (cases x) auto

lemma pos_not_nonpos: "fpos x \<Longrightarrow> \<not> nonpos x"
  by (cases x) auto

lemma nonneg_not_neg: "nonneg x \<Longrightarrow> \<not> fneg_lt x"
  by (cases x) auto

lemma fair_price_pos: "fair_price x \<Longrightarrow> \<not> nonpos x"
proof (cases x)
  case (Fin a)
  assume "fair_price x"
  moreover have "(0::rat) < 1 / 2 ^ 64" by simp
  ultimately show ?thesis using Fin by (simp only: fair_price.simps fle_Fin not_le) linarith
qed simp_all

lemma scaled_bps:
  assumes "up_to b x" "b / 10000 = d" "rnd d = Fin d"
  obtains r where "fdiv x (Fin 10000) = Inr (Fin r)" "0 \<le> r" "r \<le> d"
proof -
  obtain a where a: "x = Fin a" "0 \<le> a" "a \<le> b" using assms(1) by (cases x) auto
  then have "0 \<le> a / 10000" "a / 10000 \<le> d" using assms(2) by (simp_all add: divide_right_mono flip: assms(2))
  then obtain y where "rnd (a / 10000) = Fin y" "0 \<le> y" "y \<le> d"
    using double.between_finite [OF rnd_zero assms(3)] by metis
  then show thesis using that a(1) by (simp add: fdiv_Fin)
qed

lemma half_double: "rnd (1 / 2) = Fin (1 / 2)"
  using is_doubleI [of "1 / 2" 1 "- 1"] by (simp add: is_double_def power_int_def)

end
