(* ===== verification/BrokerContract.thy ===== *)
theory BrokerContract
  imports OrderProperties Magnitude
begin

text \<open>
  What \<open>execution/adapters/base.py\<close> asks of an adapter ("authoritative state" of the order asked
  for), as the locale \<open>sound_broker\<close>, and what the execution engine guarantees on top of it: the
  orders it holds belong to their identifiers, satisfy the snapshot contract and are never
  overfilled. \<open>prompt_broker\<close> adds that a fresh order is answered with a state the order state
  machine allows after \<open>SUBMITTING\<close> and that the positions can be read; then \<open>submit\<close> never raises, when the
  audit store (if there is one) takes every record and the clock does not run backwards between its two
  readings.
\<close>

definition sound_snapshot :: "string \<Rightarrow> OrderSnapshot \<Rightarrow> bool" where
  "sound_snapshot cid snap = (os_client_order_id snap = cid \<and> snapshot_contract snap = Inr () \<and>
     \<not> fless (os_requested_quantity snap) (os_filled_quantity snap))"

definition own_orders :: "('b, 'a) engine \<Rightarrow> bool" where
  "own_orders s \<longleftrightarrow> (\<forall>cid snap. dict_get (en_orders s) cid = Some snap \<longrightarrow> sound_snapshot cid snap)"

lemma own_orders_update [simp]:
  "own_orders (s\<lparr>en_events := es\<rparr>) = own_orders s" "own_orders (s\<lparr>en_broker := b\<rparr>) = own_orders s"
  "own_orders (s\<lparr>en_audit := a\<rparr>) = own_orders s" "own_orders (s\<lparr>en_requests := rs\<rparr>) = own_orders s"
  "own_orders (s\<lparr>en_fills := fs\<rparr>) = own_orders s" "own_orders (s\<lparr>en_states := sts\<rparr>) = own_orders s"
  "own_orders (s\<lparr>en_now_reads := n\<rparr>) = own_orders s" "own_orders (s\<lparr>en_perf_reads := n\<rparr>) = own_orders s"
  by (simp_all add: own_orders_def)

locale sound_broker =
  fixes br :: "'b broker" and good :: "'b \<Rightarrow> bool" and legal :: "OrderRequest \<Rightarrow> bool"
  assumes submit_good: "good b \<Longrightarrow> legal r \<Longrightarrow> good (snd (br_submit br r b))"
    and get_good: "good b \<Longrightarrow> good (snd (br_get_order br cid b))"
    and cancel_good: "good b \<Longrightarrow> good (snd (br_cancel br cid b))"
    and positions_good: "good b \<Longrightarrow> good (snd (br_positions br b))"
    and submit_reply: "good b \<Longrightarrow> legal r \<Longrightarrow> br_submit br r b = (Inr snap, b') \<Longrightarrow>
          \<not> fless (os_requested_quantity snap) (os_filled_quantity snap)"
    and get_reply: "good b \<Longrightarrow> br_get_order br cid b = (Inr (Some snap), b') \<Longrightarrow> sound_snapshot cid snap"
    and cancel_reply: "good b \<Longrightarrow> br_cancel br cid b = (Inr snap, b') \<Longrightarrow> sound_snapshot cid snap"
begin

abbreviation sound :: "('b, 'a) engine \<Rightarrow> bool" where
  "sound s \<equiv> good (en_broker s) \<and> own_orders s"

lemma keeps_books:
  "keeps sound (set_fills cid snap)" "keeps sound (set_state cid st)" "keeps sound (read_now w)"
  "keeps sound (read_perf w)" "keeps sound (on_audit m)"
  "keeps sound (amod (\<lambda>s. if b s then s\<lparr>en_requests := g s\<rparr> else s))"
  "keeps sound (amod (\<lambda>s. s\<lparr>en_events := h s\<rparr>))"
  by (auto simp: keeps_def set_fills_def set_state_def read_now_def read_perf_def on_audit_def
      apart_def split: prod.splits)

lemma keeps_set_order: "sound_snapshot cid snap \<Longrightarrow> keeps sound (set_order cid snap)"
  by (auto simp: keeps_def own_orders_def set_order_def)

lemma keeps_on_broker: "keeps good m \<Longrightarrow> keeps sound (on_broker m)"
proof (rule keepsI)
  fix s
  assume "keeps good m" "sound s"
  then have "good (snd (m (en_broker s)))" by (blast dest: keepsD)
  then show "sound (snd (on_broker m s))"
    using \<open>sound s\<close> by (cases "m (en_broker s)") (simp add: on_broker_def apart_def)
qed

lemma keeps_calls:
  "legal r \<Longrightarrow> keeps sound (on_broker (br_submit br r))" "keeps sound (on_broker (br_get_order br cid))"
  "keeps sound (on_broker (br_cancel br cid))" "keeps sound (on_broker (br_positions br))"
  by (rule keeps_on_broker, rule keepsI, blast intro: submit_good get_good cancel_good positions_good)+

text \<open>What the broker reports, inside the engine.\<close>

lemma reported:
  "sound s \<Longrightarrow> on_broker (br_get_order br cid) s = (Inr (Some snap), t) \<Longrightarrow> sound_snapshot cid snap"
  "sound s \<Longrightarrow> on_broker (br_cancel br cid) s = (Inr snap, t) \<Longrightarrow> sound_snapshot cid snap"
  by (auto simp: on_broker_def apart_def split: prod.splits dest: get_reply cancel_reply)

lemma held: "sound s \<Longrightarrow> dict_get (en_orders s) cid = Some snap \<Longrightarrow> sound_snapshot cid snap"
  by (simp add: own_orders_def)

lemma keeps_branches:
  "(v = None \<Longrightarrow> keeps I m) \<Longrightarrow> (\<And>x. v = Some x \<Longrightarrow> keeps I (f x))
     \<Longrightarrow> keeps I (case v of None \<Rightarrow> m | Some x \<Rightarrow> f x)"
  "(b \<Longrightarrow> keeps I m) \<Longrightarrow> (\<not> b \<Longrightarrow> keeps I n) \<Longrightarrow> keeps I (if b then m else n)"
  by (simp_all split: option.splits)

lemma keeps_transition: "keeps sound (engine_transition w cid target reason)"
  unfolding engine_transition_def when_audit_def
  by (intro inv_intros keeps_books keeps_branches) (auto intro!: inv_intros keeps_books split: prod.splits)

lemmas keeps_parts = keeps_books keeps_calls keeps_transition

lemma keeps_audit_submission: "keeps sound (audit_submission w r snap)" if "w_broker w = br"
  unfolding audit_submission_def that by (intro inv_intros keeps_parts)

lemma lost_order_sound:
  assumes "sound_snapshot cid p" "lost_order w p why s = (Inr snap, t)"
  shows "sound_snapshot cid snap"
proof -
  have snap: "snap = p\<lparr>os_status := UNKNOWN, os_reason := why, os_updated_at := w_now w (en_now_reads s)\<rparr>"
    and "\<not> fneg_lt (os_filled_quantity snap)"
    using assms(2) by (auto simp: lost_order_def abind_run read_now_def make_order_snapshot_def first_error_Inr
        simp del: first_error.simps)
  then show ?thesis using assms(1) by (simp add: sound_snapshot_def snapshot_contract_def)
qed

lemma keeps_lost_order: "keeps sound (lost_order w p why)"
  unfolding lost_order_def by (intro inv_intros keeps_parts)

lemma keeps_lost:
  assumes "sound_snapshot cid p" and "\<And>snap. sound_snapshot cid snap \<Longrightarrow> keeps sound (f snap)"
  shows "keeps sound (abind (lost_order w p why) f)"
  using lost_order_sound [OF assms(1)] assms(2) by (blast intro: keeps_abind_result keeps_lost_order)

lemma keeps_get:
  assumes "keeps sound m" and "\<And>snap. sound_snapshot cid snap \<Longrightarrow> keeps sound (f snap)"
  shows "keeps sound (abind (on_broker (br_get_order br cid)) (case_option m f))"
proof (rule keeps_abind_result [OF keeps_calls(2)])
  fix reply s t
  assume "sound s" "on_broker (br_get_order br cid) s = (Inr reply, t)"
  then show "keeps sound (case_option m f reply)" using assms reported(1) by (cases reply; simp only: option.case) blast+
qed

lemma keeps_held:
  assumes "keeps sound m" and "\<And>p. sound_snapshot cid p \<Longrightarrow> keeps sound (f p)"
  shows "keeps sound (abind (aget (\<lambda>s. dict_get (en_orders s) cid)) (case_option m f))"
proof (rule keeps_aget_result)
  fix s
  assume "sound s"
  then show "keeps sound (case_option m f (dict_get (en_orders s) cid))"
    using assms held by (cases "dict_get (en_orders s) cid") auto
qed

lemma keeps_cancelled:
  assumes "\<And>snap. sound_snapshot cid snap \<Longrightarrow> keeps sound (f snap)"
  shows "keeps sound (abind (on_broker (br_cancel br cid)) f)"
  using assms reported(2) by (blast intro: keeps_abind_result keeps_calls)

lemmas keeps_rules = keeps_if keeps_pure keeps_get keeps_held keeps_lost keeps_cancelled keeps_set_order
  keeps_parts keeps_audit_submission keeps_athen

lemma keeps_refresh: "keeps sound (engine_refresh w cid)" if "w_broker w = br"
  unfolding engine_refresh_def that
  by (intro keeps_rules keeps_abind [OF keeps_pure(3)] keeps_option; assumption)

lemma keeps_cancel: "keeps sound (engine_cancel w cid)" if "w_broker w = br"
  unfolding engine_cancel_def that by (intro keeps_rules; assumption)

lemma keeps_recover: "keeps sound (engine_recover_unknown w cid)" if "w_broker w = br"
  unfolding engine_recover_unknown_def that by (intro keeps_rules; assumption)

lemma keeps_reconcile:
  "keeps sound (engine_reconcile_order w cid)" "keeps sound (engine_reconcile_positions w ps)" if "w_broker w = br"
  unfolding engine_reconcile_order_def engine_reconcile_positions_def that by (intro inv_intros keeps_parts)+

lemma keeps_rehydrate_one: "keeps sound (rehydrate_one w cid recovered)" if "w_broker w = br"
proof -
  let ?rest = "\<lambda>found. case found of None \<Rightarrow> aret recovered
    | Some snap \<Rightarrow> athen (alift (snapshot_contract snap))
             (athen (set_order cid snap) (athen (set_fills cid snap)
             (athen (set_state cid (os_status snap)) (aret (dict_set cid snap recovered)))))"
  have found: "keeps sound (?rest (Some snap))" if "sound_snapshot cid snap" for snap
    using that unfolding option.case by (intro keeps_rules)
  have lost: "keeps sound (abind (case v of None \<Rightarrow> aret None
      | Some p \<Rightarrow> abind (lost_order w (p\<lparr>os_client_order_id := cid\<rparr>) why) (\<lambda>snap. aret (Some snap))) ?rest)"
    if "\<And>p. v = Some p \<Longrightarrow> sound_snapshot cid p" for v why
  proof (cases v)
    case None
    show ?thesis unfolding None option.case abind_aret by (rule keeps_pure)
  next
    case (Some p)
    have "p\<lparr>os_client_order_id := cid\<rparr> = p"
      using that [OF Some] by (cases p) (simp add: sound_snapshot_def)
    then have "sound_snapshot cid (p\<lparr>os_client_order_id := cid\<rparr>)" using that [OF Some] by simp
    then show ?thesis
      unfolding Some option.case(2) abind_assoc abind_aret by (rule keeps_lost) (rule found [unfolded option.case])
  qed
  show ?thesis
    unfolding rehydrate_one_def that
  proof (rule keeps_if, rule keeps_pure, rule keeps_abind_result [OF keeps_calls(2)])
    fix reply s t
    assume r: "sound s" "on_broker (br_get_order br cid) s = (Inr reply, t)"
    show "keeps sound (abind (case reply of Some snap \<Rightarrow> aret (Some snap)
         | None \<Rightarrow> abind (aget (\<lambda>s. dict_get (en_orders s) cid)) (\<lambda>prior. case prior of
             None \<Rightarrow> aret None
           | Some p \<Rightarrow> abind (lost_order w (p\<lparr>os_client_order_id := cid\<rparr>)
               ''broker returned no order state during rehydration'') (\<lambda>snap. aret (Some snap)))) ?rest)"
    proof (cases reply)
      case None
      show ?thesis unfolding None option.case(1) abind_assoc
        by (rule keeps_aget_result, rule lost) (rule held)
    next
      case (Some snap)
      have "sound_snapshot cid snap" using r unfolding Some by (rule reported(1))
      from found [OF this] show ?thesis by (simp only: Some option.case abind_aret)
    qed
  qed
qed

lemma keeps_rehydrate: "keeps sound (engine_rehydrate w cids)" if "w_broker w = br"
proof -
  have "keeps sound (rehydrate_loop w cids r)" for r
    using keeps_rehydrate_one [OF that]
    by (induction cids arbitrary: r) (auto intro: keeps_pure keeps_abind)
  then show ?thesis by (simp add: engine_rehydrate_def)
qed

lemma unknown_sound:
  assumes "make_order_snapshot s = Inr snap" "os_status s = UNKNOWN" "os_filled_quantity s = Fin 0"
  shows "sound_snapshot (os_client_order_id s) snap"
proof -
  have "snap = s" "isfinite (os_requested_quantity s)" "\<not> nonpos (os_requested_quantity s)"
    using assms(1) by (auto simp: make_order_snapshot_def first_error_Inr simp del: first_error.simps)
  then show ?thesis using assms(2,3) finite_nonpos [of "os_requested_quantity s"]
    by (cases "os_requested_quantity s") (auto simp: sound_snapshot_def snapshot_contract_def)
qed

lemma keeps_submission_failed: "keeps sound (submission_failed w r start e)"
  unfolding submission_failed_def Let_def
proof (rule keeps_abind [OF keeps_books(3)], rule keeps_alift_result)
  fix t snap
  assume "make_order_snapshot \<lparr>os_broker_order_id = ''UNKNOWN:'' @ or_client_order_id r,
        os_client_order_id = or_client_order_id r, os_status = UNKNOWN, os_requested_quantity = or_quantity r,
        os_filled_quantity = Fin 0, os_average_fill_price = None,
        os_reason = ''broker submission exception: '' @ exc_text e,
        os_latency_ms = None, os_updated_at = t, os_fills = []\<rparr> = Inr snap"
  from unknown_sound [OF this] have "sound_snapshot (or_client_order_id r) snap" by simp
  then show "keeps sound (abind (read_perf w) (\<lambda>stop.
     athen (engine_transition w (or_client_order_id r) UNKNOWN (''broker submission exception: '' @ exc_text e))
    (athen (set_order (or_client_order_id r) snap)
     (aret \<lparr>xr_request = r, xr_snapshot = snap, xr_accepted = False,
        xr_latency_ms = elapsed_ms start stop, xr_error = Some (exc_text e)\<rparr>))))"
    by (intro keeps_abind keeps_rules)
qed

lemma keeps_submission_answered:
  fixes w :: "('b, 'a) world"
  assumes "w_broker w = br" "\<not> fless (os_requested_quantity reply) (os_filled_quantity reply)"
  shows "keeps sound (submission_answered w r start reply)"
proof -
  have store: "keeps sound (athen (engine_transition w (or_client_order_id r) st why)
       (athen (set_order (or_client_order_id r) snap) (athen (set_fills (or_client_order_id r) snap)
       (athen (audit_submission w r snap) (aret x)))))"
    if "sound_snapshot (or_client_order_id r) snap" for st why snap x
    using that assms(1) by (intro keeps_rules)
  show ?thesis
    unfolding submission_answered_def Let_def
  proof (intro keeps_abind [OF keeps_books(4)] keeps_branches keeps_pure)
    fix stop
    assume id: "\<not> os_client_order_id reply \<noteq> or_client_order_id r"
    show "keeps sound (athen (alift (snapshot_contract reply)) (abind (if os_latency_ms reply = None
           then alift (make_order_snapshot (reply\<lparr>os_latency_ms := Some (elapsed_ms start stop)\<rparr>)) else aret reply) (\<lambda>snap.
        athen (engine_transition w (or_client_order_id r) (os_status snap)
            (or_text (os_reason snap) ''broker acknowledged order''))
       (athen (set_order (or_client_order_id r) snap)
       (athen (set_fills (or_client_order_id r) snap)
       (athen (audit_submission w r snap)
        (aret \<lparr>xr_request = r, xr_snapshot = snap,
           xr_accepted = (os_status snap \<notin> {REJECTED_BROKER, FAILED}), xr_latency_ms = elapsed_ms start stop,
           xr_error = (if os_reason snap = [] then None else Some (os_reason snap))\<rparr>)))))))"
      unfolding athen_def [of "alift (snapshot_contract reply)"]
    proof (rule keeps_alift_result, rule keeps_abind_result)
      fix u snap and s t :: "('b, 'a) engine"
      assume c: "snapshot_contract reply = Inr u"
        and "(if os_latency_ms reply = None
           then alift (make_order_snapshot (reply\<lparr>os_latency_ms := Some (elapsed_ms start stop)\<rparr>))
           else aret reply) s = (Inr snap, t)"
      then have "snap = reply \<or> snap = reply\<lparr>os_latency_ms := Some (elapsed_ms start stop)\<rparr>"
        by (auto split: if_splits dest: make_order_snapshot_eq)
      then show "keeps sound (athen (engine_transition w (or_client_order_id r) (os_status snap)
            (or_text (os_reason snap) ''broker acknowledged order''))
       (athen (set_order (or_client_order_id r) snap)
       (athen (set_fills (or_client_order_id r) snap)
       (athen (audit_submission w r snap)
        (aret \<lparr>xr_request = r, xr_snapshot = snap,
           xr_accepted = (os_status snap \<notin> {REJECTED_BROKER, FAILED}), xr_latency_ms = elapsed_ms start stop,
           xr_error = (if os_reason snap = [] then None else Some (os_reason snap))\<rparr>)))))"
        using id c assms(2) by (intro store) (auto simp: sound_snapshot_def snapshot_contract_latency)
    qed (auto intro: keeps_pure)
  qed
qed

lemma keeps_submit:
  fixes w :: "('b, 'a) world"
  assumes "w_broker w = br" "legal r"
  shows "keeps sound (engine_submit w r)"
  unfolding engine_submit_def Let_def assms(1)
  by (intro keeps_athen keeps_pure keeps_books keeps_held keeps_transition
    keeps_abind [OF keeps_books(4)] keeps_atry_result keeps_calls(1) assms keeps_submission_failed
    keeps_submission_answered)
    (use submit_reply assms(2) in \<open>auto simp: on_broker_def apart_def split: prod.splits\<close>)

lemma run_sound: "keeps sound m \<Longrightarrow> sound s \<Longrightarrow> sound (snd (m s))"
  by (rule keepsD)

lemma keeps_step:
  assumes "w_broker w = br" "sound s" "\<forall>r. c = Submit r \<longrightarrow> legal r"
  shows "sound (engine_step w s c)"
proof -
  have "sound (snd (engine_submit w r s))" if "legal r" for r
    by (rule run_sound [OF keeps_submit [OF assms(1) that] assms(2)])
  moreover have "sound (snd (engine_refresh w cid s))" "sound (snd (engine_recover_unknown w cid s))"
      "sound (snd (engine_rehydrate w cids s))" "sound (snd (engine_reconcile_order w cid s))"
      "sound (snd (engine_cancel w cid s))" "sound (snd (engine_reconcile_positions w ps s))" for cid cids ps
    by (rule run_sound [OF _ assms(2)], rule keeps_refresh keeps_recover keeps_rehydrate keeps_reconcile keeps_cancel,
      rule assms(1))+
  ultimately show ?thesis using assms(3) by (cases c) simp_all
qed

end

section \<open>Submissions that return\<close>

text \<open>What an audit store that takes every record does to the engine.\<close>

definition audit_only :: "(('b, 'a) engine, unit) act \<Rightarrow> bool" where
  "audit_only m \<longleftrightarrow> (\<forall>s. \<exists>a. m s = (Inr (), s\<lparr>en_audit := a\<rparr>))"

lemma audit_only_aret: "audit_only (aret () :: (('b, 'a) engine, unit) act)"
  unfolding audit_only_def
proof
  fix s :: "('b, 'a) engine"
  show "\<exists>a. aret () s = (Inr (), s\<lparr>en_audit := a\<rparr>)" by (intro exI [of _ "en_audit s"]) simp
qed

lemma audit_only_call: "(\<And>a. fst (m a) = Inr ()) \<Longrightarrow> audit_only (on_audit m)"
  unfolding audit_only_def on_audit_def apart_def by (auto split: prod.splits) (metis fst_conv)

lemma audit_only_then: "audit_only m \<Longrightarrow> audit_only n \<Longrightarrow> audit_only (athen m n :: (('b, 'a) engine, unit) act)"
  unfolding audit_only_def
proof
  fix s :: "('b, 'a) engine"
  assume m: "\<forall>s. \<exists>a. m s = (Inr (), s\<lparr>en_audit := a\<rparr>)" and n: "\<forall>s. \<exists>a. n s = (Inr (), s\<lparr>en_audit := a\<rparr>)"
  obtain a where a: "m s = (Inr (), s\<lparr>en_audit := a\<rparr>)" using m by blast
  obtain a' where "n (s\<lparr>en_audit := a\<rparr>) = (Inr (), s\<lparr>en_audit := a\<rparr>\<lparr>en_audit := a'\<rparr>)" using n by blast
  then show "\<exists>a. athen m n s = (Inr (), s\<lparr>en_audit := a\<rparr>)"
    using a by (intro exI [of _ a']) (simp add: athen_run)
qed

lemma audit_only_foreach: "(\<And>x. audit_only (f x)) \<Longrightarrow> audit_only (aforeach xs f)"
  by (induction xs) (simp_all add: audit_only_aret audit_only_then)

lemma audit_submission_returns:
  assumes "records_all w" "br_positions (w_broker w) (en_broker s) = (Inr ps, b)"
  shows "fst (audit_submission w r snap s) = Inr () \<and> en_states (snd (audit_submission w r snap s)) = en_states s"
proof (cases "w_audit w")
  case None
  then show ?thesis by (simp add: audit_submission_def when_audit_def)
next
  case (Some au)
  have only: "audit_only (on_audit (au_order au r snap))"
    "audit_only (aforeach (os_fills snap) (\<lambda>f. on_audit (au_fill au f (or_decision_id r) (or_purpose r))))"
    "audit_only (aforeach ps (\<lambda>p. if ps_symbol p = or_symbol r
         then on_audit (au_position au p (or_client_order_id r) (or_decision_id r) (or_purpose r) (os_updated_at snap))
         else aret ()))"
    using assms(1) Some by (auto simp: records_all_def intro!: audit_only_call audit_only_foreach audit_only_aret)
  obtain a where a: "athen (on_audit (au_order au r snap))
      (aforeach (os_fills snap) (\<lambda>f. on_audit (au_fill au f (or_decision_id r) (or_purpose r)))) s = (Inr (), s\<lparr>en_audit := a\<rparr>)"
    using audit_only_then [OF only(1,2)] unfolding audit_only_def by blast
  define s1 where "s1 = s\<lparr>en_audit := a, en_broker := b\<rparr>"
  have read: "on_broker (br_positions (w_broker w)) (s\<lparr>en_audit := a\<rparr>) = (Inr ps, s1)"
    using assms(2) by (simp add: on_broker_def apart_def s1_def)
  obtain a' where a': "aforeach ps (\<lambda>p. if ps_symbol p = or_symbol r
         then on_audit (au_position au p (or_client_order_id r) (or_decision_id r) (or_purpose r) (os_updated_at snap))
         else aret ()) s1 = (Inr (), s1\<lparr>en_audit := a'\<rparr>)"
    using only(3) unfolding audit_only_def by blast
  have "audit_submission w r snap s = athen (athen (on_audit (au_order au r snap))
      (aforeach (os_fills snap) (\<lambda>f. on_audit (au_fill au f (or_decision_id r) (or_purpose r)))))
      (abind (on_broker (br_positions (w_broker w))) (\<lambda>ps. aforeach ps (\<lambda>p. if ps_symbol p = or_symbol r
         then on_audit (au_position au p (or_client_order_id r) (or_decision_id r) (or_purpose r) (os_updated_at snap))
         else aret ()))) s"
    unfolding audit_submission_def when_audit_def Some option.case
    by (simp add: athen_run split: prod.split sum.split)
  also have "\<dots> = (Inr (), s1\<lparr>en_audit := a'\<rparr>)"
    unfolding athen_run [of "athen _ _"] a prod.case sum.case abind_run read by (rule a')
  finally show ?thesis by (simp add: s1_def)
qed

text \<open>The two readings of the performance counter around the call of the adapter: finite, not too large
  and in order.\<close>

definition steady_clock :: "('b, 'a) world \<Rightarrow> nat \<Rightarrow> bool" where
  "steady_clock w k \<longleftrightarrow> mag 64 (w_perf w k) \<and> mag 64 (w_perf w (Suc k)) \<and> fle (w_perf w k) (w_perf w (Suc k))"

lemma steady_latency:
  assumes "steady_clock w k"
  shows "isfinite (elapsed_ms (w_perf w k) (w_perf w (Suc k)))" "\<not> fneg_lt (elapsed_ms (w_perf w k) (w_perf w (Suc k)))"
proof -
  have m: "mag 64 (w_perf w k)" "mag 64 (w_perf w (Suc k))" "fle (w_perf w k) (w_perf w (Suc k))"
    using assms by (simp_all add: steady_clock_def)
  have d: "mag 65 (fsub (w_perf w (Suc k)) (w_perf w k))" by (rule mag_fsub [OF m(2,1)]) simp_all
  have "mag 75 (elapsed_ms (w_perf w k) (w_perf w (Suc k)))"
    unfolding elapsed_ms_def by (rule mag_fmul [OF d, of 10]) (simp_all add: mag_iff)
  then show "isfinite (elapsed_ms (w_perf w k) (w_perf w (Suc k)))" by (rule mag_finite)
  have "nonneg (elapsed_ms (w_perf w k) (w_perf w (Suc k)))"
    unfolding elapsed_ms_def
    by (rule fmul_nonneg [OF fsub_nonneg [OF m(3) mag_finite [OF m(2)] mag_finite [OF m(1)]]]) (use mag_finite [OF d] in simp_all)
  then show "\<not> fneg_lt (elapsed_ms (w_perf w k) (w_perf w (Suc k)))" by (rule nonneg_not_neg)
qed

lemma answered_returns:
  assumes "records_all w" "\<forall>n. aware (w_now w n)" "steady_clock w k" "en_perf_reads s = Suc k"
    and "br_positions (w_broker w) (en_broker s) = (Inr ps, b)"
    and "dict_get (en_states s) (or_client_order_id r) = Some SUBMITTING"
    and "consistent_reply r snap" "os_status snap \<in> {FILLED, PARTIALLY_FILLED}" "os_latency_ms snap = None"
    and "make_order_snapshot snap = Inr snap"
  shows "\<exists>x t. submission_answered w r (w_perf w k) snap s = (Inr x, t) \<and>
    dict_get (en_states t) (or_client_order_id r) = Some (os_status (xr_snapshot x)) \<and> xr_accepted x \<and>
    os_status (xr_snapshot x) = os_status snap \<and> consistent_reply r (xr_snapshot x)"
proof -
  let ?cid = "or_client_order_id r"
  define l where "l = elapsed_ms (w_perf w k) (w_perf w (Suc k))"
  define final where "final = snap\<lparr>os_latency_ms := Some l\<rparr>"
  have made: "make_order_snapshot (snap\<lparr>os_latency_ms := Some l\<rparr>) = Inr final"
    using assms(10) steady_latency [OF assms(3)]
    by (simp add: l_def final_def make_order_snapshot_def first_error_Inr del: first_error.simps)
  have final: "os_status final = os_status snap" "os_reason final = os_reason snap" "consistent_reply r final"
    using assms(7) by (simp_all add: final_def consistent_reply_def snapshot_contract_latency)
  define s1 where "s1 = s\<lparr>en_perf_reads := Suc (Suc k)\<rparr>"
  have "dict_get (en_states s1) ?cid = Some SUBMITTING" using assms(6) by (simp add: s1_def)
  then obtain res e a where one: "engine_transition w ?cid (os_status snap) (or_text (os_reason snap) ''broker acknowledged order'') s1 =
      (res, s1\<lparr>en_audit := a, en_states := dict_set ?cid (os_status snap) (en_states s1), en_events := en_events s1 @ [e],
        en_now_reads := Suc (en_now_reads s1)\<rparr>)" "res = Inr ()"
    using transition_run [OF assms(2), of s1 ?cid "os_status snap" "or_text (os_reason snap) ''broker acknowledged order''"]
      assms(1,8) by (fastforce simp: records_all_def)
  define s2 where "s2 = s1\<lparr>en_audit := a, en_states := dict_set ?cid (os_status snap) (en_states s1),
    en_events := en_events s1 @ [e], en_now_reads := Suc (en_now_reads s1),
    en_orders := dict_set ?cid final (en_orders s1), en_fills := dict_set ?cid (os_fills final) (en_fills s1)\<rparr>"
  have "br_positions (w_broker w) (en_broker s2) = (Inr ps, b)" using assms(5) by (simp add: s2_def s1_def)
  note audit = audit_submission_returns [OF assms(1) this, of r final]
  obtain t where t: "audit_submission w r final s2 = (Inr (), t)" "en_states t = en_states s2"
    using audit by (cases "audit_submission w r final s2") auto
  have "submission_answered w r (w_perf w k) snap s = (Inr \<lparr>xr_request = r, xr_snapshot = final,
      xr_accepted = (os_status final \<notin> {REJECTED_BROKER, FAILED}), xr_latency_ms = l,
      xr_error = (if os_reason final = [] then None else Some (os_reason final))\<rparr>, t)"
    using assms(4,7,9) made one t(1) final(1,2)
    by (simp add: submission_answered_def Let_def athen_run abind_run read_perf_def consistent_reply_def
        l_def [symmetric] s1_def [symmetric] set_order_def set_fills_def s2_def)
  then show ?thesis using final t(2) assms(8) by (auto simp: s2_def)
qed

text \<open>An adapter that answers a fresh order with a consistent snapshot and reports its positions.\<close>

locale prompt_broker = sound_broker br good legal
  for br :: "'b broker" and good legal +
  fixes knows :: "'b \<Rightarrow> string \<Rightarrow> bool"
  assumes prompt_reply: "good b \<Longrightarrow> legal r \<Longrightarrow> \<not> knows b (or_client_order_id r) \<Longrightarrow>
      br_submit br r b = (Inr snap, b') \<Longrightarrow>
      consistent_reply r snap \<and> os_status snap \<in> {FILLED, PARTIALLY_FILLED} \<and> os_latency_ms snap = None \<and>
      make_order_snapshot snap = Inr snap"
    and positions_reply: "good b \<Longrightarrow> \<exists>ps b'. br_positions br b = (Inr ps, b')"
begin

lemma submit_returns:
  assumes "w_broker w = br" "good (en_broker s)" "legal r" "engine_validate r = Inr ()"
    and "\<not> knows (en_broker s) (or_client_order_id r)" "\<not> blank (or_client_order_id r)"
    and "dict_get (en_orders s) (or_client_order_id r) = None"
    and "dict_get (en_states s) (or_client_order_id r) = None"
    and "records_all w" and "\<forall>n. aware (w_now w n)" and "steady_clock w (en_perf_reads s)"
  shows "\<exists>x t. engine_submit w r s = (Inr x, t) \<and>
    dict_get (en_states t) (or_client_order_id r) = Some (os_status (xr_snapshot x)) \<and>
    (if xr_accepted x then os_status (xr_snapshot x) \<in> {FILLED, PARTIALLY_FILLED} \<and> consistent_reply r (xr_snapshot x)
     else os_status (xr_snapshot x) = UNKNOWN)"
proof -
  have events: "records_events w" using assms(9) by (simp add: records_all_def)
  obtain reply b where reply: "br_submit br r (en_broker s) = (reply, b)" by (cases "br_submit br r (en_broker s)")
  show ?thesis
  proof (cases reply)
    case (Inl e)
    have down: "br_submit (w_broker w) r (en_broker s) = (Inl e, b)" using reply Inl assms(1) by simp
    show ?thesis
    proof (rule raising_adapter [OF assms(4,6-8,10) down])
      fix e' t
      assume "\<not> records_events w"
      then show ?thesis using events by blast
    next
      fix res t
      assume u: "engine_submit w r s = (res, t)" "dict_get (en_states t) (or_client_order_id r) = Some UNKNOWN"
        "records_events w \<Longrightarrow> \<exists>x. res = Inr x" "\<And>x. res = Inr x \<Longrightarrow> \<not> xr_accepted x \<and>
         os_status (xr_snapshot x) = UNKNOWN \<and> dict_get (en_orders t) (or_client_order_id r) = Some (xr_snapshot x)"
      obtain x where x: "res = Inr x" using u(3) events by blast
      show ?thesis using u(1,2) u(4) [OF x] x by auto
    qed
  next
    case (Inr snap)
    have p: "consistent_reply r snap" "os_status snap \<in> {FILLED, PARTIALLY_FILLED}" "os_latency_ms snap = None"
        "make_order_snapshot snap = Inr snap"
      using prompt_reply [OF assms(2,3,5)] reply Inr by auto
    have "good b" using submit_good [OF assms(2,3)] reply by simp
    then obtain ps b' where ps: "br_positions (w_broker w) b = (Inr ps, b')"
      using positions_reply [of b] assms(1) by auto
    show ?thesis
    proof (rule fresh_submission [OF assms(4,7,8,10)])
      fix e t
      assume "\<not> records_events w"
      then show ?thesis using events by blast
    next
      fix t
      assume t: "engine_submit w r s = atry (on_broker (br_submit (w_broker w) r))
        (submission_failed w r (w_perf w (en_perf_reads s))) (submission_answered w r (w_perf w (en_perf_reads s))) t"
        "en_broker t = en_broker s" "dict_get (en_states t) (or_client_order_id r) = Some SUBMITTING"
        "en_perf_reads t = Suc (en_perf_reads s)"
      define u where "u = t\<lparr>en_broker := b\<rparr>"
      have run: "engine_submit w r s = submission_answered w r (w_perf w (en_perf_reads s)) snap u"
        using t(1,2) reply Inr assms(1) by (simp add: atry_run on_broker_def apart_def u_def)
      have u: "en_perf_reads u = Suc (en_perf_reads s)" "br_positions (w_broker w) (en_broker u) = (Inr ps, b')"
        "dict_get (en_states u) (or_client_order_id r) = Some SUBMITTING"
        using t ps by (simp_all add: u_def)
      show ?thesis
        using answered_returns [OF assms(9-11) u(1-3) p] p(2) run by fastforce
    qed
  qed
qed

end

end
