(* ===== verification/PaperProperties.thy ===== *)
theory PaperProperties
  imports PaperBroker BrokerContract
begin

text \<open>
  The paper broker keeps exact books of whole shares, completes partial orders exactly, and is a
  sound broker (locale \<open>sound_broker\<close>): with it, the execution engine's orders always belong to
  their identifiers and satisfy the snapshot contract.
\<close>

section \<open>Positions are exact sums of fills\<close>

definition net :: "(string, PositionSnapshot) dict \<Rightarrow> string \<Rightarrow> pyfloat" where
  "net ps stock = (case dict_get ps stock of None \<Rightarrow> Fin 0 | Some p \<Rightarrow> ps_position p)"

fun apply_fills ::
  "(OrderRequest \<times> Fill) list \<Rightarrow> (string, PositionSnapshot) dict \<Rightarrow> (string, PositionSnapshot) dict res" where
  "apply_fills [] ps = Inr ps"
| "apply_fills ((r, f) # ts) ps = rbind (apply_fill r f ps) (apply_fills ts)"

definition shares :: "Fill \<Rightarrow> int" where
  "shares f = (case fl_quantity f of Fin a \<Rightarrow> \<lfloor>a\<rfloor> | _ \<Rightarrow> 0)"

definition signed_shares :: "OrderRequest \<times> Fill \<Rightarrow> int" where
  "signed_shares t = (if or_side (fst t) = BUY then shares (snd t) else - shares (snd t))"

text \<open>The bound on prices of the theorem below.\<close>

definition price_cap :: rat where
  "price_cap = 2 ^ 900"

definition price_ok :: "pyfloat \<Rightarrow> bool" where
  "price_ok p = (nonneg p \<and> fle p (Fin price_cap))"

definition whole_fill :: "OrderRequest \<times> Fill \<Rightarrow> bool" where
  "whole_fill t = (fl_quantity (snd t) = Fin (of_int (shares (snd t))) \<and> 0 < shares (snd t) \<and>
     price_ok (fl_price (snd t)) \<and> \<not> blank (or_symbol (fst t)))"

definition book_ok :: "int \<Rightarrow> (string, PositionSnapshot) dict \<Rightarrow> bool" where
  "book_ok n ps \<longleftrightarrow> (\<forall>stock p. dict_get ps stock = Some p \<longrightarrow>
     (\<exists>h. ps_position p = Fin (of_int h) \<and> \<bar>h\<bar> \<le> n) \<and> price_ok (ps_average_price p))"

lemma price_cap_nonneg [simp]: "0 \<le> price_cap"
  by (simp add: price_cap_def)

lemma price_ok_iff: "price_ok p \<longleftrightarrow> (\<exists>a. p = Fin a \<and> 0 \<le> a \<and> a \<le> price_cap)"
  by (cases p) (auto simp: price_ok_def)

text \<open>A bound that is a power of two survives the weighted average.\<close>

lemma shares_times_bound: "0 \<le> h \<Longrightarrow> h \<le> 2 ^ 53 \<Longrightarrow> rnd (of_int h * price_cap) = Fin (of_int h * price_cap)"
proof -
  assume "0 \<le> h" "h \<le> 2 ^ 53"
  moreover have "price_cap = 2 powi 900" by (simp add: price_cap_def power_int_def)
  ultimately have "is_double (of_int h * price_cap)" by (intro is_doubleI [of _ h 900]) simp_all
  then show ?thesis by (simp only: is_double_def)
qed

lemma value_of_shares:
  assumes "0 \<le> h" "h \<le> 2 ^ 53" "0 \<le> a" "a \<le> price_cap"
  obtains x where "rnd (of_int h * a) = Fin x" "0 \<le> x" "x \<le> of_int h * price_cap"
proof (rule double.between_finite [OF rnd_zero shares_times_bound [OF assms(1,2)]])
  show "0 \<le> of_int h * a" "of_int h * a \<le> of_int h * price_cap"
    using assms by (simp_all add: mult_left_mono)
qed (rule that)

lemma weighted_price:
  assumes "0 \<le> h" "0 < k" "h + k \<le> 2 ^ 53" "price_ok p" "price_ok q"
  obtains x where "fdiv (fadd (fmul (Fin (of_int h)) p) (fmul (Fin (of_int k)) q)) (Fin (of_int (h + k))) = Inr x"
    "price_ok x"
proof -
  obtain a b where a: "p = Fin a" "0 \<le> a" "a \<le> price_cap" and b: "q = Fin b" "0 \<le> b" "b \<le> price_cap"
    using assms(4,5) by (auto simp: price_ok_iff)
  have "h \<le> 2 ^ 53" "k \<le> 2 ^ 53" "0 \<le> k" "0 \<le> h + k" using assms(1-3) by linarith+
  then obtain x y where x: "rnd (of_int h * a) = Fin x" "0 \<le> x" "x \<le> of_int h * price_cap"
    and y: "rnd (of_int k * b) = Fin y" "0 \<le> y" "y \<le> of_int k * price_cap"
    using value_of_shares [of h a] value_of_shares [of k b] a b assms(1) by metis
  have "x + y \<le> of_int (h + k) * price_cap" using x(3) y(3) by (simp add: algebra_simps)
  then obtain z where z: "rnd (x + y) = Fin z" "0 \<le> z" "z \<le> of_int (h + k) * price_cap"
    using double.between_finite [OF rnd_zero shares_times_bound [OF \<open>0 \<le> h + k\<close> assms(3)], of "x + y"] x(2) y(2)
    by auto
  have "0 < (of_int (h + k) :: rat)" using assms(1,2) by simp
  then have "0 \<le> z / of_int (h + k)" "z / of_int (h + k) \<le> price_cap"
    using z(2,3) by (simp_all only: divide_le_eq mult.commute zero_le_divide_iff less_imp_le if_True simp_thms)
  then obtain u where "rnd (z / of_int (h + k)) = Fin u" "0 \<le> u" "u \<le> price_cap"
    using double.between_finite [OF rnd_zero, of "price_cap" "z / of_int (h + k)"] shares_times_bound [of 1] by auto
  then show thesis
    using x(1) y(1) z(1) a(1) b(1) \<open>0 < of_int (h + k)\<close> that [of "Fin u"] by (simp add: fdiv_Fin price_ok_iff)
qed

lemma store_position:
  assumes "\<not> blank name" "price_ok price"
  obtains p where "make_position_snapshot \<lparr>ps_symbol = name, ps_position = Fin q, ps_average_price = price\<rparr> = Inr p"
    "ps_position p = Fin q" "ps_average_price p = price"
  using assms by (auto simp: make_position_snapshot_def price_ok_iff)

lemma book_ok_set:
  assumes "book_ok n ps" "ps_position p = Fin (of_int h)" "\<bar>h\<bar> \<le> m" "n \<le> m" "price_ok (ps_average_price p)"
  shows "book_ok m (dict_set name p ps)"
  using assms by (fastforce simp: book_ok_def)

lemma book_ok_pop: "book_ok n ps \<Longrightarrow> n \<le> m \<Longrightarrow> book_ok m (dict_pop name ps)"
  by (fastforce simp: book_ok_def)

lemma book_ok_net:
  "book_ok n ps \<Longrightarrow> net ps name = Fin (of_int h) \<Longrightarrow> 0 \<le> n \<Longrightarrow> \<bar>h\<bar> \<le> n"
  by (cases "dict_get ps name") (force simp: net_def book_ok_def)+

lemma apply_fill_exact:
  assumes "book_ok n ps" "0 \<le> n" "whole_fill (r, f)" "n + shares f \<le> 2 ^ 53"
    and "net ps (or_symbol r) = Fin (of_int h)"
  obtains ps' where "apply_fill r f ps = Inr ps'" "book_ok (n + shares f) ps'"
    "net ps' (or_symbol r) = Fin (of_int (h + signed_shares (r, f)))"
    "\<And>stock. stock \<noteq> or_symbol r \<Longrightarrow> net ps' stock = net ps stock"
proof -
  note result = that
  define k where "k = shares f"
  define d where "d = signed_shares (r, f)"
  define held where "held = (case dict_get ps (or_symbol r) of None \<Rightarrow> Fin 0 | Some p \<Rightarrow> ps_position p)"
  define price where "price = (case dict_get ps (or_symbol r) of None \<Rightarrow> Fin 0 | Some p \<Rightarrow> ps_average_price p)"
  have q: "fl_quantity f = Fin (of_int k)" "0 < k" "price_ok (fl_price f)" "\<not> blank (or_symbol r)"
    using assms(3) by (simp_all add: whole_fill_def k_def)
  have d: "signed_quantity (or_side r) (fl_quantity f) = Fin (of_int d)" "\<bar>d\<bar> = k" "d \<noteq> 0"
    using q by (auto simp: signed_quantity_def d_def signed_shares_def k_def)
  have h: "held = Fin (of_int h)" using assms(5) by (simp add: held_def net_def)
  have n: "\<bar>h\<bar> \<le> n" using book_ok_net assms(1,2,5) by blast
  have price: "price_ok price"
    using assms(1) by (auto simp: book_ok_def price_def price_ok_iff split: option.splits)
  have exact: "rnd (of_int h + of_int d) = Fin (of_int (h + d))"
    using rnd_int [of "h + d"] n d(2) assms(4) by (simp add: k_def)
  have run: "apply_fill r f ps =
     (let store = (\<lambda>q price. rbind (make_position_snapshot
           \<lparr>ps_symbol = or_symbol r, ps_position = q, ps_average_price = price\<rparr>)
           (\<lambda>p. Inr (dict_set (or_symbol r) p ps))) in
      if h = 0 then store (Fin (of_int d)) (fl_price f)
      else if 0 < h \<and> 0 < d \<or> h < 0 \<and> d < 0 then
        rbind (fdiv (fadd (fmul (Fin (of_int \<bar>h\<bar>)) price) (fmul (Fin (of_int \<bar>d\<bar>)) (fl_price f)))
            (Fin (of_int \<bar>h + d\<bar>))) (store (Fin (of_int (h + d))))
      else if \<bar>h\<bar> < \<bar>d\<bar> then store (Fin (of_int (h + d))) (fl_price f)
      else if \<bar>h\<bar> = \<bar>d\<bar> then Inr (dict_pop (or_symbol r) ps)
      else store (Fin (of_int (h + d))) price)"
  proof -
    have sizes: "rnd (of_int (\<bar>d\<bar> - \<bar>h\<bar>)) = Fin (of_int (\<bar>d\<bar> - \<bar>h\<bar>))"
      using n d(2) assms(2,4) q(2) by (intro rnd_int) (simp add: k_def)
    show ?thesis
      unfolding apply_fill_def Let_def held_def [symmetric] price_def [symmetric] h d(1)
      using sizes exact d(3)
      by (auto simp: fmin_def add.commute)
  qed
  have stored: thesis if f: "apply_fill r f ps = rbind (make_position_snapshot
       \<lparr>ps_symbol = or_symbol r, ps_position = Fin (of_int (h + d)), ps_average_price = x\<rparr>)
       (\<lambda>p. Inr (dict_set (or_symbol r) p ps))" and x: "price_ok x" for x
  proof -
    obtain p where p: "make_position_snapshot \<lparr>ps_symbol = or_symbol r, ps_position = Fin (of_int (h + d)),
         ps_average_price = x\<rparr> = Inr p" "ps_position p = Fin (of_int (h + d))" "ps_average_price p = x"
      using store_position [OF q(4) x, of "of_int (h + d)"] by metis
    show thesis
    proof (rule result)
      show "apply_fill r f ps = Inr (dict_set (or_symbol r) p ps)" using f p(1) by simp
      show "book_ok (n + shares f) (dict_set (or_symbol r) p ps)"
      proof (rule book_ok_set [OF assms(1) p(2)])
        show "\<bar>h + d\<bar> \<le> n + shares f" "n \<le> n + shares f"
          using n d(2) q(2) unfolding k_def by linarith+
      qed (simp add: p(3) x)
    qed (use p(2) in \<open>simp_all add: net_def d_def\<close>)
  qed
  consider (flat) "h = 0" | (same) "h \<noteq> 0" "0 < h \<and> 0 < d \<or> h < 0 \<and> d < 0"
    | (flip) "h \<noteq> 0" "\<not> (0 < h \<and> 0 < d \<or> h < 0 \<and> d < 0)" "\<bar>h\<bar> < \<bar>d\<bar>"
    | (closed) "h \<noteq> 0" "\<not> (0 < h \<and> 0 < d \<or> h < 0 \<and> d < 0)" "\<bar>h\<bar> = \<bar>d\<bar>"
    | (part) "h \<noteq> 0" "\<not> (0 < h \<and> 0 < d \<or> h < 0 \<and> d < 0)" "\<bar>d\<bar> < \<bar>h\<bar>"
    by linarith
  then show thesis
  proof cases
    case flat
    then show thesis using stored [of "fl_price f"] run q(3) by simp
  next
    case same
    then have sum: "\<bar>h + d\<bar> = \<bar>h\<bar> + \<bar>d\<bar>" by linarith
    have "\<bar>h\<bar> + \<bar>d\<bar> \<le> 2 ^ 53" "0 < \<bar>d\<bar>" using n d assms(4) by (simp_all add: k_def)
    then obtain x where "fdiv (fadd (fmul (Fin (of_int \<bar>h\<bar>)) price) (fmul (Fin (of_int \<bar>d\<bar>)) (fl_price f)))
        (Fin (of_int (\<bar>h\<bar> + \<bar>d\<bar>))) = Inr x" "price_ok x"
      using weighted_price [of "\<bar>h\<bar>" "\<bar>d\<bar>" price "fl_price f"] price q(3) by auto
    then show thesis using stored [of x] run same sum by (simp only: Let_def if_False if_True rbind_simps)
  next
    case flip
    then show thesis using stored [of "fl_price f"] run q(3) by (simp only: Let_def if_False if_True)
  next
    case closed
    then have "h + d = 0" by linarith
    show thesis
    proof (rule result)
      show "apply_fill r f ps = Inr (dict_pop (or_symbol r) ps)"
        using run closed by (simp only: Let_def if_False if_True less_irrefl refl)
      show "book_ok (n + shares f) (dict_pop (or_symbol r) ps)"
        using assms(1) q(2) by (intro book_ok_pop [of n]) (simp_all add: k_def)
    qed (use \<open>h + d = 0\<close> in \<open>simp_all add: net_def d_def\<close>)
  next
    case part
    then have "\<not> \<bar>h\<bar> < \<bar>d\<bar>" "\<bar>h\<bar> \<noteq> \<bar>d\<bar>" by linarith+
    then show thesis using stored [of price] run price part(1,2) by (simp only: Let_def if_False if_True)
  qed
qed

definition total_shares :: "(OrderRequest \<times> Fill) list \<Rightarrow> int" where
  "total_shares ts = sum_list (map (\<lambda>t. shares (snd t)) ts)"

definition net_shares :: "(OrderRequest \<times> Fill) list \<Rightarrow> string \<Rightarrow> int" where
  "net_shares ts stock = sum_list (map signed_shares (filter (\<lambda>t. or_symbol (fst t) = stock) ts))"

lemma total_shares_nonneg: "list_all whole_fill ts \<Longrightarrow> 0 \<le> total_shares ts"
  by (induction ts) (auto simp: total_shares_def whole_fill_def)

lemma apply_fills_exact:
  assumes "book_ok n ps" "0 \<le> n" "list_all whole_fill ts" "n + total_shares ts \<le> 2 ^ 53"
    and "\<forall>stock. net ps stock = Fin (of_int (h stock))"
  shows "\<exists>ps'. apply_fills ts ps = Inr ps' \<and> book_ok (n + total_shares ts) ps' \<and>
    (\<forall>stock. net ps' stock = Fin (of_int (h stock + net_shares ts stock)))"
  using assms
proof (induction ts arbitrary: ps n h)
  case Nil
  then show ?case by (simp add: total_shares_def net_shares_def)
next
  case (Cons t ts)
  obtain r f where t: "t = (r, f)" by (cases t)
  have w: "whole_fill (r, f)" "list_all whole_fill ts" "0 \<le> shares f"
    using Cons.prems(3) t by (simp_all, simp add: whole_fill_def)
  have total: "total_shares (t # ts) = shares f + total_shares ts" by (simp add: total_shares_def t)
  then have "n + shares f \<le> 2 ^ 53" using Cons.prems(4) total_shares_nonneg [OF w(2)] by linarith
  then obtain ps1 where one: "apply_fill r f ps = Inr ps1" "book_ok (n + shares f) ps1"
      "net ps1 (or_symbol r) = Fin (of_int (h (or_symbol r) + signed_shares (r, f)))"
      "\<And>stock. stock \<noteq> or_symbol r \<Longrightarrow> net ps1 stock = net ps stock"
    using apply_fill_exact [OF Cons.prems(1,2) w(1), of "h (or_symbol r)"] Cons.prems(5) by metis
  define h1 where "h1 = h (or_symbol r := h (or_symbol r) + signed_shares (r, f))"
  have h1: "\<forall>stock. net ps1 stock = Fin (of_int (h1 stock))"
    using one(3,4) Cons.prems(5) by (simp add: h1_def)
  obtain ps' where rest: "apply_fills ts ps1 = Inr ps'" "book_ok (n + shares f + total_shares ts) ps'"
      "\<forall>stock. net ps' stock = Fin (of_int (h1 stock + net_shares ts stock))"
    using Cons.IH [OF one(2) _ w(2) _ h1] Cons.prems(2,4) w(3) total by auto
  have "h1 stock + net_shares ts stock = h stock + net_shares (t # ts) stock" for stock
    by (simp add: h1_def net_shares_def t)
  then show ?case using one(1) rest total by (simp add: t add.assoc del: of_int_add)
qed

text \<open>C18. The paper broker's positions are the exact net of its fills. For any sequence of fills of
  whole shares, at most \<open>2 ^ 53\<close> in total, at non-negative prices up to \<open>2 ^ 900\<close>, applying them
  never fails and leaves for every symbol exactly the bought minus the sold shares, across
  openings, increases, partial closings, flattenings and reversals.\<close>
theorem paper_positions_exact:
  assumes "list_all whole_fill ts" "total_shares ts \<le> 2 ^ 53"
  shows "\<exists>ps. apply_fills ts [] = Inr ps \<and>
    (\<forall>stock. net ps stock = Fin (of_int (net_shares ts stock)))"
  using apply_fills_exact [of 0 "[]" ts "\<lambda>_. 0"] assms by (auto simp: book_ok_def net_def)

section \<open>The orders of the paper broker\<close>

definition paper_legal :: "OrderRequest \<Rightarrow> bool" where
  "paper_legal r = (case or_quantity r of Fin q \<Rightarrow> is_double q \<and> 0 < q \<and> q \<le> 2 ^ 53 | _ \<Rightarrow> False)"

definition filled_part :: "rat \<Rightarrow> rat \<Rightarrow> bool" where
  "filled_part q f = (0 < f \<and> f \<le> q \<and> (f = q \<or> of_int \<lfloor>f\<rfloor> = f))"

definition paper_order_ok :: "OrderRequest \<Rightarrow> OrderSnapshot \<Rightarrow> bool" where
  "paper_order_ok r snap \<longleftrightarrow> paper_legal r \<and> os_client_order_id snap = or_client_order_id r \<and>
     os_requested_quantity snap = or_quantity r \<and> os_status snap \<in> {FILLED, PARTIALLY_FILLED, CANCELLED} \<and>
     (\<exists>q f. or_quantity r = Fin q \<and> os_filled_quantity snap = Fin f \<and> filled_part q f \<and>
        (os_status snap = FILLED) = (f = q))"

definition paper_ok :: "PaperBroker \<Rightarrow> bool" where
  "paper_ok s \<longleftrightarrow> (\<forall>cid snap. dict_get (pb_orders s) cid = Some snap \<longrightarrow>
     (\<exists>r. dict_get (pb_requests s) cid = Some r \<and> or_client_order_id r = cid \<and> paper_order_ok r snap))"

lemma tolerance_not_negative: "\<not> fless qty_tolerance (Fin 0)"
  using double.nonneg [of "1 / 10 ^ 12"] by (cases qty_tolerance) (auto simp: qty_tolerance_def)

lemma paper_order_sound:
  assumes "paper_order_ok r snap"
  shows "sound_snapshot (or_client_order_id r) snap"
proof -
  obtain q f where o': "os_client_order_id snap = or_client_order_id r" "os_requested_quantity snap = Fin q"
      "os_filled_quantity snap = Fin f" "0 < f" "f \<le> q" "(os_status snap = FILLED) = (f = q)"
    and st: "os_status snap \<in> {FILLED, PARTIALLY_FILLED, CANCELLED}"
    using assms unfolding paper_order_ok_def filled_part_def by metis
  have "snapshot_contract snap = Inr ()"
  proof (cases "f = q")
    case True
    then have "os_status snap = FILLED" using o'(6) by simp
    then show ?thesis using o' True tolerance_not_negative by (simp add: snapshot_contract_def)
  next
    case False
    then have "f < q" "os_status snap = PARTIALLY_FILLED \<or> os_status snap = CANCELLED" using o'(5,6) st by auto
    then show ?thesis using o' by (elim disjE) (simp_all add: snapshot_contract_def)
  qed
  then show ?thesis using o' by (simp add: sound_snapshot_def)
qed

lemma paper_quantity_part:
  assumes "make_paper_config c = Inr c" "is_double q" "0 < q" "q \<le> 2 ^ 53" "paper_quantity c (Fin q) = Inr x"
  obtains f where "x = Fin f" "filled_part q f"
proof -
  obtain \<rho> where \<rho>: "pac_partial_fill_ratio c = Fin \<rho>" "0 < \<rho>" "\<rho> \<le> 1"
    using assms(1) by (cases "pac_partial_fill_ratio c") (auto simp: make_paper_config_def split: if_splits)
  show thesis
  proof (cases "\<rho> = 1")
    case True
    then have "x = Fin q" using assms(2,5) \<rho> by (simp add: paper_quantity_def is_double_def)
    then show thesis using that [of q] assms(3) by (simp add: filled_part_def)
  next
    case False
    have "0 \<le> q * \<rho>" "q * \<rho> \<le> q" using assms(3) \<rho> by (simp_all add: mult_left_le)
    then obtain a where a: "rnd (q * \<rho>) = Fin a" "0 \<le> a" "a \<le> q"
      using double.between_finite [OF rnd_zero, of q "q * \<rho>"] assms(2) by (auto simp: is_double_def)
    have "\<lfloor>a\<rfloor> \<le> 2 ^ 53" using a(3) assms(4) by (simp add: floor_le_iff)
    then have whole: "rnd (of_int \<lfloor>a\<rfloor>) = Fin (of_int \<lfloor>a\<rfloor>)" using a(2) by (intro rnd_int) simp
    have le: "of_int \<lfloor>a\<rfloor> \<le> q" using a(3) of_int_floor_le [of a] by linarith
    have "x = (if \<lfloor>a\<rfloor> \<le> 0 then fmin (Fin q) (Fin 1) else Fin (of_int \<lfloor>a\<rfloor>))"
      using assms(5) \<rho> False a whole by (simp add: paper_quantity_def float_of_int_def)
    then consider "x = Fin q" | "x = Fin 1" "1 < q" | "x = Fin (of_int \<lfloor>a\<rfloor>)" "0 < \<lfloor>a\<rfloor>"
      by (auto simp: fmin_def split: if_splits)
    then show thesis
    proof cases
      case 1
      then show thesis using that [of q] assms(3) by (simp add: filled_part_def)
    next
      case 2
      then show thesis using that [of 1] by (simp add: filled_part_def)
    next
      case 3
      then show thesis using that [of "of_int \<lfloor>a\<rfloor>"] le by (simp add: filled_part_def)
    qed
  qed
qed

definition same_paper :: "PaperBroker \<Rightarrow> PaperBroker \<Rightarrow> bool" where
  "same_paper s t = (pb_orders t = pb_orders s \<and> pb_requests t = pb_requests s \<and>
     pb_positions t = pb_positions s)"

lemma same_paper_fill: "moves same_paper (paper_fill pa r quantity)"
proof -
  have refl: "same_paper s s" and trans: "same_paper a b \<Longrightarrow> same_paper b c \<Longrightarrow> same_paper a c" for s a b c
    by (simp_all add: same_paper_def)
  have "moves same_paper (amod (\<lambda>s. s\<lparr>pb_sequence := pb_sequence s + 1\<rparr>))" "moves same_paper (paper_now pa)"
    by (simp_all add: moves_def same_paper_def paper_now_def)
  then show ?thesis
    unfolding paper_fill_def
    by (intro moves_pure [where R = same_paper, OF refl] moves_abind [where R = same_paper, OF trans]
        moves_athen [where R = same_paper, OF trans])
qed

lemma paper_fill_effect:
  assumes "paper_fill pa r quantity s = (Inr (n, f), t)"
  shows "same_paper s t" "quantity = Inr (fl_quantity f)" "make_fill f = Inr f"
    "fl_client_order_id f = or_client_order_id r"
proof -
  have "same_paper s (snd (paper_fill pa r quantity s))" by (rule movesD [OF same_paper_fill])
  then show "same_paper s t" by (simp add: assms)
  have made: "make_fill g = Inr f \<Longrightarrow> make_fill f = Inr f \<and> f = g" for g
    by (auto simp: make_fill_def simp del: first_error.simps)
  show "quantity = Inr (fl_quantity f)" "make_fill f = Inr f" "fl_client_order_id f = or_client_order_id r"
    using assms by (auto simp: paper_fill_def abind_returns dest!: made)
qed

lemma paper_position_keeps: "paper_position r f s = (x, t) \<Longrightarrow> pb_orders t = pb_orders s \<and> pb_requests t = pb_requests s"
  by (auto simp: paper_position_def abind_run split: sum.splits)

lemma paper_ok_store:
  assumes "paper_ok s" "paper_order_ok r snap"
    and "pb_orders t = dict_set (or_client_order_id r) snap (pb_orders s)"
    and "pb_requests t = dict_set (or_client_order_id r) r (pb_requests s) \<or>
      pb_requests t = pb_requests s \<and> dict_get (pb_requests s) (or_client_order_id r) = Some r"
  shows "paper_ok t"
  using assms by (fastforce simp: paper_ok_def)

lemma paper_ok_same:
  "paper_ok s \<Longrightarrow> pb_orders t = pb_orders s \<Longrightarrow> pb_requests t = pb_requests s \<Longrightarrow> paper_ok t"
  by (simp add: paper_ok_def)

lemma keeps_paper_fill: "keeps paper_ok (paper_fill pa r quantity)"
  using movesD [OF same_paper_fill] paper_ok_same unfolding keeps_def same_paper_def by blast

lemma keeps_prod_result:
  "(\<And>x y. p = (x, y) \<Longrightarrow> keeps I (f x y)) \<Longrightarrow> keeps I (case p of (x, y) \<Rightarrow> f x y)"
  by (cases p) auto

text \<open>Storing an order and its fill.\<close>

lemma keeps_paper_record:
  assumes "paper_order_ok r snap" "cid = or_client_order_id r"
  shows "keeps paper_ok (athen (paper_store_order cid snap)
        (athen (amod (\<lambda>s. s\<lparr>pb_requests := dict_set cid r (pb_requests s)\<rparr>))
        (athen (paper_position r f) (aret snap))))"
proof (rule keepsI)
  fix s
  assume ok: "paper_ok s"
  let ?s = "s\<lparr>pb_orders := dict_set cid snap (pb_orders s), pb_requests := dict_set cid r (pb_requests s)\<rparr>"
  have "paper_ok ?s" using paper_ok_store [OF ok assms(1), of ?s] assms(2) by simp
  moreover obtain x t where run: "paper_position r f ?s = (x, t)" by (cases "paper_position r f ?s")
  ultimately have "paper_ok t" using paper_ok_same paper_position_keeps by blast
  then show "paper_ok (snd (athen (paper_store_order cid snap)
        (athen (amod (\<lambda>s. s\<lparr>pb_requests := dict_set cid r (pb_requests s)\<rparr>))
        (athen (paper_position r f) (aret snap))) s))"
    using run by (cases x) (simp_all add: paper_store_order_def athen_run)
qed

text \<open>The snapshot of a fresh order.\<close>

lemma paper_submit_fresh:
  assumes "paper_legal r" "make_paper_config (pa_config pa) = Inr (pa_config pa)"
    and fill: "paper_fill pa r (paper_quantity (pa_config pa) (or_quantity r)) s = (Inr (n, f), t)"
    and snap: "first_snapshot r n f = Inr snap"
  shows "paper_order_ok r snap" "os_status snap \<in> {FILLED, PARTIALLY_FILLED}" "os_latency_ms snap = None"
    "make_order_snapshot snap = Inr snap"
proof -
  obtain q where q: "or_quantity r = Fin q" "is_double q" "0 < q" "q \<le> 2 ^ 53"
    using assms(1) by (auto simp: paper_legal_def split: pyfloat.splits)
  obtain a where a: "fl_quantity f = Fin a" "filled_part q a"
    using paper_quantity_part [OF assms(2) q(2-4)] paper_fill_effect(2) [OF fill] q(1) by metis
  note eq = make_order_snapshot_eq [OF snap [unfolded first_snapshot_def]]
  show "paper_order_ok r snap"
    using a q(1) assms(1) unfolding eq by (auto simp: paper_order_ok_def filled_part_def)
  show "os_status snap \<in> {FILLED, PARTIALLY_FILLED}" "os_latency_ms snap = None" unfolding eq by simp_all
  show "make_order_snapshot snap = Inr snap" using snap eq by (simp add: first_snapshot_def)
qed

lemma keeps_paper_submit:
  assumes "paper_legal r" "make_paper_config (pa_config pa) = Inr (pa_config pa)"
  shows "keeps paper_ok (paper_submit pa r)"
  unfolding paper_submit_def Let_def
proof (intro keeps_abind [OF keeps_pure(3)] keeps_option keeps_pure keeps_abind_result [OF keeps_paper_fill]
    keeps_prod_result keeps_alift_result)
  fix nf s t n f snap
  assume "paper_fill pa r (paper_quantity (pa_config pa) (or_quantity r)) s = (Inr nf, t)"
    and "nf = (n, f)" and snap: "first_snapshot r n f = Inr snap"
  then have "paper_fill pa r (paper_quantity (pa_config pa) (or_quantity r)) s = (Inr (n, f), t)" by simp
  from paper_submit_fresh(1) [OF assms this snap]
  show "keeps paper_ok (athen (paper_store_order (or_client_order_id r) snap)
        (athen (amod (\<lambda>s. s\<lparr>pb_requests := dict_set (or_client_order_id r) r (pb_requests s)\<rparr>))
        (athen (paper_position r f) (aret snap))))"
    by (rule keeps_paper_record) simp
qed

section \<open>Completing partial orders\<close>

lemma outstanding_exact:
  assumes "paper_order_ok r prior" "os_status prior \<noteq> FILLED"
  obtains q f where "os_requested_quantity prior = Fin q" "os_filled_quantity prior = Fin f" "0 < f" "f < q"
    "fsub (Fin q) (Fin f) = Fin (q - f)" "fadd (Fin f) (Fin (q - f)) = Fin q"
proof -
  obtain q f where o': "or_quantity r = Fin q" "os_requested_quantity prior = Fin q"
      "os_filled_quantity prior = Fin f" "filled_part q f" "f \<noteq> q" "paper_legal r"
    using assms unfolding paper_order_ok_def by metis
  have q: "is_double q" "q \<le> 2 ^ 53" using o'(1,6) by (simp_all add: paper_legal_def)
  have f: "of_int \<lfloor>f\<rfloor> = f" "0 < f" "f < q" using o'(4,5) by (auto simp: filled_part_def)
  have "is_double (q - of_int \<lfloor>f\<rfloor>)"
  proof (rule double_minus_int [OF q(1)])
    show "of_int \<lfloor>f\<rfloor> \<le> q" unfolding f(1) using f(3) by simp
  qed (use f(2) q(2) in simp_all)
  then have "rnd (q - f) = Fin (q - f)" by (simp only: f(1) is_double_def)
  moreover have "rnd (f + (q - f)) = Fin q" using q(1) by (simp add: is_double_def)
  ultimately show thesis using that [of q f] o'(2,3) f(2,3) by simp
qed

lemma completed_ok:
  assumes "paper_order_ok r prior" "os_status prior \<noteq> FILLED"
    and "completed_snapshot prior ac (fsub (os_requested_quantity prior) (os_filled_quantity prior)) f = Inr snap"
  shows "paper_order_ok r snap" "os_status snap = FILLED" "os_filled_quantity snap = os_requested_quantity prior"
    "os_requested_quantity snap = os_requested_quantity prior" "os_fills snap = os_fills prior @ [f]"
proof -
  obtain q a where q: "os_requested_quantity prior = Fin q" "os_filled_quantity prior = Fin a" "0 < a" "a < q"
    "fsub (Fin q) (Fin a) = Fin (q - a)" "fadd (Fin a) (Fin (q - a)) = Fin q"
    using outstanding_exact [OF assms(1,2)] by metis
  obtain snap' where snap: "make_order_snapshot snap' = Inr snap"
    and f: "os_status snap' = FILLED" "os_filled_quantity snap' = Fin q" "os_requested_quantity snap' = Fin q"
      "os_fills snap' = os_fills prior @ [f]" "os_client_order_id snap' = os_client_order_id prior"
    using assms(3) q unfolding completed_snapshot_def Let_def by auto
  note eq = make_order_snapshot_eq [OF snap]
  show "os_status snap = FILLED" "os_filled_quantity snap = os_requested_quantity prior"
    "os_requested_quantity snap = os_requested_quantity prior" "os_fills snap = os_fills prior @ [f]"
    using f q(1) by (simp_all add: eq)
  then show "paper_order_ok r snap"
    using assms(1) f(5) q by (auto simp: eq paper_order_ok_def filled_part_def)
qed

lemma complete_order_effect:
  assumes "paper_order_ok r prior" "os_status prior \<noteq> FILLED" "complete_order pa cid ac prior r s = (Inr snap, t)"
  shows "os_status snap = FILLED" "os_filled_quantity snap = os_requested_quantity prior"
    "os_requested_quantity snap = os_requested_quantity prior"
    "\<exists>f. os_fills snap = os_fills prior @ [f] \<and>
       fl_quantity f = fsub (os_requested_quantity prior) (os_filled_quantity prior)"
    "dict_get (pb_orders t) cid = Some snap"
proof -
  let ?rest = "fsub (os_requested_quantity prior) (os_filled_quantity prior)"
  have "\<not> nonpos ?rest" using outstanding_exact [OF assms(1,2)] by (metis fle_Fin diff_gt_0_iff_gt not_le)
  then obtain n f u x t' where run: "paper_fill pa r (Inr ?rest) s = (Inr (n, f), u)"
      and snap: "completed_snapshot prior ac ?rest f = Inr snap"
      and pos: "paper_position r f (u\<lparr>pb_orders := dict_set cid snap (pb_orders u)\<rparr>) = (x, t)"
    using assms(2,3) by (auto simp: complete_order_def Let_def abind_returns paper_store_order_def split: if_splits)
  note c = completed_ok [OF assms(1,2) snap]
  show "os_status snap = FILLED" "os_filled_quantity snap = os_requested_quantity prior"
    "os_requested_quantity snap = os_requested_quantity prior" using c by simp_all
  show "\<exists>f. os_fills snap = os_fills prior @ [f] \<and> fl_quantity f = ?rest"
    using c(5) paper_fill_effect(2) [OF run] by auto
  show "dict_get (pb_orders t) cid = Some snap" using paper_position_keeps [OF pos] by simp
qed

lemma keeps_complete_order:
  assumes "paper_order_ok r prior" "cid = or_client_order_id r"
  shows "keeps (\<lambda>s. paper_ok s \<and> dict_get (pb_requests s) cid = Some r) (complete_order pa cid ac prior r)"
    (is "keeps ?I _")
proof (cases "os_status prior = FILLED")
  case True
  then show ?thesis by (simp add: complete_order_def keeps_pure)
next
  case False
  let ?rest = "fsub (os_requested_quantity prior) (os_filled_quantity prior)"
  have fill: "keeps ?I (paper_fill pa r (Inr ?rest))"
    using movesD [OF same_paper_fill] paper_ok_same unfolding keeps_def same_paper_def by metis
  have position: "keeps ?I (paper_position r f)" for f
    using paper_position_keeps paper_ok_same unfolding keeps_def by (metis prod.collapse)
  have store: "keeps ?I (paper_store_order cid snap)" if "paper_order_ok r snap" for snap
    using paper_ok_store [OF _ that] assms(2) by (auto simp: keeps_def paper_store_order_def)
  show ?thesis
    unfolding complete_order_def Let_def
  proof (intro keeps_if keeps_pure keeps_abind [OF fill] keeps_prod keeps_alift_result keeps_athen position store)
    fix f snap
    assume "completed_snapshot prior ac ?rest f = Inr snap"
    then show "paper_order_ok r snap" by (rule completed_ok(1) [OF assms(1) False])
  qed
qed

lemma keeps_fill_remaining: "keeps paper_ok (fill_remaining pa cid ac)"
proof (rule keepsI)
  fix s
  assume ok: "paper_ok s"
  show "paper_ok (snd (fill_remaining pa cid ac s))"
  proof (cases "dict_get (pb_orders s) cid"; cases "dict_get (pb_requests s) cid")
    fix prior r
    assume got: "dict_get (pb_orders s) cid = Some prior" "dict_get (pb_requests s) cid = Some r"
    then have "paper_order_ok r prior \<and> cid = or_client_order_id r" using ok unfolding paper_ok_def by fastforce
    then have "paper_order_ok r prior" "cid = or_client_order_id r" by blast+
    from keepsD [OF keeps_complete_order [OF this], of s pa ac] ok got show ?thesis
      by (simp add: fill_remaining_def abind_run)
  qed (use ok in \<open>simp_all add: fill_remaining_def abind_run\<close>)
qed

lemma keeps_paper_cancel: "keeps paper_ok (paper_cancel pa cid)"
proof (rule keepsI)
  fix s
  assume ok: "paper_ok s"
  show "paper_ok (snd (paper_cancel pa cid s))"
  proof (cases "dict_get (pb_orders s) cid")
    case None
    then show ?thesis using ok by (simp add: paper_cancel_def paper_get_order_def abind_run)
  next
    case (Some p)
    then obtain r where r: "dict_get (pb_requests s) cid = Some r" "cid = or_client_order_id r" "paper_order_ok r p"
      using ok by (auto simp: paper_ok_def)
    let ?p = "p\<lparr>os_status := CANCELLED, os_reason := ''Paper order cancelled.'',
             os_latency_ms := None, os_updated_at := pa_now pa (pb_now_reads s)\<rparr>"
    let ?s = "s\<lparr>pb_now_reads := Suc (pb_now_reads s)\<rparr>"
    have "paper_ok ?s" using ok by (rule paper_ok_same) simp_all
    moreover have "paper_ok (?s\<lparr>pb_orders := dict_set cid ?p (pb_orders ?s)\<rparr>)" if "os_status p \<noteq> FILLED"
      using paper_ok_store [OF \<open>paper_ok ?s\<close>, of r ?p] that r by (auto simp: paper_order_ok_def)
    ultimately show ?thesis
      using ok Some
      by (cases "make_order_snapshot ?p")
        (auto simp: paper_cancel_def paper_get_order_def abind_run athen_run paper_now_def paper_store_order_def
          dest: make_order_snapshot_eq)
  qed
qed

lemma paper_cancel_reply:
  assumes "paper_ok s" "paper_cancel pa cid s = (Inr snap, t)"
  shows "sound_snapshot cid snap"
proof -
  have "paper_ok t" using keepsD [OF keeps_paper_cancel assms(1)] assms(2) by (metis snd_conv)
  moreover have "dict_get (pb_orders t) cid = Some snap"
    using assms(2)
    by (auto simp: paper_cancel_def paper_get_order_def abind_returns paper_now_def paper_store_order_def
        split: option.splits if_splits)
  ultimately show ?thesis using paper_order_sound by (fastforce simp: paper_ok_def)
qed

lemma paper_submit_reply:
  assumes "paper_ok s" "paper_legal r" "make_paper_config (pa_config pa) = Inr (pa_config pa)"
    and "paper_submit pa r s = (Inr snap, t)"
  shows "\<exists>r'. paper_order_ok r' snap \<and> or_client_order_id r' = or_client_order_id r"
    and "dict_get (pb_orders s) (or_client_order_id r) = None \<Longrightarrow> paper_order_ok r snap \<and>
      os_status snap \<in> {FILLED, PARTIALLY_FILLED} \<and> os_latency_ms snap = None \<and> make_order_snapshot snap = Inr snap"
proof -
  show fresh: "paper_order_ok r snap \<and>
      os_status snap \<in> {FILLED, PARTIALLY_FILLED} \<and> os_latency_ms snap = None \<and> make_order_snapshot snap = Inr snap"
    if new: "dict_get (pb_orders s) (or_client_order_id r) = None"
  proof -
    obtain n f u where "paper_fill pa r (paper_quantity (pa_config pa) (or_quantity r)) s = (Inr (n, f), u)"
        "first_snapshot r n f = Inr snap"
      using assms(4) new by (auto simp: paper_submit_def Let_def abind_returns)
    then show ?thesis using paper_submit_fresh [OF assms(2,3)] by blast
  qed
  show "\<exists>r'. paper_order_ok r' snap \<and> or_client_order_id r' = or_client_order_id r"
  proof (cases "dict_get (pb_orders s) (or_client_order_id r)")
    case None
    then show ?thesis using fresh by blast
  next
    case (Some p)
    then have "snap = p" using assms(4) by (simp add: paper_submit_def Let_def abind_returns)
    then show ?thesis using Some assms(1) by (auto simp: paper_ok_def)
  qed
qed

section \<open>The paper broker is a sound and prompt broker\<close>

definition paper_admits :: "paper_setup \<Rightarrow> OrderRequest \<Rightarrow> bool" where
  "paper_admits pa r = (paper_legal r \<and> make_paper_config (pa_config pa) = Inr (pa_config pa))"

definition paper_knows :: "PaperBroker \<Rightarrow> string \<Rightarrow> bool" where
  "paper_knows s cid = (dict_get (pb_orders s) cid \<noteq> None)"

interpretation paper: prompt_broker "paper_broker pa" paper_ok "paper_admits pa" paper_knows for pa
proof unfold_locales
  fix b r cid snap b'
  assume ok: "paper_ok b"
  show "paper_admits pa r \<Longrightarrow> paper_ok (snd (br_submit (paper_broker pa) r b))"
    using keepsD [OF keeps_paper_submit ok] by (simp add: paper_broker_def paper_admits_def)
  show "paper_ok (snd (br_get_order (paper_broker pa) cid b))" "paper_ok (snd (br_positions (paper_broker pa) b))"
    using ok by (simp_all add: paper_broker_def paper_get_order_def paper_positions_def)
  show "paper_ok (snd (br_cancel (paper_broker pa) cid b))"
    using keepsD [OF keeps_paper_cancel ok] by (simp add: paper_broker_def)
  show "br_cancel (paper_broker pa) cid b = (Inr snap, b') \<Longrightarrow> sound_snapshot cid snap"
    using paper_cancel_reply [OF ok] by (simp add: paper_broker_def)
  show "br_get_order (paper_broker pa) cid b = (Inr (Some snap), b') \<Longrightarrow> sound_snapshot cid snap"
    using ok paper_order_sound by (fastforce simp: paper_broker_def paper_get_order_def paper_ok_def)
  show "paper_admits pa r \<Longrightarrow> br_submit (paper_broker pa) r b = (Inr snap, b') \<Longrightarrow>
      \<not> fless (os_requested_quantity snap) (os_filled_quantity snap)"
    using paper_submit_reply(1) [OF ok, of r pa snap b'] paper_order_sound
    by (fastforce simp: paper_broker_def paper_admits_def sound_snapshot_def)
  show "paper_admits pa r \<Longrightarrow> \<not> paper_knows b (or_client_order_id r) \<Longrightarrow>
      br_submit (paper_broker pa) r b = (Inr snap, b') \<Longrightarrow>
      consistent_reply r snap \<and> os_status snap \<in> {FILLED, PARTIALLY_FILLED} \<and> os_latency_ms snap = None \<and>
      make_order_snapshot snap = Inr snap"
    using paper_submit_reply(2) [OF ok, of r pa snap b'] paper_order_sound [of r snap]
    by (auto simp: paper_broker_def paper_admits_def paper_knows_def consistent_reply_def sound_snapshot_def
        paper_order_ok_def)
  show "\<exists>ps b'. br_positions (paper_broker pa) b = (Inr ps, b')"
    by (simp add: paper_broker_def paper_positions_def)
qed

section \<open>Paper mode\<close>

datatype paper_mode_call = EngineCall engine_call | Completion string bool

fun paper_mode_step ::
  "paper_setup \<Rightarrow> (PaperBroker, 'a) world \<Rightarrow> (PaperBroker, 'a) engine \<Rightarrow> paper_mode_call
     \<Rightarrow> (PaperBroker, 'a) engine" where
  "paper_mode_step pa w s (EngineCall c) = engine_step w s c"
| "paper_mode_step pa w s (Completion cid ac) =
     s\<lparr>en_broker := snd (fill_remaining pa cid ac (en_broker s))\<rparr>"

definition paper_mode_run ::
  "paper_setup \<Rightarrow> (PaperBroker, 'a) world \<Rightarrow> paper_mode_call list \<Rightarrow> 'a \<Rightarrow> (PaperBroker, 'a) engine" where
  "paper_mode_run pa w cs a = foldl (paper_mode_step pa w) (engine_init paper_init a) cs"

fun paper_call_ok :: "paper_setup \<Rightarrow> paper_mode_call \<Rightarrow> bool" where
  "paper_call_ok pa (EngineCall (Submit r)) = paper_admits pa r"
| "paper_call_ok pa c = True"

lemma paper_mode_step_sound:
  assumes "w_broker w = paper_broker pa" "paper_ok (en_broker s) \<and> own_orders s" "paper_call_ok pa c"
  shows "paper_ok (en_broker (paper_mode_step pa w s c)) \<and> own_orders (paper_mode_step pa w s c)"
proof (cases c)
  case (EngineCall e)
  have "\<forall>r. e = Submit r \<longrightarrow> paper_admits pa r" using assms(3) EngineCall by auto
  from paper.keeps_step [OF assms(1,2) this] show ?thesis by (simp add: EngineCall)
next
  case (Completion cid ac)
  then show ?thesis using assms(2) keepsD [OF keeps_fill_remaining] by simp
qed

lemma paper_mode_run_sound:
  assumes "w_broker w = paper_broker pa" "list_all (paper_call_ok pa) cs"
  shows "own_orders (paper_mode_run pa w cs a) \<and> paper_ok (en_broker (paper_mode_run pa w cs a))"
proof -
  have "paper_ok (en_broker s) \<and> own_orders s \<Longrightarrow> list_all (paper_call_ok pa) cs \<Longrightarrow>
      paper_ok (en_broker (foldl (paper_mode_step pa w) s cs)) \<and> own_orders (foldl (paper_mode_step pa w) s cs)" for s
    using paper_mode_step_sound [OF assms(1)] by (induction cs arbitrary: s) auto
  moreover have "paper_ok (en_broker (engine_init paper_init a)) \<and> own_orders (engine_init paper_init a)"
    by (simp add: paper_ok_def own_orders_def engine_init_def paper_init_def)
  ultimately show ?thesis using assms(2) unfolding paper_mode_run_def by blast
qed

text \<open>C16. Paper mode keeps sound books. Over any sequence of engine calls (with positive order
  quantities up to \<open>2 ^ 53\<close>) and completions inside the broker, also after a cancellation, every
  order the engine holds has the identifier it is stored under, satisfies the snapshot contract
  and is not overfilled, and the broker's own orders are consistent with their requests.\<close>
theorem paper_mode_books_sound:
  assumes "w_broker w = paper_broker pa" "list_all (paper_call_ok pa) cs"
  shows "own_orders (paper_mode_run pa w cs a) \<and> paper_ok (en_broker (paper_mode_run pa w cs a))"
  using assms by (rule paper_mode_run_sound)

text \<open>C17. A submission in paper mode returns. For a validated order the engine and the paper
  broker do not know yet, \<open>submit\<close> returns a result: an accepted, filled or partially filled
  snapshot that passed the reply checks, or (when the broker raised) an \<open>UNKNOWN\<close> outcome that is
  not accepted; the engine's state is the one reported. The audit store, if there is one, takes every
  record, and the two readings of \<open>time.perf_counter()\<close> around the call of the broker are finite, at
  most \<open>2 ^ 64\<close> in size and in order, as the documentation of the counter promises.\<close>
theorem paper_submission_returns:
  assumes "w_broker w = paper_broker pa" "paper_ok (en_broker s)" "paper_admits pa r"
    and "engine_validate r = Inr ()" "\<not> blank (or_client_order_id r)"
    and "dict_get (pb_orders (en_broker s)) (or_client_order_id r) = None"
    and "dict_get (en_orders s) (or_client_order_id r) = None"
    and "dict_get (en_states s) (or_client_order_id r) = None"
    and "records_all w" "\<forall>n. aware (w_now w n)" "steady_clock w (en_perf_reads s)"
  shows "\<exists>x t. engine_submit w r s = (Inr x, t) \<and>
    dict_get (en_states t) (or_client_order_id r) = Some (os_status (xr_snapshot x)) \<and>
    (if xr_accepted x then os_status (xr_snapshot x) \<in> {FILLED, PARTIALLY_FILLED} \<and> consistent_reply r (xr_snapshot x)
     else os_status (xr_snapshot x) = UNKNOWN)"
  using assms by (intro paper.submit_returns [of w pa s r]) (simp_all add: paper_knows_def)

text \<open>A cancellation that loses the race to a fill is settled from broker truth. When the engine
  holds an order as \<open>CANCELLED\<close> and the paper broker completes it, the completed order is filled
  with exactly the requested quantity by one more fill of exactly the outstanding quantity, and
  \<open>refresh\<close> moves the engine's order from \<open>CANCELLED\<close> to that \<open>FILLED\<close> snapshot.\<close>
theorem cancel_race_settled:
  assumes "w_broker w = paper_broker pa" "w_audit w = None" "\<forall>n. aware (w_now w n)"
    and "paper_ok (en_broker s)" "\<not> blank cid"
    and "dict_get (en_states s) cid = Some CANCELLED"
    and "dict_get (pb_orders (en_broker s)) cid = Some prior" "os_status prior = CANCELLED"
    and "fill_remaining pa cid True (en_broker s) = (Inr snap, b)"
  shows "os_filled_quantity snap = os_requested_quantity prior \<and>
    (\<exists>f. os_fills snap = os_fills prior @ [f] \<and>
       fl_quantity f = fsub (os_requested_quantity prior) (os_filled_quantity prior)) \<and>
    (\<exists>t. engine_refresh w cid (s\<lparr>en_broker := b\<rparr>) = (Inr snap, t) \<and>
       dict_get (en_states t) cid = Some FILLED \<and> engine_get_order cid t = Some snap)"
proof -
  obtain r where r: "dict_get (pb_requests (en_broker s)) cid = Some r" "paper_order_ok r prior"
    using assms(4,7) by (fastforce simp: paper_ok_def)
  have run: "complete_order pa cid True prior r (en_broker s) = (Inr snap, b)"
    using assms(7,9) r(1) by (simp add: fill_remaining_def abind_run)
  have "os_status prior \<noteq> FILLED" using assms(8) by simp
  note c = complete_order_effect [OF r(2) this run]
  have "\<exists>t. engine_refresh w cid (s\<lparr>en_broker := b\<rparr>) = (Inr snap, t) \<and>
       dict_get (en_states t) cid = Some FILLED \<and> engine_get_order cid t = Some snap"
    using assms(1-3,5,6) c(1,5)
    by (simp add: engine_refresh_def abind_run athen_run on_broker_def apart_def paper_broker_def paper_get_order_def
        engine_transition_def set_state_def read_now_def when_audit_def order_transition_def
        make_execution_event_def set_order_def set_fills_def engine_get_order_def)
  then show ?thesis using c by blast
qed

section \<open>Inputs on which the properties apply\<close>

definition demo_paper :: paper_setup where
  "demo_paper = \<lparr>pa_config = default_paper_config\<lparr>pac_partial_fill_ratio := rnd (35 / 100)\<rparr>, pa_price = None,
     pa_now = (\<lambda>n. \<lparr>ns = 0, zone = Some 0\<rparr>)\<rparr>"

definition demo_paper_world :: "(PaperBroker, unit) world" where
  "demo_paper_world = \<lparr>w_broker = paper_broker demo_paper, w_audit = None,
     w_now = (\<lambda>n. \<lparr>ns = 0, zone = Some 0\<rparr>), w_perf = (\<lambda>n. Fin 0)\<rparr>"

definition demo_race :: "(PaperBroker, unit) engine" where
  "demo_race = paper_mode_run demo_paper demo_paper_world
     [EngineCall (Submit demo_order), EngineCall (Cancel ''SB-1'')] ()"

lemma demo_paper_admits: "paper_admits demo_paper demo_order"
  by code_simp

text \<open>The order was filled with 3 of 10 shares and cancelled; the completion succeeds.\<close>

definition race_report :: "(PaperBroker, unit) engine \<Rightarrow> bool" where
  "race_report s = (map (os_filled_quantity \<circ> snd) (en_orders s) = [Fin 3] \<and>
     dict_get (en_states s) ''SB-1'' = Some CANCELLED \<and>
     opt_holds (\<lambda>p. os_status p = CANCELLED \<and> os_requested_quantity p = Fin 10)
       (dict_get (pb_orders (en_broker s)) ''SB-1'') \<and>
     returns (\<lambda>_. True) (fst (fill_remaining demo_paper ''SB-1'' True (en_broker s))))"

lemma demo_race_report: "race_report demo_race"
  by code_simp

lemma paper_mode_books_sound_witness:
  "own_orders demo_race \<and> map (os_filled_quantity \<circ> snd) (en_orders demo_race) = [Fin 3]"
proof -
  have "list_all (paper_call_ok demo_paper) [EngineCall (Submit demo_order), EngineCall (Cancel ''SB-1'')]"
    using demo_paper_admits by simp
  then have "own_orders demo_race"
    unfolding demo_race_def by (intro paper_mode_books_sound [THEN conjunct1]) (simp_all add: demo_paper_world_def)
  then show ?thesis using demo_race_report by (simp add: race_report_def)
qed

lemma paper_positions_exact_witness:
  "\<exists>ps. apply_fills [(demo_order, \<lparr>fl_fill_id = ''F1'', fl_client_order_id = ''SB-1'', fl_quantity = Fin 10,
        fl_price = Fin 100, fl_fee = Fin 0, fl_timestamp = \<lparr>ns = 0, zone = Some 0\<rparr>\<rparr>),
      (demo_order\<lparr>or_side := SELL\<rparr>, \<lparr>fl_fill_id = ''F2'', fl_client_order_id = ''SB-2'', fl_quantity = Fin 14,
        fl_price = Fin 101, fl_fee = Fin 0, fl_timestamp = \<lparr>ns = 0, zone = Some 0\<rparr>\<rparr>)] [] = Inr ps \<and>
     net ps ''ABC'' = Fin (- 4)"
proof -
  let ?ts = "[(demo_order, \<lparr>fl_fill_id = ''F1'', fl_client_order_id = ''SB-1'', fl_quantity = Fin 10,
        fl_price = Fin 100, fl_fee = Fin 0, fl_timestamp = \<lparr>ns = 0, zone = Some 0\<rparr>\<rparr>),
      (demo_order\<lparr>or_side := SELL\<rparr>, \<lparr>fl_fill_id = ''F2'', fl_client_order_id = ''SB-2'', fl_quantity = Fin 14,
        fl_price = Fin 101, fl_fee = Fin 0, fl_timestamp = \<lparr>ns = 0, zone = Some 0\<rparr>\<rparr>)]"
  have "list_all whole_fill ?ts" "total_shares ?ts \<le> 2 ^ 53"
    by (simp_all add: whole_fill_def shares_def price_ok_def price_cap_def demo_order_def total_shares_def
        blank_def strip_def is_space_def)
  from paper_positions_exact [OF this] obtain ps where
    "apply_fills ?ts [] = Inr ps" "net ps ''ABC'' = Fin (of_int (net_shares ?ts ''ABC''))" by blast
  moreover have "net_shares ?ts ''ABC'' = - 4"
    by (simp add: net_shares_def signed_shares_def shares_def demo_order_def)
  ultimately show ?thesis by auto
qed

text \<open>A world with a clock that runs and an audit store.\<close>

definition ticking_paper_world :: "(PaperBroker, ExecutionEvent list) world" where
  "ticking_paper_world = \<lparr>w_broker = paper_broker demo_paper, w_audit = Some event_store,
     w_now = (\<lambda>n. \<lparr>ns = int n, zone = Some 0\<rparr>), w_perf = (\<lambda>n. Fin (of_nat n))\<rparr>"

lemma paper_submission_returns_witness:
  "\<exists>x t. engine_submit ticking_paper_world demo_order (engine_init paper_init []) = (Inr x, t) \<and>
     dict_get (en_states t) ''SB-1'' = Some (os_status (xr_snapshot x))"
proof -
  have w: "w_broker ticking_paper_world = paper_broker demo_paper" "records_all ticking_paper_world"
      "\<forall>n. aware (w_now ticking_paper_world n)"
      "steady_clock ticking_paper_world (en_perf_reads (engine_init paper_init []))"
    by (simp_all add: ticking_paper_world_def records_all_def records_events_def event_store_def aware_def
        steady_clock_def engine_init_def mag_iff)
  have s: "paper_ok (en_broker (engine_init paper_init []))"
      "dict_get (pb_orders (en_broker (engine_init paper_init []))) (or_client_order_id demo_order) = None"
      "dict_get (en_orders (engine_init paper_init [])) (or_client_order_id demo_order) = None"
      "dict_get (en_states (engine_init paper_init [])) (or_client_order_id demo_order) = None"
    by (simp_all add: paper_ok_def engine_init_def paper_init_def)
  from paper_submission_returns [OF w(1) s(1) demo_paper_admits demo_order_valid s(2-4) w(2-4)]
  show ?thesis by (auto simp: demo_order_def)
qed

lemma cancel_race_settled_witness:
  "\<exists>snap b t. fill_remaining demo_paper ''SB-1'' True (en_broker demo_race) = (Inr snap, b) \<and>
     engine_refresh demo_paper_world ''SB-1'' (demo_race\<lparr>en_broker := b\<rparr>) = (Inr snap, t) \<and>
     dict_get (en_states t) ''SB-1'' = Some FILLED \<and> os_filled_quantity snap = Fin 10"
proof -
  have w: "w_broker demo_paper_world = paper_broker demo_paper" "w_audit demo_paper_world = None"
      "\<forall>n. aware (w_now demo_paper_world n)"
    by (simp_all add: demo_paper_world_def aware_def)
  have ok: "paper_ok (en_broker demo_race)"
    unfolding demo_race_def
    by (rule paper_mode_run_sound [OF w(1), THEN conjunct2]) (simp add: demo_paper_admits)
  have st: "dict_get (en_states demo_race) ''SB-1'' = Some CANCELLED" "\<not> blank ''SB-1''"
    using demo_race_report by (simp add: race_report_def, simp add: blank_def strip_def is_space_def)
  have "opt_holds (\<lambda>p. os_status p = CANCELLED \<and> os_requested_quantity p = Fin 10)
      (dict_get (pb_orders (en_broker demo_race)) ''SB-1'')"
    using demo_race_report by (simp add: race_report_def)
  then obtain prior where prior: "dict_get (pb_orders (en_broker demo_race)) ''SB-1'' = Some prior"
      "os_status prior = CANCELLED" "os_requested_quantity prior = Fin 10"
    by (auto simp: opt_holds_def split: option.splits)
  have "returns (\<lambda>_. True) (fst (fill_remaining demo_paper ''SB-1'' True (en_broker demo_race)))"
    using demo_race_report by (simp add: race_report_def)
  then obtain snap b where "fill_remaining demo_paper ''SB-1'' True (en_broker demo_race) = (Inr snap, b)"
    by (cases "fill_remaining demo_paper ''SB-1'' True (en_broker demo_race)") (auto simp: returns_iff)
  with cancel_race_settled [OF w ok st(2,1) prior(1,2) this] prior(3) show ?thesis by auto
qed

end
