(* ===== verification/PortfolioProperties.thy ===== *)
theory PortfolioProperties
  imports Portfolio PaperProperties
begin

text \<open>
  What the portfolio boundary promises to its neighbours: an approval is within every configured
  limit of the projected portfolio, and the classification and projection of a trade in whole
  shares are accepted by the risk contracts and agree with the books of the paper broker.
\<close>

section \<open>The limits\<close>

lemma first_check_None: "first_check cs = None \<longleftrightarrow> (\<forall>c \<in> set cs. c = None)"
  by (induction cs rule: first_check.induct) auto

lemma check_fraction_None:
  "check_fraction limit fraction code msg = Inr c \<Longrightarrow>
     c = None \<longleftrightarrow> (\<forall>m. limit = Some m \<longrightarrow> returns (\<lambda>x. \<not> fless (fadd m (lit (1 / 10 ^ 12))) x) fraction)"
  by (auto simp: check_fraction_def returns_iff split: option.splits if_splits)

definition within_limit :: "pyfloat option \<Rightarrow> pyfloat res \<Rightarrow> bool" where
  "within_limit limit fraction \<longleftrightarrow> (case limit of None \<Rightarrow> True
     | Some m \<Rightarrow> returns (\<lambda>x. \<not> fless (fadd m (lit (1 / 10 ^ 12))) x) fraction)"

lemma check_fraction_within:
  "check_fraction limit fraction code msg = Inr c \<Longrightarrow> c = None \<longleftrightarrow> within_limit limit fraction"
  by (auto simp: check_fraction_None within_limit_def split: option.splits)

lemma portfolio_evaluate_limits:
  assumes "portfolio_evaluate l s t = Inr d" and "projected_snapshot s t = Inr p"
  shows "(pd_action d = PA_APPROVE) \<longleftrightarrow>
      \<not> opt_holds (\<lambda>m. m < int (position_count p)) (pl_max_positions l) \<and>
      within_limit (pl_max_gross_exposure_fraction l) (gross_exposure_fraction p) \<and>
      within_limit (pl_max_symbol_exposure_fraction l) (symbol_exposure_fraction p (ti_symbol t)) \<and>
      (intent_sector t p \<in> {None, Some []} \<or>
        within_limit (pl_max_sector_exposure_fraction l) (sector_exposure_fraction p (intent_sector t p)))"
    and "gross_exposure_fraction p = Inr (pd_projected_gross_exposure_fraction d) \<and>
      pd_projected_position_count d = position_count p \<and> pd_symbol d = ti_symbol t \<and>
      (pd_reason_code d = ''PORTFOLIO_OK'') = (pd_action d = PA_APPROVE)"
proof -
  obtain c :: PositionTransitionResult and checks where run: "portfolio_checks l p t = Inr checks"
      "(case first_check checks of
         Some why \<Rightarrow> portfolio_decision s p t PA_REJECT why (pt_transition c)
       | None \<Rightarrow> portfolio_decision s p t PA_APPROVE
           (''PORTFOLIO_OK'', ''Portfolio-level constraints passed.'') (pt_transition c)) = Inr d"
    using assms by (auto simp: portfolio_evaluate_def)
  obtain gross symbol sector where checks:
      "check_gross_exposure l p = Inr gross" "check_symbol_limit l p (ti_symbol t) = Inr symbol"
      "check_sector_limit l p (intent_sector t p) = Inr sector"
      "checks = [check_position_count l (position_count p), gross, symbol, sector]"
    using run(1) by (auto simp: portfolio_checks_def)
  have limits: "gross = None \<longleftrightarrow> within_limit (pl_max_gross_exposure_fraction l) (gross_exposure_fraction p)"
    "symbol = None \<longleftrightarrow> within_limit (pl_max_symbol_exposure_fraction l) (symbol_exposure_fraction p (ti_symbol t))"
    using checks(1,2) check_fraction_within by (auto simp: check_gross_exposure_def check_symbol_limit_def)
  have sec: "sector = None \<longleftrightarrow> intent_sector t p \<in> {None, Some []} \<or>
        within_limit (pl_max_sector_exposure_fraction l) (sector_exposure_fraction p (intent_sector t p))"
    using checks(3) by (auto simp: check_sector_limit_def dest: check_fraction_within split: if_splits)
  have "pd_action d = PA_APPROVE \<longleftrightarrow> first_check checks = None"
    using run(2) by (auto simp: portfolio_decision_def split: option.splits)
  then show "(pd_action d = PA_APPROVE) \<longleftrightarrow>
      \<not> opt_holds (\<lambda>m. m < int (position_count p)) (pl_max_positions l) \<and>
      within_limit (pl_max_gross_exposure_fraction l) (gross_exposure_fraction p) \<and>
      within_limit (pl_max_symbol_exposure_fraction l) (symbol_exposure_fraction p (ti_symbol t)) \<and>
      (intent_sector t p \<in> {None, Some []} \<or>
        within_limit (pl_max_sector_exposure_fraction l) (sector_exposure_fraction p (intent_sector t p)))"
    unfolding first_check_None checks(4) limits [symmetric] sec [symmetric]
    by (auto simp: check_position_count_def)
  have codes: "c = (code, msg) \<Longrightarrow> Some c \<in> set checks \<Longrightarrow> code \<noteq> ''PORTFOLIO_OK''" for c code msg
    using checks by (auto simp: check_position_count_def check_gross_exposure_def check_symbol_limit_def
        check_sector_limit_def check_fraction_def split: option.splits if_splits)
  have "first_check checks = Some c \<Longrightarrow> Some c \<in> set checks" for c
    by (induction checks rule: first_check.induct) auto
  then show "gross_exposure_fraction p = Inr (pd_projected_gross_exposure_fraction d) \<and>
      pd_projected_position_count d = position_count p \<and> pd_symbol d = ti_symbol t \<and>
      (pd_reason_code d = ''PORTFOLIO_OK'') = (pd_action d = PA_APPROVE)"
    using run(2) codes by (auto simp: portfolio_decision_def split: option.splits)
qed

text \<open>The portfolio manager approves exactly the trades whose projected portfolio is within every
  configured limit: the number of positions, the gross exposure, the exposure to the symbol and
  the exposure to its sector (the intent's, or the held position's when the intent omits it);
  every other evaluation is a rejection, and the decision reports the projected portfolio.\<close>
theorem portfolio_approves_within_limits:
  assumes "portfolio_evaluate l s t = Inr d" and "projected_snapshot s t = Inr p"
  shows "((pd_action d = PA_APPROVE) \<longleftrightarrow>
      \<not> opt_holds (\<lambda>m. m < int (position_count p)) (pl_max_positions l) \<and>
      within_limit (pl_max_gross_exposure_fraction l) (gross_exposure_fraction p) \<and>
      within_limit (pl_max_symbol_exposure_fraction l) (symbol_exposure_fraction p (ti_symbol t)) \<and>
      (intent_sector t p \<in> {None, Some []} \<or>
        within_limit (pl_max_sector_exposure_fraction l) (sector_exposure_fraction p (intent_sector t p)))) \<and>
    gross_exposure_fraction p = Inr (pd_projected_gross_exposure_fraction d) \<and>
    pd_projected_position_count d = position_count p \<and> pd_symbol d = ti_symbol t \<and>
    (pd_reason_code d = ''PORTFOLIO_OK'') = (pd_action d = PA_APPROVE)"
  using portfolio_evaluate_limits [OF assms] by simp

section \<open>Whole shares\<close>

text \<open>A product of whole shares keeps its sign.\<close>

lemma whole_product:
  shows "nonpos (fmul (Fin (of_int e)) (Fin (of_int p))) \<longleftrightarrow> e * p \<le> 0"
    and "nonneg (fmul (Fin (of_int e)) (Fin (of_int p))) \<longleftrightarrow> 0 \<le> e * p"
proof -
  have product: "(of_int e * of_int p :: rat) = of_int (e * p)" by simp
  have one: "rnd 1 = Fin 1" "rnd (- 1) = Fin (- 1)" using rnd_int [of 1] rnd_int [of "- 1"] by simp_all
  have "fle (Fin 1) (rnd (of_int (e * p)))" if "0 < e * p"
    using that by (intro double.lower_bound one) (simp del: of_int_mult)
  moreover have "fle (rnd (of_int (e * p))) (Fin (- 1))" if "e * p < 0"
  proof (rule double.upper_bound [OF one(2)])
    show "of_int (e * p) \<le> (- 1 :: rat)" using that by (simp add: of_int_le_iff [of _ "- 1", simplified] del: of_int_mult)
  qed
  ultimately show "nonpos (fmul (Fin (of_int e)) (Fin (of_int p))) \<longleftrightarrow> e * p \<le> 0"
    and "nonneg (fmul (Fin (of_int e)) (Fin (of_int p))) \<longleftrightarrow> 0 \<le> e * p"
    using double.nonpos [of "of_int (e * p)"] double.nonneg [of "of_int (e * p)"]
    unfolding fmul_Fin product by (cases "rnd (of_int (e * p))"; cases "e * p" "0 :: int" rule: linorder_cases; force)+
qed

definition whole_intent :: "TradeIntent \<Rightarrow> int \<Rightarrow> bool" where
  "whole_intent t k = (ti_quantity t = Fin (of_int k) \<and> 0 < k \<and> ti_side t \<in> {''BUY'', ''SELL''})"

lemma classify_whole:
  assumes "whole_intent t k" "\<bar>h\<bar> + k \<le> 2 ^ 53"
    and "(case existing of None \<Rightarrow> Fin 0 | Some q \<Rightarrow> pp_quantity q) = Fin (of_int h)"
  defines "d \<equiv> (if ti_side t = ''BUY'' then k else - k)"
  obtains c where "classify_position_transition existing t = Inr c"
    "pt_existing_quantity c = Fin (of_int h)" "pt_projected_quantity c = Fin (of_int (h + d))"
    "make_position_context \<lparr>pc_transition = pt_transition c, pc_existing_quantity = pt_existing_quantity c,
       pc_projected_quantity = pt_projected_quantity c\<rparr> =
     Inr \<lparr>pc_transition = pt_transition c, pc_existing_quantity = pt_existing_quantity c,
       pc_projected_quantity = pt_projected_quantity c\<rparr>"
proof -
  have k: "0 < k" "ti_quantity t = Fin (of_int k)" using assms(1) by (simp_all add: whole_intent_def)
  have d: "intent_delta t = Fin (of_int d)" "d \<noteq> 0" "\<bar>d\<bar> = k" using k by (auto simp: intent_delta_def d_def)
  have sum: "rnd (of_int h + of_int d) = Fin (of_int (h + d))"
    using rnd_int [of "h + d"] assms(2) d(3) by simp
  have bounds: "\<bar>h\<bar> \<le> 2 ^ 53" "\<bar>h + d\<bar> \<le> 2 ^ 53" using assms(2) d(3) k(1) by linarith+
  note product = whole_product [of h "h + d"]
  define c where "c = \<lparr>pt_transition =
      (if h = 0 then T_OPEN else if h + d = 0 then T_FLATTEN
       else if 0 < h * d then T_INCREASE else if 0 < h * (h + d) then T_REDUCE else T_REVERSE),
      pt_existing_quantity = Fin (of_int h), pt_projected_quantity = Fin (of_int (h + d))\<rparr>"
  have signs: "0 < h * d \<longleftrightarrow> (0 < h \<and> 0 < d) \<or> (h < 0 \<and> d < 0)"
      "0 < h * (h + d) \<longleftrightarrow> (0 < h \<and> 0 < h + d) \<or> (h < 0 \<and> h + d < 0)"
    by (simp_all add: zero_less_mult_iff)
  have classified: "classify_position_transition existing t = Inr c"
    unfolding classify_position_transition_def Let_def assms(3) d(1) c_def signs
    using sum d(2) by (auto simp del: of_int_add)
  show thesis
  proof (rule that [OF classified])
    show "make_position_context \<lparr>pc_transition = pt_transition c, pc_existing_quantity = pt_existing_quantity c,
       pc_projected_quantity = pt_projected_quantity c\<rparr> =
     Inr \<lparr>pc_transition = pt_transition c, pc_existing_quantity = pt_existing_quantity c,
       pc_projected_quantity = pt_projected_quantity c\<rparr>"
      using product d(2) signs mult_eq_0_iff [of h "h + d"]
      by (auto simp: make_position_context_def c_def Let_def not_le simp del: of_int_add fmul_Fin)
  qed (simp_all add: c_def)
qed

section \<open>The projected portfolio\<close>

lemma dict_get_of_list: "distinct (map fst xs) \<Longrightarrow> dict_get (dict_of_list xs) = map_of xs"
proof -
  have "distinct (map fst xs) \<Longrightarrow> dict_get (fold (\<lambda>(k, v). dict_set k v) xs d) k =
      (case map_of xs k of None \<Rightarrow> dict_get d k | Some v \<Rightarrow> Some v)" for d k
    by (induction xs arbitrary: d) (auto split: option.splits simp: map_of_eq_None_iff [symmetric])
  then show "distinct (map fst xs) \<Longrightarrow> dict_get (dict_of_list xs) = map_of xs"
    by (auto simp: dict_of_list_def fun_eq_iff split: option.splits)
qed

lemma position_of_iff:
  "distinct (map pp_symbol ps) \<Longrightarrow> position_of k ps = Some p \<longleftrightarrow> p \<in> set ps \<and> pp_symbol p = k"
  by (induction ps) (auto simp: position_of_def)

lemma positions_by_symbol_get:
  "distinct (map pp_symbol ps) \<Longrightarrow> dict_get (positions_by_symbol ps) k = position_of k ps"
proof -
  have "map_of (map (\<lambda>p. (pp_symbol p, p)) ps) k = position_of k ps"
    by (induction ps) (auto simp: position_of_def)
  then show "distinct (map pp_symbol ps) \<Longrightarrow> dict_get (positions_by_symbol ps) k = position_of k ps"
    by (simp add: positions_by_symbol_def dict_get_of_list comp_def)
qed

text \<open>A dictionary of positions under their own symbols, and its sorted values.\<close>

definition by_symbol :: "(string, PortfolioPosition) dict \<Rightarrow> bool" where
  "by_symbol d \<longleftrightarrow> dict_ok d \<and> (\<forall>k p. dict_get d k = Some p \<longrightarrow> pp_symbol p = k)"

lemma by_symbol_update:
  "by_symbol d \<Longrightarrow> by_symbol (dict_pop k d)"
  "by_symbol d \<Longrightarrow> pp_symbol p = k \<Longrightarrow> by_symbol (dict_set k p d)"
  by (auto simp: by_symbol_def split: if_splits)

lemma by_symbol_positions:
  assumes "distinct (map pp_symbol ps)"
  shows "by_symbol (positions_by_symbol ps)"
  using assms dict_ok_of_list
  by (auto simp: by_symbol_def positions_by_symbol_get position_of_iff) (auto simp: positions_by_symbol_def)

lemma by_symbol_values:
  assumes "by_symbol d"
  shows "distinct (map pp_symbol (sort_key pp_symbol (dict_values d)))"
    and "position_of k (sort_key pp_symbol (dict_values d)) = dict_get d k"
proof -
  have own: "pp_symbol p = k" if "(k, p) \<in> set d" for k p
    using assms that by (auto simp: by_symbol_def)
  then have keys: "map pp_symbol (dict_values d) = dict_keys d" by (auto intro!: map_cong)
  have "distinct (map pp_symbol (dict_values d))" using assms unfolding keys by_symbol_def by blast
  then show "distinct (map pp_symbol (sort_key pp_symbol (dict_values d)))"
    by (simp only: distinct_map distinct_sort set_sort)
  note found = position_of_iff [OF this, of k]
  have "position_of k (sort_key pp_symbol (dict_values d)) = Some p \<longleftrightarrow> dict_get d k = Some p" for p
    using assms own unfolding found by_symbol_def by (force simp: map_of_eq_Some_iff)
  then show "position_of k (sort_key pp_symbol (dict_values d)) = dict_get d k"
    by (cases "dict_get d k") (simp_all add: option.expand, metis not_None_eq)
qed

definition held_quantity :: "PortfolioPosition list \<Rightarrow> string \<Rightarrow> pyfloat" where
  "held_quantity ps k = (case position_of k ps of None \<Rightarrow> Fin 0 | Some p \<Rightarrow> pp_quantity p)"

lemma make_trade_intent_facts:
  assumes "make_trade_intent t = Inr t"
  shows "symbol_of (ti_symbol t) = ti_symbol t" "ti_symbol t \<noteq> []" "ti_side t \<in> {''BUY'', ''SELL''}"
    "isfinite (ti_price t)" "\<not> nonpos (ti_price t)" "\<not> nonpos (ti_quantity t)"
proof -
  have "t\<lparr>ti_symbol := symbol_of (ti_symbol t), ti_side := symbol_of (ti_side t),
      ti_sector := clean_sector (ti_sector t)\<rparr> = t"
    using assms by (auto simp: make_trade_intent_def Let_def split: if_splits)
  from arg_cong [OF this, of ti_symbol] arg_cong [OF this, of ti_side]
  have "symbol_of (ti_symbol t) = ti_symbol t" "symbol_of (ti_side t) = ti_side t" by simp_all
  then show "symbol_of (ti_symbol t) = ti_symbol t" "ti_symbol t \<noteq> []" "ti_side t \<in> {''BUY'', ''SELL''}"
    "isfinite (ti_price t)" "\<not> nonpos (ti_price t)" "\<not> nonpos (ti_quantity t)"
    using assms by (auto simp: make_trade_intent_def Let_def split: if_splits)
qed

lemma whole_positive: "make_trade_intent t = Inr t \<Longrightarrow> ti_quantity t = Fin (of_int k) \<Longrightarrow> 0 < k"
  using make_trade_intent_facts(6) [of t] by simp

lemma position_tolerance: "fless (fabs (Fin (of_int n))) (lit (1 / 10 ^ 12)) \<longleftrightarrow> n = 0"
proof -
  have tol: "fpos (lit (1 / 10 ^ 12))" "fle (lit (1 / 10 ^ 12)) (Fin 1)" by code_simp+
  have "\<not> fless (Fin (of_int \<bar>n\<bar>)) (lit (1 / 10 ^ 12))" if "n \<noteq> 0"
  proof
    assume "fless (Fin (of_int \<bar>n\<bar>)) (lit (1 / 10 ^ 12))"
    from fless_le_trans [OF this tol(2)] show False using that by simp
  qed
  then show ?thesis using tol(1) by (cases "n = 0") auto
qed

lemma projected_snapshot_whole:
  assumes snapshot: "make_portfolio_snapshot s = Inr s" and intent: "make_trade_intent t = Inr t"
    and whole: "ti_quantity t = Fin (of_int k)"
    and held: "held_quantity (po_positions s) (ti_symbol t) = Fin (of_int h)" "\<bar>h\<bar> + k \<le> 2 ^ 53"
  defines "d \<equiv> (if ti_side t = ''BUY'' then k else - k)"
  obtains p where "projected_snapshot s t = Inr p" "sorted (map pp_symbol (po_positions p))"
     "\<And>stock. held_quantity (po_positions p) stock =
        (if stock = ti_symbol t then Fin (of_int (h + d)) else held_quantity (po_positions s) stock)"
proof -
  note t = make_trade_intent_facts [OF intent]
  have s: "aware (po_as_of s)" "isfinite (po_equity s)" "\<not> nonpos (po_equity s)" "distinct (map pp_symbol (po_positions s))"
    using snapshot by (auto simp: make_portfolio_snapshot_def split: if_splits)
  define d0 where "d0 = positions_by_symbol (po_positions s)"
  have d0: "by_symbol d0" "\<And>k. dict_get d0 k = position_of k (po_positions s)"
    using s(4) by (simp_all add: d0_def by_symbol_positions positions_by_symbol_get)
  have "0 < k" by (rule whole_positive [OF intent whole])
  then have delta: "intent_delta t = Fin (of_int d)" "\<bar>h + d\<bar> \<le> 2 ^ 53"
    using whole held(2) by (auto simp: intent_delta_def d_def)
  have quantity: "fadd (case position_of (ti_symbol t) (po_positions s) of None \<Rightarrow> Fin 0 | Some p \<Rightarrow> pp_quantity p)
      (intent_delta t) = Fin (of_int (h + d))"
    using held(1) rnd_int [OF delta(2)] by (simp add: held_quantity_def delta(1))
  have "\<exists>d1. projected_positions s t = Inr (sort_key pp_symbol (dict_values d1)) \<and> by_symbol d1 \<and>
      (\<forall>stock. (case dict_get d1 stock of None \<Rightarrow> Fin 0 | Some p \<Rightarrow> pp_quantity p) =
        (if stock = ti_symbol t then Fin (of_int (h + d)) else held_quantity (po_positions s) stock))"
  proof (cases "h + d = 0")
    case True
    have "projected_positions s t = Inr (sort_key pp_symbol (dict_values (dict_pop (ti_symbol t) d0)))"
      using True position_tolerance [of "h + d"]
      unfolding projected_positions_def Let_def d0_def [symmetric] d0(2) quantity by simp
    then show ?thesis
      using True d0 by (intro exI [of _ "dict_pop (ti_symbol t) d0"]) (simp add: by_symbol_update held_quantity_def)
  next
    case False
    obtain p where p: "make_portfolio_position \<lparr>pp_symbol = ti_symbol t, pp_quantity = Fin (of_int (h + d)),
           pp_mark_price = ti_price t,
           pp_sector = (case ti_sector t of Some sec \<Rightarrow> Some sec
             | None \<Rightarrow> Option.bind (position_of (ti_symbol t) (po_positions s)) pp_sector)\<rparr> = Inr p"
        "pp_symbol p = ti_symbol t" "pp_quantity p = Fin (of_int (h + d))"
      using t(1,2,4,5) by (simp add: make_portfolio_position_def)
    have "projected_positions s t = Inr (sort_key pp_symbol (dict_values (dict_set (ti_symbol t) p d0)))"
      using False position_tolerance [of "h + d"] p(1)
      unfolding projected_positions_def Let_def d0_def [symmetric] d0(2) quantity by (simp del: of_int_add)
    then show ?thesis
      using d0 p(2,3) by (intro exI [of _ "dict_set (ti_symbol t) p d0"]) (simp add: by_symbol_update held_quantity_def)
  qed
  then obtain d1 where d1: "projected_positions s t = Inr (sort_key pp_symbol (dict_values d1))" "by_symbol d1"
      "\<And>stock. (case dict_get d1 stock of None \<Rightarrow> Fin 0 | Some p \<Rightarrow> pp_quantity p) =
        (if stock = ti_symbol t then Fin (of_int (h + d)) else held_quantity (po_positions s) stock)" by blast
  show thesis
  proof (rule that)
    show "projected_snapshot s t = Inr \<lparr>po_as_of = po_as_of s, po_equity = po_equity s,
        po_positions = sort_key pp_symbol (dict_values d1)\<rparr>"
      using d1(1) s(1-3) by_symbol_values(1) [OF d1(2)] by (simp add: projected_snapshot_def make_portfolio_snapshot_def)
  qed (use d1(3) by_symbol_values(2) [OF d1(2)] in \<open>simp_all add: held_quantity_def\<close>)
qed

text \<open>C24. What the portfolio projects is what the paper broker books. Take a constructed snapshot and
  intent for whole shares, and paper positions with the same holdings. Then the transition is
  classified, the risk contracts accept it as a position context, the projection succeeds with
  positions sorted by symbol, the fill of the intent's quantity is booked, and the projected
  portfolio, the classification and the paper positions agree on every symbol afterwards.\<close>
theorem projection_matches_paper_books:
  assumes snapshot: "make_portfolio_snapshot s = Inr s" and intent: "make_trade_intent t = Inr t"
    and whole: "ti_quantity t = Fin (of_int k)"
    and held: "held_quantity (po_positions s) (ti_symbol t) = Fin (of_int h)" "\<bar>h\<bar> + k \<le> 2 ^ 53"
    and books: "\<forall>stock. net ps stock = held_quantity (po_positions s) stock"
    and book: "book_ok n ps" "0 \<le> n" "n + k \<le> 2 ^ 53"
    and fill: "or_symbol r = ti_symbol t" "or_side r = (if ti_side t = ''BUY'' then BUY else SELL)"
      "fl_quantity f = ti_quantity t" "price_ok (fl_price f)"
  shows "\<exists>c p ps'. classify_position_transition (position_of (ti_symbol t) (po_positions s)) t = Inr c \<and>
    make_position_context \<lparr>pc_transition = pt_transition c, pc_existing_quantity = pt_existing_quantity c,
       pc_projected_quantity = pt_projected_quantity c\<rparr> =
      Inr \<lparr>pc_transition = pt_transition c, pc_existing_quantity = pt_existing_quantity c,
       pc_projected_quantity = pt_projected_quantity c\<rparr> \<and>
    projected_snapshot s t = Inr p \<and> sorted (map pp_symbol (po_positions p)) \<and>
    apply_fill r f ps = Inr ps' \<and> net ps' (ti_symbol t) = pt_projected_quantity c \<and>
    (\<forall>stock. net ps' stock = held_quantity (po_positions p) stock)"
proof -
  have t: "symbol_of (ti_symbol t) = ti_symbol t" "ti_symbol t \<noteq> []" "0 < k" "ti_side t \<in> {''BUY'', ''SELL''}"
      "isfinite (ti_price t)" "\<not> nonpos (ti_price t)"
    by (rule make_trade_intent_facts [OF intent] whole_positive [OF intent whole])+
  have s: "aware (po_as_of s)" "isfinite (po_equity s)" "\<not> nonpos (po_equity s)" "distinct (map pp_symbol (po_positions s))"
    using snapshot by (auto simp: make_portfolio_snapshot_def split: if_splits)
  have w: "whole_intent t k" using whole t by (simp add: whole_intent_def)
  define d where "d = (if ti_side t = ''BUY'' then k else - k)"
  have "(case position_of (ti_symbol t) (po_positions s) of None \<Rightarrow> Fin 0 | Some q \<Rightarrow> pp_quantity q) = Fin (of_int h)"
    using held(1) by (simp add: held_quantity_def)
  from classify_whole [OF w held(2) this] obtain c where c:
      "classify_position_transition (position_of (ti_symbol t) (po_positions s)) t = Inr c"
      "pt_projected_quantity c = Fin (of_int (h + d))"
      "make_position_context \<lparr>pc_transition = pt_transition c, pc_existing_quantity = pt_existing_quantity c,
       pc_projected_quantity = pt_projected_quantity c\<rparr> =
      Inr \<lparr>pc_transition = pt_transition c, pc_existing_quantity = pt_existing_quantity c,
       pc_projected_quantity = pt_projected_quantity c\<rparr>" unfolding d_def by metis
  have shares: "shares f = k" using fill(3) whole by (simp add: shares_def)
  have "whole_fill (r, f)"
    using shares fill whole t(1,2,3) by (auto simp: whole_fill_def blank_def upper_def)
  moreover have "net ps (or_symbol r) = Fin (of_int h)" using books held(1) fill(1) by simp
  ultimately obtain ps' where ps': "apply_fill r f ps = Inr ps'"
      "net ps' (ti_symbol t) = Fin (of_int (h + signed_shares (r, f)))"
      "\<And>stock. stock \<noteq> ti_symbol t \<Longrightarrow> net ps' stock = net ps stock"
    using apply_fill_exact [OF book(1,2), of r f h] shares book(3) fill(1) by metis
  have signed: "signed_shares (r, f) = d" using shares fill(2) t(4) by (simp add: signed_shares_def d_def)
  obtain p where p: "projected_snapshot s t = Inr p" "sorted (map pp_symbol (po_positions p))"
     "\<And>stock. held_quantity (po_positions p) stock =
        (if stock = ti_symbol t then Fin (of_int (h + d)) else held_quantity (po_positions s) stock)"
    using projected_snapshot_whole [OF snapshot intent whole held] unfolding d_def by metis
  show ?thesis
  proof (intro exI [of _ c] exI [of _ p] exI [of _ ps'] conjI c(1,3) p(1,2) ps'(1))
    show "net ps' (ti_symbol t) = pt_projected_quantity c" using ps'(2) c(2) signed by simp
    show "\<forall>stock. net ps' stock = held_quantity (po_positions p) stock"
      using ps' p(3) books signed by simp
  qed
qed

section \<open>Inputs on which the properties apply\<close>

definition demo_portfolio :: PortfolioSnapshot where
  "demo_portfolio = \<lparr>po_as_of = \<lparr>ns = 0, zone = Some 0\<rparr>, po_equity = Fin 10000,
     po_positions = [\<lparr>pp_symbol = ''ABC'', pp_quantity = Fin 10, pp_mark_price = Fin 100, pp_sector = None\<rparr>]\<rparr>"

definition demo_intent :: TradeIntent where
  "demo_intent = \<lparr>ti_symbol = ''ABC'', ti_quantity = Fin 14, ti_price = Fin 100, ti_side = ''SELL'',
     ti_sector = None, ti_decision_id = ''d1''\<rparr>"

definition demo_limits :: PortfolioLimits where
  "demo_limits = \<lparr>pl_max_positions = Some 1, pl_max_gross_exposure_fraction = Some (Fin (1 / 2)),
     pl_max_symbol_exposure_fraction = None, pl_max_sector_exposure_fraction = None\<rparr>"

lemma portfolio_approves_within_limits_witness:
  "\<exists>d p. portfolio_evaluate demo_limits demo_portfolio demo_intent = Inr d \<and>
     projected_snapshot demo_portfolio demo_intent = Inr p \<and> pd_action d = PA_APPROVE \<and>
     within_limit (Some (Fin (1 / 2))) (gross_exposure_fraction p)"
proof -
  have "returns (\<lambda>d. pd_action d = PA_APPROVE) (portfolio_evaluate demo_limits demo_portfolio demo_intent)"
    "returns (\<lambda>_. True) (projected_snapshot demo_portfolio demo_intent)" by code_simp+
  then obtain d p where r: "portfolio_evaluate demo_limits demo_portfolio demo_intent = Inr d"
      "projected_snapshot demo_portfolio demo_intent = Inr p" "pd_action d = PA_APPROVE"
    by (auto simp: returns_iff)
  from portfolio_approves_within_limits [OF r(1,2)] r show ?thesis by (auto simp: demo_limits_def)
qed

lemma projection_matches_paper_books_witness:
  "\<exists>c p. classify_position_transition (position_of ''ABC'' (po_positions demo_portfolio)) demo_intent = Inr c \<and>
     projected_snapshot demo_portfolio demo_intent = Inr p \<and>
     held_quantity (po_positions p) ''ABC'' = pt_projected_quantity c"
proof -
  let ?ps = "[(''ABC'', \<lparr>ps_symbol = ''ABC'', ps_position = Fin 10, ps_average_price = Fin 100\<rparr>)]"
  let ?f = "\<lparr>fl_fill_id = ''F1'', fl_client_order_id = ''SB-1'', fl_quantity = Fin 14, fl_price = Fin 100,
     fl_fee = Fin 0, fl_timestamp = \<lparr>ns = 0, zone = Some 0\<rparr>\<rparr>"
  let ?r = "demo_order\<lparr>or_side := SELL\<rparr>"
  have s: "make_portfolio_snapshot demo_portfolio = Inr demo_portfolio" "make_trade_intent demo_intent = Inr demo_intent"
    by code_simp+
  have q: "ti_quantity demo_intent = Fin (of_int 14)" by (simp add: demo_intent_def)
  have held: "held_quantity (po_positions demo_portfolio) (ti_symbol demo_intent) = Fin (of_int 10)"
      "\<bar>10\<bar> + 14 \<le> (2 ^ 53 :: int)"
    by (simp_all add: held_quantity_def position_of_def demo_portfolio_def demo_intent_def)
  have books: "\<forall>stock. net ?ps stock = held_quantity (po_positions demo_portfolio) stock"
    by (auto simp: net_def held_quantity_def position_of_def demo_portfolio_def)
  have book: "book_ok 10 ?ps" "0 \<le> (10 :: int)" "10 + 14 \<le> (2 ^ 53 :: int)"
    by (auto simp: book_ok_def price_ok_def price_cap_def intro: exI [of _ 10])
  have fill: "or_symbol ?r = ti_symbol demo_intent" "or_side ?r = (if ti_side demo_intent = ''BUY'' then BUY else SELL)"
      "fl_quantity ?f = ti_quantity demo_intent" "price_ok (fl_price ?f)"
    by (simp_all add: demo_order_def demo_intent_def price_ok_def price_cap_def)
  from projection_matches_paper_books [OF s q held books book fill] show ?thesis
    by (auto simp: demo_intent_def)
qed

end
