(* ===== verification/Candles.thy ===== *)
theory Candles
  imports StrategyModels
begin

text \<open>
  \<open>market/data/events/market_event.py\<close>, \<open>market/candles/models.py\<close> and
  \<open>market/candles/aggregator.py\<close>: trades become candles of a fixed length, aligned to the trading
  session. Instants are nanoseconds; the time zone of the session is a fixed offset from UTC
  (\<open>Asia/Kolkata\<close> has one). The code divides \<open>total_seconds()\<close>, a float, by the length of a
  candle: its time stamps are whole microseconds of one day, for which the quotient rounds down to
  the quotient of the integers.
\<close>

section \<open>Events and candles\<close>

datatype MarketEventType = TRADE | QUOTE | BAR

record MarketEvent =
  me_event_id :: string
  me_symbol :: string
  me_exchange :: string
  me_event_type :: MarketEventType
  me_price :: pyfloat
  me_volume :: pyfloat
  me_exchange_timestamp :: pytime
  me_received_timestamp :: pytime
  me_sequence_number :: "int option"

definition make_market_event :: "MarketEvent \<Rightarrow> MarketEvent res" where
  "make_market_event e = rbind (first_error
     [(blank (me_event_id e), ''event_id must not be empty''),
      (blank (me_symbol e), ''symbol must not be empty''),
      (blank (me_exchange e), ''exchange must not be empty''),
      (\<not> isfinite (me_price e) \<or> nonpos (me_price e), ''price must be finite and greater than zero''),
      (\<not> isfinite (me_volume e) \<or> fneg_lt (me_volume e), ''volume must be finite and non-negative''),
      (\<not> aware (me_exchange_timestamp e), ''exchange_timestamp must be timezone-aware''),
      (\<not> aware (me_received_timestamp e), ''received_timestamp must be timezone-aware''),
      (opt_holds (\<lambda>n. n < 0) (me_sequence_number e), ''sequence_number must be non-negative'')])
     (\<lambda>_. Inr e)"

record Candle =
  cd_symbol :: string
  cd_exchange :: string
  cd_timeframe_minutes :: int
  cd_timestamp :: pytime
  cd_open :: pyfloat
  cd_high :: pyfloat
  cd_low :: pyfloat
  cd_close :: pyfloat
  cd_volume :: pyfloat

definition bad_price :: "pyfloat \<Rightarrow> bool" where
  "bad_price x = (\<not> isfinite x \<or> nonpos x)"

definition make_candle :: "Candle \<Rightarrow> Candle res" where
  "make_candle c = rbind (first_error
     [(blank (cd_symbol c), ''symbol must not be empty''),
      (blank (cd_exchange c), ''exchange must not be empty''),
      (cd_timeframe_minutes c \<le> 0, ''timeframe_minutes must be greater than zero''),
      (\<not> aware (cd_timestamp c), ''timestamp must be timezone-aware''),
      (bad_price (cd_open c), ''open must be finite and greater than zero''),
      (bad_price (cd_high c), ''high must be finite and greater than zero''),
      (bad_price (cd_low c), ''low must be finite and greater than zero''),
      (bad_price (cd_close c), ''close must be finite and greater than zero''),
      (fless (cd_high c) (fmax (cd_open c) (cd_close c)), ''high must be greater than or equal to open and close''),
      (fless (fmin (cd_open c) (cd_close c)) (cd_low c), ''low must be less than or equal to open and close''),
      (fless (cd_high c) (cd_low c), ''low must be less than or equal to high''),
      (\<not> isfinite (cd_volume c) \<or> fneg_lt (cd_volume c), ''volume must be finite and non-negative'')])
     (\<lambda>_. Inr c)"

section \<open>The forming candle\<close>

record CandleState =
  st_symbol :: string
  st_exchange :: string
  st_timestamp :: pytime
  st_open :: pyfloat
  st_high :: pyfloat
  st_low :: pyfloat
  st_close :: pyfloat
  st_volume :: pyfloat
  st_last_event_timestamp :: pytime

definition candle_state_update :: "MarketEvent \<Rightarrow> CandleState \<Rightarrow> CandleState res" where
  "candle_state_update e s = rbind (time_less (me_exchange_timestamp e) (st_last_event_timestamp s)) (\<lambda>late.
     if late then Inl (ValueError ''market events must be supplied in chronological order'')
     else Inr (s\<lparr>st_high := fmax (st_high s) (me_price e), st_low := fmin (st_low s) (me_price e),
       st_close := me_price e, st_volume := fadd (st_volume s) (me_volume e),
       st_last_event_timestamp := me_exchange_timestamp e\<rparr>))"

definition to_candle :: "int \<Rightarrow> CandleState \<Rightarrow> Candle res" where
  "to_candle timeframe s = make_candle \<lparr>cd_symbol = st_symbol s, cd_exchange = st_exchange s,
     cd_timeframe_minutes = timeframe, cd_timestamp = st_timestamp s, cd_open = st_open s,
     cd_high = st_high s, cd_low = st_low s, cd_close = st_close s, cd_volume = st_volume s\<rparr>"

section \<open>The aggregator\<close>

text \<open>Session times are nanoseconds after midnight of the local day.\<close>

record CandleConfig =
  cc_timeframe_minutes :: int
  cc_session_start :: int
  cc_session_end :: int
  cc_offset :: int

abbreviation minute_ns :: int where
  "minute_ns \<equiv> 60000000000"

abbreviation day_ns :: int where
  "day_ns \<equiv> 86400000000000"

definition default_candle_config :: CandleConfig where
  "default_candle_config = \<lparr>cc_timeframe_minutes = 5, cc_session_start = (9 * 60 + 15) * minute_ns,
     cc_session_end = (15 * 60 + 30) * minute_ns, cc_offset = (5 * 60 + 30) * minute_ns\<rparr>"

definition make_candle_config :: "CandleConfig \<Rightarrow> CandleConfig res" where
  "make_candle_config c = rbind (first_error
     [(cc_timeframe_minutes c \<le> 0, ''timeframe_minutes must be greater than zero''),
      (cc_session_end c \<le> cc_session_start c, ''session_start must be earlier than session_end''),
      ((cc_session_end c - cc_session_start c) mod (cc_timeframe_minutes c * minute_ns) \<noteq> 0,
         ''timeframe_minutes must divide the session duration exactly'')])
     (\<lambda>_. Inr c)"

text \<open>A moment of the local day of an instant, as an instant.\<close>

definition local_midnight :: "CandleConfig \<Rightarrow> pytime \<Rightarrow> int" where
  "local_midnight c t = (ns t + cc_offset c) div day_ns * day_ns - cc_offset c"

definition session_bounds :: "CandleConfig \<Rightarrow> pytime \<Rightarrow> int \<times> int" where
  "session_bounds c t = (local_midnight c t + cc_session_start c, local_midnight c t + cc_session_end c)"

definition bucket_start :: "CandleConfig \<Rightarrow> pytime \<Rightarrow> pytime option" where
  "bucket_start c t = (case session_bounds c t of (start, stop) \<Rightarrow>
     if ns t < start then None
     else if ns t \<ge> stop then None
     else (let number = (ns t - start) div (cc_timeframe_minutes c * minute_ns) in
       Some \<lparr>ns = start + number * cc_timeframe_minutes c * minute_ns, zone = Some (cc_offset c)\<rparr>))"

definition create_state :: "MarketEvent \<Rightarrow> pytime \<Rightarrow> CandleState" where
  "create_state e start = \<lparr>st_symbol = me_symbol e, st_exchange = me_exchange e, st_timestamp = start,
     st_open = me_price e, st_high = me_price e, st_low = me_price e, st_close = me_price e,
     st_volume = me_volume e, st_last_event_timestamp = me_exchange_timestamp e\<rparr>"

type_synonym candle_states = "(string, CandleState) dict"

definition put_state :: "string \<Rightarrow> CandleState \<Rightarrow> (candle_states, unit) act" where
  "put_state symbol s = amod (dict_set symbol s)"

definition candle_update :: "CandleConfig \<Rightarrow> MarketEvent \<Rightarrow> (candle_states, Candle option) act" where
  "candle_update c e =
    (if me_event_type e \<noteq> TRADE
       then araise (ValueError ''CandleAggregator currently accepts trade events only'')
     else (case bucket_start c (me_exchange_timestamp e) of
       None \<Rightarrow> aret None
     | Some start \<Rightarrow>
         (let symbol = symbol_of (me_symbol e) in
          abind (aget (\<lambda>ss. dict_get ss symbol)) (\<lambda>current. case current of
            None \<Rightarrow> athen (put_state symbol (create_state e start)) (aret None)
          | Some s \<Rightarrow>
              abind (alift (time_less (me_exchange_timestamp e) (st_last_event_timestamp s))) (\<lambda>late.
              if late then araise (ValueError ''market events must be supplied in chronological order'')
              else if time_eq start (st_timestamp s) then
                abind (alift (candle_state_update e s)) (\<lambda>s'. athen (put_state symbol s') (aret None))
              else abind (alift (time_less start (st_timestamp s))) (\<lambda>early.
                if early then araise (ValueError ''market event belongs to an already completed candle'')
                else abind (alift (to_candle (cc_timeframe_minutes c) s)) (\<lambda>candle.
                  athen (put_state symbol (create_state e start)) (aret (Some candle)))))))))"

fun to_candles :: "int \<Rightarrow> CandleState list \<Rightarrow> Candle list res" where
  "to_candles timeframe [] = Inr []"
| "to_candles timeframe (s # ss) = rbind (to_candle timeframe s) (\<lambda>k.
     rbind (to_candles timeframe ss) (\<lambda>ks. Inr (k # ks)))"

definition candle_flush :: "CandleConfig \<Rightarrow> string option \<Rightarrow> (candle_states, Candle list) act" where
  "candle_flush c symbol = (case symbol of
      Some name \<Rightarrow>
        (let key = symbol_of name in
         abind (aget (\<lambda>ss. dict_get ss key)) (\<lambda>state.
         athen (amod (dict_pop key)) (case state of
             None \<Rightarrow> aret []
           | Some s \<Rightarrow> abind (alift (to_candle (cc_timeframe_minutes c) s)) (\<lambda>k. aret [k]))))
    | None \<Rightarrow>
        abind (aget (\<lambda>ss. to_candles (cc_timeframe_minutes c) (dict_values ss))) (\<lambda>made.
        abind (alift made) (\<lambda>ks. athen (amod (\<lambda>_. [])) (aret ks))))"

definition candle_reset :: "(candle_states, unit) act" where
  "candle_reset = amod (\<lambda>_. [])"

end
