(* ===== verification/CandleProperties.thy ===== *)
theory CandleProperties
  imports Candles
begin

text \<open>
  The aggregator computes what its documentation says: per symbol, the trades of the session
  grouped by candle slot. The reference definition groups the whole list of trades at once;
  the aggregator sees one event at a time, with the symbols interleaved.
\<close>

section \<open>The reference\<close>

definition in_session :: "CandleConfig \<Rightarrow> MarketEvent \<Rightarrow> bool" where
  "in_session c e = (bucket_start c (me_exchange_timestamp e) \<noteq> None)"

definition slot :: "CandleConfig \<Rightarrow> MarketEvent \<Rightarrow> int" where
  "slot c e = (case bucket_start c (me_exchange_timestamp e) of None \<Rightarrow> 0 | Some b \<Rightarrow> ns b)"

function runs :: "('e \<Rightarrow> int) \<Rightarrow> 'e list \<Rightarrow> 'e list list" where
  "runs f [] = []"
| "runs f (x # xs) = (x # takeWhile (\<lambda>y. f y = f x) xs) # runs f (dropWhile (\<lambda>y. f y = f x) xs)"
  by pat_completeness auto
termination
  by (relation "measure (\<lambda>(f, xs). length xs)") (auto simp: le_imp_less_Suc length_dropWhile_le)

definition trade_price :: "MarketEvent \<Rightarrow> rat" where
  "trade_price e = (case me_price e of Fin a \<Rightarrow> a | _ \<Rightarrow> 0)"

definition group_volume :: "MarketEvent list \<Rightarrow> pyfloat" where
  "group_volume g = foldl fadd (me_volume (hd g)) (map me_volume (tl g))"

definition candle_of :: "CandleConfig \<Rightarrow> MarketEvent list \<Rightarrow> Candle" where
  "candle_of c g = \<lparr>cd_symbol = me_symbol (hd g), cd_exchange = me_exchange (hd g),
     cd_timeframe_minutes = cc_timeframe_minutes c,
     cd_timestamp = \<lparr>ns = slot c (hd g), zone = Some (cc_offset c)\<rparr>,
     cd_open = me_price (hd g), cd_high = Fin (Max (trade_price ` set g)),
     cd_low = Fin (Min (trade_price ` set g)), cd_close = me_price (last g), cd_volume = group_volume g\<rparr>"

definition of_symbol :: "string \<Rightarrow> MarketEvent list \<Rightarrow> MarketEvent list" where
  "of_symbol name es = filter (\<lambda>e. symbol_of (me_symbol e) = name) es"

definition feed :: "CandleConfig \<Rightarrow> string \<Rightarrow> MarketEvent list \<Rightarrow> MarketEvent list" where
  "feed c name es = filter (in_session c) (of_symbol name es)"

definition reference_groups :: "CandleConfig \<Rightarrow> string \<Rightarrow> MarketEvent list \<Rightarrow> MarketEvent list list" where
  "reference_groups c name es = runs (slot c) (feed c name es)"

fun candle_run :: "CandleConfig \<Rightarrow> MarketEvent list \<Rightarrow> (candle_states, Candle list) act" where
  "candle_run c [] = aret []"
| "candle_run c (e # es) = abind (candle_update c e) (\<lambda>k. abind (candle_run c es) (\<lambda>ks.
     aret (case k of None \<Rightarrow> ks | Some k' \<Rightarrow> k' # ks)))"

section \<open>Slots\<close>

definition trade_ok :: "MarketEvent \<Rightarrow> bool" where
  "trade_ok e = (make_market_event e = Inr e \<and> me_event_type e = TRADE)"

definition candle_config_ok :: "CandleConfig \<Rightarrow> bool" where
  "candle_config_ok c = (make_candle_config c = Inr c \<and> 0 \<le> cc_session_start c \<and> cc_session_end c < day_ns)"

lemma candle_config_facts:
  "candle_config_ok c \<Longrightarrow> 0 < cc_timeframe_minutes c \<and> 0 \<le> cc_session_start c"
  by (auto simp: candle_config_ok_def make_candle_config_def split: if_splits)

lemma bucket_bounds:
  assumes "candle_config_ok c" "bucket_start c t = Some b"
  shows "ns b \<le> ns t" "ns t < ns b + cc_timeframe_minutes c * minute_ns"
    "local_midnight c t + cc_session_start c \<le> ns b" "zone b = Some (cc_offset c)"
proof -
  define w where "w = cc_timeframe_minutes c * minute_ns"
  define start where "start = local_midnight c t + cc_session_start c"
  have w: "0 < w" using candle_config_facts [OF assms(1)] by (simp add: w_def)
  have b: "ns b = start + (ns t - start) div w * w" "start \<le> ns t" "zone b = Some (cc_offset c)"
    using assms(2) by (auto simp: bucket_start_def session_bounds_def Let_def w_def start_def mult.assoc split: if_splits)
  have "(ns t - start) div w * w + (ns t - start) mod w = ns t - start" by (rule div_mult_mod_eq)
  moreover have "0 \<le> (ns t - start) mod w" "(ns t - start) mod w < w" using w by simp_all
  moreover have "0 \<le> (ns t - start) div w * w" using w b(2) by (simp add: pos_imp_zdiv_nonneg_iff)
  ultimately show "ns b \<le> ns t" "ns t < ns b + cc_timeframe_minutes c * minute_ns"
    "local_midnight c t + cc_session_start c \<le> ns b" "zone b = Some (cc_offset c)"
    using b by (simp_all add: w_def start_def)
qed

lemma bucket_mono:
  assumes "candle_config_ok c" "bucket_start c t = Some b" "bucket_start c u = Some d" "ns t \<le> ns u"
  shows "ns b \<le> ns d"
proof -
  define w where "w = cc_timeframe_minutes c * minute_ns"
  have w: "0 < w" using candle_config_facts [OF assms(1)] by (simp add: w_def)
  define dt where "dt = (ns t + cc_offset c) div day_ns"
  define du where "du = (ns u + cc_offset c) div day_ns"
  have le: "dt \<le> du" unfolding dt_def du_def using assms(4) by (intro zdiv_mono1) simp_all
  show ?thesis
  proof (cases "dt = du")
    case True
    then have "local_midnight c t = local_midnight c u" by (simp add: local_midnight_def dt_def du_def)
    then have "ns b = local_midnight c u + cc_session_start c
          + (ns t - (local_midnight c u + cc_session_start c)) div w * w"
        "ns d = local_midnight c u + cc_session_start c
          + (ns u - (local_midnight c u + cc_session_start c)) div w * w"
      using assms(2,3)
      by (auto simp: bucket_start_def session_bounds_def Let_def w_def mult.assoc split: if_splits)
    moreover have "(ns t - (local_midnight c u + cc_session_start c)) div w
        \<le> (ns u - (local_midnight c u + cc_session_start c)) div w"
      using assms(4) w by (intro zdiv_mono1) simp_all
    ultimately show ?thesis using w by (simp add: mult_right_mono)
  next
    case False
    then have "dt + 1 \<le> du" using le by simp
    moreover have "ns t + cc_offset c < (dt + 1) * day_ns"
    proof -
      have "(ns t + cc_offset c) mod day_ns < day_ns" by simp
      moreover have "dt * day_ns + (ns t + cc_offset c) mod day_ns = ns t + cc_offset c"
        unfolding dt_def by (rule div_mult_mod_eq)
      ultimately show ?thesis by (simp add: distrib_right)
    qed
    moreover have "(dt + 1) * day_ns \<le> du * day_ns" if "dt + 1 \<le> du"
      using that by (intro mult_right_mono) simp_all
    ultimately have "ns t + cc_offset c < du * day_ns" by linarith
    then have "ns t < local_midnight c u" by (simp add: local_midnight_def du_def)
    also have "\<dots> \<le> ns d" using bucket_bounds(3) [OF assms(1,3)] candle_config_facts [OF assms(1)] by simp
    finally show ?thesis using bucket_bounds(1) [OF assms(1,2)] by simp
  qed
qed

lemma slot_mono:
  assumes "candle_config_ok c" "in_session c e" "in_session c e'"
    and "ns (me_exchange_timestamp e) \<le> ns (me_exchange_timestamp e')"
  shows "slot c e \<le> slot c e'"
  using assms bucket_mono [OF assms(1)] by (auto simp: in_session_def slot_def)

section \<open>The forming candle represents its trades\<close>

definition state_of :: "CandleConfig \<Rightarrow> MarketEvent list \<Rightarrow> CandleState" where
  "state_of c g = \<lparr>st_symbol = me_symbol (hd g), st_exchange = me_exchange (hd g),
     st_timestamp = \<lparr>ns = slot c (hd g), zone = Some (cc_offset c)\<rparr>, st_open = me_price (hd g),
     st_high = Fin (Max (trade_price ` set g)), st_low = Fin (Min (trade_price ` set g)),
     st_close = me_price (last g), st_volume = group_volume g,
     st_last_event_timestamp = me_exchange_timestamp (last g)\<rparr>"

lemma trade_ok_facts:
  assumes "trade_ok e"
  shows "me_event_type e = TRADE" "me_price e = Fin (trade_price e)" "0 < trade_price e"
    "isfinite (me_volume e)" "\<not> fneg_lt (me_volume e)" "aware (me_exchange_timestamp e)"
    "\<not> blank (me_symbol e)" "\<not> blank (me_exchange e)"
proof -
  have facts: "\<not> blank (me_symbol e)" "\<not> blank (me_exchange e)" "\<not> (\<not> isfinite (me_price e) \<or> nonpos (me_price e))"
      "\<not> (\<not> isfinite (me_volume e) \<or> fneg_lt (me_volume e))" "aware (me_exchange_timestamp e)"
      "me_event_type e = TRADE"
    using assms by (auto simp: trade_ok_def make_market_event_def first_error_Inr simp del: first_error.simps)
  then show "me_event_type e = TRADE" "me_price e = Fin (trade_price e)" "0 < trade_price e"
    "isfinite (me_volume e)" "\<not> fneg_lt (me_volume e)" "aware (me_exchange_timestamp e)"
    "\<not> blank (me_symbol e)" "\<not> blank (me_exchange e)"
    by (cases "me_price e"; auto simp: trade_price_def)+
qed

lemma candle_init:
  "trade_ok e \<Longrightarrow> candle_config_ok c \<Longrightarrow> bucket_start c (me_exchange_timestamp e) = Some b \<Longrightarrow>
     create_state e b = state_of c [e]"
  using bucket_bounds(4) [of c "me_exchange_timestamp e" b]
  by (simp add: create_state_def state_of_def group_volume_def slot_def trade_ok_facts)

lemma state_of_snoc:
  assumes "g \<noteq> []" "trade_ok e" "ns (me_exchange_timestamp (last g)) \<le> ns (me_exchange_timestamp e)"
    and "aware (me_exchange_timestamp (last g))"
  shows "candle_state_update e (state_of c g) = Inr (state_of c (g @ [e]))"
proof -
  have "fmax (Fin a) (Fin b) = Fin (max a b)" "fmin (Fin a) (Fin b) = Fin (min a b)" for a b
    by (simp_all add: fmax_def fmin_def max_def min_def)
  then show ?thesis
    using assms trade_ok_facts [OF assms(2)]
    by (simp add: candle_state_update_def state_of_def group_volume_def max.commute min.commute)
qed

lemma trade_volume_nonneg: "trade_ok e \<Longrightarrow> nonneg (me_volume e)"
  using trade_ok_facts(4,5) [of e] by (cases "me_volume e") auto

lemma volume_fold_nonneg:
  "nonneg v \<Longrightarrow> list_all trade_ok g \<Longrightarrow> nonneg (foldl fadd v (map me_volume g))"
  by (induction g arbitrary: v) (simp_all add: trade_volume_nonneg fadd_nonneg)

lemma group_volume_nonneg:
  "g \<noteq> [] \<Longrightarrow> list_all trade_ok g \<Longrightarrow> nonneg (group_volume g)"
  by (cases g) (simp_all add: group_volume_def trade_volume_nonneg volume_fold_nonneg)

text \<open>Closing a candle never fails while the volume is finite.\<close>

lemma to_candle_of:
  assumes "g \<noteq> []" "list_all trade_ok g" "isfinite (group_volume g)" "candle_config_ok c"
  shows "to_candle (cc_timeframe_minutes c) (state_of c g) = Inr (candle_of c g)"
proof -
  have hd: "trade_ok (hd g)" "trade_ok (last g)" using assms(1,2) by (simp_all add: list_all_iff)
  have mem: "trade_price (hd g) \<in> trade_price ` set g" "trade_price (last g) \<in> trade_price ` set g"
    using assms(1) by simp_all
  have pos: "0 < p" if "p \<in> trade_price ` set g" for p
    using that assms(2) trade_ok_facts(3) by (auto simp: list_all_iff)
  let ?hi = "Max (trade_price ` set g)" and ?lo = "Min (trade_price ` set g)"
  have hi: "trade_price (hd g) \<le> ?hi" "trade_price (last g) \<le> ?hi" "?lo \<le> trade_price (hd g)" "?lo \<le> trade_price (last g)"
    using mem by simp_all
  have lo: "0 < ?lo" using assms(1) pos by simp
  then have "0 < ?hi" "?lo \<le> ?hi" using hi by linarith+
  moreover have "\<not> fneg_lt (group_volume g)"
    using group_volume_nonneg [OF assms(1,2)] assms(3) by (cases "group_volume g") auto
  ultimately show ?thesis
    using hd hi lo assms(3) candle_config_facts [OF assms(4)] trade_ok_facts [OF hd(1)] trade_ok_facts [OF hd(2)]
    by (simp add: to_candle_def state_of_def candle_of_def make_candle_def bad_price_def aware_def fmax_def fmin_def)
qed

section \<open>The aggregator against the reference\<close>

text \<open>The trades of a symbol whose candle is still forming, and how the dictionary holds them.\<close>

definition forming :: "CandleConfig \<Rightarrow> MarketEvent list \<Rightarrow> bool" where
  "forming c g = (list_all trade_ok g \<and> list_all (in_session c) g \<and> list_all (\<lambda>e. slot c e = slot c (hd g)) g)"

definition represents :: "CandleConfig \<Rightarrow> candle_states \<Rightarrow> (string \<Rightarrow> MarketEvent list) \<Rightarrow> bool" where
  "represents c ss pend = (\<forall>name. dict_get ss name
      = (if pend name = [] then None else Some (state_of c (pend name)))
    \<and> forming c (pend name) \<and> list_all (\<lambda>e. symbol_of (me_symbol e) = name) (pend name))"

abbreviation "candles_of name ks \<equiv> filter (\<lambda>k. symbol_of (cd_symbol k) = name) ks"

abbreviation "event_ns e \<equiv> ns (me_exchange_timestamp e)"

lemma runs_first:
  assumes "g \<noteq> []" "list_all (\<lambda>x. f x = f (hd g)) g" "f e \<noteq> f (hd g)"
  shows "runs f (g @ e # xs) = g # runs f (e # xs)"
proof -
  obtain x ys where g: "g = x # ys" using assms(1) by (cases g) auto
  have "takeWhile (\<lambda>y. f y = f x) (ys @ e # xs) = ys" "dropWhile (\<lambda>y. f y = f x) (ys @ e # xs) = e # xs"
    using assms(2,3) g by (induction ys) (auto simp: list_all_iff)
  then show ?thesis using g by simp
qed

lemma runs_one:
  assumes "g \<noteq> []" "list_all (\<lambda>x. f x = f (hd g)) g"
  shows "runs f g = [g]"
proof -
  obtain x ys where g: "g = x # ys" using assms(1) by (cases g) auto
  have all: "f y = f x" if "y \<in> set ys" for y using that assms(2) g by (auto simp: list_all_iff)
  have "takeWhile (\<lambda>y. f y = f x) ys = ys" using all by (simp add: takeWhile_eq_all_conv)
  moreover have "dropWhile (\<lambda>y. f y = f x) ys = []" using all by simp
  ultimately show ?thesis by (simp only: g runs.simps)
qed

lemma feed_Cons:
  "feed c name (e # es) = (if symbol_of (me_symbol e) = name \<and> in_session c e then [e] else []) @ feed c name es"
  by (simp add: feed_def of_symbol_def)

lemma update_outside:
  "trade_ok e \<Longrightarrow> \<not> in_session c e \<Longrightarrow> candle_update c e ss = (Inr None, ss)"
  by (simp add: candle_update_def trade_ok_facts in_session_def)

text \<open>One event: it opens a candle, extends it, or closes it and opens the next.\<close>

lemma update_inside:
  assumes "candle_config_ok c" "represents c ss pend" "trade_ok e" "in_session c e"
    and "name = symbol_of (me_symbol e)"
    and "pend name \<noteq> [] \<Longrightarrow> event_ns (last (pend name)) \<le> event_ns e"
    and "pend name \<noteq> [] \<Longrightarrow> slot c e \<noteq> slot c (hd (pend name)) \<Longrightarrow> isfinite (group_volume (pend name))"
  shows "candle_update c e ss =
    (if pend name = [] then (Inr None, dict_set name (state_of c [e]) ss)
     else if slot c e = slot c (hd (pend name))
       then (Inr None, dict_set name (state_of c (pend name @ [e])) ss)
     else (Inr (Some (candle_of c (pend name))), dict_set name (state_of c [e]) ss))"
proof -
  obtain b where b: "bucket_start c (me_exchange_timestamp e) = Some b"
    using assms(4) by (auto simp: in_session_def)
  note init = candle_init [OF assms(3,1) b]
  have slot: "ns b = slot c e" "aware b" using b bucket_bounds(4) [OF assms(1) b] by (simp_all add: slot_def aware_def)
  show ?thesis
  proof (cases "pend name = []")
    case True
    then have "dict_get ss name = None" using assms(2) by (simp add: represents_def)
    then show ?thesis using True b init unfolding assms(5)
      by (simp add: candle_update_def trade_ok_facts(1) [OF assms(3)] Let_def put_state_def athen_run abind_run)
  next
    case False
    define g where "g = pend name"
    have g: "g \<noteq> []" "dict_get ss name = Some (state_of c g)" "forming c g"
      using False assms(2) by (auto simp: represents_def g_def)
    have last: "trade_ok (last g)" "in_session c (last g)" "slot c (last g) = slot c (hd g)"
      using g(3) last_in_set [OF g(1)] unfolding forming_def list_all_iff by blast+
    have ok: "aware (me_exchange_timestamp e)" "aware (me_exchange_timestamp (last g))"
      using trade_ok_facts(6) assms(3) last(1) by blast+
    have order: "event_ns (last g) \<le> event_ns e" using assms(6) False by (simp add: g_def)
    have mono: "slot c (hd g) \<le> slot c e" using slot_mono [OF assms(1) last(2) assms(4) order] last(3) by simp
    have state: "st_last_event_timestamp (state_of c g) = me_exchange_timestamp (last g)"
      "st_timestamp (state_of c g) = \<lparr>ns = slot c (hd g), zone = Some (cc_offset c)\<rparr>"
      by (simp_all add: state_of_def)
    have all: "list_all trade_ok g" using g(3) by (simp add: forming_def)
    have late: "time_less (me_exchange_timestamp e) (st_last_event_timestamp (state_of c g)) = Inr False"
      using ok order unfolding state by simp
    have eq: "time_eq b (st_timestamp (state_of c g)) = (slot c e = slot c (hd g))"
      unfolding state using slot by (simp add: time_eq_def aware_def)
    have early: "time_less b (st_timestamp (state_of c g)) = Inr False"
      unfolding state using slot mono by (simp add: time_less_def aware_def)
    have upd: "candle_update c e ss =
      (if slot c e = slot c (hd g) then (case candle_state_update e (state_of c g) of
          Inl x \<Rightarrow> (Inl x, ss) | Inr s \<Rightarrow> (Inr None, dict_set name s ss))
       else (case to_candle (cc_timeframe_minutes c) (state_of c g) of
          Inl x \<Rightarrow> (Inl x, ss) | Inr k \<Rightarrow> (Inr (Some k), dict_set name (state_of c [e]) ss)))"
      using b g(2) late eq early init unfolding assms(5)
      by (simp add: candle_update_def trade_ok_facts(1) [OF assms(3)] Let_def abind_run athen_run put_state_def
          split: sum.split)
    show ?thesis
    proof (cases "slot c e = slot c (hd g)")
      case True
      then show ?thesis using state_of_snoc [OF g(1) assms(3) order ok(2)] upd False by (simp add: g_def)
    next
      case new: False
      then have "isfinite (group_volume g)" using assms(7) False by (simp add: g_def)
      from to_candle_of [OF g(1) all this assms(1)] show ?thesis using upd new False by (simp add: g_def)
    qed
  qed
qed

lemma represents_set:
  assumes "represents c ss pend" "forming c g" "g \<noteq> []" "list_all (\<lambda>e. symbol_of (me_symbol e) = name) g"
  shows "represents c (dict_set name (state_of c g) ss) (pend(name := g))"
  using assms unfolding represents_def by (simp add: forming_def)

lemma forming_one: "trade_ok e \<Longrightarrow> in_session c e \<Longrightarrow> forming c [e]"
  by (simp add: forming_def)

lemma forming_snoc:
  "forming c g \<Longrightarrow> g \<noteq> [] \<Longrightarrow> trade_ok e \<Longrightarrow> in_session c e \<Longrightarrow> slot c e = slot c (hd g) \<Longrightarrow> forming c (g @ [e])"
  by (simp add: forming_def)

lemma runs_forming: "forming c g \<Longrightarrow> runs (slot c) g = (if g = [] then [] else [g])"
  by (simp add: runs_one forming_def)

definition run_result :: "CandleConfig \<Rightarrow> (string \<Rightarrow> MarketEvent list list) \<Rightarrow> Candle list res \<times> candle_states \<Rightarrow> bool" where
  "run_result c groups r = (\<exists>ks ss pend. r = (Inr ks, ss) \<and> represents c ss pend
     \<and> (\<forall>name. map (candle_of c) (groups name) = candles_of name ks @ map (candle_of c) (runs (slot c) (pend name))
         \<and> list_all (\<lambda>g. isfinite (group_volume g)) (runs (slot c) (pend name))))"

lemma run_result_emit:
  assumes "candle_update c e ss = (Inr k, ss1)" "run_result c groups1 (candle_run c es ss1)"
    and "\<And>name. map (candle_of c) (groups name)
      = candles_of name (case k of None \<Rightarrow> [] | Some k' \<Rightarrow> [k']) @ map (candle_of c) (groups1 name)"
  shows "run_result c groups (candle_run c (e # es) ss)"
proof -
  obtain ks ss' pend where run: "candle_run c es ss1 = (Inr ks, ss')" "represents c ss' pend"
    "\<forall>name. map (candle_of c) (groups1 name) = candles_of name ks @ map (candle_of c) (runs (slot c) (pend name))
         \<and> list_all (\<lambda>g. isfinite (group_volume g)) (runs (slot c) (pend name))"
    using assms(2) unfolding run_result_def by blast
  let ?ks = "(case k of None \<Rightarrow> [] | Some k' \<Rightarrow> [k']) @ ks"
  have "candle_run c (e # es) ss = (Inr ?ks, ss')"
    using assms(1) run(1) by (cases k) (simp_all add: abind_run)
  then show ?thesis using run(2,3) assms(3) unfolding run_result_def by (intro exI [of _ ?ks] exI) auto
qed

lemma run_groups:
  assumes "candle_config_ok c"
  shows "list_all trade_ok es \<Longrightarrow> represents c ss pend \<Longrightarrow>
    (\<And>name. sorted (map event_ns (pend name @ feed c name es))) \<Longrightarrow>
    (\<And>name. list_all (\<lambda>g. isfinite (group_volume g)) (runs (slot c) (pend name @ feed c name es))) \<Longrightarrow>
    run_result c (\<lambda>name. runs (slot c) (pend name @ feed c name es)) (candle_run c es ss)"
proof (induction es arbitrary: ss pend)
  case Nil
  then show ?case unfolding run_result_def
    by (intro exI [of _ "[]"] exI [of _ ss] exI [of _ pend]) (simp add: feed_def of_symbol_def)
next
  case (Cons e es)
  have e: "trade_ok e" "list_all trade_ok es" using Cons.prems(1) by simp_all
  show ?case
  proof (cases "in_session c e")
    case False
    then show ?thesis
      using Cons.IH [OF e(2) Cons.prems(2)] Cons.prems(3,4)
      by (intro run_result_emit [OF update_outside [OF e(1) False]]) (simp_all add: feed_Cons)
  next
    case True
    define name where "name = symbol_of (me_symbol e)"
    define g where "g = pend name"
    have feeds: "feed c n (e # es) = (if n = name then e # feed c n es else feed c n es)" for n
      using True by (auto simp: feed_Cons name_def)
    have g: "forming c g" "list_all (\<lambda>e. symbol_of (me_symbol e) = name) g"
      using Cons.prems(2) by (simp_all add: represents_def g_def)
    have order: "event_ns (last g) \<le> event_ns e" if "g \<noteq> []"
      using Cons.prems(3) [of name] that feeds [of name] by (simp add: g_def sorted_append)
    have groups: "runs (slot c) (g @ e # feed c name es) = g # runs (slot c) (e # feed c name es)"
      if "g \<noteq> []" "slot c e \<noteq> slot c (hd g)"
      using that g(1) by (intro runs_first) (simp_all add: forming_def)
    have "isfinite (group_volume g)" if "g \<noteq> []" "slot c e \<noteq> slot c (hd g)"
      using Cons.prems(4) [of name] groups [OF that] feeds [of name] by (simp add: g_def del: runs.simps)
    note step = update_inside [OF assms Cons.prems(2) e(1) True name_def, folded g_def, OF order this]
    show ?thesis
    proof (cases "g \<noteq> [] \<and> slot c e \<noteq> slot c (hd g)")
      case close: True
      let ?pend = "pend(name := [e])"
      have upd: "candle_update c e ss = (Inr (Some (candle_of c g)), dict_set name (state_of c [e]) ss)"
        using step close by simp
      have "represents c (dict_set name (state_of c [e]) ss) ?pend"
        using Cons.prems(2) e(1) True by (intro represents_set) (simp_all add: forming_one name_def)
      moreover have "sorted (map event_ns (?pend n @ feed c n es))" for n
        using Cons.prems(3) [of n] feeds [of n] by (auto simp: sorted_append)
      moreover have "list_all (\<lambda>g. isfinite (group_volume g)) (runs (slot c) (?pend n @ feed c n es))" for n
        using Cons.prems(4) [of n] feeds [of n] groups close by (auto simp: g_def simp del: runs.simps)
      moreover have "symbol_of (cd_symbol (candle_of c g)) = name"
        using g(2) close by (cases g) (simp_all add: candle_of_def)
      ultimately show ?thesis
        using groups close feeds
        by (intro run_result_emit [OF upd Cons.IH [OF e(2)]]) (auto simp: g_def simp del: runs.simps)
    next
      case keep: False
      let ?pend = "pend(name := g @ [e])"
      have upd: "candle_update c e ss = (Inr None, dict_set name (state_of c (g @ [e])) ss)"
        using step keep by auto
      have new: "?pend n @ feed c n es = pend n @ feed c n (e # es)" for n
        using feeds [of n] by (simp add: g_def)
      have "forming c (g @ [e])"
        using keep g(1) e(1) True by (cases "g = []") (simp_all add: forming_one forming_snoc)
      then have "represents c (dict_set name (state_of c (g @ [e])) ss) ?pend"
        using Cons.prems(2) g(2) by (intro represents_set) (simp_all add: name_def)
      then have "run_result c (\<lambda>n. runs (slot c) (?pend n @ feed c n es)) (candle_run c es (dict_set name (state_of c (g @ [e])) ss))"
        using Cons.prems(3,4) unfolding new [symmetric] by (intro Cons.IH [OF e(2)])
      then show ?thesis unfolding new by (intro run_result_emit [OF upd]) simp_all
    qed
  qed
qed

text \<open>C19. For constructed trades that arrive in order per symbol, the aggregator, fed one event at a
  time with the symbols interleaved, computes exactly the reference: per symbol, the candles it
  emitted followed by the one a flush returns are the session's trades grouped by slot, with the
  first price, the highest, the lowest, the last and the sum of the volumes of each group, and no
  event of the run raises.\<close>

theorem candles_equal_reference:
  assumes "candle_config_ok c" and "list_all trade_ok es"
    and "\<And>name. sorted (map event_ns (feed c name es))"
    and "\<And>name. list_all (\<lambda>g. isfinite (group_volume g)) (reference_groups c name es)"
  shows "\<exists>ks ss. candle_run c es [] = (Inr ks, ss) \<and> (\<forall>name. \<exists>left.
     fst (candle_flush c (Some name) ss) = Inr left
     \<and> candles_of (symbol_of name) ks @ left
       = map (candle_of c) (reference_groups c (symbol_of name) es))"
proof -
  have "represents c [] (\<lambda>_. [])" by (simp add: represents_def forming_def)
  from run_groups [OF assms(1,2) this] assms(3,4)
  have "run_result c (\<lambda>name. reference_groups c name es) (candle_run c es [])"
    by (simp add: reference_groups_def)
  then obtain ks ss pend where run: "candle_run c es [] = (Inr ks, ss)" "represents c ss pend"
    "\<And>name. map (candle_of c) (reference_groups c name es) = candles_of name ks @ map (candle_of c) (runs (slot c) (pend name))"
    "\<And>name. list_all (\<lambda>g. isfinite (group_volume g)) (runs (slot c) (pend name))"
    unfolding run_result_def by blast
  have "fst (candle_flush c (Some name) ss) = Inr (map (candle_of c) (runs (slot c) (pend (symbol_of name))))" for name
    using run(2) run(4) [of "symbol_of name"] to_candle_of [of "pend (symbol_of name)" c] assms(1)
      runs_forming [of c "pend (symbol_of name)"]
    by (auto simp: candle_flush_def represents_def forming_def Let_def abind_run athen_run)
  with run(1,3) show ?thesis by auto
qed

text \<open>Two symbols interleaved, one of them with two candles.\<close>

definition sample_trade :: "string \<Rightarrow> rat \<Rightarrow> int \<Rightarrow> MarketEvent" where
  "sample_trade name price minute = \<lparr>me_event_id = ''e'', me_symbol = name, me_exchange = ''NSE'',
     me_event_type = TRADE, me_price = Fin price, me_volume = Fin 10,
     me_exchange_timestamp = \<lparr>ns = minute * minute_ns, zone = Some 0\<rparr>,
     me_received_timestamp = \<lparr>ns = minute * minute_ns, zone = Some 0\<rparr>, me_sequence_number = None\<rparr>"

definition sample_trades :: "MarketEvent list" where
  "sample_trades = [sample_trade ''ABC'' 100 226, sample_trade ''XYZ'' 50 227, sample_trade '' abc'' 98 228,
     sample_trade ''ABC'' 101 231, sample_trade ''XYZ'' 51 1000]"

lemma sample_slots:
  "in_session default_candle_config (sample_trade n p 226)" "slot default_candle_config (sample_trade n p 226) = 225 * minute_ns"
  "in_session default_candle_config (sample_trade n p 227)" "slot default_candle_config (sample_trade n p 227) = 225 * minute_ns"
  "in_session default_candle_config (sample_trade n p 228)" "slot default_candle_config (sample_trade n p 228) = 225 * minute_ns"
  "in_session default_candle_config (sample_trade n p 231)" "slot default_candle_config (sample_trade n p 231) = 230 * minute_ns"
  "\<not> in_session default_candle_config (sample_trade n p 1000)"
  by (simp_all add: in_session_def slot_def bucket_start_def session_bounds_def local_midnight_def sample_trade_def
      default_candle_config_def)

lemma sample_symbol: "me_symbol (sample_trade n p m) = n" "me_volume (sample_trade n p m) = Fin 10"
  by (simp_all add: sample_trade_def)

theorem candles_equal_reference_witness:
  "\<exists>ks ss. candle_run default_candle_config sample_trades [] = (Inr ks, ss) \<and> (\<forall>name. \<exists>left.
     fst (candle_flush default_candle_config (Some name) ss) = Inr left
     \<and> candles_of (symbol_of name) ks @ left
       = map (candle_of default_candle_config) (reference_groups default_candle_config (symbol_of name) sample_trades))"
proof (rule candles_equal_reference)
  have syms: "symbol_of ''ABC'' = ''ABC''" "symbol_of ''XYZ'' = ''XYZ''" "symbol_of '' abc'' = ''ABC''" by code_simp+
  show "candle_config_ok default_candle_config" by code_simp
  show "list_all trade_ok sample_trades" by code_simp
  have feed: "feed default_candle_config name sample_trades = (if name = ''ABC''
      then [sample_trade ''ABC'' 100 226, sample_trade '' abc'' 98 228, sample_trade ''ABC'' 101 231]
      else if name = ''XYZ'' then [sample_trade ''XYZ'' 50 227] else [])" for name
    by (simp add: feed_def of_symbol_def sample_trades_def sample_slots sample_symbol syms)
  show "sorted (map event_ns (feed default_candle_config name sample_trades))" for name
    unfolding feed by (simp add: sample_trade_def)
  have "isfinite (group_volume [sample_trade n p a, sample_trade n' p' b])" "isfinite (group_volume [sample_trade n p a])"
    for n p a n' p' b by (simp_all add: group_volume_def sample_symbol, code_simp?)
  then show "list_all (\<lambda>g. isfinite (group_volume g)) (reference_groups default_candle_config name sample_trades)" for name
    unfolding reference_groups_def feed by (simp add: sample_slots)
qed

end
