(* ===== verification/PaperRuntime.thy ===== *)
theory PaperRuntime
  imports ExecAuth
begin

text \<open>
  \<open>paper/runtime.py\<close>: the paper trading runtime. An authorization becomes a simulated fill with
  slippage and fees; the runtime keeps one position per symbol, the journal of its orders and the
  realized profit. \<open>float(x)\<close> of a float is the identity, so the model has none.
\<close>

section \<open>Contracts\<close>

datatype PaperOrderStatus = PO_FILLED | PO_REJECTED

record PaperTradingConfig =
  pt_slippage_bps :: pyfloat
  pt_fee_bps :: pyfloat
  pt_initial_equity :: pyfloat

definition default_paper_trading_config :: PaperTradingConfig where
  "default_paper_trading_config = \<lparr>pt_slippage_bps = Fin 5, pt_fee_bps = Fin 2, pt_initial_equity = Fin 100000\<rparr>"

definition make_paper_trading_config :: "PaperTradingConfig \<Rightarrow> PaperTradingConfig res" where
  "make_paper_trading_config c =
    (if \<not> isfinite (pt_slippage_bps c) then Inl (ValueError ''slippage_bps must be finite'')
     else if \<not> isfinite (pt_fee_bps c) then Inl (ValueError ''fee_bps must be finite'')
     else if \<not> isfinite (pt_initial_equity c) then Inl (ValueError ''initial_equity must be finite'')
     else if fneg_lt (pt_slippage_bps c) \<or> fneg_lt (pt_fee_bps c)
       then Inl (ValueError ''slippage_bps and fee_bps must be non-negative'')
     else if nonpos (pt_initial_equity c) then Inl (ValueError ''initial_equity must be positive'')
     else Inr c)"

record PaperOrder =
  po_timestamp :: pytime
  po_symbol :: string
  po_direction :: StrategyDirection
  po_requested_price :: pyfloat
  po_fill_price :: pyfloat
  po_quantity :: pyfloat
  po_status :: PaperOrderStatus
  po_fees :: pyfloat
  po_slippage_cost :: pyfloat
  po_reason :: string

definition make_paper_order :: "PaperOrder \<Rightarrow> PaperOrder res" where
  "make_paper_order r =
    (if \<not> aware (po_timestamp r) then Inl (ValueError ''paper order timestamp must be timezone-aware'')
     else if blank (po_symbol r) then Inl (ValueError ''paper order symbol must not be empty'')
     else if \<not> isfinite (po_quantity r) \<or> nonpos (po_quantity r)
       then Inl (ValueError ''quantity must be positive and finite'')
     else if \<not> isfinite (po_requested_price r) \<or> \<not> isfinite (po_fill_price r)
         \<or> nonpos (po_requested_price r) \<or> nonpos (po_fill_price r)
       then Inl (ValueError ''prices must be positive and finite'')
     else if \<not> isfinite (po_fees r) \<or> fneg_lt (po_fees r)
       then Inl (ValueError ''fees must be finite and non-negative'')
     else if \<not> isfinite (po_slippage_cost r) \<or> fneg_lt (po_slippage_cost r)
       then Inl (ValueError ''slippage_cost must be finite and non-negative'')
     else Inr r)"

record PaperPosition =
  pp_symbol :: string
  pp_direction :: StrategyDirection
  pp_quantity :: pyfloat
  pp_average_price :: pyfloat
  pp_realized_pnl :: pyfloat

definition make_paper_position :: "PaperPosition \<Rightarrow> PaperPosition res" where
  "make_paper_position p =
    (if blank (pp_symbol p) then Inl (ValueError ''paper position symbol must not be empty'')
     else if pp_direction p = NO_TRADE then Inl (ValueError ''paper position direction cannot be NO_TRADE'')
     else if \<not> isfinite (pp_quantity p) \<or> fneg_lt (pp_quantity p)
       then Inl (ValueError ''position quantity must be finite and non-negative'')
     else if \<not> isfinite (pp_average_price p) \<or> fneg_lt (pp_average_price p)
       then Inl (ValueError ''average_price must be finite and non-negative'')
     else if \<not> isfinite (pp_realized_pnl p) then Inl (ValueError ''realized_pnl must be finite'')
     else if fpos (pp_quantity p) \<and> nonpos (pp_average_price p)
       then Inl (ValueError ''average_price must be positive for open positions'')
     else Inr p)"

section \<open>The runtime\<close>

record PaperRuntime =
  pr_positions :: "(string, PaperPosition) dict"
  pr_journal :: "PaperOrder list"
  pr_realized_pnl :: pyfloat

definition runtime_init :: PaperRuntime where
  "runtime_init = \<lparr>pr_positions = [], pr_journal = [], pr_realized_pnl = Fin 0\<rparr>"

definition open_paper_positions :: "PaperRuntime \<Rightarrow> PaperPosition list" where
  "open_paper_positions s = filter (\<lambda>p. fpos (pp_quantity p)) (dict_values (pr_positions s))"

definition paper_position_of :: "string \<Rightarrow> PaperRuntime \<Rightarrow> PaperPosition option" where
  "paper_position_of symbol s = dict_get (pr_positions s) (upper symbol)"

definition unrealized_pnl :: "PaperPosition \<Rightarrow> pyfloat \<Rightarrow> pyfloat" where
  "unrealized_pnl p price = (if pp_direction p = LONG
     then fmul (fsub price (pp_average_price p)) (pp_quantity p)
     else fmul (fsub (pp_average_price p) price) (pp_quantity p))"

text \<open>The unrealized profit and the gross exposure, summed over the open positions.\<close>

fun mark_positions :: "(string, pyfloat) dict \<Rightarrow> PaperPosition list \<Rightarrow> pyfloat \<times> pyfloat \<Rightarrow> (pyfloat \<times> pyfloat) res" where
  "mark_positions prices [] (unrealized, gross) = Inr (unrealized, gross)"
| "mark_positions prices (p # ps) (unrealized, gross) = (case dict_get prices (upper (pp_symbol p)) of
      None \<Rightarrow> Inl (ValueError ''missing mark price for open position'')
    | Some price \<Rightarrow>
        if \<not> isfinite price \<or> nonpos price
          then Inl (ValueError ''mark price must be positive and finite'')
        else mark_positions prices ps
          (fadd unrealized (unrealized_pnl p price), fadd gross (fmul price (pp_quantity p))))"

definition account_snapshot :: "PaperTradingConfig \<Rightarrow> (string, pyfloat) dict \<Rightarrow> PaperRuntime
     \<Rightarrow> (pyfloat \<times> pyfloat \<times> pyfloat \<times> pyfloat) res" where
  "account_snapshot c prices s = rbind (mark_positions prices (open_paper_positions s) (Fin 0, Fin 0))
     (\<lambda>(unrealized, gross).
       Inr (fadd (fadd (pt_initial_equity c) (pr_realized_pnl s)) unrealized, pr_realized_pnl s, unrealized, gross))"

definition mark_to_market :: "string \<Rightarrow> pyfloat \<Rightarrow> PaperRuntime \<Rightarrow> pyfloat res" where
  "mark_to_market symbol price s = (case dict_get (pr_positions s) (upper symbol) of
      None \<Rightarrow> Inr (Fin 0)
    | Some p \<Rightarrow>
        if \<not> isfinite price \<or> nonpos price then Inl (ValueError ''mark price must be positive and finite'')
        else Inr (fadd (pp_realized_pnl p) (unrealized_pnl p price)))"

subsection \<open>Submitting an order\<close>

text \<open>The quantity the order is for.\<close>

definition submit_quantity :: "ExecutionAuthorization \<Rightarrow> pyfloat option \<Rightarrow> pyfloat res" where
  "submit_quantity a quantity =
    (if ea_status a = AUTHORIZED then
       (if nonpos (ea_approved_quantity a)
          then Inl (ValueError ''authorized execution must carry a positive quantity'')
        else case quantity of
            None \<Rightarrow> Inr (ea_approved_quantity a)
          | Some q \<Rightarrow> if feq q (ea_approved_quantity a) then Inr (ea_approved_quantity a)
              else Inl (ValueError ''paper execution quantity must exactly equal authorization approved quantity''))
     else (case quantity of
         None \<Rightarrow> Inl (ValueError ''blocked paper orders require a positive requested quantity'')
       | Some q \<Rightarrow> if nonpos q
           then Inl (ValueError ''blocked paper orders require a positive requested quantity'') else Inr q))"

definition runtime_fill_price :: "PaperTradingConfig \<Rightarrow> StrategyDirection \<Rightarrow> pyfloat \<Rightarrow> pyfloat res" where
  "runtime_fill_price c direction price =
    (let direction_sign = (if direction = LONG then Fin 1 else Fin (- 1)) in
     rbind (fdiv (pt_slippage_bps c) (Fin 10000)) (\<lambda>slippage_rate.
       Inr (fmul price (fadd (Fin 1) (fmul direction_sign slippage_rate)))))"

definition runtime_fees :: "PaperTradingConfig \<Rightarrow> pyfloat \<Rightarrow> pyfloat \<Rightarrow> pyfloat res" where
  "runtime_fees c fill_price quantity = fdiv (fmul (fmul fill_price quantity) (pt_fee_bps c)) (Fin 10000)"

text \<open>
  The position after the fill: what it realizes of an opposite position (charged to the runtime
  before the new position is built), and the new position.
\<close>

definition increased_position :: "PaperPosition \<Rightarrow> string \<Rightarrow> pyfloat \<Rightarrow> pyfloat \<Rightarrow> pyfloat \<Rightarrow> PaperPosition res" where
  "increased_position current symbol quantity fill_price fees =
    (let new_quantity = fadd (pp_quantity current) quantity in
     rbind (fdiv (fadd (fmul (pp_average_price current) (pp_quantity current)) (fmul fill_price quantity)) new_quantity)
       (\<lambda>weighted_price. make_paper_position \<lparr>pp_symbol = symbol, pp_direction = pp_direction current,
          pp_quantity = new_quantity, pp_average_price = weighted_price,
          pp_realized_pnl = fsub (pp_realized_pnl current) fees\<rparr>))"

definition closing_realized :: "PaperPosition \<Rightarrow> pyfloat \<Rightarrow> pyfloat \<Rightarrow> pyfloat" where
  "closing_realized current close_quantity fill_price =
    (if pp_direction current = LONG
     then fmul (fsub fill_price (pp_average_price current)) close_quantity
     else fmul (fsub (pp_average_price current) fill_price) close_quantity)"

definition reduced_position :: "PaperPosition \<Rightarrow> string \<Rightarrow> StrategyDirection \<Rightarrow> pyfloat \<Rightarrow> pyfloat \<Rightarrow> pyfloat
     \<Rightarrow> pyfloat \<times> PaperPosition res" where
  "reduced_position current symbol direction quantity fill_price fees =
    (let close_quantity = fmin quantity (pp_quantity current);
         realized = closing_realized current close_quantity fill_price;
         remaining_current = fsub (pp_quantity current) close_quantity;
         remaining_order = fsub quantity close_quantity;
         realized_pnl = fsub (fadd (pp_realized_pnl current) realized) fees in
     (realized, make_paper_position
       (if fpos remaining_order
          then \<lparr>pp_symbol = symbol, pp_direction = direction, pp_quantity = remaining_order,
            pp_average_price = fill_price, pp_realized_pnl = realized_pnl\<rparr>
        else if fpos remaining_current
          then \<lparr>pp_symbol = symbol, pp_direction = pp_direction current, pp_quantity = remaining_current,
            pp_average_price = pp_average_price current, pp_realized_pnl = realized_pnl\<rparr>
        else \<lparr>pp_symbol = symbol, pp_direction = pp_direction current, pp_quantity = Fin 0,
            pp_average_price = Fin 0, pp_realized_pnl = realized_pnl\<rparr>)))"

definition position_after :: "PaperPosition option \<Rightarrow> string \<Rightarrow> StrategyDirection \<Rightarrow> pyfloat \<Rightarrow> pyfloat \<Rightarrow> pyfloat
     \<Rightarrow> pyfloat option \<times> PaperPosition res" where
  "position_after current symbol direction quantity fill_price fees =
    (let opened = (None, make_paper_position \<lparr>pp_symbol = symbol, pp_direction = direction,
           pp_quantity = quantity, pp_average_price = fill_price, pp_realized_pnl = fneg fees\<rparr>) in
     case current of
       None \<Rightarrow> opened
     | Some p \<Rightarrow>
         if feq (pp_quantity p) (Fin 0) then opened
         else if pp_direction p = direction then (None, increased_position p symbol quantity fill_price fees)
         else (case reduced_position p symbol direction quantity fill_price fees of
             (realized, q) \<Rightarrow> (Some realized, q)))"

definition book_pnl :: "pyfloat \<Rightarrow> (PaperRuntime, unit) act" where
  "book_pnl x = amod (\<lambda>s. s\<lparr>pr_realized_pnl := x\<rparr>)"

definition journal_order :: "PaperOrder \<Rightarrow> (PaperRuntime, PaperOrder) act" where
  "journal_order r = abind (alift (make_paper_order r)) (\<lambda>r'.
     athen (amod (\<lambda>s. s\<lparr>pr_journal := pr_journal s @ [r']\<rparr>)) (aret r'))"

definition paper_reject :: "ExecutionAuthorization \<Rightarrow> pyfloat \<Rightarrow> pyfloat \<Rightarrow> (PaperRuntime, PaperOrder) act" where
  "paper_reject a price quantity = journal_order \<lparr>po_timestamp = ea_timestamp a,
     po_symbol = upper (ea_symbol a), po_direction = ea_direction a, po_requested_price = price,
     po_fill_price = price, po_quantity = quantity, po_status = PO_REJECTED, po_fees = Fin 0,
     po_slippage_cost = Fin 0,
     po_reason = ''Paper order blocked because authorization is not approved.''\<rparr>"

definition runtime_fill :: "PaperTradingConfig \<Rightarrow> ExecutionAuthorization \<Rightarrow> pyfloat \<Rightarrow> pyfloat
     \<Rightarrow> (PaperRuntime, PaperOrder) act" where
  "runtime_fill c a price quantity =
    (let symbol = upper (ea_symbol a); direction = ea_direction a in
     abind (alift (runtime_fill_price c direction price)) (\<lambda>fill_price.
     abind (alift (runtime_fees c fill_price quantity)) (\<lambda>fees.
     abind (aget (\<lambda>s. fsub (pr_realized_pnl s) fees)) (\<lambda>charged.
     athen (book_pnl charged)
    (abind (aget (\<lambda>s. position_after (dict_get (pr_positions s) symbol) symbol direction quantity fill_price fees))
       (\<lambda>(realized, position).
     athen (case realized of None \<Rightarrow> aret () | Some x \<Rightarrow> book_pnl (fadd charged x))
    (abind (alift position) (\<lambda>p.
     athen (amod (\<lambda>s. s\<lparr>pr_positions := dict_set symbol p (pr_positions s)\<rparr>))
      (journal_order \<lparr>po_timestamp = ea_timestamp a, po_symbol = symbol, po_direction = direction,
         po_requested_price = price, po_fill_price = fill_price, po_quantity = quantity,
         po_status = PO_FILLED, po_fees = fees,
         po_slippage_cost = fmul (fabs (fsub fill_price price)) quantity,
         po_reason = ''Paper fill simulated deterministically.''\<rparr>)))))))))"

definition runtime_submit :: "PaperTradingConfig \<Rightarrow> ExecutionAuthorization \<Rightarrow> pyfloat \<Rightarrow> pyfloat option
     \<Rightarrow> (PaperRuntime, PaperOrder) act" where
  "runtime_submit c a price quantity =
    (if \<not> isfinite price \<or> nonpos price then araise (ValueError ''price must be positive and finite'')
     else abind (alift (submit_quantity a quantity)) (\<lambda>q.
       if ea_status a \<noteq> AUTHORIZED then paper_reject a price q else runtime_fill c a price q))"

end
