(* ===== verification/RuntimeProperties.thy ===== *)
theory RuntimeProperties
  imports PaperRuntime PaperProperties Magnitude
begin

text \<open>
  The paper trading runtime keeps exact books of whole shares, never fails on ordinary orders, and
  its positions are those of the paper broker adapter after the same fills: the two simulators of
  the repository net orders in the same way.
\<close>

section \<open>Bounds that the accounts keep\<close>

definition low_price :: rat where
  "low_price = 1 / 2 ^ 65"

definition high_price :: rat where
  "high_price = 2 ^ 65"

fun fill_range :: "pyfloat \<Rightarrow> bool" where
  "fill_range (Fin a) = (low_price \<le> a \<and> a \<le> high_price)"
| "fill_range x = False"

definition pnl_unit :: rat where
  "pnl_unit = 2 ^ 150"

fun pnl_within :: "int \<Rightarrow> pyfloat \<Rightarrow> bool" where
  "pnl_within n (Fin a) = (\<bar>a\<bar> \<le> of_int n * pnl_unit)"
| "pnl_within n x = False"

lemma fill_range_iff: "fill_range x \<longleftrightarrow> (\<exists>a. x = Fin a \<and> low_price \<le> a \<and> a \<le> high_price)"
  by (cases x) auto

lemma low_price_pos [simp]: "0 < low_price"
  by (simp add: low_price_def)

lemma fill_range_pos:
  assumes "fill_range x"
  obtains a where "x = Fin a" "0 < a" "a \<le> high_price"
  using assms low_price_pos that by (auto simp: fill_range_iff simp del: low_price_pos)

lemma fill_range_mag: "fill_range x \<Longrightarrow> mag 65 x"
  by (elim fill_range_pos) (simp add: high_price_def)

lemma fill_range_signs: "fill_range x \<Longrightarrow> \<not> nonpos x \<and> isfinite x \<and> \<not> fneg_lt x \<and> fpos x"
  by (elim fill_range_pos) simp

lemma scaled_double:
  assumes "0 \<le> n" "n \<le> 2 ^ 53"
  shows "rnd (of_int n * low_price) = Fin (of_int n * low_price)"
    "rnd (of_int n * high_price) = Fin (of_int n * high_price)"
    "rnd (of_int n * pnl_unit) = Fin (of_int n * pnl_unit)"
proof -
  have "is_double (of_int n * low_price)" using assms
    by (intro is_doubleI [of _ n "- 65"]) (simp_all add: low_price_def power_int_minus power_int_def field_simps)
  moreover have "is_double (of_int n * high_price)" using assms
    by (intro is_doubleI [of _ n 65]) (simp_all add: high_price_def power_int_def)
  moreover have "is_double (of_int n * pnl_unit)" using assms
    by (intro is_doubleI [of _ n 150]) (simp_all add: pnl_unit_def power_int_def)
  ultimately show "rnd (of_int n * low_price) = Fin (of_int n * low_price)"
    "rnd (of_int n * high_price) = Fin (of_int n * high_price)"
    "rnd (of_int n * pnl_unit) = Fin (of_int n * pnl_unit)"
    by (simp_all only: is_double_def)
qed

lemma pnl_add:
  assumes "pnl_within n x" "mag 150 y" "0 \<le> n" "n + 1 \<le> 2 ^ 53"
  shows "pnl_within (n + 1) (fadd x y)"
proof -
  obtain a b where a: "x = Fin a" "\<bar>a\<bar> \<le> of_int n * pnl_unit" and b: "y = Fin b" "\<bar>b\<bar> \<le> pnl_unit"
    using assms(1,2) by (cases x; cases y) (auto simp: pnl_unit_def)
  let ?c = "of_int (n + 1) * pnl_unit"
  have c: "rnd ?c = Fin ?c" using assms(3,4) by (intro scaled_double) linarith+
  then have m: "rnd (- ?c) = Fin (- ?c)" by (simp only: rnd_uminus minus_minus)
  have "\<bar>a + b\<bar> \<le> ?c" using a(2) b(2) by (simp add: distrib_right)
  then have "- ?c \<le> a + b" "a + b \<le> ?c" by linarith+
  then obtain z where "rnd (a + b) = Fin z" "- ?c \<le> z" "z \<le> ?c" using double.between_finite [OF m c] by metis
  then show ?thesis using a(1) b(1) by (simp add: abs_le_iff)
qed

lemma pnl_sub: "pnl_within n x \<Longrightarrow> mag 150 y \<Longrightarrow> 0 \<le> n \<Longrightarrow> n + 1 \<le> 2 ^ 53 \<Longrightarrow> pnl_within (n + 1) (fsub x y)"
  unfolding fsub_def by (rule pnl_add) simp_all

lemma pnl_mono: "pnl_within n x \<Longrightarrow> n \<le> m \<Longrightarrow> pnl_within m x"
proof (cases x)
  case (Fin a)
  assume "pnl_within n x" "n \<le> m"
  moreover have "(of_int n :: rat) * pnl_unit \<le> of_int m * pnl_unit"
    using \<open>n \<le> m\<close> by (intro mult_right_mono) (simp_all add: pnl_unit_def)
  ultimately show ?thesis using Fin by simp
qed simp_all

lemma pnl_finite: "pnl_within n x \<Longrightarrow> isfinite x"
  by (cases x) auto

lemma pnl_neg: "mag 150 x \<Longrightarrow> pnl_within 1 (fneg x)"
  by (cases x) (auto simp: pnl_unit_def)

text \<open>A weighted average of prices stays in the range of the prices.\<close>

lemma scaled_between:
  assumes "0 \<le> n" "n \<le> 2 ^ 53" "of_int n * low_price \<le> x" "x \<le> of_int n * high_price"
  obtains y where "rnd x = Fin y" "of_int n * low_price \<le> y" "y \<le> of_int n * high_price"
  using double.between_finite [OF scaled_double(1) [OF assms(1,2)] scaled_double(2) [OF assms(1,2)] assms(3,4)] that .

lemma average_in_range:
  assumes "0 < h" "0 < k" "h + k \<le> 2 ^ 53" "fill_range p" "fill_range q"
  obtains x where "fdiv (fadd (fmul p (Fin (of_int h))) (fmul q (Fin (of_int k)))) (Fin (of_int (h + k))) = Inr x"
    "fill_range x"
proof -
  obtain a b where a: "p = Fin a" "low_price \<le> a" "a \<le> high_price" and b: "q = Fin b" "low_price \<le> b" "b \<le> high_price"
    using assms(4,5) by (auto simp: fill_range_iff)
  have sizes: "0 \<le> h" "h \<le> 2 ^ 53" "0 \<le> k" "k \<le> 2 ^ 53" "0 \<le> h + k" using assms(1-3) by linarith+
  obtain x where x: "rnd (a * of_int h) = Fin x" "of_int h * low_price \<le> x" "x \<le> of_int h * high_price"
    by (rule scaled_between [OF sizes(1,2), of "a * of_int h"]) (use a sizes in \<open>simp_all add: mult.commute [of a] mult_left_mono\<close>)
  obtain y where y: "rnd (b * of_int k) = Fin y" "of_int k * low_price \<le> y" "y \<le> of_int k * high_price"
    by (rule scaled_between [OF sizes(3,4), of "b * of_int k"]) (use b sizes in \<open>simp_all add: mult.commute [of b] mult_left_mono\<close>)
  obtain z where z: "rnd (x + y) = Fin z" "of_int (h + k) * low_price \<le> z" "z \<le> of_int (h + k) * high_price"
    by (rule scaled_between [OF sizes(5) assms(3), of "x + y"]) (use x(2,3) y(2,3) in \<open>simp_all add: distrib_right\<close>)
  have n: "0 < (of_int (h + k) :: rat)" using assms(1,2) by simp
  have "low_price \<le> z / of_int (h + k)" "z / of_int (h + k) \<le> high_price"
    using z(2,3) n by (simp_all only: pos_le_divide_eq pos_divide_le_eq mult.commute)
  then obtain u where "rnd (z / of_int (h + k)) = Fin u" "low_price \<le> u" "u \<le> high_price"
    using scaled_between [of 1 "z / of_int (h + k)"] by auto
  then show thesis
    using that [of "Fin u"] x(1) y(1) z(1) a(1) b(1) n by (simp add: fdiv_Fin)
qed

section \<open>Positions after a fill\<close>

definition position_fair :: "int \<Rightarrow> int \<Rightarrow> PaperPosition \<Rightarrow> bool" where
  "position_fair n b p \<longleftrightarrow> pp_direction p \<noteq> NO_TRADE \<and> pnl_within b (pp_realized_pnl p)
     \<and> (\<exists>h. pp_quantity p = Fin (of_int h) \<and> 0 \<le> h \<and> h \<le> n \<and> (0 < h \<longrightarrow> fill_range (pp_average_price p)))"

definition signed_position :: "PaperPosition option \<Rightarrow> pyfloat" where
  "signed_position p = (case p of None \<Rightarrow> Fin 0
     | Some p \<Rightarrow> if pp_direction p = LONG then pp_quantity p else fneg (pp_quantity p))"

definition signed_by :: "StrategyDirection \<Rightarrow> int \<Rightarrow> int" where
  "signed_by direction k = (if direction = LONG then k else - k)"

lemma make_position_fair:
  assumes "\<not> blank (pp_symbol p)" "pp_direction p \<noteq> NO_TRADE" "pp_quantity p = Fin (of_int h)" "0 \<le> h"
    and "0 < h \<Longrightarrow> fill_range (pp_average_price p)" "h = 0 \<Longrightarrow> pp_average_price p = Fin 0"
    and "pnl_within b (pp_realized_pnl p)"
  shows "make_paper_position p = Inr p"
proof (cases "h = 0")
  case True
  then show ?thesis using assms pnl_finite by (simp add: make_paper_position_def)
next
  case False
  then have "fill_range (pp_average_price p)" using assms(4,5) by simp
  then show ?thesis using assms pnl_finite fill_range_signs by (simp add: make_paper_position_def)
qed

definition fair_amounts :: "pyfloat \<Rightarrow> pyfloat \<Rightarrow> bool" where
  "fair_amounts fill fees = (fill_range fill \<and> mag 150 fees)"

lemma realized_mag:
  assumes "fill_range a" "fill_range b" "0 \<le> k" "k \<le> 2 ^ 53"
  shows "mag 150 (fmul (fsub a b) (Fin (of_int k)))"
proof -
  have "(of_int k :: rat) \<le> of_int (2 ^ 53)" using assms(4) by (simp only: of_int_le_iff)
  then have "mag 53 (Fin (of_int k))" using assms(3) by simp
  moreover have "mag 66 (fsub a b)" using assms(1,2) fill_range_mag by (intro mag_fsub [of 65 _ 65]) auto
  ultimately show ?thesis by (intro mag_fmul [of 66 _ 53]) auto
qed

lemma opened_position:
  assumes "fair_amounts fill fees" "\<not> blank symbol" "direction \<noteq> NO_TRADE" "0 < k" "k \<le> m" "1 \<le> b"
  shows "\<exists>q. make_paper_position \<lparr>pp_symbol = symbol, pp_direction = direction, pp_quantity = Fin (of_int k),
      pp_average_price = fill, pp_realized_pnl = fneg fees\<rparr> = Inr q
    \<and> position_fair m b q \<and> signed_position (Some q) = Fin (of_int (signed_by direction k))"
proof -
  have "pnl_within b (fneg fees)" using assms(1,6) pnl_neg pnl_mono by (auto simp: fair_amounts_def)
  then show ?thesis
    using assms by (subst make_position_fair) (auto simp: fair_amounts_def position_fair_def signed_position_def signed_by_def)
qed

lemma increased_position_exact:
  assumes "fair_amounts fill fees" "\<not> blank symbol" "0 < k" "position_fair n b p" "pp_quantity p = Fin (of_int h)" "0 < h"
    and "n + k \<le> 2 ^ 53" "0 \<le> b" "b + 1 \<le> 2 ^ 53"
  shows "\<exists>q. increased_position p symbol (Fin (of_int k)) fill fees = Inr q \<and> position_fair (n + k) (b + 1) q
    \<and> signed_position (Some q) = Fin (of_int (signed_by (pp_direction p) (h + k)))"
proof -
  have h: "h \<le> n" "fill_range (pp_average_price p)" "pp_direction p \<noteq> NO_TRADE" "pnl_within b (pp_realized_pnl p)"
    using assms(4-6) by (auto simp: position_fair_def)
  have le: "h + k \<le> 2 ^ 53" using h(1) assms(7) by linarith
  have sum: "rnd (of_int h + of_int k) = Fin (of_int (h + k))"
    using rnd_int [of "h + k"] assms(3,6) le by simp
  obtain x where x: "fdiv (fadd (fmul (pp_average_price p) (Fin (of_int h))) (fmul fill (Fin (of_int k)))) (Fin (of_int (h + k))) = Inr x"
      "fill_range x"
    using average_in_range [OF assms(6,3) le h(2)] assms(1) unfolding fair_amounts_def by metis
  have pnl: "pnl_within (b + 1) (fsub (pp_realized_pnl p) fees)"
    using pnl_sub h(4) assms(1,8,9) by (simp add: fair_amounts_def)
  let ?q = "\<lparr>pp_symbol = symbol, pp_direction = pp_direction p, pp_quantity = Fin (of_int (h + k)),
      pp_average_price = x, pp_realized_pnl = fsub (pp_realized_pnl p) fees\<rparr>"
  have "increased_position p symbol (Fin (of_int k)) fill fees = make_paper_position ?q"
    unfolding increased_position_def Let_def assms(5) fadd.simps sum x(1) by (simp only: rbind_simps)
  also have "\<dots> = Inr ?q"
    using assms(2,3,6) h x(2) pnl by (intro make_position_fair [of _ "h + k" "b + 1"]) simp_all
  finally show ?thesis using h x(2) pnl assms(3,6)
    by (auto simp: position_fair_def signed_position_def signed_by_def intro!: exI [of _ "h + k"])
qed

lemma reduced_position_exact:
  assumes "fair_amounts fill fees" "\<not> blank symbol" "direction \<noteq> NO_TRADE" "0 < k" "position_fair n b p"
    and "pp_quantity p = Fin (of_int h)" "0 < h" "pp_direction p \<noteq> direction" "n + k \<le> 2 ^ 53" "0 \<le> b" "b + 2 \<le> 2 ^ 53"
  shows "\<exists>x q. reduced_position p symbol direction (Fin (of_int k)) fill fees = (x, Inr q) \<and> mag 150 x
    \<and> position_fair (n + k) (b + 2) q
    \<and> signed_position (Some q) = Fin (of_int (signed_by (pp_direction p) h + signed_by direction k))"
proof -
  have h: "h \<le> n" "fill_range (pp_average_price p)" "pp_direction p \<noteq> NO_TRADE" "pnl_within b (pp_realized_pnl p)"
    using assms(5-7) by (auto simp: position_fair_def)
  have opposite: "signed_by (pp_direction p) h + signed_by direction k = signed_by direction (k - h)"
    using assms(3,8) h(3) by (cases direction; cases "pp_direction p") (simp_all add: signed_by_def)
  have closed: "fmin (Fin (of_int k)) (Fin (of_int h)) = Fin (of_int (min k h))"
    by (simp add: fmin_def min_def)
  have left: "rnd (of_int h - of_int (min k h)) = Fin (of_int (h - min k h))"
      "rnd (of_int k - of_int (min k h)) = Fin (of_int (k - min k h))"
    using rnd_int [of "h - min k h"] rnd_int [of "k - min k h"] assms(4,7,9) h(1) by (auto simp: min_def)
  define x where "x = closing_realized p (Fin (of_int (min k h))) fill"
  have x: "mag 150 x"
    unfolding x_def closing_realized_def
    using realized_mag [of fill "pp_average_price p" "min k h"] realized_mag [of "pp_average_price p" fill "min k h"]
      h(1,2) assms(1,4,7,9) by (auto simp: fair_amounts_def min_def)
  define pnl where "pnl = fsub (fadd (pp_realized_pnl p) x) fees"
  have pnl: "pnl_within (b + 2) pnl"
    using pnl_sub [OF pnl_add [OF h(4) x], of fees] assms(1,10,11) by (simp add: pnl_def fair_amounts_def add.commute)
  consider (flip) "h < k" | (part) "k < h" | (flat) "h = k" by linarith
  then show ?thesis
  proof cases
    case flip
    let ?q = "\<lparr>pp_symbol = symbol, pp_direction = direction, pp_quantity = Fin (of_int (k - h)),
      pp_average_price = fill, pp_realized_pnl = pnl\<rparr>"
    have "reduced_position p symbol direction (Fin (of_int k)) fill fees = (x, make_paper_position ?q)"
      using flip left(2) by (simp add: reduced_position_def Let_def assms(6) closed x_def pnl_def)
    moreover have "make_paper_position ?q = Inr ?q"
      using flip assms(1-3) pnl by (intro make_position_fair [of _ "k - h" "b + 2"]) (simp_all add: fair_amounts_def)
    moreover have "position_fair (n + k) (b + 2) ?q"
      using flip assms(1,3,7) h(1) pnl by (auto simp: position_fair_def fair_amounts_def intro!: exI [of _ "k - h"])
    ultimately show ?thesis using x unfolding opposite by (simp add: signed_position_def signed_by_def)
  next
    case part
    let ?q = "\<lparr>pp_symbol = symbol, pp_direction = pp_direction p, pp_quantity = Fin (of_int (h - k)),
      pp_average_price = pp_average_price p, pp_realized_pnl = pnl\<rparr>"
    have "reduced_position p symbol direction (Fin (of_int k)) fill fees = (x, make_paper_position ?q)"
      using part left by (simp add: reduced_position_def Let_def assms(6) closed x_def pnl_def)
    moreover have "make_paper_position ?q = Inr ?q"
      using part assms(2) h pnl by (intro make_position_fair [of _ "h - k" "b + 2"]) simp_all
    moreover have "position_fair (n + k) (b + 2) ?q"
      using part assms(4) h pnl by (auto simp: position_fair_def intro!: exI [of _ "h - k"])
    moreover have "signed_by direction (k - h) = signed_by (pp_direction p) (h - k)"
      using assms(3,8) h(3) by (cases direction; cases "pp_direction p") (simp_all add: signed_by_def)
    ultimately show ?thesis using x unfolding opposite by (simp add: signed_position_def signed_by_def)
  next
    case flat
    let ?q = "\<lparr>pp_symbol = symbol, pp_direction = pp_direction p, pp_quantity = Fin 0,
      pp_average_price = Fin 0, pp_realized_pnl = pnl\<rparr>"
    have "reduced_position p symbol direction (Fin (of_int k)) fill fees = (x, make_paper_position ?q)"
      using flat by (simp add: reduced_position_def Let_def assms(6) fmin_def x_def pnl_def)
    moreover have "make_paper_position ?q = Inr ?q"
      using assms(2) h pnl by (intro make_position_fair [of _ 0 "b + 2"]) simp_all
    moreover have "position_fair (n + k) (b + 2) ?q"
      using assms(4,7) h pnl by (auto simp: position_fair_def intro!: exI [of _ 0])
    ultimately show ?thesis using x flat unfolding opposite by (simp add: signed_position_def signed_by_def)
  qed
qed

lemma position_after_exact:
  assumes "fair_amounts fill fees" "\<not> blank symbol" "direction \<noteq> NO_TRADE" "0 < k"
    and "\<And>p. current = Some p \<Longrightarrow> position_fair n b p" "signed_position current = Fin (of_int g)"
    and "0 \<le> n" "n + k \<le> 2 ^ 53" "0 \<le> b" "b + 2 \<le> 2 ^ 53"
  shows "\<exists>x q. position_after current symbol direction (Fin (of_int k)) fill fees = (x, Inr q)
    \<and> (\<forall>y. x = Some y \<longrightarrow> mag 150 y) \<and> position_fair (n + k) (b + 2) q
    \<and> signed_position (Some q) = Fin (of_int (g + signed_by direction k))"
proof -
  have new: "\<exists>q. make_paper_position \<lparr>pp_symbol = symbol, pp_direction = direction, pp_quantity = Fin (of_int k),
      pp_average_price = fill, pp_realized_pnl = fneg fees\<rparr> = Inr q
    \<and> position_fair (n + k) (b + 2) q \<and> signed_position (Some q) = Fin (of_int (signed_by direction k))"
    using assms(1-4,7,9) by (intro opened_position) simp_all
  show ?thesis
  proof (cases current)
    case None
    then show ?thesis using new assms(6) by (auto simp: position_after_def signed_position_def)
  next
    case (Some p)
    then have fair: "position_fair n b p" using assms(5) by blast
    then obtain h where h: "pp_quantity p = Fin (of_int h)" "0 \<le> h" by (auto simp: position_fair_def)
    have g: "g = signed_by (pp_direction p) h"
      using Some assms(6) h(1) by (auto simp: signed_position_def signed_by_def split: if_splits)
    show ?thesis
    proof (cases "h = 0")
      case True
      then show ?thesis using new Some h(1) g by (auto simp: position_after_def signed_by_def split: if_splits)
    next
      case False
      then have pos: "0 < h" using h(2) by simp
      show ?thesis
      proof (cases "pp_direction p = direction")
        case True
        obtain q where "increased_position p symbol (Fin (of_int k)) fill fees = Inr q" "position_fair (n + k) (b + 1) q"
            "signed_position (Some q) = Fin (of_int (signed_by (pp_direction p) (h + k)))"
          using increased_position_exact [OF assms(1,2,4) fair h(1) pos assms(8,9)] assms(10) by auto
        moreover have "position_fair (n + k) (b + 2) q"
          using calculation(2) pnl_mono [of "b + 1" _ "b + 2"] by (auto simp: position_fair_def)
        ultimately show ?thesis using Some True False h(1) g
          by (auto simp: position_after_def signed_by_def split: if_splits)
      next
        case other: False
        show ?thesis
          using reduced_position_exact [OF assms(1-4) fair h(1) pos other assms(8-10)] Some other False h(1) g
          by (auto simp: position_after_def)
      qed
    qed
  qed
qed

section \<open>Submitting\<close>

definition fair_trading_config :: "PaperTradingConfig \<Rightarrow> bool" where
  "fair_trading_config c = (up_to 5000 (pt_slippage_bps c) \<and> up_to 10000 (pt_fee_bps c))"

definition order_size :: "ExecutionAuthorization \<Rightarrow> int" where
  "order_size a = (case ea_approved_quantity a of Fin q \<Rightarrow> \<lfloor>q\<rfloor> | _ \<Rightarrow> 0)"

definition fair_submission :: "ExecutionAuthorization \<times> pyfloat \<Rightarrow> bool" where
  "fair_submission t = (let a = fst t in ea_status a = AUTHORIZED \<and> aware (ea_timestamp a) \<and> \<not> blank (ea_symbol a)
     \<and> ea_direction a \<noteq> NO_TRADE \<and> ea_approved_quantity a = Fin (of_int (order_size a)) \<and> 0 < order_size a
     \<and> fair_price (snd t))"

lemma runtime_fill_price_range:
  assumes "fair_trading_config c" "fair_price price"
  obtains x where "runtime_fill_price c direction price = Inr x" "fill_range x"
proof -
  obtain s where s: "fdiv (pt_slippage_bps c) (Fin 10000) = Inr (Fin s)" "0 \<le> s" "s \<le> 1 / 2" "is_double s"
  proof -
    obtain s where s: "fdiv (pt_slippage_bps c) (Fin 10000) = Inr (Fin s)" "0 \<le> s" "s \<le> 1 / 2"
      using scaled_bps [of 5000 _ "1 / 2"] half_double assms(1) by (auto simp: fair_trading_config_def)
    obtain b where "pt_slippage_bps c = Fin b" using assms(1) by (cases "pt_slippage_bps c") (auto simp: fair_trading_config_def)
    then have "rnd (b / 10000) = Fin s" using s(1) by (simp add: fdiv_Fin)
    then show thesis using that s rnd_double by blast
  qed
  obtain a where a: "price = Fin a" "1 / 2 ^ 64 \<le> a" "a \<le> 2 ^ 64" using assms(2) by (cases price) auto
  define z where "z = (if direction = LONG then 1 + s else 1 - s)"
  have sign: "fmul (if direction = LONG then Fin 1 else Fin (- 1)) (Fin s) = Fin (if direction = LONG then s else - s)"
    using s(4) rnd_uminus [of s "- s"] by (simp add: is_double_def)
  have "1 / 2 \<le> z" "z \<le> 2" using s(2,3) by (simp_all add: z_def)
  moreover have "rnd 2 = Fin 2" using rnd_int [of 2] by simp
  ultimately obtain g where g: "rnd z = Fin g" "1 / 2 \<le> g" "g \<le> 2"
    using double.between_finite [OF half_double] by metis
  have "1 / 2 ^ 64 * (1 / 2) \<le> a * g"
    using a(2) g(2) by (intro mult_mono) (auto intro: order_trans [of 0 "1 / 2 ^ 64"])
  moreover have "a * g \<le> 2 ^ 64 * 2"
    using a(2,3) g(2,3) by (intro mult_mono) (auto intro: order_trans [of 0 "1 / 2 ^ 64"])
  ultimately have "of_int 1 * low_price \<le> a * g" "a * g \<le> of_int 1 * high_price"
    by (simp_all add: low_price_def high_price_def)
  then obtain y where "rnd (a * g) = Fin y" "of_int 1 * low_price \<le> y" "y \<le> of_int 1 * high_price"
    using scaled_between [of 1 "a * g"] by auto
  then have "runtime_fill_price c direction price = Inr (Fin y)" "fill_range (Fin y)"
    using s(1) sign a(1) g(1) by (simp_all add: runtime_fill_price_def Let_def z_def split: if_splits)
  then show thesis by (rule that)
qed

lemma whole_mag: "0 \<le> k \<Longrightarrow> k \<le> 2 ^ 53 \<Longrightarrow> mag 53 (Fin (of_int k))"
proof -
  assume "0 \<le> k" "k \<le> 2 ^ 53"
  moreover from this have "(of_int k :: rat) \<le> of_int (2 ^ 53)" by (simp only: of_int_le_iff)
  ultimately show ?thesis by simp
qed

lemma runtime_fees_bounded:
  assumes "fair_trading_config c" "fill_range fill" "0 < k" "k \<le> 2 ^ 53"
  obtains f where "runtime_fees c fill (Fin (of_int k)) = Inr f" "mag 150 f" "nonneg f"
proof -
  have bps: "mag 14 (pt_fee_bps c)" "nonneg (pt_fee_bps c)"
    using assms(1) up_to_nonneg by (cases "pt_fee_bps c"; auto simp: fair_trading_config_def)+
  have notional: "mag 118 (fmul fill (Fin (of_int k)))" "nonneg (fmul fill (Fin (of_int k)))"
    using assms(3,4) fill_range_signs [OF assms(2)]
    by (simp_all del: mag.simps add: mag_fmul [OF fill_range_mag [OF assms(2)] whole_mag] fmul_pos_nonneg)
  have m: "mag 132 (fmul (fmul fill (Fin (of_int k))) (pt_fee_bps c))"
    using notional(1) bps(1) by (rule mag_fmul) simp_all
  have n: "nonneg (fmul (fmul fill (Fin (of_int k))) (pt_fee_bps c))"
    by (rule fmul_nonneg [OF notional(2) bps(2) mag_finite [OF notional(1)] mag_finite [OF bps(1)]])
  obtain z where "runtime_fees c fill (Fin (of_int k)) = Inr z" "mag 132 z"
    using mag_fdiv [OF m, of 10000] by (auto simp: runtime_fees_def)
  then show thesis using that [of z] mag_mono [of 132 z 150] n nonneg_fdiv [OF n mag_finite [OF m], of 10000]
    by (simp add: runtime_fees_def)
qed

definition book_fair :: "int \<Rightarrow> int \<Rightarrow> PaperRuntime \<Rightarrow> bool" where
  "book_fair n b s \<longleftrightarrow> (\<forall>stock p. dict_get (pr_positions s) stock = Some p \<longrightarrow> position_fair n b p)"

definition runtime_net :: "PaperRuntime \<Rightarrow> string \<Rightarrow> pyfloat" where
  "runtime_net s stock = signed_position (dict_get (pr_positions s) stock)"

lemma position_fair_mono: "position_fair n b p \<Longrightarrow> n \<le> m \<Longrightarrow> b \<le> d \<Longrightarrow> position_fair m d p"
  using pnl_mono by (auto simp: position_fair_def)

text \<open>One submission: it returns a filled order and moves the position of its symbol by its shares.\<close>

lemma runtime_submit_exact:
  assumes "fair_trading_config c" "fair_submission (a, price)" "book_fair n b s"
    and "runtime_net s (upper (ea_symbol a)) = Fin (of_int g)"
    and "0 \<le> n" "n + order_size a \<le> 2 ^ 53" "0 \<le> b" "b + 2 \<le> 2 ^ 53"
  shows "\<exists>r s'. runtime_submit c a price None s = (Inr r, s') \<and> pr_journal s' = pr_journal s @ [r]
    \<and> po_status r = PO_FILLED \<and> po_symbol r = upper (ea_symbol a) \<and> po_direction r = ea_direction a
    \<and> po_quantity r = ea_approved_quantity a \<and> fill_range (po_fill_price r)
    \<and> book_fair (n + order_size a) (b + 2) s'
    \<and> runtime_net s' (upper (ea_symbol a)) = Fin (of_int (g + signed_by (ea_direction a) (order_size a)))
    \<and> (\<forall>stock. stock \<noteq> upper (ea_symbol a) \<longrightarrow> runtime_net s' stock = runtime_net s stock)"
proof -
  define symbol where "symbol = upper (ea_symbol a)"
  define k where "k = order_size a"
  have a: "ea_status a = AUTHORIZED" "aware (ea_timestamp a)" "\<not> blank symbol" "ea_direction a \<noteq> NO_TRADE"
      "ea_approved_quantity a = Fin (of_int k)" "0 < k" "fair_price price" "k \<le> 2 ^ 53"
    using assms(2,5,6) by (simp_all add: fair_submission_def Let_def k_def symbol_def)
  obtain fill where fill: "runtime_fill_price c (ea_direction a) price = Inr fill" "fill_range fill"
    using runtime_fill_price_range [OF assms(1) a(7)] by metis
  obtain fees where fees: "runtime_fees c fill (Fin (of_int k)) = Inr fees" "mag 150 fees" "nonneg fees"
    using runtime_fees_bounded [OF assms(1) fill(2) a(6,8)] by metis
  have amounts: "fair_amounts fill fees" using fill(2) fees(2) by (simp add: fair_amounts_def)
  obtain x q where after: "position_after (dict_get (pr_positions s) symbol) symbol (ea_direction a) (Fin (of_int k)) fill fees = (x, Inr q)"
      "position_fair (n + k) (b + 2) q" "signed_position (Some q) = Fin (of_int (g + signed_by (ea_direction a) k))"
    using position_after_exact [OF amounts a(3,4,6), of "dict_get (pr_positions s) symbol" n b g] assms(3-8)
    by (auto simp: book_fair_def runtime_net_def symbol_def k_def)
  define r where "r = \<lparr>po_timestamp = ea_timestamp a, po_symbol = symbol, po_direction = ea_direction a,
         po_requested_price = price, po_fill_price = fill, po_quantity = Fin (of_int k),
         po_status = PO_FILLED, po_fees = fees, po_slippage_cost = fmul (fabs (fsub fill price)) (Fin (of_int k)),
         po_reason = ''Paper fill simulated deterministically.''\<rparr>"
  have cost: "isfinite (po_slippage_cost r)" "\<not> fneg_lt (po_slippage_cost r)"
  proof -
    have d: "mag 66 (fsub fill price)"
      using fill_range_mag [OF fill(2)] fair_price_mag [OF a(7)] by (rule mag_fsub) simp_all
    then have "mag 119 (po_slippage_cost r)" unfolding r_def
      using whole_mag [of k] a(6,8) by (simp del: mag.simps) (rule mag_fmul [of 66 _ 53], simp_all)
    then show "isfinite (po_slippage_cost r)" by (rule mag_finite)
    have "isfinite (fabs (fsub fill price))" using d by (intro mag_finite [of 66]) simp
    then have "nonneg (po_slippage_cost r)" unfolding r_def using d a(6)
      by (simp, intro fmul_nonneg fabs_nonneg) (auto dest!: mag_finite isfinite_not_nan)
    then show "\<not> fneg_lt (po_slippage_cost r)" by (rule nonneg_not_neg)
  qed
  have order: "make_paper_order r = Inr r"
    using a(2,3,6) fair_price_pos [OF a(7)] mag_finite [OF fair_price_mag [OF a(7)]] fill_range_signs [OF fill(2)]
      mag_finite [OF fees(2)] nonneg_not_neg [OF fees(3)] cost
    by (simp add: make_paper_order_def r_def)
  obtain s1 where run: "runtime_submit c a price None s = (Inr r, s1)"
      "pr_positions s1 = dict_set symbol q (pr_positions s)" "pr_journal s1 = pr_journal s @ [r]"
    using a(1,5,6) fair_price_pos [OF a(7)] mag_finite [OF fair_price_mag [OF a(7)]] fill(1) fees(1) after(1) order
    by (cases x)
       (simp_all add: runtime_submit_def submit_quantity_def runtime_fill_def Let_def abind_run athen_run book_pnl_def
          journal_order_def symbol_def [symmetric] r_def [symmetric])
  have "book_fair (n + k) (b + 2) s1"
    using assms(3) after(2) a(6) position_fair_mono [of n b _ "n + k" "b + 2"] by (simp add: book_fair_def run(2))
  then show ?thesis
    using run after(3) fill(2) a(5) by (simp add: r_def runtime_net_def symbol_def k_def)
qed

section \<open>Sequences of submissions, and the paper broker\<close>

fun runtime_run :: "PaperTradingConfig \<Rightarrow> (ExecutionAuthorization \<times> pyfloat) list \<Rightarrow> (PaperRuntime, PaperOrder list) act" where
  "runtime_run c [] = aret []"
| "runtime_run c ((a, price) # ts) = abind (runtime_submit c a price None) (\<lambda>r.
     abind (runtime_run c ts) (\<lambda>rs. aret (r # rs)))"

text \<open>A journal order as a request and a fill of the paper broker adapter.\<close>

definition as_fill :: "PaperOrder \<Rightarrow> OrderRequest \<times> Fill" where
  "as_fill r = (\<lparr>or_client_order_id = ''order'', or_decision_id = ''decision'', or_symbol = po_symbol r,
      or_side = (if po_direction r = LONG then BUY else SELL), or_quantity = po_quantity r, or_order_type = MARKET,
      or_limit_price = None, or_time_in_force = DAY, or_purpose = ''ENTRY'', or_created_at = po_timestamp r,
      or_authorization = None\<rparr>,
    \<lparr>fl_fill_id = ''fill'', fl_client_order_id = ''order'', fl_quantity = po_quantity r,
      fl_price = po_fill_price r, fl_fee = po_fees r, fl_timestamp = po_timestamp r\<rparr>)"

definition submitted_shares :: "(ExecutionAuthorization \<times> pyfloat) list \<Rightarrow> int" where
  "submitted_shares ts = sum_list (map (\<lambda>t. order_size (fst t)) ts)"

lemma fill_range_price_ok: "fill_range x \<Longrightarrow> price_ok x"
proof (erule fill_range_pos)
  fix a
  assume "x = Fin a" "0 < a" "a \<le> high_price"
  moreover have "high_price \<le> price_cap"
    unfolding high_price_def price_cap_def by (rule power_increasing) simp_all
  ultimately show ?thesis by (simp add: price_ok_iff)
qed

lemma as_fill_whole:
  assumes "po_quantity r = Fin (of_int k)" "0 < k" "fill_range (po_fill_price r)" "\<not> blank (po_symbol r)"
  shows "whole_fill (as_fill r)" "shares (snd (as_fill r)) = k"
    "signed_shares (as_fill r) = signed_by (po_direction r) k" "or_symbol (fst (as_fill r)) = po_symbol r"
  using assms fill_range_price_ok
  by (simp_all add: whole_fill_def as_fill_def shares_def signed_shares_def signed_by_def)

lemma submitted_shares_nonneg: "list_all fair_submission ts \<Longrightarrow> 0 \<le> submitted_shares ts"
  by (induction ts) (auto simp: submitted_shares_def fair_submission_def Let_def)

lemma runtime_run_exact:
  assumes "fair_trading_config c"
  shows "list_all fair_submission ts \<Longrightarrow> book_fair n b s \<Longrightarrow> (\<And>stock. runtime_net s stock = Fin (of_int (h stock))) \<Longrightarrow>
    0 \<le> n \<Longrightarrow> n + submitted_shares ts \<le> 2 ^ 53 \<Longrightarrow> 0 \<le> b \<Longrightarrow> b + 2 * int (length ts) \<le> 2 ^ 53 \<Longrightarrow>
    \<exists>rs s'. runtime_run c ts s = (Inr rs, s') \<and> pr_journal s' = pr_journal s @ rs \<and> length rs = length ts
      \<and> list_all (\<lambda>r. po_status r = PO_FILLED) rs \<and> list_all whole_fill (map as_fill rs)
      \<and> total_shares (map as_fill rs) = submitted_shares ts
      \<and> (\<forall>stock. runtime_net s' stock = Fin (of_int (h stock + net_shares (map as_fill rs) stock)))"
proof (induction ts arbitrary: n b s h)
  case Nil
  then show ?case by (simp add: total_shares_def submitted_shares_def net_shares_def)
next
  case (Cons t ts)
  obtain a price where t: "t = (a, price)" by (cases t)
  define symbol where "symbol = upper (ea_symbol a)"
  define k where "k = order_size a"
  have fair: "fair_submission (a, price)" "list_all fair_submission ts" using Cons.prems(1) t by simp_all
  then have k: "0 < k" "ea_approved_quantity a = Fin (of_int k)" "\<not> blank symbol"
    by (simp_all add: fair_submission_def Let_def k_def symbol_def)
  have all: "submitted_shares (t # ts) = k + submitted_shares ts" by (simp add: submitted_shares_def t k_def)
  have nk: "n + k \<le> 2 ^ 53" using Cons.prems(5) all submitted_shares_nonneg [OF fair(2)] by linarith
  have b: "b + 2 \<le> 2 ^ 53" using Cons.prems(7) by simp
  obtain r s1 where one: "runtime_submit c a price None s = (Inr r, s1)" "pr_journal s1 = pr_journal s @ [r]"
      "po_status r = PO_FILLED" "po_symbol r = symbol" "po_direction r = ea_direction a"
      "po_quantity r = ea_approved_quantity a" "fill_range (po_fill_price r)" "book_fair (n + k) (b + 2) s1"
      "runtime_net s1 symbol = Fin (of_int (h symbol + signed_by (ea_direction a) k))"
      "\<And>stock. stock \<noteq> symbol \<Longrightarrow> runtime_net s1 stock = runtime_net s stock"
    using runtime_submit_exact [OF assms fair(1) Cons.prems(2) Cons.prems(3) Cons.prems(4)] nk Cons.prems(6) b
    unfolding symbol_def k_def by metis
  have "po_quantity r = Fin (of_int k)" "\<not> blank (po_symbol r)" using one(4,6) k by simp_all
  note fill = as_fill_whole [OF this(1) k(1) one(7) this(2)]
  define h1 where "h1 = h (symbol := h symbol + signed_by (ea_direction a) k)"
  have h1: "runtime_net s1 stock = Fin (of_int (h1 stock))" for stock
    using one(9,10) Cons.prems(3) by (simp add: h1_def)
  obtain rs s' where rest: "runtime_run c ts s1 = (Inr rs, s')" "pr_journal s' = pr_journal s1 @ rs" "length rs = length ts"
      "list_all (\<lambda>r. po_status r = PO_FILLED) rs" "list_all whole_fill (map as_fill rs)"
      "total_shares (map as_fill rs) = submitted_shares ts"
      "\<forall>stock. runtime_net s' stock = Fin (of_int (h1 stock + net_shares (map as_fill rs) stock))"
    using Cons.IH [OF fair(2) one(8) h1] Cons.prems(4-7) k(1) all by auto
  have "h1 stock + net_shares (map as_fill rs) stock = h stock + net_shares (map as_fill (r # rs)) stock" for stock
    using fill one(4,5) by (simp add: h1_def net_shares_def)
  then show ?case
    using one(1-3) rest fill(1,2) all
    by (intro exI [of _ "r # rs"] exI [of _ s']) (simp add: t abind_run total_shares_def)
qed

text \<open>C21. The paper trading runtime and the paper broker adapter keep the same books. For any sequence
  of authorized orders of whole shares (at most \<open>2 ^ 53\<close> in total) at ordinary prices, every
  submission returns a filled order, the journal lists them, and for every symbol the runtime's
  signed position equals the adapter's after the same fills: both are exactly the bought minus the
  sold shares.\<close>

theorem runtime_matches_paper_broker:
  assumes "fair_trading_config c" "list_all fair_submission ts" "submitted_shares ts \<le> 2 ^ 53" "length ts \<le> 2 ^ 50"
  shows "\<exists>rs s ps. runtime_run c ts runtime_init = (Inr rs, s) \<and> pr_journal s = rs \<and> length rs = length ts
    \<and> list_all (\<lambda>r. po_status r = PO_FILLED) rs \<and> apply_fills (map as_fill rs) [] = Inr ps
    \<and> (\<forall>stock. runtime_net s stock = net ps stock \<and> net ps stock = Fin (of_int (net_shares (map as_fill rs) stock)))"
proof -
  have len: "int (length ts) \<le> int (2 ^ 50)" using assms(4) by (simp only: of_nat_le_iff)
  obtain rs s where run: "runtime_run c ts runtime_init = (Inr rs, s)" "pr_journal s = pr_journal runtime_init @ rs"
      "length rs = length ts" "list_all (\<lambda>r. po_status r = PO_FILLED) rs" "list_all whole_fill (map as_fill rs)"
      "total_shares (map as_fill rs) = submitted_shares ts"
      "\<forall>stock. runtime_net s stock = Fin (of_int (0 + net_shares (map as_fill rs) stock))"
    using runtime_run_exact [OF assms(1,2), where n = 0 and b = 0 and s = runtime_init and h = "\<lambda>_. 0"] assms(3) len
    by (auto simp: runtime_init_def book_fair_def runtime_net_def signed_position_def)
  have "\<exists>ps. apply_fills (map as_fill rs) [] = Inr ps \<and> book_ok (0 + total_shares (map as_fill rs)) ps
      \<and> (\<forall>stock. net ps stock = Fin (of_int (0 + net_shares (map as_fill rs) stock)))"
    using run(5,6) assms(3) by (intro apply_fills_exact) (simp_all add: book_ok_def net_def)
  then show ?thesis using run by (auto simp: runtime_init_def)
qed

definition demo_submission :: "string \<Rightarrow> StrategyDirection \<Rightarrow> int \<Rightarrow> ExecutionAuthorization \<times> pyfloat" where
  "demo_submission symbol direction k = (\<lparr>ea_timestamp = \<lparr>ns = 0, zone = Some 0\<rparr>, ea_symbol = symbol,
     ea_direction = direction, ea_status = AUTHORIZED, ea_reason = ''approved'', ea_risk_version = ''RISK-v1.0'',
     ea_approved_quantity = Fin (of_int k), ea_approved_notional = Fin 1000, ea_risk_decision_id = ''r'',
     ea_restrictions = [], ea_execution_version = ''EXEC-v1.0'', ea_position_transition = None,
     ea_approved_projected_quantity = None\<rparr>, Fin 100)"

definition demo_submissions :: "(ExecutionAuthorization \<times> pyfloat) list" where
  "demo_submissions = [demo_submission ''ABC'' LONG 10, demo_submission ''abc'' SHORT 25, demo_submission ''XYZ'' SHORT 3,
     demo_submission ''ABC'' LONG 15]"

text \<open>An opening, a reversal, another symbol, and a flattening.\<close>

theorem runtime_matches_paper_broker_witness:
  "\<exists>rs s ps. runtime_run default_paper_trading_config demo_submissions runtime_init = (Inr rs, s)
    \<and> pr_journal s = rs \<and> length rs = length demo_submissions
    \<and> list_all (\<lambda>r. po_status r = PO_FILLED) rs \<and> apply_fills (map as_fill rs) [] = Inr ps
    \<and> (\<forall>stock. runtime_net s stock = net ps stock \<and> net ps stock = Fin (of_int (net_shares (map as_fill rs) stock)))"
proof (rule runtime_matches_paper_broker)
  show "fair_trading_config default_paper_trading_config" by code_simp
  show "list_all fair_submission demo_submissions" by code_simp
  show "submitted_shares demo_submissions \<le> 2 ^ 53" by code_simp
  show "length demo_submissions \<le> 2 ^ 50" by (simp add: demo_submissions_def)
qed

end
