(* ===== verification/TradeLifecycle.thy ===== *)
theory TradeLifecycle
  imports PaperRuntime FloatEval
begin

text \<open>
  \<open>trading/paper/lifecycle.py\<close>: the record of a finished trade and the tracker of open trades,
  with partial closes. \<open>span_seconds\<close> is \<open>total_seconds()\<close> of a difference of time stamps.
\<close>

section \<open>Outcomes\<close>

datatype TradeLifecycleStatus = TS_OPEN | TS_CLOSED

record TradeOutcome =
  to_symbol :: string
  to_direction :: StrategyDirection
  to_entry_time :: pytime
  to_exit_time :: pytime
  to_entry_price :: pyfloat
  to_exit_price :: pyfloat
  to_quantity :: pyfloat
  to_gross_pnl :: pyfloat
  to_fees :: pyfloat
  to_slippage_cost :: pyfloat
  to_net_pnl :: pyfloat
  to_holding_minutes :: pyfloat
  to_mae :: pyfloat
  to_mfe :: pyfloat
  to_status :: TradeLifecycleStatus

fun first_not_finite :: "(string \<times> pyfloat) list \<Rightarrow> string option" where
  "first_not_finite [] = None"
| "first_not_finite ((name, x) # xs) = (if isfinite x then first_not_finite xs else Some name)"

definition outcome_numbers :: "TradeOutcome \<Rightarrow> (string \<times> pyfloat) list" where
  "outcome_numbers t = [(''entry_price'', to_entry_price t), (''exit_price'', to_exit_price t),
     (''quantity'', to_quantity t), (''gross_pnl'', to_gross_pnl t), (''fees'', to_fees t),
     (''slippage_cost'', to_slippage_cost t), (''net_pnl'', to_net_pnl t),
     (''holding_minutes'', to_holding_minutes t), (''mae'', to_mae t), (''mfe'', to_mfe t)]"

definition make_trade_outcome :: "TradeOutcome \<Rightarrow> TradeOutcome res" where
  "make_trade_outcome t =
    (if \<not> aware (to_entry_time t) \<or> \<not> aware (to_exit_time t)
       then Inl (ValueError ''trade timestamps must be timezone-aware'')
     else rbind (time_less (to_exit_time t) (to_entry_time t)) (\<lambda>early.
       if early then Inl (ValueError ''exit_time must not precede entry_time'')
       else (case first_not_finite (outcome_numbers t) of
           Some name \<Rightarrow> Inl (ValueError (name @ '' must be finite''))
         | None \<Rightarrow>
             if nonpos (to_entry_price t) \<or> nonpos (to_exit_price t)
               then Inl (ValueError ''trade prices must be positive'')
             else if nonpos (to_quantity t) then Inl (ValueError ''trade quantity must be positive'')
             else if fneg_lt (to_fees t) \<or> fneg_lt (to_slippage_cost t)
               then Inl (ValueError ''fees and slippage_cost must be non-negative'')
             else if fpos (to_mae t) \<or> fneg_lt (to_mfe t)
               then Inl (ValueError ''MAE must be <= 0 and MFE must be >= 0'')
             else Inr t)))"

definition span_seconds :: "pytime \<Rightarrow> pytime \<Rightarrow> pyfloat" where
  "span_seconds later earlier = (let us = (ns later - ns earlier) div 1000 in
     fadd (rnd (of_int (us div 1000000))) (rnd (of_int (us mod 1000000) / 1000000)))"

section \<open>Open trades\<close>

record open_trade =
  ot_order :: PaperOrder
  ot_quantity :: pyfloat
  ot_entry_fees :: pyfloat
  ot_entry_slippage_cost :: pyfloat
  ot_mae :: pyfloat
  ot_mfe :: pyfloat

record PaperTradeLifecycle =
  lc_open :: "(string, open_trade) dict"
  lc_outcomes :: "TradeOutcome list"

definition lifecycle_init :: PaperTradeLifecycle where
  "lifecycle_init = \<lparr>lc_open = [], lc_outcomes = []\<rparr>"

definition put_trade :: "string \<Rightarrow> open_trade \<Rightarrow> (PaperTradeLifecycle, unit) act" where
  "put_trade symbol t = amod (\<lambda>s. s\<lparr>lc_open := dict_set symbol t (lc_open s)\<rparr>)"

definition lifecycle_open :: "PaperOrder \<Rightarrow> (PaperTradeLifecycle, unit) act" where
  "lifecycle_open r =
    (if po_status r \<noteq> PO_FILLED then araise (ValueError ''only FILLED paper orders can open a trade'')
     else (let symbol = upper (po_symbol r) in
       abind (aget (\<lambda>s. dict_get (lc_open s) symbol)) (\<lambda>existing.
         if existing \<noteq> None then araise (ValueError ''trade already open'')
         else put_trade symbol \<lparr>ot_order = r, ot_quantity = po_quantity r, ot_entry_fees = po_fees r,
           ot_entry_slippage_cost = po_slippage_cost r, ot_mae = Fin 0, ot_mfe = Fin 0\<rparr>)))"

definition signed_move :: "PaperOrder \<Rightarrow> pyfloat \<Rightarrow> pyfloat" where
  "signed_move r price = (if po_direction r = LONG then fsub price (po_fill_price r)
     else fsub (po_fill_price r) price)"

definition lifecycle_mark :: "string \<Rightarrow> pytime \<Rightarrow> pyfloat \<Rightarrow> (PaperTradeLifecycle, unit) act" where
  "lifecycle_mark name t price =
    (let symbol = upper name in
     abind (aget (\<lambda>s. dict_get (lc_open s) symbol)) (\<lambda>trade. case trade of
       None \<Rightarrow> araise (KeyError ''no open trade'')
     | Some tr \<Rightarrow>
         if \<not> isfinite price \<or> nonpos price
           then araise (ValueError ''mark price must be positive and finite'')
         else if \<not> aware t then araise (ValueError ''mark timestamp must be timezone-aware'')
         else abind (alift (time_less t (po_timestamp (ot_order tr)))) (\<lambda>early.
           if early then araise (ValueError ''mark timestamp must not precede entry'')
           else (let move = fmul (signed_move (ot_order tr) price) (ot_quantity tr) in
             put_trade symbol (tr\<lparr>ot_mae := fmin (ot_mae tr) move, ot_mfe := fmax (ot_mfe tr) move\<rparr>)))))"

section \<open>Closing\<close>

text \<open>The checks on the arguments of a close; the result is the price the gross profit is taken at.\<close>

definition close_arguments :: "pytime \<Rightarrow> pyfloat \<Rightarrow> pyfloat \<Rightarrow> pyfloat \<Rightarrow> pyfloat \<Rightarrow> pyfloat option \<Rightarrow> pyfloat res" where
  "close_arguments t price quantity exit_fees exit_slippage_cost reference_price =
    (if \<not> isfinite price \<or> \<not> isfinite quantity \<or> nonpos price \<or> nonpos quantity
       then Inl (ValueError ''price and quantity must be positive and finite'')
     else if \<not> isfinite exit_fees \<or> \<not> isfinite exit_slippage_cost \<or> fneg_lt exit_fees \<or> fneg_lt exit_slippage_cost
       then Inl (ValueError ''exit costs must be finite and non-negative'')
     else rbind (case reference_price of
         None \<Rightarrow> Inr price
       | Some x \<Rightarrow> if \<not> isfinite x \<or> nonpos x
           then Inl (ValueError ''reference_price must be positive and finite'') else Inr x) (\<lambda>reference.
       if fpos exit_slippage_cost \<and> feq reference price
         then Inl (ValueError ''reference_price must differ from execution price when exit_slippage_cost is non-zero'')
       else if \<not> aware t then Inl (ValueError ''exit timestamp must be timezone-aware'')
       else Inr reference))"

definition signed_unit_pnl :: "PaperOrder \<Rightarrow> pyfloat \<Rightarrow> pyfloat" where
  "signed_unit_pnl r reference = (if po_direction r = LONG then fsub reference (po_requested_price r)
     else fsub (po_requested_price r) reference)"

definition cost_share :: "pyfloat \<Rightarrow> pyfloat \<Rightarrow> pyfloat \<Rightarrow> pyfloat res" where
  "cost_share entry_cost quantity current_quantity = fdiv (fmul entry_cost quantity) current_quantity"

definition close_outcome :: "string \<Rightarrow> open_trade \<Rightarrow> pytime \<Rightarrow> pyfloat \<Rightarrow> pyfloat \<Rightarrow> pyfloat \<Rightarrow> pyfloat
     \<Rightarrow> pyfloat \<Rightarrow> pyfloat \<Rightarrow> pyfloat \<Rightarrow> TradeOutcome res" where
  "close_outcome symbol tr t price quantity reference exit_fees exit_slippage_cost fee_share slippage_share =
    (let r = ot_order tr; gross = fmul (signed_unit_pnl r reference) quantity in
     rbind (fdiv (span_seconds t (po_timestamp r)) (Fin 60)) (\<lambda>minutes.
     make_trade_outcome \<lparr>to_symbol = symbol, to_direction = po_direction r, to_entry_time = po_timestamp r,
       to_exit_time = t, to_entry_price = po_fill_price r, to_exit_price = price, to_quantity = quantity,
       to_gross_pnl = gross, to_fees = fadd fee_share exit_fees,
       to_slippage_cost = fadd slippage_share exit_slippage_cost,
       to_net_pnl = fsub (fsub (fsub (fsub gross fee_share) exit_fees) slippage_share) exit_slippage_cost,
       to_holding_minutes = minutes, to_mae = ot_mae tr, to_mfe = ot_mfe tr,
       to_status = TS_CLOSED\<rparr>))"

definition close_tolerance :: pyfloat where
  "close_tolerance = lit (1 / 10 ^ 12)"

text \<open>What stays open after a close of the quantity.\<close>

definition remainder_trade :: "open_trade \<Rightarrow> pyfloat \<Rightarrow> pyfloat \<Rightarrow> pyfloat \<Rightarrow> open_trade option" where
  "remainder_trade tr quantity fee_share slippage_share =
    (let remaining = fsub (ot_quantity tr) quantity in
     if fle remaining close_tolerance then None
     else Some (tr\<lparr>ot_quantity := remaining, ot_entry_fees := fsub (ot_entry_fees tr) fee_share,
       ot_entry_slippage_cost := fsub (ot_entry_slippage_cost tr) slippage_share,
       ot_mae := Fin 0, ot_mfe := Fin 0\<rparr>))"

definition lifecycle_close_partial :: "string \<Rightarrow> pytime \<Rightarrow> pyfloat \<Rightarrow> pyfloat \<Rightarrow> pyfloat \<Rightarrow> pyfloat
     \<Rightarrow> pyfloat option \<Rightarrow> (PaperTradeLifecycle, TradeOutcome) act" where
  "lifecycle_close_partial name t price quantity exit_fees exit_slippage_cost reference_price =
    (let symbol = upper name in
     abind (aget (\<lambda>s. dict_get (lc_open s) symbol)) (\<lambda>trade. case trade of
       None \<Rightarrow> araise (KeyError ''no open trade'')
     | Some tr \<Rightarrow>
         abind (alift (close_arguments t price quantity exit_fees exit_slippage_cost reference_price)) (\<lambda>reference.
         if fless (fadd (ot_quantity tr) close_tolerance) quantity
           then araise (ValueError ''partial close quantity exceeds open quantity'')
         else abind (alift (time_less t (po_timestamp (ot_order tr)))) (\<lambda>early.
         if early then araise (ValueError ''exit timestamp must not precede entry'')
         else abind (alift (cost_share (ot_entry_fees tr) quantity (ot_quantity tr))) (\<lambda>fee_share.
         abind (alift (cost_share (ot_entry_slippage_cost tr) quantity (ot_quantity tr))) (\<lambda>slippage_share.
         abind (alift (close_outcome symbol tr t price quantity reference exit_fees exit_slippage_cost
             fee_share slippage_share)) (\<lambda>outcome.
         athen (amod (\<lambda>s. s\<lparr>lc_outcomes := lc_outcomes s @ [outcome]\<rparr>))
        (athen (case remainder_trade tr quantity fee_share slippage_share of
             None \<Rightarrow> amod (\<lambda>s. s\<lparr>lc_open := dict_pop symbol (lc_open s)\<rparr>)
           | Some rest \<Rightarrow> put_trade symbol rest)
         (aret outcome)))))))))"

definition lifecycle_close :: "string \<Rightarrow> pytime \<Rightarrow> pyfloat \<Rightarrow> pyfloat \<Rightarrow> pyfloat
     \<Rightarrow> pyfloat option \<Rightarrow> (PaperTradeLifecycle, TradeOutcome) act" where
  "lifecycle_close name t price exit_fees exit_slippage_cost reference_price =
    (let symbol = upper name in
     abind (aget (\<lambda>s. dict_get (lc_open s) symbol)) (\<lambda>trade. case trade of
       None \<Rightarrow> araise (KeyError ''no open trade'')
     | Some tr \<Rightarrow>
         if nonpos price then araise (ValueError ''exit price must be positive'')
         else if fneg_lt exit_fees then araise (ValueError ''exit_fees must be non-negative'')
         else if fneg_lt exit_slippage_cost then araise (ValueError ''exit_slippage_cost must be non-negative'')
         else if \<not> aware t then araise (ValueError ''exit timestamp must be timezone-aware'')
         else lifecycle_close_partial symbol t price (ot_quantity tr) exit_fees exit_slippage_cost reference_price))"

end
