(* ===== verification/ExitEngine.thy ===== *)
theory ExitEngine
  imports TradeLifecycle Candles
begin

text \<open>
  \<open>trading/paper/exit_engine.py\<close>: open positions are marked with each candle of their symbol and
  closed at the stop, the target, the session cutoff or the maximal holding time. The cutoff time
  is a pair of numbers (the constructor parses its text), and a candle is the record of
  \<open>market/candles\<close>.
\<close>

section \<open>Positions\<close>

datatype ExitReason =
    X_TARGET | X_STOP_LOSS | X_SESSION_CLOSE | X_MAX_HOLDING_TIME | X_SIGNAL_REVERSAL | X_RISK_SHUTDOWN | X_MANUAL

record ExitPosition =
  xp_trade_id :: string
  xp_symbol :: string
  xp_direction :: StrategyDirection
  xp_entry_time :: pytime
  xp_fill_price :: pyfloat
  xp_requested_price :: pyfloat
  xp_quantity :: pyfloat
  xp_stop_price :: pyfloat
  xp_target_price :: pyfloat
  xp_entry_fees :: pyfloat
  xp_entry_slippage_cost :: pyfloat
  xp_strategy_version :: string
  xp_model_version :: "string option"
  xp_risk_version :: "string option"
  xp_regime :: "string option"
  xp_mae :: pyfloat
  xp_mfe :: pyfloat
  xp_bars_held :: int

definition make_exit_position :: "ExitPosition \<Rightarrow> ExitPosition res" where
  "make_exit_position p =
    (if \<not> aware (xp_entry_time p) then Inl (ValueError ''entry_time must be timezone-aware'')
     else if nonpos (xp_fill_price p) \<or> nonpos (xp_requested_price p)
       then Inl (ValueError ''prices must be positive'')
     else if nonpos (xp_quantity p) then Inl (ValueError ''quantity must be positive'')
     else if nonpos (xp_stop_price p) \<or> nonpos (xp_target_price p)
       then Inl (ValueError ''stop and target prices must be positive'')
     else Inr p)"

record ExitConfig =
  xc_fee_bps :: pyfloat
  xc_slippage_bps :: pyfloat
  xc_max_holding_bars :: int
  xc_cutoff_hour :: int
  xc_cutoff_minute :: int

definition default_exit_config :: ExitConfig where
  "default_exit_config = \<lparr>xc_fee_bps = Fin 5, xc_slippage_bps = Fin 2, xc_max_holding_bars = 75,
     xc_cutoff_hour = 15, xc_cutoff_minute = 15\<rparr>"

definition make_exit_config :: "ExitConfig \<Rightarrow> ExitConfig res" where
  "make_exit_config c =
    (if fneg_lt (xc_fee_bps c) \<or> fneg_lt (xc_slippage_bps c)
       then Inl (ValueError ''fee_bps and slippage_bps must be non-negative'')
     else if xc_max_holding_bars c \<le> 0 then Inl (ValueError ''max_holding_bars must be positive'')
     else Inr c)"

record PaperExitEngine =
  xe_open :: "(string, ExitPosition) dict"
  xe_outcomes :: "TradeOutcome list"
  xe_reasons :: "(string, ExitReason) dict"

definition exit_init :: PaperExitEngine where
  "exit_init = \<lparr>xe_open = [], xe_outcomes = [], xe_reasons = []\<rparr>"

definition get_open_position :: "string \<Rightarrow> PaperExitEngine \<Rightarrow> ExitPosition option" where
  "get_open_position symbol s = dict_get (xe_open s) (symbol_of symbol)"

definition has_open_position :: "string \<Rightarrow> PaperExitEngine \<Rightarrow> bool" where
  "has_open_position symbol s = (get_open_position symbol s \<noteq> None)"

section \<open>Opening\<close>

text \<open>\<open>strftime('%Y%m%d%H%M%S')\<close>: the civil date of a count of days since 1970.\<close>

definition civil_date :: "int \<Rightarrow> int \<times> int \<times> int" where
  "civil_date days =
    (let z = days + 719468; era = z div 146097; doe = z mod 146097;
         yoe = (doe - doe div 1460 + doe div 36524 - doe div 146096) div 365;
         doy = doe - (365 * yoe + yoe div 4 - yoe div 100);
         mp = (5 * doy + 2) div 153; d = doy - (153 * mp + 2) div 5 + 1;
         m = (if mp < 10 then mp + 3 else mp - 9); y = yoe + era * 400
     in (if m \<le> 2 then y + 1 else y, m, d))"

definition padded :: "nat \<Rightarrow> int \<Rightarrow> string" where
  "padded w n = (let t = int_text n in replicate (w - length t) (CHR ''0'') @ t)"

definition compact_time :: "pytime \<Rightarrow> string" where
  "compact_time t = (case civil_date (wall_ns t div 86400000000000) of (y, m, d) \<Rightarrow>
     padded 4 y @ padded 2 m @ padded 2 d @ padded 2 (time_hour t) @ padded 2 (time_minute t)
     @ padded 2 (wall_ns t div 1000000000 mod 60))"

definition exit_open_position :: "PaperOrder \<Rightarrow> pyfloat \<Rightarrow> pyfloat \<Rightarrow> string option \<Rightarrow> string \<Rightarrow> string option
     \<Rightarrow> string option \<Rightarrow> string option \<Rightarrow> (PaperExitEngine, ExitPosition) act" where
  "exit_open_position r stop_price target_price trade_id strategy_version model_version risk_version regime =
    (if po_status r \<noteq> PO_FILLED then araise (ValueError ''only FILLED paper orders can open a position'')
     else (let symbol = symbol_of (po_symbol r) in
       abind (aget (\<lambda>s. dict_get (xe_open s) symbol)) (\<lambda>existing.
       if existing \<noteq> None then araise (ValueError ''position already open'')
       else abind (alift (make_exit_position \<lparr>
           xp_trade_id = (case trade_id of
               Some (c # cs) \<Rightarrow> c # cs
             | _ \<Rightarrow> po_reason r @ '':'' @ symbol @ '':'' @ compact_time (po_timestamp r)),
           xp_symbol = symbol, xp_direction = po_direction r, xp_entry_time = po_timestamp r,
           xp_fill_price = po_fill_price r, xp_requested_price = po_requested_price r,
           xp_quantity = po_quantity r, xp_stop_price = stop_price, xp_target_price = target_price,
           xp_entry_fees = po_fees r, xp_entry_slippage_cost = po_slippage_cost r,
           xp_strategy_version = strategy_version, xp_model_version = model_version,
           xp_risk_version = risk_version, xp_regime = regime,
           xp_mae = Fin 0, xp_mfe = Fin 0, xp_bars_held = 0\<rparr>)) (\<lambda>p.
         athen (amod (\<lambda>s. s\<lparr>xe_open := dict_set symbol p (xe_open s)\<rparr>)) (aret p)))))"

section \<open>Closing\<close>

definition close_position :: "ExitConfig \<Rightarrow> ExitPosition \<Rightarrow> pytime \<Rightarrow> pyfloat \<Rightarrow> TradeOutcome res" where
  "close_position c p exit_time exit_price =
     rbind (fdiv (xc_slippage_bps c) (Fin 10000)) (\<lambda>adverse_slip.
     rbind (fdiv (xc_fee_bps c) (Fin 10000)) (\<lambda>fee_rate.
     let actual = (if xp_direction p = LONG then fmul exit_price (fsub (Fin 1) adverse_slip)
           else fmul exit_price (fadd (Fin 1) adverse_slip));
         unit_gross = (if xp_direction p = LONG then fsub exit_price (xp_requested_price p)
           else fsub (xp_requested_price p) exit_price);
         gross = fmul unit_gross (xp_quantity p);
         exit_fee = fmul (fmul actual (xp_quantity p)) fee_rate;
         exit_slip_cost = fmul (fabs (fsub exit_price actual)) (xp_quantity p);
         total_fees = fadd (xp_entry_fees p) exit_fee;
         total_slippage = fadd (xp_entry_slippage_cost p) exit_slip_cost in
     if aware exit_time \<noteq> aware (xp_entry_time p)
       then Inl (TypeError ''Cannot subtract tz-naive and tz-aware datetime-like objects.'')
     else rbind (fdiv (span_seconds exit_time (xp_entry_time p)) (Fin 60)) (\<lambda>minutes.
     make_trade_outcome \<lparr>to_symbol = xp_symbol p, to_direction = xp_direction p,
       to_entry_time = xp_entry_time p, to_exit_time = exit_time, to_entry_price = xp_fill_price p,
       to_exit_price = actual, to_quantity = xp_quantity p, to_gross_pnl = gross, to_fees = total_fees,
       to_slippage_cost = total_slippage, to_net_pnl = fsub (fsub gross total_fees) total_slippage,
       to_holding_minutes = fmax (Fin 1) minutes, to_mae = xp_mae p, to_mfe = xp_mfe p,
       to_status = TS_CLOSED\<rparr>)))"

text \<open>The close, its removal from the open positions and the entries of the two logs.\<close>

definition settle_position :: "ExitConfig \<Rightarrow> string \<Rightarrow> ExitPosition \<Rightarrow> pytime \<Rightarrow> pyfloat \<Rightarrow> ExitReason
     \<Rightarrow> (PaperExitEngine, TradeOutcome) act" where
  "settle_position c symbol p exit_time exit_price reason =
     abind (alift (close_position c p exit_time exit_price)) (\<lambda>outcome.
     athen (amod (\<lambda>s. s\<lparr>xe_open := dict_pop symbol (xe_open s)\<rparr>))
    (athen (amod (\<lambda>s. s\<lparr>xe_outcomes := xe_outcomes s @ [outcome]\<rparr>))
    (athen (amod (\<lambda>s. s\<lparr>xe_reasons := dict_set (xp_trade_id p) reason (xe_reasons s)\<rparr>))
     (aret outcome))))"

section \<open>A candle\<close>

definition mark_candle :: "Candle \<Rightarrow> ExitPosition \<Rightarrow> ExitPosition" where
  "mark_candle k p =
    (let favorable = (if xp_direction p = LONG then fsub (cd_high k) (xp_fill_price p)
           else fsub (xp_fill_price p) (cd_low k));
         adverse = (if xp_direction p = LONG then fsub (cd_low k) (xp_fill_price p)
           else fsub (xp_fill_price p) (cd_high k)) in
     p\<lparr>xp_bars_held := xp_bars_held p + 1,
       xp_mfe := fmax (xp_mfe p) (fmul favorable (xp_quantity p)),
       xp_mae := fmin (xp_mae p) (fmul adverse (xp_quantity p))\<rparr>)"

definition target_hit :: "Candle \<Rightarrow> ExitPosition \<Rightarrow> bool" where
  "target_hit k p = (if xp_direction p = LONG then fle (xp_target_price p) (cd_high k)
     else fle (cd_low k) (xp_target_price p))"

definition stop_hit :: "Candle \<Rightarrow> ExitPosition \<Rightarrow> bool" where
  "stop_hit k p = (if xp_direction p = LONG then fle (cd_low k) (xp_stop_price p)
     else fle (xp_stop_price p) (cd_high k))"

definition time_cutoff_hit :: "ExitConfig \<Rightarrow> bool \<Rightarrow> pytime \<Rightarrow> bool" where
  "time_cutoff_hit c force t = (force \<or> time_hour t > xc_cutoff_hour c
     \<or> (time_hour t = xc_cutoff_hour c \<and> time_minute t \<ge> xc_cutoff_minute c))"

text \<open>The exit the candle triggers: its price and its reason.\<close>

definition exit_trigger :: "ExitConfig \<Rightarrow> bool \<Rightarrow> Candle \<Rightarrow> ExitPosition \<Rightarrow> (pyfloat \<times> ExitReason) option" where
  "exit_trigger c force k p =
    (if target_hit k p \<and> stop_hit k p then Some (xp_stop_price p, X_STOP_LOSS)
     else if stop_hit k p then Some (xp_stop_price p, X_STOP_LOSS)
     else if target_hit k p then Some (xp_target_price p, X_TARGET)
     else if time_cutoff_hit c force (cd_timestamp k) then Some (cd_close k, X_SESSION_CLOSE)
     else if xp_bars_held p \<ge> xc_max_holding_bars c then Some (cd_close k, X_MAX_HOLDING_TIME)
     else None)"

definition process_candle :: "ExitConfig \<Rightarrow> bool \<Rightarrow> Candle \<Rightarrow> (PaperExitEngine, TradeOutcome list) act" where
  "process_candle c force k =
    (let symbol = symbol_of (cd_symbol k) in
     abind (aget (\<lambda>s. dict_get (xe_open s) symbol)) (\<lambda>position. case position of
       None \<Rightarrow> aret []
     | Some p \<Rightarrow>
         abind (alift (time_less (cd_timestamp k) (xp_entry_time p))) (\<lambda>early.
         if early then araise (ValueError ''candle timestamp cannot precede position entry time'')
         else (let marked = mark_candle k p in
           athen (amod (\<lambda>s. s\<lparr>xe_open := dict_set symbol marked (xe_open s)\<rparr>))
            (case exit_trigger c force k marked of
               None \<Rightarrow> aret []
             | Some (exit_price, reason) \<Rightarrow>
                 abind (settle_position c symbol marked (cd_timestamp k) exit_price reason) (\<lambda>outcome.
                 aret [outcome]))))))"

section \<open>Closing everything\<close>

datatype price_lookup = NoPrices | PriceCall "string \<Rightarrow> pyfloat res" | PriceMap "(string, pyfloat) dict"

definition closing_price :: "price_lookup \<Rightarrow> string \<Rightarrow> ExitPosition \<Rightarrow> pyfloat res" where
  "closing_price prices symbol p = (case prices of
      NoPrices \<Rightarrow> Inr (xp_fill_price p)
    | PriceCall f \<Rightarrow> f symbol
    | PriceMap d \<Rightarrow> (case dict_get d symbol of None \<Rightarrow> Inr (xp_fill_price p) | Some x \<Rightarrow> Inr x))"

fun close_symbols :: "ExitConfig \<Rightarrow> pytime \<Rightarrow> price_lookup \<Rightarrow> ExitReason \<Rightarrow> string list
     \<Rightarrow> (PaperExitEngine, TradeOutcome list) act" where
  "close_symbols c t prices reason [] = aret []"
| "close_symbols c t prices reason (symbol # symbols) =
     abind (aget (\<lambda>s. dict_get (xe_open s) symbol)) (\<lambda>position. case position of
       None \<Rightarrow> araise (KeyError symbol)
     | Some p \<Rightarrow>
         abind (alift (closing_price prices symbol p)) (\<lambda>exit_price.
         abind (settle_position c symbol p t exit_price reason) (\<lambda>outcome.
         abind (close_symbols c t prices reason symbols) (\<lambda>outcomes.
         aret (outcome # outcomes)))))"

definition close_all :: "ExitConfig \<Rightarrow> pytime \<Rightarrow> price_lookup \<Rightarrow> ExitReason \<Rightarrow> (PaperExitEngine, TradeOutcome list) act" where
  "close_all c t prices reason = abind (aget (\<lambda>s. dict_keys (xe_open s))) (close_symbols c t prices reason)"

end
