(* ===== verification/ExitProperties.thy ===== *)
theory ExitProperties
  imports ExitEngine Magnitude
begin

text \<open>
  Every open position is closed: the number of candles it may still be held decreases with every
  candle of its symbol, and closing never raises for ordinary prices and costs. A candle that
  touches the stop closes at the stop, whatever else it touches.
\<close>

section \<open>Ordinary prices, costs and positions\<close>

definition fair_costs :: "ExitConfig \<Rightarrow> bool" where
  "fair_costs c = (make_exit_config c = Inr c \<and> up_to 5000 (xc_slippage_bps c) \<and> up_to 10000 (xc_fee_bps c))"

definition fair_position :: "ExitPosition \<Rightarrow> bool" where
  "fair_position p = (aware (xp_entry_time p) \<and> fair_price (xp_fill_price p) \<and> fair_price (xp_requested_price p)
     \<and> fair_price (xp_stop_price p) \<and> fair_price (xp_target_price p)
     \<and> fpos (xp_quantity p) \<and> up_to (2 ^ 64) (xp_quantity p)
     \<and> up_to (2 ^ 200) (xp_entry_fees p) \<and> up_to (2 ^ 200) (xp_entry_slippage_cost p)
     \<and> mag 200 (xp_mae p) \<and> \<not> fpos (xp_mae p) \<and> mag 200 (xp_mfe p) \<and> \<not> fneg_lt (xp_mfe p))"

definition fair_time :: "pytime \<Rightarrow> pytime \<Rightarrow> bool" where
  "fair_time entry t = (aware t \<and> ns entry \<le> ns t \<and> ns t \<le> ns entry + 2 ^ 80)"

definition fair_candle :: "pytime \<Rightarrow> Candle \<Rightarrow> bool" where
  "fair_candle entry k = (fair_time entry (cd_timestamp k) \<and> fair_price (cd_high k) \<and> fair_price (cd_low k)
     \<and> fair_price (cd_close k))"

lemma span_bounded:
  assumes "ns e \<le> ns t" "ns t \<le> ns e + 2 ^ 80"
  shows "mag 82 (span_seconds t e)" "nonneg (span_seconds t e)"
proof -
  define us where "us = (ns t - ns e) div 1000"
  have us: "0 \<le> us" "us \<le> 2 ^ 80" using assms by (simp_all add: us_def zdiv_mono1 div_le_dividend pos_imp_zdiv_nonneg_iff)
  have parts: "0 \<le> us div 1000000" "us div 1000000 \<le> 2 ^ 80" "0 \<le> us mod 1000000" "us mod 1000000 < 1000000"
    using us by (simp_all add: pos_imp_zdiv_nonneg_iff)
  have "(of_int (us div 1000000) :: rat) \<le> of_int (2 ^ 80)" using parts(2) by (simp only: of_int_le_iff)
  then have "mag 81 (rnd (of_int (us div 1000000)))"
    using parts(1) by (intro rnd_mag) simp_all
  moreover have "mag 81 (rnd (of_int (us mod 1000000) / 1000000))"
  proof (rule rnd_mag)
    have "(of_int (us mod 1000000) :: rat) \<le> of_int 1000000" using parts(4) by (simp only: of_int_le_iff)
    then show "\<bar>of_int (us mod 1000000) / 1000000 :: rat\<bar> \<le> 2 ^ 81" using parts(3) by simp
  qed simp
  ultimately show "mag 82 (span_seconds t e)"
    unfolding span_seconds_def us_def [symmetric] Let_def by (rule mag_fadd) simp_all
  show "nonneg (span_seconds t e)"
    unfolding span_seconds_def us_def [symmetric] Let_def using parts
    by (intro fadd_nonneg nonneg_rnd) simp_all
qed

section \<open>Closing returns\<close>

lemma close_returns:
  assumes "fair_costs c" "fair_position p" "fair_time (xp_entry_time p) t" "fair_price x"
  shows "\<exists>r. close_position c p t x = Inr r \<and> to_symbol r = xp_symbol p \<and> to_quantity r = xp_quantity p
    \<and> to_entry_time r = xp_entry_time p \<and> to_exit_time r = t"
proof -
  obtain a where a: "x = Fin a" "1 / 2 ^ 64 \<le> a" "a \<le> 2 ^ 64" using assms(4) by (cases x) auto
  obtain s where s: "fdiv (xc_slippage_bps c) (Fin 10000) = Inr (Fin s)" "0 \<le> s" "s \<le> 1 / 2"
    using scaled_bps [of 5000 _ "1 / 2"] half_double assms(1) by (auto simp: fair_costs_def)
  obtain f where f: "fdiv (xc_fee_bps c) (Fin 10000) = Inr (Fin f)" "0 \<le> f" "f \<le> 1"
    using scaled_bps [of 10000 _ 1] rnd_int [of 1] assms(1) by (auto simp: fair_costs_def)
  obtain g where g: "(if xp_direction p = LONG then fsub (Fin 1) (Fin s) else fadd (Fin 1) (Fin s)) = Fin g"
    "1 / 2 \<le> g" "g \<le> 2"
  proof -
    define z where "z = (if xp_direction p = LONG then 1 - s else 1 + s)"
    have "1 / 2 \<le> z" "z \<le> 2" using s(2,3) by (simp_all add: z_def)
    moreover have "rnd 2 = Fin 2" using rnd_int [of 2] by simp
    ultimately obtain y where "rnd z = Fin y" "1 / 2 \<le> y" "y \<le> 2"
      using double.between_finite [OF half_double] by metis
    then show thesis using that [of y] by (simp add: z_def split: if_splits)
  qed
  define actual where "actual = fmul x (Fin g)"
  have actual: "(if xp_direction p = LONG then fmul x (fsub (Fin 1) (Fin s)) else fmul x (fadd (Fin 1) (Fin s))) = actual"
    using g(1) by (simp add: actual_def split: if_splits)
  have pos: "fpos actual" using a(1,2) g(2) by (simp only: actual_def) (rule fmul_keeps_positive [of 64], simp_all)
  have m: "mag 64 x" "mag 64 (xp_requested_price p)" "mag 64 (xp_fill_price p)" "mag 64 (xp_quantity p)"
    "mag 200 (xp_entry_fees p)" "mag 200 (xp_entry_slippage_cost p)" "mag 200 (xp_mae p)" "mag 200 (xp_mfe p)"
    using assms(2,4) by (simp_all add: fair_position_def fair_price_mag up_to_mag)
  have ma: "mag 65 actual" unfolding actual_def using m(1) g(2,3) by (intro mag_fmul [of 64 _ 1]) auto
  define unit where "unit = (if xp_direction p = LONG then fsub x (xp_requested_price p) else fsub (xp_requested_price p) x)"
  have mu: "mag 65 unit" unfolding unit_def using m by (auto intro: mag_fsub)
  have mg: "mag 129 (fmul unit (xp_quantity p))" using mu m(4) by (rule mag_fmul) simp_all
  define fee where "fee = fmul (fmul actual (xp_quantity p)) (Fin f)"
  have mf: "mag 129 fee" unfolding fee_def
    by (rule mag_fmul [of 129 _ 0], rule mag_fmul [OF ma m(4)]) (use f in auto)
  define slip where "slip = fmul (fabs (fsub x actual)) (xp_quantity p)"
  have d: "mag 66 (fsub x actual)" using m(1) ma by (rule mag_fsub) simp_all
  have ms: "mag 130 slip" unfolding slip_def by (rule mag_fmul [of 66 _ 64]) (use d m(4) in simp_all)
  have q: "nonneg (xp_quantity p)" "fpos (xp_quantity p)" using assms(2) up_to_nonneg by (auto simp: fair_position_def)
  have fin: "isfinite (xp_quantity p)" "isfinite actual" "isfinite (fmul actual (xp_quantity p))"
      "isfinite (fabs (fsub x actual))"
    using m(4) ma mag_fmul [OF ma m(4), of 200] d by (auto dest: mag_finite)
  have nf: "nonneg fee" unfolding fee_def
    by (rule fmul_nonneg [OF fmul_pos_nonneg [OF pos q(2)]]) (use fin f in simp_all)
  have ns: "nonneg slip" unfolding slip_def
    using fin q(1) d by (intro fmul_nonneg fabs_nonneg) (auto dest!: mag_finite isfinite_not_nan)
  have entry: "nonneg (xp_entry_fees p)" "nonneg (xp_entry_slippage_cost p)"
    using assms(2) up_to_nonneg by (auto simp: fair_position_def)
  define fees where "fees = fadd (xp_entry_fees p) fee"
  define slippage where "slippage = fadd (xp_entry_slippage_cost p) slip"
  have sums: "mag 201 fees" "mag 201 slippage" "nonneg fees" "nonneg slippage"
    unfolding fees_def slippage_def using m mf ms entry nf ns by (auto intro: mag_fadd fadd_nonneg)
  have net: "mag 203 (fsub (fsub (fmul unit (xp_quantity p)) fees) slippage)"
    by (rule mag_fsub [OF mag_fsub [OF mg sums(1), of 202] sums(2)]) simp_all
  obtain mins where mins: "fdiv (span_seconds t (xp_entry_time p)) (Fin 60) = Inr mins" "mag 82 mins"
    using mag_fdiv [OF span_bounded(1), of "xp_entry_time p" t 60] assms(3) by (auto simp: fair_time_def)
  have hold: "isfinite (fmax (Fin 1) mins)" using mag_fmax [of 82 "Fin 1" mins] mins(2) by auto
  note finite = m(3) [THEN mag_finite] m(4,7,8) [THEN mag_finite] ma [THEN mag_finite] mg [THEN mag_finite]
    sums(1,2) [THEN mag_finite] net [THEN mag_finite]
  have signs: "\<not> nonpos (xp_fill_price p)" "\<not> nonpos actual" "\<not> nonpos (xp_quantity p)" "\<not> fneg_lt fees" "\<not> fneg_lt slippage"
    "\<not> fpos (xp_mae p)" "\<not> fneg_lt (xp_mfe p)"
    using assms(2) pos q sums by (simp_all add: fair_position_def fair_price_pos pos_not_nonpos nonneg_not_neg)
  have zoned: "aware t = aware (xp_entry_time p)"
    using assms(2,3) by (simp add: fair_position_def fair_time_def)
  have "close_position c p t x = make_trade_outcome \<lparr>to_symbol = xp_symbol p, to_direction = xp_direction p,
       to_entry_time = xp_entry_time p, to_exit_time = t, to_entry_price = xp_fill_price p,
       to_exit_price = actual, to_quantity = xp_quantity p, to_gross_pnl = fmul unit (xp_quantity p), to_fees = fees,
       to_slippage_cost = slippage, to_net_pnl = fsub (fsub (fmul unit (xp_quantity p)) fees) slippage,
       to_holding_minutes = fmax (Fin 1) mins, to_mae = xp_mae p, to_mfe = xp_mfe p, to_status = TS_CLOSED\<rparr>"
    unfolding close_position_def s(1) f(1) rbind_simps Let_def actual unit_def [symmetric] fee_def [symmetric]
      slip_def [symmetric] fees_def [symmetric] slippage_def [symmetric] mins(1) zoned by simp
  also have "\<dots> = Inr \<lparr>to_symbol = xp_symbol p, to_direction = xp_direction p,
       to_entry_time = xp_entry_time p, to_exit_time = t, to_entry_price = xp_fill_price p,
       to_exit_price = actual, to_quantity = xp_quantity p, to_gross_pnl = fmul unit (xp_quantity p), to_fees = fees,
       to_slippage_cost = slippage, to_net_pnl = fsub (fsub (fmul unit (xp_quantity p)) fees) slippage,
       to_holding_minutes = fmax (Fin 1) mins, to_mae = xp_mae p, to_mfe = xp_mfe p, to_status = TS_CLOSED\<rparr>"
    using finite hold signs assms(2,3)
    by (simp add: make_trade_outcome_def outcome_numbers_def fair_position_def fair_time_def)
  finally show ?thesis by simp
qed

section \<open>One candle\<close>

lemma mark_fields [simp]:
  "xp_symbol (mark_candle k p) = xp_symbol p" "xp_quantity (mark_candle k p) = xp_quantity p"
  "xp_entry_time (mark_candle k p) = xp_entry_time p" "xp_bars_held (mark_candle k p) = xp_bars_held p + 1"
  "xp_direction (mark_candle k p) = xp_direction p" "xp_stop_price (mark_candle k p) = xp_stop_price p"
  "xp_target_price (mark_candle k p) = xp_target_price p" "xp_trade_id (mark_candle k p) = xp_trade_id p"
  by (simp_all add: mark_candle_def Let_def)

lemma fair_position_mark:
  assumes "fair_position p" "fair_candle (xp_entry_time p) k"
  shows "fair_position (mark_candle k p)"
proof -
  have m: "mag 64 (cd_high k)" "mag 64 (cd_low k)" "mag 64 (xp_fill_price p)" "mag 64 (xp_quantity p)"
    using assms by (simp_all add: fair_position_def fair_candle_def fair_price_mag up_to_mag)
  have move: "mag 200 (fmul (fsub a b) (xp_quantity p))" if "mag 64 a" "mag 64 b" for a b
    using mag_fsub [OF that, of 65] m(4) by (intro mag_fmul [of 65 _ 64]) simp_all
  have signs: "\<not> fpos a \<Longrightarrow> \<not> fpos (fmin a b)" "\<not> fneg_lt a \<Longrightarrow> \<not> fneg_lt (fmax a b)" for a b
    by (auto simp: fmin_def fmax_def dest: fless_trans)
  show ?thesis
    using assms(1) m move signs unfolding fair_position_def mark_candle_def Let_def
    by (simp add: mag_fmin mag_fmax)
qed

lemma trigger_fair:
  assumes "fair_position p" "fair_candle (xp_entry_time p) k" "exit_trigger c force k p = Some (x, reason)"
  shows "fair_price x"
  using assms by (auto simp: exit_trigger_def fair_position_def fair_candle_def split: if_splits)

lemma trigger_at_limit:
  "xc_max_holding_bars c \<le> xp_bars_held p \<Longrightarrow> exit_trigger c force k p \<noteq> None"
  by (simp add: exit_trigger_def)

lemma settle_run:
  "settle_position c symbol p t x reason s = (case close_position c p t x of
     Inl e \<Rightarrow> (Inl e, s)
   | Inr r \<Rightarrow> (Inr r, s\<lparr>xe_open := dict_pop symbol (xe_open s), xe_outcomes := xe_outcomes s @ [r],
        xe_reasons := dict_set (xp_trade_id p) reason (xe_reasons s)\<rparr>))"
  by (simp add: settle_position_def abind_run athen_run split: sum.split)

lemma candle_without_position:
  "dict_get (xe_open s) (symbol_of (cd_symbol k)) = None \<Longrightarrow> process_candle c force k s = (Inr [], s)"
  by (simp add: process_candle_def Let_def abind_run)

lemma candle_with_position:
  assumes "fair_costs c" "fair_position p" "fair_candle (xp_entry_time p) k"
    and "dict_get (xe_open s) name = Some p" "symbol_of (cd_symbol k) = name"
  shows "\<exists>os s'. process_candle c force k s = (Inr os, s') \<and>
    (case exit_trigger c force k (mark_candle k p) of
       None \<Rightarrow> dict_get (xe_open s') name = Some (mark_candle k p) \<and> xe_outcomes s' = xe_outcomes s \<and> os = []
     | Some _ \<Rightarrow> dict_get (xe_open s') name = None \<and> (\<exists>r. os = [r] \<and> xe_outcomes s' = xe_outcomes s @ [r]
         \<and> to_symbol r = xp_symbol p \<and> to_quantity r = xp_quantity p \<and> to_entry_time r = xp_entry_time p))"
proof -
  define m where "m = mark_candle k p"
  define s1 where "s1 = s\<lparr>xe_open := dict_set name m (xe_open s)\<rparr>"
  have fair: "fair_position m" "fair_time (xp_entry_time m) (cd_timestamp k)" "fair_candle (xp_entry_time m) k"
    using fair_position_mark [OF assms(2,3)] assms(3) by (simp_all add: m_def fair_candle_def)
  have on_time: "time_less (cd_timestamp k) (xp_entry_time p) = Inr False"
    using assms(2,3) by (simp add: fair_candle_def fair_time_def fair_position_def)
  have run: "process_candle c force k s = (case exit_trigger c force k m of None \<Rightarrow> aret [] s1
     | Some (x, reason) \<Rightarrow> abind (settle_position c name m (cd_timestamp k) x reason) (\<lambda>r. aret [r]) s1)"
    using assms(4) on_time
    by (simp add: process_candle_def Let_def assms(5) abind_run athen_run m_def s1_def split: option.split)
  show ?thesis
  proof (cases "exit_trigger c force k m")
    case None
    then show ?thesis using run by (simp add: m_def s1_def)
  next
    case (Some e)
    then obtain x reason where e: "exit_trigger c force k m = Some (x, reason)" by (cases e) auto
    obtain r where "close_position c m (cd_timestamp k) x = Inr r" "to_symbol r = xp_symbol p"
        "to_quantity r = xp_quantity p" "to_entry_time r = xp_entry_time p"
      using close_returns [OF assms(1) fair(1,2) trigger_fair [OF fair(1,3) e]] by (auto simp: m_def)
    then show ?thesis using run e by (simp add: settle_run abind_run s1_def m_def)
  qed
qed

text \<open>A candle of another symbol leaves the position alone, whether it returns or raises.\<close>

lemma candle_of_another:
  assumes "symbol_of (cd_symbol k) \<noteq> name"
  shows "dict_get (xe_open (snd (process_candle c force k s))) name = dict_get (xe_open s) name
    \<and> (\<exists>os. xe_outcomes (snd (process_candle c force k s)) = xe_outcomes s @ os)"
  using assms
  by (auto simp: process_candle_def Let_def abind_run athen_run settle_run split: option.split sum.split prod.split)

section \<open>Every position is closed\<close>

fun candles_processed :: "ExitConfig \<Rightarrow> (bool \<times> Candle) list \<Rightarrow> PaperExitEngine \<Rightarrow> PaperExitEngine" where
  "candles_processed c [] s = s"
| "candles_processed c ((force, k) # ks) s = candles_processed c ks (snd (process_candle c force k s))"

definition candles_for :: "string \<Rightarrow> (bool \<times> Candle) list \<Rightarrow> Candle list" where
  "candles_for name ks = filter (\<lambda>k. symbol_of (cd_symbol k) = name) (map snd ks)"

lemma closed_stays:
  "dict_get (xe_open s) name = None \<Longrightarrow> dict_get (xe_open (candles_processed c ks s)) name = None
     \<and> (\<exists>os. xe_outcomes (candles_processed c ks s) = xe_outcomes s @ os)"
proof (induction ks arbitrary: s)
  case (Cons fk ks)
  obtain force k where fk: "fk = (force, k)" by (cases fk)
  let ?s = "snd (process_candle c force k s)"
  have "dict_get (xe_open ?s) name = None \<and> (\<exists>os. xe_outcomes ?s = xe_outcomes s @ os)"
  proof (cases "symbol_of (cd_symbol k) = name")
    case True
    then show ?thesis using candle_without_position Cons.prems by simp
  next
    case False
    then show ?thesis using candle_of_another Cons.prems by simp
  qed
  then show ?case using Cons.IH [of ?s] by (auto simp: fk)
qed simp

lemma closes_in_time:
  assumes "fair_costs c"
  shows "dict_get (xe_open s) name = Some p \<Longrightarrow> fair_position p \<Longrightarrow>
    list_all (fair_candle (xp_entry_time p)) (candles_for name ks) \<Longrightarrow> xp_bars_held p < xc_max_holding_bars c \<Longrightarrow>
    xc_max_holding_bars c - xp_bars_held p \<le> int (length (candles_for name ks)) \<Longrightarrow>
    dict_get (xe_open (candles_processed c ks s)) name = None \<and>
    (\<exists>os r. xe_outcomes (candles_processed c ks s) = xe_outcomes s @ os \<and> r \<in> set os
      \<and> to_symbol r = xp_symbol p \<and> to_quantity r = xp_quantity p \<and> to_entry_time r = xp_entry_time p)"
proof (induction ks arbitrary: s p)
  case Nil
  then show ?case by (simp add: candles_for_def)
next
  case (Cons fk ks)
  obtain force k where fk: "fk = (force, k)" by (cases fk)
  let ?s = "snd (process_candle c force k s)"
  show ?case
  proof (cases "symbol_of (cd_symbol k) = name")
    case False
    then have same: "candles_for name (fk # ks) = candles_for name ks" by (simp add: candles_for_def fk)
    obtain os where "dict_get (xe_open ?s) name = Some p" "xe_outcomes ?s = xe_outcomes s @ os"
      using candle_of_another [OF False, of c force s] Cons.prems(1) by auto
    then show ?thesis using Cons.IH [of ?s p] Cons.prems(2-5) unfolding same by (fastforce simp: fk)
  next
    case True
    then have first: "candles_for name (fk # ks) = k # candles_for name ks" by (simp add: candles_for_def fk)
    have fair: "fair_candle (xp_entry_time p) k" "list_all (fair_candle (xp_entry_time p)) (candles_for name ks)"
      using Cons.prems(3) unfolding first by simp_all
    let ?m = "mark_candle k p"
    obtain os s' where run: "process_candle c force k s = (Inr os, s')" and
      result: "case exit_trigger c force k ?m of
       None \<Rightarrow> dict_get (xe_open s') name = Some ?m \<and> xe_outcomes s' = xe_outcomes s \<and> os = []
     | Some _ \<Rightarrow> dict_get (xe_open s') name = None \<and> (\<exists>r. os = [r] \<and> xe_outcomes s' = xe_outcomes s @ [r]
         \<and> to_symbol r = xp_symbol p \<and> to_quantity r = xp_quantity p \<and> to_entry_time r = xp_entry_time p)"
      using candle_with_position [OF assms Cons.prems(2) fair(1) Cons.prems(1) True] by blast
    show ?thesis
    proof (cases "exit_trigger c force k ?m")
      case (Some e)
      then obtain r where "dict_get (xe_open s') name = None" "xe_outcomes s' = xe_outcomes s @ [r]"
          "to_symbol r = xp_symbol p \<and> to_quantity r = xp_quantity p \<and> to_entry_time r = xp_entry_time p"
        using result by auto
      then show ?thesis using closed_stays [of s' name c ks] run by (fastforce simp: fk)
    next
      case None
      then have m: "dict_get (xe_open s') name = Some ?m" "xe_outcomes s' = xe_outcomes s" using result by auto
      have "xp_bars_held ?m < xc_max_holding_bars c" using trigger_at_limit None not_le by blast
      moreover have "list_all (fair_candle (xp_entry_time ?m)) (candles_for name ks)" using fair(2) by simp
      ultimately show ?thesis
        using Cons.IH [OF m(1) fair_position_mark [OF Cons.prems(2) fair(1)]] Cons.prems(5) run m(2)
        unfolding first by (simp add: fk)
    qed
  qed
qed

definition fair_order :: "PaperOrder \<Rightarrow> bool" where
  "fair_order r = (make_paper_order r = Inr r \<and> po_status r = PO_FILLED \<and> fair_price (po_fill_price r)
     \<and> fair_price (po_requested_price r) \<and> up_to (2 ^ 64) (po_quantity r) \<and> up_to (2 ^ 200) (po_fees r)
     \<and> up_to (2 ^ 200) (po_slippage_cost r))"

lemma opening_returns:
  assumes "fair_order r" "fair_price stop" "fair_price target" "\<not> has_open_position (po_symbol r) e"
  obtains p where "exit_open_position r stop target tid sv mv rv rg e
      = (Inr p, e\<lparr>xe_open := dict_set (symbol_of (po_symbol r)) p (xe_open e)\<rparr>)"
    "fair_position p" "xp_bars_held p = 0" "xp_symbol p = symbol_of (po_symbol r)"
    "xp_quantity p = po_quantity r" "xp_entry_time p = po_timestamp r"
proof -
  define p where "p = \<lparr>xp_trade_id = (case tid of
               Some (c # cs) \<Rightarrow> c # cs
             | _ \<Rightarrow> po_reason r @ '':'' @ symbol_of (po_symbol r) @ '':'' @ compact_time (po_timestamp r)),
           xp_symbol = symbol_of (po_symbol r), xp_direction = po_direction r, xp_entry_time = po_timestamp r,
           xp_fill_price = po_fill_price r, xp_requested_price = po_requested_price r,
           xp_quantity = po_quantity r, xp_stop_price = stop, xp_target_price = target,
           xp_entry_fees = po_fees r, xp_entry_slippage_cost = po_slippage_cost r,
           xp_strategy_version = sv, xp_model_version = mv, xp_risk_version = rv, xp_regime = rg,
           xp_mae = Fin 0, xp_mfe = Fin 0, xp_bars_held = 0\<rparr>"
  have order: "aware (po_timestamp r)" "fpos (po_quantity r)"
    using assms(1) by (auto simp: fair_order_def make_paper_order_def finite_nonpos split: if_splits)
  then have fair: "fair_position p" using assms(1-3) by (simp add: fair_position_def fair_order_def p_def)
  have "make_exit_position p = Inr p"
    using fair pos_not_nonpos fair_price_pos by (simp add: make_exit_position_def fair_position_def)
  then show thesis
    using that [of p] fair assms(1,4)
    by (simp add: exit_open_position_def Let_def abind_run athen_run has_open_position_def get_open_position_def
        fair_order_def p_def)
qed

text \<open>C20. Every paper position is closed. A filled order (with prices between \<open>2^-64\<close> and \<open>2^64\<close>)
  opens a position when its symbol has none, and after at most \<open>max_holding_bars\<close> candles of the
  symbol, interleaved in any way with candles of other symbols that may raise, the position is
  closed and the engine holds an outcome for the symbol, the quantity and the entry time of the
  order.\<close>

theorem positions_always_close:
  assumes "fair_costs c" "fair_order r" "fair_price stop" "fair_price target"
    and "\<not> has_open_position (po_symbol r) e"
    and "list_all (fair_candle (po_timestamp r)) (candles_for (symbol_of (po_symbol r)) ks)"
    and "xc_max_holding_bars c \<le> int (length (candles_for (symbol_of (po_symbol r)) ks))"
  shows "\<exists>p e1. exit_open_position r stop target tid sv mv rv rg e = (Inr p, e1) \<and>
    \<not> has_open_position (po_symbol r) (candles_processed c ks e1) \<and>
    (\<exists>os t. xe_outcomes (candles_processed c ks e1) = xe_outcomes e @ os \<and> t \<in> set os
      \<and> to_symbol t = symbol_of (po_symbol r) \<and> to_quantity t = po_quantity r \<and> to_entry_time t = po_timestamp r)"
proof -
  obtain p where p: "exit_open_position r stop target tid sv mv rv rg e
      = (Inr p, e\<lparr>xe_open := dict_set (symbol_of (po_symbol r)) p (xe_open e)\<rparr>)"
    "fair_position p" "xp_bars_held p = 0" "xp_symbol p = symbol_of (po_symbol r)"
    "xp_quantity p = po_quantity r" "xp_entry_time p = po_timestamp r"
    by (rule opening_returns [OF assms(2-5)])
  have "0 < xc_max_holding_bars c" using assms(1) by (simp add: fair_costs_def make_exit_config_def split: if_splits)
  then show ?thesis
    using closes_in_time [OF assms(1), of "e\<lparr>xe_open := dict_set (symbol_of (po_symbol r)) p (xe_open e)\<rparr>"
        "symbol_of (po_symbol r)" p ks] p assms(6,7)
    by (simp add: has_open_position_def get_open_position_def)
qed

text \<open>C23. Stop first. For ordinary prices, a candle that touches the stop of an open position closes
  it at once with the reason \<open>STOP_LOSS\<close>, even when it touches the target as well, and the price
  of the outcome is the stop or worse: not above it for a long position, not below it for a short
  one.\<close>

theorem stop_loss_first:
  assumes "fair_costs c" "fair_position p" "fair_candle (xp_entry_time p) k" "py_value (xp_stop_price p)"
    and "dict_get (xe_open s) (symbol_of (cd_symbol k)) = Some p" "stop_hit k p"
  shows "\<exists>t s'. process_candle c force k s = (Inr [t], s') \<and> \<not> has_open_position (cd_symbol k) s'
    \<and> dict_get (xe_reasons s') (xp_trade_id p) = Some X_STOP_LOSS
    \<and> (if xp_direction p = LONG then fle (to_exit_price t) (xp_stop_price p) else fle (xp_stop_price p) (to_exit_price t))"
proof -
  define m where "m = mark_candle k p"
  have trigger: "exit_trigger c force k m = Some (xp_stop_price p, X_STOP_LOSS)"
    using assms(6) by (simp add: exit_trigger_def stop_hit_def m_def)
  have fair: "fair_position m" "fair_time (xp_entry_time m) (cd_timestamp k)" "fair_price (xp_stop_price p)"
    using fair_position_mark [OF assms(2,3)] assms(2,3) by (simp_all add: m_def fair_candle_def fair_position_def)
  obtain t where t: "close_position c m (cd_timestamp k) (xp_stop_price p) = Inr t"
    using close_returns [OF assms(1) fair] by blast
  have on_time: "time_less (cd_timestamp k) (xp_entry_time p) = Inr False"
    using assms(2,3) by (simp add: fair_candle_def fair_time_def fair_position_def)
  have price: "if xp_direction p = LONG then fle (to_exit_price t) (xp_stop_price p) else fle (xp_stop_price p) (to_exit_price t)"
  proof -
    obtain a where a: "xp_stop_price p = Fin a" "0 < a" "is_double a"
      using fair(3) fair_price_pos [OF fair(3)] assms(4) by (cases "xp_stop_price p") auto
    obtain sl where sl: "fdiv (xc_slippage_bps c) (Fin 10000) = Inr (Fin sl)" "0 \<le> sl" "sl \<le> 1 / 2"
      using scaled_bps [of 5000 _ "1 / 2"] half_double assms(1) by (auto simp: fair_costs_def)
    have down: "fle (fmul (Fin a) (rnd (1 - sl))) (Fin a)"
    proof -
      obtain g where "rnd (1 - sl) = Fin g" "1 / 2 \<le> g" "g \<le> 1"
        using double.between_finite [OF half_double, of 1 "1 - sl"] rnd_int [of 1] sl(2,3) by auto
      then show ?thesis using a(2,3) double.upper_bound [of a "a * g"] by (simp add: is_double_def)
    qed
    have up: "fle (Fin a) (fmul (Fin a) (rnd (1 + sl)))"
    proof -
      obtain g where "rnd (1 + sl) = Fin g" "1 \<le> g"
        using double.between_finite [of 1 2 "1 + sl"] rnd_int [of 1] rnd_int [of 2] sl(2,3) by auto
      then show ?thesis using a(2,3) double.lower_bound [of a "a * g"] by (simp add: is_double_def)
    qed
    have "to_exit_price t = (if xp_direction p = LONG then fmul (Fin a) (rnd (1 - sl)) else fmul (Fin a) (rnd (1 + sl)))"
      using t sl(1) a(1)
      by (auto simp: close_position_def Let_def m_def make_trade_outcome_def split: if_splits option.splits)
    then show ?thesis using down up a(1) by simp
  qed
  have "process_candle c force k s = (Inr [t], s\<lparr>xe_open := dict_pop (symbol_of (cd_symbol k)) (dict_set (symbol_of (cd_symbol k)) m (xe_open s)),
      xe_outcomes := xe_outcomes s @ [t], xe_reasons := dict_set (xp_trade_id p) X_STOP_LOSS (xe_reasons s)\<rparr>)"
    using assms(5) on_time trigger t
    by (simp add: process_candle_def Let_def abind_run athen_run m_def settle_run)
  then show ?thesis using price by (simp add: has_open_position_def get_open_position_def)
qed

section \<open>Examples\<close>

definition demo_exit_config :: ExitConfig where
  "demo_exit_config = default_exit_config\<lparr>xc_max_holding_bars := 2\<rparr>"

definition ist :: "int \<Rightarrow> pytime" where
  "ist minute = \<lparr>ns = minute * 60000000000, zone = Some (330 * 60000000000)\<rparr>"

definition demo_paper_order :: PaperOrder where
  "demo_paper_order = \<lparr>po_timestamp = ist 230, po_symbol = ''abc'', po_direction = LONG, po_requested_price = Fin 100,
     po_fill_price = Fin 100, po_quantity = Fin 10, po_status = PO_FILLED, po_fees = Fin 0, po_slippage_cost = Fin 0,
     po_reason = ''demo''\<rparr>"

definition bar :: "string \<Rightarrow> pytime \<Rightarrow> rat \<Rightarrow> rat \<Rightarrow> rat \<Rightarrow> rat \<Rightarrow> Candle" where
  "bar name t op hi lo cl = \<lparr>cd_symbol = name, cd_exchange = ''NSE'', cd_timeframe_minutes = 5, cd_timestamp = t,
     cd_open = Fin op, cd_high = Fin hi, cd_low = Fin lo, cd_close = Fin cl, cd_volume = Fin 1\<rparr>"

definition demo_bars :: "(bool \<times> Candle) list" where
  "demo_bars = [(False, bar ''ABC'' (ist 235) 100 101 99 100), (False, bar ''XYZ'' (ist 235) 9 9 9 9),
     (False, bar ''ABC'' (ist 240) 100 102 99 101)]"

theorem positions_always_close_witness:
  "\<exists>p e1. exit_open_position demo_paper_order (Fin 95) (Fin 110) None ''v'' None None None exit_init = (Inr p, e1) \<and>
    \<not> has_open_position (po_symbol demo_paper_order) (candles_processed demo_exit_config demo_bars e1) \<and>
    (\<exists>os t. xe_outcomes (candles_processed demo_exit_config demo_bars e1) = xe_outcomes exit_init @ os \<and> t \<in> set os
      \<and> to_symbol t = symbol_of (po_symbol demo_paper_order) \<and> to_quantity t = po_quantity demo_paper_order
      \<and> to_entry_time t = po_timestamp demo_paper_order)"
proof (rule positions_always_close)
  show "fair_costs demo_exit_config" by code_simp
  show "fair_order demo_paper_order" by code_simp
  show "fair_price (Fin 95)" by code_simp
  show "fair_price (Fin 110)" by code_simp
  show "\<not> has_open_position (po_symbol demo_paper_order) exit_init" by code_simp
  show "list_all (fair_candle (po_timestamp demo_paper_order)) (candles_for (symbol_of (po_symbol demo_paper_order)) demo_bars)" by code_simp
  show "xc_max_holding_bars demo_exit_config \<le> int (length (candles_for (symbol_of (po_symbol demo_paper_order)) demo_bars))" by code_simp
qed

definition demo_exit_position :: ExitPosition where
  "demo_exit_position = \<lparr>xp_trade_id = ''t'', xp_symbol = ''ABC'', xp_direction = LONG, xp_entry_time = ist 230,
     xp_fill_price = Fin 100, xp_requested_price = Fin 100, xp_quantity = Fin 10, xp_stop_price = Fin 95,
     xp_target_price = Fin 110, xp_entry_fees = Fin 0, xp_entry_slippage_cost = Fin 0, xp_strategy_version = ''v'',
     xp_model_version = None, xp_risk_version = None, xp_regime = None, xp_mae = Fin 0, xp_mfe = Fin 0, xp_bars_held = 0\<rparr>"

definition demo_exit_engine :: PaperExitEngine where
  "demo_exit_engine = exit_init\<lparr>xe_open := [(''ABC'', demo_exit_position)]\<rparr>"

text \<open>A candle that touches both levels.\<close>

theorem stop_loss_first_witness:
  "\<exists>t s'. process_candle default_exit_config False (bar ''abc'' (ist 240) 100 111 94 100) demo_exit_engine = (Inr [t], s')
    \<and> \<not> has_open_position (cd_symbol (bar ''abc'' (ist 240) 100 111 94 100)) s'
    \<and> dict_get (xe_reasons s') (xp_trade_id demo_exit_position) = Some X_STOP_LOSS
    \<and> (if xp_direction demo_exit_position = LONG then fle (to_exit_price t) (xp_stop_price demo_exit_position)
       else fle (xp_stop_price demo_exit_position) (to_exit_price t))"
  by (rule stop_loss_first; code_simp)

text \<open>
  A candle that opens below the stop of a long position (a gap) is closed at the stop, above every
  price of the candle. The open of the candle is read and not used.
\<close>

lemma gap_closes_above_the_candle:
  "exit_trigger default_exit_config False (bar ''ABC'' (ist 240) 90 91 89 90) demo_exit_position = Some (Fin 95, X_STOP_LOSS)
   \<and> fless (cd_high (bar ''ABC'' (ist 240) 90 91 89 90)) (Fin 95)"
  by code_simp

text \<open>The session cutoff reads the hour in the zone of the candle: the same instant, 15:30 in India,
  closes the position when it is written in Indian time and not when it is written in UTC.\<close>

lemma cutoff_depends_on_the_zone:
  "exit_trigger default_exit_config False (bar ''ABC'' (ist 600) 100 101 99 100) demo_exit_position = Some (Fin 100, X_SESSION_CLOSE)
   \<and> exit_trigger default_exit_config False (bar ''ABC'' \<lparr>ns = ns (ist 600), zone = Some 0\<rparr> 100 101 99 100) demo_exit_position = None"
  by code_simp

end
