(* ===== verification/TradeProperties.thy ===== *)
theory TradeProperties
  imports TradeLifecycle
begin

text \<open>
  The trade lifecycle loses no share: whatever is opened, marked, partially closed and closed, in any
  order and with calls that raise, the shares opened in a symbol are those of its outcomes and of
  the trade that is still open.
\<close>

section \<open>Calls\<close>

datatype trade_call =
    TOpen PaperOrder
  | TMark string pytime pyfloat
  | TClosePart string pytime pyfloat pyfloat pyfloat pyfloat "pyfloat option"
  | TClose string pytime pyfloat pyfloat pyfloat "pyfloat option"

text \<open>A call on the tracker; the first component collects the orders whose \<open>open\<close> returned.\<close>

fun trade_step :: "trade_call \<Rightarrow> PaperOrder list \<times> PaperTradeLifecycle \<Rightarrow> PaperOrder list \<times> PaperTradeLifecycle" where
  "trade_step (TOpen r) (opened, s) = (case lifecycle_open r s of
     (Inl _, s') \<Rightarrow> (opened, s') | (Inr _, s') \<Rightarrow> (opened @ [r], s'))"
| "trade_step (TMark name t price) (opened, s) = (opened, snd (lifecycle_mark name t price s))"
| "trade_step (TClosePart name t price q fees slip ref) (opened, s) =
     (opened, snd (lifecycle_close_partial name t price q fees slip ref s))"
| "trade_step (TClose name t price fees slip ref) (opened, s) =
     (opened, snd (lifecycle_close name t price fees slip ref s))"

definition trade_run :: "trade_call list \<Rightarrow> PaperOrder list \<times> PaperTradeLifecycle" where
  "trade_run cs = foldl (\<lambda>s c. trade_step c s) ([], lifecycle_init) cs"

section \<open>Whole shares\<close>

definition whole_of :: "pyfloat \<Rightarrow> int" where
  "whole_of q = (case q of Fin a \<Rightarrow> \<lfloor>a\<rfloor> | _ \<Rightarrow> 0)"

definition is_whole :: "pyfloat \<Rightarrow> bool" where
  "is_whole q = (q = Fin (of_int (whole_of q)))"

fun trade_call_ok :: "trade_call \<Rightarrow> bool" where
  "trade_call_ok (TOpen r) = (make_paper_order r = Inr r \<and> is_whole (po_quantity r) \<and> whole_of (po_quantity r) \<le> 2 ^ 51)"
| "trade_call_ok (TClosePart name t price q fees slip ref) = is_whole q"
| "trade_call_ok c = True"

definition shares_opened :: "string \<Rightarrow> PaperOrder list \<Rightarrow> int" where
  "shares_opened name rs = sum_list (map (\<lambda>r. whole_of (po_quantity r)) (filter (\<lambda>r. upper (po_symbol r) = name) rs))"

definition shares_closed :: "string \<Rightarrow> PaperTradeLifecycle \<Rightarrow> int" where
  "shares_closed name s = sum_list (map (\<lambda>t. whole_of (to_quantity t)) (filter (\<lambda>t. to_symbol t = name) (lc_outcomes s)))"

definition shares_open :: "string \<Rightarrow> PaperTradeLifecycle \<Rightarrow> int" where
  "shares_open name s = (case dict_get (lc_open s) name of None \<Rightarrow> 0 | Some t \<Rightarrow> whole_of (ot_quantity t))"

lemma whole_of_Fin [simp]: "whole_of (Fin (of_int k)) = k"
  by (simp add: whole_of_def)

lemma tolerance_small: "\<exists>e. close_tolerance = Fin e \<and> 0 \<le> e \<and> e \<le> 1 / 2"
proof -
  have "is_double (1 / 2)" by (rule is_doubleI [of _ 1 "- 1"]) (simp_all add: power_int_minus power_int_def)
  then have "rnd (1 / 2) = Fin (1 / 2)" by (simp add: is_double_def)
  then obtain e where "rnd (1 / 10 ^ 12) = Fin e" "0 \<le> e" "e \<le> 1 / 2"
    using double.between_finite [OF rnd_zero, of "1 / 2" "1 / 10 ^ 12"] by auto
  then show ?thesis by (auto simp: close_tolerance_def)
qed

lemma remaining_none: "fle (Fin (of_int k)) close_tolerance \<longleftrightarrow> k \<le> 0"
proof -
  obtain e where e: "close_tolerance = Fin e" "0 \<le> e" "e \<le> 1 / 2" using tolerance_small by blast
  show ?thesis
  proof (cases "k \<le> 0")
    case True
    then have "(of_int k :: rat) \<le> 0" by simp
    then show ?thesis using e(2) True unfolding e(1) by simp
  next
    case False
    then have "(1::rat) \<le> of_int k" by simp
    then have "\<not> (of_int k :: rat) \<le> e" using e(3) by linarith
    then show ?thesis using False unfolding e(1) by simp
  qed
qed

lemma over_close: "0 \<le> h \<Longrightarrow> h \<le> 2 ^ 51 \<Longrightarrow>
  fless (fadd (Fin (of_int h)) close_tolerance) (Fin (of_int k)) \<longleftrightarrow> h < k"
proof -
  assume h: "0 \<le> h" "h \<le> 2 ^ 51"
  obtain e where e: "close_tolerance = Fin e" "0 \<le> e" "e \<le> 1 / 2" using tolerance_small by blast
  have lo: "rnd (of_int h) = Fin (of_int h)" using rnd_int [of h] h by simp
  have "is_double (of_int h + 1 / 2)"
    using h by (intro is_doubleI [of _ "2 * h + 1" "- 1"]) (simp_all add: power_int_minus power_int_def field_simps)
  then have hi: "rnd (of_int h + 1 / 2) = Fin (of_int h + 1 / 2)" by (simp add: is_double_def)
  have "of_int h \<le> of_int h + e" "of_int h + e \<le> of_int h + 1 / 2" using e(2,3) by simp_all
  then obtain y where y: "rnd (of_int h + e) = Fin y" "of_int h \<le> y" "y \<le> of_int h + 1 / 2"
    using double.between_finite [OF lo hi] by metis
  show ?thesis
  proof (cases "h < k")
    case True
    then have "(of_int h :: rat) + 1 \<le> of_int k" by (simp flip: of_int_add)
    then show ?thesis using True y unfolding e(1) by simp
  next
    case False
    then have "(of_int k :: rat) \<le> of_int h" by simp
    then show ?thesis using False y unfolding e(1) by simp
  qed
qed

section \<open>The balance\<close>

definition balanced :: "PaperOrder list \<Rightarrow> PaperTradeLifecycle \<Rightarrow> bool" where
  "balanced opened s \<longleftrightarrow>
     (\<forall>name t. dict_get (lc_open s) name = Some t \<longrightarrow>
        is_whole (ot_quantity t) \<and> 0 < whole_of (ot_quantity t) \<and> whole_of (ot_quantity t) \<le> 2 ^ 51)
     \<and> (\<forall>name. shares_opened name opened = shares_closed name s + shares_open name s)"

lemma balanced_open:
  assumes "balanced opened s" "make_paper_order r = Inr r" "is_whole (po_quantity r)" "whole_of (po_quantity r) \<le> 2 ^ 51"
  shows "case_prod balanced (trade_step (TOpen r) (opened, s))"
proof -
  have "fpos (po_quantity r)" using assms(2) by (auto simp: make_paper_order_def finite_nonpos split: if_splits)
  then have pos: "0 < whole_of (po_quantity r)" using assms(3) by (cases "po_quantity r") (auto simp: is_whole_def)
  show ?thesis
    using assms pos
    by (auto simp: lifecycle_open_def put_trade_def Let_def abind_run balanced_def shares_opened_def shares_closed_def
        shares_open_def split: option.split)
qed

lemma balanced_mark: "balanced opened s \<Longrightarrow> balanced opened (snd (lifecycle_mark name t price s))"
  by (auto simp: lifecycle_mark_def put_trade_def Let_def abind_run balanced_def shares_closed_def shares_open_def
      split: option.splits sum.splits)

text \<open>A close that returns books the quantity and keeps the rest; one that raises changes nothing.\<close>

lemma close_partial_run:
  assumes "lifecycle_close_partial name t price q fees slip ref s = (res, s')"
  obtains "s' = s" "\<exists>e. res = Inl e"
  | tr outcome share1 share2 where "dict_get (lc_open s) (upper name) = Some tr" "res = Inr outcome"
    "\<not> fless (fadd (ot_quantity tr) close_tolerance) q" "fpos q" "to_symbol outcome = upper name" "to_quantity outcome = q"
    "s' = (case remainder_trade tr q share1 share2 of
        None \<Rightarrow> s\<lparr>lc_outcomes := lc_outcomes s @ [outcome], lc_open := dict_pop (upper name) (lc_open s)\<rparr>
      | Some rest \<Rightarrow> s\<lparr>lc_outcomes := lc_outcomes s @ [outcome], lc_open := dict_set (upper name) rest (lc_open s)\<rparr>)"
proof -
  have q: "fpos q" if "close_arguments t price q fees slip ref = Inr x" for x
    using that by (auto simp: close_arguments_def finite_nonpos split: if_splits)
  have o: "to_symbol y = sym \<and> to_quantity y = q"
    if "close_outcome sym tr t price q x fees slip f1 f2 = Inr y" for sym tr x f1 f2 y
    using that by (auto simp: close_outcome_def make_trade_outcome_def Let_def split: if_splits option.splits)
  show thesis
  proof (cases "dict_get (lc_open s) (upper name)")
    case None
    then show thesis using assms that(1) by (auto simp: lifecycle_close_partial_def Let_def abind_run)
  next
    case (Some tr)
    define body where "body x = (if fless (fadd (ot_quantity tr) close_tolerance) q
           then araise (ValueError ''partial close quantity exceeds open quantity'')
         else abind (alift (time_less t (po_timestamp (ot_order tr)))) (\<lambda>early.
         if early then araise (ValueError ''exit timestamp must not precede entry'')
         else abind (alift (cost_share (ot_entry_fees tr) q (ot_quantity tr))) (\<lambda>f1.
         abind (alift (cost_share (ot_entry_slippage_cost tr) q (ot_quantity tr))) (\<lambda>f2.
         abind (alift (close_outcome (upper name) tr t price q x fees slip f1 f2)) (\<lambda>y.
         athen (amod (\<lambda>s. s\<lparr>lc_outcomes := lc_outcomes s @ [y]\<rparr>))
        (athen (case remainder_trade tr q f1 f2 of
             None \<Rightarrow> amod (\<lambda>s. s\<lparr>lc_open := dict_pop (upper name) (lc_open s)\<rparr>)
           | Some rest \<Rightarrow> put_trade (upper name) rest)
         (aret y)))))))" for x
    have run: "lifecycle_close_partial name t price q fees slip ref s
        = (case close_arguments t price q fees slip ref of Inl e \<Rightarrow> (Inl e, s) | Inr x \<Rightarrow> body x s)"
      using Some unfolding body_def lifecycle_close_partial_def Let_def by (simp add: abind_run)
    show thesis
    proof (cases "close_arguments t price q fees slip ref")
      case (Inl e)
      then show thesis using assms run that(1) by auto
    next
      case (Inr x)
      then have b: "body x s = (res, s')" using assms run by simp
      show thesis
      proof (cases "res")
        case (Inl e)
        then have "s' = s" using b
          by (auto simp: body_def abind_run athen_run put_trade_def split: if_splits sum.splits option.splits)
        then show thesis using that(1) Inl by blast
      next
        case (Inr y)
        then obtain f1 f2 where "\<not> fless (fadd (ot_quantity tr) close_tolerance) q"
          "close_outcome (upper name) tr t price q x fees slip f1 f2 = Inr y"
          "s' = (case remainder_trade tr q f1 f2 of
              None \<Rightarrow> s\<lparr>lc_outcomes := lc_outcomes s @ [y], lc_open := dict_pop (upper name) (lc_open s)\<rparr>
            | Some rest \<Rightarrow> s\<lparr>lc_outcomes := lc_outcomes s @ [y], lc_open := dict_set (upper name) rest (lc_open s)\<rparr>)"
          using b
          by (auto simp: body_def abind_run athen_run put_trade_def split: if_splits sum.splits option.splits)
        then show thesis using that(2) [OF Some Inr] q [OF \<open>close_arguments t price q fees slip ref = Inr x\<close>] o by blast
      qed
    qed
  qed
qed

lemma balanced_close_partial:
  assumes "balanced opened s" "is_whole q"
  shows "balanced opened (snd (lifecycle_close_partial name t price q fees slip ref s))"
proof -
  obtain res s' where run: "lifecycle_close_partial name t price q fees slip ref s = (res, s')" by fastforce
  then show ?thesis
  proof (cases rule: close_partial_run)
    case 1
    then show ?thesis using assms(1) run by simp
  next
    case (2 tr outcome share1 share2)
    define h where "h = whole_of (ot_quantity tr)"
    define k where "k = whole_of q"
    have h: "ot_quantity tr = Fin (of_int h)" "0 < h" "h \<le> 2 ^ 51"
      using assms(1) 2(1) by (auto simp: balanced_def is_whole_def h_def)
    have kq: "q = Fin (of_int k)" using assms(2) by (simp add: is_whole_def k_def)
    then have k: "q = Fin (of_int k)" "0 < k" using 2(4) by simp_all
    have le: "k \<le> h" using 2(3) over_close [of h k] h k by auto
    have rest: "fsub (ot_quantity tr) q = Fin (of_int (h - k))"
      using rnd_int [of "h - k"] h k le by simp
    have closed: "shares_closed stock s' = shares_closed stock s + (if stock = upper name then k else 0)" for stock
      using 2(5,6,7) by (auto simp: shares_closed_def k_def split: option.split)
    show ?thesis
    proof (cases "k = h")
      case True
      then have "h - k \<le> 0" by simp
      then have "remainder_trade tr q share1 share2 = None"
        unfolding remainder_trade_def Let_def rest remaining_none by simp
      then have s': "lc_open s' = dict_pop (upper name) (lc_open s)" using 2(7) by simp
      then show ?thesis using assms(1) 2(1) True run closed
        by (auto simp: balanced_def shares_open_def h_def split: option.splits)
    next
      case False
      then have "\<not> h - k \<le> 0" using le by simp
      then obtain tr' where "remainder_trade tr q share1 share2 = Some tr'" "ot_quantity tr' = Fin (of_int (h - k))"
        unfolding remainder_trade_def Let_def rest remaining_none by (simp del: of_int_diff)
      then have new: "lc_open s' = dict_set (upper name) tr' (lc_open s)"
        "is_whole (ot_quantity tr')" "whole_of (ot_quantity tr') = h - k"
        using 2(7) by (simp_all add: is_whole_def del: of_int_diff)
      have "shares_open stock s' = shares_open stock s - (if stock = upper name then k else 0)" for stock
        using 2(1) new by (simp add: shares_open_def h_def)
      moreover have "is_whole (ot_quantity t) \<and> 0 < whole_of (ot_quantity t) \<and> whole_of (ot_quantity t) \<le> 2 ^ 51"
        if "dict_get (lc_open s') stock = Some t" for stock t
      proof (cases "stock = upper name")
        case True
        then have "t = tr'" using that new(1) by simp
        then show ?thesis using new(2,3) False le h(3) k(2) by simp
      next
        case other: False
        then show ?thesis using that new(1) assms(1) unfolding balanced_def by simp
      qed
      ultimately show ?thesis using assms(1) closed run unfolding balanced_def by simp
    qed
  qed
qed

lemma balanced_close:
  assumes "balanced opened s"
  shows "balanced opened (snd (lifecycle_close name t price fees slip ref s))"
proof (cases "dict_get (lc_open s) (upper name)")
  case None
  then show ?thesis using assms by (simp add: lifecycle_close_def Let_def abind_run)
next
  case (Some tr)
  then have "is_whole (ot_quantity tr)" using assms by (auto simp: balanced_def)
  then show ?thesis
    using assms Some balanced_close_partial by (simp add: lifecycle_close_def Let_def abind_run)
qed

lemma balanced_step: "trade_call_ok c \<Longrightarrow> case_prod balanced st \<Longrightarrow> case_prod balanced (trade_step c st)"
  by (cases c; cases st)
     (simp_all add: balanced_open balanced_mark balanced_close_partial balanced_close del: trade_step.simps(1))

text \<open>C22. No share is lost. After any sequence of opens, marks, partial closes and closes of the trade
  lifecycle with whole quantities (calls that raise included), for every symbol the shares of the
  orders it accepted are exactly the shares of its outcomes plus those of the trade still open.\<close>

theorem trades_conserve_shares:
  assumes "list_all trade_call_ok cs"
  shows "case trade_run cs of (opened, s) \<Rightarrow>
    \<forall>name. shares_opened name opened = shares_closed name s + shares_open name s"
proof -
  have "case_prod balanced st \<Longrightarrow> list_all trade_call_ok cs \<Longrightarrow> case_prod balanced (foldl (\<lambda>s c. trade_step c s) st cs)" for st
    by (induction cs arbitrary: st) (simp_all add: balanced_step)
  moreover have "balanced [] lifecycle_init"
    by (simp add: balanced_def lifecycle_init_def shares_opened_def shares_closed_def shares_open_def)
  ultimately have "case_prod balanced (trade_run cs)" using assms unfolding trade_run_def by simp
  then show ?thesis by (auto simp: balanced_def)
qed

definition demo_trade_order :: PaperOrder where
  "demo_trade_order = \<lparr>po_timestamp = \<lparr>ns = 0, zone = Some 0\<rparr>, po_symbol = ''abc'', po_direction = SHORT,
     po_requested_price = Fin 100, po_fill_price = Fin 99, po_quantity = Fin 10, po_status = PO_FILLED,
     po_fees = Fin 1, po_slippage_cost = Fin 1, po_reason = ''demo''\<rparr>"

definition demo_trade_calls :: "trade_call list" where
  "demo_trade_calls = (let t = \<lparr>ns = 60000000000, zone = Some 0\<rparr> in
     [TOpen demo_trade_order, TOpen demo_trade_order, TMark ''ABC'' t (Fin 98),
      TClosePart ''abc'' t (Fin 97) (Fin 4) (Fin 0) (Fin 0) None,
      TClosePart ''abc'' t (Fin 97) (Fin 20) (Fin 0) (Fin 0) None,
      TClose ''ABC'' t (Fin 96) (Fin 0) (Fin 0) None])"

theorem trades_conserve_shares_witness:
  "case trade_run demo_trade_calls of (opened, s) \<Rightarrow>
    \<forall>name. shares_opened name opened = shares_closed name s + shares_open name s"
  by (rule trades_conserve_shares) code_simp

end
