(* ===== verification/Backtest.thy ===== *)
theory Backtest
  imports RiskEngine ExitEngine "HOL-Library.Product_Lexorder"
begin

text \<open>
  \<open>backtesting\<close>: the fill and cost models, the broker simulator (the paper runtime) and the historical
  replay engine, which composes strategy, risk, authorization, broker and trade lifecycle row by row. A
  data frame is its columns and its rows; a cell without a value is missing. \<open>Asia/Kolkata\<close> is UTC+5:30.
\<close>

section \<open>Fills and costs\<close>

datatype FillType = FT_MARKET

record FillConfig =
  fc_slippage_bps :: pyfloat
  fc_fill_type :: FillType

definition make_fill_config :: "FillConfig \<Rightarrow> FillConfig res" where
  "make_fill_config c =
    (if \<not> isfinite (fc_slippage_bps c) \<or> fneg_lt (fc_slippage_bps c)
       then Inl (ValueError ''slippage_bps must be finite and non-negative'') else Inr c)"

record SimulatedFill =
  sf_requested_price :: pyfloat
  sf_fill_price :: pyfloat
  sf_quantity :: pyfloat
  sf_slippage_cost :: pyfloat
  sf_fill_type :: FillType

definition model_fill :: "FillConfig \<Rightarrow> pyfloat \<Rightarrow> pyfloat \<Rightarrow> StrategyDirection \<Rightarrow> SimulatedFill res" where
  "model_fill c price quantity direction =
    (if \<not> isfinite price \<or> nonpos price then Inl (ValueError ''price must be positive and finite'')
     else if \<not> isfinite quantity \<or> nonpos quantity then Inl (ValueError ''quantity must be positive and finite'')
     else if direction = NO_TRADE then Inl (ValueError ''NO_TRADE cannot be filled'')
     else rbind (fdiv (fc_slippage_bps c) (Fin 10000)) (\<lambda>rate.
       Inr \<lparr>sf_requested_price = price,
         sf_fill_price = (if direction = LONG then fmul price (fadd (Fin 1) rate) else fmul price (fsub (Fin 1) rate)),
         sf_quantity = quantity, sf_slippage_cost = fmul (fmul price quantity) rate,
         sf_fill_type = fc_fill_type c\<rparr>))"

record CostConfig =
  cf_brokerage_bps :: pyfloat
  cf_exchange_txn_bps :: pyfloat
  cf_stt_bps :: pyfloat
  cf_gst_bps :: pyfloat
  cf_sebi_bps :: pyfloat
  cf_stamp_duty_bps :: pyfloat

definition cost_rates :: "CostConfig \<Rightarrow> pyfloat list" where
  "cost_rates c = [cf_brokerage_bps c, cf_exchange_txn_bps c, cf_stt_bps c, cf_gst_bps c, cf_sebi_bps c,
     cf_stamp_duty_bps c]"

definition make_cost_config :: "CostConfig \<Rightarrow> CostConfig res" where
  "make_cost_config c =
    (if list_ex (\<lambda>x. \<not> isfinite x \<or> fneg_lt x) (cost_rates c)
       then Inl (ValueError ''transaction costs must be finite and non-negative'') else Inr c)"

definition brokerage_only :: "pyfloat \<Rightarrow> CostConfig" where
  "brokerage_only bps = \<lparr>cf_brokerage_bps = bps, cf_exchange_txn_bps = Fin 0, cf_stt_bps = Fin 0, cf_gst_bps = Fin 0,
     cf_sebi_bps = Fin 0, cf_stamp_duty_bps = Fin 0\<rparr>"

record CostBreakdown =
  ck_notional :: pyfloat
  ck_brokerage :: pyfloat
  ck_exchange_transaction :: pyfloat
  ck_stt :: pyfloat
  ck_gst :: pyfloat
  ck_sebi :: pyfloat
  ck_stamp_duty :: pyfloat

definition cost_total :: "CostBreakdown \<Rightarrow> pyfloat" where
  "cost_total k = fadd (fadd (fadd (fadd (fadd (ck_brokerage k) (ck_exchange_transaction k)) (ck_stt k)) (ck_gst k))
     (ck_sebi k)) (ck_stamp_duty k)"

definition calculate_costs :: "CostConfig \<Rightarrow> pyfloat \<Rightarrow> pyfloat \<Rightarrow> CostBreakdown res" where
  "calculate_costs c price quantity =
    (if \<not> isfinite price \<or> nonpos price then Inl (ValueError ''price must be positive and finite'')
     else if \<not> isfinite quantity \<or> nonpos quantity then Inl (ValueError ''quantity must be positive and finite'')
     else (let notional = fmul price quantity; bps = (\<lambda>x. fdiv (fmul notional x) (Fin 10000)) in
       rbind (bps (cf_brokerage_bps c)) (\<lambda>brokerage.
       rbind (bps (cf_exchange_txn_bps c)) (\<lambda>exchange.
       rbind (bps (cf_stt_bps c)) (\<lambda>stt.
       rbind (bps (cf_gst_bps c)) (\<lambda>gst.
       rbind (bps (cf_sebi_bps c)) (\<lambda>sebi.
       rbind (bps (cf_stamp_duty_bps c)) (\<lambda>stamp_duty.
         Inr \<lparr>ck_notional = notional, ck_brokerage = brokerage, ck_exchange_transaction = exchange, ck_stt = stt,
           ck_gst = gst, ck_sebi = sebi, ck_stamp_duty = stamp_duty\<rparr>))))))))"

section \<open>The broker simulator\<close>

record BrokerSimulatorConfig =
  bsc_slippage_bps :: pyfloat
  bsc_fee_bps :: pyfloat

definition make_broker_simulator_config :: "BrokerSimulatorConfig \<Rightarrow> BrokerSimulatorConfig res" where
  "make_broker_simulator_config c =
    (if \<not> isfinite (bsc_slippage_bps c) \<or> \<not> isfinite (bsc_fee_bps c)
       then Inl (ValueError ''slippage_bps and fee_bps must be finite'')
     else if fneg_lt (bsc_slippage_bps c) \<or> fneg_lt (bsc_fee_bps c)
       then Inl (ValueError ''slippage_bps and fee_bps must be non-negative'')
     else Inr c)"

text \<open>The configuration of the paper runtime a new simulator creates.\<close>

definition simulator_trading_config :: "BrokerSimulatorConfig option \<Rightarrow> PaperTradingConfig res" where
  "simulator_trading_config config = make_paper_trading_config (default_paper_trading_config
     \<lparr>pt_slippage_bps := (case config of Some c \<Rightarrow> bsc_slippage_bps c | None \<Rightarrow> Fin 5),
       pt_fee_bps := (case config of Some c \<Rightarrow> bsc_fee_bps c | None \<Rightarrow> Fin 2)\<rparr>)"

definition simulator_journal :: "PaperRuntime \<Rightarrow> PaperOrder list" where
  "simulator_journal s = pr_journal s"

definition simulator_submit :: "PaperTradingConfig \<Rightarrow> ExecutionAuthorization \<Rightarrow> pyfloat \<Rightarrow> pyfloat \<Rightarrow> (PaperRuntime, PaperOrder) act" where
  "simulator_submit c a price quantity = runtime_submit c a price (Some quantity)"

definition simulator_position :: "string \<Rightarrow> PaperRuntime \<Rightarrow> PaperPosition option" where
  "simulator_position symbol s = paper_position_of symbol s"

section \<open>Frames\<close>

record frame =
  fr_columns :: "string list"
  fr_rows :: "row list"

definition row_cell :: "row \<Rightarrow> string \<Rightarrow> cell" where
  "row_cell r name = (case dict_get (row_cells r) name of None \<Rightarrow> Missing | Some v \<Rightarrow> v)"

definition row_value :: "row \<Rightarrow> string \<Rightarrow> pyfloat" where
  "row_value r name = cell_float (row_cell r name)"

text \<open>The time stamp and the symbol of a prepared row.\<close>

definition row_time :: "row \<Rightarrow> pytime" where
  "row_time r = (case row_timestamp r of Some t \<Rightarrow> t | None \<Rightarrow> \<lparr>ns = 0, zone = None\<rparr>)"

definition row_name :: "row \<Rightarrow> string" where
  "row_name r = (case row_symbol r of Some s \<Rightarrow> s | None \<Rightarrow> ''nan'')"

definition required_columns :: "string list" where
  "required_columns = [''timestamp'', ''symbol'', ''close'', ''regime'', ''regime_probability'', ''vwap_distance_pct'',
     ''rvol_20'', ''higher_high'', ''higher_low'', ''lower_low'', ''lower_high'']"

definition in_utc :: "pytime \<Rightarrow> pytime" where
  "in_utc t = t\<lparr>zone := Some 0\<rparr>"

definition bad_quote :: "pyfloat \<Rightarrow> bool" where
  "bad_quote x = (isnan x \<or> nonpos x)"

definition row_key :: "row \<Rightarrow> int \<times> string" where
  "row_key r = (ns (row_time r), row_name r)"

definition prepare_rows :: "frame \<Rightarrow> row list res" where
  "prepare_rows f =
    (let columns = set (fr_columns f) in
     if fr_rows f = [] then Inr []
     else if \<not> list_all (\<lambda>c. c \<in> columns) required_columns
       then Inl (ValueError ''backtest rows are missing required columns'')
     else (let stamped = map (\<lambda>r. r\<lparr>row_timestamp := map_option in_utc (row_timestamp r)\<rparr>) (fr_rows f) in
     if list_ex (\<lambda>r. row_timestamp r = None) stamped
       then Inl (ValueError ''backtest timestamps must not be missing'')
     else if list_ex (\<lambda>r. row_symbol r = None) stamped then Inl (ValueError ''backtest symbols must not be missing'')
     else (let working = map (\<lambda>r. r\<lparr>row_symbol := map_option symbol_of (row_symbol r)\<rparr>) stamped in
     if list_ex (\<lambda>r. row_symbol r = Some []) working then Inl (ValueError ''backtest symbols must not be empty'')
     else if list_ex (\<lambda>r. bad_quote (row_value r ''close'')) working
       then Inl (ValueError ''backtest close prices must be positive and numeric'')
     else if ''high'' \<in> columns \<and> ''low'' \<in> columns
         \<and> list_ex (\<lambda>r. isnan (row_value r ''high'') \<or> isnan (row_value r ''low'')) working
       then Inl (ValueError ''backtest high/low prices must be numeric'')
     else if ''high'' \<in> columns \<and> ''low'' \<in> columns
         \<and> list_ex (\<lambda>r. nonpos (row_value r ''high'') \<or> nonpos (row_value r ''low'')) working
       then Inl (ValueError ''backtest high/low prices must be positive'')
     else if ''high'' \<in> columns \<and> ''low'' \<in> columns
         \<and> list_ex (\<lambda>r. fless (row_value r ''high'') (row_value r ''low'')) working
       then Inl (ValueError ''backtest high prices must be >= low prices'')
     else if ''volume'' \<in> columns \<and> list_ex (\<lambda>r. bad_quote (row_value r ''volume'')) working
       then Inl (ValueError ''backtest volume must be positive when provided'')
     else if \<not> distinct (map row_key working)
       then Inl (ValueError ''backtest rows contain duplicate symbol/timestamp decisions'')
     else Inr (sort_key row_key working))))"

text \<open>The date in India, and the last row of a symbol on its day.\<close>

definition ist_day :: "pytime \<Rightarrow> int" where
  "ist_day t = (ns t + 19800 * 10 ^ 9) div (86400 * 10 ^ 9)"

definition session_end_row :: "row list \<Rightarrow> row \<Rightarrow> bool" where
  "session_end_row rows r = list_all (\<lambda>q. row_name q = row_name r \<and> ist_day (row_time q) = ist_day (row_time r)
     \<longrightarrow> ns (row_time q) \<le> ns (row_time r)) rows"

section \<open>The engine\<close>

record BacktestConfig =
  bk_price_column :: string
  bk_quantity :: pyfloat
  bk_max_holding_minutes :: pyfloat
  bk_risk_enabled :: bool
  bk_starting_equity :: pyfloat
  bk_target_reward_risk :: pyfloat
  bk_partial_exit_fraction :: pyfloat
  bk_quantity_step :: pyfloat
  bk_candidate_config :: CandidateConfig

definition default_backtest_config :: BacktestConfig where
  "default_backtest_config = \<lparr>bk_price_column = ''close'', bk_quantity = Fin 1, bk_max_holding_minutes = Fin 60,
     bk_risk_enabled = True, bk_starting_equity = Fin 100000, bk_target_reward_risk = lit (3/2),
     bk_partial_exit_fraction = lit (1/2), bk_quantity_step = Fin 1, bk_candidate_config = default_candidate_config\<rparr>"

definition make_backtest_config :: "BacktestConfig \<Rightarrow> BacktestConfig res" where
  "make_backtest_config c =
    (if bk_price_column c = [] then Inl (ValueError ''price_column must not be empty'')
     else if list_ex (\<lambda>x. \<not> isfinite x) [bk_quantity c, bk_max_holding_minutes c, bk_starting_equity c,
         bk_target_reward_risk c, bk_partial_exit_fraction c, bk_quantity_step c]
       then Inl (ValueError ''backtest configuration values must be finite'')
     else if nonpos (bk_quantity c) then Inl (ValueError ''quantity must be positive'')
     else if nonpos (bk_max_holding_minutes c) then Inl (ValueError ''max_holding_minutes must be positive'')
     else if nonpos (bk_starting_equity c) then Inl (ValueError ''starting_equity must be positive'')
     else if nonpos (bk_target_reward_risk c) then Inl (ValueError ''target_reward_risk must be positive'')
     else if \<not> (fpos (bk_partial_exit_fraction c) \<and> fle (bk_partial_exit_fraction c) (Fin 1))
       then Inl (ValueError ''partial_exit_fraction must be in (0, 1]'')
     else if nonpos (bk_quantity_step c) then Inl (ValueError ''quantity_step must be positive'')
     else Inr c)"

text \<open>The configurations an engine holds, and what it keeps between rows.\<close>

record backtest_setup =
  bu_config :: BacktestConfig
  bu_strategy :: StrategyConfig
  bu_risk :: RiskConfig
  bu_trading :: PaperTradingConfig

definition backtest_risk_config :: "BacktestConfig \<Rightarrow> RiskConfig" where
  "backtest_risk_config c = default_risk_config
     \<lparr>rc_target_multiple_r := bk_target_reward_risk c, rc_quantity_step := bk_quantity_step c\<rparr>"

record backtest =
  bt_runtime :: PaperRuntime
  bt_lifecycle :: PaperTradeLifecycle
  bt_levels :: "(string, pyfloat \<times> pyfloat) dict"
  bt_marks :: "(string, pyfloat) dict"
  bt_day_start_equity :: pyfloat
  bt_active_day :: "int option"

definition backtest_init :: "BacktestConfig \<Rightarrow> backtest" where
  "backtest_init c = \<lparr>bt_runtime = runtime_init, bt_lifecycle = lifecycle_init, bt_levels = [], bt_marks = [],
     bt_day_start_equity = bk_starting_equity c, bt_active_day = None\<rparr>"

definition on_lifecycle :: "(PaperTradeLifecycle, 'a) act \<Rightarrow> (backtest, 'a) act" where
  "on_lifecycle = apart bt_lifecycle (\<lambda>l s. s\<lparr>bt_lifecycle := l\<rparr>)"

definition on_runtime :: "(PaperRuntime, 'a) act \<Rightarrow> (backtest, 'a) act" where
  "on_runtime = apart bt_runtime (\<lambda>r s. s\<lparr>bt_runtime := r\<rparr>)"

definition set_levels :: "string \<Rightarrow> pyfloat \<times> pyfloat \<Rightarrow> (backtest, unit) act" where
  "set_levels symbol levels = amod (\<lambda>s. s\<lparr>bt_levels := dict_set symbol levels (bt_levels s)\<rparr>)"

definition drop_levels :: "string \<Rightarrow> (backtest, unit) act" where
  "drop_levels symbol = amod (\<lambda>s. s\<lparr>bt_levels := dict_pop symbol (bt_levels s)\<rparr>)"

text \<open>The order of an open trade, with what is left of it after a partial exit.\<close>

definition remaining_order :: "open_trade \<Rightarrow> PaperOrder res" where
  "remaining_order tr = (let r = ot_order tr in
     if feq (ot_quantity tr) (po_quantity r) then Inr r
     else make_paper_order (r\<lparr>po_quantity := ot_quantity tr, po_fees := ot_entry_fees tr,
       po_slippage_cost := ot_entry_slippage_cost tr\<rparr>))"

definition backtest_open_trade :: "string \<Rightarrow> backtest \<Rightarrow> PaperOrder option res" where
  "backtest_open_trade symbol s = (case dict_get (lc_open (bt_lifecycle s)) symbol of
      None \<Rightarrow> Inr None
    | Some tr \<Rightarrow> rbind (remaining_order tr) (\<lambda>r. Inr (Some r)))"

definition find_open_trade :: "string \<Rightarrow> (backtest, PaperOrder option) act" where
  "find_open_trade symbol = abind (aget (backtest_open_trade symbol)) alift"

subsection \<open>Closing\<close>

definition opposite :: "StrategyDirection \<Rightarrow> StrategyDirection" where
  "opposite d = (if d = LONG then SHORT else LONG)"

definition exit_fill :: "backtest_setup \<Rightarrow> PaperOrder \<Rightarrow> pyfloat \<Rightarrow> pyfloat \<Rightarrow> (SimulatedFill \<times> pyfloat) res" where
  "exit_fill u r price quantity =
     rbind (make_fill_config \<lparr>fc_slippage_bps = pt_slippage_bps (bu_trading u), fc_fill_type = FT_MARKET\<rparr>) (\<lambda>fc.
     rbind (model_fill fc price quantity (opposite (po_direction r))) (\<lambda>fill.
     rbind (make_cost_config (brokerage_only (pt_fee_bps (bu_trading u)))) (\<lambda>cc.
     rbind (calculate_costs cc (sf_fill_price fill) quantity) (\<lambda>costs. Inr (fill, cost_total costs)))))"

definition close_trade :: "backtest_setup \<Rightarrow> string \<Rightarrow> pytime \<Rightarrow> pyfloat \<Rightarrow> (backtest, TradeOutcome) act" where
  "close_trade u symbol t price = abind (find_open_trade symbol) (\<lambda>found. case found of
      None \<Rightarrow> araise (OtherError ''no open trade exists'')
    | Some r \<Rightarrow> abind (alift (exit_fill u r price (po_quantity r))) (\<lambda>(fill, fees).
        on_lifecycle (lifecycle_close symbol t (sf_fill_price fill) fees (sf_slippage_cost fill) (Some price))))"

definition close_partial_trade :: "backtest_setup \<Rightarrow> string \<Rightarrow> pytime \<Rightarrow> pyfloat \<Rightarrow> pyfloat \<Rightarrow> (backtest, TradeOutcome) act" where
  "close_partial_trade u symbol t price quantity = abind (find_open_trade symbol) (\<lambda>found. case found of
      None \<Rightarrow> araise (OtherError ''no open trade exists'')
    | Some r \<Rightarrow> abind (alift (exit_fill u r price quantity)) (\<lambda>(fill, fees).
        on_lifecycle (lifecycle_close_partial symbol t (sf_fill_price fill) quantity fees (sf_slippage_cost fill)
          (Some price))))"

text \<open>A close after which the levels of the symbol are forgotten.\<close>

definition close_and_forget :: "backtest_setup \<Rightarrow> string \<Rightarrow> pytime \<Rightarrow> pyfloat \<Rightarrow> (backtest, unit) act" where
  "close_and_forget u symbol t price = abind (close_trade u symbol t price) (\<lambda>_. drop_levels symbol)"

definition partial_quantity :: "BacktestConfig \<Rightarrow> pyfloat \<Rightarrow> pyfloat res" where
  "partial_quantity c quantity =
     rbind (fdiv (fmul quantity (bk_partial_exit_fraction c)) (bk_quantity_step c)) (\<lambda>steps.
     rbind (ftrunc steps) (\<lambda>n. rbind (float_of_int n) (\<lambda>x. Inr (fmul x (bk_quantity_step c)))))"

definition manage_levels :: "backtest_setup \<Rightarrow> row \<Rightarrow> pytime \<Rightarrow> string \<Rightarrow> PaperOrder \<Rightarrow> pyfloat \<times> pyfloat \<Rightarrow> (backtest, unit) act" where
  "manage_levels u r t symbol opened levels =
    (let close_price = row_value r ''close'';
         high = (if dict_get (row_cells r) ''high'' = None then close_price else row_value r ''high'');
         low = (if dict_get (row_cells r) ''low'' = None then close_price else row_value r ''low'');
         stop = fst levels; target = snd levels; long = (po_direction opened = LONG);
         stop_hit = (if long then fle low stop else fle stop high);
         target_hit = (if long then fle target high else fle low target) in
     if nonpos high \<or> nonpos low \<or> fless high low
       then araise (ValueError ''historical high/low prices must be positive and ordered'')
     else if stop_hit then close_and_forget u symbol t stop
     else if target_hit then
       abind (alift (partial_quantity (bu_config u) (po_quantity opened))) (\<lambda>quantity.
         if nonpos quantity \<or> fle (po_quantity opened) quantity then close_and_forget u symbol t target
         else abind (close_partial_trade u symbol t target quantity) (\<lambda>_.
           set_levels symbol (po_fill_price opened, if long then PInf else NInf)))
     else aret ())"

definition manage_open_trade :: "backtest_setup \<Rightarrow> row \<Rightarrow> pytime \<Rightarrow> (backtest, unit) act" where
  "manage_open_trade u r t =
    (let symbol = upper (row_name r) in
     abind (find_open_trade symbol) (\<lambda>found. case found of
        None \<Rightarrow> aret ()
      | Some opened \<Rightarrow>
          athen (on_lifecycle (lifecycle_mark symbol t (row_value r ''close'')))
            (abind (aget (\<lambda>s. dict_get (bt_levels s) symbol)) (\<lambda>levels. case levels of
                None \<Rightarrow> aret ()
              | Some l \<Rightarrow> manage_levels u r t symbol opened l))))"

text \<open>\<open>timedelta(minutes=m)\<close> in microseconds: the fraction of a minute is rounded to even at the end.\<close>

definition holding_us :: "pyfloat \<Rightarrow> int res" where
  "holding_us m = rbind (ftrunc m) (\<lambda>whole. case fmul (fsub m (rnd (of_int whole))) (Fin 60000000) of
       Fin d \<Rightarrow> (let us = rne (of_int whole * 60000000 + d) in
         if 999999999 < abs (us div (86400 * 10 ^ 6)) then Inl (OverflowError ''days out of range'') else Inr us)
     | _ \<Rightarrow> Inl (ValueError ''cannot convert float NaN to integer''))"

definition close_expired_trade :: "backtest_setup \<Rightarrow> string \<Rightarrow> pytime \<Rightarrow> pyfloat \<Rightarrow> (backtest, unit) act" where
  "close_expired_trade u symbol t price = abind (find_open_trade symbol) (\<lambda>found. case found of
      None \<Rightarrow> aret ()
    | Some r \<Rightarrow> abind (alift (holding_us (bk_max_holding_minutes (bu_config u)))) (\<lambda>us.
        if us * 1000 \<le> ns t - ns (po_timestamp r) then close_and_forget u symbol t price else aret ()))"

definition close_at_session_end :: "backtest_setup \<Rightarrow> bool \<Rightarrow> string \<Rightarrow> pytime \<Rightarrow> pyfloat \<Rightarrow> (backtest, unit) act" where
  "close_at_session_end u session_end symbol t price =
    (if \<not> session_end then aret ()
     else abind (find_open_trade symbol) (\<lambda>found. case found of
        None \<Rightarrow> aret () | Some r \<Rightarrow> close_and_forget u symbol t price))"

subsection \<open>The account\<close>

text \<open>Gross exposure and unrealized profit over the open trades in insertion order.\<close>

fun mark_trades :: "(string, pyfloat) dict \<Rightarrow> (string \<times> open_trade) list \<Rightarrow> pyfloat \<times> pyfloat \<Rightarrow> pyfloat \<times> pyfloat" where
  "mark_trades marks [] totals = totals"
| "mark_trades marks ((symbol, tr) # rest) (gross, unrealized) =
    (let r = ot_order tr; quantity = ot_quantity tr;
         mark = (case dict_get marks symbol of None \<Rightarrow> po_fill_price r | Some m \<Rightarrow> m);
         move = (if po_direction r = LONG then fsub mark (po_fill_price r) else fsub (po_fill_price r) mark) in
     mark_trades marks rest (fadd gross (fmul quantity mark),
       fsub (fadd unrealized (fmul move quantity)) (ot_entry_fees tr)))"

definition equity_floor :: pyfloat where
  "equity_floor = lit (1 / 10 ^ 9)"

definition current_equity :: "BacktestConfig \<Rightarrow> backtest \<Rightarrow> pyfloat" where
  "current_equity c s = fmax equity_floor (fadd (bk_starting_equity c)
     (fsum (map to_net_pnl (lc_outcomes (bt_lifecycle s)))))"

definition enter_day :: "BacktestConfig \<Rightarrow> int \<Rightarrow> (backtest, unit) act" where
  "enter_day c day = amod (\<lambda>s. if bt_active_day s = Some day then s
     else s\<lparr>bt_active_day := Some day, bt_day_start_equity := current_equity c s\<rparr>)"

text \<open>
  The account the risk engine is given; its time stamp, symbol and candidate are those of the
  decision. \<open>bt_day_start_equity\<close> is read after the day was entered.
\<close>

definition portfolio_state :: "BacktestConfig \<Rightarrow> pytime \<Rightarrow> string \<Rightarrow> TradeCandidate \<Rightarrow> backtest \<Rightarrow> RiskInput" where
  "portfolio_state c t symbol candidate s =
    (let day = ist_day t; trades = lc_open (bt_lifecycle s); outcomes = lc_outcomes (bt_lifecycle s) in
     case mark_trades (bt_marks s) trades (Fin 0, Fin 0) of (gross, unrealized) \<Rightarrow>
     \<lparr>ri_timestamp = t, ri_symbol = symbol, ri_candidate = candidate,
      ri_available_equity = fmax equity_floor
        (fadd (fadd (bk_starting_equity c) (fsum (map to_net_pnl outcomes))) unrealized),
      ri_day_start_equity = bt_day_start_equity s, ri_available_cash = None, ri_peak_equity = None,
      ri_realized_pnl = fsum (map to_net_pnl (filter (\<lambda>x. ist_day (to_exit_time x) = day) outcomes)),
      ri_unrealized_pnl = unrealized, ri_open_positions = int (length trades),
      ri_trades_today = int (length (filter (\<lambda>x. po_status x = PO_FILLED \<and> ist_day (po_timestamp x) = day)
        (simulator_journal (bt_runtime s)))),
      ri_gross_exposure = gross, ri_symbol_already_open = (upper symbol \<in> upper ` set (dict_keys trades)),
      ri_position_context = None, ri_liquidity_available = True, ri_kill_switch_active = False,
      ri_sector = None, ri_symbol_exposure = [], ri_sector_exposure = [], ri_pairwise_correlation = [],
      ri_atr = None, ri_high_volatility = False, ri_market_data_valid = True, ri_system_ready = True,
      ri_kill_switch_state = None\<rparr>)"

subsection \<open>One row\<close>

record BacktestStep =
  bs_timestamp :: pytime
  bs_symbol :: string
  bs_price :: pyfloat
  bs_strategy :: StrategyDecision
  bs_risk :: RiskDecision
  bs_authorization :: ExecutionAuthorization
  bs_order :: "PaperOrder option"
  bs_target_price :: "pyfloat option"
  bs_stop_price :: "pyfloat option"

record BacktestResult =
  br_steps :: "BacktestStep list"
  br_outcomes :: "TradeOutcome list"

definition result_orders :: "BacktestResult \<Rightarrow> PaperOrder list" where
  "result_orders b = List.map_filter bs_order (br_steps b)"

definition completed_trades :: "BacktestResult \<Rightarrow> nat" where
  "completed_trades b = length (br_outcomes b)"

definition result_net_pnl :: "BacktestResult \<Rightarrow> pyfloat" where
  "result_net_pnl b = fsum (map to_net_pnl (br_outcomes b))"

definition decision_columns :: "string list" where
  "decision_columns = [''vwap_distance_pct'', ''rvol_20'', ''higher_high'', ''higher_low'', ''lower_low'', ''lower_high'']"

definition strategy_input_from_row :: "row \<Rightarrow> pytime \<Rightarrow> string \<Rightarrow> StrategyInput res" where
  "strategy_input_from_row r t symbol = make_strategy_input \<lparr>si_timestamp = t, si_symbol = symbol,
     si_decision_features = map (\<lambda>c. (c, row_cell r c)) decision_columns, si_prediction = None,
     si_market_context = None, si_analysis_context = None, si_research_context = None,
     si_regime = Some (case row_regime r of Some g \<Rightarrow> g | None \<Rightarrow> ''nan''),
     si_regime_probability = Some (row_value r ''regime_probability''), si_cost_estimate = None,
     si_cost_fraction = None, si_slippage_bps = None, si_liquidity_available = None, si_versions = []\<rparr>"

text \<open>\<open>isoformat\<close> of a stamp in UTC, and the identifier of a risk decision.\<close>

definition iso_utc :: "pytime \<Rightarrow> string" where
  "iso_utc t = (case civil_date (ns t div (86400 * 10 ^ 9)) of (y, m, d) \<Rightarrow>
     let rest = ns t mod 10 ^ 9 in
     padded 4 y @ ''-'' @ padded 2 m @ ''-'' @ padded 2 d @ ''T'' @ padded 2 (ns t div (3600 * 10 ^ 9) mod 24) @ '':''
     @ padded 2 (ns t div (60 * 10 ^ 9) mod 60) @ '':'' @ padded 2 (ns t div 10 ^ 9 mod 60)
     @ (if rest = 0 then [] else if rest mod 1000 = 0 then ''.'' @ padded 6 (rest div 1000) else ''.'' @ padded 9 rest)
     @ ''+00:00'')"

definition backtest_decision_id :: "RiskDecision \<Rightarrow> string" where
  "backtest_decision_id d = iso_utc (rd_timestamp d) @ '':'' @ rd_symbol d @ '':'' @ rd_risk_version d"

definition handle_authorized :: "backtest_setup \<Rightarrow> ExecutionAuthorization \<Rightarrow> pyfloat \<Rightarrow> pyfloat option \<Rightarrow> pyfloat option
     \<Rightarrow> (backtest, PaperOrder option) act" where
  "handle_authorized u a price stop_price target_price =
    (let symbol = upper (ea_symbol a);
         enter = (if nonpos (ea_approved_quantity a) then araise (ValueError ''authorized quantity must be positive'')
           else abind (on_runtime (simulator_submit (bu_trading u) a price (ea_approved_quantity a))) (\<lambda>r.
             if po_status r \<noteq> PO_FILLED then aret (Some r)
             else athen (on_lifecycle (lifecycle_open r))
               (athen (case (stop_price, target_price) of
                   (Some stop, Some target) \<Rightarrow> set_levels symbol (stop, target) | _ \<Rightarrow> aret ())
                 (aret (Some r))))) in
     abind (find_open_trade symbol) (\<lambda>existing. case existing of
        None \<Rightarrow> enter
      | Some r \<Rightarrow> if po_direction r = ea_direction a then aret None
          else abind (close_trade u symbol (ea_timestamp a) price) (\<lambda>_. enter)))"

definition no_candidate :: TradeCandidate where
  "no_candidate = \<lparr>tc_timestamp = \<lparr>ns = 0, zone = None\<rparr>, tc_symbol = [], tc_direction = CD_LONG, tc_entry_price = NaN,
     tc_stop_price = NaN, tc_policy_version = []\<rparr>"

text \<open>\<open>float(row[column])\<close>: the columns of the frame are the keys of the cells of its rows.\<close>

definition row_price :: "row \<Rightarrow> string \<Rightarrow> pyfloat res" where
  "row_price r column = (case dict_get (row_cells r) column of
      None \<Rightarrow> Inl (KeyError column) | Some v \<Rightarrow> Inr (cell_float v))"

text \<open>
  The body of the loop: what is open in the symbol is managed first, then the strategy decides and,
  where an entry is allowed, an authorized decision becomes an order.
\<close>

definition manage_row :: "backtest_setup \<Rightarrow> bool \<Rightarrow> row \<Rightarrow> pytime \<Rightarrow> string \<Rightarrow> pyfloat \<Rightarrow> (backtest, unit) act" where
  "manage_row u session_end r t symbol price =
     athen (manage_open_trade u r t)
    (athen (amod (\<lambda>s. s\<lparr>bt_marks := dict_set symbol price (bt_marks s)\<rparr>))
    (athen (close_expired_trade u symbol t price)
      (close_at_session_end u session_end symbol t price)))"

definition assess_row :: "backtest_setup \<Rightarrow> row \<Rightarrow> pytime \<Rightarrow> string \<Rightarrow> (backtest, StrategyDecision \<times> RiskAssessment \<times> ExecutionAuthorization) act" where
  "assess_row u r t symbol = (let c = bu_config u in
     abind (alift (rbind (strategy_input_from_row r t symbol) (decide (bu_strategy u)))) (\<lambda>(strategy, trace).
     athen (enter_day c (ist_day t))
    (abind (aget (\<lambda>s. evaluate_strategy_candidate_risk strategy r (bu_risk u) (portfolio_state c t symbol no_candidate s)
         (bk_candidate_config c) (bk_risk_enabled c))) (\<lambda>assessed.
     abind (alift assessed) (\<lambda>assessment.
     abind (alift (authorize_risk_decision (ra_decision assessment)
         (Some (case ra_position_size assessment of Some q \<Rightarrow> q | None \<Rightarrow> Fin 0))
         (Some (case (ra_entry_price assessment, ra_position_size assessment) of
             (Some e, Some q) \<Rightarrow> fmul e q | _ \<Rightarrow> Fin 0))
         (backtest_decision_id (ra_decision assessment)) [])) (\<lambda>authorization.
     aret (strategy, assessment, authorization)))))))"

definition backtest_row :: "backtest_setup \<Rightarrow> (row \<Rightarrow> bool) \<Rightarrow> int \<Rightarrow> row \<Rightarrow> (backtest, BacktestStep) act" where
  "backtest_row u ends final_ns r =
    (let t = row_time r; symbol = upper (row_name r); session_end = ends r in
     abind (alift (row_price r (bk_price_column (bu_config u)))) (\<lambda>price.
     athen (manage_row u session_end r t symbol price)
    (abind (assess_row u r t symbol) (\<lambda>(strategy, assessment, authorization).
     abind (if \<not> session_end \<and> ns t < final_ns \<and> ea_status authorization = AUTHORIZED
         then handle_authorized u authorization price (ra_stop_price assessment) (ra_target_price assessment)
         else aret None) (\<lambda>order_made.
     aret \<lparr>bs_timestamp = t, bs_symbol = symbol, bs_price = price, bs_strategy = strategy,
       bs_risk = ra_decision assessment, bs_authorization = authorization, bs_order = order_made,
       bs_target_price = ra_target_price assessment, bs_stop_price = ra_stop_price assessment\<rparr>)))))"

fun backtest_rows :: "backtest_setup \<Rightarrow> (row \<Rightarrow> bool) \<Rightarrow> int \<Rightarrow> row list \<Rightarrow> (backtest, BacktestStep list) act" where
  "backtest_rows u ends final_ns [] = aret []"
| "backtest_rows u ends final_ns (r # rs) = abind (backtest_row u ends final_ns r) (\<lambda>x.
     abind (backtest_rows u ends final_ns rs) (\<lambda>xs. aret (x # xs)))"

text \<open>The last row of each symbol, the symbols in the order of their first rows.\<close>

definition last_rows :: "row list \<Rightarrow> (string, row) dict" where
  "last_rows rows = dict_of_list (map (\<lambda>r. (row_name r, r)) rows)"

definition close_remaining :: "backtest_setup \<Rightarrow> (string \<times> row) list \<Rightarrow> (backtest, unit) act" where
  "close_remaining u groups = aforeach groups (\<lambda>(name, r). let symbol = upper name in
     abind (find_open_trade symbol) (\<lambda>found. case found of
        None \<Rightarrow> aret ()
      | Some x \<Rightarrow> abind (alift (row_price r (bk_price_column (bu_config u)))) (close_and_forget u symbol (row_time r))))"

definition final_time :: "row list \<Rightarrow> int" where
  "final_time rows = Max (set (map (\<lambda>r. ns (row_time r)) rows))"

definition backtest_run :: "backtest_setup \<Rightarrow> frame \<Rightarrow> (backtest, BacktestResult) act" where
  "backtest_run u f = abind (alift (prepare_rows f)) (\<lambda>working.
     if working = [] then aret \<lparr>br_steps = [], br_outcomes = []\<rparr>
     else abind (backtest_rows u (session_end_row working) (final_time working) working) (\<lambda>steps.
       athen (close_remaining u (last_rows working))
      (abind (aget (\<lambda>s. lc_outcomes (bt_lifecycle s))) (\<lambda>outcomes.
         aret \<lparr>br_steps = steps, br_outcomes = outcomes\<rparr>))))"

end
