(* ===== verification/BacktestProperties.thy ===== *)
theory BacktestProperties
  imports Backtest RiskProperties
begin

text \<open>
  The historical replay: what a close does to the engine's state, what a row does to it, and what holds
  over a whole run. \<open>closes name t\<close> relates the states before and after anything the engine does to an
  open trade: only the trade named is touched, it keeps its entry order, and what it books leaves at \<open>t\<close>.
\<close>

section \<open>Closing a trade\<close>

definition trades_of :: "backtest \<Rightarrow> (string, open_trade) dict" where
  "trades_of s = lc_open (bt_lifecycle s)"

definition outcomes_of :: "backtest \<Rightarrow> TradeOutcome list" where
  "outcomes_of s = lc_outcomes (bt_lifecycle s)"

definition entry_of :: "open_trade \<Rightarrow> pytime" where
  "entry_of tr = po_timestamp (ot_order tr)"

definition lc_closes :: "string \<Rightarrow> pytime \<Rightarrow> PaperTradeLifecycle \<Rightarrow> PaperTradeLifecycle \<Rightarrow> bool" where
  "lc_closes name t s s' \<longleftrightarrow>
     (\<forall>k. k \<noteq> name \<longrightarrow> dict_get (lc_open s') k = dict_get (lc_open s) k) \<and>
     (\<forall>tr'. dict_get (lc_open s') name = Some tr' \<longrightarrow>
        (\<exists>tr. dict_get (lc_open s) name = Some tr \<and> entry_of tr' = entry_of tr)) \<and>
     length (lc_open s') \<le> length (lc_open s) \<and>
     (\<exists>ys. lc_outcomes s' = lc_outcomes s @ ys \<and> (\<forall>y \<in> set ys. to_exit_time y = t \<and>
        (\<exists>tr. dict_get (lc_open s) name = Some tr \<and> to_entry_time y = entry_of tr) \<and>
        aware (to_entry_time y) \<and> aware t \<and> ns (to_entry_time y) \<le> ns t))"

lemma lc_closes_refl: "lc_closes name t s s"
  by (simp add: lc_closes_def)

lemma lc_closes_trans:
  assumes "lc_closes name t a b" "lc_closes name t b c"
  shows "lc_closes name t a c"
proof -
  obtain ys where ys: "lc_outcomes b = lc_outcomes a @ ys"
      "\<forall>y \<in> set ys. to_exit_time y = t \<and> (\<exists>tr. dict_get (lc_open a) name = Some tr \<and> to_entry_time y = entry_of tr)
         \<and> aware (to_entry_time y) \<and> aware t \<and> ns (to_entry_time y) \<le> ns t"
    using assms(1) by (auto simp: lc_closes_def)
  obtain zs where zs: "lc_outcomes c = lc_outcomes b @ zs"
      "\<forall>y \<in> set zs. to_exit_time y = t \<and> (\<exists>tr. dict_get (lc_open b) name = Some tr \<and> to_entry_time y = entry_of tr)
         \<and> aware (to_entry_time y) \<and> aware t \<and> ns (to_entry_time y) \<le> ns t"
    using assms(2) by (auto simp: lc_closes_def)
  have earlier: "\<exists>tr. dict_get (lc_open a) name = Some tr \<and> e = entry_of tr"
    if "dict_get (lc_open b) name = Some tr'" "e = entry_of tr'" for tr' e
    using assms(1) that by (auto simp: lc_closes_def)
  have all: "\<forall>y \<in> set (ys @ zs). to_exit_time y = t
       \<and> (\<exists>tr. dict_get (lc_open a) name = Some tr \<and> to_entry_time y = entry_of tr)
       \<and> aware (to_entry_time y) \<and> aware t \<and> ns (to_entry_time y) \<le> ns t"
    using ys(2) zs(2) earlier by fastforce
  have other: "dict_get (lc_open c) k = dict_get (lc_open a) k" if "k \<noteq> name" for k
    using that assms by (simp add: lc_closes_def)
  have this_one: "\<exists>tr. dict_get (lc_open a) name = Some tr \<and> entry_of tr' = entry_of tr"
    if "dict_get (lc_open c) name = Some tr'" for tr'
    using that assms earlier unfolding lc_closes_def by metis
  have "length (lc_open c) \<le> length (lc_open a)" using assms by (simp add: lc_closes_def)
  moreover have "lc_outcomes c = lc_outcomes a @ (ys @ zs)" using ys(1) zs(1) by simp
  ultimately show ?thesis using other this_one all unfolding lc_closes_def by blast
qed

lemma length_set_existing: "dict_get d k = Some v \<Longrightarrow> length (dict_set k w d) = length d"
  by (induction d) (auto split: if_splits)

lemma length_set: "length (dict_set k v d) \<le> Suc (length d)"
  by (induction d) auto

lemma length_pop: "length (dict_pop k d) \<le> length d"
  by (induction d) auto

lemma lc_closes_put:
  "dict_get (lc_open s) name = Some tr \<Longrightarrow> entry_of tr' = entry_of tr \<Longrightarrow>
   lc_closes name t s (s\<lparr>lc_open := dict_set name tr' (lc_open s)\<rparr>)"
  by (simp add: lc_closes_def length_set_existing)

text \<open>A close that returns books one outcome at its time; a full close removes the trade.\<close>

lemma close_outcome_times:
  assumes "close_outcome nm tr t price q x fees slip f1 f2 = Inr y"
  shows "to_exit_time y = t" "to_entry_time y = entry_of tr" "aware (entry_of tr)" "aware t"
    "ns (entry_of tr) \<le> ns t"
  using assms by (auto simp: close_outcome_def make_trade_outcome_def Let_def entry_of_def time_less_def split: if_splits option.splits)

lemma finite_self_sub: "isfinite x \<Longrightarrow> fsub x x = Fin 0"
  by (cases x) simp_all

lemma close_tolerance_not_negative: "fle (Fin 0) close_tolerance"
  by code_simp

lemma full_remainder: "isfinite (ot_quantity tr) \<Longrightarrow> remainder_trade tr (ot_quantity tr) f1 f2 = None"
  by (simp add: remainder_trade_def finite_self_sub close_tolerance_not_negative)

lemma remainder_entry: "remainder_trade tr q f1 f2 = Some rest \<Longrightarrow> entry_of rest = entry_of tr"
  by (auto simp: remainder_trade_def entry_of_def Let_def split: if_splits)

lemma close_arguments_finite: "close_arguments t price q fees slip ref = Inr x \<Longrightarrow> isfinite q"
  by (auto simp: close_arguments_def split: if_splits)

lemma close_partial_result:
  assumes "lifecycle_close_partial name t price q fees slip ref s = (res, s')"
  obtains "s' = s" "\<exists>e. res = Inl e"
  | tr outcome f1 f2 where "dict_get (lc_open s) (upper name) = Some tr" "res = Inr outcome" "isfinite q"
    "to_exit_time outcome = t" "to_entry_time outcome = entry_of tr" "aware (entry_of tr)" "aware t"
    "ns (entry_of tr) \<le> ns t"
    "s' = (case remainder_trade tr q f1 f2 of
        None \<Rightarrow> s\<lparr>lc_outcomes := lc_outcomes s @ [outcome], lc_open := dict_pop (upper name) (lc_open s)\<rparr>
      | Some rest \<Rightarrow> s\<lparr>lc_outcomes := lc_outcomes s @ [outcome], lc_open := dict_set (upper name) rest (lc_open s)\<rparr>)"
proof (cases "dict_get (lc_open s) (upper name)")
  case None
  then show thesis using assms that(1) by (auto simp: lifecycle_close_partial_def Let_def abind_run)
next
  case (Some tr)
  show thesis
  proof (cases res)
    case (Inl e)
    then have "s' = s" using assms Some
      by (auto simp: lifecycle_close_partial_def Let_def abind_run athen_run put_trade_def split: sum.splits if_splits option.splits)
    then show thesis using Inl that(1) by blast
  next
    case (Inr outcome)
    obtain x f1 f2 where "close_arguments t price q fees slip ref = Inr x"
      and o: "close_outcome (upper name) tr t price q x fees slip f1 f2 = Inr outcome"
      and s': "s' = (case remainder_trade tr q f1 f2 of
        None \<Rightarrow> s\<lparr>lc_outcomes := lc_outcomes s @ [outcome], lc_open := dict_pop (upper name) (lc_open s)\<rparr>
      | Some rest \<Rightarrow> s\<lparr>lc_outcomes := lc_outcomes s @ [outcome], lc_open := dict_set (upper name) rest (lc_open s)\<rparr>)"
      using assms Some Inr
      by (auto simp: lifecycle_close_partial_def Let_def abind_run athen_run put_trade_def
          split: sum.splits if_splits option.splits)
    then show thesis using that(2) [OF Some Inr] close_outcome_times [OF o] close_arguments_finite by blast
  qed
qed

lemma close_partial_closes:
  assumes "lifecycle_close_partial name t price q fees slip ref s = (res, s')"
  shows "lc_closes (upper name) t s s'"
  using assms
proof (cases rule: close_partial_result)
  case 1
  then show ?thesis by (simp add: lc_closes_refl)
next
  case (2 tr outcome f1 f2)
  then show ?thesis
    by (cases "remainder_trade tr q f1 f2") (auto simp: lc_closes_def length_set_existing length_pop remainder_entry)
qed

lemma lifecycle_close_closes:
  assumes "lifecycle_close name t price fees slip ref s = (res, s')"
  shows "lc_closes (upper name) t s s'" and "res = Inr y \<Longrightarrow> dict_get (lc_open s') (upper name) = None"
proof -
  have run: "(s' = s \<and> (\<exists>e. res = Inl e)) \<or> (\<exists>tr. dict_get (lc_open s) (upper name) = Some tr
      \<and> lifecycle_close_partial (upper name) t price (ot_quantity tr) fees slip ref s = (res, s'))"
    using assms by (auto simp: lifecycle_close_def Let_def abind_run split: option.splits if_splits)
  then show "lc_closes (upper name) t s s'"
    using close_partial_closes [of "upper name"] lc_closes_refl by fastforce
  show "dict_get (lc_open s') (upper name) = None" if r: "res = Inr y"
  proof -
    obtain tr where tr: "dict_get (lc_open s) (upper name) = Some tr"
      and c: "lifecycle_close_partial (upper name) t price (ot_quantity tr) fees slip ref s = (res, s')"
      using run r by auto
    from c show ?thesis
      using tr r full_remainder by (cases rule: close_partial_result) auto
  qed
qed

lemma lifecycle_mark_closes:
  "lc_closes (upper name) t s (snd (lifecycle_mark name u price s))"
  by (auto simp: lifecycle_mark_def put_trade_def Let_def abind_run lc_closes_refl entry_of_def
      intro!: lc_closes_put split: option.splits sum.splits)

section \<open>The engine's own closes\<close>

definition closes :: "string \<Rightarrow> pytime \<Rightarrow> backtest \<Rightarrow> backtest \<Rightarrow> bool" where
  "closes name t s s' \<longleftrightarrow> lc_closes name t (bt_lifecycle s) (bt_lifecycle s') \<and> bt_runtime s' = bt_runtime s"

lemma closes_refl: "closes name t s s"
  by (simp add: closes_def lc_closes_refl)

lemma closes_trans: "closes name t a b \<Longrightarrow> closes name t b c \<Longrightarrow> closes name t a c"
  unfolding closes_def using lc_closes_trans by metis

named_theorems closes_intros "actions that only close a trade"

lemmas closes_bind [closes_intros] =
  moves_abind [of "closes name t" for name t, OF closes_trans] moves_athen [of "closes name t" for name t, OF closes_trans]

lemma closes_pure [closes_intros]:
  "moves (closes name t) (aret x)" "moves (closes name t) (araise e)" "moves (closes name t) (aget g)"
  "moves (closes name t) (alift m)"
  by (simp_all add: moves_def closes_refl)

lemma closes_if [closes_intros]: "moves R m \<Longrightarrow> moves R n \<Longrightarrow> moves R (if b then m else n)"
  by simp

lemma closes_amod [closes_intros]:
  "(\<And>s. bt_lifecycle (g s) = bt_lifecycle s \<and> bt_runtime (g s) = bt_runtime s) \<Longrightarrow> moves (closes name t) (amod g)"
  by (simp add: moves_def closes_def lc_closes_refl)

lemma closes_levels [closes_intros]:
  "moves (closes name t) (set_levels k l)" "moves (closes name t) (drop_levels k)"
  unfolding set_levels_def drop_levels_def by (intro closes_amod; simp)+

lemma closes_find [closes_intros]: "moves (closes name t) (find_open_trade k)"
  unfolding find_open_trade_def by (intro closes_intros)

lemma closes_on_lifecycle:
  "(\<And>s. lc_closes name t s (snd (m s))) \<Longrightarrow> moves (closes name t) (on_lifecycle m)"
  by (auto simp: moves_def closes_def on_lifecycle_def apart_run split: prod.split)
    (metis snd_conv)

lemma closes_lifecycle [closes_intros]:
  "moves (closes (upper name) t) (on_lifecycle (lifecycle_close name t price fees slip ref))"
  "moves (closes (upper name) t) (on_lifecycle (lifecycle_close_partial name t price q fees slip ref))"
  "moves (closes (upper name) t) (on_lifecycle (lifecycle_mark name u mark))"
  by (rule closes_on_lifecycle, metis lifecycle_close_closes(1) close_partial_closes lifecycle_mark_closes prod.collapse)+

lemma closes_close_trade [closes_intros]: "moves (closes (upper name) t) (close_trade u name t price)"
  unfolding close_trade_def by (auto intro!: closes_intros split: option.split)

lemma closes_close_partial_trade [closes_intros]:
  "moves (closes (upper name) t) (close_partial_trade u name t price q)"
  unfolding close_partial_trade_def by (auto intro!: closes_intros split: option.split)

lemma closes_close_and_forget [closes_intros]: "moves (closes (upper name) t) (close_and_forget u name t price)"
  unfolding close_and_forget_def by (intro closes_intros)

lemma closes_manage_levels [closes_intros]:
  "moves (closes (upper name) t) (manage_levels u r t name opened levels)"
  unfolding manage_levels_def Let_def by (intro closes_intros)

lemma closes_manage [closes_intros]: "moves (closes (upper (row_name r)) t) (manage_open_trade u r t)"
proof -
  let ?n = "upper (row_name r)"
  have mark: "moves (closes ?n t) (on_lifecycle (lifecycle_mark ?n t price))" for price
    using closes_lifecycle(3) [of ?n] by simp
  have levels: "moves (closes ?n t) (manage_levels u r t ?n opened l)" for opened l
    using closes_manage_levels [of ?n] by simp
  have "moves (closes ?n t) (case l of None \<Rightarrow> aret () | Some l \<Rightarrow> manage_levels u r t ?n opened l)" for l opened
    by (cases l) (simp_all add: closes_pure levels)
  then have "moves (closes ?n t) (athen (on_lifecycle (lifecycle_mark ?n t (row_value r ''close'')))
      (abind (aget (\<lambda>s. dict_get (bt_levels s) ?n))
        (\<lambda>l. case l of None \<Rightarrow> aret () | Some l \<Rightarrow> manage_levels u r t ?n opened l)))" for opened
    by (intro closes_bind mark closes_pure)
  then have "moves (closes ?n t) (case found of None \<Rightarrow> aret ()
     | Some opened \<Rightarrow> athen (on_lifecycle (lifecycle_mark ?n t (row_value r ''close'')))
        (abind (aget (\<lambda>s. dict_get (bt_levels s) ?n))
          (\<lambda>l. case l of None \<Rightarrow> aret () | Some l \<Rightarrow> manage_levels u r t ?n opened l)))" for found
    by (cases found) (simp_all add: closes_pure)
  then show ?thesis unfolding manage_open_trade_def Let_def by (intro closes_bind closes_find)
qed

lemma closes_expired [closes_intros]: "moves (closes (upper name) t) (close_expired_trade u name t price)"
  unfolding close_expired_trade_def by (auto intro!: closes_intros split: option.split)

lemma closes_session_end [closes_intros]: "moves (closes (upper name) t) (close_at_session_end u b name t price)"
  unfolding close_at_session_end_def by (auto intro!: closes_intros split: option.split)

text \<open>A close that returns leaves no trade of the symbol; so does the end of the session.\<close>

lemma close_trade_empties:
  assumes "close_trade u name t price s = (Inr y, s')"
  shows "dict_get (trades_of s') (upper name) = None"
proof -
  obtain s1 price' fees slip where "on_lifecycle (lifecycle_close name t price' fees slip (Some price)) s1 = (Inr y, s')"
    using assms by (auto simp: close_trade_def abind_returns split: option.splits prod.splits)
  then have "lifecycle_close name t price' fees slip (Some price) (bt_lifecycle s1) = (Inr y, bt_lifecycle s')"
    by (auto simp: on_lifecycle_def apart_run split: prod.splits)
  then show ?thesis unfolding trades_of_def by (rule lifecycle_close_closes(2)) simp
qed

lemma find_open_trade_runs:
  assumes "find_open_trade name s = (Inr x, s')"
  shows "s' = s" and "x = None \<longleftrightarrow> dict_get (trades_of s) name = None"
  using assms by (auto simp: find_open_trade_def abind_returns backtest_open_trade_def trades_of_def split: option.splits)

lemma close_and_forget_empties:
  assumes "close_and_forget u name t price s = (Inr y, s')" and "upper name = name"
  shows "dict_get (trades_of s') name = None"
proof -
  obtain o' s1 where "close_trade u name t price s = (Inr o', s1)" and s': "trades_of s' = trades_of s1"
    using assms(1) by (auto simp: close_and_forget_def abind_returns drop_levels_def trades_of_def)
  then show ?thesis using close_trade_empties assms(2) by metis
qed

lemma session_end_empties:
  assumes "close_at_session_end u True name t price s = (Inr y, s')" and "upper name = name"
  shows "dict_get (trades_of s') name = None"
proof -
  obtain found s1 where f: "find_open_trade name s = (Inr found, s1)"
    and c: "(case found of None \<Rightarrow> aret () | Some r \<Rightarrow> close_and_forget u name t price) s1 = (Inr y, s')"
    using assms(1) by (auto simp: close_at_session_end_def abind_returns)
  show ?thesis
    using c close_and_forget_empties [OF _ assms(2)] find_open_trade_runs [OF f] by (auto split: option.splits)
qed

section \<open>One row\<close>

definition entries_on :: "int \<Rightarrow> backtest \<Rightarrow> nat" where
  "entries_on day s = length (filter (\<lambda>r. po_status r = PO_FILLED \<and> ist_day (po_timestamp r) = day)
     (pr_journal (bt_runtime s)))"

text \<open>A submit that returns for an authorized order appends a filled order of the authorization.\<close>

lemma journal_order_returns:
  assumes "journal_order r s = (Inr x, s')"
  shows "x = r" "pr_journal s' = pr_journal s @ [r]"
  using assms by (auto simp: journal_order_def abind_returns make_paper_order_def split: if_splits)

lemma book_optional_returns:
  "(case m of None \<Rightarrow> aret () | Some x \<Rightarrow> book_pnl (f x)) s = (Inr y, s') \<Longrightarrow> pr_journal s' = pr_journal s"
  by (auto simp: book_pnl_def split: option.splits)

lemma runtime_fill_fills:
  assumes "runtime_fill c a price q s = (Inr r, s')"
  shows "pr_journal s' = pr_journal s @ [r]" "po_status r = PO_FILLED" "po_timestamp r = ea_timestamp a"
    "po_symbol r = upper (ea_symbol a)" "po_direction r = ea_direction a" "po_quantity r = q"
    "po_requested_price r = price"
proof -
  obtain fill fees x y s1 s2 s3 r0 where
        opt: "(case x of None \<Rightarrow> aret () | Some v \<Rightarrow> book_pnl (fadd y v)) s1 = (Inr (), s2)"
    and j: "journal_order r0 s3 = (Inr r, s')"
    and s1: "pr_journal s1 = pr_journal s" and s3: "pr_journal s3 = pr_journal s2"
    and r0: "r0 = \<lparr>po_timestamp = ea_timestamp a, po_symbol = upper (ea_symbol a), po_direction = ea_direction a,
         po_requested_price = price, po_fill_price = fill, po_quantity = q,
         po_status = PO_FILLED, po_fees = fees,
         po_slippage_cost = fmul (fabs (fsub fill price)) q,
         po_reason = ''Paper fill simulated deterministically.''\<rparr>"
    using assms
    by (simp add: runtime_fill_def Let_def abind_returns case_prod_unfold book_pnl_def [of "fsub _ _"])
      (elim exE conjE, rule that, assumption, assumption, simp, simp, rule refl)
  show "pr_journal s' = pr_journal s @ [r]" "po_status r = PO_FILLED" "po_timestamp r = ea_timestamp a"
    "po_symbol r = upper (ea_symbol a)" "po_direction r = ea_direction a" "po_quantity r = q"
    "po_requested_price r = price"
    using journal_order_returns [OF j] book_optional_returns [OF opt] s1 s3 r0 by simp_all
qed

lemma runtime_submit_fills:
  assumes "runtime_submit c a price q s = (Inr r, s')" and "ea_status a = AUTHORIZED"
  shows "runtime_fill c a price (ea_approved_quantity a) s = (Inr r, s')"
  using assms by (auto simp: runtime_submit_def abind_returns submit_quantity_def split: if_splits option.splits)

text \<open>The state a new order leaves: its trade is appended to the open trades, its order to the journal.\<close>

definition enters :: "PaperOrder \<Rightarrow> backtest \<Rightarrow> backtest \<Rightarrow> bool" where
  "enters r s s' \<longleftrightarrow> outcomes_of s' = outcomes_of s \<and>
     pr_journal (bt_runtime s') = pr_journal (bt_runtime s) @ [r] \<and>
     (\<exists>tr. trades_of s' = dict_set (upper (po_symbol r)) tr (trades_of s) \<and> ot_order tr = r) \<and>
     dict_get (trades_of s) (upper (po_symbol r)) = None"

lemma lifecycle_open_returns:
  assumes "lifecycle_open r s = (Inr x, s')"
  shows "\<exists>tr. lc_open s' = dict_set (upper (po_symbol r)) tr (lc_open s) \<and> ot_order tr = r"
    and "lc_outcomes s' = lc_outcomes s" and "dict_get (lc_open s) (upper (po_symbol r)) = None"
  using assms by (auto simp: lifecycle_open_def abind_returns put_trade_def Let_def split: if_splits)

lemma handle_authorized_enters:
  assumes "handle_authorized u a price stop goal s = (Inr x, s')" and a: "ea_status a = AUTHORIZED"
    and "dict_get (trades_of s) (upper (ea_symbol a)) = None"
  shows "\<exists>r. x = Some r \<and> enters r s s' \<and> po_status r = PO_FILLED \<and> po_timestamp r = ea_timestamp a \<and>
    po_symbol r = upper (ea_symbol a) \<and> po_direction r = ea_direction a \<and>
    po_quantity r = ea_approved_quantity a \<and> po_requested_price r = price"
proof -
  define levels where "levels = (case (stop, goal) of
      (Some l, Some h) \<Rightarrow> set_levels (upper (ea_symbol a)) (l, h) | _ \<Rightarrow> aret ())"
  have found: "find_open_trade (upper (ea_symbol a)) s = (Inr None, s)"
    using assms(3) by (simp add: find_open_trade_def abind_run backtest_open_trade_def trades_of_def)
  obtain r s1 where sub: "on_runtime (simulator_submit (bu_trading u) a price (ea_approved_quantity a)) s = (Inr r, s1)"
    and rest: "(if po_status r \<noteq> PO_FILLED then aret (Some r)
       else athen (on_lifecycle (lifecycle_open r)) (athen levels (aret (Some r)))) s1 = (Inr x, s')"
    using assms(1) unfolding handle_authorized_def Let_def levels_def
    by (auto simp: abind_returns found split: if_splits)
  obtain rt where "simulator_submit (bu_trading u) a price (ea_approved_quantity a) (bt_runtime s) = (Inr r, rt)"
      and s1: "s1 = s\<lparr>bt_runtime := rt\<rparr>"
    using sub by (auto simp: on_runtime_def apart_run split: prod.splits)
  note f = runtime_fill_fills [OF runtime_submit_fills [OF this(1) [unfolded simulator_submit_def] a]]
  obtain lc y where open_: "lifecycle_open r (bt_lifecycle s1) = (Inr y, lc)"
    and x: "athen levels (aret (Some r)) (s1\<lparr>bt_lifecycle := lc\<rparr>) = (Inr x, s')"
    using rest f(2) by (auto simp: abind_returns on_lifecycle_def apart_run split: prod.splits)
  have s': "bt_lifecycle s' = lc" "bt_runtime s' = bt_runtime s1" "x = Some r"
    using x by (auto simp: abind_returns levels_def set_levels_def split: option.splits)
  have "enters r s s'"
    using lifecycle_open_returns [OF open_] f(1) s' s1
    by (simp add: enters_def outcomes_of_def trades_of_def)
  then show ?thesis using f s' by blast
qed

section \<open>What a returned row did\<close>

definition ready :: "row \<Rightarrow> bool" where
  "ready r = (row_name r = symbol_of (row_name r) \<and> zone (row_time r) = Some 0)"

lemma ready_upper: "ready r \<Longrightarrow> upper (row_name r) = row_name r"
  by (metis ready_def upper_upper)

text \<open>The order of a step is an approved one, within the limits of the account it was made for.\<close>

definition entry_allowed :: "backtest_setup \<Rightarrow> row \<Rightarrow> BacktestStep \<Rightarrow> PaperOrder \<Rightarrow> backtest \<Rightarrow> bool" where
  "entry_allowed u r x q s \<longleftrightarrow>
     po_timestamp q = row_time r \<and> upper (po_symbol q) = row_name r \<and> po_status q = PO_FILLED \<and>
     po_direction q = sd_direction (bs_strategy x) \<and> rd_status (bs_risk x) = RS_APPROVED \<and>
     po_quantity q = rd_approved_quantity (bs_risk x) \<and> ea_status (bs_authorization x) = AUTHORIZED \<and>
     int (entries_on (ist_day (row_time r)) s) < rc_max_trades_per_day (bu_risk u) \<and>
     int (length (trades_of s)) < rc_max_open_positions (bu_risk u)"

lemma make_risk_input_counts:
  assumes "make_risk_input w = Inr v"
  shows "ri_trades_today v = ri_trades_today w" "ri_open_positions v = ri_open_positions w"
    "ri_position_context v = ri_position_context w" "ri_symbol_already_open v = ri_symbol_already_open w"
  using assms by (auto simp: make_risk_input_def Let_def)

lemma portfolio_gates:
  assumes "evaluate_strategy_candidate_risk d r cfg (portfolio_state c t name nc s) cc enabled = Inr a" and "risk_approved a"
  shows "int (entries_on (ist_day t) s) < rc_max_trades_per_day cfg"
    "int (length (trades_of s)) < rc_max_open_positions cfg"
    "dict_get (trades_of s) name = None"
    "rd_strategy_direction (ra_decision a) = sd_direction d"
    "rd_symbol (ra_decision a) = symbol_of (sd_symbol d)" "rd_timestamp (ra_decision a) = sd_timestamp d"
proof -
  obtain cand v where a: "evaluate cfg v = Inr a"
    and v: "make_risk_input (portfolio_state c t name nc s\<lparr>ri_timestamp := sd_timestamp d, ri_symbol := sd_symbol d, ri_candidate := cand\<rparr>) = Inr v"
    and f: "rd_strategy_direction (ra_decision a) = sd_direction d"
      "rd_symbol (ra_decision a) = symbol_of (sd_symbol d)" "rd_timestamp (ra_decision a) = sd_timestamp d"
    using assms by (rule pipeline_approval)
  have "ri_trades_today v = int (entries_on (ist_day t) s)" "ri_open_positions v = int (length (trades_of s))"
      "ri_position_context v = None" "ri_symbol_already_open v = (upper name \<in> upper ` set (dict_keys (trades_of s)))"
    unfolding make_risk_input_counts [OF v]
    by (simp_all add: portfolio_state_def entries_on_def trades_of_def Let_def simulator_journal_def split: prod.splits)
  moreover have "\<not> release_only v" using calculation(3) by (simp add: release_only_def)
  moreover have "dict_get (trades_of s) name = None" if "upper name \<notin> upper ` set (dict_keys (trades_of s))"
    using that by (metis imageI list.set_map map_of_eq_None_iff)
  ultimately show "int (entries_on (ist_day t) s) < rc_max_trades_per_day cfg"
    "int (length (trades_of s)) < rc_max_open_positions cfg"
    "dict_get (trades_of s) name = None"
    "rd_strategy_direction (ra_decision a) = sd_direction d"
    "rd_symbol (ra_decision a) = symbol_of (sd_symbol d)" "rd_timestamp (ra_decision a) = sd_timestamp d"
    using approval_gates [OF a assms(2)] f by (auto simp: needs_slot_def)
qed

lemma decide_names:
  assumes "strategy_input_from_row r t name = Inr v" "decide cfg v = Inr (d, tr)"
  shows "sd_timestamp d = t" "sd_symbol d = symbol_of name"
proof -
  have v: "si_timestamp v = t" "si_symbol v = symbol_of name"
    using assms(1) by (auto simp: strategy_input_from_row_def make_strategy_input_def split: if_splits)
  have "sd_timestamp d = si_timestamp v \<and> sd_symbol d = symbol_of (si_symbol v)"
    using assms(2)
  proof (cases rule: decide_cases)
    case (reject reason stages cls prob margin why)
    then show ?thesis using strategy_reject_result by blast
  next
    case (trade cls prob margin baseline d0)
    have "sd_timestamp d0 = si_timestamp v" "sd_symbol d0 = si_symbol v"
      unfolding trade(6) by (simp_all add: engine_fields_def decision_defaults_def)
    then show ?thesis using make_strategy_decision_ok [OF trade(7)] by simp
  qed
  then show "sd_timestamp d = t" "sd_symbol d = symbol_of name" using v by simp_all
qed

lemma manage_row_closes:
  assumes "manage_row u b r t name price s = (Inr y, s')" and up: "upper name = name" and n: "name = upper (row_name r)"
  shows "closes name t s s'" and "b \<Longrightarrow> dict_get (trades_of s') name = None"
proof -
  have m: "moves (closes name t) (manage_open_trade u r t)" using closes_manage unfolding n .
  have e: "moves (closes name t) (close_expired_trade u name t price)" using closes_expired [of name] up by simp
  have z: "moves (closes name t) (close_at_session_end u b name t price)" using closes_session_end [of name] up by simp
  have "moves (closes name t) (manage_row u b r t name price)"
    unfolding manage_row_def by (intro closes_bind m e z closes_amod) simp_all
  from movesD [OF this, of s] show "closes name t s s'" by (simp add: assms(1))
  obtain c where "close_at_session_end u b name t price c = (Inr (), s')"
    using assms(1) by (auto simp: manage_row_def abind_returns)
  then show "dict_get (trades_of s') name = None" if "b" using session_end_empties [OF _ up] that by simp
qed

lemma assess_row_returns:
  assumes "assess_row u r t name s = (Inr (d, a, auth), s')"
  shows "bt_lifecycle s' = bt_lifecycle s" "bt_runtime s' = bt_runtime s" "sd_timestamp d = t" "sd_symbol d = symbol_of name"
    "ea_symbol auth = rd_symbol (ra_decision a)" "ea_direction auth = rd_strategy_direction (ra_decision a)"
    "ea_status auth = (if risk_approved a then AUTHORIZED else BLOCKED)" "ea_timestamp auth = rd_timestamp (ra_decision a)"
    "risk_approved a \<Longrightarrow> ea_approved_quantity auth = rd_approved_quantity (ra_decision a)"
    "evaluate_strategy_candidate_risk d r (bu_risk u) (portfolio_state (bu_config u) t name no_candidate s')
       (bk_candidate_config (bu_config u)) (bk_risk_enabled (bu_config u)) = Inr a"
proof -
  obtain v tr q n i where v: "strategy_input_from_row r t name = Inr v" and d: "decide (bu_strategy u) v = Inr (d, tr)"
    and s': "s' = snd (enter_day (bu_config u) (ist_day t) s)"
    and risk: "evaluate_strategy_candidate_risk d r (bu_risk u) (portfolio_state (bu_config u) t name no_candidate s')
       (bk_candidate_config (bu_config u)) (bk_risk_enabled (bu_config u)) = Inr a"
    and auth: "authorize_risk_decision (ra_decision a) q n i [] = Inr auth"
    using assms by (auto simp: assess_row_def abind_returns enter_day_def Let_def)
  show "bt_lifecycle s' = bt_lifecycle s" "bt_runtime s' = bt_runtime s" using s' by (simp_all add: enter_day_def)
  show "sd_timestamp d = t" "sd_symbol d = symbol_of name" using decide_names [OF v d] .
  show "ea_symbol auth = rd_symbol (ra_decision a)" "ea_direction auth = rd_strategy_direction (ra_decision a)"
    "ea_status auth = (if risk_approved a then AUTHORIZED else BLOCKED)" "ea_timestamp auth = rd_timestamp (ra_decision a)"
    "risk_approved a \<Longrightarrow> ea_approved_quantity auth = rd_approved_quantity (ra_decision a)"
    using authorize_risk_decision_fields [OF auth] by (auto simp: risk_approved_def)
  show "evaluate_strategy_candidate_risk d r (bu_risk u) (portfolio_state (bu_config u) t name no_candidate s')
       (bk_candidate_config (bu_config u)) (bk_risk_enabled (bu_config u)) = Inr a" by (fact risk)
qed

lemma backtest_row_returns:
  assumes run: "backtest_row u ends final_ns r s = (Inr x, s')" and r: "ready r"
  obtains s1 where "closes (row_name r) (row_time r) s s1"
      "ends r \<Longrightarrow> dict_get (trades_of s1) (row_name r) = None"
      "bs_order x = None" "bt_lifecycle s' = bt_lifecycle s1" "bt_runtime s' = bt_runtime s1"
  | s1 q where "closes (row_name r) (row_time r) s s1" "bs_order x = Some q" "enters q s1 s'"
      "\<not> ends r" "ns (row_time r) < final_ns" "entry_allowed u r x q s1"
proof -
  define t where "t = row_time r"
  define name where "name = row_name r"
  have up: "upper name = name" using ready_upper [OF r] by (simp add: name_def)
  have sym: "symbol_of name = name" using r by (simp add: ready_def name_def)
  obtain price s1 s2 d a auth q where m: "manage_row u (ends r) r t name price s = (Inr (), s1)"
    and as: "assess_row u r t name s1 = (Inr (d, a, auth), s2)"
    and h: "(if \<not> ends r \<and> ns t < final_ns \<and> ea_status auth = AUTHORIZED
         then handle_authorized u auth price (ra_stop_price a) (ra_target_price a) else aret None) s2 = (Inr q, s')"
    and x: "bs_order x = q" "bs_strategy x = d" "bs_risk x = ra_decision a" "bs_authorization x = auth"
    using run up by (auto simp: backtest_row_def abind_returns Let_def t_def name_def)
  note closed = manage_row_closes [OF m up]
  note assessed = assess_row_returns [OF as]
  have cl: "closes name t s s2" using closed(1) assessed(1,2) up by (simp add: closes_def name_def)
  show thesis
  proof (cases "\<not> ends r \<and> ns t < final_ns \<and> ea_status auth = AUTHORIZED")
    case False
    then have "q = None" "s' = s2" using h by (auto split: if_splits)
    then show thesis
      using that(1) [of s2] cl closed(2) assessed(1) x up by (auto simp: t_def name_def trades_of_def)
  next
    case True
    then have ap: "risk_approved a" using assessed(7) by (simp split: if_splits)
    note gates = portfolio_gates [OF assessed(10) ap]
    have es: "upper (ea_symbol auth) = name" using assessed(4,5) gates(5) sym up by simp
    have "handle_authorized u auth price (ra_stop_price a) (ra_target_price a) s2 = (Inr q, s')" using h True by auto
    from handle_authorized_enters [OF this] obtain w where w: "q = Some w" "enters w s2 s'" "po_status w = PO_FILLED"
      "po_timestamp w = ea_timestamp auth" "po_symbol w = upper (ea_symbol auth)" "po_direction w = ea_direction auth"
      "po_quantity w = ea_approved_quantity auth"
      using True es gates(3) by auto
    have "entry_allowed u r x w s2"
      using w gates assessed ap es up x True unfolding entry_allowed_def risk_approved_def by (simp add: t_def name_def)
    then show thesis using that(2) [of s2 w] cl w(1,2) True x by (simp add: t_def name_def)
  qed
qed

section \<open>The rows of a prepared frame\<close>

definition in_time_order :: "row list \<Rightarrow> bool" where
  "in_time_order rows = sorted (map (\<lambda>r. ns (row_time r)) rows)"

lemma prepared_rows:
  assumes "prepare_rows f = Inr rows"
  shows "in_time_order rows" and "\<forall>r \<in> set rows. ready r"
proof -
  define stamped where "stamped = map (\<lambda>r. r\<lparr>row_timestamp := map_option in_utc (row_timestamp r)\<rparr>) (fr_rows f)"
  define working where "working = map (\<lambda>r. r\<lparr>row_symbol := map_option symbol_of (row_symbol r)\<rparr>) stamped"
  have cases: "rows = [] \<or> (list_all (\<lambda>r. row_timestamp r \<noteq> None \<and> row_symbol r \<noteq> None) stamped \<and> rows = sort_key row_key working)"
    using assms by (auto simp: prepare_rows_def Let_def stamped_def working_def list_all_iff list_ex_iff split: if_splits)
  have key: "ns (row_time r) \<le> ns (row_time q)" if "row_key r \<le> row_key q" for r q
    using that by (auto simp: row_key_def less_eq_prod_def)
  have "sorted (map row_key rows)" using cases by auto
  then show "in_time_order rows" by (auto simp: in_time_order_def sorted_map elim: sorted_wrt_mono_rel [rotated] intro: key)
  have "ready r" if "r \<in> set working" "list_all (\<lambda>r. row_timestamp r \<noteq> None \<and> row_symbol r \<noteq> None) stamped" for r
    using that by (auto simp: working_def stamped_def list_all_iff ready_def row_name_def row_time_def in_utc_def strip_upper)
  then show "\<forall>r \<in> set rows. ready r" using cases by auto
qed

text \<open>A row that is not the end of its session has a later row of its symbol on its day.\<close>

lemma not_session_end:
  assumes "\<not> session_end_row (before @ r # rest) r" and "in_time_order (before @ r # rest)"
  obtains q where "q \<in> set rest" "row_name q = row_name r" "ist_day (row_time q) = ist_day (row_time r)"
    "ns (row_time r) < ns (row_time q)"
proof -
  obtain q where q: "q \<in> set (before @ r # rest)" "row_name q = row_name r" "ist_day (row_time q) = ist_day (row_time r)"
      "ns (row_time r) < ns (row_time q)"
    using assms(1) by (auto simp: session_end_row_def list_all_iff not_le)
  have "ns (row_time p) \<le> ns (row_time r)" if "p \<in> set before" for p
    using assms(2) that by (auto simp: in_time_order_def sorted_append)
  then have "q \<in> set rest" using q(1,4) by fastforce
  then show thesis using that q by blast
qed

lemma ist_day_mono: "ns a \<le> ns b \<Longrightarrow> ist_day a \<le> ist_day b"
  by (simp add: ist_day_def zdiv_mono1)

section \<open>Every trade ends on its day\<close>

definition day_trade :: "TradeOutcome \<Rightarrow> bool" where
  "day_trade y = (ist_day (to_entry_time y) = ist_day (to_exit_time y) \<and> ns (to_entry_time y) \<le> ns (to_exit_time y))"

text \<open>Each open trade was entered before the rows to come, one of which is of its symbol and on its day.\<close>

definition closable :: "row list \<Rightarrow> backtest \<Rightarrow> bool" where
  "closable rest s \<longleftrightarrow> (\<forall>k tr. dict_get (trades_of s) k = Some tr \<longrightarrow>
       (\<forall>q \<in> set rest. ns (entry_of tr) \<le> ns (row_time q)) \<and>
       (\<exists>q \<in> set rest. row_name q = k \<and> ist_day (row_time q) = ist_day (entry_of tr))) \<and>
     (\<forall>y \<in> set (outcomes_of s). day_trade y)"

lemma closes_books:
  assumes "closes name t s s1" and "y \<in> set (outcomes_of s1)" and "y \<notin> set (outcomes_of s)"
  shows "to_exit_time y = t" "\<exists>tr. dict_get (trades_of s) name = Some tr \<and> to_entry_time y = entry_of tr"
proof -
  obtain ys where "outcomes_of s1 = outcomes_of s @ ys"
      and ys: "\<forall>y \<in> set ys. to_exit_time y = t \<and> (\<exists>tr. dict_get (trades_of s) name = Some tr \<and> to_entry_time y = entry_of tr)"
    using assms(1) unfolding closes_def lc_closes_def outcomes_of_def trades_of_def by blast
  then have "y \<in> set ys" using assms(2,3) by simp
  then show "to_exit_time y = t" "\<exists>tr. dict_get (trades_of s) name = Some tr \<and> to_entry_time y = entry_of tr"
    using ys by blast+
qed

lemma closable_end:
  assumes "closable [] s"
  shows "trades_of s = []"
proof -
  have "dict_get (trades_of s) k = None" for k
    using assms by (cases "dict_get (trades_of s) k") (auto simp: closable_def)
  then have "map_of (trades_of s) = Map.empty" by (rule ext)
  then show ?thesis by simp
qed

lemma closable_close:
  assumes inv: "closable (r # rest) s" and c: "closes (row_name r) (row_time r) s s1"
    and order: "in_time_order (before @ r # rest)"
    and ends: "session_end_row (before @ r # rest) r \<Longrightarrow> dict_get (trades_of s1) (row_name r) = None"
  shows "closable rest s1"
proof -
  have later: "ns (row_time r) \<le> ns (row_time q)" if "q \<in> set (r # rest)" for q
    using order that by (auto simp: in_time_order_def sorted_append)
  have today: "ist_day (entry_of tr) = ist_day (row_time r)" "ns (entry_of tr) \<le> ns (row_time r)"
    if tr: "dict_get (trades_of s) (row_name r) = Some tr" for tr
  proof -
    from inv tr obtain q where "q \<in> set (r # rest)" "ist_day (row_time q) = ist_day (entry_of tr)"
      unfolding closable_def by blast
    moreover show "ns (entry_of tr) \<le> ns (row_time r)" using inv tr by (simp add: closable_def)
    ultimately show "ist_day (entry_of tr) = ist_day (row_time r)"
      using later [of q] ist_day_mono [of "row_time r" "row_time q"] ist_day_mono [of "entry_of tr" "row_time r"] by simp
  qed
  have out: "day_trade y" if "y \<in> set (outcomes_of s1)" for y
  proof (cases "y \<in> set (outcomes_of s)")
    case True
    then show ?thesis using inv by (simp add: closable_def)
  next
    case False
    then obtain tr where "dict_get (trades_of s) (row_name r) = Some tr" "to_entry_time y = entry_of tr" "to_exit_time y = row_time r"
      using closes_books [OF c \<open>y \<in> set (outcomes_of s1)\<close>] by blast
    then show ?thesis using today by (simp add: day_trade_def)
  qed
  have "(\<forall>q \<in> set rest. ns (entry_of tr) \<le> ns (row_time q)) \<and>
      (\<exists>q \<in> set rest. row_name q = k \<and> ist_day (row_time q) = ist_day (entry_of tr))"
    if tr: "dict_get (trades_of s1) k = Some tr" for k tr
  proof (cases "k = row_name r")
    case True
    then obtain tr0 where "dict_get (trades_of s) (row_name r) = Some tr0" "entry_of tr = entry_of tr0"
      using c tr by (auto simp: closes_def lc_closes_def trades_of_def)
    moreover obtain q where "q \<in> set rest" "row_name q = row_name r" "ist_day (row_time q) = ist_day (row_time r)"
      using not_session_end [OF _ order] ends tr True by (metis option.distinct(1))
    ultimately show ?thesis using today [of tr0] True later by fastforce
  next
    case False
    then have "dict_get (trades_of s) k = Some tr" using c tr by (simp add: closes_def lc_closes_def trades_of_def)
    then show ?thesis using inv False by (auto simp: closable_def)
  qed
  then show ?thesis using out by (simp add: closable_def)
qed

lemma closable_enter:
  assumes inv: "closable rest s1" and e: "enters q s1 s'" and q: "po_timestamp q = row_time r" "upper (po_symbol q) = row_name r"
    and order: "in_time_order (before @ r # rest)" and open_: "\<not> session_end_row (before @ r # rest) r"
  shows "closable rest s'"
proof -
  obtain p where p: "p \<in> set rest" "row_name p = row_name r" "ist_day (row_time p) = ist_day (row_time r)"
    using not_session_end [OF open_ order] by blast
  have later: "ns (row_time r) \<le> ns (row_time p)" if "p \<in> set rest" for p
    using order that by (auto simp: in_time_order_def sorted_append)
  obtain tr where "trades_of s' = dict_set (row_name r) tr (trades_of s1)" "ot_order tr = q" "outcomes_of s' = outcomes_of s1"
    using e q(2) by (auto simp: enters_def)
  then show ?thesis using inv p later q(1) by (auto simp: closable_def entry_of_def)
qed

lemma closable_row:
  assumes run: "backtest_row u (session_end_row rows) final_ns r s = (Inr x, s')" and r: "ready r"
    and rows: "rows = before @ r # rest" and order: "in_time_order rows" and inv: "closable (r # rest) s"
  shows "closable rest s'"
  using run r
proof (cases rule: backtest_row_returns)
  case (1 s1)
  then have "closable rest s1" using closable_close [OF inv 1(1)] order rows by blast
  then show ?thesis using 1 by (simp add: closable_def trades_of_def outcomes_of_def)
next
  case (2 s1 q)
  have "closable rest s1" using closable_close [OF inv 2(1)] order rows 2(4) by blast
  then show ?thesis using closable_enter [OF _ 2(3)] 2(4,6) order rows by (simp add: entry_allowed_def)
qed

lemma closable_rows:
  assumes "backtest_rows u (session_end_row rows) final_ns rest s = (Inr xs, s')" and "rows = before @ rest"
    and "in_time_order rows" and "\<forall>r \<in> set rows. ready r" and "closable rest s"
  shows "closable [] s'"
  using assms
proof (induction rest arbitrary: before s xs)
  case Nil
  then show ?case by simp
next
  case (Cons r rest)
  obtain x ys s1 where row: "backtest_row u (session_end_row rows) final_ns r s = (Inr x, s1)"
    and more: "backtest_rows u (session_end_row rows) final_ns rest s1 = (Inr ys, s')"
    using Cons.prems(1) by (auto simp: abind_returns)
  have "closable rest s1" using closable_row [OF row _ Cons.prems(2,3,5)] Cons.prems(2,4) by simp
  then show ?case using Cons.IH [OF more, of "before @ [r]"] Cons.prems(2-4) by simp
qed

text \<open>Closing what remains does nothing when nothing is open.\<close>

lemma close_remaining_nothing:
  assumes "trades_of s = []"
  shows "close_remaining u groups s = (Inr (), s)"
proof -
  have "find_open_trade k s = (Inr None, s)" for k
    using assms by (simp add: find_open_trade_def abind_run backtest_open_trade_def trades_of_def)
  then show ?thesis by (induction groups) (auto simp: close_remaining_def Let_def abind_run athen_run)
qed

lemma backtest_run_returns:
  assumes run: "backtest_run u f (backtest_init c) = (Inr b, s)"
  obtains rows where "prepare_rows f = Inr rows" "rows = []" "s = backtest_init c" "br_steps b = []" "br_outcomes b = []"
  | rows where "prepare_rows f = Inr rows" "rows \<noteq> []"
      "backtest_rows u (session_end_row rows) (final_time rows) rows (backtest_init c) = (Inr (br_steps b), s)"
      "br_outcomes b = outcomes_of s" "trades_of s = []" "\<forall>y \<in> set (outcomes_of s). day_trade y"
proof -
  obtain rows where rows: "prepare_rows f = Inr rows" using run by (auto simp: backtest_run_def abind_returns)
  show thesis
  proof (cases "rows = []")
    case True
    then show thesis using run rows that(1) by (auto simp: backtest_run_def abind_returns)
  next
    case False
    obtain steps s1 where steps: "backtest_rows u (session_end_row rows) (final_time rows) rows (backtest_init c) = (Inr steps, s1)"
      and rest: "athen (close_remaining u (last_rows rows)) (abind (aget (\<lambda>s. lc_outcomes (bt_lifecycle s)))
         (\<lambda>outcomes. aret \<lparr>br_steps = steps, br_outcomes = outcomes\<rparr>)) s1 = (Inr b, s)"
      using run rows False by (auto simp: backtest_run_def abind_returns(1))
    have "closable rows (backtest_init c)"
      by (simp add: closable_def backtest_init_def lifecycle_init_def trades_of_def outcomes_of_def)
    then have inv: "closable [] s1" using closable_rows [OF steps, of "[]"] prepared_rows [OF rows] by simp
    then have none: "trades_of s1 = []" by (rule closable_end)
    then show thesis
      using that(2) [OF rows False] steps rest inv close_remaining_nothing [OF none]
      by (auto simp: abind_returns outcomes_of_def closable_def)
  qed
qed

text \<open>C7. A backtest trades intraday: if a run of a new engine returns, every trade of the result was entered
  and closed on the same day in India, not before its entry, and nothing stays open.\<close>
theorem backtest_is_intraday:
  assumes "backtest_run u f (backtest_init c) = (Inr b, s)"
  shows "lc_open (bt_lifecycle s) = [] \<and> br_outcomes b = lc_outcomes (bt_lifecycle s) \<and>
    (\<forall>y \<in> set (br_outcomes b). ist_day (to_entry_time y) = ist_day (to_exit_time y) \<and>
       ns (to_entry_time y) \<le> ns (to_exit_time y))"
  using assms
proof (cases rule: backtest_run_returns)
  case 1
  then show ?thesis by (simp add: backtest_init_def lifecycle_init_def)
next
  case (2 rows)
  then show ?thesis by (simp add: trades_of_def outcomes_of_def day_trade_def)
qed

section \<open>The limits of the account hold over the run\<close>

definition within_limits :: "RiskConfig \<Rightarrow> backtest \<Rightarrow> bool" where
  "within_limits cfg s \<longleftrightarrow> length (trades_of s) \<le> nat (rc_max_open_positions cfg) \<and>
     (\<forall>day. entries_on day s \<le> nat (rc_max_trades_per_day cfg))"

lemma within_limits_closes: "closes name t s s1 \<Longrightarrow> within_limits cfg s \<Longrightarrow> within_limits cfg s1"
  by (auto simp: within_limits_def closes_def lc_closes_def entries_on_def trades_of_def)

lemma within_limits_row:
  assumes "backtest_row u ends final_ns r s = (Inr x, s')" and "ready r" and inv: "within_limits (bu_risk u) s"
  shows "within_limits (bu_risk u) s'"
  using assms(1,2)
proof (cases rule: backtest_row_returns)
  case (1 s1)
  then show ?thesis using within_limits_closes [OF 1(1) inv] by (simp add: within_limits_def entries_on_def trades_of_def)
next
  case (2 s1 q)
  have before: "within_limits (bu_risk u) s1" using within_limits_closes [OF 2(1) inv] .
  have day: "ist_day (po_timestamp q) = ist_day (row_time r)" using 2(6) by (simp add: entry_allowed_def)
  have "length (trades_of s') \<le> Suc (length (trades_of s1))"
    using 2(3) by (auto simp: enters_def length_set)
  moreover have "entries_on d s' \<le> entries_on d s1 + (if d = ist_day (row_time r) then 1 else 0)" for d
    using 2(3) day by (auto simp: enters_def entries_on_def)
  moreover have "length (trades_of s1) < nat (rc_max_open_positions (bu_risk u))"
      "entries_on (ist_day (row_time r)) s1 < nat (rc_max_trades_per_day (bu_risk u))"
    using 2(6) by (auto simp: entry_allowed_def)
  moreover have "entries_on d s' \<le> nat (rc_max_trades_per_day (bu_risk u))" for d
    using calculation(2) [of d] calculation(4) before
    by (cases "d = ist_day (row_time r)") (auto simp: within_limits_def intro: order_trans)
  ultimately show ?thesis unfolding within_limits_def by (intro conjI allI) simp_all
qed

lemma within_limits_rows:
  assumes "backtest_rows u ends final_ns rest s = (Inr xs, s')" and "\<forall>r \<in> set rest. ready r"
    and "within_limits (bu_risk u) s"
  shows "within_limits (bu_risk u) s'"
  using assms
proof (induction rest arbitrary: s xs)
  case Nil
  then show ?case by simp
next
  case (Cons r rest)
  obtain x ys s1 where row: "backtest_row u ends final_ns r s = (Inr x, s1)"
    and more: "backtest_rows u ends final_ns rest s1 = (Inr ys, s')"
    using Cons.prems(1) by (auto simp: abind_returns)
  show ?case using Cons.IH [OF more] within_limits_row [OF row _ Cons.prems(3)] Cons.prems(2) by simp
qed

text \<open>C9. The account limits hold at every row of a backtest of a new engine: after any number of rows the
  open trades are at most \<open>max_open_positions\<close>, and on every day in India the filled entries in the
  broker's journal are at most \<open>max_trades_per_day\<close>.\<close>
theorem backtest_respects_limits:
  assumes "prepare_rows f = Inr rows"
    and "backtest_rows u (session_end_row rows) (final_time rows) (take k rows) (backtest_init c) = (Inr steps, s)"
  shows "length (lc_open (bt_lifecycle s)) \<le> nat (rc_max_open_positions (bu_risk u)) \<and>
    (\<forall>day. length (filter (\<lambda>r. po_status r = PO_FILLED \<and> ist_day (po_timestamp r) = day) (pr_journal (bt_runtime s)))
       \<le> nat (rc_max_trades_per_day (bu_risk u)))"
proof -
  have "within_limits (bu_risk u) (backtest_init c)"
    by (simp add: within_limits_def backtest_init_def lifecycle_init_def runtime_init_def entries_on_def trades_of_def)
  moreover have "\<forall>r \<in> set (take k rows). ready r" using prepared_rows(2) [OF assms(1)] set_take_subset by fastforce
  ultimately have "within_limits (bu_risk u) s" using within_limits_rows [OF assms(2)] by blast
  then show ?thesis by (simp add: within_limits_def trades_of_def entries_on_def)
qed

section \<open>Orders\<close>

definition order_of_step :: "row \<Rightarrow> BacktestStep \<Rightarrow> PaperOrder \<Rightarrow> bool" where
  "order_of_step r x q \<longleftrightarrow> po_timestamp q = row_time r \<and> upper (po_symbol q) = row_name r \<and> po_status q = PO_FILLED \<and>
     po_direction q = sd_direction (bs_strategy x) \<and> po_quantity q = rd_approved_quantity (bs_risk x) \<and>
     rd_status (bs_risk x) = RS_APPROVED \<and> ea_status (bs_authorization x) = AUTHORIZED"

definition step_order_ok :: "(row \<Rightarrow> bool) \<Rightarrow> int \<Rightarrow> row \<Rightarrow> BacktestStep \<Rightarrow> bool" where
  "step_order_ok ends final_ns r x \<longleftrightarrow>
     (\<forall>q. bs_order x = Some q \<longrightarrow> \<not> ends r \<and> ns (row_time r) < final_ns \<and> order_of_step r x q)"

lemma order_of_row:
  assumes "backtest_row u ends final_ns r s = (Inr x, s')" and "ready r"
  shows "step_order_ok ends final_ns r x"
    and "pr_journal (bt_runtime s') = pr_journal (bt_runtime s) @ List.map_filter bs_order [x]"
proof -
  have "step_order_ok ends final_ns r x \<and>
      pr_journal (bt_runtime s') = pr_journal (bt_runtime s) @ List.map_filter bs_order [x]"
    using assms
  proof (cases rule: backtest_row_returns)
    case (1 s1)
    then show ?thesis by (simp add: step_order_ok_def closes_def List.map_filter_simps)
  next
    case (2 s1 q)
    have "order_of_step r x q" using 2(6) by (simp add: entry_allowed_def order_of_step_def)
    moreover have "pr_journal (bt_runtime s') = pr_journal (bt_runtime s) @ [q]"
      using 2(1,3) by (simp add: closes_def enters_def)
    ultimately show ?thesis using 2(2,4,5) by (simp add: step_order_ok_def List.map_filter_simps)
  qed
  then show "step_order_ok ends final_ns r x"
    and "pr_journal (bt_runtime s') = pr_journal (bt_runtime s) @ List.map_filter bs_order [x]" by blast+
qed

lemma orders_of_rows:
  assumes "backtest_rows u ends final_ns rest s = (Inr xs, s')" and "\<forall>r \<in> set rest. ready r"
  shows "list_all2 (step_order_ok ends final_ns) rest xs
    \<and> pr_journal (bt_runtime s') = pr_journal (bt_runtime s) @ List.map_filter bs_order xs"
  using assms
proof (induction rest arbitrary: s xs)
  case Nil
  then show ?case by (simp add: List.map_filter_simps)
next
  case (Cons r rest)
  obtain x ys s1 where row: "backtest_row u ends final_ns r s = (Inr x, s1)" and xs: "xs = x # ys"
    and more: "backtest_rows u ends final_ns rest s1 = (Inr ys, s')"
    using Cons.prems(1) by (auto simp: abind_returns)
  have r: "ready r" using Cons.prems(2) by simp
  have "List.map_filter bs_order (x # ys) = List.map_filter bs_order [x] @ List.map_filter bs_order ys"
    by (simp add: List.map_filter_simps split: option.split)
  then show ?case using Cons.IH [OF more] order_of_row [OF row r] Cons.prems(2) xs by simp
qed

text \<open>C10. A backtest orders only what was approved: each step of a returned run belongs to one prepared row, and
  its order, if it has one, was filled at that row for its symbol in the direction the strategy decided and with
  exactly the quantity the risk engine approved; no order is made at the end of a session or at the last time
  stamp, and the broker's journal is the list of the steps' orders.\<close>
theorem backtest_orders_are_approved:
  assumes "backtest_run u f (backtest_init c) = (Inr b, s)"
  shows "\<exists>rows. prepare_rows f = Inr rows \<and> length (br_steps b) = length rows \<and>
    pr_journal (bt_runtime s) = result_orders b \<and>
    (\<forall>i < length rows. \<forall>q. bs_order (br_steps b ! i) = Some q \<longrightarrow>
       \<not> session_end_row rows (rows ! i) \<and> ns (row_time (rows ! i)) < final_time rows \<and>
       po_status q = PO_FILLED \<and> po_timestamp q = row_time (rows ! i) \<and> upper (po_symbol q) = row_name (rows ! i) \<and>
       po_direction q = sd_direction (bs_strategy (br_steps b ! i)) \<and>
       rd_status (bs_risk (br_steps b ! i)) = RS_APPROVED \<and>
       po_quantity q = rd_approved_quantity (bs_risk (br_steps b ! i)))"
  using assms
proof (cases rule: backtest_run_returns)
  case (1 rows)
  then show ?thesis by (simp add: backtest_init_def runtime_init_def result_orders_def List.map_filter_simps)
next
  case (2 rows)
  note o = orders_of_rows [OF 2(3) prepared_rows(2) [OF 2(1)]]
  have "pr_journal (bt_runtime s) = result_orders b"
    using o by (simp add: result_orders_def backtest_init_def runtime_init_def)
  moreover have steps: "list_all2 (step_order_ok (session_end_row rows) (final_time rows)) rows (br_steps b)" using o by blast
  moreover from steps have "length (br_steps b) = length rows" by (auto dest: list_all2_lengthD)
  moreover have "step_order_ok (session_end_row rows) (final_time rows) (rows ! i) (br_steps b ! i)" if "i < length rows" for i
    using list_all2_nthD [OF steps that] .
  ultimately show ?thesis using 2(1) unfolding step_order_ok_def order_of_step_def by blast
qed

section \<open>No look-ahead\<close>

lemma session_end_extends:
  assumes "r \<in> set rows" and "\<forall>r \<in> set rows. \<forall>q \<in> set next_rows. ist_day (row_time r) < ist_day (row_time q)"
  shows "session_end_row (rows @ next_rows) r = session_end_row rows r"
  using assms by (fastforce simp: session_end_row_def list_all_iff)

lemma not_end_not_final:
  assumes "r \<in> set rows" "\<not> session_end_row rows r"
  shows "ns (row_time r) < final_time rows"
proof -
  obtain q where "q \<in> set rows" "ns (row_time r) < ns (row_time q)"
    using assms(2) by (auto simp: session_end_row_def list_all_iff not_le)
  moreover from this have "ns (row_time q) \<le> final_time rows" unfolding final_time_def by (intro Max_ge) simp_all
  ultimately show ?thesis by simp
qed

lemma backtest_row_cong:
  assumes "ends r = ends' r" and "\<not> ends r \<Longrightarrow> ns (row_time r) < m \<and> ns (row_time r) < m'"
  shows "backtest_row u ends m r = backtest_row u ends' m' r"
proof -
  have "(\<not> ends r \<and> ns (row_time r) < m \<and> b) = (\<not> ends' r \<and> ns (row_time r) < m' \<and> b)" for b
    using assms by blast
  then show ?thesis by (simp only: backtest_row_def assms(1) Let_def)
qed

lemma backtest_rows_cong:
  "(\<And>r. r \<in> set rest \<Longrightarrow> backtest_row u ends m r = backtest_row u ends' m' r) \<Longrightarrow>
   backtest_rows u ends m rest = backtest_rows u ends' m' rest"
  by (induction rest) auto

lemma abind_aret_right: "abind m (\<lambda>b. aret b) = m"
  by (auto simp: abind_def aret_def fun_eq_iff split: prod.splits sum.splits)

lemma backtest_rows_append:
  "backtest_rows u ends m (xs @ ys) = abind (backtest_rows u ends m xs) (\<lambda>a.
     abind (backtest_rows u ends m ys) (\<lambda>b. aret (a @ b)))"
proof (induction xs)
  case Nil
  show ?case by (simp only: append_Nil backtest_rows.simps abind_aret abind_aret_right)
next
  case (Cons x xs)
  then show ?case by (simp only: append_Cons backtest_rows.simps abind_assoc abind_aret)
qed

lemma outcomes_grow:
  assumes "backtest_rows u ends m rest s = (Inr xs, s')" and "\<forall>r \<in> set rest. ready r"
  shows "\<exists>ys. outcomes_of s' = outcomes_of s @ ys"
  using assms
proof (induction rest arbitrary: s xs)
  case Nil
  then show ?case by simp
next
  case (Cons r rest)
  obtain x ys s1 where row: "backtest_row u ends m r s = (Inr x, s1)"
    and more: "backtest_rows u ends m rest s1 = (Inr ys, s')"
    using Cons.prems(1) by (auto simp: abind_returns)
  have r: "ready r" using Cons.prems(2) by simp
  from row r have "\<exists>zs. outcomes_of s1 = outcomes_of s @ zs"
    by (cases rule: backtest_row_returns) (auto simp: closes_def lc_closes_def enters_def outcomes_of_def)
  then show ?case using Cons.IH [OF more] Cons.prems(2) by auto
qed

text \<open>C8. A backtest does not look ahead: when the history is continued with rows of later days and that run
  returns, the run of the history alone returns as well, its steps are the first steps of the longer run, and
  its trades the first trades of the longer run.\<close>
theorem backtest_without_lookahead:
  assumes "prepare_rows f = Inr rows" and "prepare_rows g = Inr (rows @ next_rows)"
    and "\<forall>r \<in> set rows. \<forall>q \<in> set next_rows. ist_day (row_time r) < ist_day (row_time q)"
    and "backtest_run u g (backtest_init c) = (Inr b, s)"
  shows "\<exists>b0 s0. backtest_run u f (backtest_init c) = (Inr b0, s0) \<and> br_steps b0 = take (length rows) (br_steps b) \<and>
    br_outcomes b0 = take (length (br_outcomes b0)) (br_outcomes b)"
proof (cases "rows = []")
  case True
  then show ?thesis using assms(1) by (simp add: backtest_run_def abind_run)
next
  case False
  have run: "backtest_rows u (session_end_row (rows @ next_rows)) (final_time (rows @ next_rows)) (rows @ next_rows) (backtest_init c) = (Inr (br_steps b), s)"
      "br_outcomes b = outcomes_of s"
    using assms(4) by (cases rule: backtest_run_returns; use assms(2) False in simp)+
  have same: "backtest_rows u (session_end_row (rows @ next_rows)) (final_time (rows @ next_rows)) rows
      = backtest_rows u (session_end_row rows) (final_time rows) rows"
  proof (rule backtest_rows_cong, rule backtest_row_cong)
    fix r assume r: "r \<in> set rows"
    show "session_end_row (rows @ next_rows) r = session_end_row rows r" using session_end_extends [OF r assms(3)] .
    then show "ns (row_time r) < final_time (rows @ next_rows) \<and> ns (row_time r) < final_time rows" if "\<not> session_end_row (rows @ next_rows) r"
      using that r not_end_not_final [of r rows] not_end_not_final [of r "rows @ next_rows"] by simp
  qed
  obtain xs s1 ys where first: "backtest_rows u (session_end_row rows) (final_time rows) rows (backtest_init c) = (Inr xs, s1)"
    and second: "backtest_rows u (session_end_row (rows @ next_rows)) (final_time (rows @ next_rows)) next_rows s1 = (Inr ys, s)"
    and steps: "br_steps b = xs @ ys"
    using run(1) by (auto simp: backtest_rows_append same abind_returns)
  have "closable rows (backtest_init c)"
    by (simp add: closable_def backtest_init_def lifecycle_init_def trades_of_def outcomes_of_def)
  then have "closable [] s1" using closable_rows [OF first, of "[]"] prepared_rows [OF assms(1)] by simp
  then have none: "trades_of s1 = []" by (rule closable_end)
  have len: "length xs = length rows"
    using orders_of_rows [OF first prepared_rows(2) [OF assms(1)]] by (auto dest: list_all2_lengthD)
  have "backtest_run u f (backtest_init c) = (Inr \<lparr>br_steps = xs, br_outcomes = outcomes_of s1\<rparr>, s1)"
    using assms(1) False by (simp add: backtest_run_def abind_run athen_run first close_remaining_nothing [OF none] outcomes_of_def)
  moreover have "\<forall>r \<in> set next_rows. ready r" using prepared_rows(2) [OF assms(2)] by simp
  then obtain zs where "outcomes_of s = outcomes_of s1 @ zs" using outcomes_grow [OF second] by blast
  ultimately show ?thesis using steps len run(2) by simp
qed

section \<open>A replayed history\<close>

text \<open>Code equations in which the state is passed on, so that a call is evaluated before its continuation.\<close>

lemma push_state:
  "(case x of (a, b) \<Rightarrow> f a b) s = (case x of (a, b) \<Rightarrow> f a b s)"
  "(case y of None \<Rightarrow> m | Some v \<Rightarrow> g v) s = (case y of None \<Rightarrow> m s | Some v \<Rightarrow> g v s)"
  "(if c then m else n) s = (if c then m s else n s)"
  by (simp_all split: prod.split option.split)

lemmas run_state = Let_def abind_run athen_run act_run apart_run push_state on_runtime_def on_lifecycle_def

lemmas run_evals [code] =
  fun_cong [OF lifecycle_mark_def [of n t p for n t p], of s for s, unfolded run_state]
  fun_cong [OF lifecycle_close_partial_def [of n t p q a b x for n t p q a b x], of s for s, unfolded run_state]
  fun_cong [OF lifecycle_close_def [of n t p a b x for n t p a b x], of s for s, unfolded run_state]
  fun_cong [OF runtime_fill_def [of c a p q for c a p q], of s for s, unfolded run_state]
  fun_cong [OF runtime_submit_def [of c a p q for c a p q], of s for s, unfolded run_state]
  fun_cong [OF find_open_trade_def [of n for n], of s for s, unfolded run_state]
  fun_cong [OF close_trade_def [of u n t p for u n t p], of s for s, unfolded run_state]
  fun_cong [OF close_partial_trade_def [of u n t p q for u n t p q], of s for s, unfolded run_state]
  fun_cong [OF close_and_forget_def [of u n t p for u n t p], of s for s, unfolded run_state]
  fun_cong [OF manage_levels_def [of u r t n a l for u r t n a l], of s for s, unfolded run_state]
  fun_cong [OF manage_open_trade_def [of u r t for u r t], of s for s, unfolded run_state]
  fun_cong [OF close_expired_trade_def [of u n t p for u n t p], of s for s, unfolded run_state]
  fun_cong [OF close_at_session_end_def [of u b n t p for u b n t p], of s for s, unfolded run_state]
  fun_cong [OF manage_row_def [of u b r t n p for u b r t n p], of s for s, unfolded run_state]
  fun_cong [OF assess_row_def [of u r t n for u r t n], of s for s, unfolded run_state]
  fun_cong [OF handle_authorized_def [of u a p x y for u a p x y], of s for s, unfolded run_state]
  fun_cong [OF backtest_row_def [of u e m r for u e m r], of s for s, unfolded run_state]
  fun_cong [OF backtest_rows.simps(1) [of u e m for u e m], of s for s, unfolded run_state]
  fun_cong [OF backtest_rows.simps(2) [of u e m r rs for u e m r rs], of s for s, unfolded run_state]
  fun_cong [OF backtest_run_def [of u f for u f], of s for s, unfolded run_state]

text \<open>A long entry at 100 at ten o'clock in India, closed with the session five minutes later; the next day has no setup.\<close>

definition replay_row :: "int \<Rightarrow> int \<Rightarrow> rat \<Rightarrow> string \<Rightarrow> row" where
  "replay_row day minute price regime = \<lparr>row_timestamp = Some \<lparr>ns = (day * 86400 + 16200 + minute * 60) * 10 ^ 9, zone = Some 0\<rparr>,
     row_symbol = Some '' abc'', row_regime = Some regime,
     row_cells = demo_features @ [(''regime_probability'', Num (Fin 1)), (''close'', Num (Fin price)),
       (''atr_14'', Num (Fin 4)), (''swing_low'', Num (Fin 98))]\<rparr>"

definition replay_today :: "row list" where
  "replay_today = [replay_row 20000 0 100 ''TREND_UP'', replay_row 20000 5 101 ''FLAT'']"

definition replay_tomorrow :: "row list" where
  "replay_tomorrow = [replay_row 20001 0 102 ''FLAT'']"

definition replay_frame :: "row list \<Rightarrow> frame" where
  "replay_frame rows = \<lparr>fr_columns = required_columns @ [''atr_14'', ''swing_low''], fr_rows = rows\<rparr>"

definition replay_setup :: backtest_setup where
  "replay_setup = \<lparr>bu_config = default_backtest_config, bu_strategy = default_strategy_config,
     bu_risk = backtest_risk_config default_backtest_config, bu_trading = default_paper_trading_config\<rparr>"

abbreviation replay_prepared :: "row list \<Rightarrow> row list" where
  "replay_prepared \<equiv> map (\<lambda>r. r\<lparr>row_symbol := Some ''ABC''\<rparr>)"

lemma replay_prepares:
  "prepare_rows (replay_frame replay_today) = Inr (replay_prepared replay_today)"
  "prepare_rows (replay_frame (replay_today @ replay_tomorrow)) = Inr (replay_prepared replay_today @ replay_prepared replay_tomorrow)"
  by code_simp+

lemma replay_returns:
  "returns (\<lambda>b. length (br_outcomes b) = 1 \<and> length (result_orders b) = 1)
     (fst (backtest_run replay_setup (replay_frame (replay_today @ replay_tomorrow)) (backtest_init default_backtest_config)))"
  by code_simp

lemma replay_run:
  obtains b s where "backtest_run replay_setup (replay_frame (replay_today @ replay_tomorrow))
      (backtest_init default_backtest_config) = (Inr b, s)"
    "length (br_outcomes b) = 1" "length (result_orders b) = 1"
  using replay_returns by (auto simp: returns_iff prod_eq_iff)

lemma backtest_is_intraday_witness:
  "\<exists>b s. backtest_run replay_setup (replay_frame (replay_today @ replay_tomorrow)) (backtest_init default_backtest_config)
     = (Inr b, s) \<and> (\<exists>y. br_outcomes b = [y] \<and> ist_day (to_entry_time y) = ist_day (to_exit_time y))"
proof -
  obtain b s where run: "backtest_run replay_setup (replay_frame (replay_today @ replay_tomorrow))
      (backtest_init default_backtest_config) = (Inr b, s)" and one: "length (br_outcomes b) = 1"
    by (rule replay_run)
  obtain y where "br_outcomes b = [y]" using one by (cases "br_outcomes b") auto
  then show ?thesis using backtest_is_intraday [OF run] run by auto
qed

lemma backtest_respects_limits_witness:
  "\<exists>s. entries_on 20000 s \<le> nat (rc_max_trades_per_day (bu_risk replay_setup)) \<and> pr_journal (bt_runtime s) \<noteq> []"
proof -
  obtain b s where run: "backtest_run replay_setup (replay_frame (replay_today @ replay_tomorrow))
      (backtest_init default_backtest_config) = (Inr b, s)" and one: "length (result_orders b) = 1"
    by (rule replay_run)
  from run show ?thesis
  proof (cases rule: backtest_run_returns)
    case (1 rows)
    then show ?thesis using one by (simp add: result_orders_def List.map_filter_simps)
  next
    case (2 rows)
    have "backtest_rows replay_setup (session_end_row rows) (final_time rows) (take (length rows) rows)
        (backtest_init default_backtest_config) = (Inr (br_steps b), s)" using 2(3) by simp
    note limits = backtest_respects_limits [OF 2(1) this]
    have "pr_journal (bt_runtime s) = result_orders b"
      using orders_of_rows [OF 2(3) prepared_rows(2) [OF 2(1)]]
      by (simp add: result_orders_def backtest_init_def runtime_init_def)
    then have "pr_journal (bt_runtime s) \<noteq> []" using one by auto
    then show ?thesis using limits unfolding entries_on_def by blast
  qed
qed

lemma backtest_orders_are_approved_witness:
  "\<exists>b s. backtest_run replay_setup (replay_frame (replay_today @ replay_tomorrow)) (backtest_init default_backtest_config)
     = (Inr b, s) \<and> length (pr_journal (bt_runtime s)) = 1"
proof -
  obtain b s where run: "backtest_run replay_setup (replay_frame (replay_today @ replay_tomorrow))
      (backtest_init default_backtest_config) = (Inr b, s)" and one: "length (result_orders b) = 1"
    by (rule replay_run)
  show ?thesis using backtest_orders_are_approved [OF run] run one by auto
qed

lemma backtest_without_lookahead_witness:
  "\<exists>b0 s0. backtest_run replay_setup (replay_frame replay_today) (backtest_init default_backtest_config) = (Inr b0, s0)"
proof -
  obtain b s where run: "backtest_run replay_setup (replay_frame (replay_today @ replay_tomorrow))
      (backtest_init default_backtest_config) = (Inr b, s)" by (rule replay_run)
  have "\<forall>r \<in> set (replay_prepared replay_today). \<forall>q \<in> set (replay_prepared replay_tomorrow).
      ist_day (row_time r) < ist_day (row_time q)"
    by (simp add: replay_today_def replay_tomorrow_def replay_row_def row_time_def ist_day_def)
  from backtest_without_lookahead [OF replay_prepares this run] show ?thesis by blast
qed

end
