(* ===== verification/WalkForward.thy ===== *)
theory WalkForward
  imports Backtest
begin

text \<open>
  \<open>backtesting/walk_forward.py\<close>, \<open>ml/datasets/splitting.py\<close> and \<open>backtesting/oos.py\<close>: the chronological,
  purged partitions a strategy is evaluated on. A time stamp column holds instants in nanoseconds, \<open>None\<close>
  is \<open>NaT\<close>: it compares false with everything and sorts last. The evaluator and the predictor are
  parameters; what they leave in the frames they are given is part of their result.
\<close>

section \<open>Time stamp columns\<close>

fun stamp_le :: "int option \<Rightarrow> int option \<Rightarrow> bool" where
  "stamp_le (Some a) (Some b) = (a \<le> b)"
| "stamp_le x y = False"

fun stamp_less :: "int option \<Rightarrow> int option \<Rightarrow> bool" where
  "stamp_less (Some a) (Some b) = (a < b)"
| "stamp_less x y = False"

definition row_stamp :: "row \<Rightarrow> int option" where
  "row_stamp r = map_option ns (row_timestamp r)"

text \<open>\<open>drop_duplicates().sort_values()\<close>\<close>

definition stamp_key :: "int option \<Rightarrow> bool \<times> int" where
  "stamp_key x = (case x of None \<Rightarrow> (True, 0) | Some a \<Rightarrow> (False, a))"

definition distinct_stamps :: "row list \<Rightarrow> int option list" where
  "distinct_stamps rows = sort_key stamp_key (remdups (map row_stamp rows))"

text \<open>\<open>stamp + Timedelta(minutes=m)\<close>, in 64 bit nanoseconds.\<close>

definition in_bounds :: "int \<Rightarrow> bool" where
  "in_bounds x = (- (2 ^ 63) < x \<and> x < 2 ^ 63)"

definition minutes_ns :: "int \<Rightarrow> int" where
  "minutes_ns m = m * (60 * 10 ^ 9)"

definition shift_minutes :: "int option \<Rightarrow> int \<Rightarrow> int option res" where
  "shift_minutes x m = (if \<not> in_bounds (minutes_ns m) then Inl (OtherError ''timedelta out of bounds'')
     else case x of None \<Rightarrow> Inr None
     | Some a \<Rightarrow> if in_bounds (a + minutes_ns m) then Inr (Some (a + minutes_ns m)) else Inl (OtherError ''timestamp out of bounds''))"

definition least_stamp :: "int option list \<Rightarrow> int option" where
  "least_stamp xs = (case List.map_filter id xs of [] \<Rightarrow> None | y # ys \<Rightarrow> Some (foldl min y ys))"

definition greatest_stamp :: "int option list \<Rightarrow> int option" where
  "greatest_stamp xs = (case List.map_filter id xs of [] \<Rightarrow> None | y # ys \<Rightarrow> Some (foldl max y ys))"

section \<open>Walk-forward windows\<close>

record WalkForwardWindow =
  wf_fold_id :: int
  wf_train_start :: "int option"
  wf_train_end :: "int option"
  wf_test_start :: "int option"
  wf_test_end :: "int option"
  wf_train_rows :: int
  wf_test_rows :: int
  wf_purged_rows :: int

definition count_rows :: "(int option \<Rightarrow> bool) \<Rightarrow> row list \<Rightarrow> int" where
  "count_rows p rows = int (length (filter (\<lambda>r. p (row_stamp r)) rows))"

text \<open>One fold: \<open>e\<close> is the index of the end of its training rows, \<open>b\<close> and \<open>z\<close> those of its test block.\<close>

definition make_window :: "row list \<Rightarrow> int option list \<Rightarrow> int \<Rightarrow> int \<Rightarrow> nat \<Rightarrow> nat \<Rightarrow> nat \<Rightarrow> WalkForwardWindow res" where
  "make_window rows stamps purge_minutes fold_id e b z =
    (let train_end = stamps ! e; test_end = stamps ! z in
     rbind (shift_minutes (stamps ! b) purge_minutes) (\<lambda>boundary.
     let in_test = (\<lambda>x. stamp_less boundary x \<and> stamp_le x test_end);
         test = filter in_test (map row_stamp rows);
         train_rows = count_rows (\<lambda>x. stamp_le x train_end) rows in
     if train_rows = 0 then Inl (ValueError ''fold produced an empty training set'')
     else if test = [] then Inl (ValueError ''fold produced an empty test set after purge'')
     else (let test_start = least_stamp test in
       Inr \<lparr>wf_fold_id = fold_id, wf_train_start = stamps ! 0, wf_train_end = train_end,
         wf_test_start = test_start, wf_test_end = test_end, wf_train_rows = train_rows,
         wf_test_rows = int (length test),
         wf_purged_rows = count_rows (\<lambda>x. stamp_less train_end x \<and> stamp_less x test_start) rows\<rparr>)))"

text \<open>The folds that are left, from fold \<open>k + 1\<close> on; \<open>e\<close> is the end of the training rows so far.\<close>

fun fold_windows :: "row list \<Rightarrow> int option list \<Rightarrow> int \<Rightarrow> nat \<Rightarrow> nat \<Rightarrow> nat \<Rightarrow> nat \<Rightarrow> nat \<Rightarrow> WalkForwardWindow list res" where
  "fold_windows rows stamps purge_minutes block remainder k 0 e = Inr []"
| "fold_windows rows stamps purge_minutes block remainder k (Suc n) e =
    (let z = e + block + (if k < remainder then 1 else 0) in
     if length stamps \<le> z then Inl (ValueError ''walk-forward configuration exceeded available timestamps'')
     else rbind (make_window rows stamps purge_minutes (int k + 1) e (e + 1) z) (\<lambda>w.
       rbind (fold_windows rows stamps purge_minutes block remainder (k + 1) n z) (\<lambda>ws. Inr (w # ws))))"

definition open_unit :: "pyfloat \<Rightarrow> bool" where
  "open_unit x = (fpos x \<and> fless x (Fin 1))"

definition train_size :: "nat \<Rightarrow> pyfloat \<Rightarrow> nat res" where
  "train_size count ratio = rbind (float_of_int (int count)) (\<lambda>x. rbind (ftrunc (fmul x ratio)) (\<lambda>n. Inr (max 1 (nat n))))"

definition generate_windows :: "frame \<Rightarrow> int \<Rightarrow> pyfloat \<Rightarrow> pyfloat \<Rightarrow> int \<Rightarrow> WalkForwardWindow list res" where
  "generate_windows f folds train_ratio test_ratio purge_minutes =
    (let rows = fr_rows f in
     if \<not> list_all (\<lambda>c. c \<in> set (fr_columns f)) [''timestamp'', ''symbol'']
       then Inl (ValueError ''data missing required columns'')
     else if rows = [] then Inl (ValueError ''data must not be empty'')
     else if list_ex (\<lambda>r. row_symbol r = None) rows then Inl (ValueError ''symbol values must not be missing'')
     else if \<not> distinct (map (\<lambda>r. (row_symbol r, row_stamp r)) rows)
       then Inl (ValueError ''data contains duplicate symbol/timestamp decision rows'')
     else if folds < 1 then Inl (ValueError ''folds must be at least 1'')
     else if \<not> open_unit train_ratio then Inl (ValueError ''train_ratio must be between 0 and 1'')
     else if \<not> open_unit test_ratio then Inl (ValueError ''test_ratio must be between 0 and 1'')
     else if purge_minutes < 0 then Inl (ValueError ''purge_minutes must not be negative'')
     else (let stamps = distinct_stamps rows; count = length stamps; n = nat folds in
     if count < n * 3 then Inl (ValueError ''insufficient timestamps for requested walk-forward folds'')
     else rbind (train_size count train_ratio) (\<lambda>initial.
     if count < initial + n then Inl (ValueError ''insufficient observations for requested walk-forward folds'')
     else fold_windows rows stamps purge_minutes ((count - initial) div n) ((count - initial) mod n) 0 n (initial - 1))))"

subsection \<open>The report\<close>

record 'r WalkForwardTradingReport =
  wr_windows :: "WalkForwardWindow list"
  wr_results :: "'r list"

definition check_window :: "int \<Rightarrow> int option option \<Rightarrow> WalkForwardWindow \<Rightarrow> unit res" where
  "check_window expected previous w =
    (if wf_fold_id w \<noteq> expected then Inl (ValueError ''walk-forward fold ids must be contiguous'')
     else if stamp_less (wf_train_end w) (wf_train_start w) \<or> stamp_le (wf_test_start w) (wf_train_end w)
       then Inl (ValueError ''fold has invalid training/test boundary'')
     else if stamp_less (wf_test_end w) (wf_test_start w) then Inl (ValueError ''fold has invalid test interval'')
     else if wf_train_rows w \<le> 0 \<or> wf_test_rows w \<le> 0 then Inl (ValueError ''fold contains an empty partition'')
     else if wf_purged_rows w < 0 then Inl (ValueError ''fold has negative purge count'')
     else if (case previous of None \<Rightarrow> False | Some e \<Rightarrow> stamp_le (wf_test_start w) e)
       then Inl (ValueError ''walk-forward test windows overlap'')
     else Inr ())"

fun check_windows :: "int \<Rightarrow> int option option \<Rightarrow> WalkForwardWindow list \<Rightarrow> unit res" where
  "check_windows expected previous [] = Inr ()"
| "check_windows expected previous (w # ws) =
     rbind (check_window expected previous w) (\<lambda>_. check_windows (expected + 1) (Some (wf_test_end w)) ws)"

definition validate_walk_forward_report :: "'r WalkForwardTradingReport \<Rightarrow> unit res" where
  "validate_walk_forward_report rep =
    (if wr_windows rep = [] then Inl (ValueError ''walk-forward report must contain at least one window'')
     else if length (wr_windows rep) \<noteq> length (wr_results rep)
       then Inl (ValueError ''walk-forward report must contain one result per window'')
     else check_windows 1 None (wr_windows rep))"

definition make_walk_forward_report :: "'r WalkForwardTradingReport \<Rightarrow> 'r WalkForwardTradingReport res" where
  "make_walk_forward_report rep = rbind (validate_walk_forward_report rep) (\<lambda>_. Inr rep)"

text \<open>The evaluator returns its result and the test partition as it left it.\<close>

type_synonym 'r evaluator = "row list \<Rightarrow> row list \<Rightarrow> ('r \<times> row list) res"

definition window_train :: "row list \<Rightarrow> WalkForwardWindow \<Rightarrow> row list" where
  "window_train rows w = filter (\<lambda>r. stamp_le (row_stamp r) (wf_train_end w)) rows"

definition window_test :: "row list \<Rightarrow> WalkForwardWindow \<Rightarrow> row list" where
  "window_test rows w = filter (\<lambda>r. stamp_le (wf_test_start w) (row_stamp r) \<and> stamp_le (row_stamp r) (wf_test_end w)) rows"

definition evaluate_window :: "'r evaluator \<Rightarrow> row list \<Rightarrow> WalkForwardWindow \<Rightarrow> 'r res" where
  "evaluate_window evaluator rows w =
    (let train = window_train rows w; test = window_test rows w in
     if train = [] \<or> test = [] then Inl (OtherError ''walk-forward window produced an empty partition'')
     else if stamp_le (least_stamp (map row_stamp test)) (greatest_stamp (map row_stamp train))
       then Inl (OtherError ''walk-forward leakage detected: training reaches test period'')
     else rbind (evaluator train test) (\<lambda>(result, left).
       if left \<noteq> test then Inl (OtherError ''walk-forward evaluator mutated test partition'') else Inr result))"

fun evaluate_windows :: "'r evaluator \<Rightarrow> row list \<Rightarrow> WalkForwardWindow list \<Rightarrow> 'r list res" where
  "evaluate_windows evaluator rows [] = Inr []"
| "evaluate_windows evaluator rows (w # ws) = rbind (evaluate_window evaluator rows w) (\<lambda>x.
     rbind (evaluate_windows evaluator rows ws) (\<lambda>xs. Inr (x # xs)))"

definition evaluate_walk_forward :: "'r evaluator \<Rightarrow> frame \<Rightarrow> int \<Rightarrow> pyfloat \<Rightarrow> pyfloat \<Rightarrow> int
     \<Rightarrow> 'r WalkForwardTradingReport res" where
  "evaluate_walk_forward evaluator f folds train_ratio test_ratio purge_minutes =
     rbind (generate_windows f folds train_ratio test_ratio purge_minutes) (\<lambda>windows.
     rbind (evaluate_windows evaluator (fr_rows f) windows) (\<lambda>results.
       if length results \<noteq> length windows
         then Inl (OtherError ''walk-forward evaluation did not produce one result per window'')
       else make_walk_forward_report \<lparr>wr_windows = windows, wr_results = results\<rparr>))"

section \<open>Training datasets and the temporal split\<close>

record TrainingDataset =
  td_data :: frame
  td_feature_columns :: "string list"
  td_label_column :: string

definition make_training_dataset :: "TrainingDataset \<Rightarrow> TrainingDataset res" where
  "make_training_dataset d =
    (if td_feature_columns d = [] then Inl (ValueError ''feature_columns must not be empty.'')
     else if td_label_column d \<notin> set (fr_columns (td_data d)) then Inl (ValueError ''Missing label column'')
     else if \<not> list_all (\<lambda>c. c \<in> set (fr_columns (td_data d))) (td_feature_columns d)
       then Inl (ValueError ''TrainingDataset is missing feature columns'')
     else Inr d)"

record TemporalSplitConfig =
  sp_train_ratio :: pyfloat
  sp_validation_ratio :: pyfloat
  sp_test_ratio :: pyfloat
  sp_purge_minutes :: int

definition default_split_config :: TemporalSplitConfig where
  "default_split_config = \<lparr>sp_train_ratio = lit (7/10), sp_validation_ratio = lit (3/20), sp_test_ratio = lit (3/20),
     sp_purge_minutes = 60\<rparr>"

definition make_split_config :: "TemporalSplitConfig \<Rightarrow> TemporalSplitConfig res" where
  "make_split_config c =
    (let ratios = [sp_train_ratio c, sp_validation_ratio c, sp_test_ratio c] in
     if list_ex nonpos ratios then Inl (ValueError ''All split ratios must be greater than zero.'')
     else if fless (lit (1 / 10 ^ 9)) (fabs (fsub (fsum ratios) (Fin 1)))
       then Inl (ValueError ''train_ratio + validation_ratio + test_ratio must equal 1.'')
     else if sp_purge_minutes c < 0 then Inl (ValueError ''purge_minutes must not be negative.'')
     else Inr c)"

record TemporalSplit =
  ts_train :: TrainingDataset
  ts_validation :: TrainingDataset
  ts_test :: TrainingDataset
  ts_train_end :: "int option"
  ts_validation_start :: "int option"
  ts_validation_end :: "int option"
  ts_test_start :: "int option"

text \<open>\<open>_make_dataset\<close> of the rows sorted by symbol and time stamp; the label column is the default one.\<close>

definition split_key :: "row \<Rightarrow> bool \<times> string \<times> bool \<times> int" where
  "split_key r = (row_symbol r = None, row_name r, stamp_key (row_stamp r))"

definition make_part :: "TrainingDataset \<Rightarrow> (int option \<Rightarrow> bool) \<Rightarrow> TrainingDataset res" where
  "make_part d p = make_training_dataset \<lparr>td_data = \<lparr>fr_columns = fr_columns (td_data d),
       fr_rows = sort_key split_key (filter (\<lambda>r. p (row_stamp r)) (fr_rows (td_data d)))\<rparr>,
     td_feature_columns = td_feature_columns d, td_label_column = ''label''\<rparr>"

definition scaled_index :: "nat \<Rightarrow> pyfloat \<Rightarrow> nat res" where
  "scaled_index n ratio = rbind (float_of_int (int n)) (\<lambda>x. rbind (ftrunc (fmul x ratio)) (\<lambda>k. Inr (nat k)))"

definition temporal_split :: "TrainingDataset \<Rightarrow> TemporalSplitConfig \<Rightarrow> TemporalSplit res" where
  "temporal_split d c =
    (let rows = fr_rows (td_data d); stamps = distinct_stamps rows; n = length stamps; purge = sp_purge_minutes c;
         empty = (\<lambda>p. \<not> list_ex (\<lambda>r. p (row_stamp r)) rows) in
     if rows = [] then Inl (ValueError ''TrainingDataset must not be empty.'')
     else if n < 3 then Inl (ValueError ''Temporal splitting requires at least three unique decision timestamps.'')
     else rbind (scaled_index n (sp_train_ratio c)) (\<lambda>i.
     rbind (scaled_index n (fadd (sp_train_ratio c) (sp_validation_ratio c))) (\<lambda>j.
     let train_index = max 1 i; validation_index = min (n - 1) (max (train_index + 1) j) in
     if n < train_index then Inl (OtherError ''single positional indexer is out-of-bounds'')
     else
     rbind (shift_minutes (stamps ! (train_index - 1)) (- purge)) (\<lambda>train_end.
     rbind (shift_minutes (stamps ! (train_index - 1)) purge) (\<lambda>validation_start.
     rbind (shift_minutes (stamps ! (validation_index - 1)) (- purge)) (\<lambda>validation_end.
     rbind (shift_minutes (stamps ! (validation_index - 1)) purge) (\<lambda>test_start.
     let in_train = (\<lambda>x. stamp_le x train_end);
         in_validation = (\<lambda>x. stamp_less validation_start x \<and> stamp_le x validation_end);
         in_test = (\<lambda>x. stamp_less test_start x) in
     if empty in_train then Inl (ValueError ''Temporal split produced an empty training set.'')
     else if empty in_validation then Inl (ValueError ''Temporal split produced an empty validation set.'')
     else if empty in_test then Inl (ValueError ''Temporal split produced an empty test set.'')
     else rbind (make_part d in_train) (\<lambda>train. rbind (make_part d in_validation) (\<lambda>validation.
       rbind (make_part d in_test) (\<lambda>test.
       Inr \<lparr>ts_train = train, ts_validation = validation, ts_test = test, ts_train_end = train_end,
         ts_validation_start = validation_start, ts_validation_end = validation_end, ts_test_start = test_start\<rparr>))))))))))"

section \<open>Out-of-sample evaluation\<close>

record 'p OOSReport =
  oo_train_rows :: int
  oo_validation_rows :: int
  oo_test_rows :: int
  oo_train_end :: "int option"
  oo_validation_end :: "int option"
  oo_test_start :: "int option"
  oo_predictions :: "'p list"
  oo_test_data :: "row list"

text \<open>The predictor returns its predictions and the two frames as it left them.\<close>

type_synonym 'p predictor = "row list \<Rightarrow> row list \<Rightarrow> ('p list \<times> row list \<times> row list) res"

definition part_rows :: "TrainingDataset \<Rightarrow> row list" where
  "part_rows d = fr_rows (td_data d)"

definition evaluate_oos :: "'p predictor \<Rightarrow> TrainingDataset \<Rightarrow> TemporalSplitConfig \<Rightarrow> 'p OOSReport res" where
  "evaluate_oos predictor d c = rbind (temporal_split d c) (\<lambda>split.
     let train = part_rows (ts_train split); validation = part_rows (ts_validation split);
         test = part_rows (ts_test split); context = train @ validation in
     rbind (predictor context test) (\<lambda>(predictions, context_left, test_left).
     if length predictions \<noteq> length test_left
       then Inl (ValueError ''predictor must return exactly one prediction per test row'')
     else if test_left \<noteq> test then Inl (OtherError ''predictor mutated the out-of-sample test partition'')
     else if context_left \<noteq> [] \<and> test_left \<noteq> []
         \<and> stamp_le (least_stamp (map row_stamp test_left)) (greatest_stamp (map row_stamp context_left))
       then Inl (OtherError ''OOS leakage detected: training context reaches test period'')
     else Inr \<lparr>oo_train_rows = int (length train), oo_validation_rows = int (length validation),
       oo_test_rows = int (length test_left), oo_train_end = ts_train_end split,
       oo_validation_end = ts_validation_end split, oo_test_start = ts_test_start split,
       oo_predictions = predictions, oo_test_data = test_left\<rparr>))"

text \<open>The evidence package; of the metrics only the trade count is read.\<close>

record CostSensitivityPoint =
  cs_label :: string
  cs_net_pnl :: pyfloat
  cs_expectancy :: pyfloat

definition make_cost_point :: "CostSensitivityPoint \<Rightarrow> CostSensitivityPoint res" where
  "make_cost_point p =
    (if blank (cs_label p) then Inl (ValueError ''label must be non-empty'')
     else if \<not> isfinite (cs_net_pnl p) \<or> \<not> isfinite (cs_expectancy p)
       then Inl (ValueError ''cost sensitivity values must be finite'')
     else Inr p)"

record OOSFoldEvidence =
  fo_fold_id :: int
  fo_net_pnl :: pyfloat
  fo_expectancy :: pyfloat
  fo_maximum_drawdown :: pyfloat
  fo_trade_count :: int

definition make_fold_evidence :: "OOSFoldEvidence \<Rightarrow> OOSFoldEvidence res" where
  "make_fold_evidence f =
    (if fo_fold_id f < 1 then Inl (ValueError ''fold_id must be positive'')
     else if fo_trade_count f < 0 then Inl (ValueError ''trade_count must not be negative'')
     else if \<not> list_all isfinite [fo_net_pnl f, fo_expectancy f, fo_maximum_drawdown f]
       then Inl (ValueError ''fold metrics must be finite'')
     else Inr f)"

record 'm OOSValidationReport =
  ov_train_rows :: int
  ov_validation_rows :: int
  ov_test_rows :: int
  ov_train_end :: "int option"
  ov_validation_end :: "int option"
  ov_test_start :: "int option"
  ov_test_metrics :: 'm
  ov_fold_evidence :: "OOSFoldEvidence list"
  ov_regime_metrics :: "(string \<times> 'm) list"
  ov_cost_sensitivity :: "CostSensitivityPoint list"
  ov_decision :: string

definition make_oos_validation :: "('m \<Rightarrow> int) \<Rightarrow> 'm OOSValidationReport \<Rightarrow> 'm OOSValidationReport res" where
  "make_oos_validation trade_count v =
    (if min (min (ov_train_rows v) (ov_validation_rows v)) (ov_test_rows v) \<le> 0
       then Inl (ValueError ''OOS partitions must all contain at least one row'')
     else if stamp_le (ov_test_start v) (ov_train_end v)
       then Inl (ValueError ''training context must end before OOS test starts'')
     else if trade_count (ov_test_metrics v) < 0 then Inl (ValueError ''test trade_count must not be negative'')
     else if ov_decision v \<notin> {''UNDECIDED'', ''PASS'', ''FAIL''}
       then Inl (ValueError ''decision must be UNDECIDED, PASS, or FAIL'')
     else Inr v)"

definition validate_oos_evidence :: "('m \<Rightarrow> int) \<Rightarrow> 'p OOSReport \<Rightarrow> 'm \<Rightarrow> OOSFoldEvidence list \<Rightarrow> (string, 'm) dict
     \<Rightarrow> CostSensitivityPoint list \<Rightarrow> string \<Rightarrow> 'm OOSValidationReport res" where
  "validate_oos_evidence trade_count rep metrics folds regimes costs decision =
    (let named = sort_key fst regimes in
     if int (length (oo_predictions rep)) \<noteq> oo_test_rows rep
       then Inl (ValueError ''OOS prediction count must equal test row count'')
     else if int (length (oo_test_data rep)) \<noteq> oo_test_rows rep
       then Inl (ValueError ''OOS test-data count must equal test row count'')
     else if stamp_le (oo_test_start rep) (oo_train_end rep)
       then Inl (ValueError ''OOS training context reaches the test period'')
     else if list_ex (\<lambda>(name, m). blank name) named then Inl (ValueError ''regime names must be non-empty'')
     else make_oos_validation trade_count \<lparr>ov_train_rows = oo_train_rows rep,
       ov_validation_rows = oo_validation_rows rep, ov_test_rows = oo_test_rows rep,
       ov_train_end = oo_train_end rep, ov_validation_end = oo_validation_end rep,
       ov_test_start = oo_test_start rep, ov_test_metrics = metrics, ov_fold_evidence = folds,
       ov_regime_metrics = named, ov_cost_sensitivity = costs, ov_decision = decision\<rparr>)"

end
