(* ===== verification/WalkForwardProperties.thy ===== *)
theory WalkForwardProperties
  imports WalkForward
begin

text \<open>
  The partitions do not leak: what a model is fitted on ends at least the purge interval before what it is
  tested on, no row is lost between the folds, and the checks of the reports accept what the generators build.
\<close>

section \<open>Columns\<close>

lemma stamp_le_Some: "stamp_le x y \<longleftrightarrow> (\<exists>a b. x = Some a \<and> y = Some b \<and> a \<le> b)"
  by (cases x; cases y) auto

lemma stamp_less_Some: "stamp_less x y \<longleftrightarrow> (\<exists>a b. x = Some a \<and> y = Some b \<and> a < b)"
  by (cases x; cases y) auto

lemma stamp_key_less: "stamp_key x < stamp_key y \<Longrightarrow> \<exists>a. x = Some a \<and> (\<forall>b. y = Some b \<longrightarrow> a < b)"
  by (auto simp: stamp_key_def less_prod_def split: option.splits)

lemma stamp_key_inject: "stamp_key x = stamp_key y \<longleftrightarrow> x = y"
  by (auto simp: stamp_key_def split: option.splits)

lemma distinct_stamps_set [simp]: "set (distinct_stamps rows) = row_stamp ` set rows"
  by (simp add: distinct_stamps_def)

lemma distinct_stamps_order:
  assumes "i < j" "j < length (distinct_stamps rows)"
  shows "\<exists>a. distinct_stamps rows ! i = Some a \<and> (\<forall>b. distinct_stamps rows ! j = Some b \<longrightarrow> a < b)"
proof -
  let ?s = "distinct_stamps rows"
  have "sorted (map stamp_key ?s)" "distinct ?s" by (simp_all add: distinct_stamps_def)
  then have "stamp_key (?s ! i) \<le> stamp_key (?s ! j)" "?s ! i \<noteq> ?s ! j"
    using assms by (auto simp: sorted_iff_nth_mono nth_eq_iff_index_eq)
  then have "stamp_key (?s ! i) < stamp_key (?s ! j)" using stamp_key_inject by (metis order_le_neq_trans)
  then show ?thesis by (rule stamp_key_less)
qed

lemma distinct_stamps_last:
  assumes "r \<in> set rows" and "distinct_stamps rows ! (length (distinct_stamps rows) - 1) = Some z"
  shows "\<exists>a. row_stamp r = Some a \<and> a \<le> z"
proof -
  have "row_stamp r \<in> set (distinct_stamps rows)" using assms(1) by simp
  then obtain i where i: "i < length (distinct_stamps rows)" "distinct_stamps rows ! i = row_stamp r"
    by (metis in_set_conv_nth)
  show ?thesis
  proof (cases "i = length (distinct_stamps rows) - 1")
    case True
    then have "row_stamp r = Some z" using assms(2) i(2) by simp
    then show ?thesis by simp
  next
    case False
    then have "i < length (distinct_stamps rows) - 1" "length (distinct_stamps rows) - 1 < length (distinct_stamps rows)"
      using i(1) by simp_all
    from distinct_stamps_order [OF this] obtain a where "distinct_stamps rows ! i = Some a" "a < z" using assms(2) by blast
    then show ?thesis using i(2) by simp
  qed
qed

lemma foldl_min: "foldl min (y :: int) ys \<in> set (y # ys) \<and> (\<forall>x \<in> set (y # ys). foldl min y ys \<le> x)"
  by (induction ys arbitrary: y) (auto simp: min_def, fastforce+)

lemma foldl_max: "foldl max (y :: int) ys \<in> set (y # ys) \<and> (\<forall>x \<in> set (y # ys). x \<le> foldl max y ys)"
  by (induction ys arbitrary: y) (auto simp: max_def, fastforce+)

lemma present_stamps: "y \<in> set (List.map_filter id xs) \<longleftrightarrow> Some y \<in> set xs"
  by (induction xs) (auto simp: List.map_filter_simps split: option.splits)

lemma least_stamp_Some:
  assumes "Some a \<in> set xs"
  obtains m where "least_stamp xs = Some m" "Some m \<in> set xs" "\<And>b. Some b \<in> set xs \<Longrightarrow> m \<le> b"
proof -
  obtain y ys where "List.map_filter id xs = y # ys"
    using assms present_stamps [of a xs] by (cases "List.map_filter id xs") auto
  moreover have "foldl min y ys \<le> b" if "Some b \<in> set xs" for b
    using foldl_min [of y ys] present_stamps [of b xs] that calculation by auto
  moreover have "Some (foldl min y ys) \<in> set xs"
    using foldl_min [of y ys] present_stamps [of "foldl min y ys" xs] calculation(1) by auto
  ultimately show thesis using that [of "foldl min y ys"] by (simp add: least_stamp_def)
qed

lemma greatest_stamp_Some:
  assumes "greatest_stamp xs = Some m"
  shows "Some m \<in> set xs"
proof -
  obtain y ys where y: "List.map_filter id xs = y # ys" and m: "m = foldl max y ys"
    using assms by (auto simp: greatest_stamp_def split: list.splits)
  then have "m \<in> set (List.map_filter id xs)" using foldl_max [of y ys] by simp
  then show ?thesis by (simp add: present_stamps)
qed

section \<open>One window\<close>

lemma count_nonneg: "0 \<le> count_rows p rows"
  by (simp add: count_rows_def)

lemma count_split:
  assumes "\<And>x. p x \<longleftrightarrow> q x \<or> t x" "\<And>x. \<not> (q x \<and> t x)"
  shows "count_rows p rows = count_rows q rows + count_rows t rows"
  by (induction rows) (use assms in \<open>auto simp: count_rows_def\<close>)

lemma shift_minutes_Some:
  "shift_minutes x m = Inr (Some c) \<Longrightarrow> \<exists>a. x = Some a \<and> c = a + minutes_ns m"
  by (auto simp: shift_minutes_def split: if_splits option.splits)

lemma make_window_sound:
  assumes w: "make_window rows (distinct_stamps rows) p k e (Suc e) z = Inr w" and "e < z" "z < length (distinct_stamps rows)" "0 \<le> p"
  obtains a m t where "wf_fold_id w = k" "wf_train_start w = distinct_stamps rows ! 0"
    "wf_train_end w = Some a" "distinct_stamps rows ! e = Some a"
    "wf_test_start w = Some m" "a + minutes_ns p < m" "wf_test_end w = Some t" "distinct_stamps rows ! z = Some t" "m \<le> t"
    "wf_train_rows w = count_rows (\<lambda>x. stamp_le x (Some a)) rows" "0 < wf_train_rows w" "0 < wf_test_rows w" "0 \<le> wf_purged_rows w"
    "count_rows (\<lambda>x. stamp_le x (Some t)) rows = wf_train_rows w + (wf_purged_rows w + wf_test_rows w)"
    "wf_test_rows w = count_rows (\<lambda>x. stamp_le (Some m) x \<and> stamp_le x (Some t)) rows"
    "wf_purged_rows w = count_rows (\<lambda>x. stamp_less (Some a) x \<and> stamp_less x (Some m)) rows"
proof -
  let ?s = "distinct_stamps rows"
  obtain a where a: "?s ! e = Some a" "\<And>b. ?s ! Suc e = Some b \<Longrightarrow> a < b"
    using distinct_stamps_order [of e "Suc e" rows] assms(2,3) by auto
  obtain boundary where b: "shift_minutes (?s ! Suc e) p = Inr boundary" using w by (auto simp: make_window_def Let_def)
  define test where "test = filter (\<lambda>x. stamp_less boundary x \<and> stamp_le x (?s ! z)) (map row_stamp rows)"
  have fields: "test \<noteq> []" "count_rows (\<lambda>x. stamp_le x (Some a)) rows \<noteq> 0" "wf_fold_id w = k" "wf_train_start w = ?s ! 0"
      "wf_train_end w = Some a" "wf_test_start w = least_stamp test" "wf_test_end w = ?s ! z"
      "wf_train_rows w = count_rows (\<lambda>x. stamp_le x (Some a)) rows" "wf_test_rows w = int (length test)"
      "wf_purged_rows w = count_rows (\<lambda>x. stamp_less (Some a) x \<and> stamp_less x (least_stamp test)) rows"
    using w b by (auto simp: make_window_def Let_def test_def a(1) split: if_splits)
  obtain x where x: "x \<in> set test" using fields(1) by (cases test) auto
  obtain c y t where c: "boundary = Some c" "x = Some y" "?s ! z = Some t" "c < y" "y \<le> t"
    using x by (auto simp: test_def stamp_le_Some stamp_less_Some)
  obtain v where v: "?s ! Suc e = Some v" "c = v + minutes_ns p" using shift_minutes_Some b c(1) by blast
  have in_test: "Some u \<in> set test \<longleftrightarrow> c < u \<and> u \<le> t \<and> Some u \<in> row_stamp ` set rows" for u
    by (auto simp: test_def c)
  obtain m where m: "least_stamp test = Some m" "Some m \<in> set test" "\<And>b. Some b \<in> set test \<Longrightarrow> m \<le> b"
    using least_stamp_Some [of y test] x c(2) by metis
  have cm: "c < m" "m \<le> t" using m(2) in_test by auto
  have len: "int (length test) = count_rows (\<lambda>x. stamp_less (Some c) x \<and> stamp_le x (Some t)) rows"
    by (simp add: test_def c count_rows_def filter_map o_def)
  have same: "count_rows (\<lambda>x. stamp_less (Some c) x \<and> stamp_le x (Some t)) rows
      = count_rows (\<lambda>x. stamp_le (Some m) x \<and> stamp_le x (Some t)) rows"
  proof -
    have "(stamp_less (Some c) (row_stamp r) \<and> stamp_le (row_stamp r) (Some t))
        = (stamp_le (Some m) (row_stamp r) \<and> stamp_le (row_stamp r) (Some t))" if "r \<in> set rows" for r
      using m(3) [of "the (row_stamp r)"] in_test that cm by (auto simp: stamp_le_Some stamp_less_Some) force
    then show ?thesis unfolding count_rows_def by (metis (mono_tags, lifting) filter_cong)
  qed
  have "a < c" using a(2) v assms(4) by (simp add: minutes_ns_def)
  then have "count_rows (\<lambda>x. stamp_less (Some a) x \<and> stamp_le x (Some t)) rows
      = count_rows (\<lambda>x. stamp_less (Some a) x \<and> stamp_less x (Some m)) rows
        + count_rows (\<lambda>x. stamp_le (Some m) x \<and> stamp_le x (Some t)) rows"
    using cm by (intro count_split) (auto simp: stamp_le_Some stamp_less_Some)
  moreover have "count_rows (\<lambda>x. stamp_le x (Some t)) rows = count_rows (\<lambda>x. stamp_le x (Some a)) rows
      + count_rows (\<lambda>x. stamp_less (Some a) x \<and> stamp_le x (Some t)) rows"
    using \<open>a < c\<close> cm by (intro count_split) (auto simp: stamp_le_Some stamp_less_Some)
  ultimately have total: "count_rows (\<lambda>x. stamp_le x (Some t)) rows = wf_train_rows w + (wf_purged_rows w + wf_test_rows w)"
    using fields len same m(1) by simp
  have gap: "a + minutes_ns p < m" using a(2) [OF v(1)] v(2) cm(1) by simp
  have "0 < wf_test_rows w" using fields(1,9) by simp
  then show thesis
    by (intro that [of a m t])
      (use fields a(1) m(1) gap c(3) cm(2) total len [symmetric] same count_nonneg in \<open>simp_all add: order_less_le\<close>)
qed

section \<open>All folds\<close>

text \<open>What a window does with a row: the row is trained on, purged, or tested.\<close>

definition trains :: "WalkForwardWindow \<Rightarrow> row \<Rightarrow> bool" where
  "trains w r = stamp_le (row_stamp r) (wf_train_end w)"

definition purges :: "WalkForwardWindow \<Rightarrow> row \<Rightarrow> bool" where
  "purges w r = (stamp_less (wf_train_end w) (row_stamp r) \<and> stamp_less (row_stamp r) (wf_test_start w))"

definition tests :: "WalkForwardWindow \<Rightarrow> row \<Rightarrow> bool" where
  "tests w r = (stamp_le (wf_test_start w) (row_stamp r) \<and> stamp_le (row_stamp r) (wf_test_end w))"

text \<open>The windows tile the time after \<open>a\<close> up to \<open>z\<close>: each trains up to the end of the tests before it.\<close>

fun tiles :: "int \<Rightarrow> WalkForwardWindow list \<Rightarrow> int \<Rightarrow> bool" where
  "tiles a [] z = (a = z)"
| "tiles a (w # ws) z = (\<exists>m t. wf_train_end w = Some a \<and> wf_test_start w = Some m \<and> wf_test_end w = Some t \<and>
     a < m \<and> m \<le> t \<and> tiles t ws z)"

lemma tiles_after:
  assumes "tiles a ws z" "row_stamp r = Some x" "x \<le> a"
  shows "filter (\<lambda>w. purges w r \<or> tests w r) ws = []"
  using assms by (induction ws arbitrary: a) (fastforce simp: purges_def tests_def)+

lemma tiles_once:
  assumes "tiles a ws z" "row_stamp r = Some x" "x \<le> z"
  shows "length (filter (\<lambda>w. purges w r \<or> tests w r) ws) = (if x \<le> a then 0 else 1)"
  using assms
proof (induction ws arbitrary: a)
  case (Cons w ws)
  obtain m t where w: "wf_train_end w = Some a" "wf_test_start w = Some m" "wf_test_end w = Some t" "a < m" "m \<le> t"
    "tiles t ws z" using Cons.prems(1) by auto
  have here: "purges w r \<or> tests w r \<longleftrightarrow> a < x \<and> x \<le> t"
    using w Cons.prems(2) by (auto simp: purges_def tests_def)
  show ?case using here Cons.IH [OF w(6) Cons.prems(2,3)] w(4,5) by auto
qed simp

definition window_total :: "WalkForwardWindow list \<Rightarrow> int" where
  "window_total ws = sum_list (map (\<lambda>w. wf_purged_rows w + wf_test_rows w) ws)"

text \<open>The training rows end at least the purge interval before the test rows start.\<close>

definition purged_gap :: "int \<Rightarrow> WalkForwardWindow \<Rightarrow> bool" where
  "purged_gap p w \<longleftrightarrow> (\<exists>a b. wf_train_end w = Some a \<and> wf_test_start w = Some b \<and> a + minutes_ns p < b)"

lemma check_window_sound:
  assumes "wf_fold_id w = k" "wf_train_start w = Some s" "s \<le> a" "wf_train_end w = Some a" "wf_test_start w = Some m" "a < m"
    "wf_test_end w = Some t" "m \<le> t" "0 < wf_train_rows w" "0 < wf_test_rows w" "0 \<le> wf_purged_rows w"
    "previous \<in> {None, Some (Some a)}"
  shows "check_window k previous w = Inr ()"
  using assms by (auto simp: check_window_def)

lemma fold_windows_sound:
  assumes "fold_windows rows (distinct_stamps rows) p block extra k n e = Inr ws"
    and "e + n * block + (extra - k) = length (distinct_stamps rows) - 1" and "extra \<le> k + n"
    and "e < length (distinct_stamps rows)" and "0 < block" and "0 \<le> p"
    and "previous \<in> {None, Some (distinct_stamps rows ! e)}"
  shows "length ws = n \<and> (\<forall>w \<in> set ws. purged_gap p w) \<and> check_windows (int k + 1) previous ws = Inr () \<and>
    (\<forall>w \<in> set ws. int (length (window_train rows w)) = wf_train_rows w \<and> 0 < wf_train_rows w \<and>
       int (length (window_test rows w)) = wf_test_rows w \<and> 0 < wf_test_rows w) \<and>
    (n \<noteq> 0 \<longrightarrow> wf_train_rows (hd ws) = count_rows (\<lambda>x. stamp_le x (distinct_stamps rows ! e)) rows \<and>
       wf_train_rows (hd ws) + window_total ws = int (length rows)) \<and>
    (\<forall>w \<in> set ws. int (length (filter (purges w) rows)) = wf_purged_rows w) \<and>
    (\<forall>a. distinct_stamps rows ! e = Some a \<longrightarrow>
       (\<exists>z. distinct_stamps rows ! (length (distinct_stamps rows) - 1) = Some z \<and> tiles a ws z))"
  using assms
proof (induction n arbitrary: k e ws previous)
  case 0
  then show ?case by simp
next
  case (Suc n)
  let ?s = "distinct_stamps rows"
  define z where "z = e + block + (if k < extra then 1 else 0)"
  obtain w vs where z: "z < length ?s" and w: "make_window rows ?s p (int k + 1) e (Suc e) z = Inr w"
    and vs: "fold_windows rows ?s p block extra (k + 1) n z = Inr vs" and ws: "ws = w # vs"
    using Suc.prems(1) by (auto simp: Let_def z_def not_le split: if_splits)
  have ez: "e < z" using Suc.prems(5) by (simp add: z_def)
  obtain a m t where f: "wf_fold_id w = int k + 1" "wf_train_start w = ?s ! 0"
    "wf_train_end w = Some a" "?s ! e = Some a"
    "wf_test_start w = Some m" "a + minutes_ns p < m" "wf_test_end w = Some t" "?s ! z = Some t" "m \<le> t"
    "wf_train_rows w = count_rows (\<lambda>x. stamp_le x (Some a)) rows" "0 < wf_train_rows w" "0 < wf_test_rows w" "0 \<le> wf_purged_rows w"
    "count_rows (\<lambda>x. stamp_le x (Some t)) rows = wf_train_rows w + (wf_purged_rows w + wf_test_rows w)"
    "wf_test_rows w = count_rows (\<lambda>x. stamp_le (Some m) x \<and> stamp_le x (Some t)) rows"
    "wf_purged_rows w = count_rows (\<lambda>x. stamp_less (Some a) x \<and> stamp_less x (Some m)) rows"
    by (rule make_window_sound [OF w ez z Suc.prems(6)])
  have rest: "z + n * block + (extra - (k + 1)) = length ?s - 1" "extra \<le> k + 1 + n"
    using Suc.prems(2,3) by (auto simp: z_def)
  note IH = Suc.IH [OF vs rest z Suc.prems(5,6), of "Some (?s ! z)", simplified]
  obtain s where s: "?s ! 0 = Some s" "s \<le> a"
    using distinct_stamps_order [of 0 e rows] Suc.prems(4) f(4) by (cases "e = 0") auto
  have gap: "a < m" using f(6) Suc.prems(6) by (simp add: minutes_ns_def)
  have first: "check_window (int k + 1) previous w = Inr ()"
    using check_window_sound [OF f(1) _ s(2) f(3,5) gap f(7,9,11,12,13)] f(2,4) s(1) Suc.prems(7) by simp
  have all: "wf_train_rows w + window_total ws = int (length rows)"
  proof (cases n)
    case 0
    then have "z = length ?s - 1" using rest by simp
    then have "\<forall>r \<in> set rows. stamp_le (row_stamp r) (Some t)"
      using distinct_stamps_last [of _ rows t] f(8) by (auto simp: stamp_le_Some)
    then have "filter (\<lambda>r. stamp_le (row_stamp r) (Some t)) rows = rows" by (simp add: filter_id_conv)
    then have "count_rows (\<lambda>x. stamp_le x (Some t)) rows = int (length rows)" by (simp add: count_rows_def)
    then show ?thesis using f(14) vs 0 by (simp add: ws window_total_def)
  next
    case (Suc n')
    then have "wf_train_rows (hd vs) = count_rows (\<lambda>x. stamp_le x (Some t)) rows"
        "wf_train_rows (hd vs) + window_total vs = int (length rows)"
      using IH f(8) by simp_all
    then show ?thesis using f(14) by (simp add: ws window_total_def)
  qed
  have sizes: "int (length (window_train rows w)) = wf_train_rows w" "int (length (window_test rows w)) = wf_test_rows w"
    using f by (simp_all add: window_train_def window_test_def count_rows_def)
  have purged: "int (length (filter (purges w) rows)) = wf_purged_rows w"
  proof -
    have "purges w = (\<lambda>r. stamp_less (Some a) (row_stamp r) \<and> stamp_less (row_stamp r) (Some m))"
      by (simp add: fun_eq_iff purges_def f(3,5))
    then show ?thesis using f(16) by (simp add: count_rows_def)
  qed
  obtain y where y: "?s ! (length ?s - 1) = Some y" "tiles t vs y" using IH f(8) by auto
  then have tiles: "tiles a ws y" using f(3,5,7,9) gap by (simp add: ws)
  show ?case
    using IH first all sizes purged y(1) tiles f(3,4,5,6,7,8,10,11,12) by (auto simp: ws purged_gap_def add.commute)
qed

lemma generated_windows:
  assumes "generate_windows f folds train_ratio test_ratio purge = Inr ws"
  shows "int (length ws) = folds" "ws \<noteq> []" "0 \<le> purge" "\<forall>w \<in> set ws. purged_gap purge w" "check_windows 1 None ws = Inr ()"
    "\<forall>w \<in> set ws. int (length (window_train (fr_rows f) w)) = wf_train_rows w \<and> 0 < wf_train_rows w \<and>
       int (length (window_test (fr_rows f) w)) = wf_test_rows w \<and> 0 < wf_test_rows w"
    "wf_train_rows (hd ws) + window_total ws = int (length (fr_rows f))"
    "\<forall>w \<in> set ws. int (length (filter (purges w) (fr_rows f))) = wf_purged_rows w"
    "\<forall>r \<in> set (fr_rows f). length (filter (\<lambda>w. purges w r \<or> tests w r) ws) = (if trains (hd ws) r then 0 else 1)"
proof -
  define rows where "rows = fr_rows f"
  define n where "n = nat folds"
  let ?count = "length (distinct_stamps rows)"
  obtain initial where i: "train_size ?count train_ratio = Inr initial" and p: "0 \<le> purge" and n: "1 \<le> folds"
    and fit: "initial + n \<le> ?count"
    and ws: "fold_windows rows (distinct_stamps rows) purge ((?count - initial) div n) ((?count - initial) mod n) 0 n (initial - 1) = Inr ws"
    using assms by (auto simp: generate_windows_def Let_def rows_def n_def not_less split: if_splits)
  have pos: "1 \<le> initial" using i by (auto simp: train_size_def)
  have n0: "0 < n" using n by (simp add: n_def)
  have "(?count - initial) div n * n + (?count - initial) mod n = ?count - initial" by simp
  then have sum: "initial - 1 + n * ((?count - initial) div n) + ((?count - initial) mod n - 0) = ?count - 1"
    using pos fit n0 by (simp add: mult.commute)
  have block: "0 < (?count - initial) div n" using fit n0 by (simp add: div_greater_zero_iff)
  have extra: "(?count - initial) mod n \<le> 0 + n" using n0 by (simp add: less_imp_le)
  have e: "initial - 1 < ?count" using fit n0 by simp
  note sound = fold_windows_sound [OF ws sum extra e block p, of None, simplified]
  show "int (length ws) = folds" "ws \<noteq> []" "0 \<le> purge" "\<forall>w \<in> set ws. purged_gap purge w" "check_windows 1 None ws = Inr ()"
    "\<forall>w \<in> set ws. int (length (window_train (fr_rows f) w)) = wf_train_rows w \<and> 0 < wf_train_rows w \<and>
       int (length (window_test (fr_rows f) w)) = wf_test_rows w \<and> 0 < wf_test_rows w"
    "wf_train_rows (hd ws) + window_total ws = int (length (fr_rows f))"
    "\<forall>w \<in> set ws. int (length (filter (purges w) (fr_rows f))) = wf_purged_rows w"
    using sound n n0 p by (auto simp: n_def rows_def)
  obtain a where a: "distinct_stamps rows ! (initial - 1) = Some a"
  proof -
    have "initial - 1 < ?count - 1" "?count - 1 < ?count" using pos fit n0 by linarith+
    then show thesis using that distinct_stamps_order [of "initial - 1" "?count - 1" rows] by blast
  qed
  then obtain z where z: "distinct_stamps rows ! (?count - 1) = Some z" "tiles a ws z" using sound by auto
  have hd: "wf_train_end (hd ws) = Some a"
    using z(2) sound n0 by (cases ws) auto
  show "\<forall>r \<in> set (fr_rows f). length (filter (\<lambda>w. purges w r \<or> tests w r) ws) = (if trains (hd ws) r then 0 else 1)"
  proof
    fix r assume "r \<in> set (fr_rows f)"
    then obtain x where x: "row_stamp r = Some x" "x \<le> z" using distinct_stamps_last [OF _ z(1)] rows_def by blast
    show "length (filter (\<lambda>w. purges w r \<or> tests w r) ws) = (if trains (hd ws) r then 0 else 1)"
      using tiles_once [OF z(2) x] by (simp add: trains_def hd x(1))
  qed
qed

text \<open>C30. The walk-forward windows are sound: if \<open>generate_windows\<close> returns, it has one window per fold, in
  each the training rows end more than the purge interval before the first test row, the three counters of a
  window are the numbers of the rows it trains on, purges and tests, the report validator accepts the
  windows with any results, and every row of the data is either trained on by the first window and never
  purged or tested, or purged or tested by exactly one window; so the counters add up to the rows.\<close>
theorem walk_forward_windows_sound:
  assumes "generate_windows f folds train_ratio test_ratio purge = Inr ws"
  shows "int (length ws) = folds \<and>
    (\<forall>w \<in> set ws. \<exists>a b. wf_train_end w = Some a \<and> wf_test_start w = Some b \<and> a + minutes_ns purge < b) \<and>
    (length results = length ws \<longrightarrow> validate_walk_forward_report \<lparr>wr_windows = ws, wr_results = results\<rparr> = Inr ()) \<and>
    wf_train_rows (hd ws) + sum_list (map (\<lambda>w. wf_purged_rows w + wf_test_rows w) ws) = int (length (fr_rows f)) \<and>
    (\<forall>w \<in> set ws. wf_train_rows w = int (length (filter (trains w) (fr_rows f))) \<and>
       wf_purged_rows w = int (length (filter (purges w) (fr_rows f))) \<and>
       wf_test_rows w = int (length (filter (tests w) (fr_rows f)))) \<and>
    (\<forall>r \<in> set (fr_rows f). length (filter (\<lambda>w. purges w r \<or> tests w r) ws) = (if trains (hd ws) r then 0 else 1))"
proof -
  have partition: "trains w = (\<lambda>r. stamp_le (row_stamp r) (wf_train_end w))"
    "tests w = (\<lambda>r. stamp_le (wf_test_start w) (row_stamp r) \<and> stamp_le (row_stamp r) (wf_test_end w))" for w
    by (simp_all add: fun_eq_iff trains_def tests_def)
  note g = generated_windows [OF assms]
  have "\<forall>w \<in> set ws. wf_train_rows w = int (length (filter (trains w) (fr_rows f))) \<and>
       wf_purged_rows w = int (length (filter (purges w) (fr_rows f))) \<and>
       wf_test_rows w = int (length (filter (tests w) (fr_rows f)))"
    using g(6,8) by (simp add: window_train_def window_test_def partition)
  then show ?thesis using g(1,2,4,5,7,9) unfolding purged_gap_def window_total_def
    by (simp add: validate_walk_forward_report_def)
qed

section \<open>Evaluation\<close>

lemma window_gap:
  assumes "purged_gap p w" and "r \<in> set (window_train rows w)" and "q \<in> set (window_test rows w)"
  shows "\<exists>a b. row_stamp r = Some a \<and> row_stamp q = Some b \<and> a + minutes_ns p < b"
  using assms by (fastforce simp: purged_gap_def window_train_def window_test_def stamp_le_Some)

lemma evaluate_window_iff:
  assumes "purged_gap p w" "0 \<le> p" "window_train rows w \<noteq> []" "window_test rows w \<noteq> []"
  shows "evaluate_window ev rows w = Inr x \<longleftrightarrow> ev (window_train rows w) (window_test rows w) = Inr (x, window_test rows w)"
proof -
  have "\<not> stamp_le (least_stamp (map row_stamp (window_test rows w))) (greatest_stamp (map row_stamp (window_train rows w)))"
  proof
    assume "stamp_le (least_stamp (map row_stamp (window_test rows w))) (greatest_stamp (map row_stamp (window_train rows w)))"
    then obtain b a where ba: "least_stamp (map row_stamp (window_test rows w)) = Some b"
        "greatest_stamp (map row_stamp (window_train rows w)) = Some a" "b \<le> a" by (auto simp: stamp_le_Some)
    obtain q where q: "q \<in> set (window_test rows w)" using assms(4) by (cases "window_test rows w") auto
    obtain r where r: "r \<in> set (window_train rows w)" "row_stamp r = Some a" using greatest_stamp_Some [OF ba(2)] by force
    obtain c where c: "row_stamp q = Some c" using window_gap [OF assms(1) r(1) q] by blast
    then have "Some c \<in> set (map row_stamp (window_test rows w))" using q by force
    then obtain m where "least_stamp (map row_stamp (window_test rows w)) = Some m" "Some m \<in> set (map row_stamp (window_test rows w))"
      by (rule least_stamp_Some)
    then obtain q' where "q' \<in> set (window_test rows w)" "row_stamp q' = Some b" using ba(1) by force
    then have "a + minutes_ns p < b" using window_gap [OF assms(1) r(1)] r(2) by fastforce
    then show False using ba(3) assms(2) by (simp add: minutes_ns_def)
  qed
  then show ?thesis using assms(3,4) by (auto simp: evaluate_window_def Let_def split: prod.splits)
qed

lemma evaluate_windows_iff:
  "evaluate_windows ev rows ws = Inr xs \<longleftrightarrow> list_all2 (\<lambda>w x. evaluate_window ev rows w = Inr x) ws xs"
  by (induction ws arbitrary: xs) (auto simp: list_all2_Cons1)

text \<open>C31. The evaluator sees the past only: \<open>evaluate_walk_forward\<close> returns a report exactly when the windows can
  be generated and the evaluator returns on every fold and leaves the test rows alone; it is called with the
  rows up to the end of training and those of the test interval, as many as the window counts, and every
  training row lies more than the purge interval before every test row. The leakage and partition checks never
  raise.\<close>
theorem walk_forward_evaluation_is_causal:
  "(\<exists>rep. evaluate_walk_forward ev f folds train_ratio test_ratio purge = Inr rep \<and> wr_results rep = results) \<longleftrightarrow>
   (\<exists>ws. generate_windows f folds train_ratio test_ratio purge = Inr ws \<and>
     list_all2 (\<lambda>w x. \<exists>train test. ev train test = Inr (x, test) \<and>
        train = filter (\<lambda>r. stamp_le (row_stamp r) (wf_train_end w)) (fr_rows f) \<and>
        test = filter (\<lambda>r. stamp_le (wf_test_start w) (row_stamp r) \<and> stamp_le (row_stamp r) (wf_test_end w)) (fr_rows f) \<and>
        int (length train) = wf_train_rows w \<and> int (length test) = wf_test_rows w \<and>
        (\<forall>r \<in> set train. \<forall>q \<in> set test. \<exists>a b. row_stamp r = Some a \<and> row_stamp q = Some b \<and> a + minutes_ns purge < b))
      ws results)"
proof (cases "generate_windows f folds train_ratio test_ratio purge")
  case (Inl e)
  then show ?thesis by (simp add: evaluate_walk_forward_def)
next
  case (Inr ws)
  note g = generated_windows [OF Inr]
  have some: "window_train (fr_rows f) w \<noteq> []" "window_test (fr_rows f) w \<noteq> []" if "w \<in> set ws" for w
    using g(6) that by fastforce+
  have one: "evaluate_window ev (fr_rows f) w = Inr x \<longleftrightarrow>
      ev (window_train (fr_rows f) w) (window_test (fr_rows f) w) = Inr (x, window_test (fr_rows f) w)" if "w \<in> set ws" for w x
    by (rule evaluate_window_iff [OF _ g(3) some [OF that]]) (use g(4) that in blast)
  have facts: "int (length (window_train (fr_rows f) w)) = wf_train_rows w \<and> int (length (window_test (fr_rows f) w)) = wf_test_rows w \<and>
      (\<forall>r \<in> set (window_train (fr_rows f) w). \<forall>q \<in> set (window_test (fr_rows f) w).
         \<exists>a b. row_stamp r = Some a \<and> row_stamp q = Some b \<and> a + minutes_ns purge < b)" if "w \<in> set ws" for w
    by (intro conjI ballI window_gap) (use g(4,6) that in simp_all)
  have report: "(\<exists>rep. evaluate_walk_forward ev f folds train_ratio test_ratio purge = Inr rep \<and> wr_results rep = results)
      \<longleftrightarrow> list_all2 (\<lambda>w x. evaluate_window ev (fr_rows f) w = Inr x) ws results"
  proof -
    have "evaluate_walk_forward ev f folds train_ratio test_ratio purge
        = rbind (evaluate_windows ev (fr_rows f) ws) (\<lambda>xs. if length xs \<noteq> length ws
            then Inl (OtherError ''walk-forward evaluation did not produce one result per window'')
            else make_walk_forward_report \<lparr>wr_windows = ws, wr_results = xs\<rparr>)"
      by (simp add: evaluate_walk_forward_def Inr)
    moreover have "make_walk_forward_report \<lparr>wr_windows = ws, wr_results = xs\<rparr> = Inr \<lparr>wr_windows = ws, wr_results = xs\<rparr>"
      if "length xs = length ws" for xs :: "'a list"
      using that g(2,5) by (simp add: make_walk_forward_report_def validate_walk_forward_report_def)
    moreover have "length xs = length ws" if "evaluate_windows ev (fr_rows f) ws = Inr xs" for xs
      using that list_all2_lengthD by (fastforce simp: evaluate_windows_iff)
    ultimately have "(\<exists>rep. evaluate_walk_forward ev f folds train_ratio test_ratio purge = Inr rep \<and> wr_results rep = results)
        \<longleftrightarrow> evaluate_windows ev (fr_rows f) ws = Inr results"
      by (cases "evaluate_windows ev (fr_rows f) ws") auto
    then show ?thesis by (simp only: evaluate_windows_iff)
  qed
  also have "\<dots> \<longleftrightarrow> list_all2 (\<lambda>w x. \<exists>train test. ev train test = Inr (x, test) \<and>
        train = window_train (fr_rows f) w \<and> test = window_test (fr_rows f) w \<and>
        int (length train) = wf_train_rows w \<and> int (length test) = wf_test_rows w \<and>
        (\<forall>r \<in> set train. \<forall>q \<in> set test. \<exists>a b. row_stamp r = Some a \<and> row_stamp q = Some b \<and> a + minutes_ns purge < b)) ws results"
  proof (rule list.rel_cong [OF refl refl])
    fix w x
    assume w: "w \<in> set ws"
    show "evaluate_window ev (fr_rows f) w = Inr x \<longleftrightarrow> (\<exists>train test. ev train test = Inr (x, test) \<and>
        train = window_train (fr_rows f) w \<and> test = window_test (fr_rows f) w \<and>
        int (length train) = wf_train_rows w \<and> int (length test) = wf_test_rows w \<and>
        (\<forall>r \<in> set train. \<forall>q \<in> set test. \<exists>a b. row_stamp r = Some a \<and> row_stamp q = Some b \<and> a + minutes_ns purge < b))"
      unfolding one [OF w] using facts [OF w] by metis
  qed
  finally show ?thesis by (simp add: Inr window_train_def window_test_def)
qed

section \<open>The temporal split\<close>

lemma make_part_rows:
  "make_part d p = Inr part \<Longrightarrow> set (part_rows part) = {r \<in> set (fr_rows (td_data d)). p (row_stamp r)}"
  by (auto simp: make_part_def make_training_dataset_def part_rows_def split: if_splits)

lemma nonempty_part: "list_ex P xs \<Longrightarrow> (\<And>x. x \<in> set ys \<longleftrightarrow> x \<in> set xs \<and> P x) \<Longrightarrow> ys \<noteq> []"
  by (fastforce simp: list_ex_iff)

lemma temporal_split_sound:
  assumes s: "temporal_split d c = Inr s"
  obtains a b where "ts_train_end s = Some (a - minutes_ns (sp_purge_minutes c))"
    "ts_test_start s = Some (b + minutes_ns (sp_purge_minutes c))" "a + minutes_ns (sp_purge_minutes c) < b - minutes_ns (sp_purge_minutes c)"
    "part_rows (ts_train s) \<noteq> []" "part_rows (ts_validation s) \<noteq> []" "part_rows (ts_test s) \<noteq> []"
    "\<forall>r \<in> set (part_rows (ts_train s)). \<exists>x. row_stamp r = Some x \<and> x \<le> a - minutes_ns (sp_purge_minutes c)"
    "\<forall>r \<in> set (part_rows (ts_validation s)). \<exists>x. row_stamp r = Some x \<and> a + minutes_ns (sp_purge_minutes c) < x
       \<and> x \<le> b - minutes_ns (sp_purge_minutes c)"
    "\<forall>r \<in> set (part_rows (ts_test s)). \<exists>x. row_stamp r = Some x \<and> b + minutes_ns (sp_purge_minutes c) < x"
proof -
  let ?p = "minutes_ns (sp_purge_minutes c)" and ?rows = "fr_rows (td_data d)"
  obtain x y te vs ve ts where
        e1: "shift_minutes x (- sp_purge_minutes c) = Inr te" and e2: "shift_minutes x (sp_purge_minutes c) = Inr vs"
    and e3: "shift_minutes y (- sp_purge_minutes c) = Inr ve" and e4: "shift_minutes y (sp_purge_minutes c) = Inr ts"
    and n1: "list_ex (\<lambda>r. stamp_le (row_stamp r) te) ?rows"
    and n2: "list_ex (\<lambda>r. stamp_less vs (row_stamp r) \<and> stamp_le (row_stamp r) ve) ?rows"
    and n3: "list_ex (\<lambda>r. stamp_less ts (row_stamp r)) ?rows"
    and p1: "make_part d (\<lambda>x. stamp_le x te) = Inr (ts_train s)"
    and p2: "make_part d (\<lambda>x. stamp_less vs x \<and> stamp_le x ve) = Inr (ts_validation s)"
    and p3: "make_part d (\<lambda>x. stamp_less ts x) = Inr (ts_test s)"
    and te: "ts_train_end s = te" and ts: "ts_test_start s = ts"
    using s by (auto simp: temporal_split_def Let_def split: if_splits)
  obtain v w u where "vs = Some v" "ve = Some w" "v < w" "ts = Some u"
    using n2 n3 by (auto simp: list_ex_iff stamp_less_Some stamp_le_Some)
  moreover have neg: "minutes_ns (- sp_purge_minutes c) = - ?p" by (simp add: minutes_ns_def)
  ultimately obtain a b where x: "x = Some a" "y = Some b" and ends: "vs = Some (a + ?p)" "ve = Some (b - ?p)" "ts = Some (b + ?p)"
      "a + ?p < b - ?p"
    using shift_minutes_Some [of x "sp_purge_minutes c"] shift_minutes_Some [of y "- sp_purge_minutes c"]
      shift_minutes_Some [of y "sp_purge_minutes c"] e2 e3 e4 by auto
  have te': "te = Some (a - ?p)" using e1 n1 neg by (auto simp: shift_minutes_def x split: if_splits)
  note rows = make_part_rows [OF p1] make_part_rows [OF p2] make_part_rows [OF p3]
  have "part_rows (ts_train s) \<noteq> []" "part_rows (ts_validation s) \<noteq> []" "part_rows (ts_test s) \<noteq> []"
    using nonempty_part [OF n1, of "part_rows (ts_train s)"] nonempty_part [OF n2, of "part_rows (ts_validation s)"]
      nonempty_part [OF n3, of "part_rows (ts_test s)"] rows by simp_all
  then show thesis
    using te te' ts ends rows by (intro that [of a b]) (auto simp: stamp_le_Some stamp_less_Some)
qed

lemma evaluate_oos_returns:
  assumes "evaluate_oos predictor d c = Inr rep" and "0 \<le> sp_purge_minutes c"
  obtains context_rows left where "predictor context_rows (oo_test_data rep) = Inr (oo_predictions rep, left, oo_test_data rep)"
    "int (length context_rows) = oo_train_rows rep + oo_validation_rows rep" "0 < oo_train_rows rep" "0 < oo_validation_rows rep"
    "0 < oo_test_rows rep" "int (length (oo_test_data rep)) = oo_test_rows rep"
    "length (oo_predictions rep) = length (oo_test_data rep)" "stamp_less (oo_train_end rep) (oo_test_start rep)"
    "\<forall>r \<in> set context_rows. \<forall>q \<in> set (oo_test_data rep). \<exists>a b. row_stamp r = Some a \<and> row_stamp q = Some b \<and>
       a + 2 * minutes_ns (sp_purge_minutes c) < b"
proof -
  obtain s preds left where s: "temporal_split d c = Inr s"
    and pr: "predictor (part_rows (ts_train s) @ part_rows (ts_validation s)) (part_rows (ts_test s)) = Inr (preds, left, part_rows (ts_test s))"
    and len: "length preds = length (part_rows (ts_test s))"
    and rep: "rep = \<lparr>oo_train_rows = int (length (part_rows (ts_train s))), oo_validation_rows = int (length (part_rows (ts_validation s))),
       oo_test_rows = int (length (part_rows (ts_test s))), oo_train_end = ts_train_end s,
       oo_validation_end = ts_validation_end s, oo_test_start = ts_test_start s,
       oo_predictions = preds, oo_test_data = part_rows (ts_test s)\<rparr>"
    using assms(1) by (auto simp: evaluate_oos_def Let_def split: if_splits prod.splits)
  obtain a b where f: "ts_train_end s = Some (a - minutes_ns (sp_purge_minutes c))"
    "ts_test_start s = Some (b + minutes_ns (sp_purge_minutes c))" "a + minutes_ns (sp_purge_minutes c) < b - minutes_ns (sp_purge_minutes c)"
    "part_rows (ts_train s) \<noteq> []" "part_rows (ts_validation s) \<noteq> []" "part_rows (ts_test s) \<noteq> []"
    "\<forall>r \<in> set (part_rows (ts_train s)). \<exists>x. row_stamp r = Some x \<and> x \<le> a - minutes_ns (sp_purge_minutes c)"
    "\<forall>r \<in> set (part_rows (ts_validation s)). \<exists>x. row_stamp r = Some x \<and> a + minutes_ns (sp_purge_minutes c) < x
       \<and> x \<le> b - minutes_ns (sp_purge_minutes c)"
    "\<forall>r \<in> set (part_rows (ts_test s)). \<exists>x. row_stamp r = Some x \<and> b + minutes_ns (sp_purge_minutes c) < x"
    by (rule temporal_split_sound [OF s])
  have p: "0 \<le> minutes_ns (sp_purge_minutes c)" using assms(2) by (simp add: minutes_ns_def)
  have gap: "\<exists>x y. row_stamp r = Some x \<and> row_stamp q = Some y \<and> x + 2 * minutes_ns (sp_purge_minutes c) < y"
    if "r \<in> set (part_rows (ts_train s) @ part_rows (ts_validation s))" "q \<in> set (part_rows (ts_test s))" for r q
    using f(3,7,8,9) that p by fastforce
  show thesis
    by (rule that [of "part_rows (ts_train s) @ part_rows (ts_validation s)" left])
      (use pr len rep f(1-6) p gap in \<open>simp_all\<close>)
qed

text \<open>C32. The out-of-sample boundary holds: when \<open>evaluate_oos\<close> returns, the predictor was given training and
  validation rows that all lie more than twice the purge interval before every test row, it left the test
  rows alone and predicted each of them, and the evidence package built from the report is accepted for any
  metrics with a non-negative trade count, named regimes and an allowed decision.\<close>
theorem oos_boundary_holds:
  assumes "evaluate_oos predictor d c = Inr rep" and "make_split_config c = Inr c"
    and "0 \<le> trade_count metrics" and "decision \<in> {''UNDECIDED'', ''PASS'', ''FAIL''}" and "\<forall>(name, m) \<in> set regimes. \<not> blank name"
  shows "(\<exists>v. validate_oos_evidence trade_count rep metrics folds regimes costs decision = Inr v) \<and>
    (\<exists>context_rows left. predictor context_rows (oo_test_data rep) = Inr (oo_predictions rep, left, oo_test_data rep) \<and>
       int (length context_rows) = oo_train_rows rep + oo_validation_rows rep \<and>
       length (oo_predictions rep) = length (oo_test_data rep) \<and>
       (\<forall>r \<in> set context_rows. \<forall>q \<in> set (oo_test_data rep). \<exists>a b. row_stamp r = Some a \<and> row_stamp q = Some b \<and>
          a + 2 * minutes_ns (sp_purge_minutes c) < b))"
proof -
  have p: "0 \<le> sp_purge_minutes c" using assms(2) by (auto simp: make_split_config_def Let_def split: if_splits)
  obtain context_rows left where f: "predictor context_rows (oo_test_data rep) = Inr (oo_predictions rep, left, oo_test_data rep)"
    "int (length context_rows) = oo_train_rows rep + oo_validation_rows rep" "0 < oo_train_rows rep" "0 < oo_validation_rows rep"
    "0 < oo_test_rows rep" "int (length (oo_test_data rep)) = oo_test_rows rep"
    "length (oo_predictions rep) = length (oo_test_data rep)" "stamp_less (oo_train_end rep) (oo_test_start rep)"
    "\<forall>r \<in> set context_rows. \<forall>q \<in> set (oo_test_data rep). \<exists>a b. row_stamp r = Some a \<and> row_stamp q = Some b \<and>
       a + 2 * minutes_ns (sp_purge_minutes c) < b"
    by (rule evaluate_oos_returns [OF assms(1) p])
  have order: "\<not> stamp_le (oo_test_start rep) (oo_train_end rep)" using f(8) by (auto simp: stamp_less_Some)
  have names: "\<not> list_ex (\<lambda>(name, m). blank name) (sort_key fst regimes)" using assms(5) by (auto simp: list_ex_iff)
  have "\<exists>v. validate_oos_evidence trade_count rep metrics folds regimes costs decision = Inr v"
    using f(3-7) order names assms(3,4)
    by (auto simp: validate_oos_evidence_def make_oos_validation_def Let_def)
  then show ?thesis using f by blast
qed

section \<open>Hourly rows\<close>

definition hourly_row :: "int \<Rightarrow> row" where
  "hourly_row i = \<lparr>row_timestamp = Some \<lparr>ns = i * 3600 * 10 ^ 9, zone = Some 0\<rparr>, row_symbol = Some ''ABC'',
     row_regime = None, row_cells = []\<rparr>"

definition hourly_frame :: "int \<Rightarrow> frame" where
  "hourly_frame n = \<lparr>fr_columns = [''timestamp'', ''symbol'', ''close'', ''label''], fr_rows = map hourly_row [1..n]\<rparr>"

definition hourly_dataset :: TrainingDataset where
  "hourly_dataset = \<lparr>td_data = hourly_frame 24, td_feature_columns = [''close''], td_label_column = ''label''\<rparr>"

lemma hourly_windows: "returns (\<lambda>ws. length ws = 2) (generate_windows (hourly_frame 12) 2 (Fin (1/2)) (Fin (1/4)) 60)"
  by code_simp

lemma hourly_evaluation:
  "returns (\<lambda>rep. wr_results rep = [1, 1])
     (evaluate_walk_forward (\<lambda>train test. Inr (length test, test)) (hourly_frame 12) 2 (Fin (1/2)) (Fin (1/4)) 60)"
  by code_simp

lemma hourly_oos:
  "returns (\<lambda>rep. oo_train_rows rep = 15 \<and> oo_validation_rows rep = 2 \<and> oo_predictions rep = [1, 2, 3])
     (evaluate_oos (\<lambda>context_rows test. Inr ([1, 2, 3 :: nat], context_rows, test)) hourly_dataset default_split_config)"
  by code_simp

lemma walk_forward_windows_sound_witness:
  "\<exists>ws. generate_windows (hourly_frame 12) 2 (Fin (1/2)) (Fin (1/4)) 60 = Inr ws \<and>
     validate_walk_forward_report \<lparr>wr_windows = ws, wr_results = [True, False]\<rparr> = Inr ()"
proof -
  obtain ws where ws: "generate_windows (hourly_frame 12) 2 (Fin (1/2)) (Fin (1/4)) 60 = Inr ws" "length ws = 2"
    using hourly_windows by (auto simp: returns_iff)
  then show ?thesis using walk_forward_windows_sound [OF ws(1), of "[True, False]"] by simp
qed

lemma walk_forward_evaluation_is_causal_witness:
  "\<exists>ws. generate_windows (hourly_frame 12) 2 (Fin (1/2)) (Fin (1/4)) 60 = Inr ws \<and>
     list_all2 (\<lambda>w x. x = (1 :: nat) \<and> wf_test_rows w = 1) ws [1, 1]"
proof -
  have "\<exists>rep. evaluate_walk_forward (\<lambda>train test. Inr (length test, test)) (hourly_frame 12) 2 (Fin (1/2)) (Fin (1/4)) 60 = Inr rep
      \<and> wr_results rep = [1, 1]"
    using hourly_evaluation by (simp add: returns_iff)
  from this [unfolded walk_forward_evaluation_is_causal] obtain ws where
    ws: "generate_windows (hourly_frame 12) 2 (Fin (1/2)) (Fin (1/4)) 60 = Inr ws"
    and all: "list_all2 (\<lambda>w x. \<exists>train test. Inr (length test, test) = (Inr (x, test) :: (nat \<times> row list) res) \<and>
        train = filter (\<lambda>r. stamp_le (row_stamp r) (wf_train_end w)) (fr_rows (hourly_frame 12)) \<and>
        test = filter (\<lambda>r. stamp_le (wf_test_start w) (row_stamp r) \<and> stamp_le (row_stamp r) (wf_test_end w)) (fr_rows (hourly_frame 12)) \<and>
        int (length train) = wf_train_rows w \<and> int (length test) = wf_test_rows w \<and>
        (\<forall>r \<in> set train. \<forall>q \<in> set test. \<exists>a b. row_stamp r = Some a \<and> row_stamp q = Some b \<and> a + minutes_ns 60 < b))
      ws [1, 1]" by blast
  have "list_all2 (\<lambda>w x. x = (1 :: nat) \<and> wf_test_rows w = 1) ws [1, 1]"
    using all by (auto simp: list_all2_Cons2)
  then show ?thesis using ws by blast
qed

lemma oos_boundary_holds_witness:
  "\<exists>rep v. evaluate_oos (\<lambda>context_rows test. Inr ([1, 2, 3 :: nat], context_rows, test)) hourly_dataset default_split_config = Inr rep
     \<and> validate_oos_evidence int rep 5 [] [(''UP'', 2)] [] ''UNDECIDED'' = Inr v"
proof -
  obtain rep where rep: "evaluate_oos (\<lambda>context_rows test. Inr ([1, 2, 3 :: nat], context_rows, test)) hourly_dataset default_split_config = Inr rep"
    using hourly_oos by (auto simp: returns_iff)
  have c: "make_split_config default_split_config = Inr default_split_config" by code_simp
  have n: "\<forall>(name, m) \<in> set [(''UP'', 2 :: nat)]. \<not> blank name" by code_simp
  show ?thesis using oos_boundary_holds [OF rep c _ _ n, of int 5 "''UNDECIDED''"] rep by auto
qed

text \<open>The parts are built with the default label column: a dataset with a label column of another name cannot be split.\<close>

lemma split_forgets_label_column:
  "temporal_split (hourly_dataset\<lparr>td_data := (hourly_frame 24)\<lparr>fr_columns := [''timestamp'', ''symbol'', ''close'', ''target'']\<rparr>,
       td_label_column := ''target''\<rparr>) default_split_config = Inl (ValueError ''Missing label column'')"
  by code_simp

end
