(* ===== verification/ExecChecks.thy ===== *)
theory ExecChecks
  imports OrderModels FloatEval
begin

text \<open>
  The checks around the execution engine: \<open>execution/reconciliation.py\<close> (local and broker positions),
  \<open>execution/routing.py\<close> (which broker an order goes to), \<open>execution/readiness.py\<close> (the live-readiness
  checklist), \<open>execution/funds_margin.py\<close> and \<open>execution/instruments.py\<close>. A mismatch of the reconciliation
  is kept as a value instead of the text the code formats from it.
\<close>

section \<open>Reconciliation\<close>

datatype ReconciliationStatus = RC_MATCH | RC_MISMATCH | RC_BLOCKED

record BrokerPosition =
  bp_symbol :: string
  bp_quantity :: pyfloat
  bp_average_price :: pyfloat

definition make_broker_position :: "BrokerPosition \<Rightarrow> BrokerPosition res" where
  "make_broker_position p =
    (if blank (bp_symbol p) then Inl (ValueError ''symbol must not be empty'')
     else if \<not> isfinite (bp_quantity p) \<or> feq (bp_quantity p) (Fin 0)
       then Inl (ValueError ''quantity must be finite and non-zero'')
     else if \<not> isfinite (bp_average_price p) \<or> nonpos (bp_average_price p)
       then Inl (ValueError ''average_price must be positive and finite'')
     else Inr (p\<lparr>bp_symbol := symbol_of (bp_symbol p)\<rparr>))"

datatype position_mismatch = SnapshotsRequired | PositionDiffers string "pyfloat \<times> pyfloat" "pyfloat \<times> pyfloat"

record ReconciliationReport =
  rr_status :: ReconciliationStatus
  rr_mismatches :: "position_mismatch list"

definition reconciliation_safe :: "ReconciliationReport \<Rightarrow> bool" where
  "reconciliation_safe r = (rr_status r = RC_MATCH)"

fun normalize_positions :: "BrokerPosition list \<Rightarrow> (string, pyfloat \<times> pyfloat) dict \<Rightarrow> (string, pyfloat \<times> pyfloat) dict res" where
  "normalize_positions [] result = Inr result"
| "normalize_positions (p # ps) result = (let symbol = symbol_of (bp_symbol p) in
     if dict_get result symbol \<noteq> None then Inl (ValueError ''duplicate position'')
     else normalize_positions ps (dict_set symbol (bp_quantity p, bp_average_price p) result))"

definition position_tolerance :: pyfloat where
  "position_tolerance = lit (1 / 10 ^ 12)"

definition position_in :: "(string, pyfloat \<times> pyfloat) dict \<Rightarrow> string \<Rightarrow> pyfloat \<times> pyfloat" where
  "position_in d symbol = (case dict_get d symbol of None \<Rightarrow> (Fin 0, Fin 0) | Some x \<Rightarrow> x)"

definition positions_differ :: "pyfloat \<times> pyfloat \<Rightarrow> pyfloat \<times> pyfloat \<Rightarrow> bool" where
  "positions_differ x y = (fless position_tolerance (fabs (fsub (fst x) (fst y)))
     \<or> fless position_tolerance (fabs (fsub (snd x) (snd y))))"

definition reconcile :: "BrokerPosition list option \<Rightarrow> BrokerPosition list option \<Rightarrow> ReconciliationReport res" where
  "reconcile local_positions broker_positions = (case (local_positions, broker_positions) of
      (Some ls, Some bs) \<Rightarrow>
        rbind (normalize_positions ls []) (\<lambda>l. rbind (normalize_positions bs []) (\<lambda>b.
          let symbols = sort (remdups (dict_keys l @ dict_keys b));
              mismatches = map (\<lambda>s. PositionDiffers s (position_in l s) (position_in b s))
                (filter (\<lambda>s. positions_differ (position_in l s) (position_in b s)) symbols) in
          Inr \<lparr>rr_status = (if mismatches = [] then RC_MATCH else RC_MISMATCH), rr_mismatches = mismatches\<rparr>))
    | _ \<Rightarrow> Inr \<lparr>rr_status = RC_BLOCKED, rr_mismatches = [SnapshotsRequired]\<rparr>)"

section \<open>Order routing\<close>

record RouteQuote =
  rq_broker :: string
  rq_available_quantity :: pyfloat
  rq_expected_slippage_bps :: pyfloat
  rq_fee_bps :: pyfloat
  rq_latency_ms :: pyfloat
  rq_healthy :: bool

definition make_route_quote :: "RouteQuote \<Rightarrow> RouteQuote res" where
  "make_route_quote q =
    (if blank (rq_broker q) then Inl (ValueError ''broker must not be empty'')
     else if \<not> list_all isfinite [rq_available_quantity q, rq_expected_slippage_bps q, rq_fee_bps q, rq_latency_ms q]
       then Inl (ValueError ''route quote values must be finite'')
     else if fneg_lt (rq_available_quantity q) then Inl (ValueError ''available_quantity must be non-negative'')
     else if fneg_lt (rq_expected_slippage_bps q) \<or> fneg_lt (rq_fee_bps q)
       then Inl (ValueError ''execution costs must be non-negative'')
     else if fneg_lt (rq_latency_ms q) then Inl (ValueError ''latency_ms must be non-negative'')
     else Inr q)"

record RoutingPolicy =
  rp_max_slippage_bps :: pyfloat
  rp_max_latency_ms :: pyfloat
  rp_require_full_quantity :: bool
  rp_slippage_weight :: pyfloat
  rp_fee_weight :: pyfloat
  rp_latency_weight :: pyfloat

definition default_routing_policy :: RoutingPolicy where
  "default_routing_policy = \<lparr>rp_max_slippage_bps = Fin 100, rp_max_latency_ms = Fin 5000, rp_require_full_quantity = True,
     rp_slippage_weight = Fin 1, rp_fee_weight = Fin 1, rp_latency_weight = Fin 0\<rparr>"

definition make_routing_policy :: "RoutingPolicy \<Rightarrow> RoutingPolicy res" where
  "make_routing_policy p =
    (if \<not> list_all isfinite [rp_max_slippage_bps p, rp_max_latency_ms p, rp_slippage_weight p, rp_fee_weight p,
         rp_latency_weight p]
       then Inl (ValueError ''routing policy values must be finite'')
     else if fneg_lt (rp_max_slippage_bps p) \<or> fneg_lt (rp_max_latency_ms p)
       then Inl (ValueError ''routing limits must be non-negative'')
     else if fneg_lt (rp_slippage_weight p) \<or> fneg_lt (rp_fee_weight p) \<or> fneg_lt (rp_latency_weight p)
       then Inl (ValueError ''routing weights must be non-negative'')
     else if nonpos (fadd (fadd (rp_slippage_weight p) (rp_fee_weight p)) (rp_latency_weight p))
       then Inl (ValueError ''at least one routing weight must be positive'')
     else Inr p)"

record RouteDecision =
  rx_broker :: string
  rx_score :: pyfloat
  rx_reason :: string
  rx_considered :: "string list"

definition route_eligible :: "RoutingPolicy \<Rightarrow> pyfloat \<Rightarrow> RouteQuote \<Rightarrow> bool" where
  "route_eligible p quantity q =
    (rq_healthy q \<and> \<not> fless (rp_max_slippage_bps p) (rq_expected_slippage_bps q)
     \<and> \<not> fless (rp_max_latency_ms p) (rq_latency_ms q)
     \<and> (if rp_require_full_quantity p
        then \<not> fless (fadd (rq_available_quantity q) (lit (1 / 10 ^ 12))) quantity
        else \<not> nonpos (rq_available_quantity q)))"

text \<open>The loop over the quotes: brokers seen so far and candidates so far.\<close>

fun route_candidates :: "RoutingPolicy \<Rightarrow> pyfloat \<Rightarrow> RouteQuote list \<Rightarrow> string list \<Rightarrow> RouteQuote list \<Rightarrow> RouteQuote list res" where
  "route_candidates p quantity [] seen candidates = Inr candidates"
| "route_candidates p quantity (q # qs) seen candidates = (let broker = strip (rq_broker q) in
     if broker \<in> set seen then Inl (ValueError ''duplicate broker route'')
     else route_candidates p quantity qs (broker # seen)
       (if route_eligible p quantity q then candidates @ [q] else candidates))"

definition route_total :: "RoutingPolicy \<Rightarrow> RouteQuote \<Rightarrow> pyfloat" where
  "route_total p q = fadd (fadd (fmul (rp_slippage_weight p) (rq_expected_slippage_bps q)) (fmul (rp_fee_weight p) (rq_fee_bps q)))
     (fmul (rp_latency_weight p) (rq_latency_ms q))"

text \<open>\<open><\<close> on the score tuples: the first component in which they are not equal decides.\<close>

definition route_before :: "RoutingPolicy \<Rightarrow> RouteQuote \<Rightarrow> RouteQuote \<Rightarrow> bool" where
  "route_before p a b =
    (if \<not> feq (route_total p a) (route_total p b) then fless (route_total p a) (route_total p b)
     else if \<not> feq (rq_latency_ms a) (rq_latency_ms b) then fless (rq_latency_ms a) (rq_latency_ms b)
     else rq_broker a < rq_broker b)"

definition best_route :: "RoutingPolicy \<Rightarrow> RouteQuote \<Rightarrow> RouteQuote list \<Rightarrow> RouteQuote" where
  "best_route p q qs = foldl (\<lambda>m x. if route_before p x m then x else m) q qs"

definition select_route :: "RoutingPolicy \<Rightarrow> OrderRequest \<Rightarrow> RouteQuote list \<Rightarrow> RouteDecision res" where
  "select_route p ord quotes =
    (if quotes = [] then Inl (ValueError ''no broker route quotes were supplied'')
     else rbind (route_candidates p (or_quantity ord) quotes [] []) (\<lambda>candidates. case candidates of
         [] \<Rightarrow> Inl (ValueError ''no broker route satisfies routing policy'')
       | q # qs \<Rightarrow> (let selected = best_route p q qs in
           Inr \<lparr>rx_broker = rq_broker selected, rx_score = route_total p selected,
             rx_reason = ''lowest deterministic execution-cost score among eligible routes'',
             rx_considered = sort (map rq_broker candidates)\<rparr>)))"

text \<open>Adapters are any values; the mapping is a dictionary by broker name.\<close>

definition select_adapter :: "RoutingPolicy \<Rightarrow> OrderRequest \<Rightarrow> (string, 'a) dict \<Rightarrow> RouteQuote list \<Rightarrow> ('a \<times> RouteDecision) res" where
  "select_adapter p ord adapters quotes = rbind (select_route p ord quotes) (\<lambda>decision.
     case dict_get adapters (rx_broker decision) of
       None \<Rightarrow> Inl (ValueError ''selected broker adapter is not configured'')
     | Some a \<Rightarrow> Inr (a, decision))"

section \<open>Live readiness\<close>

record ReadinessEvidence =
  re_gate :: string
  re_artifact_fingerprint :: string
  re_dataset_version :: string
  re_code_version :: string
  re_validated_at :: pytime
  re_source :: string
  re_evidence_kind :: string

definition make_readiness_evidence :: "ReadinessEvidence \<Rightarrow> ReadinessEvidence res" where
  "make_readiness_evidence e =
    (if list_ex blank [re_gate e, re_artifact_fingerprint e, re_dataset_version e, re_code_version e, re_source e,
         re_evidence_kind e]
       then Inl (ValueError ''readiness evidence field must be non-empty'')
     else if \<not> aware (re_validated_at e) then Inl (ValueError ''validated_at must be timezone-aware'')
     else Inr e)"

record LiveReadinessInput =
  lr_historical_data_validated :: bool
  lr_indicators_validated :: bool
  lr_features_leakage_safe :: bool
  lr_labels_validated :: bool
  lr_baseline_validated :: bool
  lr_model_validated :: bool
  lr_realistic_backtest_validated :: bool
  lr_leakage_audit_passed :: bool
  lr_oos_validated :: bool
  lr_walk_forward_validated :: bool
  lr_paper_evidence_validated :: bool
  lr_risk_controls_validated :: bool
  lr_monitoring_validated :: bool
  lr_kill_switch_validated :: bool
  lr_broker_integration_validated :: bool
  lr_reconciliation_validated :: bool
  lr_compliance_verified_current :: bool

text \<open>The gates in the order of \<open>_FIELDS\<close>, with the evidence kinds each accepts.\<close>

definition readiness_gates :: "(string \<times> (LiveReadinessInput \<Rightarrow> bool) \<times> string list) list" where
  "readiness_gates =
    [(''historical_data_validated'', lr_historical_data_validated, [''validation'', ''experiment_lineage'']),
     (''indicators_validated'', lr_indicators_validated, [''validation'', ''experiment_lineage'']),
     (''features_leakage_safe'', lr_features_leakage_safe, [''validation'', ''audit'', ''experiment_lineage'']),
     (''labels_validated'', lr_labels_validated, [''validation'', ''experiment_lineage'']),
     (''baseline_validated'', lr_baseline_validated, [''experiment_lineage'']),
     (''model_validated'', lr_model_validated, [''experiment_lineage'']),
     (''realistic_backtest_validated'', lr_realistic_backtest_validated, [''backtest'', ''experiment_lineage'']),
     (''leakage_audit_passed'', lr_leakage_audit_passed, [''audit'', ''experiment_lineage'']),
     (''oos_validated'', lr_oos_validated, [''oos'', ''experiment_lineage'']),
     (''walk_forward_validated'', lr_walk_forward_validated, [''walk_forward'', ''experiment_lineage'']),
     (''paper_evidence_validated'', lr_paper_evidence_validated, [''paper_evidence'']),
     (''risk_controls_validated'', lr_risk_controls_validated, [''risk'']),
     (''monitoring_validated'', lr_monitoring_validated, [''monitoring'']),
     (''kill_switch_validated'', lr_kill_switch_validated, [''safety'']),
     (''broker_integration_validated'', lr_broker_integration_validated, [''broker'']),
     (''reconciliation_validated'', lr_reconciliation_validated, [''reconciliation'']),
     (''compliance_verified_current'', lr_compliance_verified_current, [''compliance''])]"

definition gate_kinds :: "string \<Rightarrow> string list option" where
  "gate_kinds gate = map_option snd (map_of readiness_gates gate)"

definition sha256_digest :: "string \<Rightarrow> bool" where
  "sha256_digest s = (length s = 64 \<and> list_all (\<lambda>c. c \<in> set ''0123456789abcdef'') (lower s))"

definition check_evidence :: "ReadinessEvidence \<Rightarrow> unit res" where
  "check_evidence e = (case gate_kinds (re_gate e) of
      None \<Rightarrow> Inl (ValueError ''unknown readiness evidence gate'')
    | Some kinds \<Rightarrow>
        if \<not> sha256_digest (re_artifact_fingerprint e)
          then Inl (ValueError ''artifact_fingerprint must be a SHA-256 hex digest'')
        else if re_evidence_kind e \<notin> set kinds then Inl (ValueError ''invalid evidence_kind'')
        else Inr ())"

text \<open>The gates with evidence, in the order of the evidence.\<close>

fun collect_evidence :: "ReadinessEvidence list \<Rightarrow> string list \<Rightarrow> string list res" where
  "collect_evidence [] gates = Inr gates"
| "collect_evidence (e # es) gates =
    (if gate_kinds (re_gate e) = None then Inl (ValueError ''unknown readiness evidence gate'')
     else if re_gate e \<in> set gates then Inl (ValueError ''duplicate readiness evidence gate'')
     else rbind (check_evidence e) (\<lambda>_. collect_evidence es (gates @ [re_gate e])))"

record LiveReadinessReport =
  lv_ready :: bool
  lv_failed_gates :: "string list"

definition evaluate_readiness :: "LiveReadinessInput \<Rightarrow> ReadinessEvidence list \<Rightarrow> bool \<Rightarrow> bool option \<Rightarrow> LiveReadinessReport res" where
  "evaluate_readiness gates evidence require_provenance paper_evidence_valid =
    (let failed = map fst (filter (\<lambda>(name, get, kinds). \<not> get gates) readiness_gates)
       @ (if paper_evidence_valid = Some False then [''paper_evidence_quality_validated''] else []) in
     rbind (if \<not> require_provenance then Inr failed
       else rbind (collect_evidence evidence []) (\<lambda>found.
         Inr (failed @ map (\<lambda>(name, get, kinds). name @ ''_provenance'')
           (filter (\<lambda>(name, get, kinds). get gates \<and> name \<notin> set found) readiness_gates)))) (\<lambda>failed.
       Inr \<lparr>lv_ready = (failed = []), lv_failed_gates = failed\<rparr>))"

text \<open>\<open>from_artifact\<close> binds a fingerprint to a gate; \<open>from_lineage\<close> binds a lineage record, of which the code
  reads the identifier it computes, the one it stores and the versions.\<close>

definition evidence_from_artifact :: "string \<Rightarrow> string \<Rightarrow> string \<Rightarrow> string \<Rightarrow> string \<Rightarrow> pytime \<Rightarrow> string \<Rightarrow> ReadinessEvidence res" where
  "evidence_from_artifact fingerprint gate kind dataset_version code_version validated_at source =
    (if \<not> sha256_digest fingerprint then Inl (ValueError ''artifact fingerprint must be a SHA-256 hex digest'')
     else (case gate_kinds gate of
         None \<Rightarrow> Inl (ValueError ''unknown readiness evidence gate'')
       | Some kinds \<Rightarrow>
           if kind \<notin> set kinds then Inl (ValueError ''invalid evidence_kind'')
           else make_readiness_evidence \<lparr>re_gate = gate, re_artifact_fingerprint = fingerprint,
             re_dataset_version = dataset_version, re_code_version = code_version, re_validated_at = validated_at,
             re_source = source, re_evidence_kind = kind\<rparr>))"

record lineage_record =
  ln_dataset_version :: string
  ln_code_version :: string
  ln_computed_id :: string
  ln_lineage_id :: string

definition evidence_from_lineage :: "lineage_record \<Rightarrow> string \<Rightarrow> pytime \<Rightarrow> ReadinessEvidence res" where
  "evidence_from_lineage l gate validated_at =
    (if \<not> sha256_digest (ln_computed_id l) then Inl (ValueError ''lineage.computed_id() must return a SHA-256 hex digest'')
     else if ln_lineage_id l \<noteq> [] \<and> ln_lineage_id l \<noteq> ln_computed_id l
       then Inl (ValueError ''lineage_id does not match lineage.computed_id()'')
     else make_readiness_evidence \<lparr>re_gate = gate, re_artifact_fingerprint = ln_computed_id l,
       re_dataset_version = ln_dataset_version l, re_code_version = ln_code_version l, re_validated_at = validated_at,
       re_source = ''lineage:'' @ ln_computed_id l, re_evidence_kind = ''experiment_lineage''\<rparr>)"

section \<open>Funds and instruments\<close>

record FundsMarginSnapshot =
  fm_timestamp :: pytime
  fm_available_cash :: pyfloat
  fm_used_margin :: pyfloat
  fm_available_margin :: pyfloat
  fm_total_margin :: pyfloat
  fm_source :: string

definition funds_tolerance :: pyfloat where
  "funds_tolerance = lit (1 / 10 ^ 12)"

definition make_funds_snapshot :: "FundsMarginSnapshot \<Rightarrow> FundsMarginSnapshot res" where
  "make_funds_snapshot f =
    (let values = [fm_available_cash f, fm_used_margin f, fm_available_margin f, fm_total_margin f];
         limit = fadd (fm_total_margin f) funds_tolerance in
     if \<not> aware (fm_timestamp f) then Inl (ValueError ''funds timestamp must be timezone-aware'')
     else if list_ex (\<lambda>x. \<not> isfinite x \<or> fneg_lt x) values
       then Inl (ValueError ''funds value must be finite and non-negative'')
     else if fless limit (fm_available_margin f) then Inl (ValueError ''available_margin cannot exceed total_margin'')
     else if fless limit (fm_used_margin f) then Inl (ValueError ''used_margin cannot exceed total_margin'')
     else if blank (fm_source f) then Inl (ValueError ''source must be a non-empty string'')
     else Inr (f\<lparr>fm_source := lower (strip (fm_source f))\<rparr>))"

definition margin_utilization :: "FundsMarginSnapshot \<Rightarrow> pyfloat res" where
  "margin_utilization f = (if feq (fm_total_margin f) (Fin 0) then Inr (Fin 0)
     else fdiv (fm_used_margin f) (fm_total_margin f))"

record Instrument =
  in_symbol :: string
  in_exchange :: string
  in_instrument_token :: string
  in_tick_size :: pyfloat
  in_lot_size :: int

definition make_instrument :: "Instrument \<Rightarrow> Instrument res" where
  "make_instrument i =
    (if list_ex blank [in_symbol i, in_exchange i, in_instrument_token i]
       then Inl (ValueError ''instrument identity fields must be non-empty'')
     else if \<not> isfinite (in_tick_size i) \<or> nonpos (in_tick_size i)
       then Inl (ValueError ''tick_size must be finite and positive'')
     else if in_lot_size i \<le> 0 then Inl (ValueError ''lot_size must be positive'')
     else Inr (i\<lparr>in_symbol := symbol_of (in_symbol i), in_exchange := symbol_of (in_exchange i)\<rparr>))"

definition make_instrument_resolver :: "Instrument list \<Rightarrow> Instrument list res" where
  "make_instrument_resolver known = (if \<not> distinct (map in_symbol known)
     then Inl (ValueError ''duplicate instrument symbols'') else Inr known)"

definition resolve_instrument :: "Instrument list \<Rightarrow> string \<Rightarrow> Instrument res" where
  "resolve_instrument known symbol = (case find (\<lambda>i. in_symbol i = symbol_of symbol) known of
      None \<Rightarrow> Inl (KeyError ''instrument mapping not found'') | Some i \<Rightarrow> Inr i)"

end
