(* ===== verification/ExecCheckProperties.thy ===== *)
theory ExecCheckProperties
  imports ExecChecks Magnitude "HOL-Library.Multiset" "HOL-Library.Product_Lexorder"
begin

text \<open>
  What the checks guarantee: a reconciliation matches exactly when the books agree, the router's choice does
  not depend on the order of the quotes, and live readiness needs every gate and its evidence.
\<close>

section \<open>Readiness\<close>

lemma gate_kinds_known: "gate_kinds gate \<noteq> None \<longleftrightarrow> gate \<in> set (map fst readiness_gates)"
  by (simp add: gate_kinds_def map_of_eq_None_iff)

lemma collect_evidence_iff:
  "collect_evidence es gates = Inr found \<longleftrightarrow>
     found = gates @ map re_gate es \<and> (\<forall>e \<in> set es. re_gate e \<notin> set gates \<and> check_evidence e = Inr ()) \<and> distinct (map re_gate es)"
proof (induction es arbitrary: gates)
  case Nil
  then show ?case by auto
next
  case (Cons e es)
  have known: "check_evidence e = Inr () \<Longrightarrow> gate_kinds (re_gate e) \<noteq> None"
    by (cases "gate_kinds (re_gate e)") (auto simp: check_evidence_def)
  show ?case
    using known by (cases "check_evidence e") (auto simp: Cons.IH image_iff)
qed

lemma readiness_names_distinct: "distinct (map fst readiness_gates)"
  by code_simp

text \<open>C33. Live readiness fails closed: with provenance required, the gate reports ready exactly when every one of the
  gates is set, the paper evidence is not known to be bad, and the evidence holds for every gate exactly one
  record, with a SHA-256 fingerprint and an evidence kind the gate accepts.\<close>
theorem readiness_needs_every_gate:
  "(\<exists>rep. evaluate_readiness gates evidence True paper = Inr rep \<and> lv_ready rep) \<longleftrightarrow>
     paper \<noteq> Some False \<and> (\<forall>(name, get, kinds) \<in> set readiness_gates. get gates) \<and>
     distinct (map re_gate evidence) \<and> set (map re_gate evidence) = set (map fst readiness_gates) \<and>
     (\<forall>e \<in> set evidence. sha256_digest (re_artifact_fingerprint e) \<and>
        (\<exists>kinds. gate_kinds (re_gate e) = Some kinds \<and> re_evidence_kind e \<in> set kinds))"
proof -
  let ?missing = "\<lambda>found. filter (\<lambda>(name, get, kinds). get gates \<and> name \<notin> set found) readiness_gates"
  have check: "check_evidence e = Inr () \<longleftrightarrow> sha256_digest (re_artifact_fingerprint e) \<and>
      (\<exists>kinds. gate_kinds (re_gate e) = Some kinds \<and> re_evidence_kind e \<in> set kinds)" for e
    by (auto simp: check_evidence_def split: option.splits)
  have subset: "set (map re_gate evidence) \<subseteq> set (map fst readiness_gates)" if "\<forall>e \<in> set evidence. check_evidence e = Inr ()"
    using that gate_kinds_known by (auto simp: check)
  have failed: "(map fst (filter (\<lambda>(name, get, kinds). \<not> get gates) readiness_gates) = [])
      \<longleftrightarrow> (\<forall>(name, get, kinds) \<in> set readiness_gates. get gates)"
    by (auto simp: filter_empty_conv)
  have missing: "?missing found = [] \<longleftrightarrow> set (map fst readiness_gates) \<subseteq> set found"
    if "\<forall>(name, get, kinds) \<in> set readiness_gates. get gates" for found
    using that by (fastforce simp: filter_empty_conv)
  have "(\<exists>rep. evaluate_readiness gates evidence True paper = Inr rep \<and> lv_ready rep) \<longleftrightarrow>
     (\<exists>found. collect_evidence evidence [] = Inr found \<and> paper \<noteq> Some False \<and>
        (\<forall>(name, get, kinds) \<in> set readiness_gates. get gates) \<and> ?missing found = [])"
    using failed by (cases "collect_evidence evidence []") (auto simp: evaluate_readiness_def Let_def)
  also have "\<dots> \<longleftrightarrow> paper \<noteq> Some False \<and> (\<forall>(name, get, kinds) \<in> set readiness_gates. get gates) \<and>
     distinct (map re_gate evidence) \<and> (\<forall>e \<in> set evidence. check_evidence e = Inr ()) \<and>
     set (map fst readiness_gates) \<subseteq> set (map re_gate evidence)"
  proof (cases "\<forall>(name, get, kinds) \<in> set readiness_gates. get gates")
    case True
    show ?thesis unfolding missing [OF True] collect_evidence_iff by simp blast
  next
    case False
    then show ?thesis by (simp only: simp_thms False)
  qed
  also have "\<dots> \<longleftrightarrow> paper \<noteq> Some False \<and> (\<forall>(name, get, kinds) \<in> set readiness_gates. get gates) \<and>
     distinct (map re_gate evidence) \<and> set (map re_gate evidence) = set (map fst readiness_gates) \<and>
     (\<forall>e \<in> set evidence. check_evidence e = Inr ())"
    using subset by blast
  finally show ?thesis unfolding check .
qed

section \<open>Routing\<close>

lemma route_candidates_eq:
  "route_candidates p quantity qs seen cs =
    (if distinct (map (\<lambda>q. strip (rq_broker q)) qs) \<and> set (map (\<lambda>q. strip (rq_broker q)) qs) \<inter> set seen = {}
     then Inr (cs @ filter (route_eligible p quantity) qs) else Inl (ValueError ''duplicate broker route''))"
  by (induction qs arbitrary: seen cs) (auto simp: Let_def)

text \<open>The order of the non-negative floats as a linear order.\<close>

fun float_rank :: "pyfloat \<Rightarrow> bool \<times> rat" where
  "float_rank (Fin a) = (False, a)"
| "float_rank x = (True, 0)"

lemma float_rank:
  assumes "nonneg a" "nonneg b"
  shows "fless a b \<longleftrightarrow> float_rank a < float_rank b" and "feq a b \<longleftrightarrow> float_rank a = float_rank b"
    and "float_rank a = float_rank b \<longleftrightarrow> a = b"
  using assms by (cases a; cases b; simp)+

lemma fle_rank: "nonneg a \<Longrightarrow> nonneg b \<Longrightarrow> fle a b \<longleftrightarrow> float_rank a \<le> float_rank b"
  by (cases a; cases b; simp)

definition route_key :: "RoutingPolicy \<Rightarrow> RouteQuote \<Rightarrow> (bool \<times> rat) \<times> (bool \<times> rat) \<times> string" where
  "route_key p q = (float_rank (route_total p q), float_rank (rq_latency_ms q), rq_broker q)"

definition quote_ok :: "RoutingPolicy \<Rightarrow> RouteQuote \<Rightarrow> bool" where
  "quote_ok p q \<longleftrightarrow> nonneg (route_total p q) \<and> nonneg (rq_latency_ms q)"

lemma finite_value_nonneg: "isfinite x \<Longrightarrow> \<not> fneg_lt x \<Longrightarrow> nonneg x"
  by (cases x) auto

lemma valid_quote_ok:
  assumes "make_routing_policy p = Inr p" and "make_route_quote q = Inr q"
  shows "quote_ok p q"
proof -
  have p: "isfinite (rp_slippage_weight p)" "isfinite (rp_fee_weight p)" "isfinite (rp_latency_weight p)"
      "nonneg (rp_slippage_weight p)" "nonneg (rp_fee_weight p)" "nonneg (rp_latency_weight p)"
    using assms(1) by (auto simp: make_routing_policy_def intro: finite_value_nonneg split: if_splits)
  have q: "isfinite (rq_expected_slippage_bps q)" "isfinite (rq_fee_bps q)" "isfinite (rq_latency_ms q)"
      "nonneg (rq_expected_slippage_bps q)" "nonneg (rq_fee_bps q)" "nonneg (rq_latency_ms q)"
    using assms(2) by (auto simp: make_route_quote_def intro: finite_value_nonneg split: if_splits)
  show ?thesis unfolding quote_ok_def route_total_def using p q by (intro conjI fadd_nonneg fmul_nonneg)
qed

lemma route_before_key:
  assumes "quote_ok p a" "quote_ok p b"
  shows "route_before p a b \<longleftrightarrow> route_key p a < route_key p b"
proof -
  have ok: "nonneg (route_total p a)" "nonneg (route_total p b)" "nonneg (rq_latency_ms a)" "nonneg (rq_latency_ms b)"
    using assms by (simp_all add: quote_ok_def)
  show ?thesis
    unfolding route_before_def route_key_def less_prod_def' float_rank(1) [OF ok(1,2)] float_rank(2) [OF ok(1,2)]
      float_rank(1) [OF ok(3,4)] float_rank(2) [OF ok(3,4)] prod.sel
    by (simp only: if_bool_eq_conj less_prod_def' fst_conv snd_conv) (metis order_less_irrefl)
qed

lemma best_route_least:
  assumes "quote_ok p q" "\<forall>x \<in> set qs. quote_ok p x"
  shows "best_route p q qs \<in> set (q # qs) \<and> (\<forall>x \<in> set (q # qs). route_key p (best_route p q qs) \<le> route_key p x)"
  using assms
proof (induction qs arbitrary: q)
  case Nil
  then show ?case by (simp add: best_route_def)
next
  case (Cons y ys)
  define m where "m = (if route_before p y q then y else q)"
  have m: "quote_ok p m" "route_key p m \<le> route_key p q" "route_key p m \<le> route_key p y" "m \<in> {q, y}"
    using Cons.prems route_before_key [of p y q] by (auto simp: m_def not_less less_imp_le)
  have "best_route p q (y # ys) = best_route p m ys" by (simp add: best_route_def m_def)
  then show ?case using Cons.IH [of m] Cons.prems m by (auto intro: order_trans)
qed

lemma best_route_unique:
  assumes "mset (a # as) = mset (b # bs)" and "\<forall>x \<in> set (a # as). quote_ok p x"
  shows "route_key p (best_route p a as) = route_key p (best_route p b bs)"
proof -
  have s: "set (a # as) = set (b # bs)" using assms(1) by (rule mset_eq_setD)
  have a: "best_route p a as \<in> set (a # as) \<and> (\<forall>x \<in> set (a # as). route_key p (best_route p a as) \<le> route_key p x)"
    using assms(2) by (intro best_route_least) simp_all
  have "\<forall>x \<in> set (b # bs). quote_ok p x" using assms(2) unfolding s .
  then have b: "best_route p b bs \<in> set (b # bs) \<and> (\<forall>x \<in> set (b # bs). route_key p (best_route p b bs) \<le> route_key p x)"
    by (intro best_route_least) simp_all
  show ?thesis using a b unfolding s by (meson order_antisym)
qed

text \<open>C34. The router picks the cheapest eligible route whatever the order of the quotes: for a valid policy and
  valid quotes, every permutation of the quotes gives the same decision or the same error (up to the broker a duplicate is reported for), and a decision
  names a quoted broker that is healthy, within the limits and able to fill the order as the policy asks, whose
  score no eligible quote undercuts.\<close>
theorem router_picks_the_cheapest:
  assumes "make_routing_policy p = Inr p" and "\<forall>q \<in> set quotes. make_route_quote q = Inr q"
  shows "(mset shuffled = mset quotes \<longrightarrow> select_route p ord shuffled = select_route p ord quotes) \<and>
    (select_route p ord quotes = Inr d \<longrightarrow> (\<exists>q \<in> set quotes. rx_broker d = rq_broker q \<and> rx_score d = route_total p q \<and>
       route_eligible p (or_quantity ord) q \<and>
       (\<forall>x \<in> set quotes. route_eligible p (or_quantity ord) x \<longrightarrow> fle (rx_score d) (route_total p x))))"
proof -
  let ?e = "route_eligible p (or_quantity ord)" and ?b = "\<lambda>q. strip (rq_broker q)"
  have ok: "quote_ok p q" if "q \<in> set quotes" for q using valid_quote_ok assms that by blast
  have same: "select_route p ord shuffled = select_route p ord quotes" if m: "mset shuffled = mset quotes"
  proof -
    have empty: "shuffled = [] \<longleftrightarrow> quotes = []" using m by (metis mset_zero_iff)
    have brokers: "mset (map ?b shuffled) = mset (map ?b quotes)" using m by (simp add: mset_map)
    have dup: "distinct (map ?b shuffled) = distinct (map ?b quotes)" using brokers by (rule mset_eq_imp_distinct_iff)
    have cand: "mset (filter ?e shuffled) = mset (filter ?e quotes)" using m by (simp add: mset_filter)
    have names: "sort (map rq_broker (filter ?e shuffled)) = sort (map rq_broker (filter ?e quotes))"
    proof -
      have "mset (map rq_broker (filter ?e shuffled)) = mset (map rq_broker (filter ?e quotes))" unfolding mset_map cand ..
      then show ?thesis by (metis sorted_list_of_multiset_mset)
    qed
    show ?thesis
    proof (cases "filter ?e shuffled")
      case Nil
      then have "filter ?e quotes = []" using cand by (metis mset_zero_iff)
      then show ?thesis using Nil empty dup by (simp add: select_route_def route_candidates_eq)
    next
      case (Cons a as)
      then obtain b bs where bs: "filter ?e quotes = b # bs" using cand by (cases "filter ?e quotes") auto
      have "\<forall>x \<in> set (a # as). quote_ok p x"
        using ok Cons mset_eq_setD [OF m] by (metis filter_is_subset subsetD)
      then have key: "route_key p (best_route p a as) = route_key p (best_route p b bs)"
        using cand by (intro best_route_unique) (simp_all add: Cons bs)
      have ab: "set (a # as) = set (b # bs)" using mset_eq_setD [OF cand] by (simp add: Cons bs)
      have oka: "\<forall>x \<in> set (a # as). quote_ok p x" by fact
      then have okb: "\<forall>x \<in> set (b # bs). quote_ok p x" unfolding ab .
      have "best_route p a as \<in> set (a # as)" "best_route p b bs \<in> set (b # bs)"
        using best_route_least [of p a as] best_route_least [of p b bs] oka okb by simp_all
      then have "quote_ok p (best_route p a as)" "quote_ok p (best_route p b bs)" using oka okb by blast+
      then have "route_total p (best_route p a as) = route_total p (best_route p b bs)"
          "rq_broker (best_route p a as) = rq_broker (best_route p b bs)"
        using key float_rank(3) by (auto simp: route_key_def quote_ok_def)
      then show ?thesis using names empty dup by (simp add: select_route_def route_candidates_eq Cons bs Let_def)
    qed
  qed
  have best: "\<exists>q \<in> set quotes. rx_broker d = rq_broker q \<and> rx_score d = route_total p q \<and> ?e q \<and>
       (\<forall>x \<in> set quotes. ?e x \<longrightarrow> fle (rx_score d) (route_total p x))" if d: "select_route p ord quotes = Inr d"
  proof -
    obtain b bs where bs: "filter ?e quotes = b # bs" and d': "rx_broker d = rq_broker (best_route p b bs)"
        "rx_score d = route_total p (best_route p b bs)"
      using d by (auto simp: select_route_def route_candidates_eq Let_def split: if_splits list.splits)
    have mem: "x \<in> set (b # bs) \<longleftrightarrow> x \<in> set quotes \<and> ?e x" for x unfolding bs [symmetric] by auto
    then have oks: "\<forall>x \<in> set (b # bs). quote_ok p x" using ok by blast
    have least: "best_route p b bs \<in> set (b # bs)" "\<And>x. x \<in> set (b # bs) \<Longrightarrow> route_key p (best_route p b bs) \<le> route_key p x"
      using best_route_least [of p b bs] oks by auto
    have nn: "nonneg (route_total p y)" if "y \<in> set (b # bs)" for y using oks that by (simp only: quote_ok_def)
    have "fle (rx_score d) (route_total p x)" if "x \<in> set quotes" "?e x" for x
    proof -
      have "float_rank (route_total p (best_route p b bs)) \<le> float_rank (route_total p x)"
        using least(2) [of x] that mem by (auto simp: route_key_def)
      then show ?thesis unfolding d' using fle_rank [OF nn [OF least(1)] nn [of x]] that mem by blast
    qed
    then show ?thesis using least(1) mem d' by blast
  qed
  show ?thesis using same best by blast
qed

section \<open>Reconciliation\<close>

definition position_pair :: "BrokerPosition \<Rightarrow> string \<times> pyfloat \<times> pyfloat" where
  "position_pair p = (bp_symbol p, bp_quantity p, bp_average_price p)"

definition position_ok :: "BrokerPosition \<Rightarrow> bool" where
  "position_ok p \<longleftrightarrow> make_broker_position p = Inr p \<and> (\<exists>k. \<bar>k\<bar> \<le> 2 ^ 52 \<and> bp_quantity p = Fin (of_int k))"

lemma position_okD:
  assumes "position_ok p"
  obtains k a where "symbol_of (bp_symbol p) = bp_symbol p" "bp_quantity p = Fin (of_int k)" "k \<noteq> 0" "\<bar>k\<bar> \<le> 2 ^ 52"
    "bp_average_price p = Fin a" "0 < a"
proof -
  have m: "make_broker_position p = Inr p" using assms by (simp add: position_ok_def)
  then have "p\<lparr>bp_symbol := symbol_of (bp_symbol p)\<rparr> = p" "\<not> feq (bp_quantity p) (Fin 0)"
      "isfinite (bp_average_price p)" "\<not> nonpos (bp_average_price p)"
    by (auto simp: make_broker_position_def split: if_splits)
  moreover from this(1) have "symbol_of (bp_symbol p) = bp_symbol p"
    by (metis BrokerPosition.select_convs(1) BrokerPosition.surjective BrokerPosition.update_convs(1))
  ultimately show ?thesis using assms that by (cases "bp_average_price p") (auto simp: position_ok_def)
qed

lemma dict_set_fresh: "k \<notin> set (dict_keys d) \<Longrightarrow> dict_set k v d = d @ [(k, v)]"
  by (induction d) auto

lemma normalize_positions_eq:
  assumes "\<forall>p \<in> set ps. symbol_of (bp_symbol p) = bp_symbol p" and "distinct (map bp_symbol ps)"
    and "\<forall>p \<in> set ps. bp_symbol p \<notin> set (dict_keys d)"
  shows "normalize_positions ps d = Inr (d @ map position_pair ps)"
  using assms
proof (induction ps arbitrary: d)
  case (Cons p ps)
  then have "dict_get d (bp_symbol p) = None" "dict_set (bp_symbol p) (bp_quantity p, bp_average_price p) d = d @ [position_pair p]"
    by (simp_all add: map_of_eq_None_iff dict_set_fresh position_pair_def)
  moreover have "\<forall>q \<in> set ps. bp_symbol q \<notin> set (dict_keys (d @ [position_pair p]))"
    using Cons.prems(2,3) by (auto simp: position_pair_def image_iff)
  ultimately show ?case using Cons.prems Cons.IH [of "d @ [position_pair p]"] by simp
qed simp

lemma fabs_fsub_commute: "fabs (fsub (Fin a) (Fin b)) = fabs (fsub (Fin b) (Fin a))"
proof -
  have "rnd (- x) = fneg (rnd x)" for x using powi_pos [of 1024] by (auto simp: rnd_eq rnd0_minus not_le)
  then have "fabs (rnd (- x)) = fabs (rnd x)" for x by (cases "rnd x") auto
  from this [of "a - b"] show ?thesis by simp
qed

lemma tolerance_range: "case position_tolerance of Fin t \<Rightarrow> 0 < t \<and> t < 1 | _ \<Rightarrow> False"
  unfolding position_tolerance_def by code_simp

lemma quantities_differ_iff:
  assumes "\<bar>k\<bar> \<le> 2 ^ 52" "\<bar>l\<bar> \<le> 2 ^ 52"
  shows "fless position_tolerance (fabs (fsub (Fin (of_int k)) (Fin (of_int l)))) \<longleftrightarrow> k \<noteq> l"
proof -
  obtain t where t: "position_tolerance = Fin t" "0 < t" "t < 1"
    using tolerance_range by (auto split: pyfloat.splits)
  have "rnd (of_int k - of_int l) = Fin (of_int (k - l))"
    using rnd_int [of "k - l"] assms by simp
  then have "fabs (fsub (Fin (of_int k)) (Fin (of_int l))) = Fin (of_int \<bar>k - l\<bar>)" by simp
  moreover have "1 \<le> (of_int \<bar>k - l\<bar> :: rat)" if "k \<noteq> l" using that by (simp only: of_int_1_le_iff)
  ultimately show ?thesis unfolding t(1) using t(2,3) by (cases "k = l") auto
qed

lemma position_in_pairs:
  "distinct (map bp_symbol ps) \<Longrightarrow> p \<in> set ps \<Longrightarrow>
     position_in (map position_pair ps) (bp_symbol p) = (bp_quantity p, bp_average_price p)"
  unfolding position_in_def
  by (subst map_of_is_SomeI [of _ _ "(bp_quantity p, bp_average_price p)"]) (auto simp: position_pair_def comp_def)

lemma position_in_other:
  "s \<notin> bp_symbol ` set ps \<Longrightarrow> position_in (map position_pair ps) s = (Fin 0, Fin 0)"
  unfolding position_in_def
  by (subst map_of_eq_None_iff [THEN iffD2]) (auto simp: position_pair_def comp_def)

lemma keys_pairs [simp]: "dict_keys (map position_pair ps) = map bp_symbol ps"
  by (simp add: position_pair_def)

lemma position_differs_iff:
  assumes ok: "\<forall>p \<in> set ls. position_ok p" "\<forall>p \<in> set bs. position_ok p"
    and d: "distinct (map bp_symbol ls)" "distinct (map bp_symbol bs)" and s: "s \<in> bp_symbol ` set ls \<union> bp_symbol ` set bs"
  shows "positions_differ (position_in (map position_pair ls) s) (position_in (map position_pair bs) s) \<longleftrightarrow>
     \<not> (\<exists>p \<in> set ls. \<exists>q \<in> set bs. bp_symbol p = s \<and> bp_symbol q = s \<and> bp_quantity p = bp_quantity q \<and>
        \<not> fless position_tolerance (fabs (fsub (bp_average_price p) (bp_average_price q))))"
proof -
  have zero: "fless position_tolerance (fabs (fsub (bp_quantity p) (Fin 0)))"
      "fless position_tolerance (fabs (fsub (Fin 0) (bp_quantity p)))" if "position_ok p" for p
    using that by (rule position_okD, use quantities_differ_iff [of _ 0] quantities_differ_iff [of 0] in simp)+
  have same: "fless position_tolerance (fabs (fsub (bp_quantity p) (bp_quantity q))) \<longleftrightarrow> bp_quantity p \<noteq> bp_quantity q"
    if "position_ok p" "position_ok q" for p q
    using that by (elim position_okD) (simp only: quantities_differ_iff, simp)
  consider (both) p q where "p \<in> set ls" "q \<in> set bs" "bp_symbol p = s" "bp_symbol q = s"
    | (left) p where "p \<in> set ls" "bp_symbol p = s" "s \<notin> bp_symbol ` set bs"
    | (right) q where "q \<in> set bs" "bp_symbol q = s" "s \<notin> bp_symbol ` set ls"
    using s by (metis UnE imageE)
  then show ?thesis
  proof cases
    case both
    have up: "p' = p" if "p' \<in> set ls" "bp_symbol p' = s" for p'
      using d(1) both(1,3) that by (intro inj_onD [of bp_symbol "set ls" p' p]) (simp_all add: distinct_map)
    have uq: "q' = q" if "q' \<in> set bs" "bp_symbol q' = s" for q'
      using d(2) both(2,4) that by (intro inj_onD [of bp_symbol "set bs" q' q]) (simp_all add: distinct_map)
    have one: "(\<exists>p' \<in> set ls. \<exists>q' \<in> set bs. bp_symbol p' = s \<and> bp_symbol q' = s \<and> P p' q') \<longleftrightarrow> P p q" for P
      using both up uq by blast
    have "positions_differ (position_in (map position_pair ls) s) (position_in (map position_pair bs) s) \<longleftrightarrow>
        bp_quantity p \<noteq> bp_quantity q \<or> fless position_tolerance (fabs (fsub (bp_average_price p) (bp_average_price q)))"
      using position_in_pairs [OF d(1) both(1)] position_in_pairs [OF d(2) both(2)] same both ok
      by (simp add: positions_differ_def)
    then show ?thesis unfolding one by simp
  next
    case left
    have "bp_symbol q \<noteq> s" if "q \<in> set bs" for q using left(3) that by blast
    moreover have "positions_differ (position_in (map position_pair ls) s) (position_in (map position_pair bs) s)"
      using position_in_pairs [OF d(1) left(1)] position_in_other [OF left(3)] zero(1) [of p] ok(1) left(1,2) by (simp add: positions_differ_def)
    ultimately show ?thesis by blast
  next
    case right
    have "bp_symbol p \<noteq> s" if "p \<in> set ls" for p using right(3) that by blast
    moreover have "positions_differ (position_in (map position_pair ls) s) (position_in (map position_pair bs) s)"
      using position_in_pairs [OF d(2) right(1)] position_in_other [OF right(3)] zero(2) [of q] ok(2) right(1,2) by (simp add: positions_differ_def)
    ultimately show ?thesis by blast
  qed
qed

lemma reconcile_returns:
  assumes ok: "\<forall>p \<in> set ls. position_ok p" "\<forall>p \<in> set bs. position_ok p"
    and d: "distinct (map bp_symbol ls)" "distinct (map bp_symbol bs)"
  obtains r where "reconcile (Some ls) (Some bs) = Inr r"
    and "reconciliation_safe r \<longleftrightarrow> (\<forall>s \<in> bp_symbol ` set ls \<union> bp_symbol ` set bs.
      \<exists>p \<in> set ls. \<exists>q \<in> set bs. bp_symbol p = s \<and> bp_symbol q = s \<and> bp_quantity p = bp_quantity q \<and>
        \<not> fless position_tolerance (fabs (fsub (bp_average_price p) (bp_average_price q))))"
proof -
  have n: "normalize_positions xs [] = Inr (map position_pair xs)"
    if "\<forall>p \<in> set xs. position_ok p" "distinct (map bp_symbol xs)" for xs
    using normalize_positions_eq [of xs "[]"] that by (auto elim: position_okD)
  let ?L = "map position_pair ls" and ?B = "map position_pair bs"
  define mm where "mm = map (\<lambda>s. PositionDiffers s (position_in ?L s) (position_in ?B s))
    (filter (\<lambda>s. positions_differ (position_in ?L s) (position_in ?B s)) (sort (remdups (dict_keys ?L @ dict_keys ?B))))"
  have "reconcile (Some ls) (Some bs) = Inr \<lparr>rr_status = (if mm = [] then RC_MATCH else RC_MISMATCH), rr_mismatches = mm\<rparr>"
    unfolding reconcile_def mm_def using n [OF ok(1) d(1)] n [OF ok(2) d(2)] by (simp only: Let_def option.case prod.case rbind_simps)
  moreover have "mm = [] \<longleftrightarrow> (\<forall>s \<in> bp_symbol ` set ls \<union> bp_symbol ` set bs. \<not> positions_differ (position_in ?L s) (position_in ?B s))"
    unfolding mm_def keys_pairs by (auto simp: filter_empty_conv)
  moreover have "reconciliation_safe \<lparr>rr_status = (if mm = [] then RC_MATCH else RC_MISMATCH), rr_mismatches = mm\<rparr> \<longleftrightarrow> mm = []"
    by (simp add: reconciliation_safe_def)
  ultimately show ?thesis using that position_differs_iff [OF ok d] by (metis (no_types, lifting))
qed

text \<open>C35. Reconciliation matches the books: for validated positions in whole shares with distinct symbols,
  \<open>reconcile\<close> returns, and it is safe exactly when both sides hold the same symbols with the same quantities and
  with average prices within the tolerance; exchanging the two sides does not change whether it is safe. With
  a missing side it returns \<open>BLOCKED\<close>.\<close>
theorem reconciliation_matches_books:
  assumes valid: "\<forall>p \<in> set ls \<union> set bs. make_broker_position p = Inr p"
    and whole: "\<forall>p \<in> set ls \<union> set bs. \<exists>k. \<bar>k\<bar> \<le> 2 ^ 52 \<and> bp_quantity p = Fin (of_int k)"
    and d: "distinct (map bp_symbol ls)" "distinct (map bp_symbol bs)"
  shows "(\<exists>r r'. reconcile (Some ls) (Some bs) = Inr r \<and> reconcile (Some bs) (Some ls) = Inr r' \<and>
      (reconciliation_safe r \<longleftrightarrow> bp_symbol ` set ls = bp_symbol ` set bs \<and>
        (\<forall>p \<in> set ls. \<forall>q \<in> set bs. bp_symbol p = bp_symbol q \<longrightarrow> bp_quantity p = bp_quantity q \<and>
           \<not> fless position_tolerance (fabs (fsub (bp_average_price p) (bp_average_price q))))) \<and>
      (reconciliation_safe r' \<longleftrightarrow> reconciliation_safe r)) \<and>
    (\<exists>r. reconcile None (Some bs) = Inr r \<and> reconcile (Some ls) None = Inr r \<and> rr_status r = RC_BLOCKED)"
proof -
  let ?near = "\<lambda>p q. bp_quantity p = bp_quantity q \<and>
    \<not> fless position_tolerance (fabs (fsub (bp_average_price p) (bp_average_price q)))"
  have ok: "\<forall>p \<in> set ls. position_ok p" "\<forall>p \<in> set bs. position_ok p" using valid whole by (simp_all add: position_ok_def)
  obtain r where r: "reconcile (Some ls) (Some bs) = Inr r" and safe: "reconciliation_safe r \<longleftrightarrow>
      (\<forall>s \<in> bp_symbol ` set ls \<union> bp_symbol ` set bs. \<exists>p \<in> set ls. \<exists>q \<in> set bs. bp_symbol p = s \<and> bp_symbol q = s \<and> ?near p q)"
    by (rule reconcile_returns [OF ok d])
  obtain r' where r': "reconcile (Some bs) (Some ls) = Inr r'" and safe': "reconciliation_safe r' \<longleftrightarrow>
      (\<forall>s \<in> bp_symbol ` set bs \<union> bp_symbol ` set ls. \<exists>p \<in> set bs. \<exists>q \<in> set ls. bp_symbol p = s \<and> bp_symbol q = s \<and> ?near p q)"
    by (rule reconcile_returns [OF ok(2,1) d(2,1)])
  have near: "?near q p \<longleftrightarrow> ?near p q" if "position_ok p" "position_ok q" for p q
    using that by (elim position_okD) (auto simp only: fabs_fsub_commute)
  have same: "reconciliation_safe r' \<longleftrightarrow> reconciliation_safe r"
    unfolding safe safe' Un_commute [of "bp_symbol ` set bs"] using near ok by (intro ball_cong refl) metis
  have books: "reconciliation_safe r \<longleftrightarrow> bp_symbol ` set ls = bp_symbol ` set bs \<and>
      (\<forall>p \<in> set ls. \<forall>q \<in> set bs. bp_symbol p = bp_symbol q \<longrightarrow> ?near p q)" (is "_ \<longleftrightarrow> ?books")
  proof
    assume "reconciliation_safe r"
    then have s: "\<exists>p \<in> set ls. \<exists>q \<in> set bs. bp_symbol p = s \<and> bp_symbol q = s \<and> ?near p q"
      if "s \<in> bp_symbol ` set ls \<union> bp_symbol ` set bs" for s using that unfolding safe by blast
    have "bp_symbol ` set ls = bp_symbol ` set bs" using s by (intro equalityI subsetI) (metis UnCI image_eqI)+
    moreover have "?near p q" if pq: "p \<in> set ls" "q \<in> set bs" "bp_symbol p = bp_symbol q" for p q
    proof -
      obtain p' q' where "p' \<in> set ls" "q' \<in> set bs" "bp_symbol p' = bp_symbol p" "bp_symbol q' = bp_symbol p" "?near p' q'"
        using s [of "bp_symbol p"] pq(1) by blast
      moreover from this have "p' = p" "q' = q"
        using d pq by (auto simp: distinct_map intro: inj_onD)
      ultimately show ?thesis by simp
    qed
    ultimately show ?books by blast
  next
    assume b: ?books
    show "reconciliation_safe r" unfolding safe
    proof
      fix s assume "s \<in> bp_symbol ` set ls \<union> bp_symbol ` set bs"
      then obtain p q where pq: "p \<in> set ls" "q \<in> set bs" "bp_symbol p = s" "bp_symbol q = s"
        using b by (metis Un_absorb imageE)
      then have "?near p q" using conjunct2 [OF b, rule_format, OF pq(1,2)] by simp
      then have "bp_symbol p = s \<and> bp_symbol q = s \<and> ?near p q" using pq(3,4) by simp
      then show "\<exists>p \<in> set ls. \<exists>q \<in> set bs. bp_symbol p = s \<and> bp_symbol q = s \<and> ?near p q"
        by (rule bexI [OF bexI [OF _ pq(2)] pq(1)])
    qed
  qed
  have blocked: "\<exists>r. reconcile None (Some bs) = Inr r \<and> reconcile (Some ls) None = Inr r \<and> rr_status r = RC_BLOCKED"
    by (simp add: reconcile_def)
  show ?thesis by (rule conjI [OF _ blocked], rule exI [of _ r], rule exI [of _ r'], rule conjI [OF r conjI [OF r' conjI [OF books same]]])
qed

section \<open>Concrete inputs\<close>

definition full_evidence :: "ReadinessEvidence list" where
  "full_evidence = map (\<lambda>(name, get, kinds). \<lparr>re_gate = name, re_artifact_fingerprint = replicate 64 (CHR ''a''),
     re_dataset_version = ''d1'', re_code_version = ''c1'', re_validated_at = \<lparr>ns = 0, zone = Some 0\<rparr>,
     re_source = ''ci'', re_evidence_kind = hd kinds\<rparr>) readiness_gates"

definition all_gates :: LiveReadinessInput where
  "all_gates = \<lparr>lr_historical_data_validated = True, lr_indicators_validated = True, lr_features_leakage_safe = True,
     lr_labels_validated = True, lr_baseline_validated = True, lr_model_validated = True,
     lr_realistic_backtest_validated = True, lr_leakage_audit_passed = True, lr_oos_validated = True,
     lr_walk_forward_validated = True, lr_paper_evidence_validated = True, lr_risk_controls_validated = True,
     lr_monitoring_validated = True, lr_kill_switch_validated = True, lr_broker_integration_validated = True,
     lr_reconciliation_validated = True, lr_compliance_verified_current = True\<rparr>"

lemma readiness_needs_every_gate_witness:
  "(\<exists>rep. evaluate_readiness all_gates full_evidence True None = Inr rep \<and> lv_ready rep) \<and>
   \<not> (\<exists>rep. evaluate_readiness all_gates (tl full_evidence) True None = Inr rep \<and> lv_ready rep)"
proof -
  have all: "\<forall>(name, get, kinds) \<in> set readiness_gates. get all_gates" by (simp add: readiness_gates_def all_gates_def)
  have names: "map re_gate full_evidence = map fst readiness_gates" by code_simp
  have kinds: "list_all (\<lambda>e. sha256_digest (re_artifact_fingerprint e) \<and>
      (case gate_kinds (re_gate e) of None \<Rightarrow> False | Some ks \<Rightarrow> re_evidence_kind e \<in> set ks)) full_evidence"
    by code_simp
  have missing: "''historical_data_validated'' \<notin> set (map re_gate (tl full_evidence))"
      "''historical_data_validated'' \<in> set (map fst readiness_gates)"
    by code_simp+
  have "\<forall>e \<in> set full_evidence. sha256_digest (re_artifact_fingerprint e) \<and>
      (\<exists>ks. gate_kinds (re_gate e) = Some ks \<and> re_evidence_kind e \<in> set ks)"
    using kinds by (auto simp: list_all_iff split: option.splits)
  then have "\<exists>rep. evaluate_readiness all_gates full_evidence True None = Inr rep \<and> lv_ready rep"
    unfolding readiness_needs_every_gate names using all readiness_names_distinct by simp
  moreover have "\<not> (\<exists>rep. evaluate_readiness all_gates (tl full_evidence) True None = Inr rep \<and> lv_ready rep)"
    unfolding readiness_needs_every_gate using missing by metis
  ultimately show ?thesis ..
qed

definition sample_quotes :: "RouteQuote list" where
  "sample_quotes =
    [\<lparr>rq_broker = ''alpha'', rq_available_quantity = Fin 100, rq_expected_slippage_bps = Fin 4, rq_fee_bps = Fin 2,
       rq_latency_ms = Fin 20, rq_healthy = True\<rparr>,
     \<lparr>rq_broker = ''beta'', rq_available_quantity = Fin 100, rq_expected_slippage_bps = Fin 3, rq_fee_bps = Fin 2,
       rq_latency_ms = Fin 90, rq_healthy = True\<rparr>,
     \<lparr>rq_broker = ''gamma'', rq_available_quantity = Fin 100, rq_expected_slippage_bps = Fin 1, rq_fee_bps = Fin 1,
       rq_latency_ms = Fin 10, rq_healthy = False\<rparr>]"

definition sample_order :: OrderRequest where
  "sample_order = \<lparr>or_client_order_id = ''c1'', or_decision_id = ''d1'', or_symbol = ''ABC'', or_side = BUY,
     or_quantity = Fin 10, or_order_type = MARKET, or_limit_price = None, or_time_in_force = DAY,
     or_purpose = ''ENTRY'', or_created_at = \<lparr>ns = 0, zone = Some 0\<rparr>, or_authorization = None\<rparr>"

lemma router_picks_the_cheapest_witness:
  "\<exists>d. select_route default_routing_policy sample_order sample_quotes = Inr d \<and> rx_broker d = ''beta'' \<and>
     select_route default_routing_policy sample_order (rev sample_quotes) = Inr d \<and>
     (\<exists>q \<in> set sample_quotes. rx_broker d = rq_broker q \<and> route_eligible default_routing_policy (Fin 10) q)"
proof -
  have p: "make_routing_policy default_routing_policy = Inr default_routing_policy" by code_simp
  have "list_all (\<lambda>q. make_route_quote q = Inr q) sample_quotes" by code_simp
  then have q: "\<forall>q \<in> set sample_quotes. make_route_quote q = Inr q" by (simp only: list_all_iff)
  have "returns (\<lambda>d. rx_broker d = ''beta'') (select_route default_routing_policy sample_order sample_quotes)" by code_simp
  then obtain d where d: "select_route default_routing_policy sample_order sample_quotes = Inr d" "rx_broker d = ''beta''"
    by (auto simp: returns_iff)
  have "or_quantity sample_order = Fin 10" by (simp add: sample_order_def)
  then show ?thesis
    using router_picks_the_cheapest [OF p q, of "rev sample_quotes" sample_order d] d by (metis mset_rev)
qed

definition sample_books :: "BrokerPosition list" where
  "sample_books = [\<lparr>bp_symbol = ''ABC'', bp_quantity = Fin 10, bp_average_price = Fin 100\<rparr>,
     \<lparr>bp_symbol = ''XYZ'', bp_quantity = Fin (- 5), bp_average_price = Fin 20\<rparr>]"

lemma reconciliation_matches_books_witness:
  "\<exists>r. reconcile (Some sample_books) (Some (tl sample_books)) = Inr r \<and> \<not> reconciliation_safe r"
proof -
  have syms: "bp_symbol ` set sample_books \<noteq> bp_symbol ` set (tl sample_books)" by (simp add: sample_books_def)
  have "list_all (\<lambda>p. make_broker_position p = Inr p) (sample_books @ tl sample_books)" by code_simp
  then have "\<forall>p \<in> set sample_books \<union> set (tl sample_books). make_broker_position p = Inr p"
    by (simp only: list_all_iff set_append)
  moreover have "\<forall>p \<in> set sample_books \<union> set (tl sample_books). \<exists>k. \<bar>k\<bar> \<le> 2 ^ 52 \<and> bp_quantity p = Fin (of_int k)"
    by (auto simp: sample_books_def intro: exI [of _ 10] exI [of _ "- 5"])
  moreover have "distinct (map bp_symbol sample_books)" "distinct (map bp_symbol (tl sample_books))"
    by (simp_all add: sample_books_def)
  ultimately show ?thesis using reconciliation_matches_books [of sample_books "tl sample_books"] syms by metis
qed

end
