(* ===== verification/Labeling.thy ===== *)
theory Labeling
  imports Strategy "HOL-Library.Product_Lexorder"
begin

text \<open>
  Prediction targets: \<open>ml/labeling\<close> and the adapters that lead to it, \<open>trading/signals/directional.py\<close>,
  \<open>adapter.py\<close> and \<open>labeling_adapter.py\<close>. A candle frame is its columns, whether its time stamp column has a
  zone, and its rows; a row holds the instant (\<open>None\<close> is \<open>NaT\<close>), the text of the symbol and four numbers
  (NaN is a missing one).
\<close>

section \<open>Models\<close>

datatype PredictionLabel = PL_LONG_SUCCESS | PL_SHORT_SUCCESS | PL_NO_EDGE

fun label_value :: "PredictionLabel \<Rightarrow> string" where
  "label_value PL_LONG_SUCCESS = ''LONG_SUCCESS''"
| "label_value PL_SHORT_SUCCESS = ''SHORT_SUCCESS''"
| "label_value PL_NO_EDGE = ''NO_EDGE''"

datatype TradeDirection = TD_LONG | TD_SHORT

datatype AmbiguousOutcomePolicy = AP_NO_EDGE

record LabelingConfig =
  lc_target_r_multiple :: pyfloat
  lc_horizon_bars :: int
  lc_ambiguous_policy :: AmbiguousOutcomePolicy

definition default_labeling_config :: LabelingConfig where
  "default_labeling_config = \<lparr>lc_target_r_multiple = lit (3/2), lc_horizon_bars = 12,
     lc_ambiguous_policy = AP_NO_EDGE\<rparr>"

definition make_labeling_config :: "LabelingConfig \<Rightarrow> LabelingConfig res" where
  "make_labeling_config c =
    (if nonpos (lc_target_r_multiple c) then Inl (ValueError ''target_r_multiple must be greater than 0.'')
     else if lc_horizon_bars c \<le> 0 then Inl (ValueError ''horizon_bars must be greater than 0.'')
     else Inr c)"

record LabelingTradeCandidate =
  lt_timestamp :: pytime
  lt_symbol :: string
  lt_direction :: TradeDirection
  lt_entry_price :: pyfloat
  lt_stop_price :: pyfloat

definition make_labeling_candidate :: "LabelingTradeCandidate \<Rightarrow> LabelingTradeCandidate res" where
  "make_labeling_candidate c =
    (if lt_symbol c = [] then Inl (ValueError ''symbol must not be empty.'')
     else if nonpos (lt_entry_price c) then Inl (ValueError ''entry_price must be greater than 0.'')
     else if nonpos (lt_stop_price c) then Inl (ValueError ''stop_price must be greater than 0.'')
     else if feq (lt_entry_price c) (lt_stop_price c) then Inl (ValueError ''entry_price and stop_price must differ.'')
     else if lt_direction c = TD_LONG \<and> fle (lt_entry_price c) (lt_stop_price c)
       then Inl (ValueError ''A LONG stop_price must be below entry_price.'')
     else if lt_direction c = TD_SHORT \<and> fle (lt_stop_price c) (lt_entry_price c)
       then Inl (ValueError ''A SHORT stop_price must be above entry_price.'')
     else Inr c)"

record LabelingOutcome =
  lo_timestamp :: pytime
  lo_symbol :: string
  lo_label :: PredictionLabel
  lo_entry_price :: pyfloat
  lo_stop_price :: pyfloat
  lo_target_price :: pyfloat
  lo_horizon_bars :: int
  lo_outcome_timestamp :: "int option"
  lo_outcome_bars :: "nat option"
  lo_outcome_reason :: string

record DecisionLabelingOutcome =
  dl_timestamp :: pytime
  dl_symbol :: string
  dl_label :: PredictionLabel
  dl_long_outcome :: LabelingOutcome
  dl_short_outcome :: LabelingOutcome
  dl_outcome_timestamp :: "int option"
  dl_outcome_bars :: "nat option"
  dl_outcome_reason :: string

section \<open>Candles\<close>

record candle_row =
  kr_timestamp :: "int option"
  kr_symbol :: string
  kr_open :: pyfloat
  kr_high :: pyfloat
  kr_low :: pyfloat
  kr_close :: pyfloat

record candle_frame =
  kf_columns :: "string list"
  kf_zoned :: bool
  kf_rows :: "candle_row list"

definition candle_columns :: "string list" where
  "candle_columns = [''timestamp'', ''symbol'', ''open'', ''high'', ''low'', ''close'']"

definition missing_price :: "candle_row \<Rightarrow> bool" where
  "missing_price k = list_ex isnan [kr_open k, kr_high k, kr_low k, kr_close k]"

definition candle_instant :: "candle_row \<Rightarrow> int" where
  "candle_instant k = (case kr_timestamp k of None \<Rightarrow> 0 | Some t \<Rightarrow> t)"

definition candle_key :: "candle_row \<Rightarrow> string \<times> int" where
  "candle_key k = (kr_symbol k, candle_instant k)"

definition validate_candles :: "candle_frame \<Rightarrow> candle_row list res" where
  "validate_candles f = (let rows = kf_rows f in
     if \<not> list_all (\<lambda>c. c \<in> set (kf_columns f)) candle_columns
       then Inl (ValueError ''candles is missing required columns'')
     else if list_ex (\<lambda>k. kr_timestamp k = None) rows then Inl (ValueError ''candles contains invalid timestamps.'')
     else if list_ex missing_price rows then Inl (ValueError ''candles contains missing OHLC values.'')
     else if list_ex (\<lambda>k. fless (kr_high k) (kr_low k)) rows
       then Inl (ValueError ''candle high cannot be below candle low.'')
     else if list_ex (\<lambda>k. strip (kr_symbol k) = []) rows then Inl (ValueError ''candles contains an empty symbol.'')
     else Inr (sort_key candle_key rows))"

section \<open>One candidate\<close>

definition calculate_target :: "LabelingTradeCandidate \<Rightarrow> LabelingConfig \<Rightarrow> pyfloat" where
  "calculate_target c cfg =
    (let risk_distance = fabs (fsub (lt_entry_price c) (lt_stop_price c)) in
     if lt_direction c = TD_LONG then fadd (lt_entry_price c) (fmul (lc_target_r_multiple cfg) risk_distance)
     else fsub (lt_entry_price c) (fmul (lc_target_r_multiple cfg) risk_distance))"

definition make_outcome :: "LabelingTradeCandidate \<Rightarrow> pyfloat \<Rightarrow> LabelingConfig \<Rightarrow> PredictionLabel \<Rightarrow> int option
     \<Rightarrow> nat option \<Rightarrow> string \<Rightarrow> LabelingOutcome" where
  "make_outcome c target cfg label timestamp bars reason =
     \<lparr>lo_timestamp = lt_timestamp c, lo_symbol = lt_symbol c, lo_label = label, lo_entry_price = lt_entry_price c,
      lo_stop_price = lt_stop_price c, lo_target_price = target, lo_horizon_bars = lc_horizon_bars cfg,
      lo_outcome_timestamp = timestamp, lo_outcome_bars = bars, lo_outcome_reason = reason\<rparr>"

definition label_target_hit :: "LabelingTradeCandidate \<Rightarrow> pyfloat \<Rightarrow> candle_row \<Rightarrow> bool" where
  "label_target_hit c target k = (if lt_direction c = TD_LONG then fle target (kr_high k) else fle (kr_low k) target)"

definition label_stop_hit :: "LabelingTradeCandidate \<Rightarrow> candle_row \<Rightarrow> bool" where
  "label_stop_hit c k = (if lt_direction c = TD_LONG then fle (kr_low k) (lt_stop_price c)
     else fle (lt_stop_price c) (kr_high k))"

definition success_label :: "TradeDirection \<Rightarrow> PredictionLabel" where
  "success_label d = (if d = TD_LONG then PL_LONG_SUCCESS else PL_SHORT_SUCCESS)"

text \<open>The loop over the future candles: label, time stamp, number and reason of the bar that decides.\<close>

fun scan_bars :: "LabelingTradeCandidate \<Rightarrow> pyfloat \<Rightarrow> nat \<Rightarrow> candle_row list
     \<Rightarrow> (PredictionLabel \<times> int option \<times> nat \<times> string) option" where
  "scan_bars c target n [] = None"
| "scan_bars c target n (k # ks) =
    (if label_target_hit c target k \<and> label_stop_hit c k
       then Some (PL_NO_EDGE, kr_timestamp k, n, ''AMBIGUOUS_TARGET_AND_STOP_SAME_BAR'')
     else if label_target_hit c target k then Some (success_label (lt_direction c), kr_timestamp k, n, ''TARGET_HIT'')
     else if label_stop_hit c k then Some (PL_NO_EDGE, kr_timestamp k, n, ''STOP_HIT'')
     else scan_bars c target (n + 1) ks)"

definition future_candles :: "candle_row list \<Rightarrow> LabelingTradeCandidate \<Rightarrow> candle_row list" where
  "future_candles validated c = filter (\<lambda>k. ns (lt_timestamp c) < candle_instant k)
     (filter (\<lambda>k. kr_symbol k = lt_symbol c) validated)"

definition label_candidate :: "candle_frame \<Rightarrow> LabelingTradeCandidate \<Rightarrow> LabelingConfig \<Rightarrow> LabelingOutcome res" where
  "label_candidate f c cfg = rbind (validate_candles f) (\<lambda>validated.
     if kf_zoned f \<noteq> aware (lt_timestamp c) then Inl (TypeError ''Invalid comparison between time stamps'')
     else (let target = calculate_target c cfg; available = future_candles validated c;
               future = take (nat (lc_horizon_bars cfg)) available; result = make_outcome c target cfg in
       if future = [] then Inr (result PL_NO_EDGE None None ''INSUFFICIENT_FUTURE_BARS'')
       else (case scan_bars c target 1 future of
           Some (label, timestamp, bars, reason) \<Rightarrow> Inr (result label timestamp (Some bars) reason)
         | None \<Rightarrow>
             if int (length available) < lc_horizon_bars cfg
               then Inr (result PL_NO_EDGE None None ''INSUFFICIENT_FUTURE_BARS'')
             else Inr (result PL_NO_EDGE (kr_timestamp (last future)) (Some (length future)) ''HORIZON_EXPIRED''))))"

text \<open>The rows of the audit frame are the outcomes.\<close>

fun label_candidates :: "candle_frame \<Rightarrow> LabelingTradeCandidate list \<Rightarrow> LabelingConfig \<Rightarrow> LabelingOutcome list res" where
  "label_candidates f [] cfg = Inr []"
| "label_candidates f (c # cs) cfg = rbind (label_candidate f c cfg) (\<lambda>x.
     rbind (label_candidates f cs cfg) (\<lambda>xs. Inr (x # xs)))"

section \<open>One decision\<close>

definition combine_outcomes :: "LabelingOutcome \<Rightarrow> LabelingOutcome \<Rightarrow> PredictionLabel \<times> int option \<times> nat option \<times> string" where
  "combine_outcomes l s =
    (if lo_label l = PL_LONG_SUCCESS \<and> lo_label s \<noteq> PL_SHORT_SUCCESS
       then (PL_LONG_SUCCESS, lo_outcome_timestamp l, lo_outcome_bars l, ''LONG_SUCCESS'')
     else if lo_label s = PL_SHORT_SUCCESS \<and> lo_label l \<noteq> PL_LONG_SUCCESS
       then (PL_SHORT_SUCCESS, lo_outcome_timestamp s, lo_outcome_bars s, ''SHORT_SUCCESS'')
     else if lo_label l = PL_LONG_SUCCESS \<and> lo_label s = PL_SHORT_SUCCESS
       then (case (lo_outcome_bars l, lo_outcome_bars s) of
           (Some m, Some n) \<Rightarrow>
             if m < n then (PL_LONG_SUCCESS, lo_outcome_timestamp l, lo_outcome_bars l, ''LONG_SUCCESS_BEFORE_SHORT'')
             else if n < m then (PL_SHORT_SUCCESS, lo_outcome_timestamp s, lo_outcome_bars s, ''SHORT_SUCCESS_BEFORE_LONG'')
             else (PL_NO_EDGE, lo_outcome_timestamp l, lo_outcome_bars l, ''AMBIGUOUS_LONG_AND_SHORT_SUCCESS_SAME_BAR'')
         | _ \<Rightarrow> (PL_NO_EDGE, None, None, ''AMBIGUOUS_DIRECTIONAL_OUTCOME''))
     else (PL_NO_EDGE, None, None, ''NO_DIRECTIONAL_SUCCESS''))"

definition label_decision :: "candle_frame \<Rightarrow> LabelingTradeCandidate \<Rightarrow> LabelingTradeCandidate \<Rightarrow> LabelingConfig
     \<Rightarrow> DecisionLabelingOutcome res" where
  "label_decision f long_candidate short_candidate cfg =
    (if lt_direction long_candidate \<noteq> TD_LONG then Inl (ValueError ''long_candidate must have LONG direction.'')
     else if lt_direction short_candidate \<noteq> TD_SHORT then Inl (ValueError ''short_candidate must have SHORT direction.'')
     else if \<not> time_eq (lt_timestamp long_candidate) (lt_timestamp short_candidate)
       then Inl (ValueError ''LONG and SHORT candidates must have the same timestamp.'')
     else if lt_symbol long_candidate \<noteq> lt_symbol short_candidate
       then Inl (ValueError ''LONG and SHORT candidates must have the same symbol.'')
     else rbind (label_candidate f long_candidate cfg) (\<lambda>l. rbind (label_candidate f short_candidate cfg) (\<lambda>s.
       case combine_outcomes l s of (label, timestamp, bars, reason) \<Rightarrow>
       Inr \<lparr>dl_timestamp = lt_timestamp long_candidate, dl_symbol = lt_symbol long_candidate, dl_label = label,
         dl_long_outcome = l, dl_short_outcome = s, dl_outcome_timestamp = timestamp, dl_outcome_bars = bars,
         dl_outcome_reason = reason\<rparr>)))"

section \<open>Validation\<close>

definition validate_candle_frame :: "candle_frame \<Rightarrow> unit res" where
  "validate_candle_frame f = (let rows = kf_rows f in
     if \<not> list_all (\<lambda>c. c \<in> set (kf_columns f)) candle_columns then Inl (ValueError ''Missing required candle columns'')
     else if rows = [] then Inl (ValueError ''candles must not be empty.'')
     else if list_ex (\<lambda>k. kr_timestamp k = None) rows then Inl (ValueError ''candles contains invalid timestamps.'')
     else if list_ex missing_price rows then Inl (ValueError ''candles contains invalid values'')
     else if list_ex (\<lambda>k. fless (kr_high k) (kr_low k)) rows
       then Inl (ValueError ''Candle high cannot be lower than candle low.'')
     else Inr ())"

definition validate_against_candles :: "candle_frame \<Rightarrow> LabelingTradeCandidate \<Rightarrow> unit res" where
  "validate_against_candles f c = rbind (validate_candle_frame f) (\<lambda>_.
     let own = filter (\<lambda>k. kr_symbol k = lt_symbol c) (kf_rows f) in
     if own = [] then Inl (ValueError ''No candle data found for symbol'')
     else if \<not> distinct (map kr_timestamp own) then Inl (ValueError ''Duplicate timestamps detected for candidate symbol.'')
     else if kf_zoned f \<noteq> aware (lt_timestamp c) then Inl (TypeError ''Invalid comparison between time stamps'')
     else if \<not> list_ex (\<lambda>k. ns (lt_timestamp c) < candle_instant k) own
       then Inl (ValueError ''Candidate has no future candles available for labeling.'')
     else Inr ())"

text \<open>On the audit frame of \<open>label_candidates\<close>, whose columns and labels are the required ones.\<close>

definition validate_labeling_output :: "LabelingOutcome list \<Rightarrow> unit res" where
  "validate_labeling_output out =
    (if \<not> list_all (\<lambda>x. label_value (lo_label x) \<in> {''LONG_SUCCESS'', ''SHORT_SUCCESS'', ''NO_EDGE''}) out
       then Inl (ValueError ''Invalid prediction labels'')
     else if list_ex (\<lambda>x. nonpos (lo_entry_price x)) out then Inl (ValueError ''Output contains invalid entry prices.'')
     else if list_ex (\<lambda>x. nonpos (lo_stop_price x)) out then Inl (ValueError ''Output contains invalid stop prices.'')
     else if list_ex (\<lambda>x. nonpos (lo_target_price x)) out then Inl (ValueError ''Output contains invalid target prices.'')
     else if list_ex (\<lambda>x. lo_horizon_bars x \<le> 0) out then Inl (ValueError ''Output contains invalid horizon values.'')
     else Inr ())"

section \<open>From a decision row to its label\<close>

definition build_directional_candidates :: "row \<Rightarrow> CandidateConfig \<Rightarrow> (TradeCandidate \<times> TradeCandidate) res" where
  "build_directional_candidates r cfg =
     rbind (build_candidate r CD_LONG cfg) (\<lambda>l. rbind (build_candidate r CD_SHORT cfg) (\<lambda>s.
       if \<not> time_eq (tc_timestamp l) (tc_timestamp s)
         then Inl (ValueError ''LONG and SHORT candidates must have the same timestamp'')
       else if tc_symbol l \<noteq> tc_symbol s then Inl (ValueError ''LONG and SHORT candidates must have the same symbol'')
       else Inr (l, s)))"

definition to_labeling_candidate :: "TradeCandidate \<Rightarrow> LabelingTradeCandidate res" where
  "to_labeling_candidate c = make_labeling_candidate \<lparr>lt_timestamp = tc_timestamp c, lt_symbol = tc_symbol c,
     lt_direction = (case tc_direction c of CD_LONG \<Rightarrow> TD_LONG | CD_SHORT \<Rightarrow> TD_SHORT),
     lt_entry_price = tc_entry_price c, lt_stop_price = tc_stop_price c\<rparr>"

definition build_candidate_from_decision :: "StrategyDecision \<Rightarrow> row \<Rightarrow> CandidateConfig \<Rightarrow> TradeCandidate option res" where
  "build_candidate_from_decision d r cfg =
    (case row_timestamp r of None \<Rightarrow> Inl (ValueError ''candidate input row is missing timestamp'')
     | Some t \<Rightarrow>
     case row_symbol r of None \<Rightarrow> Inl (ValueError ''candidate input row is missing symbol'')
     | Some name \<Rightarrow>
       if \<not> aware t then Inl (ValueError ''candidate input row timestamp must be timezone-aware'')
       else if \<not> time_eq (sd_timestamp d) t
         then Inl (ValueError ''strategy decision timestamp does not match candidate input row timestamp'')
       else if strip name \<noteq> sd_symbol d
         then Inl (ValueError ''strategy decision symbol does not match candidate input row symbol'')
       else if sd_direction d = NO_TRADE then Inr None
       else rbind (build_candidate r (if sd_direction d = LONG then CD_LONG else CD_SHORT) cfg) (\<lambda>c. Inr (Some c)))"

end
