(* ===== verification/LabelingProperties.thy ===== *)
theory LabelingProperties
  imports Labeling
begin

text \<open>
  What a prediction target means: a success is the first touch of the target within the horizon, a decided
  label is final whatever candles follow, and the label of a decision row compares the first touches of its
  two candidates.
\<close>

section \<open>The bar that decides\<close>

definition bar_untouched :: "LabelingTradeCandidate \<Rightarrow> pyfloat \<Rightarrow> candle_row \<Rightarrow> bool" where
  "bar_untouched c target k \<longleftrightarrow> \<not> label_target_hit c target k \<and> \<not> label_stop_hit c k"

definition first_success :: "LabelingTradeCandidate \<Rightarrow> pyfloat \<Rightarrow> candle_row list \<Rightarrow> nat \<Rightarrow> bool" where
  "first_success c target ks i \<longleftrightarrow> i < length ks \<and> label_target_hit c target (ks ! i) \<and> \<not> label_stop_hit c (ks ! i) \<and>
     (\<forall>j < i. bar_untouched c target (ks ! j))"

lemma first_success_Cons:
  "first_success c target (k # ks) i \<longleftrightarrow>
     (if i = 0 then label_target_hit c target k \<and> \<not> label_stop_hit c k
      else bar_untouched c target k \<and> first_success c target ks (i - 1))"
  by (cases i) (auto simp: first_success_def less_Suc_eq_0_disj All_less_Suc2)

lemma first_success_unique: "first_success c t ks i \<Longrightarrow> first_success c t ks j \<Longrightarrow> i = j"
  unfolding first_success_def bar_untouched_def by (metis linorder_neqE_nat)

lemma scan_none: "scan_bars c target n ks = None \<Longrightarrow> \<not> first_success c target ks i"
  by (induction ks arbitrary: n i)
    (auto simp: first_success_Cons first_success_def [of c target "[]"] bar_untouched_def split: if_splits)

lemma scan_some:
  assumes "scan_bars c target n ks = Some (l, ts, b, r)"
  shows "n \<le> b" "b < n + length ks" "ts = kr_timestamp (ks ! (b - n))" "l \<in> {success_label (lt_direction c), PL_NO_EDGE}"
    "l = success_label (lt_direction c) \<longleftrightarrow> first_success c target ks (b - n)"
    "first_success c target ks i \<Longrightarrow> i = b - n"
  using assms
proof (induction ks arbitrary: n i)
  case (Cons k ks)
  have ne: "success_label (lt_direction c) \<noteq> PL_NO_EDGE" by (simp add: success_label_def)
  note defs = first_success_Cons bar_untouched_def
  {
    case 1 then show ?case using Cons.IH(1) [of "n + 1"] by (auto split: if_splits)
  next
    case 2 then show ?case using Cons.IH(2) [of "n + 1"] by (auto split: if_splits)
  next
    case 3
    then show ?case using Cons.IH(1,3) [of "n + 1"] by (auto split: if_splits simp: nth_Cons')
  next
    case 4 then show ?case using Cons.IH(4) [of "n + 1"] by (auto split: if_splits)
  next
    case 5
    then show ?case using Cons.IH(1,5) [of "n + 1"] ne by (auto simp: defs split: if_splits)
  next
    case 6
    then show ?case using Cons.IH(1) [of "n + 1"] Cons.IH(6) [of "i - 1" "n + 1"] ne by (auto simp: defs split: if_splits)
  }
qed simp_all

lemma scan_append:
  "scan_bars c target n (ks @ ks') = (case scan_bars c target n ks of None \<Rightarrow> scan_bars c target (n + length ks) ks' | Some x \<Rightarrow> Some x)"
  by (induction ks arbitrary: n) (auto split: option.splits)

section \<open>The future of a decision\<close>

definition after_decision :: "LabelingTradeCandidate \<Rightarrow> candle_row \<Rightarrow> bool" where
  "after_decision c k \<longleftrightarrow> kr_symbol k = lt_symbol c \<and> ns (lt_timestamp c) < candle_instant k"

lemma insort_key_cong: "\<forall>y \<in> set ys. f x \<le> f y \<longleftrightarrow> g x \<le> g y \<Longrightarrow> insort_key f x ys = insort_key g x ys"
  by (induction ys) auto

lemma sort_key_same_order:
  "\<forall>x \<in> set xs. \<forall>y \<in> set xs. f x \<le> f y \<longleftrightarrow> g x \<le> g y \<Longrightarrow> sort_key f xs = sort_key g xs"
proof (induction xs)
  case (Cons x xs)
  then have "insort_key f x (sort_key g xs) = insort_key g x (sort_key g xs)" by (intro insort_key_cong) simp
  then show ?case using Cons by simp
qed simp

lemma insort_key_append: "\<forall>y \<in> set ys. f x < f y \<Longrightarrow> insort_key f x (xs @ ys) = insort_key f x xs @ ys"
proof (induction xs)
  case Nil
  then show ?case by (cases ys) auto
qed auto

lemma sort_key_append:
  "\<forall>x \<in> set xs. \<forall>y \<in> set ys. f x < f y \<Longrightarrow> sort_key f (xs @ ys) = sort_key f xs @ sort_key f ys"
  by (induction xs) (simp_all add: insort_key_append)

lemma future_candles_sorted:
  assumes "validate_candles f = Inr rows"
  shows "future_candles rows c = sort_key candle_instant (filter (after_decision c) (kf_rows f))"
proof -
  have "rows = sort_key candle_key (kf_rows f)"
    using assms by (auto simp: validate_candles_def Let_def split: if_splits)
  then have "future_candles rows c = sort_key candle_key (filter (after_decision c) (kf_rows f))"
    by (simp add: future_candles_def filter_sort after_decision_def [abs_def])
  also have "\<dots> = sort_key candle_instant (filter (after_decision c) (kf_rows f))"
    by (rule sort_key_same_order) (auto simp: after_decision_def candle_key_def)
  finally show ?thesis .
qed

text \<open>The window of a decision: the first candles of its symbol after it, in the order of time.\<close>

definition label_window :: "candle_frame \<Rightarrow> LabelingTradeCandidate \<Rightarrow> LabelingConfig \<Rightarrow> candle_row list" where
  "label_window f c cfg = take (nat (lc_horizon_bars cfg)) (sort_key candle_instant (filter (after_decision c) (kf_rows f)))"

lemma label_candidate_eq:
  assumes v: "validate_candles f = Inr rows" and z: "kf_zoned f = aware (lt_timestamp c)"
  shows "label_candidate f c cfg = Inr (let target = calculate_target c cfg; w = label_window f c cfg;
       result = make_outcome c target cfg in
     (case scan_bars c target 1 w of
        Some (label, timestamp, bars, reason) \<Rightarrow> result label timestamp (Some bars) reason
      | None \<Rightarrow> if w = [] \<or> length (filter (after_decision c) (kf_rows f)) < nat (lc_horizon_bars cfg)
          then result PL_NO_EDGE None None ''INSUFFICIENT_FUTURE_BARS''
          else result PL_NO_EDGE (kr_timestamp (last w)) (Some (length w)) ''HORIZON_EXPIRED''))"
  unfolding label_candidate_def v rbind_simps future_candles_sorted [OF v] label_window_def [symmetric] Let_def
  using z by (auto split: option.splits simp: zless_nat_eq_int_zless)

lemma label_candidate_returns:
  assumes "label_candidate f c cfg = Inr x"
  obtains rows where "validate_candles f = Inr rows" "kf_zoned f = aware (lt_timestamp c)"
  using assms by (auto simp: label_candidate_def split: if_splits)

lemma window_after:
  assumes "k \<in> set (label_window f c cfg)"
  shows "after_decision c k"
  using assms unfolding label_window_def by (auto dest: in_set_takeD)

section \<open>What a label says\<close>

lemma labelled:
  assumes "label_candidate f c cfg = Inr x"
  shows "lo_label x = success_label (lt_direction c) \<longleftrightarrow>
      (\<exists>i. first_success c (calculate_target c cfg) (label_window f c cfg) i)"
    and "lo_label x \<in> {success_label (lt_direction c), PL_NO_EDGE}"
    and "lo_outcome_bars x = Some b \<Longrightarrow> 1 \<le> b \<and> b \<le> length (label_window f c cfg) \<and>
      lo_outcome_timestamp x = kr_timestamp (label_window f c cfg ! (b - 1))"
    and "first_success c (calculate_target c cfg) (label_window f c cfg) i \<Longrightarrow> lo_outcome_bars x = Some (i + 1)"
proof -
  let ?t = "calculate_target c cfg" and ?w = "label_window f c cfg"
  obtain rows where v: "validate_candles f = Inr rows" and z: "kf_zoned f = aware (lt_timestamp c)"
    using assms by (rule label_candidate_returns)
  have ne: "success_label (lt_direction c) \<noteq> PL_NO_EDGE" by (simp add: success_label_def)
  note x = assms [unfolded label_candidate_eq [OF v z] Let_def, simplified]
  have all: "(lo_label x = success_label (lt_direction c) \<longleftrightarrow> (\<exists>i. first_success c ?t ?w i)) \<and>
      lo_label x \<in> {success_label (lt_direction c), PL_NO_EDGE} \<and>
      (lo_outcome_bars x = Some b \<longrightarrow> 1 \<le> b \<and> b \<le> length ?w \<and> lo_outcome_timestamp x = kr_timestamp (?w ! (b - 1))) \<and>
      (first_success c ?t ?w i \<longrightarrow> lo_outcome_bars x = Some (i + 1))"
  proof (cases "scan_bars c ?t 1 ?w")
    case None
    then have "\<not> first_success c ?t ?w j" for j by (rule scan_none)
    then show ?thesis using x None ne by (auto simp: make_outcome_def last_conv_nth Suc_le_eq split: if_splits)
  next
    case (Some r)
    obtain l ts n reason where r: "r = (l, ts, n, reason)" by (cases r)
    note sc = scan_some [OF Some [unfolded r]]
    have lx: "lo_label x = l" "lo_outcome_bars x = Some n" "lo_outcome_timestamp x = ts"
      using x Some r by (auto simp: make_outcome_def)
    have ex: "(\<exists>i. first_success c ?t ?w i) \<longleftrightarrow> first_success c ?t ?w (n - 1)" using sc(6) by metis
    have ni: "first_success c ?t ?w i \<longrightarrow> Some n = Some (i + 1)" using sc(1) sc(6) [of i] by auto
    show ?thesis unfolding lx ex by (intro conjI sc(4,5) ni) (use sc(1-3) in auto)
  qed
  show "lo_label x = success_label (lt_direction c) \<longleftrightarrow> (\<exists>i. first_success c ?t ?w i)"
    by (rule conjunct1 [OF all])
  show "lo_label x \<in> {success_label (lt_direction c), PL_NO_EDGE}"
    by (rule conjunct1 [OF conjunct2 [OF all]])
  show "lo_outcome_bars x = Some b \<Longrightarrow> 1 \<le> b \<and> b \<le> length ?w \<and> lo_outcome_timestamp x = kr_timestamp (?w ! (b - 1))"
    by (rule mp [OF conjunct1 [OF conjunct2 [OF conjunct2 [OF all]]]])
  show "first_success c ?t ?w i \<Longrightarrow> lo_outcome_bars x = Some (i + 1)"
    by (rule mp [OF conjunct2 [OF conjunct2 [OF conjunct2 [OF all]]]])
qed

text \<open>C36. A label is a first touch: when \<open>label_candidate\<close> returns, a candidate is a success exactly when some candle
  of its window (the first \<open>horizon_bars\<close> candles of its symbol strictly after the decision, in the order of
  time) reaches the target without the stop and no earlier candle of the window reaches either; otherwise it is
  \<open>NO_EDGE\<close>, never the other direction; and a decided outcome names a candle of the window, after the decision
  and within the horizon.\<close>
theorem label_is_first_touch:
  assumes "label_candidate f c cfg = Inr x" and "validate_candles f = Inr rows"
  shows "let target = calculate_target c cfg; window = take (nat (lc_horizon_bars cfg)) (future_candles rows c) in
    lo_label x \<in> {success_label (lt_direction c), PL_NO_EDGE} \<and>
    (lo_label x = success_label (lt_direction c) \<longleftrightarrow>
      (\<exists>i < length window. label_target_hit c target (window ! i) \<and> \<not> label_stop_hit c (window ! i) \<and>
        (\<forall>j < i. \<not> label_target_hit c target (window ! j) \<and> \<not> label_stop_hit c (window ! j)))) \<and>
    (\<forall>b. lo_outcome_bars x = Some b \<longrightarrow> 1 \<le> b \<and> int b \<le> lc_horizon_bars cfg \<and>
       (\<exists>t. lo_outcome_timestamp x = Some t \<and> kr_timestamp (window ! (b - 1)) = Some t \<and> ns (lt_timestamp c) < t))"
proof -
  have w: "take (nat (lc_horizon_bars cfg)) (future_candles rows c) = label_window f c cfg"
    by (simp add: label_window_def future_candles_sorted [OF assms(2)])
  have stamps: "kr_timestamp k \<noteq> None" if "k \<in> set (label_window f c cfg)" for k
  proof -
    have "k \<in> set (kf_rows f)" using that unfolding label_window_def by (auto dest: in_set_takeD)
    then show ?thesis using assms(2) by (auto simp: validate_candles_def Let_def list_ex_iff split: if_splits)
  qed
  have bars: "1 \<le> b \<and> int b \<le> lc_horizon_bars cfg \<and> (\<exists>t. lo_outcome_timestamp x = Some t \<and>
       kr_timestamp (label_window f c cfg ! (b - 1)) = Some t \<and> ns (lt_timestamp c) < t)" if b: "lo_outcome_bars x = Some b" for b
  proof -
    note l = labelled(3) [OF assms(1) b]
    let ?k = "label_window f c cfg ! (b - 1)"
    have k: "?k \<in> set (label_window f c cfg)" using l by (intro nth_mem) auto
    obtain t where t: "kr_timestamp ?k = Some t" using stamps [OF k] by blast
    have "ns (lt_timestamp c) < t" using window_after [OF k] t by (simp add: after_decision_def candle_instant_def)
    moreover have "length (label_window f c cfg) \<le> nat (lc_horizon_bars cfg)" by (simp add: label_window_def)
    ultimately show ?thesis using l t by auto
  qed
  show ?thesis unfolding Let_def w
    using labelled(1,2) [OF assms(1)] bars unfolding first_success_def bar_untouched_def by blast
qed

text \<open>C37. A decided label is final: once \<open>label_candidate\<close> has decided an outcome, every frame with the same candles
  of the symbol after the decision and any later ones gives the same outcome, whatever it holds of other symbols
  and of the time before the decision. Only an undecided outcome can change when the history is continued.\<close>
theorem decided_label_is_final:
  assumes "label_candidate f c cfg = Inr x" and "lo_outcome_bars x \<noteq> None"
    and "validate_candles g = Inr rows" and "kf_zoned g = kf_zoned f"
    and "filter (after_decision c) (kf_rows g) = filter (after_decision c) (kf_rows f) @ later"
    and "\<forall>k \<in> set (filter (after_decision c) (kf_rows f)). \<forall>q \<in> set later. candle_instant k < candle_instant q"
  shows "label_candidate g c cfg = Inr x"
proof -
  let ?t = "calculate_target c cfg" and ?h = "nat (lc_horizon_bars cfg)"
  let ?F = "filter (after_decision c) (kf_rows f)" and ?s = "sort_key candle_instant"
  obtain rs where v: "validate_candles f = Inr rs" and z: "kf_zoned f = aware (lt_timestamp c)"
    using assms(1) by (rule label_candidate_returns)
  have z': "kf_zoned g = aware (lt_timestamp c)" using z assms(4) by simp
  have wf: "label_window f c cfg = take ?h (?s ?F)" by (simp add: label_window_def)
  have wg: "label_window g c cfg = take ?h (?s ?F) @ take (?h - length ?F) (?s later)"
    unfolding label_window_def assms(5) sort_key_append [OF assms(6)] by simp
  note x = assms(1) [unfolded label_candidate_eq [OF v z] Let_def wf, simplified]
  show ?thesis
  proof (cases "scan_bars c ?t 1 (take ?h (?s ?F))")
    case None
    then have full: "?h \<le> length ?F" "take ?h (?s ?F) \<noteq> []"
      using x assms(2) by (auto simp: make_outcome_def split: if_splits)
    then have "label_window g c cfg = take ?h (?s ?F)" unfolding wg by simp
    then show ?thesis using x None full unfolding label_candidate_eq [OF assms(3) z'] Let_def assms(5) by (simp add: not_less)
  next
    case (Some r)
    then have "scan_bars c ?t 1 (label_window g c cfg) = Some r" unfolding wg scan_append by simp
    then show ?thesis using x Some unfolding label_candidate_eq [OF assms(3) z'] Let_def by simp
  qed
qed

section \<open>Decision rows\<close>

lemma built_candidate_made: "build_candidate r dir cfg = Inr c \<Longrightarrow> make_candidate c = Inr c"
  by (elim build_candidate_cases) (metis make_candidate_id)

lemma built_candidate_converts:
  assumes "build_candidate r dir cfg = Inr c"
  shows "to_labeling_candidate c = Inr \<lparr>lt_timestamp = tc_timestamp c, lt_symbol = tc_symbol c,
     lt_direction = (case dir of CD_LONG \<Rightarrow> TD_LONG | CD_SHORT \<Rightarrow> TD_SHORT),
     lt_entry_price = tc_entry_price c, lt_stop_price = tc_stop_price c\<rparr>" and "aware (tc_timestamp c)"
proof -
  note g = build_candidate_geometry [OF assms]
  note m = make_candidateD [OF built_candidate_made [OF assms]]
  then show "aware (tc_timestamp c)" by blast
  have symbol: "tc_symbol c \<noteq> []" using m by (auto simp: blank_def strip_def)
  obtain e p where ep: "tc_entry_price c = Fin e" "tc_stop_price c = Fin p" "0 < e" "0 < p"
    using g(2-5) by (cases "tc_entry_price c"; cases "tc_stop_price c") auto
  show "to_labeling_candidate c = Inr \<lparr>lt_timestamp = tc_timestamp c, lt_symbol = tc_symbol c,
     lt_direction = (case dir of CD_LONG \<Rightarrow> TD_LONG | CD_SHORT \<Rightarrow> TD_SHORT),
     lt_entry_price = tc_entry_price c, lt_stop_price = tc_stop_price c\<rparr>"
    using g(1,6) symbol ep unfolding to_labeling_candidate_def make_labeling_candidate_def
    by (cases dir) (auto simp: stop_on_side_def)
qed

lemma combined_label:
  assumes l: "label_candidate f lc cfg = Inr l" "lt_direction lc = TD_LONG"
    and s: "label_candidate f sc cfg = Inr s" "lt_direction sc = TD_SHORT"
    and w: "label_window f sc cfg = label_window f lc cfg" and c: "combine_outcomes l s = (label, ts, bars, reason)"
  defines "long_at \<equiv> first_success lc (calculate_target lc cfg) (label_window f lc cfg)"
    and "short_at \<equiv> first_success sc (calculate_target sc cfg) (label_window f lc cfg)"
  shows "label = PL_LONG_SUCCESS \<longleftrightarrow> (\<exists>i. long_at i \<and> (\<forall>j. short_at j \<longrightarrow> i < j))"
    and "label = PL_SHORT_SUCCESS \<longleftrightarrow> (\<exists>j. short_at j \<and> (\<forall>i. long_at i \<longrightarrow> j < i))"
    and "reason \<noteq> ''AMBIGUOUS_DIRECTIONAL_OUTCOME''"
proof -
  have labels: "lo_label l = PL_LONG_SUCCESS \<longleftrightarrow> (\<exists>i. long_at i)" "lo_label s = PL_SHORT_SUCCESS \<longleftrightarrow> (\<exists>j. short_at j)"
    using labelled(1) [OF l(1)] labelled(1) [OF s(1)] l(2) s(2) by (simp_all add: success_label_def long_at_def short_at_def w)
  have bars: "lo_outcome_bars l = Some (i + 1)" if "long_at i" for i
    using labelled(4) [OF l(1)] that by (simp add: long_at_def)
  have bars': "lo_outcome_bars s = Some (j + 1)" if "short_at j" for j
    using labelled(4) [OF s(1)] that by (simp add: short_at_def w)
  have one: "i = i'" if "long_at i" "long_at i'" for i i' using that unfolding long_at_def by (rule first_success_unique)
  have one': "j = j'" if "short_at j" "short_at j'" for j j' using that unfolding short_at_def by (rule first_success_unique)
  have "(label = PL_LONG_SUCCESS \<longleftrightarrow> (\<exists>i. long_at i \<and> (\<forall>j. short_at j \<longrightarrow> i < j))) \<and>
      (label = PL_SHORT_SUCCESS \<longleftrightarrow> (\<exists>j. short_at j \<and> (\<forall>i. long_at i \<longrightarrow> j < i))) \<and>
      reason \<noteq> ''AMBIGUOUS_DIRECTIONAL_OUTCOME''"
  proof (cases "\<exists>i. long_at i")
    case True
    then obtain i where i: "long_at i" by blast
    have li: "long_at x \<longleftrightarrow> x = i" for x using i one by blast
    show ?thesis
    proof (cases "\<exists>j. short_at j")
      case True
      then obtain j where j: "short_at j" by blast
      have sj: "short_at x \<longleftrightarrow> x = j" for x using j one' by blast
      show ?thesis using c labels bars [OF i] bars' [OF j] by (auto simp: combine_outcomes_def li sj split: if_splits)
    next
      case False
      then show ?thesis using c labels by (auto simp: combine_outcomes_def li split: if_splits)
    qed
  next
    case False
    then show ?thesis using c labels by (auto simp: combine_outcomes_def split: if_splits)
  qed
  then show "label = PL_LONG_SUCCESS \<longleftrightarrow> (\<exists>i. long_at i \<and> (\<forall>j. short_at j \<longrightarrow> i < j))"
    and "label = PL_SHORT_SUCCESS \<longleftrightarrow> (\<exists>j. short_at j \<and> (\<forall>i. long_at i \<longrightarrow> j < i))"
    and "reason \<noteq> ''AMBIGUOUS_DIRECTIONAL_OUTCOME''" by (simp_all only: simp_thms)
qed

text \<open>C38. Every decision row gets one label, that of the earlier success: when both directional candidates can be
  built from a row, both convert to labeling candidates and \<open>label_decision\<close> returns on every valid zoned candle
  frame; the label is \<open>LONG_SUCCESS\<close> exactly when the long candidate's first success comes before any of the
  short one, \<open>SHORT_SUCCESS\<close> exactly when the short one's comes before any of the long one, and the branch for
  successes without a bar is never taken.\<close>
theorem decision_rows_are_labelled:
  assumes "build_directional_candidates r ccfg = Inr (l, s)" and "validate_candles f = Inr rows" and "kf_zoned f"
  shows "\<exists>lc sc x. to_labeling_candidate l = Inr lc \<and> to_labeling_candidate s = Inr sc \<and>
    label_decision f lc sc cfg = Inr x \<and>
    (let window = take (nat (lc_horizon_bars cfg)) (future_candles rows lc);
         long_at = first_success lc (calculate_target lc cfg) window;
         short_at = first_success sc (calculate_target sc cfg) window in
     (dl_label x = PL_LONG_SUCCESS \<longleftrightarrow> (\<exists>i. long_at i \<and> (\<forall>j. short_at j \<longrightarrow> i < j))) \<and>
     (dl_label x = PL_SHORT_SUCCESS \<longleftrightarrow> (\<exists>j. short_at j \<and> (\<forall>i. long_at i \<longrightarrow> j < i)))) \<and>
    dl_outcome_reason x \<noteq> ''AMBIGUOUS_DIRECTIONAL_OUTCOME''"
proof -
  have built: "build_candidate r CD_LONG ccfg = Inr l" "build_candidate r CD_SHORT ccfg = Inr s"
    "time_eq (tc_timestamp l) (tc_timestamp s)" "tc_symbol l = tc_symbol s"
    using assms(1) by (auto simp: build_directional_candidates_def split: if_splits)
  obtain lc where lc: "to_labeling_candidate l = Inr lc" "lt_direction lc = TD_LONG" "lt_timestamp lc = tc_timestamp l"
      "lt_symbol lc = tc_symbol l"
    using built_candidate_converts(1) [OF built(1)] by simp
  obtain sc where sc: "to_labeling_candidate s = Inr sc" "lt_direction sc = TD_SHORT" "lt_timestamp sc = tc_timestamp s"
      "lt_symbol sc = tc_symbol s"
    using built_candidate_converts(1) [OF built(2)] by simp
  have aware: "kf_zoned f = aware (lt_timestamp lc)" "kf_zoned f = aware (lt_timestamp sc)"
    using built_candidate_converts(2) [OF built(1)] built_candidate_converts(2) [OF built(2)] lc(3) sc(3) assms(3) by simp_all
  obtain x y where xy: "label_candidate f lc cfg = Inr x" "label_candidate f sc cfg = Inr y"
    using label_candidate_eq [OF assms(2) aware(1)] label_candidate_eq [OF assms(2) aware(2)] by metis
  have "after_decision sc = after_decision lc"
    using built(3,4) lc(3,4) sc(3,4) by (auto simp: after_decision_def time_eq_def fun_eq_iff)
  then have w: "label_window f sc cfg = label_window f lc cfg" by (simp add: label_window_def)
  obtain label ts bars reason where c: "combine_outcomes x y = (label, ts, bars, reason)" by (cases "combine_outcomes x y")
  have d: "label_decision f lc sc cfg = Inr \<lparr>dl_timestamp = lt_timestamp lc, dl_symbol = lt_symbol lc, dl_label = label,
      dl_long_outcome = x, dl_short_outcome = y, dl_outcome_timestamp = ts, dl_outcome_bars = bars, dl_outcome_reason = reason\<rparr>"
    using built(3,4) lc sc xy c by (simp add: label_decision_def)
  have window: "take (nat (lc_horizon_bars cfg)) (future_candles rows lc) = label_window f lc cfg"
    by (simp add: label_window_def future_candles_sorted [OF assms(2)])
  show ?thesis
    using lc(1) sc(1) d combined_label [OF xy(1) lc(2) xy(2) sc(2) w c] unfolding Let_def by (simp add: window)
qed

section \<open>Concrete inputs\<close>

text \<open>A row at ten with both stops four below and above, and the candles after it: the long target 106 is reached
  on the third bar; a candle of another symbol and one before the decision do not count.\<close>

definition label_row :: row where
  "label_row = \<lparr>row_timestamp = Some \<lparr>ns = 1000, zone = Some 0\<rparr>, row_symbol = Some ''ABC'', row_regime = None,
     row_cells = [(''close'', Num (Fin 100)), (''atr_14'', Num (Fin 4)), (''swing_low'', Num (Fin 96)), (''swing_high'', Num (Fin 104))]\<rparr>"

definition label_candle :: "int \<Rightarrow> string \<Rightarrow> rat \<Rightarrow> rat \<Rightarrow> candle_row" where
  "label_candle t name high low = \<lparr>kr_timestamp = Some t, kr_symbol = name, kr_open = Fin low, kr_high = Fin high,
     kr_low = Fin low, kr_close = Fin high\<rparr>"

definition label_frame :: candle_frame where
  "label_frame = \<lparr>kf_columns = candle_columns, kf_zoned = True, kf_rows =
     [label_candle 1300 ''ABC'' 103 98, label_candle 900 ''ABC'' 120 80, label_candle 1100 ''ABC'' 102 99,
      label_candle 1200 ''XYZ'' 120 80, label_candle 1200 ''ABC'' 103 99, label_candle 1400 ''ABC'' 107 97]\<rparr>"

definition short_horizon :: LabelingConfig where
  "short_horizon = default_labeling_config\<lparr>lc_horizon_bars := 5\<rparr>"

definition label_long :: LabelingTradeCandidate where
  "label_long = \<lparr>lt_timestamp = \<lparr>ns = 1000, zone = Some 0\<rparr>, lt_symbol = ''ABC'', lt_direction = TD_LONG,
     lt_entry_price = Fin 100, lt_stop_price = Fin 96\<rparr>"

lemma label_runs:
  "returns (\<lambda>x. lo_label x = PL_LONG_SUCCESS \<and> lo_outcome_bars x = Some 4) (label_candidate label_frame label_long short_horizon)"
  "returns (\<lambda>rows. length rows = 6) (validate_candles label_frame)"
  "returns (\<lambda>(l, s). tc_stop_price l = Fin 96 \<and> tc_stop_price s = Fin 104) (build_directional_candidates label_row default_candidate_config)"
  by code_simp+

lemma label_is_first_touch_witness:
  "\<exists>x rows. label_candidate label_frame label_long short_horizon = Inr x \<and> validate_candles label_frame = Inr rows \<and>
     lo_label x = PL_LONG_SUCCESS \<and> (\<exists>i. label_target_hit label_long (calculate_target label_long short_horizon) (future_candles rows label_long ! i))"
proof -
  obtain x rows where x: "label_candidate label_frame label_long short_horizon = Inr x" "lo_label x = PL_LONG_SUCCESS"
    and rows: "validate_candles label_frame = Inr rows"
    using label_runs(1,2) by (auto simp: returns_iff)
  have "success_label (lt_direction label_long) = PL_LONG_SUCCESS" by code_simp
  then show ?thesis using label_is_first_touch [OF x(1) rows] x rows unfolding Let_def by auto
qed

definition label_continued :: candle_frame where
  "label_continued = label_frame\<lparr>kf_rows := label_candle 1250 ''XYZ'' 120 80 # kf_rows label_frame @ [label_candle 1500 ''ABC'' 120 80]\<rparr>"

lemma decided_label_is_final_witness:
  "\<exists>x. label_candidate label_frame label_long short_horizon = Inr x \<and> label_candidate label_continued label_long short_horizon = Inr x"
proof -
  obtain x where x: "label_candidate label_frame label_long short_horizon = Inr x" "lo_outcome_bars x \<noteq> None"
    using label_runs(1) by (auto simp: returns_iff)
  have "returns (\<lambda>_. True) (validate_candles label_continued)" by code_simp
  then obtain rows where rows: "validate_candles label_continued = Inr rows" by (auto simp: returns_iff)
  have zone: "kf_zoned label_continued = kf_zoned label_frame" by (simp add: label_continued_def)
  let ?F = "\<lambda>f. filter (after_decision label_long) (kf_rows f)"
  have later: "?F label_continued = ?F label_frame @ [label_candle 1500 ''ABC'' 120 80]"
    by (simp add: label_continued_def label_frame_def label_long_def label_candle_def after_decision_def candle_instant_def)
  have "list_all (\<lambda>k. candle_instant k < candle_instant (label_candle 1500 ''ABC'' 120 80)) (?F label_frame)"
    by (simp add: label_frame_def label_long_def label_candle_def after_decision_def candle_instant_def)
  then have "\<forall>k \<in> set (?F label_frame). \<forall>q \<in> set [label_candle 1500 ''ABC'' 120 80]. candle_instant k < candle_instant q"
    by (simp only: list_all_iff list.set ball_simps ball_empty insert_iff simp_thms)
  then show ?thesis using decided_label_is_final [OF x rows zone later] x(1) by blast
qed

lemma decision_rows_are_labelled_witness:
  "\<exists>lc sc x. label_decision label_frame lc sc short_horizon = Inr x \<and> dl_outcome_reason x \<noteq> ''AMBIGUOUS_DIRECTIONAL_OUTCOME''"
proof -
  obtain l s where b: "build_directional_candidates label_row default_candidate_config = Inr (l, s)"
    using label_runs(3) by (auto simp: returns_iff)
  obtain rows where rows: "validate_candles label_frame = Inr rows" using label_runs(2) by (auto simp: returns_iff)
  have "kf_zoned label_frame" by (simp add: label_frame_def)
  from decision_rows_are_labelled [OF b rows this, of short_horizon] show ?thesis by blast
qed

text \<open>The target of a short candidate with a distant stop is negative: the audit frame \<open>label_candidates\<close> returns
  for it is refused by the validator of that frame.\<close>

lemma negative_short_target_is_refused:
  "(let wide = \<lparr>lt_timestamp = \<lparr>ns = 1000, zone = Some 0\<rparr>, lt_symbol = ''ABC'', lt_direction = TD_SHORT,
       lt_entry_price = Fin 100, lt_stop_price = Fin 180\<rparr> in
    make_labeling_candidate wide = Inr wide \<and>
    returns (\<lambda>out. validate_labeling_output out = Inl (ValueError ''Output contains invalid target prices.''))
      (label_candidates label_frame [wide] short_horizon))"
  by code_simp

end
