(* ===== verification/Json.thy ===== *)
theory Json
  imports Prelude
begin

text \<open>
  \<open>json.dumps(value, sort_keys=True, separators=(",", ":"))\<close> and \<open>json.loads\<close> of the standard
  library, for values without floats. Text is Latin-1: an escape above \<open>\u00ff\<close> is refused. Objects
  are their members in order; a repeated key keeps its first place and its last value, as in a
  Python dictionary. The parser takes fuel, and the length of the text is enough for every text
  that \<open>json_dumps\<close> writes.
\<close>

datatype json =
    JNull
  | JBool bool
  | JInt int
  | JStr string
  | JList "json list"
  | JObj "(string \<times> json) list"

section \<open>Writing\<close>

definition low_hex :: "nat \<Rightarrow> char" where
  "low_hex d = char_of (if d < 10 then 48 + d else 87 + d)"

definition json_escape :: "char \<Rightarrow> string" where
  "json_escape c = (let n = (of_char c :: nat); b = CHR 0x5C in
     if n = 34 \<or> n = 92 then [b, c]
     else if n = 10 then [b, CHR ''n'']
     else if n = 13 then [b, CHR ''r'']
     else if n = 9 then [b, CHR ''t'']
     else if n = 12 then [b, CHR ''f'']
     else if n = 8 then [b, CHR ''b'']
     else if 32 \<le> n \<and> n \<le> 126 then [c]
     else [b, CHR ''u'', CHR ''0'', CHR ''0'', low_hex (n div 16), low_hex (n mod 16)])"

definition json_quote :: "string \<Rightarrow> string" where
  "json_quote s = CHR 0x22 # concat (map json_escape s) @ [CHR 0x22]"

fun comma_join :: "string list \<Rightarrow> string" where
  "comma_join [] = []"
| "comma_join [x] = x"
| "comma_join (x # y # ys) = x @ CHR '','' # comma_join (y # ys)"

fun json_text :: "json \<Rightarrow> string" where
  "json_text JNull = ''null''"
| "json_text (JBool b) = (if b then ''true'' else ''false'')"
| "json_text (JInt k) = int_text k"
| "json_text (JStr s) = json_quote s"
| "json_text (JList vs) = CHR ''['' # comma_join (map json_text vs) @ '']''"
| "json_text (JObj kvs) = CHR ''{'' # comma_join (map (\<lambda>(k, v). json_quote k @ CHR '':'' # json_text v) kvs) @ ''}''"

fun json_sort :: "json \<Rightarrow> json" where
  "json_sort (JList vs) = JList (map json_sort vs)"
| "json_sort (JObj kvs) = JObj (sort_key fst (map (\<lambda>(k, v). (k, json_sort v)) kvs))"
| "json_sort v = v"

definition json_dumps :: "json \<Rightarrow> string" where
  "json_dumps v = json_text (json_sort v)"

section \<open>Reading\<close>

definition json_space :: "char \<Rightarrow> bool" where
  "json_space c = (let n = (of_char c :: nat) in n = 32 \<or> n = 9 \<or> n = 10 \<or> n = 13)"

abbreviation skip_space :: "string \<Rightarrow> string" where
  "skip_space \<equiv> dropWhile json_space"

definition hex_value :: "char \<Rightarrow> nat option" where
  "hex_value c = (let n = (of_char c :: nat) in
     if 48 \<le> n \<and> n \<le> 57 then Some (n - 48)
     else if 97 \<le> n \<and> n \<le> 102 then Some (n - 87)
     else if 65 \<le> n \<and> n \<le> 70 then Some (n - 55)
     else None)"

definition latin_escape :: "char \<Rightarrow> char \<Rightarrow> char \<Rightarrow> char \<Rightarrow> char option" where
  "latin_escape a b x y = (if a = CHR ''0'' \<and> b = CHR ''0'' then
     (case (hex_value x, hex_value y) of (Some m, Some n) \<Rightarrow> Some (char_of (16 * m + n)) | _ \<Rightarrow> None) else None)"

definition simple_escape :: "char \<Rightarrow> char option" where
  "simple_escape c =
    (if c = CHR 0x22 \<or> c = CHR 0x5C \<or> c = CHR 0x2F then Some c
     else if c = CHR ''n'' then Some (CHR 0x0A)
     else if c = CHR ''r'' then Some (CHR 0x0D)
     else if c = CHR ''t'' then Some (CHR 0x09)
     else if c = CHR ''f'' then Some (CHR 0x0C)
     else if c = CHR ''b'' then Some (CHR 0x08)
     else None)"

definition add_char :: "char \<Rightarrow> (string \<times> string) option \<Rightarrow> (string \<times> string) option" where
  "add_char c = map_option (\<lambda>(s, r). (c # s, r))"

text \<open>The rest of a string literal after its opening quote, and what follows it.\<close>

fun scan_string :: "string \<Rightarrow> (string \<times> string) option" where
  "scan_string [] = None"
| "scan_string (c # cs) =
    (if c = CHR 0x22 then Some ([], cs)
     else if c = CHR 0x5C then (case cs of
         [] \<Rightarrow> None
       | e # ds \<Rightarrow>
           if e = CHR ''u'' then (case ds of
               a # b # x # y # rest \<Rightarrow> (case latin_escape a b x y of None \<Rightarrow> None | Some d \<Rightarrow> add_char d (scan_string rest))
             | _ \<Rightarrow> None)
           else (case simple_escape e of None \<Rightarrow> None | Some d \<Rightarrow> add_char d (scan_string ds)))
     else if of_char c < (32 :: nat) then None
     else add_char c (scan_string cs))"

definition is_digit :: "char \<Rightarrow> bool" where
  "is_digit c = (let n = (of_char c :: nat) in 48 \<le> n \<and> n \<le> 57)"

definition digits_value :: "string \<Rightarrow> nat" where
  "digits_value ds = foldl (\<lambda>n c. 10 * n + (of_char c - 48)) 0 ds"

definition starts_fraction :: "string \<Rightarrow> bool" where
  "starts_fraction r = (case r of [] \<Rightarrow> False | c # cs \<Rightarrow> c = CHR ''.'' \<or> c = CHR ''e'' \<or> c = CHR ''E'')"

definition scan_nat :: "string \<Rightarrow> (nat \<times> string) option" where
  "scan_nat s = (case takeWhile is_digit s of
      [] \<Rightarrow> None
    | d # ds \<Rightarrow>
        (let r = (if d = CHR ''0'' then tl s else dropWhile is_digit s);
             n = (if d = CHR ''0'' then 0 else digits_value (d # ds)) in
         if starts_fraction r then None else Some (n, r)))"

definition scan_int :: "string \<Rightarrow> (int \<times> string) option" where
  "scan_int s = (case s of
      [] \<Rightarrow> None
    | c # cs \<Rightarrow>
        if c = CHR ''-'' then map_option (\<lambda>(n, r). (- int n, r)) (scan_nat cs)
        else map_option (\<lambda>(n, r). (int n, r)) (scan_nat s))"

definition scan_word :: "string \<Rightarrow> json \<Rightarrow> string \<Rightarrow> (json \<times> string) option" where
  "scan_word w v s = (if take (length w) s = w then Some (v, drop (length w) s) else None)"

fun parse_value :: "nat \<Rightarrow> string \<Rightarrow> (json \<times> string) option"
  and parse_items :: "nat \<Rightarrow> string \<Rightarrow> (json list \<times> string) option"
  and parse_members :: "nat \<Rightarrow> string \<Rightarrow> ((string \<times> json) list \<times> string) option" where
  "parse_value 0 s = None"
| "parse_value (Suc n) s = (case s of
      [] \<Rightarrow> None
    | c # cs \<Rightarrow>
        if c = CHR 0x22 then map_option (\<lambda>(t, r). (JStr t, r)) (scan_string cs)
        else if c = CHR ''['' then (case skip_space cs of
            [] \<Rightarrow> None
          | d # ds \<Rightarrow> if d = CHR '']'' then Some (JList [], ds)
              else map_option (\<lambda>(vs, r). (JList vs, r)) (parse_items n (d # ds)))
        else if c = CHR ''{'' then (case skip_space cs of
            [] \<Rightarrow> None
          | d # ds \<Rightarrow> if d = CHR ''}'' then Some (JObj [], ds)
              else map_option (\<lambda>(kvs, r). (JObj (dict_of_list kvs), r)) (parse_members n (d # ds)))
        else if c = CHR ''n'' then scan_word ''null'' JNull s
        else if c = CHR ''t'' then scan_word ''true'' (JBool True) s
        else if c = CHR ''f'' then scan_word ''false'' (JBool False) s
        else map_option (\<lambda>(k, r). (JInt k, r)) (scan_int s))"
| "parse_items 0 s = None"
| "parse_items (Suc n) s = (case parse_value n s of
      None \<Rightarrow> None
    | Some (v, r) \<Rightarrow> (case skip_space r of
          [] \<Rightarrow> None
        | c # cs \<Rightarrow>
            if c = CHR '','' then map_option (\<lambda>(vs, t). (v # vs, t)) (parse_items n (skip_space cs))
            else if c = CHR '']'' then Some ([v], cs)
            else None))"
| "parse_members 0 s = None"
| "parse_members (Suc n) s = (case s of
      [] \<Rightarrow> None
    | q # qs \<Rightarrow>
        if q \<noteq> CHR 0x22 then None
        else (case scan_string qs of
            None \<Rightarrow> None
          | Some (k, r) \<Rightarrow> (case skip_space r of
                [] \<Rightarrow> None
              | e # es \<Rightarrow>
                  if e \<noteq> CHR '':'' then None
                  else (case parse_value n (skip_space es) of
                      None \<Rightarrow> None
                    | Some (v, t) \<Rightarrow> (case skip_space t of
                          [] \<Rightarrow> None
                        | c # cs \<Rightarrow>
                            if c = CHR '','' then map_option (\<lambda>(kvs, u). ((k, v) # kvs, u)) (parse_members n (skip_space cs))
                            else if c = CHR ''}'' then Some ([(k, v)], cs)
                            else None)))))"

definition json_loads :: "string \<Rightarrow> json res" where
  "json_loads s = (case parse_value (Suc (length s)) (skip_space s) of
      None \<Rightarrow> Inl (ValueError ''JSONDecodeError'')
    | Some (v, r) \<Rightarrow> if skip_space r = [] then Inr v else Inl (ValueError ''Extra data''))"

end
