(* ===== verification/Registry.thy ===== *)
theory Registry
  imports StrategyModels Json Sha256 "HOL-Library.List_Lexorder"
begin

text \<open>
  The strategy registry, \<open>trading/strategy/registry.py\<close>, and \<open>trading/strategy/reasons.py\<close>. The state is the
  dictionary from strategy versions to registrations; every operation raises before it changes anything.
  \<open>float_repr\<close> is the text of a float.
\<close>

section \<open>Registrations\<close>

datatype strategy_status = ST_RESEARCH | ST_CANDIDATE | ST_APPROVED | ST_RETIRED

record StrategyRegistration =
  sr_config :: StrategyConfig
  sr_status :: strategy_status
  sr_validation_reference :: "string option"
  sr_evaluation_fingerprint :: "string option"
  sr_lineage_id :: "string option"
  sr_approval_reference :: "string option"
  sr_approval_evaluator :: "string option"
  sr_approval_fingerprint :: "string option"
  sr_retirement_reason :: "string option"

definition default_registration :: "StrategyConfig \<Rightarrow> StrategyRegistration" where
  "default_registration c = \<lparr>sr_config = c, sr_status = ST_RESEARCH, sr_validation_reference = None,
     sr_evaluation_fingerprint = None, sr_lineage_id = None, sr_approval_reference = None,
     sr_approval_evaluator = None, sr_approval_fingerprint = None, sr_retirement_reason = None\<rparr>"

text \<open>\<open>json.dumps\<close> of a dictionary whose values are given by their texts, with sorted keys.\<close>

definition object_text :: "(string \<times> string) list \<Rightarrow> string" where
  "object_text kvs = ''{'' @ comma_join (map (\<lambda>(k, v). json_quote k @ '':'' @ v) (sort_key fst kvs)) @ ''}''"

definition bool_text :: "bool \<Rightarrow> string" where
  "bool_text b = json_text (JBool b)"

definition config_text :: "(pyfloat \<Rightarrow> string) \<Rightarrow> StrategyConfig \<Rightarrow> string" where
  "config_text float_repr c = object_text
    [(''strategy_id'', json_quote (sc_strategy_id c)),
     (''strategy_version'', json_quote (sc_strategy_version c)),
     (''baseline'', object_text
       [(''minimum_rvol'', float_repr (bc_minimum_rvol (sc_baseline c))),
        (''minimum_regime_probability'', float_repr (bc_minimum_regime_probability (sc_baseline c))),
        (''strategy_version'', json_quote (bc_strategy_version (sc_baseline c)))]),
     (''prediction_min_probability'', float_repr (sc_prediction_min_probability c)),
     (''prediction_min_margin'', float_repr (sc_prediction_min_margin c)),
     (''prediction_max_age_seconds'', int_text (sc_prediction_max_age_seconds c)),
     (''expected_value_threshold'', float_repr (sc_expected_value_threshold c)),
     (''max_cost_fraction'', float_repr (sc_max_cost_fraction c)),
     (''allowed_regimes'', ''['' @ comma_join (map json_quote (sc_allowed_regimes c)) @ '']''),
     (''require_prediction_direction_alignment'', bool_text (sc_require_prediction_direction_alignment c)),
     (''require_analysis_alignment'', bool_text (sc_require_analysis_alignment c)),
     (''require_liquidity_when_present'', bool_text (sc_require_liquidity_when_present c)),
     (''cost_model_version'', json_quote (sc_cost_model_version c)),
     (''candidate_policy_version'', json_quote (sc_candidate_policy_version c))]"

definition config_fingerprint :: "(pyfloat \<Rightarrow> string) \<Rightarrow> StrategyRegistration \<Rightarrow> string" where
  "config_fingerprint float_repr r = sha256_hex (config_text float_repr (sr_config r))"

section \<open>The registry\<close>

type_synonym registry = "(string, StrategyRegistration) dict"

fun make_registry :: "(string \<times> StrategyRegistration) list \<Rightarrow> registry \<Rightarrow> registry res" where
  "make_registry [] s = Inr s"
| "make_registry ((version, r) # rs) s =
    (if blank version then Inl (ValueError ''strategy registry keys must be non-empty strings'')
     else if sc_strategy_version (sr_config r) \<noteq> version then Inl (ValueError ''registry key must match strategy_version'')
     else if sr_status r = ST_APPROVED
       then Inl (ValueError ''approved strategies must enter the registry through approve()'')
     else make_registry rs (dict_set version r s))"

definition registry_register :: "(pyfloat \<Rightarrow> string) \<Rightarrow> StrategyRegistration \<Rightarrow> registry \<Rightarrow> (StrategyRegistration \<times> registry) res" where
  "registry_register float_repr r s =
    (if sr_status r \<notin> {ST_RESEARCH, ST_CANDIDATE}
       then Inl (ValueError ''register() accepts only RESEARCH or CANDIDATE strategies'')
     else (case dict_get s (sc_strategy_version (sr_config r)) of
         Some existing \<Rightarrow>
           if config_fingerprint float_repr existing = config_fingerprint float_repr r then Inr (existing, s)
           else Inl (ValueError ''strategy version already registered'')
       | None \<Rightarrow> Inr (r, dict_set (sc_strategy_version (sr_config r)) r s)))"

definition registry_get :: "string \<Rightarrow> registry \<Rightarrow> StrategyRegistration res" where
  "registry_get version s = (case dict_get s version of
     None \<Rightarrow> Inl (KeyError ''unknown strategy version'') | Some r \<Rightarrow> Inr r)"

record approval_evidence =
  ae_validation_reference :: string
  ae_evaluation_fingerprint :: string
  ae_lineage_id :: string
  ae_approval_reference :: string
  ae_evaluator :: string

definition approval_text :: "(pyfloat \<Rightarrow> string) \<Rightarrow> StrategyRegistration \<Rightarrow> approval_evidence \<Rightarrow> string" where
  "approval_text float_repr r e = object_text
    [(''config_fingerprint'', json_quote (config_fingerprint float_repr r)),
     (''validation_reference'', json_quote (ae_validation_reference e)),
     (''evaluation_fingerprint'', json_quote (ae_evaluation_fingerprint e)),
     (''lineage_id'', json_quote (ae_lineage_id e)),
     (''approval_reference'', json_quote (ae_approval_reference e)),
     (''evaluator'', json_quote (ae_evaluator e))]"

definition evidence_fields :: "approval_evidence \<Rightarrow> string list" where
  "evidence_fields e = [ae_validation_reference e, ae_evaluation_fingerprint e, ae_lineage_id e,
     ae_approval_reference e, ae_evaluator e]"

definition approved_registration :: "(pyfloat \<Rightarrow> string) \<Rightarrow> StrategyRegistration \<Rightarrow> approval_evidence \<Rightarrow> StrategyRegistration" where
  "approved_registration float_repr r e = \<lparr>sr_config = sr_config r, sr_status = ST_APPROVED,
     sr_validation_reference = Some (ae_validation_reference e),
     sr_evaluation_fingerprint = Some (ae_evaluation_fingerprint e), sr_lineage_id = Some (ae_lineage_id e),
     sr_approval_reference = Some (ae_approval_reference e), sr_approval_evaluator = Some (ae_evaluator e),
     sr_approval_fingerprint = Some (sha256_hex (approval_text float_repr r e)), sr_retirement_reason = None\<rparr>"

definition registry_approve :: "(pyfloat \<Rightarrow> string) \<Rightarrow> string \<Rightarrow> approval_evidence \<Rightarrow> registry \<Rightarrow> (StrategyRegistration \<times> registry) res" where
  "registry_approve float_repr version e s = rbind (registry_get version s) (\<lambda>r.
     if sr_status r = ST_RETIRED then Inl (ValueError ''retired strategy cannot be approved'')
     else if sr_status r \<noteq> ST_CANDIDATE then Inl (ValueError ''only CANDIDATE strategies can be approved'')
     else if list_ex blank (evidence_fields e) then Inl (ValueError ''approval provenance fields must be non-empty'')
     else (let approved = approved_registration float_repr r e in Inr (approved, dict_set version approved s)))"

definition registry_retire :: "string \<Rightarrow> string \<Rightarrow> registry \<Rightarrow> (StrategyRegistration \<times> registry) res" where
  "registry_retire version reason s = rbind (registry_get version s) (\<lambda>r.
     if blank reason then Inl (ValueError ''retirement reason must be non-empty'')
     else if sr_status r = ST_RETIRED then Inl (ValueError ''strategy is already retired'')
     else (let retired = r\<lparr>sr_status := ST_RETIRED, sr_retirement_reason := Some (strip reason)\<rparr> in
       Inr (retired, dict_set version retired s)))"

definition registry_approved :: "registry \<Rightarrow> StrategyRegistration list" where
  "registry_approved s = List.map_filter (\<lambda>version. case dict_get s version of
     Some r \<Rightarrow> if sr_status r = ST_APPROVED then Some r else None | None \<Rightarrow> None) (sort (dict_keys s))"

definition active_approved :: "registry \<Rightarrow> StrategyRegistration res" where
  "active_approved s = (case registry_approved s of
      [] \<Rightarrow> Inl (OtherError ''no approved strategy is registered'')
    | [r] \<Rightarrow> Inr r
    | _ \<Rightarrow> Inl (ValueError ''multiple approved strategies require explicit selection''))"

definition registry_versions :: "registry \<Rightarrow> string list" where
  "registry_versions s = sort (dict_keys s)"

section \<open>Reasons\<close>

fun deduplicate_from :: "NoTradeReason list \<Rightarrow> NoTradeReason list \<Rightarrow> NoTradeReason list" where
  "deduplicate_from seen [] = []"
| "deduplicate_from seen (r # rs) =
    (if r \<in> set seen then deduplicate_from seen rs else r # deduplicate_from (r # seen) rs)"

definition deduplicate_reasons :: "NoTradeReason list \<Rightarrow> NoTradeReason list" where
  "deduplicate_reasons rs = deduplicate_from [] rs"

definition primary_no_trade_reason :: "NoTradeReason list \<Rightarrow> NoTradeReason" where
  "primary_no_trade_reason rs = (case rs of r # _ \<Rightarrow> r | [] \<Rightarrow> STRATEGY_CONDITION_FAILED)"

end
