(* ===== verification/RegistryProperties.thy ===== *)
theory RegistryProperties
  imports Registry
begin

text \<open>
  Governance of strategies: over any sequence of calls the state of a version only moves forward, and the
  strategy in use was registered as a candidate and approved with evidence bound to its configuration.
\<close>

section \<open>Sequences of calls\<close>

datatype registry_call = RegisterCall StrategyRegistration | ApproveCall string approval_evidence | RetireCall string string

fun do_registry_call :: "(pyfloat \<Rightarrow> string) \<Rightarrow> registry_call \<Rightarrow> registry \<Rightarrow> (StrategyRegistration \<times> registry) res" where
  "do_registry_call float_repr (RegisterCall r) s = registry_register float_repr r s"
| "do_registry_call float_repr (ApproveCall v e) s = registry_approve float_repr v e s"
| "do_registry_call float_repr (RetireCall v reason) s = registry_retire v reason s"

text \<open>A call that raises leaves the registry as it is.\<close>

definition registry_step :: "(pyfloat \<Rightarrow> string) \<Rightarrow> registry \<Rightarrow> registry_call \<Rightarrow> registry" where
  "registry_step float_repr s rc = (case do_registry_call float_repr rc s of Inl e \<Rightarrow> s | Inr (r, s') \<Rightarrow> s')"

definition registry_run :: "(pyfloat \<Rightarrow> string) \<Rightarrow> registry_call list \<Rightarrow> registry \<Rightarrow> registry" where
  "registry_run float_repr calls s = foldl (registry_step float_repr) s calls"

lemma registry_run_simps [simp]:
  "registry_run fr [] s = s"
  "registry_run fr (c # cs) s = registry_run fr cs (registry_step fr s c)"
  "registry_run fr (cs @ ds) s = registry_run fr ds (registry_run fr cs s)"
  by (simp_all add: registry_run_def)

text \<open>The three ways a step changes a version.\<close>

lemma registry_step_cases:
  assumes "dict_get (registry_step fr s rc) v = Some r"
  obtains (kept) "dict_get s v = Some r"
    | (registered) "rc = RegisterCall r" "dict_get s v = None" "v = sc_strategy_version (sr_config r)"
        "sr_status r \<in> {ST_RESEARCH, ST_CANDIDATE}"
    | (approved) e r0 where "rc = ApproveCall v e" "dict_get s v = Some r0" "sr_status r0 = ST_CANDIDATE"
        "\<not> list_ex blank (evidence_fields e)" "r = approved_registration fr r0 e"
    | (retired) reason r0 where "rc = RetireCall v reason" "dict_get s v = Some r0" "sr_status r0 \<noteq> ST_RETIRED"
        "r = r0\<lparr>sr_status := ST_RETIRED, sr_retirement_reason := Some (strip reason)\<rparr>"
proof (cases rc)
  case (RegisterCall r')
  then show ?thesis using assms that(1,2)
    by (auto simp: registry_step_def registry_register_def split: option.splits if_splits)
next
  case (ApproveCall v' e)
  then show ?thesis using assms that(1,3)
    by (auto simp: registry_step_def registry_approve_def registry_get_def Let_def split: option.splits if_splits)
next
  case (RetireCall v' reason)
  then show ?thesis using assms that(1,4)
    by (auto simp: registry_step_def registry_retire_def registry_get_def Let_def split: option.splits if_splits)
qed

lemma registry_step_keeps_versions: "dict_get s v \<noteq> None \<Longrightarrow> dict_get (registry_step fr s rc) v \<noteq> None"
  by (cases rc) (auto simp: registry_step_def registry_register_def registry_approve_def registry_retire_def
      registry_get_def Let_def split: option.splits if_splits sum.splits)

section \<open>Versions only move forward\<close>

fun status_rank :: "strategy_status \<Rightarrow> nat" where
  "status_rank ST_RESEARCH = 0"
| "status_rank ST_CANDIDATE = 1"
| "status_rank ST_APPROVED = 2"
| "status_rank ST_RETIRED = 3"

lemma status_rank_inject [simp]: "status_rank a = status_rank b \<longleftrightarrow> a = b"
  by (cases a; cases b) simp_all

definition moved_forward :: "StrategyRegistration \<Rightarrow> StrategyRegistration \<Rightarrow> bool" where
  "moved_forward r r' \<longleftrightarrow> sr_config r' = sr_config r \<and> status_rank (sr_status r) \<le> status_rank (sr_status r') \<and>
     (sr_status r' = sr_status r \<longrightarrow> r' = r) \<and> (sr_status r = ST_RETIRED \<longrightarrow> r' = r) \<and> (sr_status r = ST_RESEARCH \<longrightarrow> sr_status r' \<in> {ST_RESEARCH, ST_RETIRED}) \<and>
     (sr_status r = ST_APPROVED \<longrightarrow> sr_approval_fingerprint r' = sr_approval_fingerprint r)"

lemma moved_forwardD:
  assumes "moved_forward r r'"
  shows "status_rank (sr_status r) \<le> status_rank (sr_status r')" "sr_config r' = sr_config r"
    "sr_status r' = sr_status r \<Longrightarrow> r' = r" "sr_status r = ST_RETIRED \<Longrightarrow> r' = r"
    "sr_status r = ST_RESEARCH \<Longrightarrow> sr_status r' = ST_RESEARCH \<or> sr_status r' = ST_RETIRED"
    "sr_status r = ST_APPROVED \<Longrightarrow> sr_approval_fingerprint r' = sr_approval_fingerprint r"
  using assms unfolding moved_forward_def by blast+

lemma moved_forward_trans:
  assumes "moved_forward r r'" "moved_forward r' r''"
  shows "moved_forward r r''"
proof -
  note one = moved_forwardD [OF assms(1)] and two = moved_forwardD [OF assms(2)]
  have same: "r'' = r" if "sr_status r'' = sr_status r"
  proof -
    have "status_rank (sr_status r') = status_rank (sr_status r)" using one(1) two(1) that by simp
    then have "sr_status r' = sr_status r" by (rule iffD1 [OF status_rank_inject])
    then show ?thesis using one(3) two(3) that by metis
  qed
  have research: "sr_status r'' = ST_RESEARCH \<or> sr_status r'' = ST_RETIRED" if "sr_status r = ST_RESEARCH"
    using one(5) [OF that] two(4,5) by metis
  have approved: "sr_approval_fingerprint r'' = sr_approval_fingerprint r" if "sr_status r = ST_APPROVED"
  proof -
    have "sr_status r' = ST_APPROVED \<or> sr_status r' = ST_RETIRED"
      using one(1) that by (cases "sr_status r'") simp_all
    then show ?thesis using one(6) [OF that] two(4,6) by metis
  qed
  have "status_rank (sr_status r) \<le> status_rank (sr_status r'')" using one(1) two(1) by (rule le_trans)
  moreover have "sr_config r'' = sr_config r" using one(2) two(2) by (rule trans [rotated])
  moreover have "r'' = r" if "sr_status r = ST_RETIRED" using one(4) two(4) that by metis
  ultimately show ?thesis using same research approved unfolding moved_forward_def by blast
qed

lemma registry_step_forward:
  assumes "dict_get s v = Some r"
  shows "\<exists>r'. dict_get (registry_step fr s rc) v = Some r' \<and> moved_forward r r'"
proof -
  obtain r' where r': "dict_get (registry_step fr s rc) v = Some r'"
    using registry_step_keeps_versions [of s v fr rc] assms by auto
  from r' have "moved_forward r r'"
  proof (cases rule: registry_step_cases)
    case kept
    then show ?thesis using assms by (cases "sr_status r") (auto simp: moved_forward_def)
  next
    case (retired reason r0)
    then show ?thesis using assms by (cases "sr_status r") (auto simp: moved_forward_def)
  qed (use assms in \<open>auto simp: moved_forward_def approved_registration_def\<close>)
  then show ?thesis using r' by blast
qed

text \<open>C40. A registered version only moves forward: over any sequence of calls its configuration never changes, its
  status never goes back in the order RESEARCH, CANDIDATE, APPROVED, RETIRED, the registration is the same one as
  long as the status is the same, a retired registration is frozen, an approval is kept, and a version registered as
  RESEARCH is never a candidate or approved (registering it again as CANDIDATE returns the RESEARCH entry).\<close>
theorem registry_moves_forward:
  assumes "dict_get s v = Some r"
  shows "\<exists>r'. dict_get (registry_run fr calls s) v = Some r' \<and> sr_config r' = sr_config r \<and>
     status_rank (sr_status r) \<le> status_rank (sr_status r') \<and>
     (sr_status r' = sr_status r \<longrightarrow> r' = r) \<and> (sr_status r = ST_RETIRED \<longrightarrow> r' = r) \<and>
     (sr_status r = ST_RESEARCH \<longrightarrow> sr_status r' \<in> {ST_RESEARCH, ST_RETIRED}) \<and>
     (sr_status r = ST_APPROVED \<longrightarrow> sr_approval_fingerprint r' = sr_approval_fingerprint r)"
proof -
  have "\<exists>r'. dict_get (registry_run fr calls s) v = Some r' \<and> moved_forward r r'"
    using assms
  proof (induction calls arbitrary: s r)
    case Nil
    then show ?case by (cases "sr_status r") (auto simp: moved_forward_def)
  next
    case (Cons rc calls)
    then show ?case using registry_step_forward [OF Cons.prems] moved_forward_trans by (metis registry_run_simps(2))
  qed
  then show ?thesis unfolding moved_forward_def by blast
qed

section \<open>The strategy in use\<close>

definition approved_in :: "(pyfloat \<Rightarrow> string) \<Rightarrow> registry_call list \<Rightarrow> string \<Rightarrow> StrategyRegistration \<Rightarrow> bool" where
  "approved_in fr calls v r \<longleftrightarrow> (\<exists>before later e r0. calls = before @ ApproveCall v e # later \<and>
     RegisterCall r0 \<in> set before \<and> dict_get (registry_run fr before []) v = Some r0 \<and> sr_status r0 = ST_CANDIDATE \<and>
     \<not> list_ex blank (evidence_fields e) \<and> r = approved_registration fr r0 e)"

lemma approved_in_later: "approved_in fr calls v r \<Longrightarrow> approved_in fr (calls @ [rc]) v r"
  unfolding approved_in_def by (metis Cons_eq_appendI append_assoc)

lemma approved_inI:
  assumes "RegisterCall r0 \<in> set calls" "dict_get (registry_run fr calls []) v = Some r0" "sr_status r0 = ST_CANDIDATE"
    "\<not> list_ex blank (evidence_fields e)"
  shows "approved_in fr (calls @ [ApproveCall v e]) v (approved_registration fr r0 e)"
  using assms unfolding approved_in_def by blast

definition registered_in :: "(pyfloat \<Rightarrow> string) \<Rightarrow> registry_call list \<Rightarrow> string \<Rightarrow> StrategyRegistration \<Rightarrow> bool" where
  "registered_in fr calls v r \<longleftrightarrow> v = sc_strategy_version (sr_config r) \<and>
     (sr_status r \<in> {ST_RESEARCH, ST_CANDIDATE} \<longrightarrow> RegisterCall r \<in> set calls) \<and>
     (sr_status r = ST_APPROVED \<longrightarrow> approved_in fr calls v r)"

lemma all_registered:
  "dict_get (registry_run fr calls []) v = Some r \<Longrightarrow> registered_in fr calls v r"
proof (induction calls arbitrary: v r rule: rev_induct)
  case (snoc rc calls)
  let ?s = "registry_run fr calls []"
  have "dict_get (registry_step fr ?s rc) v = Some r" using snoc.prems by simp
  then show ?case
  proof (cases rule: registry_step_cases)
    case kept
    then show ?thesis using snoc.IH [OF kept] by (auto simp: registered_in_def intro: approved_in_later)
  next
    case registered
    then show ?thesis by (auto simp: registered_in_def)
  next
    case (approved e r0)
    have "registered_in fr calls v r0" by (rule snoc.IH [OF approved(2)])
    then have r0: "RegisterCall r0 \<in> set calls" "v = sc_strategy_version (sr_config r0)"
      using approved(3) by (simp_all add: registered_in_def)
    have "approved_in fr (calls @ [rc]) v r"
      unfolding approved(1,5) by (rule approved_inI [OF r0(1) approved(2,3,4)])
    then show ?thesis using r0(2) unfolding registered_in_def approved(5) by (simp add: approved_registration_def)
  next
    case (retired reason r0)
    then show ?thesis using snoc.IH [OF retired(2)] by (simp add: registered_in_def)
  qed
qed simp

lemma registry_approved_iff:
  "r \<in> set (registry_approved s) \<longleftrightarrow> (\<exists>v. dict_get s v = Some r \<and> sr_status r = ST_APPROVED)"
proof -
  have key: "v \<in> set (dict_keys s)" if "dict_get s v = Some r" for v
    using map_of_SomeD [OF that] by (force simp: image_iff)
  have filtered: "x \<in> set (List.map_filter g vs) \<longleftrightarrow> (\<exists>v \<in> set vs. g v = Some x)" for g :: "string \<Rightarrow> 'a option" and x vs
    by (induction vs) (auto simp: map_filter_simps split: option.splits)
  have one: "(case dict_get s v of Some r \<Rightarrow> if sr_status r = ST_APPROVED then Some r else None | None \<Rightarrow> None) = Some r \<longleftrightarrow>
      dict_get s v = Some r \<and> sr_status r = ST_APPROVED" for v
    by (auto split: option.splits)
  show ?thesis unfolding registry_approved_def filtered one set_sort using key by blast
qed

text \<open>C39. The strategy in use was approved: when \<open>active_approved\<close> returns a strategy after a sequence of calls on an
  empty registry, it was registered as a CANDIDATE, and approved after that, while it still was one, with
  non-blank evidence, by a call whose fingerprint hashes exactly this configuration and this evidence; and it is
  the only approved strategy.\<close>
theorem active_strategy_was_approved:
  assumes "active_approved (registry_run fr calls []) = Inr r"
  shows "\<exists>before later e r0. calls = before @ ApproveCall (sc_strategy_version (sr_config r)) e # later \<and>
      RegisterCall r0 \<in> set before \<and> sr_status r0 = ST_CANDIDATE \<and> sr_config r0 = sr_config r \<and>
      dict_get (registry_run fr before []) (sc_strategy_version (sr_config r)) = Some r0 \<and>
      \<not> list_ex blank (evidence_fields e) \<and> sr_approval_fingerprint r = Some (sha256_hex (approval_text fr r0 e)) \<and>
      (\<forall>v r'. dict_get (registry_run fr calls []) v = Some r' \<and> sr_status r' = ST_APPROVED \<longrightarrow> r' = r)"
proof -
  let ?s = "registry_run fr calls []"
  have one: "registry_approved ?s = [r]" using assms by (auto simp: active_approved_def split: list.splits)
  then obtain v where v: "dict_get ?s v = Some r" "sr_status r = ST_APPROVED" using registry_approved_iff [of r ?s] by auto
  have only: "r' = r" if "dict_get ?s v' = Some r'" "sr_status r' = ST_APPROVED" for v' r'
    using that registry_approved_iff [of r' ?s] one by auto
  have reg: "registered_in fr calls v r" by (rule all_registered [OF v(1)])
  then obtain before later e r0 where b: "calls = before @ ApproveCall v e # later" "RegisterCall r0 \<in> set before"
      "dict_get (registry_run fr before []) v = Some r0" "sr_status r0 = ST_CANDIDATE"
      "\<not> list_ex blank (evidence_fields e)" "r = approved_registration fr r0 e"
    using v(2) unfolding registered_in_def approved_in_def by blast
  have ver: "sc_strategy_version (sr_config r) = v" using reg by (simp add: registered_in_def)
  have "sr_config r0 = sr_config r" "sr_approval_fingerprint r = Some (sha256_hex (approval_text fr r0 e))"
    using b(6) by (simp_all add: approved_registration_def)
  then show ?thesis unfolding ver using b(1-5) only by metis
qed

section \<open>Concrete calls\<close>

definition sample_registration :: StrategyRegistration where
  "sample_registration = (default_registration default_strategy_config)\<lparr>sr_status := ST_CANDIDATE\<rparr>"

definition sample_evidence :: approval_evidence where
  "sample_evidence = \<lparr>ae_validation_reference = ''V1'', ae_evaluation_fingerprint = ''F1'', ae_lineage_id = ''L1'',
     ae_approval_reference = ''A1'', ae_evaluator = ''board''\<rparr>"

definition sample_calls :: "registry_call list" where
  "sample_calls = [RegisterCall sample_registration, ApproveCall ''STRAT-v1.0'' sample_evidence]"

definition float_word :: "pyfloat \<Rightarrow> string" where
  "float_word x = ''x''"

lemma sample_registry:
  "dict_get (registry_run float_word [RegisterCall sample_registration] []) ''STRAT-v1.0'' = Some sample_registration"
  "registry_run float_word sample_calls [] = [(''STRAT-v1.0'', approved_registration float_word sample_registration sample_evidence)]"
proof -
  have v: "sc_strategy_version (sr_config sample_registration) = ''STRAT-v1.0''" "sr_status sample_registration = ST_CANDIDATE"
    by (simp_all add: sample_registration_def default_registration_def default_strategy_config_def)
  show first: "dict_get (registry_run float_word [RegisterCall sample_registration] []) ''STRAT-v1.0'' = Some sample_registration"
    using v by (simp add: registry_step_def registry_register_def)
  have filled: "\<not> list_ex blank (evidence_fields sample_evidence)" by code_simp
  show "registry_run float_word sample_calls [] = [(''STRAT-v1.0'', approved_registration float_word sample_registration sample_evidence)]"
    using v filled by (simp add: sample_calls_def registry_step_def registry_register_def registry_approve_def registry_get_def Let_def)
qed

lemma active_strategy_was_approved_witness:
  "\<exists>r. active_approved (registry_run float_word sample_calls []) = Inr r \<and>
     (\<exists>e r0. sr_approval_fingerprint r = Some (sha256_hex (approval_text float_word r0 e)))"
proof -
  have "active_approved (registry_run float_word sample_calls []) =
      Inr (approved_registration float_word sample_registration sample_evidence)"
    unfolding sample_registry(2) by (simp add: active_approved_def registry_approved_def approved_registration_def)
  then show ?thesis using active_strategy_was_approved by blast
qed

lemma registry_moves_forward_witness:
  "\<exists>r'. dict_get (registry_run float_word [RetireCall ''STRAT-v1.0'' '' old '', ApproveCall ''STRAT-v1.0'' sample_evidence]
     (registry_run float_word sample_calls [])) ''STRAT-v1.0'' = Some r' \<and> sr_config r' = default_strategy_config"
proof -
  have "dict_get (registry_run float_word sample_calls []) ''STRAT-v1.0'' =
      Some (approved_registration float_word sample_registration sample_evidence)" unfolding sample_registry(2) by simp
  from registry_moves_forward [OF this] obtain r' where r': "dict_get (registry_run float_word
      [RetireCall ''STRAT-v1.0'' '' old '', ApproveCall ''STRAT-v1.0'' sample_evidence] (registry_run float_word sample_calls []))
      ''STRAT-v1.0'' = Some r'" "sr_config r' = sr_config (approved_registration float_word sample_registration sample_evidence)"
    by blast
  then have "sr_config r' = default_strategy_config"
    by (simp add: approved_registration_def sample_registration_def default_registration_def)
  then show ?thesis using r'(1) by (intro exI conjI)
qed

end
