(* ===== verification/JsonRoundTrip.thy ===== *)
theory JsonRoundTrip
  imports Json
begin

text \<open>\<open>json_loads\<close> reads back what \<open>json_dumps\<close> writes, with the members of objects sorted.\<close>

section \<open>Strings\<close>

lemma hex_value_low:
  assumes "d < 16"
  shows "hex_value (low_hex d) = Some d"
proof -
  have "(of_char (low_hex d) :: nat) = (if d < 10 then 48 + d else 87 + d)" using assms by (simp add: low_hex_def)
  then show ?thesis using assms by (simp add: hex_value_def Let_def)
qed

lemma char_code: "(of_char c :: nat) < 256"
  by (metis of_char_of char_of_nat of_char_mod_256 mod_less_divisor zero_less_numeral)

lemma escape_names:
  "json_escape (CHR 0x22) = [CHR 0x5C, CHR 0x22]" "json_escape (CHR 0x5C) = [CHR 0x5C, CHR 0x5C]"
  "json_escape (CHR 0x0A) = [CHR 0x5C, CHR ''n'']" "json_escape (CHR 0x0D) = [CHR 0x5C, CHR ''r'']"
  "json_escape (CHR 0x09) = [CHR 0x5C, CHR ''t'']" "json_escape (CHR 0x0C) = [CHR 0x5C, CHR ''f'']"
  "json_escape (CHR 0x08) = [CHR 0x5C, CHR ''b'']"
  by code_simp+

lemma named_codes:
  "char_of (34 :: nat) = CHR 0x22" "char_of (92 :: nat) = CHR 0x5C" "char_of (10 :: nat) = CHR 0x0A"
  "char_of (13 :: nat) = CHR 0x0D" "char_of (9 :: nat) = CHR 0x09" "char_of (12 :: nat) = CHR 0x0C"
  "char_of (8 :: nat) = CHR 0x08" "char_of (48 :: nat) = CHR ''0''"
  by code_simp+

lemma json_escape_cases:
  obtains (named) "c \<in> {CHR 0x22, CHR 0x5C, CHR 0x0A, CHR 0x0D, CHR 0x09, CHR 0x0C, CHR 0x08}"
  | (plain) "json_escape c = [c]" "c \<noteq> CHR 0x22" "c \<noteq> CHR 0x5C" "\<not> of_char c < (32 :: nat)" "of_char c \<le> (126 :: nat)"
  | (hex) "json_escape c = [CHR 0x5C, CHR ''u'', CHR ''0'', CHR ''0'',
      low_hex (of_char c div 16), low_hex (of_char c mod 16)]"
proof -
  define n where "n = (of_char c :: nat)"
  have c: "c = char_of n" by (simp add: n_def)
  consider "n \<in> {34, 92, 10, 13, 9, 12, 8}" | "n \<notin> {34, 92, 10, 13, 9, 12, 8}" "32 \<le> n" "n \<le> 126"
    | "n \<notin> {34, 92, 10, 13, 9, 12, 8}" "\<not> (32 \<le> n \<and> n \<le> 126)" by blast
  then show thesis
  proof cases
    case 1
    then show thesis using named c by (auto simp: named_codes)
  next
    case 2
    have "c \<noteq> CHR 0x22" "c \<noteq> CHR 0x5C" using 2(1) by (auto simp: n_def)
    moreover have "json_escape c = [c]" using 2 by (simp add: json_escape_def Let_def n_def)
    moreover have "\<not> of_char c < (32 :: nat)" "of_char c \<le> (126 :: nat)" using 2 by (simp_all add: n_def)
    ultimately show thesis by (intro plain)
  next
    case 3
    then have "json_escape c = [CHR 0x5C, CHR ''u'', CHR ''0'', CHR ''0'', low_hex (of_char c div 16), low_hex (of_char c mod 16)]"
      by (simp add: json_escape_def Let_def n_def)
    then show thesis by (rule hex)
  qed
qed

lemma scan_escape: "scan_string (json_escape c @ t) = add_char c (scan_string t)"
proof (cases c rule: json_escape_cases)
  case named
  then show ?thesis
    by (elim insertE emptyE) (simp_all add: escape_names simple_escape_def)
next
  case plain
  then show ?thesis by simp
next
  case hex
  have "(of_char c :: nat) < 256" by (rule char_code)
  then have "latin_escape (CHR ''0'') (CHR ''0'') (low_hex (of_char c div 16)) (low_hex (of_char c mod 16)) = Some c"
    using hex_value_low [of "of_char c div 16"] hex_value_low [of "of_char c mod 16"]
    by (simp add: latin_escape_def less_mult_imp_div_less)
  then show ?thesis using hex by simp
qed

lemma scan_quoted: "scan_string (concat (map json_escape s) @ CHR 0x22 # r) = Some (s, r)"
proof (induction s)
  case (Cons c s)
  then show ?case by (simp add: scan_escape add_char_def)
qed simp

section \<open>Numbers\<close>

lemma digit_char: "d < 10 \<Longrightarrow> is_digit (char_of (48 + d :: nat))"
  by (simp add: is_digit_def Let_def)

lemma nat_text_digits: "list_all is_digit (nat_text n) \<and> nat_text n \<noteq> []"
proof (induction n rule: nat_text.induct)
  case (1 n)
  then show ?case
  proof (cases "n < 10")
    case True
    then show ?thesis using digit_char [of n] by (subst (1 2) nat_text.simps) simp
  next
    case False
    then show ?thesis using 1 digit_char [of "n mod 10"] by (subst (1 2) nat_text.simps) simp
  qed
qed

lemma digits_value_snoc: "digits_value (ds @ [c]) = 10 * digits_value ds + (of_char c - 48)"
  by (simp add: digits_value_def)

lemma digits_value_text: "digits_value (nat_text n) = n"
proof (induction n rule: nat_text.induct)
  case (1 n)
  show ?case
  proof (cases "n < 10")
    case True
    then show ?thesis by (subst nat_text.simps) (simp add: digits_value_def)
  next
    case False
    then show ?thesis using 1 by (subst nat_text.simps) (simp add: digits_value_snoc)
  qed
qed

lemma nat_text_first: "0 < n \<Longrightarrow> hd (nat_text n) \<noteq> CHR ''0''"
proof (induction n rule: nat_text.induct)
  case (1 n)
  show ?case
  proof (cases "n < 10")
    case True
    have "char_of (48 + n) \<noteq> CHR ''0''"
    proof
      assume "char_of (48 + n) = CHR ''0''"
      then have "(of_char (char_of (48 + n)) :: nat) = of_char (CHR ''0'')" by simp
      then show False using True 1(2) by simp
    qed
    then show ?thesis using True by (subst nat_text.simps) simp
  next
    case False
    then show ?thesis using 1 nat_text_digits [of "n div 10"] by (subst nat_text.simps) simp
  qed
qed

definition number_ends :: "string \<Rightarrow> bool" where
  "number_ends r = (case r of [] \<Rightarrow> True | c # cs \<Rightarrow> \<not> is_digit c \<and> \<not> starts_fraction r)"

lemma scan_nat_text:
  assumes "number_ends r"
  shows "scan_nat (nat_text n @ r) = Some (n, r)"
proof -
  have digits: "\<forall>c \<in> set (nat_text n). is_digit c" "nat_text n \<noteq> []"
    using nat_text_digits [of n] by (simp_all add: list_all_iff)
  have stop: "takeWhile is_digit r = []" "dropWhile is_digit r = r" "\<not> starts_fraction r"
    using assms by (cases r; auto simp: number_ends_def starts_fraction_def)+
  have parts: "takeWhile is_digit (nat_text n @ r) = nat_text n" "dropWhile is_digit (nat_text n @ r) = r"
    using digits(1) stop by (simp_all add: takeWhile_append2 dropWhile_append2)
  obtain d ds where d: "nat_text n = d # ds" using digits(2) by (cases "nat_text n") auto
  show ?thesis
  proof (cases "n = 0")
    case True
    then have "nat_text n = ''0''" by (subst nat_text.simps) (simp add: named_codes)
    then show ?thesis using parts stop(3) True by (simp add: scan_nat_def)
  next
    case False
    then have "d \<noteq> CHR ''0''" using nat_text_first [of n] d by simp
    then show ?thesis using parts stop(3) d digits_value_text [of n] by (simp add: scan_nat_def)
  qed
qed

lemma nat_text_no_minus: "hd (nat_text n) \<noteq> CHR ''-''"
proof -
  have "is_digit (hd (nat_text n))" using nat_text_digits [of n] by (cases "nat_text n") auto
  moreover have "\<not> is_digit (CHR ''-'')" by (simp add: is_digit_def)
  ultimately show ?thesis by metis
qed

lemma scan_int_text:
  assumes "number_ends r"
  shows "scan_int (int_text k @ r) = Some (k, r)"
proof (cases "k < 0")
  case True
  then show ?thesis using scan_nat_text [OF assms, of "nat (- k)"] by (simp add: scan_int_def int_text_def)
next
  case False
  obtain d ds where d: "nat_text (nat k) = d # ds" using nat_text_digits [of "nat k"] by (cases "nat_text (nat k)") auto
  then show ?thesis
    using scan_nat_text [OF assms, of "nat k"] nat_text_no_minus [of "nat k"] False
    by (simp add: scan_int_def int_text_def)
qed

lemma int_text_first:
  obtains c cs where "int_text k = c # cs" "is_digit c \<or> c = CHR ''-''"
proof (cases "k < 0")
  case True
  then show thesis using that by (simp add: int_text_def)
next
  case False
  obtain d ds where d: "nat_text (nat k) = d # ds" using nat_text_digits [of "nat k"] by (cases "nat_text (nat k)") auto
  then have "is_digit d" using nat_text_digits [of "nat k"] by simp
  then show thesis using that d False by (simp add: int_text_def)
qed

section \<open>Values\<close>

text \<open>Distinct keys in every object, the fuel a value needs, and the characters a value starts with.\<close>

fun json_wf :: "json \<Rightarrow> bool" where
  "json_wf (JList vs) = list_all json_wf vs"
| "json_wf (JObj kvs) = (distinct (map fst kvs) \<and> list_all (\<lambda>(k, v). json_wf v) kvs)"
| "json_wf v = True"

fun json_fuel :: "json \<Rightarrow> nat" where
  "json_fuel (JList vs) = Suc (sum_list (map (\<lambda>v. Suc (json_fuel v)) vs))"
| "json_fuel (JObj kvs) = Suc (sum_list (map (\<lambda>(k, v). Suc (json_fuel v)) kvs))"
| "json_fuel v = 1"

lemma json_fuel_pos: "0 < json_fuel v"
  by (cases v) simp_all

lemma json_space_facts:
  "\<not> json_space (CHR 0x22)" "\<not> json_space (CHR ''['')" "\<not> json_space (CHR ''{'')" "\<not> json_space (CHR '']'')"
  "\<not> json_space (CHR ''}'')" "\<not> json_space (CHR '','')" "\<not> json_space (CHR '':'')" "\<not> json_space (CHR ''n'')"
  "\<not> json_space (CHR ''t'')" "\<not> json_space (CHR ''f'')" "\<not> json_space (CHR ''-'')"
  by (simp_all add: json_space_def Let_def)

lemma digit_facts:
  assumes "is_digit c"
  shows "\<not> json_space c" "c \<noteq> CHR 0x22" "c \<noteq> CHR ''[''" "c \<noteq> CHR ''{''" "c \<noteq> CHR '']''" "c \<noteq> CHR ''n''"
    "c \<noteq> CHR ''t''" "c \<noteq> CHR ''f''" "c \<noteq> CHR ''}''"
  using assms by (auto simp: is_digit_def json_space_def Let_def)

text \<open>A text of a value starts with a character that is no white space and closes nothing.\<close>

lemma json_text_first:
  obtains c cs where "json_text v = c # cs" "\<not> json_space c" "c \<noteq> CHR '']''" "c \<noteq> CHR ''}''"
proof (cases v)
  case (JInt k)
  obtain c cs where "int_text k = c # cs" "is_digit c \<or> c = CHR ''-''" by (rule int_text_first)
  then show thesis using that JInt digit_facts [of c] json_space_facts by auto
next
  case (JBool b)
  then show thesis using that json_space_facts by (cases b) auto
qed (use that json_space_facts in \<open>auto simp: json_quote_def\<close>)

lemma skip_text: "skip_space (json_text v @ r) = json_text v @ r"
  by (rule json_text_first [of v]) simp

lemma skip_other: "\<not> json_space c \<Longrightarrow> skip_space (c # cs) = c # cs"
  by simp

lemma number_ends_facts:
  "number_ends (CHR '','' # r)" "number_ends (CHR '']'' # r)" "number_ends (CHR ''}'' # r)" "number_ends []"
  by (simp_all add: number_ends_def starts_fraction_def is_digit_def)

lemma dict_of_distinct: "distinct (map fst kvs) \<Longrightarrow> dict_of_list kvs = kvs"
proof -
  have new: "k \<notin> fst ` set d \<Longrightarrow> dict_set k v d = d @ [(k, v)]" for k :: 'a and v :: 'b and d
    by (induction d) auto
  have "distinct (map fst (d @ kvs)) \<Longrightarrow> fold (\<lambda>(k, v). dict_set k v) kvs d = d @ kvs" for d :: "('a \<times> 'b) list"
  proof (induction kvs arbitrary: d)
    case (Cons kv kvs)
    then show ?case by (cases kv) (auto simp: new)
  qed simp
  then show "distinct (map fst kvs) \<Longrightarrow> dict_of_list kvs = kvs" by (simp add: dict_of_list_def)
qed

definition member_text :: "string \<times> json \<Rightarrow> string" where
  "member_text kv = json_quote (fst kv) @ CHR '':'' # json_text (snd kv)"

abbreviation reads :: "json \<Rightarrow> bool" where
  "reads v \<equiv> (\<forall>n r. json_fuel v \<le> n \<longrightarrow> number_ends r \<longrightarrow> parse_value n (json_text v @ r) = Some (v, r))"

lemma comma_join_first: "xs \<noteq> [] \<Longrightarrow> \<exists>t. comma_join xs = hd xs @ t"
  by (cases xs rule: comma_join.cases) auto

lemma parse_items_text:
  "vs \<noteq> [] \<Longrightarrow> list_all reads vs \<Longrightarrow> sum_list (map (\<lambda>v. Suc (json_fuel v)) vs) \<le> n \<Longrightarrow>
     parse_items n (comma_join (map json_text vs) @ CHR '']'' # r) = Some (vs, r)"
proof (induction vs arbitrary: n)
  case (Cons v vs)
  obtain m where n: "n = Suc m" using Cons.prems(3) by (cases n) auto
  have v: "parse_value m (json_text v @ t) = Some (v, t)" if "number_ends t" for t
    using Cons.prems(2,3) n that by simp
  show ?case
  proof (cases vs)
    case Nil
    then show ?thesis using v [of "CHR '']'' # r"] n by (simp add: number_ends_facts json_space_facts)
  next
    case (Cons w ws)
    then have join: "comma_join (map json_text (v # vs)) = json_text v @ CHR '','' # comma_join (map json_text vs)" by simp
    have skip: "skip_space (comma_join (map json_text vs) @ t) = comma_join (map json_text vs) @ t" for t
    proof -
      obtain u where "comma_join (map json_text vs) = json_text w @ u"
        using comma_join_first [of "map json_text vs"] Cons by auto
      then show ?thesis using skip_text [of w "u @ t"] by simp
    qed
    have rest: "parse_items m (comma_join (map json_text vs) @ CHR '']'' # r) = Some (vs, r)"
      using Cons.IH Cons Cons.prems n by simp
    show ?thesis unfolding join n
      using v [of "CHR '','' # comma_join (map json_text vs) @ CHR '']'' # r"] skip rest
      by (simp add: number_ends_facts json_space_facts)
  qed
qed simp

lemma member_reads:
  assumes "reads v" "json_fuel v \<le> m" "number_ends t"
  shows "parse_members (Suc m) (member_text (k, v) @ t) =
    (case skip_space t of
        [] \<Rightarrow> None
      | c # cs \<Rightarrow>
          if c = CHR '','' then map_option (\<lambda>(kvs, u). ((k, v) # kvs, u)) (parse_members m (skip_space cs))
          else if c = CHR ''}'' then Some ([(k, v)], cs)
          else None)"
proof -
  have "parse_value m (json_text v @ t) = Some (v, t)" using assms by simp
  then show ?thesis
    using scan_quoted [of k "CHR '':'' # json_text v @ t"] skip_text [of v t]
    by (simp add: member_text_def json_quote_def json_space_facts del: skip_text)
qed

lemma parse_members_text:
  "kvs \<noteq> [] \<Longrightarrow> list_all (\<lambda>kv. reads (snd kv)) kvs \<Longrightarrow> sum_list (map (\<lambda>kv. Suc (json_fuel (snd kv))) kvs) \<le> n \<Longrightarrow>
     parse_members n (comma_join (map member_text kvs) @ CHR ''}'' # r) = Some (kvs, r)"
proof (induction kvs arbitrary: n)
  case (Cons kv kvs)
  obtain k v where kv: "kv = (k, v)" by (cases kv)
  obtain m where n: "n = Suc m" using Cons.prems(3) by (cases n) auto
  have v: "reads v" "json_fuel v \<le> m" using Cons.prems(2,3) n kv by simp_all
  show ?case
  proof (cases kvs)
    case Nil
    then show ?thesis
      unfolding n kv using member_reads [OF v, of "CHR ''}'' # r" k] by (simp add: number_ends_facts json_space_facts del: parse_members.simps)
  next
    case (Cons kw kws)
    then have join: "comma_join (map member_text ((k, v) # kvs)) = member_text (k, v) @ CHR '','' # comma_join (map member_text kvs)" by simp
    have skip: "skip_space (comma_join (map member_text kvs) @ t) = comma_join (map member_text kvs) @ t" for t
    proof -
      obtain u where "comma_join (map member_text kvs) = member_text kw @ u"
        using comma_join_first [of "map member_text kvs"] Cons by auto
      then show ?thesis by (simp add: member_text_def json_quote_def json_space_facts)
    qed
    have rest: "parse_members m (comma_join (map member_text kvs) @ CHR ''}'' # r) = Some (kvs, r)"
      using Cons.IH Cons Cons.prems n by simp
    show ?thesis unfolding kv join n
      using member_reads [OF v, of "CHR '','' # comma_join (map member_text kvs) @ CHR ''}'' # r" k] skip rest
      by (simp add: number_ends_facts json_space_facts del: parse_members.simps)
  qed
qed simp

text \<open>With enough fuel, the parser reads a value and leaves what follows it.\<close>

lemma parse_value_text: "json_wf v \<Longrightarrow> reads v"
proof (induction v)
  case (JInt k)
  show ?case
  proof (intro allI impI)
    fix n r
    assume n: "json_fuel (JInt k) \<le> n" and r: "number_ends r"
    obtain c cs where c: "int_text k = c # cs" "is_digit c \<or> c = CHR ''-''" by (rule int_text_first)
    have "c \<notin> {CHR 0x22, CHR ''['', CHR ''{'', CHR ''n'', CHR ''t'', CHR ''f''}"
      using c(2) digit_facts [of c] by auto
    moreover have "scan_int (c # cs @ r) = Some (k, r)" using scan_int_text [OF r, of k] c(1) by simp
    moreover obtain m where "n = Suc m" using n by (cases n) auto
    ultimately show "parse_value n (json_text (JInt k) @ r) = Some (JInt k, r)" using c(1) by simp
  qed
next
  case (JStr s)
  then show ?case using scan_quoted [of s] by (auto simp: json_quote_def Suc_le_eq gr0_conv_Suc)
next
  case (JList vs)
  have all: "list_all reads vs" using JList by (simp add: list_all_iff)
  show ?case
  proof (intro allI impI)
    fix n r
    assume "json_fuel (JList vs) \<le> n"
    then obtain m where n: "n = Suc m" "sum_list (map (\<lambda>v. Suc (json_fuel v)) vs) \<le> m" by (cases n) auto
    show "parse_value n (json_text (JList vs) @ r) = Some (JList vs, r)"
    proof (cases vs)
      case Nil
      then show ?thesis using n by (simp add: json_space_facts)
    next
      case (Cons w ws)
      obtain u where u: "comma_join (map json_text vs) = json_text w @ u"
        using comma_join_first [of "map json_text vs"] Cons by auto
      obtain c cs where c: "json_text w = c # cs" "\<not> json_space c" "c \<noteq> CHR '']''" by (rule json_text_first)
      have "parse_items m (comma_join (map json_text vs) @ CHR '']'' # r) = Some (vs, r)"
        using parse_items_text [OF _ all n(2)] Cons by simp
      then show ?thesis using u c n(1) by simp
    qed
  qed
next
  case (JObj kvs)
  have all: "list_all (\<lambda>kv. reads (snd kv)) kvs" "distinct (map fst kvs)"
    using JObj by (fastforce simp: list_all_iff split: prod.splits)+
  have whole: "json_text (JObj kvs) = CHR ''{'' # comma_join (map member_text kvs) @ ''}''"
  proof -
    have "(\<lambda>(k, v). json_quote k @ CHR '':'' # json_text v) = member_text" by (auto simp: member_text_def fun_eq_iff)
    then show ?thesis by simp
  qed
  show ?case
  proof (intro allI impI)
    fix n r
    assume "json_fuel (JObj kvs) \<le> n"
    then obtain m where n: "n = Suc m" "sum_list (map (\<lambda>kv. Suc (json_fuel (snd kv))) kvs) \<le> m"
      by (cases n) (auto simp: case_prod_beta')
    show "parse_value n (json_text (JObj kvs) @ r) = Some (JObj kvs, r)"
    proof (cases kvs)
      case Nil
      then show ?thesis using n by (simp add: json_space_facts)
    next
      case (Cons kw kws)
      obtain u where u: "comma_join (map member_text kvs) = CHR 0x22 # u"
        using comma_join_first [of "map member_text kvs"] Cons by (auto simp: member_text_def json_quote_def)
      have "parse_members m (comma_join (map member_text kvs) @ CHR ''}'' # r) = Some (kvs, r)"
        using parse_members_text [OF _ all(1) n(2)] Cons by simp
      then show ?thesis unfolding whole using u n(1) all(2) by (simp add: json_space_facts dict_of_distinct)
    qed
  qed
qed (auto simp: Suc_le_eq gr0_conv_Suc scan_word_def json_space_facts)

section \<open>Enough fuel\<close>

lemma length_comma_join: "xs \<noteq> [] \<Longrightarrow> Suc (length (comma_join xs)) = sum_list (map (\<lambda>x. Suc (length x)) xs)"
  by (induction xs rule: comma_join.induct) auto

lemma json_fuel_le: "json_fuel v \<le> length (json_text v)"
proof (induction v)
  case (JInt k)
  show ?case by (rule int_text_first [of k]) simp
next
  case (JList vs)
  have "sum_list (map (\<lambda>v. Suc (json_fuel v)) vs) \<le> sum_list (map (\<lambda>v. Suc (length (json_text v))) vs)"
    using JList by (intro sum_list_mono) simp
  then show ?case using length_comma_join [of "map json_text vs"] by (cases "vs = []") (simp_all add: o_def)
next
  case (JObj kvs)
  have "sum_list (map (\<lambda>(k, v). Suc (json_fuel v)) kvs)
      \<le> sum_list (map (\<lambda>kv. Suc (length (json_quote (fst kv) @ CHR '':'' # json_text (snd kv)))) kvs)"
    using JObj by (intro sum_list_mono) (fastforce split: prod.splits)
  then show ?case
    using length_comma_join [of "map (\<lambda>(k, v). json_quote k @ CHR '':'' # json_text v) kvs"]
    by (cases "kvs = []") (simp_all add: o_def case_prod_beta)
qed (simp_all add: json_quote_def)

lemma json_wf_sort: "json_wf v \<Longrightarrow> json_wf (json_sort v)"
proof (induction v)
  case (JObj kvs)
  define ordered where "ordered = map (\<lambda>(k, v). (k, json_sort v)) kvs"
  have "map fst ordered = map fst kvs" by (auto simp: ordered_def)
  then have "distinct (map fst ordered)" using JObj.prems by simp
  then have "distinct (map fst (sort_key fst ordered))" by (simp add: distinct_map)
  then have "distinct (map fst (sort_key fst (map (\<lambda>(k, v). (k, json_sort v)) kvs)))" by (simp only: ordered_def)
  then show ?case using JObj by (fastforce simp: list_all_iff)
qed (simp_all add: list_all_iff)

theorem json_round_trip:
  assumes "json_wf v"
  shows "json_loads (json_dumps v) = Inr (json_sort v)"
proof -
  let ?w = "json_sort v"
  have "reads ?w" using parse_value_text json_wf_sort [OF assms] by blast
  then have "parse_value (Suc (length (json_text ?w))) (json_text ?w @ []) = Some (?w, [])"
    using json_fuel_le [of ?w] number_ends_facts(4) le_SucI by blast
  then show ?thesis using skip_text [of ?w "[]"] by (simp add: json_loads_def json_dumps_def)
qed

end
