(* ===== verification/TextFiles.thy ===== *)
theory TextFiles
  imports JsonRoundTrip
begin

text \<open>
  Text files as the stores use them: \<open>read_text\<close> turns carriage returns into newlines,
  \<open>splitlines\<close> breaks at every line boundary of Python, and \<open>open(path, "a")\<close> appends. A missing
  file is \<open>None\<close>. Failures of the operating system are not modelled.
\<close>

section \<open>Lines\<close>

fun universal_newlines :: "string \<Rightarrow> string" where
  "universal_newlines [] = []"
| "universal_newlines (c # cs) = (if c = CHR 0x0D
     then CHR 0x0A # (case cs of [] \<Rightarrow> [] | d # ds \<Rightarrow> if d = CHR 0x0A then universal_newlines ds else universal_newlines cs)
     else c # universal_newlines cs)"

definition line_break :: "char \<Rightarrow> bool" where
  "line_break c = (let n = (of_char c :: nat) in (10 \<le> n \<and> n \<le> 13) \<or> (28 \<le> n \<and> n \<le> 30) \<or> n = 133)"

function splitlines :: "string \<Rightarrow> string list" where
  "splitlines [] = []"
| "splitlines (c # cs) = takeWhile (\<lambda>x. \<not> line_break x) (c # cs) #
     (case dropWhile (\<lambda>x. \<not> line_break x) (c # cs) of
         [] \<Rightarrow> []
       | b # bs \<Rightarrow> splitlines (if b = CHR 0x0D \<and> take 1 bs = [CHR 0x0A] then tl bs else bs))"
  by pat_completeness auto
termination
proof (relation "measure length", simp)
  fix c :: char and cs b bs
  assume "dropWhile (\<lambda>x. \<not> line_break x) (c # cs) = b # bs"
  then have "length (b # bs) \<le> length (c # cs)" by (metis length_dropWhile_le)
  then show "(if b = CHR 0x0D \<and> take 1 bs = [CHR 0x0A] then tl bs else bs, c # cs) \<in> measure length"
    by (cases bs) auto
qed

type_synonym text_file = "string option"

definition read_text :: "text_file \<Rightarrow> string" where
  "read_text f = (case f of None \<Rightarrow> [] | Some s \<Rightarrow> universal_newlines s)"

definition append_text :: "string \<Rightarrow> text_file \<Rightarrow> text_file" where
  "append_text s f = Some ((case f of None \<Rightarrow> [] | Some t \<Rightarrow> t) @ s)"

section \<open>JSON lines\<close>

definition json_line :: "json \<Rightarrow> string" where
  "json_line v = json_dumps v @ [CHR 0x0A]"

definition json_lines :: "json list \<Rightarrow> string" where
  "json_lines vs = concat (map json_line vs)"

text \<open>What \<open>json_dumps\<close> writes is printable ASCII.\<close>

definition printable :: "char \<Rightarrow> bool" where
  "printable c = (let n = (of_char c :: nat) in 32 \<le> n \<and> n \<le> 126)"

lemma printable_facts:
  "printable (CHR ''{'')" "printable (CHR ''}'')" "printable (CHR ''['')" "printable (CHR '']'')" "printable (CHR '','')"
  "printable (CHR '':'')" "printable (CHR ''-'')" "printable (CHR 0x22)"
  by (simp_all add: printable_def)

lemma printable_low_hex: "d < 16 \<Longrightarrow> printable (low_hex d)"
  by (simp add: printable_def low_hex_def Let_def)

lemma printable_escape: "list_all printable (json_escape c)"
proof (cases c rule: json_escape_cases)
  case named
  then show ?thesis by (elim insertE emptyE) (simp_all add: escape_names printable_def)
next
  case plain
  then show ?thesis by (simp add: printable_def Let_def)
next
  case hex
  have "(of_char c :: nat) < 256" by (rule char_code)
  then have "printable (low_hex (of_char c div 16))" "printable (low_hex (of_char c mod 16))"
    by (simp_all add: printable_low_hex less_mult_imp_div_less)
  then show ?thesis using hex by (simp add: printable_def)
qed

lemma printable_quote: "list_all printable (json_quote s)"
  using printable_escape by (induction s) (auto simp: json_quote_def printable_def)

lemma printable_join: "list_all (list_all printable) xs \<Longrightarrow> list_all printable (comma_join xs)"
  by (induction xs rule: comma_join.induct) (auto simp: printable_def)

lemma printable_digit: "is_digit c \<Longrightarrow> printable c"
  by (auto simp: is_digit_def printable_def Let_def)

lemma printable_text: "list_all printable (json_text v)"
proof (induction v)
  case (JInt k)
  have "list_all printable (nat_text n)" for n
    using nat_text_digits [of n] printable_digit by (auto simp: list_all_iff)
  then show ?case by (simp add: int_text_def printable_facts)
next
  case (JStr s)
  then show ?case by (simp add: printable_quote)
next
  case (JList vs)
  then show ?case using printable_join [of "map json_text vs"] by (simp add: list_all_iff printable_facts)
next
  case (JObj kvs)
  have "list_all (list_all printable) (map (\<lambda>(k, v). json_quote k @ CHR '':'' # json_text v) kvs)"
    using JObj printable_quote by (fastforce simp: list_all_iff printable_facts)
  then show ?case using printable_join by (simp add: printable_facts)
qed (simp_all add: printable_def)

lemma printable_dumps: "list_all printable (json_dumps v)"
  by (simp add: json_dumps_def printable_text)

lemma dumps_first:
  obtains c cs where "json_dumps v = c # cs" "\<not> is_space c"
proof -
  obtain c cs where "json_text (json_sort v) = c # cs" "\<not> json_space c" by (rule json_text_first)
  moreover from this have "printable c" using printable_text [of "json_sort v"] by simp
  ultimately show thesis using that
    by (auto simp: json_dumps_def json_space_def printable_def is_space_def Let_def)
qed

lemma dumps_not_blank: "\<not> blank (json_dumps v)"
proof -
  obtain c cs where c: "json_dumps v = c # cs" "\<not> is_space c" by (rule dumps_first)
  have "strip (c # cs) \<noteq> []"
  proof
    assume "strip (c # cs) = []"
    then have "dropWhile is_space (rev (c # cs)) = []" using c(2) by (simp add: strip_def)
    then have "\<forall>x \<in> set (rev (c # cs)). is_space x" by (simp only: dropWhile_eq_Nil_conv)
    then show False using c(2) by simp
  qed
  then show ?thesis using c(1) by (simp add: blank_def)
qed

lemma printable_no_break: "printable c \<Longrightarrow> \<not> line_break c \<and> c \<noteq> CHR 0x0D"
  by (auto simp: printable_def line_break_def Let_def)

lemma universal_printable:
  "list_all (\<lambda>c. c \<noteq> CHR 0x0D) s \<Longrightarrow> universal_newlines s = s"
  by (induction s) auto

lemma splitlines_line:
  assumes "list_all (\<lambda>c. \<not> line_break c) s"
  shows "splitlines (s @ CHR 0x0A # t) = s # splitlines t"
proof -
  have nl: "line_break (CHR 0x0A)" by (simp add: line_break_def)
  have parts: "takeWhile (\<lambda>x. \<not> line_break x) (s @ CHR 0x0A # t) = s"
    "dropWhile (\<lambda>x. \<not> line_break x) (s @ CHR 0x0A # t) = CHR 0x0A # t"
    using assms nl by (simp_all add: list_all_iff)
  obtain c cs where c: "s @ CHR 0x0A # t = c # cs" by (cases s) auto
  show ?thesis using parts unfolding c by (simp del: takeWhile.simps dropWhile.simps)
qed

text \<open>A file of JSON lines reads back as its lines.\<close>

lemma json_lines_read: "splitlines (universal_newlines (json_lines vs)) = map json_dumps vs"
proof -
  have "list_all (\<lambda>c. c \<noteq> CHR 0x0D) (json_lines vs)"
    using printable_dumps printable_no_break by (fastforce simp: json_lines_def json_line_def list_all_iff)
  then have "universal_newlines (json_lines vs) = json_lines vs" by (rule universal_printable)
  moreover have "splitlines (json_lines vs) = map json_dumps vs"
  proof (induction vs)
    case (Cons v vs)
    have "list_all (\<lambda>c. \<not> line_break c) (json_dumps v)"
      using printable_dumps [of v] printable_no_break by (auto simp: list_all_iff)
    then show ?case using Cons splitlines_line by (simp add: json_lines_def json_line_def)
  qed (simp add: json_lines_def)
  ultimately show ?thesis by simp
qed

lemma json_lines_snoc: "json_lines vs @ json_line v = json_lines (vs @ [v])"
  by (simp add: json_lines_def)

text \<open>A member of a sorted object, and of the object read back.\<close>

lemma dict_get_sorted:
  assumes "distinct (map fst kvs)"
  shows "dict_get (sort_key fst (map (\<lambda>(k, v). (k, json_sort v)) kvs)) key = map_option json_sort (dict_get kvs key)"
proof -
  define ordered where "ordered = map (\<lambda>(k, v). (k, json_sort v)) kvs"
  have keys: "map fst ordered = map fst kvs" by (auto simp: ordered_def)
  then have d: "distinct (map fst ordered)" using assms by simp
  then have "distinct (map fst (sort_key fst ordered))" by (simp add: distinct_map)
  then have "dict_get (sort_key fst ordered) key = dict_get ordered key"
    using d map_of_inject_set [of "sort_key fst ordered" ordered] by simp
  also have "\<dots> = map_option json_sort (dict_get kvs key)" unfolding ordered_def by (induction kvs) auto
  finally show ?thesis by (simp add: ordered_def)
qed

end
