(* ===== verification/LearningModels.thy ===== *)
theory LearningModels
  imports TextFiles Sha256 PyFloat
begin

text \<open>
  \<open>learning/self_learning_models.py\<close>, \<open>learning/lifecycle.py\<close> (the rollback record),
  \<open>learning/promotion.py\<close> and \<open>learning/champion.py\<close>: the immutable records of the learning loop and
  the promotion gate. A field the code does not check holds any JSON value. \<open>iso_aware\<close> stands for
  \<open>datetime.fromisoformat\<close> followed by the test for an offset, and the fingerprints of records with
  float metrics are parameters, since the text of a float is not modelled.
\<close>

section \<open>Shared checks\<close>

definition fingerprint_of :: "json \<Rightarrow> string" where
  "fingerprint_of payload = sha256_hex (json_dumps payload)"

fun require_texts :: "(string \<times> string) list \<Rightarrow> unit res" where
  "require_texts [] = Inr ()"
| "require_texts ((name, value) # rest) =
     (if blank value then Inl (ValueError (name @ '' must be non-empty'')) else require_texts rest)"

definition is_sha256 :: "string \<Rightarrow> bool" where
  "is_sha256 s = (length s = 64)"

fun json_of_option :: "string option \<Rightarrow> json" where
  "json_of_option None = JNull"
| "json_of_option (Some s) = JStr s"

definition json_strings :: "string list \<Rightarrow> json" where
  "json_strings xs = JList (map JStr xs)"

section \<open>Enumerations\<close>

datatype LearningState =
    LS_OBSERVATION | LS_HYPOTHESIS | LS_EXPERIMENT | LS_CANDIDATE | LS_VALIDATING | LS_OOS | LS_WALK_FORWARD
  | LS_PAPER | LS_PROMOTION_REVIEW | LS_PROMOTED | LS_REJECTED | LS_INCONCLUSIVE | LS_ROLLED_BACK

fun state_value :: "LearningState \<Rightarrow> string" where
  "state_value LS_OBSERVATION = ''OBSERVATION''"
| "state_value LS_HYPOTHESIS = ''HYPOTHESIS''"
| "state_value LS_EXPERIMENT = ''EXPERIMENT''"
| "state_value LS_CANDIDATE = ''CANDIDATE''"
| "state_value LS_VALIDATING = ''VALIDATING''"
| "state_value LS_OOS = ''OOS''"
| "state_value LS_WALK_FORWARD = ''WALK_FORWARD''"
| "state_value LS_PAPER = ''PAPER''"
| "state_value LS_PROMOTION_REVIEW = ''PROMOTION_REVIEW''"
| "state_value LS_PROMOTED = ''PROMOTED''"
| "state_value LS_REJECTED = ''REJECTED''"
| "state_value LS_INCONCLUSIVE = ''INCONCLUSIVE''"
| "state_value LS_ROLLED_BACK = ''ROLLED_BACK''"

definition learning_states :: "LearningState list" where
  "learning_states = [LS_OBSERVATION, LS_HYPOTHESIS, LS_EXPERIMENT, LS_CANDIDATE, LS_VALIDATING, LS_OOS,
     LS_WALK_FORWARD, LS_PAPER, LS_PROMOTION_REVIEW, LS_PROMOTED, LS_REJECTED, LS_INCONCLUSIVE, LS_ROLLED_BACK]"

datatype LearningDecision = LD_KEEP | LD_REJECT | LD_INCONCLUSIVE | LD_REDESIGN

fun decision_value :: "LearningDecision \<Rightarrow> string" where
  "decision_value LD_KEEP = ''KEEP''"
| "decision_value LD_REJECT = ''REJECT''"
| "decision_value LD_INCONCLUSIVE = ''INCONCLUSIVE''"
| "decision_value LD_REDESIGN = ''REDESIGN''"

datatype FailureClass =
    FC_DATA | FC_FEATURE | FC_LABEL | FC_CAUSALITY | FC_MODEL | FC_CALIBRATION | FC_REGIME | FC_STRATEGY
  | FC_RISK | FC_EXECUTION | FC_INFRASTRUCTURE | FC_UNKNOWN

fun failure_value :: "FailureClass \<Rightarrow> string" where
  "failure_value FC_DATA = ''DATA_FAILURE''"
| "failure_value FC_FEATURE = ''FEATURE_FAILURE''"
| "failure_value FC_LABEL = ''LABEL_FAILURE''"
| "failure_value FC_CAUSALITY = ''CAUSALITY_FAILURE''"
| "failure_value FC_MODEL = ''MODEL_FAILURE''"
| "failure_value FC_CALIBRATION = ''CALIBRATION_FAILURE''"
| "failure_value FC_REGIME = ''REGIME_FAILURE''"
| "failure_value FC_STRATEGY = ''STRATEGY_FAILURE''"
| "failure_value FC_RISK = ''RISK_FAILURE''"
| "failure_value FC_EXECUTION = ''EXECUTION_FAILURE''"
| "failure_value FC_INFRASTRUCTURE = ''INFRASTRUCTURE_FAILURE''"
| "failure_value FC_UNKNOWN = ''UNKNOWN''"

definition failure_classes :: "FailureClass list" where
  "failure_classes = [FC_DATA, FC_FEATURE, FC_LABEL, FC_CAUSALITY, FC_MODEL, FC_CALIBRATION, FC_REGIME, FC_STRATEGY,
     FC_RISK, FC_EXECUTION, FC_INFRASTRUCTURE, FC_UNKNOWN]"

text \<open>\<open>Enum(value)\<close>: the member with the value, or a \<open>ValueError\<close>.\<close>

definition enum_of :: "('e \<Rightarrow> string) \<Rightarrow> 'e list \<Rightarrow> string \<Rightarrow> 'e res" where
  "enum_of f members text = (case filter (\<lambda>m. f m = text) members of
     [] \<Rightarrow> Inl (ValueError ''not a valid member'') | m # _ \<Rightarrow> Inr m)"

section \<open>Champions and cycles\<close>

record ChampionRecord =
  cr_model_version :: string
  cr_status :: string
  cr_activated_at :: string
  cr_experiment_id :: string
  cr_promotion_review_fingerprint :: string
  cr_parent_model_version :: json
  cr_rollback_of :: json

definition make_champion_record :: "ChampionRecord \<Rightarrow> ChampionRecord res" where
  "make_champion_record c = rbind (require_texts
     [(''model_version'', cr_model_version c), (''status'', cr_status c), (''activated_at'', cr_activated_at c),
      (''experiment_id'', cr_experiment_id c), (''promotion_review_fingerprint'', cr_promotion_review_fingerprint c)])
     (\<lambda>_. if \<not> is_sha256 (cr_promotion_review_fingerprint c)
        then Inl (ValueError ''promotion_review_fingerprint must be SHA-256'') else Inr c)"

definition champion_members :: "ChampionRecord \<Rightarrow> (string \<times> json) list" where
  "champion_members c = [(''model_version'', JStr (cr_model_version c)), (''status'', JStr (cr_status c)),
     (''activated_at'', JStr (cr_activated_at c)), (''experiment_id'', JStr (cr_experiment_id c)),
     (''promotion_review_fingerprint'', JStr (cr_promotion_review_fingerprint c)),
     (''parent_model_version'', cr_parent_model_version c), (''rollback_of'', cr_rollback_of c)]"

definition champion_fingerprint :: "ChampionRecord \<Rightarrow> string" where
  "champion_fingerprint c = fingerprint_of (JObj (champion_members c))"

record LearningCycle =
  ly_cycle_id :: string
  ly_state :: LearningState
  ly_experience_fingerprints :: "string list"
  ly_learning_evidence_fingerprints :: "string list"
  ly_experiment_id :: json
  ly_candidate_id :: json
  ly_promotion_review_fingerprint :: "string option"
  ly_decision :: LearningDecision
  ly_failure_class :: "FailureClass option"
  ly_lesson :: string
  ly_next_experiment :: string

definition make_learning_cycle :: "LearningCycle \<Rightarrow> LearningCycle res" where
  "make_learning_cycle c = rbind (require_texts [(''cycle_id'', ly_cycle_id c)]) (\<lambda>_.
     if \<not> list_all is_sha256 (ly_experience_fingerprints c)
       then Inl (ValueError ''experience_fingerprints must contain SHA-256 values'')
     else if \<not> list_all is_sha256 (ly_learning_evidence_fingerprints c)
       then Inl (ValueError ''learning_evidence_fingerprints must contain SHA-256 values'')
     else if (case ly_promotion_review_fingerprint c of None \<Rightarrow> False | Some f \<Rightarrow> \<not> is_sha256 f)
       then Inl (ValueError ''promotion_review_fingerprint must be SHA-256'')
     else Inr c)"

definition cycle_members :: "LearningCycle \<Rightarrow> (string \<times> json) list" where
  "cycle_members c = [(''cycle_id'', JStr (ly_cycle_id c)), (''state'', JStr (state_value (ly_state c))),
     (''experience_fingerprints'', json_strings (ly_experience_fingerprints c)),
     (''learning_evidence_fingerprints'', json_strings (ly_learning_evidence_fingerprints c)),
     (''experiment_id'', ly_experiment_id c), (''candidate_id'', ly_candidate_id c),
     (''promotion_review_fingerprint'', json_of_option (ly_promotion_review_fingerprint c)),
     (''decision'', JStr (decision_value (ly_decision c))),
     (''failure_class'', json_of_option (map_option failure_value (ly_failure_class c))),
     (''lesson'', JStr (ly_lesson c)), (''next_experiment'', JStr (ly_next_experiment c))]"

definition cycle_fingerprint :: "LearningCycle \<Rightarrow> string" where
  "cycle_fingerprint c = fingerprint_of (JObj (cycle_members c))"

section \<open>Datasets and lineage\<close>

record DatasetVersion =
  dv_dataset_version :: string
  dv_creation_timestamp :: string
  dv_source :: string
  dv_symbols :: "string list"
  dv_period_start :: string
  dv_period_end :: string
  dv_row_count :: int
  dv_label_distribution :: "(string \<times> int) list"
  dv_feature_schema_version :: string
  dv_label_definition_version :: string
  dv_source_trade_ids :: "string list"
  dv_known_limitations :: "string list"

definition make_dataset_version :: "DatasetVersion \<Rightarrow> DatasetVersion res" where
  "make_dataset_version d = rbind (require_texts
     [(''dataset_version'', dv_dataset_version d), (''creation_timestamp'', dv_creation_timestamp d),
      (''source'', dv_source d), (''period_start'', dv_period_start d), (''period_end'', dv_period_end d),
      (''feature_schema_version'', dv_feature_schema_version d),
      (''label_definition_version'', dv_label_definition_version d)]) (\<lambda>_.
     if dv_row_count d < 0 then Inl (ValueError ''row_count must be non-negative'')
     else if dv_symbols d = [] then Inl (ValueError ''symbols must contain at least one symbol'')
     else if list_ex blank (dv_symbols d) then Inl (ValueError ''symbols must contain non-empty strings'')
     else if list_ex (\<lambda>(k, n). n < 0) (dv_label_distribution d)
       then Inl (ValueError ''label_distribution values must be non-negative integers'')
     else if sum_list (map snd (dv_label_distribution d)) \<noteq> dv_row_count d
       then Inl (ValueError ''label_distribution must sum to row_count'')
     else Inr (d\<lparr>dv_dataset_version := strip (dv_dataset_version d), dv_source := strip (dv_source d),
       dv_symbols := sort (map symbol_of (dv_symbols d)),
       dv_label_distribution := sort_key fst (dv_label_distribution d),
       dv_source_trade_ids := sort (remdups (dv_source_trade_ids d))\<rparr>))"

definition dataset_members :: "DatasetVersion \<Rightarrow> (string \<times> json) list" where
  "dataset_members d = [(''dataset_version'', JStr (dv_dataset_version d)),
     (''creation_timestamp'', JStr (dv_creation_timestamp d)), (''source'', JStr (dv_source d)),
     (''symbols'', json_strings (dv_symbols d)), (''period_start'', JStr (dv_period_start d)),
     (''period_end'', JStr (dv_period_end d)), (''row_count'', JInt (dv_row_count d)),
     (''label_distribution'', JObj (map (\<lambda>(k, n). (k, JInt n)) (dv_label_distribution d))),
     (''feature_schema_version'', JStr (dv_feature_schema_version d)),
     (''label_definition_version'', JStr (dv_label_definition_version d)),
     (''source_trade_ids'', json_strings (dv_source_trade_ids d)),
     (''known_limitations'', json_strings (dv_known_limitations d))]"

definition dataset_fingerprint :: "DatasetVersion \<Rightarrow> string" where
  "dataset_fingerprint d = fingerprint_of (JObj (dataset_members d))"

record ExperimentLineage =
  el_experiment_id :: string
  el_dataset :: DatasetVersion
  el_code_version :: string
  el_feature_version :: string
  el_label_version :: string
  el_model_version :: string
  el_strategy_version :: string
  el_risk_version :: string
  el_execution_version :: string
  el_change :: string
  el_fixed_components :: "string list"
  el_parent_experiment_id :: json

definition make_experiment_lineage :: "ExperimentLineage \<Rightarrow> ExperimentLineage res" where
  "make_experiment_lineage e = rbind (require_texts
     [(''experiment_id'', el_experiment_id e), (''code_version'', el_code_version e),
      (''feature_version'', el_feature_version e), (''label_version'', el_label_version e),
      (''model_version'', el_model_version e), (''strategy_version'', el_strategy_version e),
      (''risk_version'', el_risk_version e), (''execution_version'', el_execution_version e),
      (''change'', el_change e)]) (\<lambda>_.
     if el_fixed_components e = [] then Inl (ValueError ''fixed_components must not be empty'') else Inr e)"

definition lineage_fingerprint :: "ExperimentLineage \<Rightarrow> string" where
  "lineage_fingerprint e = fingerprint_of (JObj [(''experiment_id'', JStr (el_experiment_id e)),
     (''dataset_fingerprint'', JStr (dataset_fingerprint (el_dataset e))),
     (''code_version'', JStr (el_code_version e)), (''feature_version'', JStr (el_feature_version e)),
     (''label_version'', JStr (el_label_version e)), (''model_version'', JStr (el_model_version e)),
     (''strategy_version'', JStr (el_strategy_version e)), (''risk_version'', JStr (el_risk_version e)),
     (''execution_version'', JStr (el_execution_version e)), (''change'', JStr (el_change e)),
     (''fixed_components'', json_strings (el_fixed_components e)),
     (''parent_experiment_id'', el_parent_experiment_id e)])"

section \<open>Validation evidence and promotion reviews\<close>

type_synonym metrics = "(string, pyfloat) dict"

record ValidationEvidence =
  ve_integrity_passed :: bool
  ve_leakage_passed :: bool
  ve_oos_passed :: bool
  ve_walk_forward_passed :: bool
  ve_paper_passed :: bool
  ve_predictive_metrics :: metrics
  ve_trading_metrics :: metrics
  ve_regime_metrics :: "(string, metrics) dict"
  ve_symbol_metrics :: "(string, metrics) dict"
  ve_date_metrics :: "(string, metrics) dict"
  ve_effective_sample_size_notes :: string
  ve_issues :: "string list"

fun require_finite_all :: "(string \<times> pyfloat) list \<Rightarrow> unit res" where
  "require_finite_all [] = Inr ()"
| "require_finite_all ((name, x) # rest) =
     (if \<not> isfinite x then Inl (ValueError (name @ '' must be finite'')) else require_finite_all rest)"

definition make_validation_evidence :: "ValidationEvidence \<Rightarrow> ValidationEvidence res" where
  "make_validation_evidence v = rbind (require_finite_all (ve_predictive_metrics v @ ve_trading_metrics v
       @ concat (dict_values (ve_regime_metrics v)) @ concat (dict_values (ve_symbol_metrics v))
       @ concat (dict_values (ve_date_metrics v)))) (\<lambda>_. Inr v)"

definition all_required_gates_pass :: "ValidationEvidence \<Rightarrow> bool" where
  "all_required_gates_pass v = (ve_integrity_passed v \<and> ve_leakage_passed v \<and> ve_oos_passed v
     \<and> ve_walk_forward_passed v \<and> ve_paper_passed v)"

record PromotionReview =
  rv_candidate_id :: string
  rv_candidate_fingerprint :: string
  rv_current_model_version :: string
  rv_challenger_model_version :: string
  rv_validation :: ValidationEvidence
  rv_reproducibility_passed :: bool
  rv_governance_approved :: bool
  rv_decision :: LearningDecision
  rv_reasons :: "string list"

definition make_promotion_review :: "PromotionReview \<Rightarrow> PromotionReview res" where
  "make_promotion_review r = rbind (require_texts
     [(''candidate_id'', rv_candidate_id r), (''candidate_fingerprint'', rv_candidate_fingerprint r),
      (''current_model_version'', rv_current_model_version r),
      (''challenger_model_version'', rv_challenger_model_version r)]) (\<lambda>_.
     if rv_current_model_version r = rv_challenger_model_version r
       then Inl (ValueError ''current and challenger model versions must differ'') else Inr r)"

definition promotable :: "PromotionReview \<Rightarrow> bool" where
  "promotable r = (all_required_gates_pass (rv_validation r) \<and> rv_reproducibility_passed r
     \<and> rv_governance_approved r \<and> rv_decision r = LD_KEEP)"

definition review_fingerprint :: "(ValidationEvidence \<Rightarrow> string) \<Rightarrow> PromotionReview \<Rightarrow> string" where
  "review_fingerprint evidence_fingerprint r = fingerprint_of (JObj
     [(''candidate_id'', JStr (rv_candidate_id r)), (''candidate_fingerprint'', JStr (rv_candidate_fingerprint r)),
      (''current_model_version'', JStr (rv_current_model_version r)),
      (''challenger_model_version'', JStr (rv_challenger_model_version r)),
      (''validation'', JStr (evidence_fingerprint (rv_validation r))),
      (''reproducibility_passed'', JBool (rv_reproducibility_passed r)),
      (''governance_approved'', JBool (rv_governance_approved r)),
      (''decision'', JStr (decision_value (rv_decision r))), (''reasons'', json_strings (rv_reasons r))])"

section \<open>The promotion gate\<close>

definition gate_reasons :: "bool \<Rightarrow> ValidationEvidence \<Rightarrow> bool \<Rightarrow> bool \<Rightarrow> string list" where
  "gate_reasons require_governance v reproducibility governance =
     (if ve_integrity_passed v then [] else [''INTEGRITY_GATE_FAILED''])
   @ (if ve_leakage_passed v then [] else [''LEAKAGE_GATE_FAILED''])
   @ (if ve_oos_passed v then [] else [''OOS_GATE_FAILED''])
   @ (if ve_walk_forward_passed v then [] else [''WALK_FORWARD_GATE_FAILED''])
   @ (if ve_paper_passed v then [] else [''PAPER_GATE_FAILED''])
   @ (if reproducibility then [] else [''REPRODUCIBILITY_GATE_FAILED''])
   @ map (\<lambda>i. ''EVIDENCE_ISSUE:'' @ i) (ve_issues v)
   @ (if require_governance \<and> \<not> governance then [''GOVERNANCE_APPROVAL_REQUIRED''] else [])"

definition gate_review :: "bool \<Rightarrow> string \<Rightarrow> string \<Rightarrow> string \<Rightarrow> string \<Rightarrow> ValidationEvidence \<Rightarrow> bool \<Rightarrow> bool
     \<Rightarrow> LearningDecision option \<Rightarrow> PromotionReview res" where
  "gate_review require_governance candidate_id candidate_fp current challenger v reproducibility governance decision =
    (let reasons = gate_reasons require_governance v reproducibility governance;
         proposed = (case decision of Some d \<Rightarrow> d | None \<Rightarrow> if reasons = [] then LD_KEEP else LD_REJECT);
         final = (if proposed = LD_KEEP \<and> reasons \<noteq> [] then LD_REJECT else proposed) in
     make_promotion_review \<lparr>rv_candidate_id = candidate_id, rv_candidate_fingerprint = candidate_fp,
       rv_current_model_version = current, rv_challenger_model_version = challenger, rv_validation = v,
       rv_reproducibility_passed = reproducibility, rv_governance_approved = governance,
       rv_decision = final, rv_reasons = reasons\<rparr>)"

section \<open>Champion activation and rollback plans\<close>

text \<open>The two fields of a \<open>ModelRegistryRecord\<close> the champion helpers read.\<close>

record registry_entry =
  ry_model_version :: string
  ry_approval_status :: string

definition review_is_consistent :: "PromotionReview \<Rightarrow> string \<Rightarrow> string \<Rightarrow> bool res" where
  "review_is_consistent r current challenger =
    (if rv_current_model_version r \<noteq> current then Inl (ValueError ''review current model mismatch'')
     else if rv_challenger_model_version r \<noteq> challenger then Inl (ValueError ''review challenger model mismatch'')
     else Inr True)"

definition build_activation :: "(ValidationEvidence \<Rightarrow> string) \<Rightarrow> PromotionReview \<Rightarrow> registry_entry \<Rightarrow> string \<Rightarrow> string
     \<Rightarrow> string option \<Rightarrow> string \<Rightarrow> ChampionRecord res" where
  "build_activation evidence_fingerprint r m experiment_id parent activated_at now_text =
    (if \<not> promotable r then Inl (ValueError ''promotion review is not promotable'')
     else if ry_approval_status m \<noteq> ''APPROVED'' then Inl (ValueError ''approved_model must be APPROVED'')
     else if ry_model_version m \<noteq> rv_challenger_model_version r
       then Inl (ValueError ''approved model does not match challenger'')
     else if blank experiment_id then Inl (ValueError ''experiment_id must be non-empty'')
     else if parent \<noteq> rv_current_model_version r then Inl (ValueError ''parent model must match reviewed champion'')
     else make_champion_record \<lparr>cr_model_version = ry_model_version m, cr_status = ''PROMOTED'',
       cr_activated_at = (case activated_at of Some (c # cs) \<Rightarrow> c # cs | _ \<Rightarrow> now_text),
       cr_experiment_id = experiment_id,
       cr_promotion_review_fingerprint = review_fingerprint evidence_fingerprint r,
       cr_parent_model_version = JStr parent, cr_rollback_of = JNull\<rparr>)"

record RollbackPlan =
  rp_from_model_version :: string
  rp_to_model_version :: string
  rp_reason :: string
  rp_source_promotion_review :: string

definition make_rollback_plan :: "RollbackPlan \<Rightarrow> RollbackPlan res" where
  "make_rollback_plan p =
    (if blank (rp_from_model_version p) \<or> blank (rp_to_model_version p)
       then Inl (ValueError ''model versions must be non-empty'')
     else if rp_from_model_version p = rp_to_model_version p
       then Inl (ValueError ''rollback target must differ from current model'')
     else if blank (rp_reason p) then Inl (ValueError ''rollback reason must be non-empty'')
     else if \<not> is_sha256 (rp_source_promotion_review p)
       then Inl (ValueError ''source_promotion_review must be SHA-256'')
     else Inr p)"

definition rollback_plan_fingerprint :: "RollbackPlan \<Rightarrow> string" where
  "rollback_plan_fingerprint p = fingerprint_of (JObj [(''from_model_version'', JStr (rp_from_model_version p)),
     (''to_model_version'', JStr (rp_to_model_version p)), (''reason'', JStr (rp_reason p)),
     (''source_promotion_review'', JStr (rp_source_promotion_review p))])"

record RollbackRecord =
  rr_rollback_id :: string
  rr_from_model_version :: string
  rr_to_model_version :: string
  rr_reason :: string
  rr_timestamp :: string
  rr_review_fingerprint :: string

definition make_rollback_record :: "RollbackRecord \<Rightarrow> RollbackRecord res" where
  "make_rollback_record r = rbind (require_texts
     [(''rollback_id'', rr_rollback_id r), (''from_model_version'', rr_from_model_version r),
      (''to_model_version'', rr_to_model_version r), (''reason'', rr_reason r), (''timestamp'', rr_timestamp r)]) (\<lambda>_.
     if rr_from_model_version r = rr_to_model_version r then Inl (ValueError ''rollback versions must differ'')
     else if \<not> is_sha256 (rr_review_fingerprint r) then Inl (ValueError ''review_fingerprint must be SHA-256'')
     else Inr r)"

definition rollback_record_fingerprint :: "RollbackRecord \<Rightarrow> string" where
  "rollback_record_fingerprint r = fingerprint_of (JObj [(''rollback_id'', JStr (rr_rollback_id r)),
     (''from_model_version'', JStr (rr_from_model_version r)), (''to_model_version'', JStr (rr_to_model_version r)),
     (''reason'', JStr (rr_reason r)), (''timestamp'', JStr (rr_timestamp r)),
     (''review_fingerprint'', JStr (rr_review_fingerprint r))])"

end
