(* ===== verification/LearningStores.thy ===== *)
theory LearningStores
  imports LearningModels
begin

text \<open>
  The append-only stores of the learning loop: \<open>learning/lifecycle.py\<close> (\<open>ChampionStore\<close>),
  \<open>learning/cycle_store.py\<close>, \<open>learning/dataset_store.py\<close> and \<open>self_learning/champion.py\<close>, with the
  promotion decision of \<open>self_learning/contracts.py\<close>. A store is the text of its files. \<open>str()\<close> and
  \<open>int()\<close> are modelled for the JSON values a file may hold, except the text of a list or an object.
\<close>

section \<open>Conversions of parsed values\<close>

fun py_str :: "json \<Rightarrow> string res" where
  "py_str JNull = Inr ''None''"
| "py_str (JBool b) = Inr (if b then ''True'' else ''False'')"
| "py_str (JInt k) = Inr (int_text k)"
| "py_str (JStr s) = Inr s"
| "py_str v = Inl (OtherError ''the text of a container is not modelled'')"

fun py_int :: "json \<Rightarrow> int res" where
  "py_int (JInt k) = Inr k"
| "py_int (JBool b) = Inr (if b then 1 else 0)"
| "py_int (JStr s) = (case scan_int (strip s) of
     Some (k, []) \<Rightarrow> Inr k | _ \<Rightarrow> Inl (ValueError ''invalid literal for int()''))"
| "py_int v = Inl (TypeError ''int() argument must be a string or a real number'')"

text \<open>A tuple of the strings of a list; a string is the tuple of its characters.\<close>

fun string_items :: "json list \<Rightarrow> string list res" where
  "string_items [] = Inr []"
| "string_items (JStr s # vs) = rbind (string_items vs) (\<lambda>ss. Inr (s # ss))"
| "string_items (v # vs) = Inl (TypeError ''items must be strings'')"

fun py_tuple :: "json \<Rightarrow> string list res" where
  "py_tuple (JList vs) = string_items vs"
| "py_tuple (JStr s) = Inr (map (\<lambda>c. [c]) s)"
| "py_tuple (JObj kvs) = Inr (map fst kvs)"
| "py_tuple v = Inl (TypeError ''object is not iterable'')"

text \<open>\<open>payload[name]\<close>, and \<open>payload.get(name, default)\<close>.\<close>

definition item :: "string \<Rightarrow> (string \<times> json) list \<Rightarrow> json res" where
  "item name kvs = (case dict_get kvs name of None \<Rightarrow> Inl (KeyError name) | Some v \<Rightarrow> Inr v)"

definition item_or :: "json \<Rightarrow> string \<Rightarrow> (string \<times> json) list \<Rightarrow> json" where
  "item_or d name kvs = (case dict_get kvs name of None \<Rightarrow> d | Some v \<Rightarrow> v)"

definition pop_fingerprint :: "json \<Rightarrow> (json \<times> (string \<times> json) list) res" where
  "pop_fingerprint v = (case v of
      JObj kvs \<Rightarrow> Inr (item_or JNull ''fingerprint'' kvs, dict_pop ''fingerprint'' kvs)
    | JList _ \<Rightarrow> Inl (TypeError ''pop expected at most 1 argument, got 2'')
    | _ \<Rightarrow> Inl (OtherError ''object has no attribute pop''))"

fun falsy :: "json \<Rightarrow> bool" where
  "falsy JNull = True"
| "falsy (JBool b) = (\<not> b)"
| "falsy (JInt k) = (k = 0)"
| "falsy (JStr s) = (s = [])"
| "falsy (JList vs) = (vs = [])"
| "falsy (JObj kvs) = (kvs = [])"

section \<open>Promotion decisions\<close>

datatype PromotionState = PS_REVIEW_REQUIRED | PS_ELIGIBLE | PS_BLOCKED | PS_PROMOTED | PS_ROLLED_BACK

fun promotion_value :: "PromotionState \<Rightarrow> string" where
  "promotion_value PS_REVIEW_REQUIRED = ''REVIEW_REQUIRED''"
| "promotion_value PS_ELIGIBLE = ''ELIGIBLE''"
| "promotion_value PS_BLOCKED = ''BLOCKED''"
| "promotion_value PS_PROMOTED = ''PROMOTED''"
| "promotion_value PS_ROLLED_BACK = ''ROLLED_BACK''"

record PromotionDecision =
  pd_candidate_id :: string
  pd_candidate_fingerprint :: string
  pd_champion_version :: string
  pd_challenger_version :: string
  pd_state :: PromotionState
  pd_reasons :: "string list"
  pd_validation_fingerprints :: "string list"
  pd_approval_reference :: string
  pd_created_at :: string

definition make_promotion_decision :: "(string \<Rightarrow> bool) \<Rightarrow> PromotionDecision \<Rightarrow> PromotionDecision res" where
  "make_promotion_decision iso_aware d =
    (if blank (pd_candidate_id d) then Inl (ValueError ''candidate_id must not be empty'')
     else if \<not> is_sha256 (pd_candidate_fingerprint d) then Inl (ValueError ''candidate_fingerprint must be SHA-256'')
     else if blank (pd_champion_version d) \<or> blank (pd_challenger_version d)
       then Inl (ValueError ''champion/challenger versions are required'')
     else if pd_champion_version d = pd_challenger_version d
       then Inl (ValueError ''champion and challenger versions must differ'')
     else if pd_state d \<in> {PS_ELIGIBLE, PS_PROMOTED} \<and> pd_validation_fingerprints d = []
       then Inl (ValueError ''validation_fingerprints must not be empty'')
     else if \<not> list_all is_sha256 (pd_validation_fingerprints d)
       then Inl (ValueError ''validation_fingerprints must be SHA-256'')
     else if pd_state d = PS_PROMOTED \<and> blank (pd_approval_reference d)
       then Inl (ValueError ''PROMOTED requires approval_reference'')
     else if pd_state d = PS_PROMOTED \<and> blank (pd_created_at d)
       then Inl (ValueError ''PROMOTED requires created_at'')
     else if pd_state d = PS_PROMOTED \<and> \<not> iso_aware (pd_created_at d)
       then Inl (ValueError ''PROMOTED created_at must be timezone-aware'')
     else Inr d)"

text \<open>
  The fingerprint hashes \<open>str(self)\<close>, the representation of the dataclass, written as a JSON string:
  \<open>_canonical\<close> leaves a dataclass alone and \<open>json.dumps\<close> falls back to \<open>str\<close>.
\<close>

definition repr_char :: "char \<Rightarrow> char \<Rightarrow> string" where
  "repr_char q c = (let n = (of_char c :: nat); b = CHR 0x5C in
     if c = q \<or> c = b then [b, c]
     else if n = 10 then [b, CHR ''n'']
     else if n = 13 then [b, CHR ''r'']
     else if n = 9 then [b, CHR ''t'']
     else if (32 \<le> n \<and> n \<le> 126) \<or> (161 \<le> n \<and> n \<noteq> 173) then [c]
     else [b, CHR ''x'', low_hex (n div 16), low_hex (n mod 16)])"

definition py_repr :: "string \<Rightarrow> string" where
  "py_repr s = (let q = (if CHR 0x27 \<in> set s \<and> CHR 0x22 \<notin> set s then CHR 0x22 else CHR 0x27) in
     q # concat (map (repr_char q) s) @ [q])"

fun repr_items :: "string list \<Rightarrow> string" where
  "repr_items [] = []"
| "repr_items [x] = py_repr x"
| "repr_items (x # xs) = py_repr x @ '', '' @ repr_items xs"

definition repr_tuple :: "string list \<Rightarrow> string" where
  "repr_tuple xs = ''('' @ repr_items xs @ (if length xs = 1 then '','' else []) @ '')''"

definition decision_repr :: "PromotionDecision \<Rightarrow> string" where
  "decision_repr d = ''PromotionDecision(candidate_id='' @ py_repr (pd_candidate_id d)
     @ '', candidate_fingerprint='' @ py_repr (pd_candidate_fingerprint d)
     @ '', champion_version='' @ py_repr (pd_champion_version d)
     @ '', challenger_version='' @ py_repr (pd_challenger_version d)
     @ '', state=<PromotionState.'' @ promotion_value (pd_state d) @ '': '' @ py_repr (promotion_value (pd_state d))
     @ ''>, reasons='' @ repr_tuple (pd_reasons d)
     @ '', validation_fingerprints='' @ repr_tuple (pd_validation_fingerprints d)
     @ '', approval_reference='' @ py_repr (pd_approval_reference d)
     @ '', created_at='' @ py_repr (pd_created_at d) @ '')''"

definition decision_fingerprint :: "PromotionDecision \<Rightarrow> string" where
  "decision_fingerprint d = fingerprint_of (JStr (decision_repr d))"

section \<open>The champion store\<close>

record ChampionStore =
  cs_history :: text_file
  cs_pointer :: text_file

text \<open>\<open>ChampionRecord(**payload)\<close>\<close>

definition champion_keys :: "string list" where
  "champion_keys = [''model_version'', ''status'', ''activated_at'', ''experiment_id'',
     ''promotion_review_fingerprint'', ''parent_model_version'', ''rollback_of'']"

definition text_item :: "string \<Rightarrow> (string \<times> json) list \<Rightarrow> string res" where
  "text_item name kvs = (case dict_get kvs name of
      Some (JStr s) \<Rightarrow> Inr s
    | _ \<Rightarrow> Inl (ValueError (name @ '' must be non-empty'')))"

definition champion_of_members :: "(string \<times> json) list \<Rightarrow> ChampionRecord res" where
  "champion_of_members kvs =
    (if \<not> list_all (\<lambda>(k, v). k \<in> set champion_keys) kvs then Inl (TypeError ''got an unexpected keyword argument'')
     else if \<not> list_all (\<lambda>k. dict_get kvs k \<noteq> None) (take 5 champion_keys)
       then Inl (TypeError ''missing required positional arguments'')
     else rbind (text_item ''model_version'' kvs) (\<lambda>version.
       rbind (require_texts [(''model_version'', version)]) (\<lambda>_.
       rbind (text_item ''status'' kvs) (\<lambda>status.
       rbind (require_texts [(''status'', status)]) (\<lambda>_.
       rbind (text_item ''activated_at'' kvs) (\<lambda>activated_at.
       rbind (require_texts [(''activated_at'', activated_at)]) (\<lambda>_.
       rbind (text_item ''experiment_id'' kvs) (\<lambda>experiment_id.
       rbind (require_texts [(''experiment_id'', experiment_id)]) (\<lambda>_.
       rbind (text_item ''promotion_review_fingerprint'' kvs) (\<lambda>review.
         make_champion_record \<lparr>cr_model_version = version, cr_status = status, cr_activated_at = activated_at,
           cr_experiment_id = experiment_id, cr_promotion_review_fingerprint = review,
           cr_parent_model_version = item_or JNull ''parent_model_version'' kvs,
           cr_rollback_of = item_or JNull ''rollback_of'' kvs\<rparr>))))))))))"

definition champion_of_line :: "string \<Rightarrow> ChampionRecord res" where
  "champion_of_line line =
    (if blank line then Inl (ValueError ''blank champion history line'')
     else rbind (json_loads line) (\<lambda>payload. rbind (pop_fingerprint payload) (\<lambda>(expected, kvs).
       if falsy expected then Inl (ValueError ''champion history fingerprint is required'')
       else rbind (champion_of_members kvs) (\<lambda>c.
         if expected \<noteq> JStr (champion_fingerprint c)
           then Inl (ValueError ''champion history fingerprint mismatch'') else Inr c))))"

fun load_history :: "ChampionRecord option \<Rightarrow> string list \<Rightarrow> ChampionRecord list res" where
  "load_history previous [] = Inr []"
| "load_history previous (line # rest) = rbind (champion_of_line line) (\<lambda>c.
     if (case previous of
           Some p \<Rightarrow> cr_parent_model_version c \<noteq> JStr (cr_model_version p)
         | None \<Rightarrow> cr_parent_model_version c \<noteq> JNull)
       then Inl (ValueError (if previous = None then ''initial champion cannot have a parent''
         else ''champion history parent mismatch''))
     else rbind (load_history (Some c) rest) (\<lambda>cs. Inr (c # cs)))"

definition champion_history :: "ChampionStore \<Rightarrow> ChampionRecord list res" where
  "champion_history s = load_history None (splitlines (read_text (cs_history s)))"

definition champion_current :: "ChampionStore \<Rightarrow> string option res" where
  "champion_current s = (let text = strip (read_text (cs_pointer s));
       pointer = (if text = [] then None else Some text) in
     rbind (champion_history s) (\<lambda>history.
       if history = [] then
         (if pointer \<noteq> None then Inl (ValueError ''champion pointer exists without history'') else Inr None)
       else if pointer \<noteq> Some (cr_model_version (last history))
         then Inl (ValueError ''champion pointer does not match history'')
       else Inr pointer))"

text \<open>The conditions of an activation, and the activation.\<close>

definition activation_allowed :: "(string \<Rightarrow> bool) \<Rightarrow> ChampionRecord \<Rightarrow> PromotionDecision option \<Rightarrow> unit res" where
  "activation_allowed iso_aware c decision =
    (if cr_status c \<noteq> ''PROMOTED'' then Inl (ValueError ''only PROMOTED records can be activated'')
     else if \<not> is_sha256 (cr_promotion_review_fingerprint c)
       then Inl (ValueError ''promotion review fingerprint must be SHA-256'')
     else if \<not> iso_aware (cr_activated_at c) then Inl (ValueError ''champion activated_at must be timezone-aware'')
     else (case decision of
         None \<Rightarrow> Inl (ValueError ''promotion decision is required for champion activation'')
       | Some d \<Rightarrow>
           if pd_state d \<noteq> PS_PROMOTED then Inl (ValueError ''promotion decision must be PROMOTED'')
           else if pd_challenger_version d \<noteq> cr_model_version c
             then Inl (ValueError ''promotion decision challenger does not match champion record'')
           else if decision_fingerprint d \<noteq> cr_promotion_review_fingerprint c
             then Inl (ValueError ''promotion decision fingerprint does not match champion record'')
           else Inr ()))"

definition successor_allowed :: "ChampionRecord \<Rightarrow> ChampionRecord list \<Rightarrow> string option \<Rightarrow> unit res" where
  "successor_allowed c prior current =
    (if prior \<noteq> [] \<and> current \<noteq> Some (cr_model_version (last prior))
       then Inl (ValueError ''champion pointer does not match history'')
     else if prior \<noteq> [] \<and> cr_parent_model_version c = JNull
       then Inl (ValueError ''champion parent is required for successor activation'')
     else if prior \<noteq> [] \<and> cr_parent_model_version c \<noteq> JStr (cr_model_version (last prior))
       then Inl (ValueError ''champion parent must match current champion'')
     else if prior = [] \<and> current \<noteq> None then Inl (ValueError ''champion pointer exists without history'')
     else if current = Some (cr_model_version c) then Inl (ValueError ''model version is already current champion'')
     else Inr ())"

definition champion_payload :: "ChampionRecord \<Rightarrow> json" where
  "champion_payload c = JObj (champion_members c @ [(''fingerprint'', JStr (champion_fingerprint c))])"

definition champion_activate :: "(string \<Rightarrow> bool) \<Rightarrow> ChampionRecord \<Rightarrow> PromotionDecision option \<Rightarrow> (ChampionStore, unit) act" where
  "champion_activate iso_aware c decision =
     athen (alift (activation_allowed iso_aware c decision))
    (abind (aget champion_history) (\<lambda>loaded. abind (alift loaded) (\<lambda>prior.
     abind (aget champion_current) (\<lambda>pointer. abind (alift pointer) (\<lambda>current.
     athen (alift (successor_allowed c prior current))
    (athen (amod (\<lambda>s. s\<lparr>cs_history := append_text (json_line (champion_payload c)) (cs_history s)\<rparr>))
     (amod (\<lambda>s. s\<lparr>cs_pointer := Some (cr_model_version c)\<rparr>))))))))"

section \<open>The learning cycle store\<close>

definition cycle_of_line :: "string \<Rightarrow> LearningCycle res" where
  "cycle_of_line line =
    (if blank line then Inl (ValueError ''blank learning-cycle line'')
     else rbind (json_loads line) (\<lambda>payload. rbind (pop_fingerprint payload) (\<lambda>(expected, kvs).
       rbind (rbind (item ''cycle_id'' kvs) py_str) (\<lambda>cycle_id.
       rbind (rbind (rbind (item ''state'' kvs) py_str) (enum_of state_value learning_states)) (\<lambda>state.
       rbind (rbind (item ''experience_fingerprints'' kvs) py_tuple) (\<lambda>experience.
       rbind (rbind (item ''learning_evidence_fingerprints'' kvs) py_tuple) (\<lambda>evidence.
       rbind (case item_or JNull ''promotion_review_fingerprint'' kvs of
           JNull \<Rightarrow> Inr None | JStr s \<Rightarrow> Inr (Some s)
         | _ \<Rightarrow> Inl (TypeError ''object has no len()'')) (\<lambda>review.
       rbind (rbind (rbind (item ''decision'' kvs) py_str)
           (enum_of decision_value [LD_KEEP, LD_REJECT, LD_INCONCLUSIVE, LD_REDESIGN])) (\<lambda>decision.
       rbind (case item_or JNull ''failure_class'' kvs of
           JNull \<Rightarrow> Inr None
         | v \<Rightarrow> rbind (rbind (py_str v) (enum_of failure_value failure_classes)) (\<lambda>f. Inr (Some f))) (\<lambda>failure.
       rbind (py_str (item_or (JStr []) ''lesson'' kvs)) (\<lambda>lesson.
       rbind (py_str (item_or (JStr []) ''next_experiment'' kvs)) (\<lambda>next_experiment.
       rbind (make_learning_cycle \<lparr>ly_cycle_id = cycle_id, ly_state = state,
           ly_experience_fingerprints = experience, ly_learning_evidence_fingerprints = evidence,
           ly_experiment_id = item_or JNull ''experiment_id'' kvs,
           ly_candidate_id = item_or JNull ''candidate_id'' kvs,
           ly_promotion_review_fingerprint = review, ly_decision = decision, ly_failure_class = failure,
           ly_lesson = lesson, ly_next_experiment = next_experiment\<rparr>) (\<lambda>c.
       if expected \<noteq> JNull \<and> expected \<noteq> JStr (cycle_fingerprint c)
         then Inl (ValueError ''learning-cycle fingerprint mismatch'') else Inr c)))))))))))))"

fun read_lines :: "(string \<Rightarrow> 'r res) \<Rightarrow> string list \<Rightarrow> 'r list res" where
  "read_lines f [] = Inr []"
| "read_lines f (line # rest) = rbind (f line) (\<lambda>r. rbind (read_lines f rest) (\<lambda>rs. Inr (r # rs)))"

definition cycles_read_all :: "text_file \<Rightarrow> LearningCycle list res" where
  "cycles_read_all f = read_lines cycle_of_line (splitlines (read_text f))"

definition cycle_payload :: "LearningCycle \<Rightarrow> json" where
  "cycle_payload c = JObj (cycle_members c @ [(''fingerprint'', JStr (cycle_fingerprint c))])"

text \<open>The first stored record with the key decides: the same content is accepted silently.\<close>

definition append_once :: "(text_file \<Rightarrow> 'r list res) \<Rightarrow> ('r \<Rightarrow> string) \<Rightarrow> ('r \<Rightarrow> string) \<Rightarrow> ('r \<Rightarrow> json)
     \<Rightarrow> string \<Rightarrow> 'r \<Rightarrow> (text_file, unit) act" where
  "append_once read_all key fingerprint payload conflict r =
     abind (aget read_all) (\<lambda>loaded. abind (alift loaded) (\<lambda>stored.
     case filter (\<lambda>p. key p = key r) stored of
       p # _ \<Rightarrow> if fingerprint p \<noteq> fingerprint r then araise (ValueError conflict) else aret ()
     | [] \<Rightarrow> amod (append_text (json_line (payload r)))))"

definition cycle_append :: "LearningCycle \<Rightarrow> (text_file, unit) act" where
  "cycle_append = append_once cycles_read_all ly_cycle_id cycle_fingerprint cycle_payload
     ''cycle_id collision with different content''"

section \<open>The dataset manifest store\<close>

fun int_items :: "(string \<times> json) list \<Rightarrow> (string \<times> int) list res" where
  "int_items [] = Inr []"
| "int_items ((k, v) # kvs) = rbind (py_int v) (\<lambda>n. rbind (int_items kvs) (\<lambda>ns. Inr ((k, n) # ns)))"

definition dataset_of_line :: "string \<Rightarrow> DatasetVersion res" where
  "dataset_of_line line =
    (if blank line then Inl (ValueError ''blank dataset manifest line'')
     else rbind (json_loads line) (\<lambda>payload. rbind (pop_fingerprint payload) (\<lambda>(expected, kvs).
       rbind (rbind (item ''dataset_version'' kvs) py_str) (\<lambda>version.
       rbind (rbind (item ''creation_timestamp'' kvs) py_str) (\<lambda>created.
       rbind (rbind (item ''source'' kvs) py_str) (\<lambda>source.
       rbind (rbind (item ''symbols'' kvs) py_tuple) (\<lambda>symbols.
       rbind (rbind (item ''period_start'' kvs) py_str) (\<lambda>period_start.
       rbind (rbind (item ''period_end'' kvs) py_str) (\<lambda>period_end.
       rbind (rbind (item ''row_count'' kvs) py_int) (\<lambda>row_count.
       rbind (rbind (item ''label_distribution'' kvs) (\<lambda>v. case v of
           JObj ls \<Rightarrow> int_items ls | _ \<Rightarrow> Inl (OtherError ''object has no attribute items''))) (\<lambda>labels.
       rbind (rbind (item ''feature_schema_version'' kvs) py_str) (\<lambda>feature_schema.
       rbind (rbind (item ''label_definition_version'' kvs) py_str) (\<lambda>label_definition.
       rbind (py_tuple (item_or (JList []) ''source_trade_ids'' kvs)) (\<lambda>trade_ids.
       rbind (py_tuple (item_or (JList []) ''known_limitations'' kvs)) (\<lambda>limitations.
       rbind (make_dataset_version \<lparr>dv_dataset_version = version, dv_creation_timestamp = created,
           dv_source = source, dv_symbols = symbols, dv_period_start = period_start, dv_period_end = period_end,
           dv_row_count = row_count, dv_label_distribution = labels,
           dv_feature_schema_version = feature_schema, dv_label_definition_version = label_definition,
           dv_source_trade_ids = trade_ids, dv_known_limitations = limitations\<rparr>) (\<lambda>d.
       if expected \<noteq> JNull \<and> expected \<noteq> JStr (dataset_fingerprint d)
         then Inl (ValueError ''dataset manifest fingerprint mismatch'') else Inr d))))))))))))))))"

definition datasets_read_all :: "text_file \<Rightarrow> DatasetVersion list res" where
  "datasets_read_all f = read_lines dataset_of_line (splitlines (read_text f))"

definition dataset_payload :: "DatasetVersion \<Rightarrow> json" where
  "dataset_payload d = JObj (dataset_members d @ [(''fingerprint'', JStr (dataset_fingerprint d))])"

definition dataset_append :: "DatasetVersion \<Rightarrow> (text_file, unit) act" where
  "dataset_append = append_once datasets_read_all dv_dataset_version dataset_fingerprint dataset_payload
     ''dataset_version already exists with different metadata''"

definition dataset_get :: "string \<Rightarrow> text_file \<Rightarrow> DatasetVersion res" where
  "dataset_get version f = rbind (datasets_read_all f) (\<lambda>ds.
     case filter (\<lambda>d. dv_dataset_version d = version) ds of
       [] \<Rightarrow> Inl (KeyError (''unknown dataset_version: '' @ version)) | d # _ \<Rightarrow> Inr d)"

section \<open>The champion state store\<close>

record ChampionState =
  ch_champion_version :: string
  ch_previous_verified_version :: "string option"
  ch_promotion_fingerprint :: "string option"
  ch_updated_at :: string

definition make_champion_state :: "ChampionState \<Rightarrow> ChampionState res" where
  "make_champion_state s =
    (if blank (ch_champion_version s) then Inl (ValueError ''champion_version must not be empty'')
     else if ch_previous_verified_version s = Some (ch_champion_version s)
       then Inl (ValueError ''previous_verified_version must differ from champion'')
     else Inr s)"

definition state_payload :: "ChampionState \<Rightarrow> json" where
  "state_payload s = JObj [(''champion_version'', JStr (ch_champion_version s)),
     (''previous_verified_version'', json_of_option (ch_previous_verified_version s)),
     (''promotion_fingerprint'', json_of_option (ch_promotion_fingerprint s)),
     (''updated_at'', JStr (ch_updated_at s))]"

fun optional_str :: "json \<Rightarrow> string option res" where
  "optional_str JNull = Inr None"
| "optional_str v = rbind (py_str v) (\<lambda>s. Inr (Some s))"

definition state_of_line :: "string \<Rightarrow> ChampionState res" where
  "state_of_line line =
    (if blank line then Inl (ValueError ''blank champion state line'')
     else rbind (json_loads line) (\<lambda>payload. case payload of
       JObj kvs \<Rightarrow>
         rbind (rbind (item ''champion_version'' kvs) py_str) (\<lambda>version.
         rbind (optional_str (item_or JNull ''previous_verified_version'' kvs)) (\<lambda>previous.
         rbind (optional_str (item_or JNull ''promotion_fingerprint'' kvs)) (\<lambda>promotion.
         rbind (py_str (item_or (JStr []) ''updated_at'' kvs)) (\<lambda>updated_at.
           make_champion_state \<lparr>ch_champion_version = version, ch_previous_verified_version = previous,
             ch_promotion_fingerprint = promotion, ch_updated_at = updated_at\<rparr>))))
     | _ \<Rightarrow> Inl (ValueError ''invalid champion state line'')))"

definition state_current :: "text_file \<Rightarrow> ChampionState option res" where
  "state_current f = rbind (read_lines state_of_line (splitlines (read_text f))) (\<lambda>ss.
     Inr (if ss = [] then None else Some (last ss)))"

definition state_append :: "ChampionState \<Rightarrow> (text_file, unit) act" where
  "state_append s = abind (aget state_current) (\<lambda>loaded. abind (alift loaded) (\<lambda>existing.
     if existing = Some s then araise (ValueError ''identical champion state already recorded'')
     else amod (append_text (json_line (state_payload s)))))"

definition state_rollback :: "string \<Rightarrow> string \<Rightarrow> (text_file, ChampionState) act" where
  "state_rollback reason updated_at =
     abind (aget state_current) (\<lambda>loaded. abind (alift loaded) (\<lambda>existing. case existing of
       None \<Rightarrow> araise (ValueError ''cannot rollback without a champion state'')
     | Some current \<Rightarrow>
         (case ch_previous_verified_version current of
            None \<Rightarrow> araise (ValueError ''no previous verified version is available'')
          | Some previous \<Rightarrow>
              if previous = [] then araise (ValueError ''no previous verified version is available'')
              else if blank reason then araise (ValueError ''rollback reason is required'')
              else abind (alift (make_champion_state \<lparr>ch_champion_version = previous,
                  ch_previous_verified_version = Some (ch_champion_version current),
                  ch_promotion_fingerprint = ch_promotion_fingerprint current, ch_updated_at = updated_at\<rparr>)) (\<lambda>next_state.
                athen (state_append next_state) (aret next_state)))))"

section \<open>The state machine of a learning cycle\<close>

text \<open>\<open>LearningLifecycle\<close> of \<open>learning/lifecycle.py\<close>.\<close>

definition learning_transitions :: "(string \<times> string list) list" where
  "learning_transitions =
    [(''OBSERVATION'', [''HYPOTHESIS'', ''INCONCLUSIVE'']),
     (''HYPOTHESIS'', [''EXPERIMENT'', ''INCONCLUSIVE'']),
     (''EXPERIMENT'', [''CANDIDATE'', ''REJECTED'', ''INCONCLUSIVE'']),
     (''CANDIDATE'', [''VALIDATING'', ''REJECTED'', ''INCONCLUSIVE'']),
     (''VALIDATING'', [''OOS'', ''REJECTED'', ''INCONCLUSIVE'']),
     (''OOS'', [''WALK_FORWARD'', ''REJECTED'', ''INCONCLUSIVE'']),
     (''WALK_FORWARD'', [''PAPER'', ''REJECTED'', ''INCONCLUSIVE'']),
     (''PAPER'', [''PROMOTION_REVIEW'', ''REJECTED'', ''INCONCLUSIVE'']),
     (''PROMOTION_REVIEW'', [''PROMOTED'', ''REJECTED'', ''INCONCLUSIVE'']),
     (''PROMOTED'', [''ROLLED_BACK'']),
     (''ROLLED_BACK'', []), (''REJECTED'', []), (''INCONCLUSIVE'', [])]"

definition learning_targets :: "string \<Rightarrow> string list" where
  "learning_targets s = (case dict_get learning_transitions s of None \<Rightarrow> [] | Some ts \<Rightarrow> ts)"

definition can_transition :: "string \<Rightarrow> string \<Rightarrow> bool" where
  "can_transition current target = (target \<in> set (learning_targets current))"

definition require_transition :: "string \<Rightarrow> string \<Rightarrow> unit res" where
  "require_transition current target =
    (if can_transition current target then Inr () else Inl (ValueError ''illegal learning transition''))"

end
