(* ===== verification/JsonStores.thy ===== *)
theory JsonStores
  imports LearningStores
begin

text \<open>
  The law the append-only stores share, as locales: a line written for a record reads back as the
  record (\<open>json_record\<close>), and a store that accepts a key once holds the first record of each key in
  the order of arrival (\<open>once_store\<close>).
\<close>

section \<open>Reading a line back\<close>

lemma payload_read:
  assumes "distinct (map fst kvs)" "''fingerprint'' \<notin> fst ` set kvs" "list_all (\<lambda>(k, v). json_wf v) kvs"
  obtains payload rest where
    "json_loads (json_dumps (JObj (kvs @ [(''fingerprint'', JStr fp)]))) = Inr payload"
    "pop_fingerprint payload = Inr (JStr fp, rest)"
    "\<And>k. dict_get rest k = map_option json_sort (dict_get kvs k)"
    "fst ` set rest = fst ` set kvs"
proof -
  define all where "all = kvs @ [(''fingerprint'', JStr fp)]"
  define sorted_members where "sorted_members = sort_key fst (map (\<lambda>(k, v). (k, json_sort v)) all)"
  have d: "distinct (map fst all)" using assms(1,2) by (auto simp: all_def)
  have wf: "json_wf (JObj all)" using d assms(3) by (simp add: all_def)
  have get: "dict_get sorted_members k = map_option json_sort (dict_get all k)" for k
    unfolding sorted_members_def using d by (rule dict_get_sorted)
  have none: "dict_get kvs ''fingerprint'' = None" using assms(2) by (simp add: map_of_eq_None_iff)
  have keys: "fst ` set sorted_members = fst ` set all" by (force simp: sorted_members_def image_iff)
  show thesis
  proof (rule that)
    show "json_loads (json_dumps (JObj (kvs @ [(''fingerprint'', JStr fp)]))) = Inr (JObj sorted_members)"
      using json_round_trip [OF wf] by (simp add: sorted_members_def all_def)
    show "pop_fingerprint (JObj sorted_members) = Inr (JStr fp, dict_pop ''fingerprint'' sorted_members)"
      using none by (simp add: pop_fingerprint_def item_or_def get all_def map_add_def)
    show "dict_get (dict_pop ''fingerprint'' sorted_members) k = map_option json_sort (dict_get kvs k)" for k
      using none by (simp add: get all_def map_add_def split: option.splits)
    show "fst ` set (dict_pop ''fingerprint'' sorted_members) = fst ` set kvs"
    proof -
      have "fst ` set (dict_pop ''fingerprint'' sorted_members) = fst ` set sorted_members - {''fingerprint''}"
        by (force simp: AList.delete_eq)
      then show ?thesis using keys assms(2) by (auto simp: all_def)
    qed
  qed
qed

section \<open>Records on lines\<close>

locale json_record =
  fixes of_line :: "string \<Rightarrow> 'r res"
    and payload :: "'r \<Rightarrow> json"
    and sound :: "'r \<Rightarrow> bool"
  assumes reads_back: "sound r \<Longrightarrow> of_line (json_dumps (payload r)) = Inr r"
begin

definition file_of :: "'r list \<Rightarrow> text_file" where
  "file_of rs = (if rs = [] then None else Some (json_lines (map payload rs)))"

lemma lines_of_file: "splitlines (read_text (file_of rs)) = map (\<lambda>r. json_dumps (payload r)) rs"
  using json_lines_read [of "map payload rs"] by (simp add: file_of_def read_text_def o_def)

lemma file_snoc: "append_text (json_line (payload r)) (file_of rs) = file_of (rs @ [r])"
  by (simp add: append_text_def file_of_def json_lines_snoc [of "map payload rs", simplified])
     (simp add: json_lines_def)

lemma read_file: "list_all sound rs \<Longrightarrow> read_lines of_line (splitlines (read_text (file_of rs))) = Inr rs"
  unfolding lines_of_file by (induction rs) (simp_all add: reads_back)

end

section \<open>Stores that accept a key once\<close>

fun keep_first :: "('r \<Rightarrow> 'k) \<Rightarrow> 'r list \<Rightarrow> 'r \<Rightarrow> 'r list" where
  "keep_first key rs r = (if \<exists>p \<in> set rs. key p = key r then rs else rs @ [r])"

lemma find_filter: "List.find P xs = (case filter P xs of [] \<Rightarrow> None | x # _ \<Rightarrow> Some x)"
  by (induction xs) auto

lemma find_keep_first:
  "List.find (\<lambda>p. key p = k) (foldl (keep_first key) rs new) =
     (case List.find (\<lambda>p. key p = k) rs of Some p \<Rightarrow> Some p | None \<Rightarrow> List.find (\<lambda>p. key p = k) new)"
proof (induction new arbitrary: rs)
  case (Cons r new)
  have "List.find (\<lambda>p. key p = k) (keep_first key rs r) =
      (case List.find (\<lambda>p. key p = k) rs of Some p \<Rightarrow> Some p | None \<Rightarrow> if key r = k then Some r else None)"
    by (induction rs) (auto simp: find_filter filter_empty_conv split: list.split option.split)
  then show ?case using Cons by (simp del: keep_first.simps split: option.split)
qed (simp split: option.split)

locale once_store = json_record of_line payload sound
  for of_line :: "string \<Rightarrow> 'r res" and payload :: "'r \<Rightarrow> json" and sound :: "'r \<Rightarrow> bool" +
  fixes read_all :: "text_file \<Rightarrow> 'r list res"
    and put :: "'r \<Rightarrow> (text_file, unit) act"
    and key :: "'r \<Rightarrow> string" and fingerprint :: "'r \<Rightarrow> string" and conflict :: string
  assumes read_all_lines: "read_all f = read_lines of_line (splitlines (read_text f))"
    and put_is: "put = append_once read_all key fingerprint payload conflict"
begin

lemma read_all_file: "list_all sound rs \<Longrightarrow> read_all (file_of rs) = Inr rs"
  by (simp add: read_all_lines read_file)

lemma put_file:
  assumes "list_all sound rs" "sound r"
  shows "put r (file_of rs) =
    (case filter (\<lambda>p. key p = key r) rs of
        p # _ \<Rightarrow> (if fingerprint p = fingerprint r then Inr () else Inl (ValueError conflict), file_of rs)
      | [] \<Rightarrow> (Inr (), file_of (rs @ [r])))"
  using assms by (simp add: put_is append_once_def py_simps read_all_file file_snoc split: list.split)

lemma put_keeps_first:
  assumes "list_all sound rs" "sound r"
  shows "snd (put r (file_of rs)) = file_of (keep_first key rs r)" "list_all sound (keep_first key rs r)"
  using assms by (auto simp: put_file filter_empty_conv split: list.split dest: filter_eq_ConsD)

lemma put_run:
  assumes "list_all sound rs" "list_all sound new"
  shows "foldl (\<lambda>f r. snd (put r f)) (file_of rs) new = file_of (foldl (keep_first key) rs new)
    \<and> list_all sound (foldl (keep_first key) rs new)"
  using assms put_keeps_first by (induction new arbitrary: rs) (simp_all del: keep_first.simps)

lemma put_after:
  assumes "list_all sound new" "sound r"
  shows "fst (put r (foldl (\<lambda>f r. snd (put r f)) None new)) =
    (case List.find (\<lambda>p. key p = key r) new of
        None \<Rightarrow> Inr ()
      | Some p \<Rightarrow> if fingerprint p = fingerprint r then Inr () else Inl (ValueError conflict))"
proof -
  let ?stored = "foldl (keep_first key) [] new"
  have run: "foldl (\<lambda>f r. snd (put r f)) None new = file_of ?stored" "list_all sound ?stored"
    using put_run [of "[]" new] assms(1) by (simp_all add: file_of_def)
  have "List.find (\<lambda>p. key p = key r) ?stored = List.find (\<lambda>p. key p = key r) new"
    by (simp add: find_keep_first)
  moreover have "fst (put r (file_of ?stored)) = (case List.find (\<lambda>p. key p = key r) ?stored of
        None \<Rightarrow> Inr ()
      | Some p \<Rightarrow> if fingerprint p = fingerprint r then Inr () else Inl (ValueError conflict))"
    by (simp add: put_file [OF run(2) assms(2)] find_filter split: list.split)
  ultimately show ?thesis by (simp only: run(1))
qed

lemma store_holds_first:
  assumes "list_all sound new"
  shows "read_all (foldl (\<lambda>f r. snd (put r f)) None new) = Inr (foldl (keep_first key) [] new)"
  using put_run [of "[]" new] assms read_all_file by (simp add: file_of_def)

end

end
