(* ===== verification/StoreLaws.thy ===== *)
theory StoreLaws
  imports JsonStores
begin

text \<open>
  The stores of the learning loop read back what they write: the record types are interpretations of
  \<open>json_record\<close>, and the cycle and dataset stores are interpretations of \<open>once_store\<close>.
\<close>

section \<open>Shared facts\<close>

definition json_sound :: "json \<Rightarrow> bool" where
  "json_sound v = (json_wf v \<and> json_sort v = v)"

lemma json_sound_simps [simp]:
  "json_sound JNull" "json_sound (JStr s)" "json_sound (JInt k)" "json_sound (JBool b)"
  "json_sound (json_strings xs)" "json_sound (json_of_option opt)"
  by (auto simp: json_sound_def json_strings_def list_all_iff o_def, (cases opt; simp)+)

lemma json_soundD: "json_sound v \<Longrightarrow> json_wf v" "json_sound v \<Longrightarrow> json_sort v = v"
  by (simp_all add: json_sound_def)

lemma json_sound_sorts [simp]:
  "json_wf (json_strings xs)" "json_sort (json_strings xs) = json_strings xs"
  "json_wf (json_of_option opt)" "json_sort (json_of_option opt) = json_of_option opt"
  using json_sound_simps(5,6) unfolding json_sound_def by blast+

lemma string_items_strings: "string_items (map JStr xs) = Inr xs"
  by (induction xs) simp_all

lemma py_tuple_strings [simp]: "py_tuple (json_strings xs) = Inr xs"
  by (simp add: json_strings_def string_items_strings)

lemma require_texts_eq: "require_texts xs = Inr () \<longleftrightarrow> (\<forall>(n, v) \<in> set xs. \<not> blank v)"
  by (induction xs rule: require_texts.induct) auto

lemma enum_of_value:
  assumes "inj f" "m \<in> set members"
  shows "enum_of f members (f m) = Inr m"
proof -
  obtain n ns where n: "filter (\<lambda>k. f k = f m) members = n # ns"
    using assms(2) by (metis (mono_tags, lifting) filter_empty_conv neq_Nil_conv)
  then have "f n = f m" by (meson filter_eq_ConsD)
  then show ?thesis using n assms(1) by (simp add: enum_of_def inj_eq)
qed

lemma state_enum [simp]: "enum_of state_value learning_states (state_value s) = Inr s"
  by (cases s; simp add: enum_of_def learning_states_def)

lemma decision_enum [simp]:
  "enum_of decision_value [LD_KEEP, LD_REJECT, LD_INCONCLUSIVE, LD_REDESIGN] (decision_value d) = Inr d"
  by (cases d; simp add: enum_of_def)

lemma failure_enum [simp]: "enum_of failure_value failure_classes (failure_value f) = Inr f"
  by (cases f; simp add: enum_of_def failure_classes_def)

section \<open>Champions\<close>

definition champion_sound :: "ChampionRecord \<Rightarrow> bool" where
  "champion_sound c = (make_champion_record c = Inr c \<and> json_sound (cr_parent_model_version c)
     \<and> json_sound (cr_rollback_of c))"

lemma champion_fields [simp]:
  "\<lparr>cr_model_version = cr_model_version c, cr_status = cr_status c, cr_activated_at = cr_activated_at c,
     cr_experiment_id = cr_experiment_id c, cr_promotion_review_fingerprint = cr_promotion_review_fingerprint c,
     cr_parent_model_version = cr_parent_model_version c, cr_rollback_of = cr_rollback_of c\<rparr> = c"
  by (cases c) simp

lemma champion_reads_back:
  assumes "champion_sound c"
  shows "champion_of_line (json_dumps (champion_payload c)) = Inr c"
proof -
  have js: "json_sound (cr_parent_model_version c)" "json_sound (cr_rollback_of c)"
    and mk: "make_champion_record c = Inr c" using assms by (simp_all add: champion_sound_def)
  have texts: "\<not> blank (cr_model_version c)" "\<not> blank (cr_status c)" "\<not> blank (cr_activated_at c)"
    "\<not> blank (cr_experiment_id c)"
    using mk by (auto simp: make_champion_record_def require_texts_eq split: if_splits)
  obtain p rest where r: "json_loads (json_dumps (champion_payload c)) = Inr p"
    "pop_fingerprint p = Inr (JStr (champion_fingerprint c), rest)"
    and get: "\<And>k. dict_get rest k = map_option json_sort (dict_get (champion_members c) k)"
    and keys: "fst ` set rest = fst ` set (champion_members c)"
    unfolding champion_payload_def
    by (rule payload_read [of "champion_members c" "champion_fingerprint c"])
       (use js in \<open>auto simp: champion_members_def json_soundD\<close>)
  have known: "list_all (\<lambda>(k, v). k \<in> set champion_keys) rest"
  proof -
    have "fst ` set rest \<subseteq> set champion_keys" unfolding keys by (simp add: champion_members_def champion_keys_def)
    then show ?thesis by (auto simp: list_all_iff)
  qed
  have "champion_of_members rest = Inr c"
    unfolding champion_of_members_def text_item_def item_or_def get
    using known mk texts by (simp add: champion_keys_def champion_members_def js json_soundD)
  moreover have "champion_fingerprint c \<noteq> []"
    using length_sha256_hex by (metis champion_fingerprint_def fingerprint_of_def list.size(3) zero_neq_numeral)
  ultimately show ?thesis using r dumps_not_blank by (simp add: champion_of_line_def)
qed

interpretation champion: json_record champion_of_line champion_payload champion_sound
  by unfold_locales (rule champion_reads_back)

section \<open>Learning cycles\<close>

definition cycle_sound :: "LearningCycle \<Rightarrow> bool" where
  "cycle_sound c = (make_learning_cycle c = Inr c \<and> json_sound (ly_experiment_id c) \<and> json_sound (ly_candidate_id c))"

lemma cycle_fields [simp]:
  "\<lparr>ly_cycle_id = ly_cycle_id c, ly_state = ly_state c, ly_experience_fingerprints = ly_experience_fingerprints c,
     ly_learning_evidence_fingerprints = ly_learning_evidence_fingerprints c, ly_experiment_id = ly_experiment_id c,
     ly_candidate_id = ly_candidate_id c, ly_promotion_review_fingerprint = ly_promotion_review_fingerprint c,
     ly_decision = ly_decision c, ly_failure_class = ly_failure_class c, ly_lesson = ly_lesson c,
     ly_next_experiment = ly_next_experiment c\<rparr> = c"
  by (cases c) simp

lemma optional_text:
  "(case json_of_option opt of JNull \<Rightarrow> Inr None | JStr s \<Rightarrow> Inr (Some s) | _ \<Rightarrow> Inl (TypeError ''object has no len()''))
     = Inr opt"
  by (cases opt) simp_all

lemma optional_failure:
  "(case json_of_option (map_option failure_value opt) of JNull \<Rightarrow> Inr None
     | v \<Rightarrow> rbind (rbind (py_str v) (enum_of failure_value failure_classes)) (\<lambda>f. Inr (Some f))) = Inr opt"
  by (cases opt) simp_all

lemma cycle_reads_back:
  assumes "cycle_sound c"
  shows "cycle_of_line (json_dumps (cycle_payload c)) = Inr c"
proof -
  have js: "json_sound (ly_experiment_id c)" "json_sound (ly_candidate_id c)"
    and mk: "make_learning_cycle c = Inr c" using assms by (simp_all add: cycle_sound_def)
  obtain p rest where r: "json_loads (json_dumps (cycle_payload c)) = Inr p"
    "pop_fingerprint p = Inr (JStr (cycle_fingerprint c), rest)"
    and get: "\<And>k. dict_get rest k = map_option json_sort (dict_get (cycle_members c) k)"
    unfolding cycle_payload_def
    by (rule payload_read [of "cycle_members c" "cycle_fingerprint c"])
       (use js in \<open>auto simp: cycle_members_def json_soundD\<close>)
  show ?thesis
    unfolding cycle_of_line_def r(1) rbind_simps r(2) prod.case item_def item_or_def get
    using mk dumps_not_blank
    by (simp add: cycle_members_def js json_soundD optional_text optional_failure)
qed

interpretation cycle: once_store cycle_of_line cycle_payload cycle_sound cycles_read_all cycle_append
    ly_cycle_id cycle_fingerprint "''cycle_id collision with different content''"
  by unfold_locales (auto simp: cycle_reads_back cycles_read_all_def cycle_append_def)

section \<open>Dataset manifests\<close>

definition dataset_sound :: "DatasetVersion \<Rightarrow> bool" where
  "dataset_sound d = (make_dataset_version d = Inr d \<and> dict_ok (dv_label_distribution d))"

lemma dataset_fields [simp]:
  "\<lparr>dv_dataset_version = dv_dataset_version d, dv_creation_timestamp = dv_creation_timestamp d,
     dv_source = dv_source d, dv_symbols = dv_symbols d, dv_period_start = dv_period_start d,
     dv_period_end = dv_period_end d, dv_row_count = dv_row_count d,
     dv_label_distribution = dv_label_distribution d, dv_feature_schema_version = dv_feature_schema_version d,
     dv_label_definition_version = dv_label_definition_version d, dv_source_trade_ids = dv_source_trade_ids d,
     dv_known_limitations = dv_known_limitations d\<rparr> = d"
  by (cases d) simp

definition labels_json :: "(string \<times> int) list \<Rightarrow> json" where
  "labels_json ls = JObj (map (\<lambda>(k, n). (k, JInt n)) ls)"

lemma labels_read [simp]:
  "(case labels_json ls of JObj kvs \<Rightarrow> int_items kvs | _ \<Rightarrow> Inl e) = Inr ls"
  unfolding labels_json_def json.case by (induction ls) auto

lemma labels_sound:
  assumes "sort_key fst ls = ls" "dict_ok ls"
  shows "json_sound (labels_json ls)"
proof -
  let ?f = "\<lambda>(k :: string, n :: int). (k, JInt n)"
  have fst: "map fst (map ?f ls) = map fst ls" by auto
  have "sorted (map fst ls)" using sorted_sort_key [of fst ls] assms(1) by simp
  then have "sort_key fst (map ?f ls) = map ?f ls" using fst by (metis sort_key_id_if_sorted)
  moreover have "map (\<lambda>(k, v). (k, json_sort v)) (map ?f ls) = map ?f ls" by auto
  moreover have "list_all (\<lambda>(k, v). json_wf v) (map ?f ls)" by (induction ls) auto
  ultimately show ?thesis using assms(2)
    by (simp only: json_sound_def labels_json_def json_wf.simps json_sort.simps fst)
qed

lemma dataset_reads_back:
  assumes "dataset_sound d"
  shows "dataset_of_line (json_dumps (dataset_payload d)) = Inr d"
proof -
  have mk: "make_dataset_version d = Inr d" and keys: "dict_ok (dv_label_distribution d)"
    using assms by (simp_all add: dataset_sound_def)
  have "dv_label_distribution d = sort_key fst (dv_label_distribution d)"
    using mk by (auto simp: make_dataset_version_def split: if_splits dest: arg_cong [where f = dv_label_distribution])
  then have js: "json_sound (labels_json (dv_label_distribution d))" using keys labels_sound by simp
  have members: "dataset_members d = [(''dataset_version'', JStr (dv_dataset_version d)),
     (''creation_timestamp'', JStr (dv_creation_timestamp d)), (''source'', JStr (dv_source d)),
     (''symbols'', json_strings (dv_symbols d)), (''period_start'', JStr (dv_period_start d)),
     (''period_end'', JStr (dv_period_end d)), (''row_count'', JInt (dv_row_count d)),
     (''label_distribution'', labels_json (dv_label_distribution d)),
     (''feature_schema_version'', JStr (dv_feature_schema_version d)),
     (''label_definition_version'', JStr (dv_label_definition_version d)),
     (''source_trade_ids'', json_strings (dv_source_trade_ids d)),
     (''known_limitations'', json_strings (dv_known_limitations d))]"
    by (simp add: dataset_members_def labels_json_def)
  obtain p rest where r: "json_loads (json_dumps (dataset_payload d)) = Inr p"
    "pop_fingerprint p = Inr (JStr (dataset_fingerprint d), rest)"
    and get: "\<And>k. dict_get rest k = map_option json_sort (dict_get (dataset_members d) k)"
    unfolding dataset_payload_def
    by (rule payload_read [of "dataset_members d" "dataset_fingerprint d"])
       (use js in \<open>auto simp: members json_soundD\<close>)
  show ?thesis
    unfolding dataset_of_line_def r(1) rbind_simps r(2) prod.case item_def item_or_def get
    using mk dumps_not_blank by (simp add: members js json_soundD)
qed

interpretation dataset: once_store dataset_of_line dataset_payload dataset_sound datasets_read_all dataset_append
    dv_dataset_version dataset_fingerprint "''dataset_version already exists with different metadata''"
  by unfold_locales (auto simp: dataset_reads_back datasets_read_all_def dataset_append_def)

lemma sum_list_insort: "sum_list (map snd (insort_key f x xs)) = snd x + sum_list (map snd xs)" for x :: "string \<times> int"
  by (induction xs) auto

lemma sort_key_Nil_iff: "sort_key f xs = [] \<longleftrightarrow> xs = []"
  by (metis set_empty set_sort)

text \<open>What the constructor builds from distinct labels is sound.\<close>

lemma sort_remdups_idem: "sort (remdups (sort (remdups xs))) = sort (remdups (xs :: string list))"
  by (simp add: distinct_remdups_id sorted_sort_id)

lemma dataset_built_sound:
  assumes "make_dataset_version raw = Inr d" "dict_ok (dv_label_distribution raw)"
  shows "dataset_sound d"
proof -
  have d: "d = raw\<lparr>dv_dataset_version := strip (dv_dataset_version raw), dv_source := strip (dv_source raw),
       dv_symbols := sort (map symbol_of (dv_symbols raw)),
       dv_label_distribution := sort_key fst (dv_label_distribution raw),
       dv_source_trade_ids := sort (remdups (dv_source_trade_ids raw))\<rparr>"
    using assms(1) by (auto simp: make_dataset_version_def split: if_splits)
  have symbols: "sort (map symbol_of (sort (map symbol_of xs))) = sort (map symbol_of xs)" for xs
  proof -
    have "map symbol_of (sort (map symbol_of xs)) = sort (map symbol_of xs)" by (rule map_idI) auto
    then show ?thesis by (simp add: sorted_sort_id)
  qed
  have sum: "sum_list (map snd (sort_key fst ls)) = sum_list (map snd ls)" for ls :: "(string \<times> int) list"
    by (induction ls) (simp_all add: sum_list_insort)
  show ?thesis
    using assms unfolding dataset_sound_def d
    by (auto simp: make_dataset_version_def require_texts_eq sum distinct_map list_ex_iff symbols sort_remdups_idem sort_key_Nil_iff
      sort_key_id_if_sorted split: if_splits)
qed

section \<open>Champion states\<close>

definition state_sound :: "ChampionState \<Rightarrow> bool" where
  "state_sound s = (make_champion_state s = Inr s)"

lemma champion_state_fields [simp]:
  "\<lparr>ch_champion_version = ch_champion_version s, ch_previous_verified_version = ch_previous_verified_version s,
     ch_promotion_fingerprint = ch_promotion_fingerprint s, ch_updated_at = ch_updated_at s\<rparr> = s"
  by (cases s) simp

lemma optional_str_option [simp]: "optional_str (json_of_option opt) = Inr opt"
  by (cases opt) simp_all

lemma state_reads_back:
  assumes "state_sound s"
  shows "state_of_line (json_dumps (state_payload s)) = Inr s"
proof -
  define kvs where "kvs = [(''champion_version'', JStr (ch_champion_version s)),
     (''previous_verified_version'', json_of_option (ch_previous_verified_version s)),
     (''promotion_fingerprint'', json_of_option (ch_promotion_fingerprint s)),
     (''updated_at'', JStr (ch_updated_at s))]"
  have wf: "json_wf (JObj kvs)" "distinct (map fst kvs)" by (simp_all add: kvs_def)
  have payload: "state_payload s = JObj kvs" by (simp add: state_payload_def kvs_def)
  have get: "dict_get (sort_key fst (map (\<lambda>(k, v). (k, json_sort v)) kvs)) k = map_option json_sort (dict_get kvs k)" for k
    by (rule dict_get_sorted [OF wf(2)])
  have r: "json_loads (json_dumps (state_payload s)) = Inr (JObj (sort_key fst (map (\<lambda>(k, v). (k, json_sort v)) kvs)))"
    using json_round_trip [OF wf(1)] by (simp add: payload)
  show ?thesis
    unfolding state_of_line_def r rbind_simps json.case item_def item_or_def get
    using assms dumps_not_blank by (simp add: kvs_def state_sound_def)
qed

interpretation champion_state: json_record state_of_line state_payload state_sound
  by unfold_locales (rule state_reads_back)

end
