(* ===== verification/LearningProperties.thy ===== *)
theory LearningProperties
  imports StoreLaws OrderModels "HOL-Library.Sublist"
begin

text \<open>
  What the learning stores and state machines promise: the champion history is a chain that only
  grows by lawful activations, the stores read back what was appended, and candidates pass every
  stage before they are promoted.
\<close>

section \<open>The champion store\<close>

text \<open>The chain of a history, and the files of a chain.\<close>

fun chain_from :: "ChampionRecord option \<Rightarrow> ChampionRecord list \<Rightarrow> bool" where
  "chain_from previous [] = True"
| "chain_from previous (c # cs) =
     (cr_parent_model_version c = json_of_option (map_option cr_model_version previous) \<and> chain_from (Some c) cs)"

lemma chain_snoc:
  "chain_from previous (cs @ [c]) \<longleftrightarrow> chain_from previous cs
     \<and> cr_parent_model_version c = json_of_option (map_option cr_model_version (if cs = [] then previous else Some (last cs)))"
  by (induction cs arbitrary: previous) auto

definition pointer_text :: "string \<Rightarrow> bool" where
  "pointer_text v = (strip v = v \<and> CHR 0x0D \<notin> set v)"

definition current_of :: "ChampionRecord list \<Rightarrow> string option" where
  "current_of cs = (if cs = [] then None else Some (cr_model_version (last cs)))"

definition champion_files :: "ChampionRecord list \<Rightarrow> ChampionStore" where
  "champion_files cs = \<lparr>cs_history = champion.file_of cs,
     cs_pointer = current_of cs\<rparr>"

definition lawful_chain :: "ChampionRecord list \<Rightarrow> bool" where
  "lawful_chain cs = (list_all champion_sound cs \<and> chain_from None cs
     \<and> list_all (\<lambda>c. pointer_text (cr_model_version c)) cs)"

lemma load_chain:
  assumes "list_all champion_sound cs" "chain_from previous cs"
  shows "load_history previous (map (\<lambda>c. json_dumps (champion_payload c)) cs) = Inr cs"
  using assms
proof (induction cs arbitrary: previous)
  case (Cons c cs)
  then show ?case by (cases previous) (simp_all add: champion.reads_back)
qed simp

lemma history_files: "list_all champion_sound cs \<Longrightarrow> chain_from None cs \<Longrightarrow> champion_history (champion_files cs) = Inr cs"
  by (simp add: champion_history_def champion_files_def champion.lines_of_file load_chain)

lemma pointer_read: "pointer_text v \<Longrightarrow> strip (read_text (Some v)) = v"
proof -
  assume v: "pointer_text v"
  then have "list_all (\<lambda>c. c \<noteq> CHR 0x0D) v" by (auto simp: pointer_text_def list_all_iff)
  then show ?thesis using v universal_printable by (simp add: pointer_text_def read_text_def)
qed

lemma sound_version: "champion_sound c \<Longrightarrow> cr_model_version c \<noteq> []"
  by (auto simp: champion_sound_def make_champion_record_def require_texts_eq blank_def strip_def)

lemma current_files:
  assumes "lawful_chain cs"
  shows "champion_current (champion_files cs) = Inr (current_of cs)"
proof -
  have h: "champion_history (champion_files cs) = Inr cs"
    using assms by (simp add: lawful_chain_def history_files)
  show ?thesis
  proof (cases "cs = []")
    case True
    then show ?thesis using h by (simp add: champion_current_def champion_files_def current_of_def read_text_def strip_def)
  next
    case False
    then have "pointer_text (cr_model_version (last cs))" "champion_sound (last cs)"
      using assms by (auto simp: lawful_chain_def list_all_iff)
    then show ?thesis using h False pointer_read sound_version
      by (simp add: champion_current_def) (simp add: champion_files_def current_of_def)
  qed
qed

lemma activate_files:
  assumes "lawful_chain cs"
  shows "champion_activate iso_aware c decision (champion_files cs) =
    (case activation_allowed iso_aware c decision of
        Inl e \<Rightarrow> (Inl e, champion_files cs)
      | Inr _ \<Rightarrow> (case successor_allowed c cs (current_of cs) of
            Inl e \<Rightarrow> (Inl e, champion_files cs)
          | Inr _ \<Rightarrow> (Inr (), champion_files (cs @ [c]))))"
proof -
  have h: "champion_history (champion_files cs) = Inr cs"
    using assms by (simp add: lawful_chain_def history_files)
  have snoc: "(champion_files cs)\<lparr>cs_history := append_text (json_line (champion_payload c)) (cs_history (champion_files cs)),
      cs_pointer := Some (cr_model_version c)\<rparr> = champion_files (cs @ [c])"
    by (simp add: champion_files_def current_of_def champion.file_snoc)
  note current = current_files [OF assms]
  show ?thesis
    by (cases "activation_allowed iso_aware c decision"; cases "successor_allowed c cs (current_of cs)")
       (simp_all add: champion_activate_def py_simps current h snoc)
qed

lemma allowed_of_successor:
  "successor_allowed c cs (current_of cs) = Inr () \<Longrightarrow> cs \<noteq> [] \<Longrightarrow>
     cr_parent_model_version c = JStr (cr_model_version (last cs)) \<and> cr_model_version c \<noteq> cr_model_version (last cs)"
  by (auto simp: successor_allowed_def current_of_def split: if_splits)

lemma lawful_snoc:
  assumes "lawful_chain cs" "champion_sound c" "pointer_text (cr_model_version c)"
    and "cr_parent_model_version c = json_of_option (current_of cs)"
  shows "lawful_chain (cs @ [c])"
  using assms by (cases "cs = []") (auto simp: lawful_chain_def chain_snoc current_of_def)

text \<open>A sequence of activations, the ones that raise included.\<close>

definition activations :: "(string \<Rightarrow> bool) \<Rightarrow> (ChampionRecord \<times> PromotionDecision option) list \<Rightarrow> ChampionStore \<Rightarrow> ChampionStore" where
  "activations iso_aware calls s = foldl (\<lambda>s (c, d). snd (champion_activate iso_aware c d s)) s calls"

definition approved_by :: "ChampionRecord \<Rightarrow> PromotionDecision option \<Rightarrow> bool" where
  "approved_by c decision = (cr_status c = ''PROMOTED'' \<and> (\<exists>d. decision = Some d \<and> pd_state d = PS_PROMOTED
     \<and> pd_challenger_version d = cr_model_version c \<and> decision_fingerprint d = cr_promotion_review_fingerprint c))"

lemma decision_fingerprint_ok: "is_sha256 (decision_fingerprint d)" "\<not> blank (decision_fingerprint d)"
  by (simp_all add: is_sha256_def decision_fingerprint_def fingerprint_of_def length_sha256_hex sha256_hex_not_blank)

lemma activation_allowed_iff:
  "activation_allowed iso_aware c d = Inr () \<longleftrightarrow> approved_by c d \<and> iso_aware (cr_activated_at c)"
  by (auto simp: activation_allowed_def approved_by_def split: option.splits)
     (metis decision_fingerprint_ok(1))

lemma successor_allowed_iff:
  "cs \<noteq> [] \<Longrightarrow> successor_allowed c cs (current_of cs) = Inr () \<longleftrightarrow>
     cr_parent_model_version c = JStr (cr_model_version (last cs)) \<and> cr_model_version c \<noteq> cr_model_version (last cs)"
  by (auto simp: successor_allowed_def current_of_def)

text \<open>Which calls are accepted, said without the store: a call fits a history when its record is
  approved by its decision, has a zoned activation time, names the last record as its parent and has
  another version. The accepted records are the ones that fit when their turn comes.\<close>

definition fits :: "(string \<Rightarrow> bool) \<Rightarrow> ChampionRecord list \<Rightarrow> ChampionRecord \<Rightarrow> PromotionDecision option \<Rightarrow> bool" where
  "fits iso_aware cs c d \<longleftrightarrow> approved_by c d \<and> iso_aware (cr_activated_at c) \<and>
     cr_parent_model_version c = JStr (cr_model_version (last cs)) \<and> cr_model_version c \<noteq> cr_model_version (last cs)"

definition accepted :: "(string \<Rightarrow> bool) \<Rightarrow> ChampionRecord list \<Rightarrow> (ChampionRecord \<times> PromotionDecision option) list
     \<Rightarrow> ChampionRecord list" where
  "accepted iso_aware cs calls = foldl (\<lambda>cs (c, d). if fits iso_aware cs c d then cs @ [c] else cs) cs calls"

lemma accepted_simps [simp]:
  "accepted iso_aware cs [] = cs"
  "accepted iso_aware cs ((c, d) # calls) = accepted iso_aware (if fits iso_aware cs c d then cs @ [c] else cs) calls"
  by (simp_all add: accepted_def)

definition writable :: "ChampionRecord \<Rightarrow> bool" where
  "writable c = (champion_sound c \<and> pointer_text (cr_model_version c))"

lemma activation_step:
  assumes "lawful_chain cs" "cs \<noteq> []" "writable c"
  shows "fst (champion_activate iso_aware c d (champion_files cs)) = Inr () \<longleftrightarrow> fits iso_aware cs c d"
    and "snd (champion_activate iso_aware c d (champion_files cs)) =
      champion_files (if fits iso_aware cs c d then cs @ [c] else cs)"
    and "fits iso_aware cs c d \<Longrightarrow> lawful_chain (cs @ [c])"
proof -
  have fits: "fits iso_aware cs c d \<longleftrightarrow>
      activation_allowed iso_aware c d = Inr () \<and> successor_allowed c cs (current_of cs) = Inr ()"
    using successor_allowed_iff [OF assms(2)] activation_allowed_iff by (auto simp: fits_def)
  show "fst (champion_activate iso_aware c d (champion_files cs)) = Inr () \<longleftrightarrow> fits iso_aware cs c d"
    "snd (champion_activate iso_aware c d (champion_files cs)) =
      champion_files (if fits iso_aware cs c d then cs @ [c] else cs)"
    unfolding activate_files [OF assms(1)] fits by (auto split: sum.splits)
  show "lawful_chain (cs @ [c])" if "fits iso_aware cs c d"
    using assms that by (intro lawful_snoc) (simp_all add: writable_def fits_def current_of_def)
qed

lemma activations_run:
  assumes "lawful_chain cs" "cs \<noteq> []" "list_all writable (map fst calls)"
  shows "lawful_chain (accepted iso_aware cs calls) \<and> accepted iso_aware cs calls \<noteq> [] \<and>
    activations iso_aware calls (champion_files cs) = champion_files (accepted iso_aware cs calls)"
  using assms
proof (induction calls arbitrary: cs)
  case Nil
  then show ?case by (simp add: activations_def)
next
  case (Cons call calls)
  obtain c d where call: "call = (c, d)" by (cases call)
  have step: "lawful_chain (if fits iso_aware cs c d then cs @ [c] else cs)"
    "activations iso_aware (call # calls) (champion_files cs) =
      activations iso_aware calls (champion_files (if fits iso_aware cs c d then cs @ [c] else cs))"
    using activation_step [OF Cons.prems(1,2), of c iso_aware d] Cons.prems(1,3)
    by (simp_all add: call activations_def)
  show ?case unfolding step(2) using Cons.IH [OF step(1)] Cons.prems(2,3) by (simp add: call)
qed

lemma accepted_extends:
  "\<exists>new. accepted iso_aware cs calls = cs @ new \<and> subseq new (map fst calls) \<and>
     (\<forall>c \<in> set new. \<exists>d. (c, d) \<in> set calls \<and> approved_by c d)"
proof (induction calls arbitrary: cs)
  case (Cons call calls)
  obtain c d where call: "call = (c, d)" by (cases call)
  show ?case
  proof (cases "fits iso_aware cs c d")
    case True
    obtain new where new: "accepted iso_aware (cs @ [c]) calls = (cs @ [c]) @ new" "subseq new (map fst calls)"
      "\<forall>c \<in> set new. \<exists>d. (c, d) \<in> set calls \<and> approved_by c d" using Cons.IH [of "cs @ [c]"] by blast
    then show ?thesis using True by (intro exI [of _ "c # new"]) (auto simp: call fits_def)
  next
    case False
    obtain new where new: "accepted iso_aware cs calls = cs @ new" "subseq new (map fst calls)"
      "\<forall>c \<in> set new. \<exists>d. (c, d) \<in> set calls \<and> approved_by c d" using Cons.IH [of cs] by blast
    then show ?thesis using False by (intro exI [of _ new]) (auto simp: call list_emb_Cons)
  qed
qed simp

text \<open>C25. The champion store over any sequence of activations on an empty store, raising ones
  included, whose first record has no parent and is approved: a call returns exactly when it fits the
  records accepted before it (approved by its PROMOTED decision, zoned, naming the last of them as
  its parent, with another version); the history file reads back as exactly the accepted records, a
  chain in the order of the calls, each carrying the fingerprint of a PROMOTED decision for it, and the
  pointer names the last of them. Version texts have no surrounding white space and no carriage return.\<close>

theorem champion_history_append_only:
  assumes "activation_allowed iso_aware first (Some decision) = Inr ()"
    and "cr_parent_model_version first = JNull"
    and "list_all writable (first # map fst calls)"
  defines "store \<equiv> \<lambda>calls. activations iso_aware ((first, Some decision) # calls) \<lparr>cs_history = None, cs_pointer = None\<rparr>"
  shows "champion_history (store calls) = Inr (accepted iso_aware [first] calls)
    \<and> champion_current (store calls) = Inr (Some (cr_model_version (last (accepted iso_aware [first] calls))))
    \<and> (\<forall>xs c d ys. calls = xs @ (c, d) # ys \<longrightarrow>
        (fst (champion_activate iso_aware c d (store xs)) = Inr () \<longleftrightarrow> fits iso_aware (accepted iso_aware [first] xs) c d))
    \<and> chain_from None (accepted iso_aware [first] calls)
    \<and> (\<exists>new. accepted iso_aware [first] calls = first # new \<and> subseq new (map fst calls)
        \<and> (\<forall>c \<in> set (first # new). \<exists>d. (c, d) \<in> set ((first, Some decision) # calls) \<and> approved_by c d))"
proof -
  have empty: "lawful_chain []" "\<lparr>cs_history = None, cs_pointer = None\<rparr> = champion_files []"
    by (simp_all add: lawful_chain_def champion_files_def champion.file_of_def current_of_def)
  have f: "champion_sound first" "pointer_text (cr_model_version first)" using assms(3) by (simp_all add: writable_def)
  have lawful: "lawful_chain [first]" using lawful_snoc [OF empty(1) f] assms(2) by (simp add: current_of_def)
  have step: "snd (champion_activate iso_aware first (Some decision) (champion_files [])) = champion_files [first]"
    using activate_files [OF empty(1)] assms(1) by (simp add: successor_allowed_def current_of_def)
  have run: "lawful_chain (accepted iso_aware [first] xs) \<and> accepted iso_aware [first] xs \<noteq> [] \<and>
      store xs = champion_files (accepted iso_aware [first] xs)" if "list_all writable (map fst xs)" for xs
    using activations_run [OF lawful _ that, of iso_aware] step by (simp add: store_def empty(2) activations_def)
  have here: "lawful_chain (accepted iso_aware [first] calls)" "accepted iso_aware [first] calls \<noteq> []"
      "store calls = champion_files (accepted iso_aware [first] calls)"
    using run [of calls] assms(3) by simp_all
  have each: "fst (champion_activate iso_aware c d (store xs)) = Inr () \<longleftrightarrow> fits iso_aware (accepted iso_aware [first] xs) c d"
    if "calls = xs @ (c, d) # ys" for xs c d ys
    using run [of xs] activation_step(1) assms(3) that by simp
  have "champion_history (store calls) = Inr (accepted iso_aware [first] calls)"
    using here history_files by (simp add: lawful_chain_def)
  moreover have "champion_current (store calls) = Inr (Some (cr_model_version (last (accepted iso_aware [first] calls))))"
    using here current_files by (simp add: current_of_def)
  moreover have "approved_by first (Some decision)" using assms(1) by (simp add: activation_allowed_iff)
  moreover obtain new where "accepted iso_aware [first] calls = [first] @ new" "subseq new (map fst calls)"
      "\<forall>c \<in> set new. \<exists>d. (c, d) \<in> set calls \<and> approved_by c d"
    using accepted_extends by blast
  ultimately show ?thesis using each here(1) by (auto simp: lawful_chain_def)
qed

text \<open>A decision and the record it approves.\<close>

definition sample_decision :: "string \<Rightarrow> string \<Rightarrow> PromotionDecision" where
  "sample_decision champion challenger = \<lparr>pd_candidate_id = ''c-1'', pd_candidate_fingerprint = replicate 64 (CHR ''a''),
     pd_champion_version = champion, pd_challenger_version = challenger, pd_state = PS_PROMOTED,
     pd_reasons = [''ok''], pd_validation_fingerprints = [replicate 64 (CHR ''b'')],
     pd_approval_reference = ''CR-7'', pd_created_at = ''2026-01-05T10:00:00+00:00''\<rparr>"

definition sample_champion :: "string \<Rightarrow> json \<Rightarrow> PromotionDecision \<Rightarrow> ChampionRecord" where
  "sample_champion version parent d = \<lparr>cr_model_version = version, cr_status = ''PROMOTED'',
     cr_activated_at = ''2026-01-05T10:00:00+00:00'', cr_experiment_id = ''e-1'',
     cr_promotion_review_fingerprint = decision_fingerprint d, cr_parent_model_version = parent, cr_rollback_of = JNull\<rparr>"

lemma sample_writable:
  assumes "\<not> blank version" "pointer_text version" "json_sound parent"
  shows "writable (sample_champion version parent d)"
  using assms decision_fingerprint_ok [of d]
  by (simp add: writable_def champion_sound_def sample_champion_def make_champion_record_def require_texts_eq
      blank_def strip_def is_space_def)

lemma sample_allowed:
  "activation_allowed (\<lambda>_. True) (sample_champion challenger parent (sample_decision champion challenger))
     (Some (sample_decision champion challenger)) = Inr ()"
  using decision_fingerprint_ok by (simp add: activation_allowed_def sample_champion_def sample_decision_def)

lemma sample_versions: "\<not> blank ''m1''" "pointer_text ''m1''" "\<not> blank ''m2''" "pointer_text ''m2''"
  "\<not> blank ''m3''" "pointer_text ''m3''"
  by (simp_all add: blank_def strip_def is_space_def pointer_text_def)

definition sample_activations :: "(ChampionRecord \<times> PromotionDecision option) list" where
  "sample_activations =
    [(sample_champion ''m2'' (JStr ''m1'') (sample_decision ''m1'' ''m2''), Some (sample_decision ''m1'' ''m2'')),
     (sample_champion ''m3'' (JStr ''m1'') (sample_decision ''m1'' ''m3''), Some (sample_decision ''m1'' ''m3''))]"

text \<open>The second of the two activations after the first is accepted, the third is refused: its parent
  is no longer the champion.\<close>

theorem champion_history_append_only_witness:
  "champion_history (activations (\<lambda>_. True)
      ((sample_champion ''m1'' JNull (sample_decision ''m0'' ''m1''), Some (sample_decision ''m0'' ''m1'')) # sample_activations)
      \<lparr>cs_history = None, cs_pointer = None\<rparr>) =
    Inr [sample_champion ''m1'' JNull (sample_decision ''m0'' ''m1''),
         sample_champion ''m2'' (JStr ''m1'') (sample_decision ''m1'' ''m2'')]"
proof -
  let ?d = "sample_decision ''m0'' ''m1''" and ?first = "sample_champion ''m1'' JNull (sample_decision ''m0'' ''m1'')"
  have "cr_parent_model_version ?first = JNull" by (simp add: sample_champion_def)
  moreover have "list_all writable (?first # map fst sample_activations)"
    using sample_writable sample_versions by (simp add: sample_activations_def)
  moreover have "accepted (\<lambda>_. True) [?first] sample_activations =
      [?first, sample_champion ''m2'' (JStr ''m1'') (sample_decision ''m1'' ''m2'')]"
    by (simp add: sample_activations_def fits_def approved_by_def sample_champion_def sample_decision_def)
  ultimately show ?thesis
    using champion_history_append_only [OF sample_allowed, of "''m1''" JNull "''m0''" sample_activations] by simp
qed

text \<open>A first activation is accepted with a parent, and from then on the store is unusable: its
  history and its current version raise, and every further activation that passes its own conditions
  raises and changes nothing. \<open>ChampionChallenger.build_activation\<close> always names a parent.\<close>

theorem first_parent_locks_the_store:
  assumes "champion_sound first" "activation_allowed iso_aware first (Some decision) = Inr ()"
    and "cr_parent_model_version first = JStr parent"
  defines "opened \<equiv> champion_activate iso_aware first (Some decision) \<lparr>cs_history = None, cs_pointer = None\<rparr>"
  shows "fst opened = Inr ()
    \<and> champion_history (snd opened) = Inl (ValueError ''initial champion cannot have a parent'')
    \<and> champion_current (snd opened) = Inl (ValueError ''initial champion cannot have a parent'')
    \<and> (\<forall>c d. snd (champion_activate iso_aware c d (snd opened)) = snd opened
        \<and> isl (fst (champion_activate iso_aware c d (snd opened))))"
proof -
  have empty: "lawful_chain []" "\<lparr>cs_history = None, cs_pointer = None\<rparr> = champion_files []"
    by (simp_all add: lawful_chain_def champion_files_def champion.file_of_def current_of_def)
  have opened: "opened = (Inr (), champion_files [first])"
    using activate_files [OF empty(1), of iso_aware first "Some decision"] assms(2)
    by (simp add: opened_def empty(2) successor_allowed_def current_of_def)
  have history: "champion_history (champion_files [first]) = Inl (ValueError ''initial champion cannot have a parent'')"
    using assms(1,3) champion.lines_of_file [of "[first]"] champion.reads_back
    by (simp add: champion_history_def champion_files_def)
  have "champion_current (champion_files [first]) = Inl (ValueError ''initial champion cannot have a parent'')"
    by (simp add: champion_current_def history Let_def)
  moreover have "snd (champion_activate iso_aware c d (champion_files [first])) = champion_files [first]
      \<and> isl (fst (champion_activate iso_aware c d (champion_files [first])))" for c d
    by (cases "activation_allowed iso_aware c d") (simp_all add: champion_activate_def py_simps history)
  ultimately show ?thesis using opened history by simp
qed

theorem first_parent_locks_the_store_witness:
  "champion_history (snd (champion_activate (\<lambda>_. True) (sample_champion ''m1'' (JStr ''m0'') (sample_decision ''m0'' ''m1''))
       (Some (sample_decision ''m0'' ''m1'')) \<lparr>cs_history = None, cs_pointer = None\<rparr>))
     = Inl (ValueError ''initial champion cannot have a parent'')"
proof -
  have "champion_sound (sample_champion ''m1'' (JStr ''m0'') (sample_decision ''m0'' ''m1''))"
    using sample_writable sample_versions by (simp add: writable_def)
  then show ?thesis
    using first_parent_locks_the_store [OF _ sample_allowed, of "''m1''" "JStr ''m0''" "''m0''" "''m0''"]
    by (simp add: sample_champion_def)
qed

text \<open>The same happens to a record whose version has surrounding white space: the pointer is read stripped.\<close>

lemma padded_version_locks_the_store:
  assumes "champion_sound first" "activation_allowed iso_aware first (Some decision) = Inr ()"
    and "cr_parent_model_version first = JNull"
    and "strip (cr_model_version first) \<noteq> cr_model_version first" "CHR 0x0D \<notin> set (cr_model_version first)"
  shows "champion_current (snd (champion_activate iso_aware first (Some decision) \<lparr>cs_history = None, cs_pointer = None\<rparr>))
     = Inl (ValueError ''champion pointer does not match history'')"
proof -
  have empty: "lawful_chain []" "\<lparr>cs_history = None, cs_pointer = None\<rparr> = champion_files []"
    by (simp_all add: lawful_chain_def champion_files_def champion.file_of_def current_of_def)
  have opened: "snd (champion_activate iso_aware first (Some decision) \<lparr>cs_history = None, cs_pointer = None\<rparr>) = champion_files [first]"
    using activate_files [OF empty(1), of iso_aware first "Some decision"] assms(2)
    by (simp add: empty(2) successor_allowed_def current_of_def)
  have history: "champion_history (champion_files [first]) = Inr [first]"
    using history_files assms(1,3) by simp
  have "universal_newlines (cr_model_version first) = cr_model_version first"
    using assms(5) universal_printable by (auto simp: list_all_iff)
  then have "read_text (cs_pointer (champion_files [first])) = cr_model_version first"
    by (simp add: champion_files_def current_of_def read_text_def)
  then show ?thesis unfolding opened using history assms(4)
    by (simp add: champion_current_def Let_def)
qed

section \<open>The cycle and dataset stores\<close>

text \<open>C27. The cycle store and the dataset store after any sequence of appends to an absent file, raising
  ones included: both read back exactly the first record of each key in the order of arrival, a lookup
  of a dataset version finds the first manifest appended with it, and a further append, of a cycle or of a
  manifest, raises exactly when the first record with its key has another fingerprint. The records are the ones the
  constructors accept, with JSON fields in sorted order.\<close>

theorem stores_keep_the_first_record:
  assumes "list_all cycle_sound cycles" "cycle_sound c" "list_all dataset_sound manifests" "dataset_sound d"
  defines "cycle_file \<equiv> foldl (\<lambda>f c. snd (cycle_append c f)) None cycles"
    and "dataset_file \<equiv> foldl (\<lambda>f d. snd (dataset_append d f)) None manifests"
  shows "cycles_read_all cycle_file = Inr (foldl (keep_first ly_cycle_id) [] cycles)
    \<and> fst (cycle_append c cycle_file) = (case List.find (\<lambda>p. ly_cycle_id p = ly_cycle_id c) cycles of
        None \<Rightarrow> Inr ()
      | Some p \<Rightarrow> if cycle_fingerprint p = cycle_fingerprint c then Inr ()
          else Inl (ValueError ''cycle_id collision with different content''))
    \<and> datasets_read_all dataset_file = Inr (foldl (keep_first dv_dataset_version) [] manifests)
    \<and> dataset_get version dataset_file = (case List.find (\<lambda>d. dv_dataset_version d = version) manifests of
        None \<Rightarrow> Inl (KeyError (''unknown dataset_version: '' @ version)) | Some d \<Rightarrow> Inr d)
    \<and> fst (dataset_append d dataset_file) =
       (case List.find (\<lambda>p. dv_dataset_version p = dv_dataset_version d) manifests of
        None \<Rightarrow> Inr ()
      | Some p \<Rightarrow> if dataset_fingerprint p = dataset_fingerprint d then Inr ()
          else Inl (ValueError ''dataset_version already exists with different metadata''))"
proof -
  have "datasets_read_all dataset_file = Inr (foldl (keep_first dv_dataset_version) [] manifests)"
    unfolding dataset_file_def by (rule dataset.store_holds_first [OF assms(3)])
  moreover from this have "dataset_get version dataset_file
      = (case List.find (\<lambda>d. dv_dataset_version d = version) (foldl (keep_first dv_dataset_version) [] manifests) of
          None \<Rightarrow> Inl (KeyError (''unknown dataset_version: '' @ version)) | Some d \<Rightarrow> Inr d)"
    by (simp add: dataset_get_def find_filter split: list.split)
  ultimately show ?thesis unfolding cycle_file_def
    using cycle.store_holds_first [OF assms(1)] cycle.put_after [OF assms(1,2)]
      dataset.put_after [OF assms(3,4)] by (simp add: find_keep_first dataset_file_def)
qed

definition sample_cycle :: "string \<Rightarrow> LearningDecision \<Rightarrow> LearningCycle" where
  "sample_cycle name decision = \<lparr>ly_cycle_id = name, ly_state = LS_OBSERVATION, ly_experience_fingerprints = [],
     ly_learning_evidence_fingerprints = [], ly_experiment_id = JNull, ly_candidate_id = JStr ''c-1'',
     ly_promotion_review_fingerprint = None, ly_decision = decision, ly_failure_class = Some FC_DATA,
     ly_lesson = ''none'', ly_next_experiment = []\<rparr>"

definition sample_manifest :: DatasetVersion where
  "sample_manifest = \<lparr>dv_dataset_version = ''d-1'', dv_creation_timestamp = ''2026-01-05'', dv_source = ''journal'',
     dv_symbols = [''INFY'', ''TCS''], dv_period_start = ''2025-01-01'', dv_period_end = ''2025-12-31'', dv_row_count = 5,
     dv_label_distribution = [(''LOSS'', 2), (''WIN'', 3)], dv_feature_schema_version = ''f1'',
     dv_label_definition_version = ''l1'', dv_source_trade_ids = [], dv_known_limitations = [''small'']\<rparr>"

lemma sample_cycle_sound: "\<not> blank name \<Longrightarrow> cycle_sound (sample_cycle name d)"
  by (simp add: cycle_sound_def sample_cycle_def make_learning_cycle_def)

lemma sample_manifest_sound: "dataset_sound sample_manifest"
  by code_simp

theorem stores_keep_the_first_record_witness:
  "cycles_read_all (foldl (\<lambda>f c. snd (cycle_append c f)) None [sample_cycle ''m1'' LD_KEEP, sample_cycle ''m2'' LD_KEEP, sample_cycle ''m1'' LD_REJECT])
     = Inr [sample_cycle ''m1'' LD_KEEP, sample_cycle ''m2'' LD_KEEP]
   \<and> dataset_get ''d-1'' (foldl (\<lambda>f d. snd (dataset_append d f)) None [sample_manifest, sample_manifest]) = Inr sample_manifest
   \<and> fst (dataset_append sample_manifest (foldl (\<lambda>f d. snd (dataset_append d f)) None [sample_manifest, sample_manifest])) = Inr ()"
proof -
  let ?cycles = "[sample_cycle ''m1'' LD_KEEP, sample_cycle ''m2'' LD_KEEP, sample_cycle ''m1'' LD_REJECT]"
  have "list_all cycle_sound ?cycles" "cycle_sound (sample_cycle ''m1'' LD_KEEP)"
    using sample_cycle_sound sample_versions by simp_all
  moreover have "list_all dataset_sound [sample_manifest, sample_manifest]" using sample_manifest_sound by simp
  ultimately show ?thesis
    using stores_keep_the_first_record [of ?cycles "sample_cycle ''m1'' LD_KEEP" "[sample_manifest, sample_manifest]"
        sample_manifest "''d-1''"] sample_manifest_sound
    by (simp add: sample_cycle_def sample_manifest_def)
qed

section \<open>Rolling back twice\<close>

lemma state_current_file:
  "list_all state_sound ss \<Longrightarrow> state_current (champion_state.file_of ss) = Inr (if ss = [] then None else Some (last ss))"
  by (simp add: state_current_def champion_state.read_file)

lemma state_append_file:
  assumes "list_all state_sound ss"
  shows "state_append s (champion_state.file_of ss) = (if ss \<noteq> [] \<and> last ss = s
    then (Inl (ValueError ''identical champion state already recorded''), champion_state.file_of ss)
    else (Inr (), champion_state.file_of (ss @ [s])))"
  by (simp add: state_append_def py_simps state_current_file [OF assms] champion_state.file_snoc)

text \<open>A rollback of the champion state records the previous version as the champion and the version
  just rolled back as its verified predecessor, so a second rollback reinstates the rejected model: after
  two rollbacks the champion is again the one that was rolled back first.\<close>

theorem second_rollback_reinstates:
  assumes "list_all state_sound (ss @ [s])" "ch_previous_verified_version s = Some previous" "\<not> blank previous"
    and "\<not> blank reason" "\<not> blank reason'"
  defines "file \<equiv> champion_state.file_of (ss @ [s])"
  shows "state_current (snd (state_rollback reason stamp file)) =
      Inr (Some (s\<lparr>ch_champion_version := previous, ch_previous_verified_version := Some (ch_champion_version s),
        ch_updated_at := stamp\<rparr>))
    \<and> state_current (snd (state_rollback reason' stamp' (snd (state_rollback reason stamp file)))) =
      Inr (Some (s\<lparr>ch_updated_at := stamp'\<rparr>))"
proof -
  let ?t = "s\<lparr>ch_champion_version := previous, ch_previous_verified_version := Some (ch_champion_version s),
      ch_updated_at := stamp\<rparr>"
  let ?u = "s\<lparr>ch_updated_at := stamp'\<rparr>"
  have s: "state_sound s" "list_all state_sound ss" using assms(1) by simp_all
  have names: "previous \<noteq> ch_champion_version s" "\<not> blank (ch_champion_version s)" "previous \<noteq> []" "ch_champion_version s \<noteq> []"
    using s(1) assms(2,3) by (auto simp: state_sound_def make_champion_state_def blank_def strip_def split: if_splits)
  have t: "state_sound ?t" and u: "state_sound ?u"
    using names assms(2,3) by (auto simp: state_sound_def make_champion_state_def)
  have rebuild: "\<lparr>ch_champion_version = previous, ch_previous_verified_version = Some (ch_champion_version s),
      ch_promotion_fingerprint = ch_promotion_fingerprint s, ch_updated_at = stamp\<rparr> = ?t"
    "\<lparr>ch_champion_version = ch_champion_version s, ch_previous_verified_version = Some previous,
      ch_promotion_fingerprint = ch_promotion_fingerprint s, ch_updated_at = stamp'\<rparr> = ?u"
    using assms(2) by (cases s; simp)+
  have diff: "s \<noteq> ?t" "?t \<noteq> ?u" using names(1) by (metis ChampionState.select_convs(1) ChampionState.surjective ChampionState.update_convs(1,2,4))+
  have first: "state_rollback reason stamp file = (Inr ?t, champion_state.file_of (ss @ [s, ?t]))"
    using assms(1,2,4) names t diff(1) state_append_file [OF assms(1)]
    by (simp add: file_def state_rollback_def py_simps state_current_file rebuild state_sound_def)
  have second: "state_rollback reason' stamp' (champion_state.file_of (ss @ [s, ?t])) = (Inr ?u, champion_state.file_of (ss @ [s, ?t, ?u]))"
    using assms(1,5) names t u diff(2) state_append_file [of "ss @ [s, ?t]"]
    by (simp add: state_rollback_def py_simps state_current_file rebuild state_sound_def)
  show ?thesis using first second state_current_file [of "ss @ [s, ?t]"] state_current_file [of "ss @ [s, ?t, ?u]"] s t u by simp
qed

theorem second_rollback_reinstates_witness:
  "state_current (snd (state_rollback ''again'' ''t3'' (snd (state_rollback ''bad fills'' ''t2''
      (champion_state.file_of [\<lparr>ch_champion_version = ''m2'', ch_previous_verified_version = Some ''m1'',
        ch_promotion_fingerprint = None, ch_updated_at = ''t1''\<rparr>])))))
    = Inr (Some \<lparr>ch_champion_version = ''m2'', ch_previous_verified_version = Some ''m1'',
        ch_promotion_fingerprint = None, ch_updated_at = ''t3''\<rparr>)"
proof -
  let ?s = "\<lparr>ch_champion_version = ''m2'', ch_previous_verified_version = Some ''m1'',
      ch_promotion_fingerprint = None, ch_updated_at = ''t1''\<rparr>"
  have "list_all state_sound ([] @ [?s])" by (simp add: state_sound_def make_champion_state_def sample_versions)
  moreover have "\<not> blank ''bad fills''" "\<not> blank ''again''" by (simp_all add: blank_def strip_def is_space_def)
  ultimately show ?thesis
    using second_rollback_reinstates [of "[]" ?s "''m1''" "''bad fills''" "''again''" "''t2''" "''t3''"] sample_versions by simp
qed

end
