(* ===== verification/LearningContracts.thy ===== *)
theory LearningContracts
  imports LearningStores
begin

text \<open>
  \<open>self_learning/contracts.py\<close>: experience bundles, evidence, experiments, datasets, validation
  summaries, candidates and cycle reports. Every fingerprint hashes the representation of the
  dataclass (\<open>str(self)\<close>), written out here; \<open>float_repr\<close> is the representation of a float.
\<close>

section \<open>Representations\<close>

definition repr_bool :: "bool \<Rightarrow> string" where
  "repr_bool b = (if b then ''True'' else ''False'')"

definition repr_option :: "string option \<Rightarrow> string" where
  "repr_option s = (case s of None \<Rightarrow> ''None'' | Some t \<Rightarrow> py_repr t)"

fun repr_join :: "string list \<Rightarrow> string" where
  "repr_join [] = []"
| "repr_join [x] = x"
| "repr_join (x # xs) = x @ '', '' @ repr_join xs"

definition repr_record :: "string \<Rightarrow> (string \<times> string) list \<Rightarrow> string" where
  "repr_record name members = name @ ''('' @ repr_join (map (\<lambda>(n, v). n @ ''='' @ v) members) @ '')''"

definition repr_enum :: "string \<Rightarrow> string \<Rightarrow> string" where
  "repr_enum name value = ''<'' @ name @ ''.'' @ value @ '': '' @ py_repr value @ ''>''"

text \<open>A tuple of values given by their representations, and a dictionary.\<close>

definition repr_items_tuple :: "string list \<Rightarrow> string" where
  "repr_items_tuple xs = ''('' @ repr_join xs @ (if length xs = 1 then '','' else []) @ '')''"

definition repr_dict :: "('v \<Rightarrow> string) \<Rightarrow> (string \<times> 'v) list \<Rightarrow> string" where
  "repr_dict f kvs = ''{'' @ repr_join (map (\<lambda>(k, v). py_repr k @ '': '' @ f v) kvs) @ ''}''"

definition repr_proxy :: "('v \<Rightarrow> string) \<Rightarrow> (string \<times> 'v) list \<Rightarrow> string" where
  "repr_proxy f kvs = ''mappingproxy('' @ repr_dict f kvs @ '')''"

section \<open>Enumerations\<close>

datatype LearningTrigger = LT_NEW_OUTCOMES | LT_ERROR_PATTERN | LT_MODEL_DRIFT | LT_FEATURE_DRIFT
  | LT_PERFORMANCE_DRIFT | LT_EXECUTION_DRIFT | LT_MANUAL_RESEARCH

fun trigger_value :: "LearningTrigger \<Rightarrow> string" where
  "trigger_value LT_NEW_OUTCOMES = ''NEW_OUTCOMES''"
| "trigger_value LT_ERROR_PATTERN = ''ERROR_PATTERN''"
| "trigger_value LT_MODEL_DRIFT = ''MODEL_DRIFT''"
| "trigger_value LT_FEATURE_DRIFT = ''FEATURE_DRIFT''"
| "trigger_value LT_PERFORMANCE_DRIFT = ''PERFORMANCE_DRIFT''"
| "trigger_value LT_EXECUTION_DRIFT = ''EXECUTION_DRIFT''"
| "trigger_value LT_MANUAL_RESEARCH = ''MANUAL_RESEARCH''"

datatype ExperimentLifecycle = EL_PROPOSED | EL_RUNNING | EL_VALIDATING | EL_OOS | EL_WALK_FORWARD | EL_PAPER
  | EL_PROMOTION_REVIEW | EL_COMPLETE | EL_REJECTED | EL_INCONCLUSIVE

fun experiment_value :: "ExperimentLifecycle \<Rightarrow> string" where
  "experiment_value EL_PROPOSED = ''PROPOSED''"
| "experiment_value EL_RUNNING = ''RUNNING''"
| "experiment_value EL_VALIDATING = ''VALIDATING''"
| "experiment_value EL_OOS = ''OOS''"
| "experiment_value EL_WALK_FORWARD = ''WALK_FORWARD''"
| "experiment_value EL_PAPER = ''PAPER''"
| "experiment_value EL_PROMOTION_REVIEW = ''PROMOTION_REVIEW''"
| "experiment_value EL_COMPLETE = ''COMPLETE''"
| "experiment_value EL_REJECTED = ''REJECTED''"
| "experiment_value EL_INCONCLUSIVE = ''INCONCLUSIVE''"

datatype CandidateLifecycle = CL_CANDIDATE | CL_VALIDATING | CL_PAPER | CL_PROMOTION_REVIEW | CL_PROMOTED
  | CL_REJECTED | CL_RETIRED

fun candidate_value :: "CandidateLifecycle \<Rightarrow> string" where
  "candidate_value CL_CANDIDATE = ''CANDIDATE''"
| "candidate_value CL_VALIDATING = ''VALIDATING''"
| "candidate_value CL_PAPER = ''PAPER''"
| "candidate_value CL_PROMOTION_REVIEW = ''PROMOTION_REVIEW''"
| "candidate_value CL_PROMOTED = ''PROMOTED''"
| "candidate_value CL_REJECTED = ''REJECTED''"
| "candidate_value CL_RETIRED = ''RETIRED''"

section \<open>Experience and evidence\<close>

record ExperienceBundle =
  xb_trade_ids :: "string list"
  xb_experience_fingerprints :: "string list"
  xb_learning_fingerprints :: "string list"
  xb_outcome_count :: int
  xb_linked_decision_count :: int
  xb_source_journal_fingerprint :: string
  xb_source_analysis_fingerprint :: string
  xb_created_at :: string

definition make_experience_bundle :: "ExperienceBundle \<Rightarrow> ExperienceBundle res" where
  "make_experience_bundle b =
    (if xb_outcome_count b < 0 \<or> xb_linked_decision_count b < 0
       then Inl (ValueError ''experience counts must be non-negative'')
     else if \<not> distinct (xb_trade_ids b) then Inl (ValueError ''trade_ids must be unique'')
     else if \<not> is_sha256 (xb_source_journal_fingerprint b)
       then Inl (ValueError ''source_journal_fingerprint must be SHA-256'')
     else if \<not> is_sha256 (xb_source_analysis_fingerprint b)
       then Inl (ValueError ''source_analysis_fingerprint must be SHA-256'')
     else if blank (xb_created_at b) then Inl (ValueError ''created_at must not be empty'')
     else Inr b)"

definition experience_fingerprint :: "ExperienceBundle \<Rightarrow> string" where
  "experience_fingerprint b = fingerprint_of (JStr (repr_record ''ExperienceBundle''
     [(''trade_ids'', repr_tuple (xb_trade_ids b)),
      (''experience_fingerprints'', repr_tuple (xb_experience_fingerprints b)),
      (''learning_fingerprints'', repr_tuple (xb_learning_fingerprints b)),
      (''outcome_count'', int_text (xb_outcome_count b)),
      (''linked_decision_count'', int_text (xb_linked_decision_count b)),
      (''source_journal_fingerprint'', py_repr (xb_source_journal_fingerprint b)),
      (''source_analysis_fingerprint'', py_repr (xb_source_analysis_fingerprint b)),
      (''created_at'', py_repr (xb_created_at b))]))"

record LearningEvidence =
  le_evidence_id :: string
  le_pattern :: string
  le_error_class :: string
  le_source_trade_ids :: "string list"
  le_evidence_count :: int
  le_population_count :: int
  le_occurrence_rate :: pyfloat
  le_confidence :: pyfloat
  le_average_reward :: pyfloat
  le_rationale :: string
  le_conditions :: "string list"
  le_trigger :: LearningTrigger
  le_source_experience_fingerprint :: string

definition unit_interval :: "pyfloat \<Rightarrow> bool" where
  "unit_interval x = (fle (Fin 0) x \<and> fle x (Fin 1))"

definition make_learning_evidence :: "LearningEvidence \<Rightarrow> LearningEvidence res" where
  "make_learning_evidence e =
    (if blank (le_evidence_id e) then Inl (ValueError ''evidence_id must not be empty'')
     else if blank (le_pattern e) \<or> blank (le_error_class e)
       then Inl (ValueError ''pattern and error_class must not be empty'')
     else if le_evidence_count e < 1 then Inl (ValueError ''evidence_count must be positive'')
     else if le_population_count e < le_evidence_count e
       then Inl (ValueError ''population_count must be >= evidence_count'')
     else if \<not> unit_interval (le_occurrence_rate e) then Inl (ValueError ''occurrence_rate must be in [0, 1]'')
     else if \<not> unit_interval (le_confidence e) then Inl (ValueError ''confidence must be in [0, 1]'')
     else if \<not> isfinite (le_average_reward e) then Inl (ValueError ''average_reward must be finite'')
     else if le_source_trade_ids e = [] then Inl (ValueError ''source_trade_ids must not be empty'')
     else if int (length (le_source_trade_ids e)) \<noteq> le_evidence_count e
       then Inl (ValueError ''source_trade_ids count must equal evidence_count'')
     else if blank (le_rationale e) then Inl (ValueError ''rationale must not be empty'')
     else if le_source_experience_fingerprint e \<noteq> [] \<and> \<not> is_sha256 (le_source_experience_fingerprint e)
       then Inl (ValueError ''source_experience_fingerprint must be SHA-256'')
     else Inr e)"

definition evidence_fingerprint :: "(pyfloat \<Rightarrow> string) \<Rightarrow> LearningEvidence \<Rightarrow> string" where
  "evidence_fingerprint float_repr e = fingerprint_of (JStr (repr_record ''LearningEvidence''
     [(''evidence_id'', py_repr (le_evidence_id e)), (''pattern'', py_repr (le_pattern e)),
      (''error_class'', py_repr (le_error_class e)), (''source_trade_ids'', repr_tuple (le_source_trade_ids e)),
      (''evidence_count'', int_text (le_evidence_count e)), (''population_count'', int_text (le_population_count e)),
      (''occurrence_rate'', float_repr (le_occurrence_rate e)), (''confidence'', float_repr (le_confidence e)),
      (''average_reward'', float_repr (le_average_reward e)), (''rationale'', py_repr (le_rationale e)),
      (''conditions'', repr_tuple (le_conditions e)),
      (''trigger'', repr_enum ''LearningTrigger'' (trigger_value (le_trigger e))),
      (''source_experience_fingerprint'', py_repr (le_source_experience_fingerprint e))]))"

section \<open>Experiments and datasets\<close>

record ExperimentSpec =
  es_experiment_id :: string
  es_research_question :: string
  es_hypothesis :: string
  es_null_hypothesis :: string
  es_failure_criterion :: string
  es_dataset_version :: string
  es_code_version :: string
  es_feature_version :: string
  es_label_version :: string
  es_model_version :: string
  es_strategy_version :: string
  es_risk_version :: string
  es_execution_version :: string
  es_period_start :: string
  es_period_end :: string
  es_symbols :: "string list"
  es_method :: string
  es_changed_component :: string
  es_changed_parameter :: string
  es_baseline_fingerprints :: "(string \<times> string) list"
  es_trigger_evidence_fingerprint :: string
  es_parent_experiment_id :: "string option"
  es_lifecycle :: ExperimentLifecycle

fun require_filled :: "(string \<times> string) list \<Rightarrow> unit res" where
  "require_filled [] = Inr ()"
| "require_filled ((name, value) # rest) =
     (if blank value then Inl (ValueError (name @ '' must not be empty'')) else require_filled rest)"

definition make_experiment_spec :: "ExperimentSpec \<Rightarrow> ExperimentSpec res" where
  "make_experiment_spec e = rbind (require_filled
     [(''experiment_id'', es_experiment_id e), (''research_question'', es_research_question e),
      (''hypothesis'', es_hypothesis e), (''null_hypothesis'', es_null_hypothesis e),
      (''failure_criterion'', es_failure_criterion e), (''dataset_version'', es_dataset_version e),
      (''code_version'', es_code_version e), (''feature_version'', es_feature_version e),
      (''label_version'', es_label_version e), (''model_version'', es_model_version e),
      (''strategy_version'', es_strategy_version e), (''risk_version'', es_risk_version e),
      (''execution_version'', es_execution_version e), (''period_start'', es_period_start e),
      (''period_end'', es_period_end e), (''method'', es_method e),
      (''changed_component'', es_changed_component e), (''changed_parameter'', es_changed_parameter e)]) (\<lambda>_.
     if es_symbols e = [] then Inl (ValueError ''symbols must not be empty'')
     else if es_trigger_evidence_fingerprint e \<noteq> [] \<and> \<not> is_sha256 (es_trigger_evidence_fingerprint e)
       then Inl (ValueError ''trigger_evidence_fingerprint must be SHA-256'')
     else Inr e)"

definition experiment_fingerprint :: "ExperimentSpec \<Rightarrow> string" where
  "experiment_fingerprint e = fingerprint_of (JStr (repr_record ''ExperimentSpec''
     [(''experiment_id'', py_repr (es_experiment_id e)), (''research_question'', py_repr (es_research_question e)),
      (''hypothesis'', py_repr (es_hypothesis e)), (''null_hypothesis'', py_repr (es_null_hypothesis e)),
      (''failure_criterion'', py_repr (es_failure_criterion e)), (''dataset_version'', py_repr (es_dataset_version e)),
      (''code_version'', py_repr (es_code_version e)), (''feature_version'', py_repr (es_feature_version e)),
      (''label_version'', py_repr (es_label_version e)), (''model_version'', py_repr (es_model_version e)),
      (''strategy_version'', py_repr (es_strategy_version e)), (''risk_version'', py_repr (es_risk_version e)),
      (''execution_version'', py_repr (es_execution_version e)), (''period_start'', py_repr (es_period_start e)),
      (''period_end'', py_repr (es_period_end e)), (''symbols'', repr_tuple (es_symbols e)),
      (''method'', py_repr (es_method e)), (''changed_component'', py_repr (es_changed_component e)),
      (''changed_parameter'', py_repr (es_changed_parameter e)),
      (''baseline_fingerprints'', repr_proxy py_repr (es_baseline_fingerprints e)),
      (''trigger_evidence_fingerprint'', py_repr (es_trigger_evidence_fingerprint e)),
      (''parent_experiment_id'', repr_option (es_parent_experiment_id e)),
      (''lifecycle'', repr_enum ''ExperimentLifecycle'' (experiment_value (es_lifecycle e)))]))"

text \<open>The dataset record of this package.\<close>

record LearningDataset =
  ld_dataset_version :: string
  ld_source :: string
  ld_creation_timestamp :: string
  ld_symbols :: "string list"
  ld_period_start :: string
  ld_period_end :: string
  ld_row_count :: int
  ld_label_distribution :: "(string \<times> int) list"
  ld_feature_schema_version :: string
  ld_label_definition_version :: string
  ld_source_fingerprints :: "string list"
  ld_known_limitations :: "string list"

definition make_learning_dataset :: "LearningDataset \<Rightarrow> LearningDataset res" where
  "make_learning_dataset d =
    (if blank (ld_dataset_version d) \<or> blank (ld_source d)
       then Inl (ValueError ''dataset_version and source must not be empty'')
     else if ld_row_count d < 0 then Inl (ValueError ''row_count must be non-negative'')
     else if ld_symbols d = [] then Inl (ValueError ''symbols must not be empty'')
     else if blank (ld_feature_schema_version d) \<or> blank (ld_label_definition_version d)
       then Inl (ValueError ''feature and label versions are required'')
     else if \<not> list_all is_sha256 (ld_source_fingerprints d)
       then Inl (ValueError ''source_fingerprints must be SHA-256 identities'')
     else if list_ex (\<lambda>n. n < 0) (map snd (ld_label_distribution d))
       then Inl (ValueError ''label counts must be non-negative'')
     else Inr d)"

definition learning_dataset_fingerprint :: "LearningDataset \<Rightarrow> string" where
  "learning_dataset_fingerprint d = fingerprint_of (JStr (repr_record ''DatasetVersion''
     [(''dataset_version'', py_repr (ld_dataset_version d)), (''source'', py_repr (ld_source d)),
      (''creation_timestamp'', py_repr (ld_creation_timestamp d)), (''symbols'', repr_tuple (ld_symbols d)),
      (''period_start'', py_repr (ld_period_start d)), (''period_end'', py_repr (ld_period_end d)),
      (''row_count'', int_text (ld_row_count d)),
      (''label_distribution'', repr_proxy int_text (ld_label_distribution d)),
      (''feature_schema_version'', py_repr (ld_feature_schema_version d)),
      (''label_definition_version'', py_repr (ld_label_definition_version d)),
      (''source_fingerprints'', repr_tuple (ld_source_fingerprints d)),
      (''known_limitations'', repr_tuple (ld_known_limitations d))]))"

section \<open>Validation summaries, candidates and cycle reports\<close>

record ValidationSummary =
  vs_stage :: string
  vs_valid :: bool
  vs_observations :: int
  vs_metrics :: "(string \<times> pyfloat) list"
  vs_limitations :: "string list"
  vs_issues :: "string list"
  vs_artifact_fingerprints :: "string list"

definition make_validation_summary :: "ValidationSummary \<Rightarrow> ValidationSummary res" where
  "make_validation_summary v =
    (if blank (vs_stage v) then Inl (ValueError ''stage must not be empty'')
     else if vs_observations v < 0 then Inl (ValueError ''observations must be non-negative'')
     else if \<not> list_all (\<lambda>(k, x). isfinite x) (vs_metrics v)
       then Inl (ValueError ''validation metrics must be finite'')
     else if \<not> list_all is_sha256 (vs_artifact_fingerprints v)
       then Inl (ValueError ''artifact_fingerprints must be SHA-256 identities'')
     else Inr v)"

definition summary_repr :: "(pyfloat \<Rightarrow> string) \<Rightarrow> ValidationSummary \<Rightarrow> string" where
  "summary_repr float_repr v = repr_record ''ValidationSummary''
     [(''stage'', py_repr (vs_stage v)), (''valid'', repr_bool (vs_valid v)),
      (''observations'', int_text (vs_observations v)), (''metrics'', repr_proxy float_repr (vs_metrics v)),
      (''limitations'', repr_tuple (vs_limitations v)), (''issues'', repr_tuple (vs_issues v)),
      (''artifact_fingerprints'', repr_tuple (vs_artifact_fingerprints v))]"

definition summary_fingerprint :: "(pyfloat \<Rightarrow> string) \<Rightarrow> ValidationSummary \<Rightarrow> string" where
  "summary_fingerprint float_repr v = fingerprint_of (JStr (summary_repr float_repr v))"

record ModelCandidate =
  mc_candidate_id :: string
  mc_candidate_version :: string
  mc_candidate_type :: string
  mc_lifecycle :: CandidateLifecycle
  mc_dataset_version :: string
  mc_feature_version :: string
  mc_label_version :: string
  mc_source_experiment_id :: string
  mc_source_experiment_fingerprint :: string
  mc_artifact_fingerprint :: string
  mc_evaluation_fingerprint :: string
  mc_lineage_id :: string
  mc_metrics :: "(string \<times> pyfloat) list"
  mc_parent_model_version :: string
  mc_strategy_version :: string
  mc_created_at :: string

fun require_sha256 :: "(string \<times> string) list \<Rightarrow> unit res" where
  "require_sha256 [] = Inr ()"
| "require_sha256 ((name, value) # rest) =
     (if \<not> is_sha256 value then Inl (ValueError (name @ '' must be SHA-256'')) else require_sha256 rest)"

definition make_model_candidate :: "ModelCandidate \<Rightarrow> ModelCandidate res" where
  "make_model_candidate c = rbind (require_filled
     [(''candidate_id'', mc_candidate_id c), (''candidate_version'', mc_candidate_version c),
      (''candidate_type'', mc_candidate_type c), (''dataset_version'', mc_dataset_version c),
      (''feature_version'', mc_feature_version c), (''label_version'', mc_label_version c),
      (''source_experiment_id'', mc_source_experiment_id c),
      (''parent_model_version'', mc_parent_model_version c),
      (''strategy_version'', mc_strategy_version c), (''created_at'', mc_created_at c)])
    (\<lambda>_. rbind (require_sha256
     [(''source_experiment_fingerprint'', mc_source_experiment_fingerprint c),
      (''artifact_fingerprint'', mc_artifact_fingerprint c),
      (''evaluation_fingerprint'', mc_evaluation_fingerprint c), (''lineage_id'', mc_lineage_id c)])
    (\<lambda>_. if \<not> list_all (\<lambda>(k, x). isfinite x) (mc_metrics c)
       then Inl (ValueError ''candidate metrics must be finite'') else Inr c))"

definition candidate_repr :: "(pyfloat \<Rightarrow> string) \<Rightarrow> ModelCandidate \<Rightarrow> string" where
  "candidate_repr float_repr c = repr_record ''ModelCandidate''
     [(''candidate_id'', py_repr (mc_candidate_id c)), (''candidate_version'', py_repr (mc_candidate_version c)),
      (''candidate_type'', py_repr (mc_candidate_type c)),
      (''lifecycle'', repr_enum ''CandidateLifecycle'' (candidate_value (mc_lifecycle c))),
      (''dataset_version'', py_repr (mc_dataset_version c)), (''feature_version'', py_repr (mc_feature_version c)),
      (''label_version'', py_repr (mc_label_version c)),
      (''source_experiment_id'', py_repr (mc_source_experiment_id c)),
      (''source_experiment_fingerprint'', py_repr (mc_source_experiment_fingerprint c)),
      (''artifact_fingerprint'', py_repr (mc_artifact_fingerprint c)),
      (''evaluation_fingerprint'', py_repr (mc_evaluation_fingerprint c)),
      (''lineage_id'', py_repr (mc_lineage_id c)), (''metrics'', repr_proxy float_repr (mc_metrics c)),
      (''parent_model_version'', py_repr (mc_parent_model_version c)),
      (''strategy_version'', py_repr (mc_strategy_version c)), (''created_at'', py_repr (mc_created_at c))]"

definition candidate_fingerprint :: "(pyfloat \<Rightarrow> string) \<Rightarrow> ModelCandidate \<Rightarrow> string" where
  "candidate_fingerprint float_repr c = fingerprint_of (JStr (candidate_repr float_repr c))"

record LearningCycleReport =
  lr_cycle_id :: string
  lr_trigger :: LearningTrigger
  lr_experience_fingerprint :: string
  lr_evidence_fingerprints :: "string list"
  lr_experiment_fingerprint :: "string option"
  lr_validation_fingerprints :: "string list"
  lr_promotion_fingerprint :: "string option"
  lr_status :: string
  lr_next_action :: string

definition option_sha256 :: "string option \<Rightarrow> bool" where
  "option_sha256 s = (case s of None \<Rightarrow> True | Some t \<Rightarrow> is_sha256 t)"

definition make_cycle_report :: "LearningCycleReport \<Rightarrow> LearningCycleReport res" where
  "make_cycle_report r =
    (if blank (lr_cycle_id r) then Inl (ValueError ''cycle_id must not be empty'')
     else if \<not> is_sha256 (lr_experience_fingerprint r)
       then Inl (ValueError ''experience_fingerprint must be SHA-256'')
     else if \<not> list_all is_sha256 (lr_evidence_fingerprints r)
       then Inl (ValueError ''evidence_fingerprints must be SHA-256'')
     else if \<not> option_sha256 (lr_experiment_fingerprint r)
       then Inl (ValueError ''experiment_fingerprint must be SHA-256'')
     else if \<not> list_all is_sha256 (lr_validation_fingerprints r)
       then Inl (ValueError ''validation_fingerprints must be SHA-256'')
     else if \<not> option_sha256 (lr_promotion_fingerprint r)
       then Inl (ValueError ''promotion_fingerprint must be SHA-256'')
     else if blank (lr_status r) \<or> blank (lr_next_action r)
       then Inl (ValueError ''status and next_action must not be empty'')
     else Inr r)"

definition report_fingerprint :: "LearningCycleReport \<Rightarrow> string" where
  "report_fingerprint r = fingerprint_of (JStr (repr_record ''LearningCycleReport''
     [(''cycle_id'', py_repr (lr_cycle_id r)),
      (''trigger'', repr_enum ''LearningTrigger'' (trigger_value (lr_trigger r))),
      (''experience_fingerprint'', py_repr (lr_experience_fingerprint r)),
      (''evidence_fingerprints'', repr_tuple (lr_evidence_fingerprints r)),
      (''experiment_fingerprint'', repr_option (lr_experiment_fingerprint r)),
      (''validation_fingerprints'', repr_tuple (lr_validation_fingerprints r)),
      (''promotion_fingerprint'', repr_option (lr_promotion_fingerprint r)),
      (''status'', py_repr (lr_status r)), (''next_action'', py_repr (lr_next_action r))]))"

end
