(* ===== verification/Candidates.thy ===== *)
theory Candidates
  imports LearningContracts
begin

text \<open>
  The governed path of a model candidate: \<open>self_learning/store.py\<close> (the append-only ledger),
  \<open>self_learning/candidate_lifecycle.py\<close>, \<open>self_learning/validation.py\<close>,
  \<open>self_learning/validation_orchestrator.py\<close>, \<open>self_learning/promotion.py\<close> and
  \<open>self_learning/evidence_runner.py\<close>. \<open>persist\<close> says whether the controller was given a store.
  Ledger kinds whose members hold floats (evidence, evidence bundles) are not modelled.
\<close>

section \<open>The learning ledger\<close>

text \<open>The lines of an open text file.\<close>

function file_lines :: "string \<Rightarrow> string list" where
  "file_lines [] = []"
| "file_lines (c # cs) = takeWhile (\<lambda>x. x \<noteq> CHR 0x0A) (c # cs)
     # file_lines (drop 1 (dropWhile (\<lambda>x. x \<noteq> CHR 0x0A) (c # cs)))"
  by pat_completeness auto
termination
proof (relation "measure length", simp)
  fix c :: char and cs
  have "length (dropWhile (\<lambda>x. x \<noteq> CHR 0x0A) (c # cs)) \<le> length (c # cs)" by (rule length_dropWhile_le)
  then show "(drop 1 (dropWhile (\<lambda>x. x \<noteq> CHR 0x0A) (c # cs)), c # cs) \<in> measure length" by simp
qed

definition ledger_entry :: "string \<Rightarrow> (string \<times> (string \<times> json) list) res" where
  "ledger_entry line =
    (if blank line then Inl (ValueError ''blank learning ledger line'')
     else case json_loads line of
       Inl _ \<Rightarrow> Inl (ValueError ''invalid learning ledger JSON'')
     | Inr (JObj kvs) \<Rightarrow> (case (dict_get kvs ''kind'', dict_get kvs ''record'') of
           (Some (JStr kind), Some (JObj _)) \<Rightarrow> Inr (kind, kvs)
         | _ \<Rightarrow> Inl (ValueError ''invalid learning ledger record''))
     | Inr _ \<Rightarrow> Inl (ValueError ''learning ledger line must be an object''))"

definition ledger_read :: "text_file \<Rightarrow> (string \<times> (string \<times> json) list) list res" where
  "ledger_read f = read_lines ledger_entry (file_lines (read_text f))"

definition ledger_records :: "string \<Rightarrow> text_file \<Rightarrow> json list res" where
  "ledger_records kind f =
    (if blank kind then Inl (ValueError ''kind must not be empty'')
     else rbind (ledger_read f) (\<lambda>entries.
       Inr (map (\<lambda>(k, kvs). item_or JNull ''record'' kvs) (filter (\<lambda>(k, kvs). k = kind) entries))))"

definition ledger_count :: "string \<Rightarrow> text_file \<Rightarrow> nat res" where
  "ledger_count kind f = rbind (ledger_records kind f) (\<lambda>rs. Inr (length rs))"

text \<open>\<open>same\<close> compares a stored record with the one to append.\<close>

definition ledger_append :: "string \<Rightarrow> string \<Rightarrow> json \<Rightarrow> (json \<Rightarrow> bool) \<Rightarrow> (text_file, unit) act" where
  "ledger_append kind fingerprint r same =
    (if fingerprint = [] then araise (ValueError ''learning record must expose a fingerprint'')
     else abind (aget ledger_read) (\<lambda>loaded. abind (alift loaded) (\<lambda>entries.
       case filter (\<lambda>(k, kvs). k = kind \<and> dict_get kvs ''fingerprint'' = Some (JStr fingerprint)) entries of
         (k, kvs) # _ \<Rightarrow> araise (ValueError (kind @ (if same (item_or JNull ''record'' kvs) then '' already exists''
           else '' fingerprint collision with different content'')))
       | [] \<Rightarrow> amod (append_text (json_line (JObj [(''kind'', JStr kind), (''fingerprint'', JStr fingerprint),
           (''record'', r)]))))))"

text \<open>
  A frozen mapping is no \<open>dict\<close>: \<open>serialize_value\<close> leaves it alone, \<open>json.dumps\<close> writes its text, and
  no stored record equals one that holds a frozen mapping.
\<close>

definition candidate_record :: "(pyfloat \<Rightarrow> string) \<Rightarrow> ModelCandidate \<Rightarrow> json" where
  "candidate_record float_repr c = JObj
     [(''candidate_id'', JStr (mc_candidate_id c)), (''candidate_version'', JStr (mc_candidate_version c)),
      (''candidate_type'', JStr (mc_candidate_type c)), (''lifecycle'', JStr (candidate_value (mc_lifecycle c))),
      (''dataset_version'', JStr (mc_dataset_version c)), (''feature_version'', JStr (mc_feature_version c)),
      (''label_version'', JStr (mc_label_version c)), (''source_experiment_id'', JStr (mc_source_experiment_id c)),
      (''source_experiment_fingerprint'', JStr (mc_source_experiment_fingerprint c)),
      (''artifact_fingerprint'', JStr (mc_artifact_fingerprint c)),
      (''evaluation_fingerprint'', JStr (mc_evaluation_fingerprint c)), (''lineage_id'', JStr (mc_lineage_id c)),
      (''metrics'', JStr (repr_dict float_repr (mc_metrics c))),
      (''parent_model_version'', JStr (mc_parent_model_version c)),
      (''strategy_version'', JStr (mc_strategy_version c)), (''created_at'', JStr (mc_created_at c))]"

definition add_candidate :: "(pyfloat \<Rightarrow> string) \<Rightarrow> ModelCandidate \<Rightarrow> (text_file, unit) act" where
  "add_candidate float_repr c =
     ledger_append ''candidate'' (candidate_fingerprint float_repr c) (candidate_record float_repr c) (\<lambda>_. False)"

definition decision_record :: "PromotionDecision \<Rightarrow> json" where
  "decision_record d = JObj
     [(''candidate_id'', JStr (pd_candidate_id d)), (''candidate_fingerprint'', JStr (pd_candidate_fingerprint d)),
      (''champion_version'', JStr (pd_champion_version d)), (''challenger_version'', JStr (pd_challenger_version d)),
      (''state'', JStr (promotion_value (pd_state d))), (''reasons'', json_strings (pd_reasons d)),
      (''validation_fingerprints'', json_strings (pd_validation_fingerprints d)),
      (''approval_reference'', JStr (pd_approval_reference d)), (''created_at'', JStr (pd_created_at d))]"

definition add_promotion_decision :: "PromotionDecision \<Rightarrow> (text_file, unit) act" where
  "add_promotion_decision d = ledger_append ''promotion'' (decision_fingerprint d) (decision_record d)
     (\<lambda>v. json_sort v = json_sort (decision_record d))"

definition report_record :: "LearningCycleReport \<Rightarrow> json" where
  "report_record r = JObj
     [(''cycle_id'', JStr (lr_cycle_id r)), (''trigger'', JStr (trigger_value (lr_trigger r))),
      (''experience_fingerprint'', JStr (lr_experience_fingerprint r)),
      (''evidence_fingerprints'', json_strings (lr_evidence_fingerprints r)),
      (''experiment_fingerprint'', json_of_option (lr_experiment_fingerprint r)),
      (''validation_fingerprints'', json_strings (lr_validation_fingerprints r)),
      (''promotion_fingerprint'', json_of_option (lr_promotion_fingerprint r)),
      (''status'', JStr (lr_status r)), (''next_action'', JStr (lr_next_action r))]"

definition add_cycle_report :: "LearningCycleReport \<Rightarrow> (text_file, unit) act" where
  "add_cycle_report r = ledger_append ''cycle'' (report_fingerprint r) (report_record r)
     (\<lambda>v. json_sort v = json_sort (report_record r))"

definition experience_record :: "ExperienceBundle \<Rightarrow> json" where
  "experience_record b = JObj
     [(''trade_ids'', json_strings (xb_trade_ids b)),
      (''experience_fingerprints'', json_strings (xb_experience_fingerprints b)),
      (''learning_fingerprints'', json_strings (xb_learning_fingerprints b)),
      (''outcome_count'', JInt (xb_outcome_count b)),
      (''linked_decision_count'', JInt (xb_linked_decision_count b)),
      (''source_journal_fingerprint'', JStr (xb_source_journal_fingerprint b)),
      (''source_analysis_fingerprint'', JStr (xb_source_analysis_fingerprint b)),
      (''created_at'', JStr (xb_created_at b))]"

definition add_experience_bundle :: "ExperienceBundle \<Rightarrow> (text_file, unit) act" where
  "add_experience_bundle b = ledger_append ''experience_bundle'' (experience_fingerprint b) (experience_record b)
     (\<lambda>v. json_sort v = json_sort (experience_record b))"

definition dataset_record :: "LearningDataset \<Rightarrow> json" where
  "dataset_record d = JObj
     [(''dataset_version'', JStr (ld_dataset_version d)), (''source'', JStr (ld_source d)),
      (''creation_timestamp'', JStr (ld_creation_timestamp d)), (''symbols'', json_strings (ld_symbols d)),
      (''period_start'', JStr (ld_period_start d)), (''period_end'', JStr (ld_period_end d)),
      (''row_count'', JInt (ld_row_count d)),
      (''label_distribution'', JStr (repr_dict int_text (ld_label_distribution d))),
      (''feature_schema_version'', JStr (ld_feature_schema_version d)),
      (''label_definition_version'', JStr (ld_label_definition_version d)),
      (''source_fingerprints'', json_strings (ld_source_fingerprints d)),
      (''known_limitations'', json_strings (ld_known_limitations d))]"

definition add_dataset_version :: "LearningDataset \<Rightarrow> (text_file, unit) act" where
  "add_dataset_version d =
     ledger_append ''dataset_version'' (learning_dataset_fingerprint d) (dataset_record d) (\<lambda>_. False)"

definition experiment_record :: "ExperimentSpec \<Rightarrow> json" where
  "experiment_record e = JObj
     [(''experiment_id'', JStr (es_experiment_id e)), (''research_question'', JStr (es_research_question e)),
      (''hypothesis'', JStr (es_hypothesis e)), (''null_hypothesis'', JStr (es_null_hypothesis e)),
      (''failure_criterion'', JStr (es_failure_criterion e)), (''dataset_version'', JStr (es_dataset_version e)),
      (''code_version'', JStr (es_code_version e)), (''feature_version'', JStr (es_feature_version e)),
      (''label_version'', JStr (es_label_version e)), (''model_version'', JStr (es_model_version e)),
      (''strategy_version'', JStr (es_strategy_version e)), (''risk_version'', JStr (es_risk_version e)),
      (''execution_version'', JStr (es_execution_version e)), (''period_start'', JStr (es_period_start e)),
      (''period_end'', JStr (es_period_end e)), (''symbols'', json_strings (es_symbols e)),
      (''method'', JStr (es_method e)), (''changed_component'', JStr (es_changed_component e)),
      (''changed_parameter'', JStr (es_changed_parameter e)),
      (''baseline_fingerprints'', JStr (repr_dict py_repr (es_baseline_fingerprints e))),
      (''trigger_evidence_fingerprint'', JStr (es_trigger_evidence_fingerprint e)),
      (''parent_experiment_id'', json_of_option (es_parent_experiment_id e)),
      (''lifecycle'', JStr (experiment_value (es_lifecycle e)))]"

definition add_experiment :: "ExperimentSpec \<Rightarrow> (text_file, unit) act" where
  "add_experiment e = ledger_append ''experiment'' (experiment_fingerprint e) (experiment_record e) (\<lambda>_. False)"

section \<open>The candidate controller\<close>

fun candidate_allowed :: "CandidateLifecycle \<Rightarrow> CandidateLifecycle list" where
  "candidate_allowed CL_CANDIDATE = [CL_VALIDATING, CL_REJECTED]"
| "candidate_allowed CL_VALIDATING = [CL_PAPER, CL_REJECTED]"
| "candidate_allowed CL_PAPER = [CL_PROMOTION_REVIEW, CL_REJECTED]"
| "candidate_allowed CL_PROMOTION_REVIEW = [CL_REJECTED]"
| "candidate_allowed CL_PROMOTED = [CL_RETIRED]"
| "candidate_allowed CL_REJECTED = []"
| "candidate_allowed CL_RETIRED = []"

definition allowed_transitions :: "CandidateLifecycle \<Rightarrow> CandidateLifecycle list" where
  "allowed_transitions s = sort_key candidate_value (candidate_allowed s)"

text \<open>A retraining result without the fitted model, which nothing here reads.\<close>

record RetrainingResult =
  rt_model_family :: string
  rt_dataset_version :: string
  rt_experiment_fingerprint :: string
  rt_artifact_fingerprint :: string
  rt_status :: string

definition make_retraining_result :: "RetrainingResult \<Rightarrow> RetrainingResult res" where
  "make_retraining_result r =
    (if blank (rt_model_family r) then Inl (ValueError ''model_family must not be empty'')
     else if blank (rt_dataset_version r) then Inl (ValueError ''dataset_version must not be empty'')
     else if \<not> is_sha256 (rt_experiment_fingerprint r)
       then Inl (ValueError ''experiment_fingerprint must be SHA-256'')
     else if \<not> is_sha256 (rt_artifact_fingerprint r) then Inl (ValueError ''artifact_fingerprint must be SHA-256'')
     else if rt_status r \<noteq> ''CANDIDATE'' then Inl (ValueError ''retraining output must remain a CANDIDATE'')
     else Inr r)"

definition candidate_lineage :: "string \<Rightarrow> string \<Rightarrow> string \<Rightarrow> string \<Rightarrow> string" where
  "candidate_lineage parent experiment dataset artifact = fingerprint_of (JObj
     [(''parent_model_version'', JStr parent), (''experiment_fingerprint'', JStr experiment),
      (''dataset_version'', JStr dataset), (''artifact_fingerprint'', JStr artifact)])"

definition candidate_persist :: "bool \<Rightarrow> (pyfloat \<Rightarrow> string) \<Rightarrow> ModelCandidate \<Rightarrow> (text_file, unit) act" where
  "candidate_persist persist float_repr c = (if persist then add_candidate float_repr c else aret ())"

definition candidate_create :: "bool \<Rightarrow> (pyfloat \<Rightarrow> string) \<Rightarrow> RetrainingResult \<Rightarrow> LearningDataset \<Rightarrow> ExperimentSpec
     \<Rightarrow> string \<Rightarrow> string \<Rightarrow> string \<Rightarrow> string \<Rightarrow> string \<Rightarrow> (string \<times> pyfloat) list \<Rightarrow> string \<Rightarrow> string option
     \<Rightarrow> (text_file, ModelCandidate) act" where
  "candidate_create persist float_repr r d e candidate_id candidate_version parent strategy evaluation metrics created_at
       candidate_type =
    (if rt_dataset_version r \<noteq> ld_dataset_version d
       then araise (ValueError ''retraining and dataset versions do not match'')
     else if rt_experiment_fingerprint r \<noteq> experiment_fingerprint e
       then araise (ValueError ''retraining and experiment fingerprints do not match'')
     else if \<not> is_sha256 evaluation then araise (ValueError ''evaluation_fingerprint must be SHA-256'')
     else if blank candidate_id \<or> blank candidate_version
       then araise (ValueError ''candidate_id and candidate_version are required'')
     else if blank parent then araise (ValueError ''parent_model_version is required'')
     else if blank strategy then araise (ValueError ''strategy_version is required'')
     else if blank created_at then araise (ValueError ''created_at is required'')
     else abind (alift (make_model_candidate \<lparr>mc_candidate_id = strip candidate_id,
         mc_candidate_version = strip candidate_version,
         mc_candidate_type = strip (case candidate_type of Some (t # ts) \<Rightarrow> t # ts | _ \<Rightarrow> rt_model_family r),
         mc_lifecycle = CL_CANDIDATE, mc_dataset_version = ld_dataset_version d,
         mc_feature_version = ld_feature_schema_version d, mc_label_version = ld_label_definition_version d,
         mc_source_experiment_id = es_experiment_id e,
         mc_source_experiment_fingerprint = experiment_fingerprint e,
         mc_artifact_fingerprint = rt_artifact_fingerprint r, mc_evaluation_fingerprint = evaluation,
         mc_lineage_id = candidate_lineage parent (experiment_fingerprint e) (ld_dataset_version d)
           (rt_artifact_fingerprint r),
         mc_metrics = metrics, mc_parent_model_version = strip parent, mc_strategy_version = strip strategy,
         mc_created_at = strip created_at\<rparr>)) (\<lambda>c.
       athen (candidate_persist persist float_repr c) (aret c)))"

definition candidate_transition :: "bool \<Rightarrow> (pyfloat \<Rightarrow> string) \<Rightarrow> ModelCandidate \<Rightarrow> CandidateLifecycle \<Rightarrow> string
     \<Rightarrow> string \<Rightarrow> (text_file, ModelCandidate) act" where
  "candidate_transition persist float_repr c target stamp reason =
    (if blank stamp then araise (ValueError ''transition timestamp is required'')
     else if target \<notin> set (candidate_allowed (mc_lifecycle c))
       then araise (ValueError ''invalid candidate lifecycle transition'')
     else if target = CL_REJECTED \<and> blank reason then araise (ValueError ''rejection reason is required'')
     else if target = CL_RETIRED \<and> blank reason then araise (ValueError ''retirement reason is required'')
     else abind (alift (make_model_candidate (c\<lparr>mc_lifecycle := target\<rparr>))) (\<lambda>moved.
       athen (candidate_persist persist float_repr moved) (aret moved)))"

definition apply_promotion :: "bool \<Rightarrow> (pyfloat \<Rightarrow> string) \<Rightarrow> ModelCandidate \<Rightarrow> PromotionDecision
     \<Rightarrow> (text_file, ModelCandidate) act" where
  "apply_promotion persist float_repr c d =
    (if pd_state d \<noteq> PS_PROMOTED then araise (ValueError ''promotion decision is not PROMOTED'')
     else if mc_lifecycle c \<noteq> CL_PROMOTION_REVIEW
       then araise (ValueError ''only PROMOTION_REVIEW candidates can receive a promotion decision'')
     else if pd_candidate_id d \<noteq> mc_candidate_id c
       then araise (ValueError ''promotion decision candidate_id does not match'')
     else if pd_candidate_fingerprint d \<noteq> candidate_fingerprint float_repr c
       then araise (ValueError ''promotion decision does not match candidate'')
     else if pd_challenger_version d \<noteq> mc_candidate_version c
       then araise (ValueError ''promotion decision challenger does not match candidate'')
     else if pd_champion_version d \<noteq> mc_parent_model_version c
       then araise (ValueError ''promotion decision champion does not match candidate parent'')
     else abind (alift (make_model_candidate (c\<lparr>mc_lifecycle := CL_PROMOTED\<rparr>))) (\<lambda>promoted.
       athen (candidate_persist persist float_repr promoted) (aret promoted)))"

section \<open>The validation gate\<close>

definition default_stages :: "string list" where
  "default_stages = [''BACKTEST'', ''LEAKAGE_AUDIT'', ''OOS'', ''WALK_FORWARD'', ''PAPER'']"

text \<open>\<open>dict.fromkeys\<close>: the first occurrence of each item.\<close>

fun first_seen :: "'a list \<Rightarrow> 'a list" where
  "first_seen [] = []"
| "first_seen (x # xs) = x # filter (\<lambda>y. y \<noteq> x) (first_seen xs)"

fun stage_issues :: "(string, ValidationSummary) dict \<Rightarrow> string list \<Rightarrow> string list" where
  "stage_issues validations [] = []"
| "stage_issues validations (stage # rest) = (case dict_get validations stage of
      None \<Rightarrow> [''MISSING_STAGE:'' @ stage]
    | Some v \<Rightarrow> (if vs_valid v then [] else [''STAGE_INVALID:'' @ stage])
        @ map (\<lambda>i. stage @ '':'' @ i) (vs_issues v)) @ stage_issues validations rest"

definition found_stages :: "(string, ValidationSummary) dict \<Rightarrow> string list \<Rightarrow> ValidationSummary list" where
  "found_stages validations stages = List.map_filter (dict_get validations) stages"

definition stage_artifacts :: "(string, ValidationSummary) dict \<Rightarrow> string list \<Rightarrow> string list" where
  "stage_artifacts validations stages = concat (map vs_artifact_fingerprints (found_stages validations stages))"

definition gate_issues :: "string list \<Rightarrow> ModelCandidate \<Rightarrow> (string, ValidationSummary) dict \<Rightarrow> string list" where
  "gate_issues policy c validations =
     stage_issues validations policy
   @ (if mc_evaluation_fingerprint c \<notin> set (stage_artifacts validations policy)
        then [''CANDIDATE_EVALUATION_NOT_IN_VALIDATION_ARTIFACTS''] else [])
   @ (if mc_artifact_fingerprint c = [] \<or> mc_artifact_fingerprint c \<notin> set (stage_artifacts validations policy)
        then [''CANDIDATE_ARTIFACT_NOT_IN_VALIDATION_ARTIFACTS''] else [])
   @ map (\<lambda>(k, x). ''NON_FINITE_CANDIDATE_METRIC:'' @ k) (filter (\<lambda>(k, x). \<not> isfinite x) (mc_metrics c))"

definition validate_model_candidate :: "string list \<Rightarrow> ModelCandidate \<Rightarrow> (string, ValidationSummary) dict \<Rightarrow> ValidationSummary res" where
  "validate_model_candidate policy c validations = make_validation_summary
     \<lparr>vs_stage = ''PROMOTION_GATE'', vs_valid = (gate_issues policy c validations = []),
      vs_observations = sum_list (map vs_observations (found_stages validations policy)),
      vs_metrics = mc_metrics c,
      vs_limitations = [''Structural validation does not infer profitability.'',
        ''Performance thresholds remain controlled project policy.''],
      vs_issues = first_seen (gate_issues policy c validations),
      vs_artifact_fingerprints = sort (remdups (stage_artifacts validations policy))\<rparr>"

section \<open>Validation runs\<close>

record ValidationRun =
  vr_candidate_fingerprint :: string
  vr_stages :: "ValidationSummary list"
  vr_gate :: ValidationSummary

definition make_validation_run :: "ValidationRun \<Rightarrow> ValidationRun res" where
  "make_validation_run r =
    (if \<not> is_sha256 (vr_candidate_fingerprint r) then Inl (ValueError ''candidate_fingerprint must be SHA-256'')
     else if vr_stages r = [] then Inl (ValueError ''stages must not be empty'')
     else if \<not> distinct (map vs_stage (vr_stages r)) then Inl (ValueError ''validation stages must be unique'')
     else if vs_stage (vr_gate r) \<noteq> ''PROMOTION_GATE''
       then Inl (ValueError ''validation run gate must be PROMOTION_GATE'')
     else Inr r)"

definition run_stage_map :: "ValidationRun \<Rightarrow> (string, ValidationSummary) dict" where
  "run_stage_map r = dict_of_list (map (\<lambda>v. (vs_stage v, v)) (vr_stages r))"

definition run_fingerprint :: "(pyfloat \<Rightarrow> string) \<Rightarrow> ValidationRun \<Rightarrow> string" where
  "run_fingerprint float_repr r = fingerprint_of (JStr (repr_record ''ValidationRun''
     [(''candidate_fingerprint'', py_repr (vr_candidate_fingerprint r)),
      (''stages'', repr_items_tuple (map (summary_repr float_repr) (vr_stages r))),
      (''gate'', summary_repr float_repr (vr_gate r))]))"

definition validation_start :: "bool \<Rightarrow> (pyfloat \<Rightarrow> string) \<Rightarrow> ModelCandidate \<Rightarrow> string \<Rightarrow> (text_file, ModelCandidate) act" where
  "validation_start persist float_repr c stamp =
    (if mc_lifecycle c \<noteq> CL_CANDIDATE then araise (ValueError ''only CANDIDATE models can start validation'')
     else candidate_transition persist float_repr c CL_VALIDATING stamp [])"

fun normalize_stages :: "(string, ValidationSummary) dict \<Rightarrow> string list \<Rightarrow> (string, ValidationSummary) dict
     \<Rightarrow> (string, ValidationSummary) dict res" where
  "normalize_stages validations [] acc = Inr acc"
| "normalize_stages validations (stage # rest) acc = (case dict_get validations stage of
      None \<Rightarrow> normalize_stages validations rest acc
    | Some v \<Rightarrow> if vs_stage v \<noteq> stage then Inl (ValueError ''validation stage key does not match summary stage'')
        else normalize_stages validations rest (dict_set stage v acc))"

fun require_bound :: "string \<Rightarrow> string \<Rightarrow> ModelCandidate \<Rightarrow> (string \<times> ValidationSummary) list \<Rightarrow> unit res" where
  "require_bound artifact_error evaluation_error c [] = Inr ()"
| "require_bound artifact_error evaluation_error c ((stage, v) # rest) =
     (if mc_artifact_fingerprint c \<notin> set (vs_artifact_fingerprints v) then Inl (ValueError (stage @ artifact_error))
      else if mc_evaluation_fingerprint c \<notin> set (vs_artifact_fingerprints v)
        then Inl (ValueError (stage @ evaluation_error))
      else require_bound artifact_error evaluation_error c rest)"

definition validation_collect :: "(pyfloat \<Rightarrow> string) \<Rightarrow> string list \<Rightarrow> ModelCandidate \<Rightarrow> (string, ValidationSummary) dict
     \<Rightarrow> ValidationRun res" where
  "validation_collect float_repr policy c validations =
    (if mc_lifecycle c \<noteq> CL_VALIDATING
       then Inl (ValueError ''candidate must be VALIDATING before evidence collection'')
     else if \<not> list_all (\<lambda>(k, v). k \<in> set policy) validations
       then Inl (ValueError ''unknown validation stages'')
     else rbind (normalize_stages validations policy []) (\<lambda>normalized.
       rbind (validate_model_candidate policy c normalized) (\<lambda>gate.
       rbind (require_bound '' validation evidence does not reference candidate artifact''
         '' validation evidence does not reference candidate evaluation'' c normalized) (\<lambda>_.
       make_validation_run \<lparr>vr_candidate_fingerprint = candidate_fingerprint float_repr c,
         vr_stages = found_stages normalized policy, vr_gate = gate\<rparr>))))"

definition validation_complete :: "bool \<Rightarrow> (pyfloat \<Rightarrow> string) \<Rightarrow> string list \<Rightarrow> ModelCandidate \<Rightarrow> ValidationRun \<Rightarrow> string
     \<Rightarrow> (text_file, ModelCandidate) act" where
  "validation_complete persist float_repr policy c run stamp =
    (if vr_candidate_fingerprint run \<noteq> candidate_fingerprint float_repr c
       then araise (ValueError ''validation run does not match candidate'')
     else if vs_stage (vr_gate run) \<noteq> ''PROMOTION_GATE''
       then araise (ValueError ''validation run gate must be PROMOTION_GATE'')
     else abind (alift (validate_model_candidate policy c (run_stage_map run))) (\<lambda>expected.
       if summary_fingerprint float_repr (vr_gate run) \<noteq> summary_fingerprint float_repr expected
         then araise (ValueError ''validation gate is not derived from collected stages'')
       else if mc_evaluation_fingerprint c \<notin> set (vs_artifact_fingerprints (vr_gate run))
         then araise (ValueError ''validation gate does not reference candidate evaluation'')
       else if mc_artifact_fingerprint c \<notin> set (vs_artifact_fingerprints (vr_gate run))
         then araise (ValueError ''validation gate does not reference candidate artifact'')
       else if mc_lifecycle c \<noteq> CL_VALIDATING
         then araise (ValueError ''candidate must be VALIDATING before completion'')
       else if \<not> vs_valid (vr_gate run) then araise (ValueError ''validation gate is invalid'')
       else if blank stamp then araise (ValueError ''validation completion timestamp is required'')
       else abind (candidate_transition persist float_repr c CL_PAPER stamp []) (\<lambda>paper.
         candidate_transition persist float_repr paper CL_PROMOTION_REVIEW stamp [])))"

section \<open>Promotion\<close>

definition present_reason :: string where
  "present_reason = ''Required validation evidence is structurally present.''"

definition promotion_review :: "(string \<Rightarrow> bool) \<Rightarrow> (pyfloat \<Rightarrow> string) \<Rightarrow> string list \<Rightarrow> string \<Rightarrow> ModelCandidate
     \<Rightarrow> (string, ValidationSummary) dict \<Rightarrow> PromotionDecision res" where
  "promotion_review iso_aware float_repr policy champion c validations =
    (if mc_lifecycle c \<noteq> CL_PROMOTION_REVIEW
       then Inl (ValueError ''candidate must be PROMOTION_REVIEW before promotion review'')
     else if blank champion then Inl (ValueError ''champion_version is required'')
     else if mc_parent_model_version c \<noteq> champion
       then Inl (ValueError ''champion_version does not match candidate parent'')
     else rbind (validate_model_candidate policy c validations) (\<lambda>gate.
       make_promotion_decision iso_aware \<lparr>pd_candidate_id = mc_candidate_id c,
         pd_candidate_fingerprint = candidate_fingerprint float_repr c, pd_champion_version = champion,
         pd_challenger_version = mc_candidate_version c,
         pd_state = (if vs_valid gate then PS_ELIGIBLE else PS_BLOCKED),
         pd_reasons = (if vs_valid gate then [present_reason] else vs_issues gate),
         pd_validation_fingerprints = concat (map vs_artifact_fingerprints (dict_values validations)),
         pd_approval_reference = [], pd_created_at = []\<rparr>))"

definition promotion_review_run :: "(string \<Rightarrow> bool) \<Rightarrow> (pyfloat \<Rightarrow> string) \<Rightarrow> string list \<Rightarrow> string \<Rightarrow> ModelCandidate
     \<Rightarrow> ValidationRun \<Rightarrow> PromotionDecision res" where
  "promotion_review_run iso_aware float_repr policy champion c run =
    (if mc_lifecycle c \<noteq> CL_PROMOTION_REVIEW
       then Inl (ValueError ''candidate must be PROMOTION_REVIEW before promotion review'')
     else if vr_candidate_fingerprint run \<noteq> candidate_fingerprint float_repr c
       then Inl (ValueError ''validation run does not match challenger'')
     else rbind (validate_model_candidate policy c (run_stage_map run)) (\<lambda>gate.
       if summary_fingerprint float_repr (vr_gate run) \<noteq> summary_fingerprint float_repr gate
         then Inl (ValueError ''validation run gate does not match collected evidence'')
       else if mc_artifact_fingerprint c \<notin> set (vs_artifact_fingerprints (vr_gate run))
         then Inl (ValueError ''validation run gate does not reference candidate artifact'')
       else if mc_evaluation_fingerprint c \<notin> set (vs_artifact_fingerprints (vr_gate run))
         then Inl (ValueError ''validation run gate does not reference candidate evaluation'')
       else make_promotion_decision iso_aware \<lparr>pd_candidate_id = mc_candidate_id c,
         pd_candidate_fingerprint = candidate_fingerprint float_repr c, pd_champion_version = champion,
         pd_challenger_version = mc_candidate_version c,
         pd_state = (if vs_valid gate then PS_ELIGIBLE else PS_BLOCKED),
         pd_reasons = (if vs_valid gate then [present_reason] else vs_issues gate),
         pd_validation_fingerprints = first_seen (concat (map vs_artifact_fingerprints (vr_stages run))
           @ [run_fingerprint float_repr run]),
         pd_approval_reference = [], pd_created_at = []\<rparr>))"

definition promotion_approve :: "(string \<Rightarrow> bool) \<Rightarrow> PromotionDecision \<Rightarrow> string \<Rightarrow> string \<Rightarrow> string \<Rightarrow> PromotionDecision res" where
  "promotion_approve iso_aware review approval_reference evaluator now_text =
    (if pd_state review \<noteq> PS_ELIGIBLE then Inl (ValueError ''only ELIGIBLE reviews can be promoted'')
     else if blank approval_reference \<or> blank evaluator
       then Inl (ValueError ''approval_reference and evaluator are required'')
     else make_promotion_decision iso_aware (review\<lparr>pd_state := PS_PROMOTED,
       pd_reasons := pd_reasons review @ [''Approved by '' @ strip evaluator @ ''.''],
       pd_approval_reference := strip approval_reference, pd_created_at := now_text\<rparr>))"

definition promotion_rollback :: "(string \<Rightarrow> bool) \<Rightarrow> string \<Rightarrow> string \<Rightarrow> string \<Rightarrow> string \<Rightarrow> string \<Rightarrow> PromotionDecision res" where
  "promotion_rollback iso_aware candidate_id candidate_fp current previous reason =
    (if strip current = strip previous
       then Inl (ValueError ''previous_verified_version must differ from current_version'')
     else if \<not> is_sha256 candidate_fp then Inl (ValueError ''candidate_fingerprint must be SHA-256'')
     else if blank reason then Inl (ValueError ''rollback reason is required'')
     else make_promotion_decision iso_aware \<lparr>pd_candidate_id = candidate_id, pd_candidate_fingerprint = candidate_fp,
       pd_champion_version = current, pd_challenger_version = previous, pd_state = PS_ROLLED_BACK,
       pd_reasons = [strip reason], pd_validation_fingerprints = [], pd_approval_reference = [], pd_created_at = []\<rparr>)"

section \<open>Evidence bundles\<close>

record EvidenceBundle =
  eb_candidate_fingerprint :: string
  eb_dataset_version :: string
  eb_artifact_fingerprint :: string
  eb_validation_run_fingerprint :: string
  eb_stages :: "ValidationSummary list"
  eb_promotion_review :: PromotionDecision

definition make_evidence_bundle :: "EvidenceBundle \<Rightarrow> EvidenceBundle res" where
  "make_evidence_bundle b =
    (if \<not> is_sha256 (eb_candidate_fingerprint b) then Inl (ValueError ''candidate_fingerprint must be SHA-256'')
     else if \<not> is_sha256 (eb_artifact_fingerprint b) then Inl (ValueError ''artifact_fingerprint must be SHA-256'')
     else if \<not> is_sha256 (eb_validation_run_fingerprint b)
       then Inl (ValueError ''validation_run_fingerprint must be SHA-256'')
     else if blank (eb_dataset_version b) then Inl (ValueError ''dataset_version must not be empty'')
     else if map vs_stage (eb_stages b) \<noteq> default_stages
       then Inl (ValueError ''stages must contain all required evidence in canonical order'')
     else Inr b)"

definition build_evidence_bundle :: "(pyfloat \<Rightarrow> string) \<Rightarrow> ModelCandidate \<Rightarrow> ValidationRun \<Rightarrow> PromotionDecision
     \<Rightarrow> EvidenceBundle res" where
  "build_evidence_bundle float_repr c run review =
    (let stages = found_stages (run_stage_map run) default_stages in
     if vr_candidate_fingerprint run \<noteq> candidate_fingerprint float_repr c
       then Inl (ValueError ''validation run does not match candidate'')
     else if pd_candidate_fingerprint review \<noteq> candidate_fingerprint float_repr c
       then Inl (ValueError ''promotion review does not match candidate'')
     else if pd_state review \<notin> {PS_ELIGIBLE, PS_BLOCKED}
       then Inl (ValueError ''promotion review must be an ELIGIBLE or BLOCKED review decision'')
     else if \<not> list_all (\<lambda>s. dict_get (run_stage_map run) s \<noteq> None) default_stages
       then Inl (ValueError ''missing required evidence stages'')
     else if \<not> list_all vs_valid stages
       then Inl (ValueError ''cannot build complete evidence bundle from invalid stages'')
     else if \<not> vs_valid (vr_gate run) then Inl (ValueError ''validation run gate is invalid'')
     else rbind (require_bound '' evidence is not bound to candidate artifact''
         '' evidence is not bound to candidate evaluation'' c (zip default_stages stages)) (\<lambda>_.
       if pd_state review \<noteq> PS_ELIGIBLE then Inl (ValueError ''promotion review is blocked'')
       else if mc_artifact_fingerprint c \<notin> set (concat (map vs_artifact_fingerprints stages))
         then Inl (ValueError ''candidate artifact fingerprint is absent from validation evidence'')
       else make_evidence_bundle \<lparr>eb_candidate_fingerprint = candidate_fingerprint float_repr c,
         eb_dataset_version = mc_dataset_version c, eb_artifact_fingerprint = mc_artifact_fingerprint c,
         eb_validation_run_fingerprint = run_fingerprint float_repr run, eb_stages = stages,
         eb_promotion_review = review\<rparr>))"

end
