(* ===== verification/CandidateProperties.thy ===== *)
theory CandidateProperties
  imports Candidates OrderModels
begin

text \<open>
  The governed path of a candidate: the stages it passes before promotion, the evidence a promotion
  rests on, and the validation run that the hardened review rejects.
\<close>

section \<open>Transition tables\<close>

definition learning_closed :: "string set" where
  "learning_closed = {''PROMOTED'', ''ROLLED_BACK'', ''REJECTED'', ''INCONCLUSIVE''}"

lemma learning_closed_stays: "s \<in> learning_closed \<Longrightarrow> set (learning_targets s) \<subseteq> learning_closed"
  unfolding learning_closed_def
  by (elim insertE emptyE) (simp_all add: learning_targets_def learning_transitions_def)

interpretation learning_machine: lifecycle learning_targets "\<lambda>s. s \<notin> learning_closed"
  by unfold_locales (use learning_closed_stays in blast)

text \<open>A cycle that asks for each transition in turn.\<close>

fun cycle_steps :: "string \<Rightarrow> string list \<Rightarrow> unit res" where
  "cycle_steps s [] = Inr ()"
| "cycle_steps s (t # ts) = rbind (require_transition s t) (\<lambda>_. cycle_steps t ts)"

lemma cycle_steps_path: "cycle_steps s ts = Inr () \<longleftrightarrow> learning_machine.path s ts"
  by (induction ts arbitrary: s) (auto simp: require_transition_def can_transition_def)

text \<open>The stages in order.\<close>

definition learning_stages :: "string list" where
  "learning_stages = [''OBSERVATION'', ''HYPOTHESIS'', ''EXPERIMENT'', ''CANDIDATE'', ''VALIDATING'', ''OOS'', ''WALK_FORWARD'',
     ''PAPER'', ''PROMOTION_REVIEW'', ''PROMOTED'']"

lemma targets_of_stages:
  "n < 9 \<Longrightarrow> set (learning_targets (learning_stages ! n)) \<subseteq> {learning_stages ! Suc n, ''REJECTED'', ''INCONCLUSIVE''}"
proof -
  assume "n < 9"
  then have "n \<in> {0, 1, 2, 3, 4, 5, 6, 7, 8}" by auto
  then show ?thesis
    by (elim insertE emptyE) (simp_all add: learning_targets_def learning_transitions_def learning_stages_def)
qed

lemma stage_not_promoted: "n < 9 \<Longrightarrow> learning_stages ! n \<noteq> ''PROMOTED''"
proof -
  assume "n < 9"
  then have "n \<in> {0, 1, 2, 3, 4, 5, 6, 7, 8}" by auto
  then show ?thesis by (elim insertE emptyE) (simp_all add: learning_stages_def)
qed

lemma dead_end: "learning_machine.path s ts \<Longrightarrow> s \<in> {''REJECTED'', ''INCONCLUSIVE'', ''ROLLED_BACK''} \<Longrightarrow> ts = []"
  by (cases ts) (auto simp: learning_targets_def learning_transitions_def)

lemma promoted_from_stage:
  assumes "learning_machine.path (learning_stages ! n) ts" "n < 9" "''PROMOTED'' \<in> set ts"
  shows "take (9 - n) ts = drop (Suc n) learning_stages"
  using assms
proof (induction ts arbitrary: n)
  case (Cons t ts)
  then have t: "t \<in> {learning_stages ! Suc n, ''REJECTED'', ''INCONCLUSIVE''}" "learning_machine.path t ts"
    using targets_of_stages [of n] by auto
  have stage: "t = learning_stages ! Suc n"
  proof (rule ccontr)
    assume "t \<noteq> learning_stages ! Suc n"
    then have "t \<in> {''REJECTED'', ''INCONCLUSIVE''}" using t(1) by blast
    moreover from this have "ts = []" using dead_end [OF t(2)] by blast
    ultimately show False using Cons.prems(3) by auto
  qed
  have len: "length learning_stages = 10" by (simp add: learning_stages_def)
  have drop: "drop (Suc n) learning_stages = t # drop (Suc (Suc n)) learning_stages"
    using Cons.prems(2) len stage by (simp add: Cons_nth_drop_Suc)
  show ?case
  proof (cases "Suc n < 9")
    case True
    have "t \<noteq> ''PROMOTED''" using True stage stage_not_promoted by simp
    then have "''PROMOTED'' \<in> set ts" using Cons.prems(3) by auto
    then have "take (9 - Suc n) ts = drop (Suc (Suc n)) learning_stages" using Cons.IH True t(2) stage by blast
    moreover have "9 - n = Suc (9 - Suc n)" using True by simp
    ultimately show ?thesis unfolding drop by simp
  next
    case False
    then show ?thesis unfolding drop using Cons.prems(2) len by (simp add: less_Suc_eq numeral_eq_Suc)
  qed
qed simp

text \<open>C29. A learning cycle that starts as an observation and ever becomes PROMOTED went through hypothesis,
  experiment, candidate, validation, out-of-sample, walk-forward, paper and promotion review, each once
  and in this order, and nothing but a rollback can follow.\<close>

theorem learning_promotion_passes_every_stage:
  assumes "cycle_steps ''OBSERVATION'' states = Inr ()" "''PROMOTED'' \<in> set states"
  shows "take 9 states = [''HYPOTHESIS'', ''EXPERIMENT'', ''CANDIDATE'', ''VALIDATING'', ''OOS'', ''WALK_FORWARD'', ''PAPER'',
      ''PROMOTION_REVIEW'', ''PROMOTED''] \<and> drop 9 states \<in> {[], [''ROLLED_BACK'']}"
proof -
  have first: "learning_stages ! 0 = ''OBSERVATION''" by (simp add: learning_stages_def)
  note path = assms(1) [unfolded cycle_steps_path]
  have stages: "take 9 states = drop 1 learning_stages"
    using promoted_from_stage [of 0 states] path assms(2) by (simp add: first)
  have "learning_machine.path (last (''OBSERVATION'' # take 9 states)) (drop 9 states)"
    using learning_machine.path_append [of "''OBSERVATION''" "take 9 states" "drop 9 states"] path by simp
  then have rest: "learning_machine.path ''PROMOTED'' (drop 9 states)" by (simp add: stages learning_stages_def)
  have "drop 9 states \<in> {[], [''ROLLED_BACK'']}"
  proof (cases "drop 9 states")
    case (Cons t ts)
    have p: "t \<in> set (learning_targets ''PROMOTED'')" "learning_machine.path t ts" using rest Cons by simp_all
    then have "t = ''ROLLED_BACK''" by (simp add: learning_targets_def learning_transitions_def)
    moreover from this have "ts = []" using dead_end [OF p(2)] by blast
    ultimately show ?thesis using Cons by simp
  qed simp
  then show ?thesis using stages by (simp add: learning_stages_def)
qed

theorem learning_promotion_passes_every_stage_witness:
  "drop 9 [''HYPOTHESIS'', ''EXPERIMENT'', ''CANDIDATE'', ''VALIDATING'', ''OOS'', ''WALK_FORWARD'', ''PAPER'', ''PROMOTION_REVIEW'',
     ''PROMOTED'', ''ROLLED_BACK''] \<in> {[], [''ROLLED_BACK'']}"
proof -
  have "cycle_steps ''OBSERVATION'' [''HYPOTHESIS'', ''EXPERIMENT'', ''CANDIDATE'', ''VALIDATING'', ''OOS'', ''WALK_FORWARD'',
      ''PAPER'', ''PROMOTION_REVIEW'', ''PROMOTED'', ''ROLLED_BACK''] = Inr ()"
    by (simp add: require_transition_def can_transition_def learning_targets_def learning_transitions_def)
  then show ?thesis using learning_promotion_passes_every_stage by force
qed

section \<open>Controller operations\<close>

lemma persist_result: "fst (candidate_persist persist float_repr c f) = Inr u \<Longrightarrow> u = ()"
  by simp

lemma transition_result:
  assumes "fst (candidate_transition persist float_repr c target stamp reason f) = Inr c'"
  shows "c' = c\<lparr>mc_lifecycle := target\<rparr>" "target \<in> set (candidate_allowed (mc_lifecycle c))"
    "target \<in> {CL_REJECTED, CL_RETIRED} \<Longrightarrow> \<not> blank reason"
  using assms
  by (auto simp: candidate_transition_def make_model_candidate_def py_simps split: if_splits sum.splits prod.splits)

lemma promotion_result:
  assumes "fst (apply_promotion persist float_repr c d f) = Inr c'"
  shows "c' = c\<lparr>mc_lifecycle := CL_PROMOTED\<rparr>" "mc_lifecycle c = CL_PROMOTION_REVIEW" "pd_state d = PS_PROMOTED"
    "pd_candidate_id d = mc_candidate_id c" "pd_candidate_fingerprint d = candidate_fingerprint float_repr c"
    "pd_challenger_version d = mc_candidate_version c" "pd_champion_version d = mc_parent_model_version c"
  using assms
  by (auto simp: apply_promotion_def make_model_candidate_def py_simps split: if_splits sum.splits prod.splits)

lemma decision_result: "make_promotion_decision iso_aware d = Inr e \<Longrightarrow> e = d"
  by (auto simp: make_promotion_decision_def split: if_splits)

lemma summary_result: "make_validation_summary v = Inr w \<Longrightarrow> w = v"
  by (auto simp: make_validation_summary_def split: if_splits)

lemma run_result: "make_validation_run r = Inr r' \<Longrightarrow> r' = r"
  by (auto simp: make_validation_run_def split: if_splits)

section \<open>The evidence of a promotion\<close>

lemma no_stage_issues:
  assumes "stage_issues validations policy = []" "stage \<in> set policy"
  shows "\<exists>v. dict_get validations stage = Some v \<and> vs_valid v \<and> vs_issues v = []"
  using assms by (induction policy) (auto split: option.splits if_splits)

lemma artifacts_of_stages:
  "x \<in> set (stage_artifacts validations policy) \<longleftrightarrow>
     (\<exists>stage \<in> set policy. \<exists>v. dict_get validations stage = Some v \<and> x \<in> set (vs_artifact_fingerprints v))"
  by (induction policy) (auto simp: stage_artifacts_def found_stages_def map_filter_simps split: option.splits)

lemma gate_valid:
  assumes "validate_model_candidate policy c validations = Inr gate" "vs_valid gate"
  shows "gate_issues policy c validations = []"
  using summary_result [OF assms(1) [unfolded validate_model_candidate_def]] assms(2) by simp

text \<open>C26. The composition of the promotion controller with the candidate controller: a candidate that
  becomes PROMOTED by an approved review was under promotion review, differs from nothing but the
  state, challenges exactly its parent, carries an approval reference, and every required stage has a
  valid summary without issues; the candidate's artifact and evaluation fingerprints both occur among
  the artifacts of the required stages.\<close>

theorem promotion_rests_on_every_stage:
  assumes "promotion_review iso_aware float_repr policy champion c validations = Inr review"
    and "promotion_approve iso_aware review reference evaluator now_text = Inr decision"
    and "fst (apply_promotion persist float_repr c decision f) = Inr promoted"
  shows "promoted = c\<lparr>mc_lifecycle := CL_PROMOTED\<rparr> \<and> mc_lifecycle c = CL_PROMOTION_REVIEW
    \<and> champion = mc_parent_model_version c \<and> mc_candidate_version c \<noteq> champion
    \<and> \<not> blank (pd_approval_reference decision)
    \<and> (\<forall>stage \<in> set policy. \<exists>v. dict_get validations stage = Some v \<and> vs_valid v \<and> vs_issues v = [])
    \<and> (\<forall>x \<in> {mc_artifact_fingerprint c, mc_evaluation_fingerprint c}.
        \<exists>stage \<in> set policy. \<exists>v. dict_get validations stage = Some v \<and> x \<in> set (vs_artifact_fingerprints v))"
proof -
  obtain gate where gate: "validate_model_candidate policy c validations = Inr gate" "mc_parent_model_version c = champion"
    "review = \<lparr>pd_candidate_id = mc_candidate_id c,
         pd_candidate_fingerprint = candidate_fingerprint float_repr c, pd_champion_version = champion,
         pd_challenger_version = mc_candidate_version c,
         pd_state = (if vs_valid gate then PS_ELIGIBLE else PS_BLOCKED),
         pd_reasons = (if vs_valid gate then [present_reason] else vs_issues gate),
         pd_validation_fingerprints = concat (map vs_artifact_fingerprints (dict_values validations)),
         pd_approval_reference = [], pd_created_at = []\<rparr>"
    using assms(1) by (auto simp: promotion_review_def split: if_splits dest: decision_result)
  have approved: "pd_state review = PS_ELIGIBLE" "\<not> blank reference" "decision = review\<lparr>pd_state := PS_PROMOTED,
       pd_reasons := pd_reasons review @ [''Approved by '' @ strip evaluator @ ''.''],
       pd_approval_reference := strip reference, pd_created_at := now_text\<rparr>"
    and differ: "pd_champion_version decision \<noteq> pd_challenger_version decision"
    using assms(2) decision_result by (auto simp: promotion_approve_def make_promotion_decision_def split: if_splits)
  have "vs_valid gate" using approved(1) gate(3) by (simp split: if_splits)
  then have none: "gate_issues policy c validations = []" by (rule gate_valid [OF gate(1)])
  have "\<forall>stage \<in> set policy. \<exists>v. dict_get validations stage = Some v \<and> vs_valid v \<and> vs_issues v = []"
    using none no_stage_issues by (auto simp: gate_issues_def)
  moreover have "{mc_artifact_fingerprint c, mc_evaluation_fingerprint c} \<subseteq> set (stage_artifacts validations policy)"
    using none by (auto simp: gate_issues_def split: if_splits)
  ultimately show ?thesis
    using promotion_result [OF assms(3)] gate(2) approved differ gate(3) artifacts_of_stages by auto
qed

text \<open>A candidate and the evidence of its stages.\<close>

definition sample_artifact :: string where
  "sample_artifact = replicate 64 (CHR ''a'')"

definition sample_evaluation :: string where
  "sample_evaluation = replicate 64 (CHR ''e'')"

definition sample_candidate :: "CandidateLifecycle \<Rightarrow> ModelCandidate" where
  "sample_candidate stage = \<lparr>mc_candidate_id = ''c-1'', mc_candidate_version = ''m2'', mc_candidate_type = ''random_forest'',
     mc_lifecycle = stage, mc_dataset_version = ''d-1'', mc_feature_version = ''f1'', mc_label_version = ''l1'',
     mc_source_experiment_id = ''e-1'', mc_source_experiment_fingerprint = sample_artifact,
     mc_artifact_fingerprint = sample_artifact, mc_evaluation_fingerprint = sample_evaluation,
     mc_lineage_id = sample_artifact, mc_metrics = [(''f1'', Fin (1/2))], mc_parent_model_version = ''m1'',
     mc_strategy_version = ''s1'', mc_created_at = ''2026-01-05''\<rparr>"

definition sample_summary :: "string \<Rightarrow> ValidationSummary" where
  "sample_summary stage = \<lparr>vs_stage = stage, vs_valid = True, vs_observations = 10, vs_metrics = [],
     vs_limitations = [], vs_issues = [], vs_artifact_fingerprints = [sample_artifact, sample_evaluation]\<rparr>"

definition sample_validations :: "(string, ValidationSummary) dict" where
  "sample_validations = map (\<lambda>s. (s, sample_summary s)) default_stages"

lemma sample_fingerprints:
  "is_sha256 sample_artifact" "is_sha256 sample_evaluation" "sample_artifact \<noteq> sample_evaluation" "sample_artifact \<noteq> []"
  by (simp_all add: is_sha256_def sample_artifact_def sample_evaluation_def numeral_eq_Suc)

definition sample_gate :: ValidationSummary where
  "sample_gate = \<lparr>vs_stage = ''PROMOTION_GATE'', vs_valid = True, vs_observations = 50, vs_metrics = [(''f1'', Fin (1/2))],
     vs_limitations = [''Structural validation does not infer profitability.'',
       ''Performance thresholds remain controlled project policy.''],
     vs_issues = [], vs_artifact_fingerprints = sort [sample_artifact, sample_evaluation]\<rparr>"

lemma sample_found:
  "found_stages sample_validations default_stages = map sample_summary default_stages"
  by (simp add: found_stages_def sample_validations_def default_stages_def map_filter_simps)

lemma sample_artifacts:
  "stage_artifacts sample_validations default_stages =
     concat (replicate 5 [sample_artifact, sample_evaluation])"
  by (simp add: stage_artifacts_def sample_found, simp add: default_stages_def sample_summary_def numeral_eq_Suc)

lemma sample_issues: "gate_issues default_stages (sample_candidate stage) sample_validations = []"
proof -
  have "stage_issues sample_validations default_stages = []"
    by (simp add: sample_validations_def default_stages_def sample_summary_def)
  moreover have "set (stage_artifacts sample_validations default_stages) = {sample_artifact, sample_evaluation}"
    unfolding sample_artifacts by (auto simp: numeral_eq_Suc)
  ultimately show ?thesis using sample_fingerprints(4) by (simp add: gate_issues_def sample_candidate_def)
qed

lemma sample_gate_result:
  "validate_model_candidate default_stages (sample_candidate stage) sample_validations = Inr sample_gate"
proof -
  have "remdups (stage_artifacts sample_validations default_stages) = [sample_artifact, sample_evaluation]"
    unfolding sample_artifacts using sample_fingerprints(3) by (simp add: numeral_eq_Suc)
  moreover have "sum_list (map vs_observations (found_stages sample_validations default_stages)) = 50"
    unfolding sample_found by (simp add: default_stages_def sample_summary_def)
  moreover have "make_validation_summary sample_gate = Inr sample_gate"
    using sample_fingerprints by (simp add: make_validation_summary_def sample_gate_def blank_def strip_def is_space_def list_all_iff)
  moreover have "mc_metrics (sample_candidate stage) = [(''f1'', Fin (1/2))]" by (simp add: sample_candidate_def)
  ultimately show ?thesis
    unfolding validate_model_candidate_def sample_issues by (simp add: sample_gate_def)
qed

lemma fingerprint_sha256: "is_sha256 (fingerprint_of v)"
  by (simp add: is_sha256_def fingerprint_of_def length_sha256_hex)

lemma nonblank_texts: "\<not> blank ''m1''" "\<not> blank ''m2''" "\<not> blank ''c-1''" "\<not> blank ''CR-7''" "\<not> blank ''board''" "\<not> blank ''now''"
  by (simp_all add: blank_def strip_def is_space_def)

lemma sample_candidate_ok: "make_model_candidate (sample_candidate stage) = Inr (sample_candidate stage)"
  using sample_fingerprints
  by (simp add: make_model_candidate_def sample_candidate_def blank_def strip_def is_space_def)

theorem promotion_rests_on_every_stage_witness:
  "\<exists>review decision. promotion_review (\<lambda>_. True) (\<lambda>_. ''0.5'') default_stages ''m1'' (sample_candidate CL_PROMOTION_REVIEW)
       sample_validations = Inr review
    \<and> promotion_approve (\<lambda>_. True) review ''CR-7'' ''board'' ''now'' = Inr decision
    \<and> (\<forall>stage \<in> set default_stages. \<exists>v. dict_get sample_validations stage = Some v \<and> vs_valid v \<and> vs_issues v = [])"
proof -
  let ?c = "sample_candidate CL_PROMOTION_REVIEW"
  let ?fp = "candidate_fingerprint (\<lambda>_. ''0.5'') ?c"
  let ?v = "concat (map vs_artifact_fingerprints (dict_values sample_validations))"
  define review where "review = \<lparr>pd_candidate_id = ''c-1'', pd_candidate_fingerprint = ?fp, pd_champion_version = ''m1'',
    pd_challenger_version = ''m2'', pd_state = PS_ELIGIBLE, pd_reasons = [present_reason],
    pd_validation_fingerprints = ?v, pd_approval_reference = [], pd_created_at = []\<rparr>"
  define decision where "decision = review\<lparr>pd_state := PS_PROMOTED,
    pd_reasons := [present_reason, ''Approved by board.''], pd_approval_reference := ''CR-7'', pd_created_at := ''now''\<rparr>"
  have fp: "is_sha256 ?fp" by (simp add: candidate_fingerprint_def fingerprint_sha256)
  have v: "?v \<noteq> []" "list_all is_sha256 ?v"
    using sample_fingerprints by (simp_all add: sample_validations_def default_stages_def sample_summary_def)
  have c: "mc_lifecycle ?c = CL_PROMOTION_REVIEW" "mc_parent_model_version ?c = ''m1''" "mc_candidate_version ?c = ''m2''"
    "mc_candidate_id ?c = ''c-1''" by (simp_all add: sample_candidate_def)
  have gate: "vs_valid sample_gate" by (simp add: sample_gate_def)
  have made: "make_promotion_decision (\<lambda>_. True) review = Inr review" "make_promotion_decision (\<lambda>_. True) decision = Inr decision"
    unfolding make_promotion_decision_def decision_def review_def using fp v nonblank_texts by simp_all
  have r: "promotion_review (\<lambda>_. True) (\<lambda>_. ''0.5'') default_stages ''m1'' ?c sample_validations = Inr review"
    using made(1) nonblank_texts by (simp add: promotion_review_def c sample_gate_result gate review_def)
  have strips: "strip ''board'' = ''board''" "strip ''CR-7'' = ''CR-7''" by (simp_all add: strip_def is_space_def)
  have d: "promotion_approve (\<lambda>_. True) review ''CR-7'' ''board'' ''now'' = Inr decision"
    using made(2) nonblank_texts by (simp add: promotion_approve_def strips decision_def review_def)
  have "?c\<lparr>mc_lifecycle := CL_PROMOTED\<rparr> = sample_candidate CL_PROMOTED" by (simp add: sample_candidate_def)
  then have p: "fst (apply_promotion False (\<lambda>_. ''0.5'') ?c decision None) = Inr (sample_candidate CL_PROMOTED)"
    by (simp add: apply_promotion_def c decision_def review_def sample_candidate_ok candidate_persist_def py_simps)
  show ?thesis using r d promotion_rests_on_every_stage [OF r d p] by blast
qed

section \<open>The validation run and the hardened review\<close>

text \<open>The text a candidate's fingerprint hashes, and two texts with the same digest.\<close>

definition fingerprint_text :: "(pyfloat \<Rightarrow> string) \<Rightarrow> ModelCandidate \<Rightarrow> string" where
  "fingerprint_text float_repr c = json_dumps (JStr (candidate_repr float_repr c))"

definition sha_collision :: "string \<Rightarrow> string \<Rightarrow> bool" where
  "sha_collision s t = (s \<noteq> t \<and> sha256_hex s = sha256_hex t)"

lemma fingerprint_is_hash: "candidate_fingerprint float_repr c = sha256_hex (fingerprint_text float_repr c)"
  by (simp add: candidate_fingerprint_def fingerprint_of_def fingerprint_text_def)

lemma dumps_string_inj: "json_dumps (JStr s) = json_dumps (JStr t) \<longleftrightarrow> s = t"
proof
  assume e: "json_dumps (JStr s) = json_dumps (JStr t)"
  have s: "json_loads (json_dumps (JStr s)) = Inr (JStr s)" "json_loads (json_dumps (JStr t)) = Inr (JStr t)"
    using json_round_trip [of "JStr s"] json_round_trip [of "JStr t"] by simp_all
  then show "s = t" unfolding e by simp
qed simp

lemma review_text_differs:
  "mc_lifecycle c = CL_VALIDATING \<Longrightarrow>
     fingerprint_text float_repr c \<noteq> fingerprint_text float_repr (c\<lparr>mc_lifecycle := CL_PROMOTION_REVIEW\<rparr>)"
proof -
  assume c: "mc_lifecycle c = CL_VALIDATING"
  have "length (py_repr ''VALIDATING'') = 12" "length (py_repr ''PROMOTION_REVIEW'') = 18"
    by (simp_all add: py_repr_def repr_char_def Let_def)
  then have "length (candidate_repr float_repr c) \<noteq> length (candidate_repr float_repr (c\<lparr>mc_lifecycle := CL_PROMOTION_REVIEW\<rparr>))"
    by (simp add: candidate_repr_def repr_record_def repr_enum_def c)
  then show ?thesis unfolding fingerprint_text_def dumps_string_inj by metis
qed

lemma collect_result:
  assumes "validation_collect float_repr policy c validations = Inr run"
  shows "mc_lifecycle c = CL_VALIDATING" "vr_candidate_fingerprint run = candidate_fingerprint float_repr c"
  using assms by (auto simp: validation_collect_def split: if_splits dest: run_result)

lemma complete_result:
  assumes "fst (validation_complete persist float_repr policy c run stamp f) = Inr ready"
  shows "ready = c\<lparr>mc_lifecycle := CL_PROMOTION_REVIEW\<rparr>"
proof -
  obtain paper g where "fst (candidate_transition persist float_repr paper CL_PROMOTION_REVIEW stamp [] g) = Inr ready"
    "fst (candidate_transition persist float_repr c CL_PAPER stamp [] f) = Inr paper"
    using assms unfolding validation_complete_def
    by (auto simp: py_simps split: if_splits sum.splits prod.splits)
  then have "ready = paper\<lparr>mc_lifecycle := CL_PROMOTION_REVIEW\<rparr>" "paper = c\<lparr>mc_lifecycle := CL_PAPER\<rparr>"
    by (blast dest: transition_result(1))+
  then show ?thesis by simp
qed

text \<open>C28. The documented path leads nowhere: a candidate whose evidence was collected and whose
  validation was completed is under promotion review, but the hardened review of the same run rejects
  it as a run of another candidate, and no evidence bundle can be built from it, because the run holds
  the fingerprint of the candidate while it was VALIDATING and the fingerprint hashes the state. The
  only way out is a SHA-256 collision between the two texts.\<close>

theorem collected_run_fails_review:
  assumes "validation_collect float_repr policy c validations = Inr run"
    and "fst (validation_complete persist float_repr policy c run stamp f) = Inr ready"
  shows "ready = c\<lparr>mc_lifecycle := CL_PROMOTION_REVIEW\<rparr>
    \<and> (promotion_review_run iso_aware float_repr policy champion ready run
          = Inl (ValueError ''validation run does not match challenger'')
        \<and> build_evidence_bundle float_repr ready run review
          = Inl (ValueError ''validation run does not match candidate'')
      \<or> sha_collision (fingerprint_text float_repr c) (fingerprint_text float_repr ready))"
proof -
  have ready: "ready = c\<lparr>mc_lifecycle := CL_PROMOTION_REVIEW\<rparr>" by (rule complete_result [OF assms(2)])
  note run = collect_result [OF assms(1)]
  have "fingerprint_text float_repr c \<noteq> fingerprint_text float_repr ready"
    unfolding ready by (rule review_text_differs [OF run(1)])
  then show ?thesis using run(2) ready
    by (simp add: promotion_review_run_def build_evidence_bundle_def Let_def sha_collision_def fingerprint_is_hash)
qed

theorem collected_run_fails_review_witness:
  "\<exists>run ready. validation_collect (\<lambda>_. ''0.5'') default_stages (sample_candidate CL_VALIDATING) sample_validations = Inr run
    \<and> fst (validation_complete False (\<lambda>_. ''0.5'') default_stages (sample_candidate CL_VALIDATING) run ''now'' None) = Inr ready
    \<and> ready = (sample_candidate CL_VALIDATING)\<lparr>mc_lifecycle := CL_PROMOTION_REVIEW\<rparr>"
proof -
  let ?c = "sample_candidate CL_VALIDATING" and ?r = "\<lambda>_ :: pyfloat. ''0.5''"
  define run where "run = \<lparr>vr_candidate_fingerprint = candidate_fingerprint ?r ?c,
    vr_stages = map sample_summary default_stages, vr_gate = sample_gate\<rparr>"
  have fp: "is_sha256 (candidate_fingerprint ?r ?c)" by (simp add: candidate_fingerprint_def fingerprint_sha256)
  have c: "mc_lifecycle ?c = CL_VALIDATING" "mc_artifact_fingerprint ?c = sample_artifact"
    "mc_evaluation_fingerprint ?c = sample_evaluation" by (simp_all add: sample_candidate_def)
  have stages: "vs_stage (sample_summary s) = s" "vs_artifact_fingerprints (sample_summary s) = [sample_artifact, sample_evaluation]" for s
    by (simp_all add: sample_summary_def)
  have normalized: "normalize_stages sample_validations default_stages [] = Inr sample_validations"
    by (simp add: sample_validations_def default_stages_def stages)
  have bound: "require_bound x y ?c sample_validations = Inr ()" for x y
    by (simp add: sample_validations_def default_stages_def stages c)
  have known: "list_all (\<lambda>(k, v). k \<in> set default_stages) sample_validations"
    by (simp add: sample_validations_def default_stages_def)
  have made: "make_validation_run run = Inr run"
    using fp by (simp add: make_validation_run_def run_def default_stages_def stages sample_gate_def)
  have collect: "validation_collect ?r default_stages ?c sample_validations = Inr run"
    using made known by (simp add: validation_collect_def c normalized sample_gate_result bound sample_found run_def)
  have map: "run_stage_map run = sample_validations"
    by (simp add: run_stage_map_def run_def dict_of_list_def sample_validations_def default_stages_def stages)
  have gate: "vs_stage sample_gate = ''PROMOTION_GATE''" "vs_valid sample_gate"
    "set (vs_artifact_fingerprints sample_gate) = {sample_artifact, sample_evaluation}" by (auto simp: sample_gate_def)
  have moved: "(?c\<lparr>mc_lifecycle := CL_PAPER\<rparr>) = sample_candidate CL_PAPER"
    "(sample_candidate CL_PAPER)\<lparr>mc_lifecycle := CL_PROMOTION_REVIEW\<rparr> = sample_candidate CL_PROMOTION_REVIEW"
    "mc_lifecycle (sample_candidate CL_PAPER) = CL_PAPER" by (simp_all add: sample_candidate_def)
  have complete: "fst (validation_complete False ?r default_stages ?c run ''now'' None) = Inr (sample_candidate CL_PROMOTION_REVIEW)"
    unfolding validation_complete_def map sample_gate_result
    using gate nonblank_texts
    by (simp add: run_def py_simps c candidate_transition_def moved sample_candidate_ok candidate_persist_def)
  show ?thesis using collect complete collected_run_fails_review [OF collect complete] by blast
qed

end
