(* ===== verification/Spec2Isabelle.thy ===== *)
theory Spec2Isabelle
  imports RiskProperties PortfolioProperties CandleProperties RuntimeProperties ExitProperties TradeProperties BacktestProperties
    WalkForwardProperties ExecCheckProperties LabelingProperties RegistryProperties
    LearningProperties CandidateProperties
begin

text \<open>
  The core of the repository: from market trades and a strategy decision to an order at a broker, the simulated
  books behind paper mode and the historical replay, and the governance of the models that decide. All paths
  below are under \<open>src\<close>.

  \<^bold>\<open>How the parts interact.\<close> Trades become candles (\<open>market/candles\<close>). A decision row goes to the strategy
  engine; a directional decision becomes a trade candidate with entry and stop; the risk engine approves,
  resizes or rejects it against account, session and portfolio limits; an approved risk decision and an open
  safety gate give an execution authorization, from which an order request with a deterministic identifier is
  made; the execution engine submits it to a broker adapter at most once and follows its state. In paper mode
  the adapter is the paper broker; the paper runtime, the trade lifecycle and the exit engine keep positions
  and close trades. The backtest engine composes the same components over a history, the walk-forward and
  out-of-sample modules cut such histories into partitions, and labels turn them into prediction targets. The
  learning stores and the candidate lifecycle decide which model and which strategy is in use.

  \<^bold>\<open>Theories and sources.\<close>

  \<^item> \<open>Prelude\<close>: exceptions, results, early returns, the state and exception monad \<open>act\<close>, Python strings,
    dictionaries and time stamps. \<open>PyFloat\<close>, \<open>FloatEval\<close>, \<open>Magnitude\<close>: binary64 floats, their code equations,
    bounds on magnitudes. The locale \<open>rounding\<close> holds the laws of a rounding, interpreted by \<open>double\<close>.
  \<^item> \<open>Signals\<close>: \<open>trading/signals\<close> (models, candidate, validation). \<open>StrategyModels\<close>, \<open>Strategy\<close>: \<open>trading/strategy\<close>
    (models, validation, baseline, policy, engine, adapters). \<open>Registry\<close>, \<open>RegistryProperties\<close>:
    \<open>trading/strategy/registry.py\<close> and \<open>reasons.py\<close>.
  \<^item> \<open>RiskContracts\<close>, \<open>RiskRules\<close>, \<open>RiskEngine\<close>, \<open>RiskProperties\<close>: \<open>trading/risk\<close>.
  \<^item> \<open>Sha256\<close>, \<open>ExecAuth\<close>: SHA-256, and authorization, safety gate and kill switch of \<open>execution\<close>.
  \<^item> \<open>OrderModels\<close>, \<open>OrderEngine\<close>, \<open>OrderProperties\<close>: \<open>execution/engine.py\<close>. The state record \<open>engine\<close> holds the
    dictionaries of requests, orders and states and the event list of \<open>ExecutionEngine\<close>, with the states of the
    adapter and of the audit store as type parameters; every method is an action \<open>engine_<name>\<close>.
  \<^item> \<open>BrokerContract\<close>, \<open>PaperBroker\<close>, \<open>PaperProperties\<close>: \<open>execution/adapters/base.py\<close> and \<open>paper.py\<close>. The locales
    \<open>sound_broker\<close> and \<open>prompt_broker\<close> state what the engine relies on and are interpreted by the paper broker.
  \<^item> \<open>ExecChecks\<close>, \<open>ExecCheckProperties\<close>: \<open>execution/reconciliation.py\<close>, \<open>routing.py\<close>, \<open>readiness.py\<close>,
    \<open>funds_margin.py\<close>, \<open>instruments.py\<close>.
  \<^item> \<open>Portfolio\<close>, \<open>PortfolioProperties\<close>: \<open>portfolio\<close>. \<open>Candles\<close>, \<open>CandleProperties\<close>: \<open>market/candles\<close> and
    \<open>market/data/events\<close>.
  \<^item> \<open>PaperRuntime\<close>, \<open>RuntimeProperties\<close>: \<open>paper/runtime.py\<close>. \<open>TradeLifecycle\<close>, \<open>TradeProperties\<close>,
    \<open>ExitEngine\<close>, \<open>ExitProperties\<close>: \<open>trading/paper/lifecycle.py\<close> and \<open>exit_engine.py\<close>.
  \<^item> \<open>Backtest\<close>, \<open>BacktestProperties\<close>: \<open>backtesting/engine.py\<close>, \<open>fills.py\<close>, \<open>costs.py\<close>, \<open>broker_simulator.py\<close>; the
    engine's state is the pair of runtime and lifecycle with its levels, a step of \<open>backtest_row\<close> is the loop body.
  \<^item> \<open>WalkForward\<close>, \<open>WalkForwardProperties\<close>: \<open>backtesting/walk_forward.py\<close>, \<open>oos.py\<close>, \<open>oos_validation.py\<close>,
    \<open>ml/datasets/models.py\<close> and \<open>splitting.py\<close>. \<open>Labeling\<close>, \<open>LabelingProperties\<close>: \<open>ml/labeling\<close> and the adapters
    \<open>trading/signals/directional.py\<close>, \<open>adapter.py\<close>, \<open>labeling_adapter.py\<close>.
  \<^item> \<open>Json\<close>, \<open>JsonRoundTrip\<close>, \<open>TextFiles\<close>, \<open>JsonStores\<close>: \<open>json.dumps\<close> and \<open>json.loads\<close>, text files, and the law of
    the append-only stores (locales \<open>json_record\<close> and \<open>once_store\<close>). \<open>LearningModels\<close>, \<open>LearningStores\<close>,
    \<open>StoreLaws\<close>, \<open>LearningProperties\<close>: \<open>learning\<close> (records, champion, cycle and dataset stores, promotion) and
    \<open>self_learning/champion.py\<close>. \<open>LearningContracts\<close>, \<open>Candidates\<close>, \<open>CandidateProperties\<close>: \<open>self_learning\<close>
    (contracts, ledger, lifecycle, validation, promotion, evidence).
\<close>

text \<open>
  \<^bold>\<open>What the lemmas show.\<close> For every component: invariants over any sequence of calls, calls that raise included
  (one submission per identifier, events that follow the state machine, a kill switch that stays latched, shares
  that are conserved, version states that only move forward); what an approval, a rejection or an acceptance
  implies (every gate open, limits of the projected account, evidence for every stage); refinement and
  equivalence (paper positions are the net of the fills, the two simulators and the portfolio projection agree,
  candles are the reference grouping, replay and labels do not depend on later data); termination and liveness
  (positions close within the holding limit, paper submissions return); round trips of the stores; and, where
  the code does not do what it means to, the behaviour it has.

  \<^bold>\<open>Conventions.\<close> A \<open>raise\<close> is \<open>Inl\<close> of an exception with the class and the constant part of its message; text
  formatted into a message is left out. \<open>make_X\<close> is the constructor of the class \<open>X\<close> with its \<open>__post_init__\<close>;
  \<open>isinstance\<close> checks hold by typing. Floats are IEEE 754 binary64 with one zero (\<open>-0.0\<close> and \<open>0.0\<close> compare
  equal and no operation here tells them apart); \<open>sum\<close> adds from the left (Python 3.11). Text is ASCII
  (Latin-1 in the stores). A time stamp is an instant in nanoseconds with an optional zone; a column of time
  stamps has one zone; \<open>NaT\<close> appears only where a frame is checked for it. \<open>Asia/Kolkata\<close> is UTC+5:30. Data
  frames are lists of rows. Parameters of the model are: the broker adapter and the audit store, clock reads,
  \<open>datetime.fromisoformat\<close> (\<open>iso_aware\<close>), the text of a float (\<open>float_repr\<close>), the evaluator of a walk-forward
  run and the predictor of an out-of-sample run. JSON values with bare floats are modelled only as text. What a
  property asks of a parameter is a named hypothesis: \<open>records_events\<close> and \<open>records_all\<close> (the audit store, if
  there is one, returns), \<open>steady_clock\<close> (two readings of \<open>perf_counter\<close> are in order), zoned clock reads.

  \<^bold>\<open>Bounds.\<close> Loops are structural recursions, so all functions are total; the only fuel is that of the JSON parser,
  the length of the text, which every nested value shortens. Properties on shares are about whole shares up to
  \<open>2 ^ 53\<close> (\<open>2 ^ 52\<close> where two positions are subtracted, \<open>2 ^ 51\<close> for the lifecycle), where binary64
  arithmetic on them is exact; the prices of the runtime and exit properties lie between \<open>2 ^ -64\<close> and \<open>2 ^ 64\<close>,
  so that no product overflows or vanishes.

  \<^bold>\<open>Not modelled.\<close> Indicators, features, regimes and machine learning compute with pandas, numpy and
  scikit-learn, whose numerical kernels are not part of the repository; what they return enters the model as rows,
  predictions and evaluators. Market data feeds, the Upstox adapters, live contexts, the paper trading loops,
  dashboards, screen observation, monitoring, journals, research and news collection are input, output, threads
  and wall-clock waiting around the modelled components; certification modules tabulate runs of them; scripts
  and experiments drive them. Inside modelled files the fingerprints of data frames and reports, float summaries
  (\<open>summary\<close>, \<open>stability\<close>, \<open>regime_summary\<close>) and evidence dictionaries are left out.
\<close>

end
